(* ===== verification/Go_Prelude.thy ===== *)
theory Go_Prelude
  imports Main
begin

text \<open>
  Shared vocabulary of the development: Go strings as byte lists, the parts of the packages
  \<^verbatim>\<open>strings\<close> and \<^verbatim>\<open>strconv\<close> the source uses, and the generic list lemmas the components
  rest on. A Go \<^verbatim>\<open>string\<close> is a sequence of bytes, so \<^typ>\<open>string\<close> (a list of 8-bit characters)
  represents it without loss.
\<close>

named_theorems fm_simps \<open>unfolding rules of the fleet-manager operations\<close>
named_theorems fm_splits \<open>facts that take the cases of a service call apart\<close>

type_synonym bytes = string
type_synonym nanoseconds = int

abbreviation char_code :: "char \<Rightarrow> nat" where
  "char_code c \<equiv> of_char c"

subsection \<open>Package strings\<close>

definition has_prefix :: "string \<Rightarrow> string \<Rightarrow> bool" where
  "has_prefix s p \<longleftrightarrow> length p \<le> length s \<and> take (length p) s = p"

definition has_suffix :: "string \<Rightarrow> string \<Rightarrow> bool" where
  "has_suffix s p \<longleftrightarrow> length p \<le> length s \<and> drop (length s - length p) s = p"

definition to_lower_char :: "char \<Rightarrow> char" where
  "to_lower_char c =
     (if 65 \<le> char_code c \<and> char_code c \<le> 90 then char_of (char_code c + 32) else c)"

definition to_lower :: "string \<Rightarrow> string" where
  "to_lower s = map to_lower_char s"

text \<open>
  \<^verbatim>\<open>strings.EqualFold\<close> against an ASCII literal: besides the ASCII letters only U+017F (bytes
  C5 BF, folds to s) and U+212A (bytes E2 84 AA, folds to k) fold to an ASCII letter.
\<close>

fun fold_key :: "string \<Rightarrow> string" where
  "fold_key [] = []"
| "fold_key (c # d # e # r) =
     (if char_code c = 226 \<and> char_code d = 132 \<and> char_code e = 170 then CHR ''k'' # fold_key r
      else if char_code c = 197 \<and> char_code d = 191 then CHR ''s'' # fold_key (e # r)
      else to_lower_char c # fold_key (d # e # r))"
| "fold_key (c # d # r) =
     (if char_code c = 197 \<and> char_code d = 191 then CHR ''s'' # fold_key r
      else to_lower_char c # fold_key (d # r))"
| "fold_key (c # r) = to_lower_char c # fold_key r"

definition equal_fold :: "string \<Rightarrow> string \<Rightarrow> bool" where
  "equal_fold s lit \<longleftrightarrow> fold_key s = fold_key lit"

fun split_on :: "char \<Rightarrow> string \<Rightarrow> string list" where
  "split_on sep [] = [[]]"
| "split_on sep (c # cs) =
     (if c = sep then [] # split_on sep cs
      else (case split_on sep cs of [] \<Rightarrow> [[c]] | w # ws \<Rightarrow> (c # w) # ws))"

definition trim_left_char :: "char \<Rightarrow> string \<Rightarrow> string" where
  "trim_left_char c s = dropWhile (\<lambda>x. x = c) s"

definition trim_right_char :: "char \<Rightarrow> string \<Rightarrow> string" where
  "trim_right_char c s = rev (dropWhile (\<lambda>x. x = c) (rev s))"

definition trim_char :: "char \<Rightarrow> string \<Rightarrow> string" where
  "trim_char c s = trim_right_char c (trim_left_char c s)"

text \<open>\<^verbatim>\<open>strings.ReplaceAll\<close> with the two-byte pattern \<open>a b\<close> and the one-byte replacement \<open>r\<close>.\<close>

fun replace_pair :: "char \<Rightarrow> char \<Rightarrow> char \<Rightarrow> string \<Rightarrow> string" where
  "replace_pair a b r [] = []"
| "replace_pair a b r [c] = [c]"
| "replace_pair a b r (c # d # s) =
     (if c = a \<and> d = b then r # replace_pair a b r s else c # replace_pair a b r (d # s))"

fun contains_sub :: "string \<Rightarrow> string \<Rightarrow> bool" where
  "contains_sub [] p = (p = [])"
| "contains_sub (c # s) p = (has_prefix (c # s) p \<or> contains_sub s p)"

subsection \<open>Package strconv: decimal numerals\<close>

fun nat_digits :: "nat \<Rightarrow> string" where
  "nat_digits n = (if n < 10 then [char_of (48 + n)] else nat_digits (n div 10) @ [char_of (48 + n mod 10)])"

declare nat_digits.simps [simp del]

definition itoa :: "int \<Rightarrow> string" where
  "itoa i = (if i < 0 then ''-'' @ nat_digits (nat (- i)) else nat_digits (nat i))"

text \<open>The type \<^verbatim>\<open>int\<close> has 64 bits: the result of an operation wraps around.\<close>

definition wrap_int64 :: "int \<Rightarrow> int" where
  "wrap_int64 x = (x + 2 ^ 63) mod 2 ^ 64 - 2 ^ 63"

definition max_int64 :: int where "max_int64 = 2 ^ 63 - 1"

text \<open>\<^verbatim>\<open>strconv.Atoi\<close>: an optional sign and decimal digits. The value is zero for a malformed text and the
  nearest representable number for one that is out of range; the boolean tells whether there is no error.\<close>

definition is_digit :: "char \<Rightarrow> bool" where
  "is_digit c \<longleftrightarrow> 48 \<le> char_code c \<and> char_code c \<le> 57"

definition digits_value :: "string \<Rightarrow> int" where
  "digits_value s = foldl (\<lambda>n c. n * 10 + (int (char_code c) - 48)) 0 s"

definition Atoi :: "string \<Rightarrow> int \<times> bool" where
  "Atoi s =
     (let neg = has_prefix s ''-'';
          ds = (if neg \<or> has_prefix s ''+'' then tl s else s) in
      if ds = [] \<or> \<not> list_all is_digit ds then (0, False)
      else (let n = (if neg then - digits_value ds else digits_value ds) in
        if n > max_int64 then (max_int64, False)
        else if n < - max_int64 - 1 then (- max_int64 - 1, False)
        else (n, True)))"

subsection \<open>Generic lemmas\<close>

lemma wrap_int64_id: "- (2 ^ 63) \<le> x \<Longrightarrow> x < 2 ^ 63 \<Longrightarrow> wrap_int64 x = x"
  by (simp add: wrap_int64_def)

lemma wrap_int64_range: "- (2 ^ 63) \<le> wrap_int64 x \<and> wrap_int64 x < 2 ^ 63"
  by (simp add: wrap_int64_def)

lemma Atoi_range: "- max_int64 - 1 \<le> fst (Atoi s) \<and> fst (Atoi s) \<le> max_int64"
  by (auto simp: Atoi_def Let_def max_int64_def)

lemma has_prefix_append [simp]: "has_prefix (p @ s) p"
  by (simp add: has_prefix_def)

lemma has_suffix_append [simp]: "has_suffix (s @ p) p"
  by (simp add: has_suffix_def)

lemma has_prefix_iff: "has_prefix s p \<longleftrightarrow> (\<exists>t. s = p @ t)"
  by (metis append_eq_conv_conj append_take_drop_id has_prefix_append has_prefix_def)

lemma has_suffix_iff: "has_suffix s p \<longleftrightarrow> (\<exists>t. s = t @ p)"
  by (metis append_take_drop_id has_suffix_append has_suffix_def)

lemma split_on_nonempty [simp]: "split_on c s \<noteq> []"
  by (induction s) (auto split: list.splits)

lemma split_on_no_sep: "c \<notin> set s \<Longrightarrow> split_on c s = [s]"
  by (induction s) auto

lemma split_on_pieces: "w \<in> set (split_on c s) \<Longrightarrow> c \<notin> set w"
  by (induction s arbitrary: w) (auto split: if_splits list.splits)

lemma trim_left_char_id: "s = [] \<or> hd s \<noteq> c \<Longrightarrow> trim_left_char c s = s"
  by (cases s) (auto simp: trim_left_char_def)

lemma trim_right_char_id: "s = [] \<or> last s \<noteq> c \<Longrightarrow> trim_right_char c s = s"
  by (cases s rule: rev_cases) (auto simp: trim_right_char_def)

lemma set_dropWhile_subset: "set (dropWhile P xs) \<subseteq> set xs"
  by (induction xs) auto

lemma set_trim_char: "set (trim_char c s) \<subseteq> set s"
  using set_dropWhile_subset [of "\<lambda>x. x = c" "rev (dropWhile (\<lambda>x. x = c) s)"]
    set_dropWhile_subset [of "\<lambda>x. x = c" s]
  by (auto simp: trim_char_def trim_left_char_def trim_right_char_def)

lemma filter_dropWhile_neg: "\<not> P c \<Longrightarrow> filter P (dropWhile (\<lambda>x. x = c) s) = filter P s"
  by (induction s) auto

lemma filter_trim_char: "\<not> P c \<Longrightarrow> filter P (trim_char c s) = filter P s"
  by (simp add: trim_char_def trim_left_char_def trim_right_char_def filter_dropWhile_neg
      rev_filter [symmetric])

lemma replace_pair_id: "b \<notin> set s \<Longrightarrow> replace_pair a b r s = s"
  by (induction a b r s rule: replace_pair.induct) auto

lemma nat_digits_nonempty [simp]: "nat_digits n \<noteq> []"
  by (subst nat_digits.simps) simp

end
