(* ===== verification/Go_UTF8.thy ===== *)
theory Go_UTF8
  imports Go_Prelude
begin

text \<open>
  Runes: what \<^verbatim>\<open>for i, r := range s\<close>, \<^verbatim>\<open>[]rune(s)\<close> and \<^verbatim>\<open>string(r)\<close> do in Go. A byte that
  starts no valid UTF-8 sequence decodes to U+FFFD with width one.
\<close>

definition rune_error :: nat where
  "rune_error = 65533"

definition cont_byte :: "nat \<Rightarrow> bool" where
  "cont_byte b \<longleftrightarrow> 128 \<le> b \<and> b \<le> 191"

definition second_ok :: "nat \<Rightarrow> nat \<Rightarrow> bool" where
  "second_ok b0 b1 \<longleftrightarrow>
     (if b0 = 224 then 160 \<le> b1 else 128 \<le> b1) \<and>
     (if b0 = 237 then b1 \<le> 159 else b1 \<le> 191) \<and>
     (b0 = 240 \<longrightarrow> 144 \<le> b1) \<and> (b0 = 244 \<longrightarrow> b1 \<le> 143)"

definition rune2 :: "nat \<Rightarrow> nat \<Rightarrow> nat" where
  "rune2 b0 b1 = (b0 - 192) * 64 + (b1 - 128)"

definition rune3 :: "nat \<Rightarrow> nat \<Rightarrow> nat \<Rightarrow> nat" where
  "rune3 b0 b1 b2 = (b0 - 224) * 4096 + (b1 - 128) * 64 + (b2 - 128)"

definition rune4 :: "nat \<Rightarrow> nat \<Rightarrow> nat \<Rightarrow> nat \<Rightarrow> nat" where
  "rune4 b0 b1 b2 b3 = (b0 - 240) * 262144 + (b1 - 128) * 4096 + (b2 - 128) * 64 + (b3 - 128)"

fun decode_tail :: "nat \<Rightarrow> nat list \<Rightarrow> nat \<times> nat" where
  "decode_tail b0 [] = (rune_error, 1)"
| "decode_tail b0 [b1] =
     (if 194 \<le> b0 \<and> b0 \<le> 223 \<and> cont_byte b1 then (rune2 b0 b1, 2) else (rune_error, 1))"
| "decode_tail b0 [b1, b2] =
     (if 194 \<le> b0 \<and> b0 \<le> 223 \<and> cont_byte b1 then (rune2 b0 b1, 2)
      else if 224 \<le> b0 \<and> b0 \<le> 239 \<and> second_ok b0 b1 \<and> cont_byte b2 then (rune3 b0 b1 b2, 3)
      else (rune_error, 1))"
| "decode_tail b0 (b1 # b2 # b3 # bs) =
     (if 194 \<le> b0 \<and> b0 \<le> 223 \<and> cont_byte b1 then (rune2 b0 b1, 2)
      else if 224 \<le> b0 \<and> b0 \<le> 239 \<and> second_ok b0 b1 \<and> cont_byte b2 then (rune3 b0 b1 b2, 3)
      else if 240 \<le> b0 \<and> b0 \<le> 244 \<and> second_ok b0 b1 \<and> cont_byte b2 \<and> cont_byte b3
        then (rune4 b0 b1 b2 b3, 4)
      else (rune_error, 1))"

text \<open>The first rune of a non-empty string and the number of bytes it takes.\<close>

definition decode_rune :: "char \<Rightarrow> string \<Rightarrow> nat \<times> nat" where
  "decode_rune c cs =
     (if char_code c < 128 then (char_code c, 1)
      else decode_tail (char_code c) (map of_char (take 3 cs)))"

text \<open>The positions and runes that a \<^verbatim>\<open>range\<close> loop over a string visits.\<close>

fun runes_from :: "nat \<Rightarrow> string \<Rightarrow> (nat \<times> nat) list" where
  "runes_from i [] = []"
| "runes_from i (c # cs) =
     (i, fst (decode_rune c cs)) #
     runes_from (i + snd (decode_rune c cs)) (drop (snd (decode_rune c cs) - 1) cs)"

definition runes :: "string \<Rightarrow> nat list" where
  "runes s = map snd (runes_from 0 s)"

text \<open>\<^verbatim>\<open>string(r)\<close>.\<close>

definition encode_rune :: "nat \<Rightarrow> string" where
  "encode_rune r0 =
     (let r = (if r0 > 1114111 \<or> (55296 \<le> r0 \<and> r0 \<le> 57343) then rune_error else r0) in
      if r < 128 then [char_of r]
      else if r < 2048 then [char_of (192 + r div 64), char_of (128 + r mod 64)]
      else if r < 65536 then
        [char_of (224 + r div 4096), char_of (128 + r div 64 mod 64), char_of (128 + r mod 64)]
      else
        [char_of (240 + r div 262144), char_of (128 + r div 4096 mod 64),
         char_of (128 + r div 64 mod 64), char_of (128 + r mod 64)])"

text \<open>A string of valid UTF-8: no byte decodes to the replacement rune with width one.\<close>

fun valid_utf8 :: "string \<Rightarrow> bool" where
  "valid_utf8 [] = True"
| "valid_utf8 (c # cs) =
     ((char_code c < 128 \<or> 2 \<le> snd (decode_rune c cs)) \<and>
      valid_utf8 (drop (snd (decode_rune c cs) - 1) cs))"

definition ascii :: "string \<Rightarrow> bool" where
  "ascii s \<longleftrightarrow> list_all (\<lambda>c. char_code c < 128) s"

subsection \<open>Lemmas\<close>

lemma decode_rune_ascii [simp]: "char_code c < 128 \<Longrightarrow> decode_rune c cs = (char_code c, 1)"
  by (simp add: decode_rune_def)

lemma encode_rune_ascii [simp]: "char_code c < 128 \<Longrightarrow> encode_rune (char_code c) = [c]"
  by (simp add: encode_rune_def Let_def)

lemma ascii_Nil [simp]: "ascii []"
  by (simp add: ascii_def)

lemma ascii_Cons [simp]: "ascii (c # cs) \<longleftrightarrow> char_code c < 128 \<and> ascii cs"
  by (simp add: ascii_def)

lemma ascii_append [simp]: "ascii (s @ t) \<longleftrightarrow> ascii s \<and> ascii t"
  by (simp add: ascii_def)

lemma ascii_valid_utf8: "ascii s \<Longrightarrow> valid_utf8 s"
  by (induction s) auto

lemma runes_from_ascii: "ascii s \<Longrightarrow> map snd (runes_from i s) = map of_char s"
  by (induction s arbitrary: i) auto

lemma runes_ascii: "ascii s \<Longrightarrow> runes s = map of_char s"
  by (simp add: runes_def runes_from_ascii)

lemma encode_runes_ascii: "ascii s \<Longrightarrow> concat (map encode_rune (map of_char s)) = s"
  by (induction s) auto

lemma decode_tail_width: "1 \<le> snd (decode_tail b bs) \<and> snd (decode_tail b bs) \<le> Suc (length bs)"
  by (cases "(b, bs)" rule: decode_tail.cases) auto

lemma decode_rune_width: "1 \<le> snd (decode_rune c cs) \<and> snd (decode_rune c cs) \<le> Suc (length cs)"
  using decode_tail_width [of "char_code c" "map of_char (take 3 cs)"]
  by (auto simp: decode_rune_def)

lemma digit64: "z < 64 \<Longrightarrow> (q * 64 + z) div 64 = q" "z < 64 \<Longrightarrow> (q * 64 + z) mod 64 = (z :: nat)"
  by simp_all

lemma encode_rune2:
  "194 \<le> b0 \<Longrightarrow> b0 \<le> 223 \<Longrightarrow> cont_byte b1 \<Longrightarrow>
     encode_rune (rune2 b0 b1) = [char_of b0, char_of b1]"
proof -
  assume a: "194 \<le> b0" "b0 \<le> 223" "cont_byte b1"
  then obtain x y where b: "b0 = 192 + x" "b1 = 128 + y" "2 \<le> x" "x \<le> 31" "y < 64"
    by (intro that [of "b0 - 192" "b1 - 128"]) (auto simp: cont_byte_def)
  show ?thesis using b by (simp add: encode_rune_def rune2_def Let_def)
qed

lemma encode_rune3:
  assumes "224 \<le> b0" "b0 \<le> 239" "second_ok b0 b1" "cont_byte b2"
  shows "encode_rune (rune3 b0 b1 b2) = [char_of b0, char_of b1, char_of b2]"
proof -
  obtain x y z where b: "b0 = 224 + x" "b1 = 128 + y" "b2 = 128 + z" "x \<le> 15" "y < 64" "z < 64"
    "x = 0 \<Longrightarrow> 32 \<le> y" "x = 13 \<Longrightarrow> y < 32"
    using assms
    by (intro that [of "b0 - 224" "b1 - 128" "b2 - 128"])
      (auto simp: cont_byte_def second_ok_def split: if_splits)
  define r where "r = x * 4096 + y * 64 + z"
  have r: "rune3 b0 b1 b2 = r" "\<not> r < 2048" "r < 65536"
    using b by (auto simp: rune3_def r_def)
  have "x \<le> 12 \<or> x = 13 \<or> 14 \<le> x" by linarith
  then have s: "\<not> (55296 \<le> r \<and> r \<le> 57343)"
    using b(4-6) b(8) by (elim disjE) (simp_all add: r_def)
  have q: "r = (x * 64 + y) * 64 + z" by (simp add: r_def)
  have d: "r div 64 = x * 64 + y" "r mod 64 = z" unfolding q by (fact digit64 [OF b(6)])+
  have "r div 4096 = r div 64 div 64" by (simp add: div_mult2_eq [symmetric])
  then have "r div 4096 = x" "r div 64 mod 64 = y" using d b(5) by simp_all
  note dig = this d(2)
  with r s b dig show ?thesis by (auto simp: encode_rune_def Let_def)
qed

lemma encode_rune4:
  assumes "240 \<le> b0" "b0 \<le> 244" "second_ok b0 b1" "cont_byte b2" "cont_byte b3"
  shows "encode_rune (rune4 b0 b1 b2 b3) = [char_of b0, char_of b1, char_of b2, char_of b3]"
proof -
  obtain x y z w where b: "b0 = 240 + x" "b1 = 128 + y" "b2 = 128 + z" "b3 = 128 + w"
    "x \<le> 4" "y < 64" "z < 64" "w < 64" "x = 0 \<Longrightarrow> 16 \<le> y" "x = 4 \<Longrightarrow> y < 16"
    using assms
    by (intro that [of "b0 - 240" "b1 - 128" "b2 - 128" "b3 - 128"])
      (auto simp: cont_byte_def second_ok_def split: if_splits)
  define r where "r = x * 262144 + y * 4096 + z * 64 + w"
  have r: "rune4 b0 b1 b2 b3 = r" "\<not> r < 65536" "\<not> r > 1114111"
    using b by (auto simp: rune4_def r_def)
  have q: "r = ((x * 64 + y) * 64 + z) * 64 + w" by (simp add: r_def)
  have d: "r div 64 = (x * 64 + y) * 64 + z" "r mod 64 = w" unfolding q by (fact digit64 [OF b(8)])+
  have e: "r div 4096 = r div 64 div 64" "r div 262144 = r div 64 div 64 div 64"
    by (simp_all add: div_mult2_eq [symmetric])
  have f: "r div 4096 = x * 64 + y" "r div 64 mod 64 = z"
    unfolding e d(1) by (fact digit64 [OF b(7)])+
  have "r div 262144 = r div 4096 div 64" using e by simp
  then have "r div 262144 = x" "r div 4096 mod 64 = y"
    unfolding f(1) using b(6) by simp_all
  with r b f(2) d(2) show ?thesis by (simp add: encode_rune_def Let_def)
qed

lemma encode_decode_tail:
  "2 \<le> snd (decode_tail b bs) \<Longrightarrow>
     encode_rune (fst (decode_tail b bs)) = map char_of (b # take (snd (decode_tail b bs) - 1) bs)"
  by (cases "(b, bs)" rule: decode_tail.cases) (auto simp: encode_rune2 encode_rune3 encode_rune4)

lemma encode_decode_rune:
  assumes "char_code c < 128 \<or> 2 \<le> snd (decode_rune c cs)"
  shows "encode_rune (fst (decode_rune c cs)) = c # take (snd (decode_rune c cs) - 1) cs"
proof (cases "char_code c < 128")
  case False
  define bs :: "nat list" where "bs = map of_char (take 3 cs)"
  have d: "decode_rune c cs = decode_tail (char_code c) bs" using False by (simp add: decode_rune_def bs_def)
  have w: "snd (decode_rune c cs) - 1 \<le> 3"
    using decode_tail_width [of "char_code c" bs] by (simp add: d bs_def) linarith
  have "map char_of (take (snd (decode_rune c cs) - 1) bs) = take (snd (decode_rune c cs) - 1) cs"
    using w by (simp add: bs_def take_map [symmetric] o_def min_absorb1)
  then show ?thesis using encode_decode_tail [of "char_code c" bs] False assms d by simp
qed simp

end
