(* ===== verification/Query_Scanner.thy ===== *)
theory Query_Scanner
  imports Go_UTF8
begin

text \<open>
  The scanner of the query language (\<^verbatim>\<open>pkg/services/queryparser/scanner.go\<close>): it cuts the search
  string of a list request into tokens with their byte positions. The closure variables of
  \<^verbatim>\<open>Init\<close> are the fields of \<open>scan_state\<close>; the scanner object is \<open>scanner\<close>.
\<close>

datatype token_type = Op | Brace | Literal | QuotedLiteral | NoToken

record Token =
  TokenType :: token_type
  TokValue :: string
  Position :: nat

abbreviation mk_token :: "token_type \<Rightarrow> string \<Rightarrow> nat \<Rightarrow> Token" where
  "mk_token t v i \<equiv> \<lparr>TokenType = t, TokValue = v, Position = i\<rparr>"

record scanner =
  tokens :: "Token list"
  pos :: int

definition NewScanner :: scanner where
  "NewScanner = \<lparr>tokens = [], pos = -1\<rparr>"

record scan_state =
  out_tokens :: "Token list"
  cur_tokens :: "Token list"
  currentTokenType :: token_type
  quoted :: bool
  escaped :: bool

definition scan_init :: "Token list \<Rightarrow> scan_state" where
  "scan_init out = \<lparr>out_tokens = out, cur_tokens = [], currentTokenType = NoToken,
     quoted = False, escaped = False\<rparr>"

definition sendCurrentTokens :: "scan_state \<Rightarrow> scan_state" where
  "sendCurrentTokens st =
     (let res = concat (map TokValue (cur_tokens st)) in
      st\<lparr>out_tokens := (if res \<noteq> [] then
             out_tokens st @ [mk_token (currentTokenType st) res (Position (hd (cur_tokens st)))]
           else out_tokens st),
         cur_tokens := [], currentTokenType := NoToken\<rparr>)"

definition append_cur :: "Token \<Rightarrow> scan_state \<Rightarrow> scan_state" where
  "append_cur t st = st\<lparr>cur_tokens := cur_tokens st @ [t]\<rparr>"

text \<open>The loop body of \<^verbatim>\<open>Init\<close>, one clause per case of the switch.\<close>

definition scan_space :: "nat \<Rightarrow> scan_state \<Rightarrow> scan_state" where
  "scan_space i st = (if quoted st then append_cur (mk_token Literal '' '' i) st else sendCurrentTokens st)"

definition scan_brace :: "nat \<Rightarrow> nat \<Rightarrow> scan_state \<Rightarrow> scan_state" where
  "scan_brace i r st =
     (let st1 = sendCurrentTokens st in
      st1\<lparr>out_tokens := out_tokens st1 @ [mk_token Brace (encode_rune r) i]\<rparr>)"

definition scan_op :: "nat \<Rightarrow> nat \<Rightarrow> scan_state \<Rightarrow> scan_state" where
  "scan_op i r st =
     (let st1 = (if currentTokenType st \<noteq> NoToken \<and> currentTokenType st \<noteq> Op
                 then sendCurrentTokens st else st) in
      (append_cur (mk_token Op (encode_rune r) i) st1)\<lparr>currentTokenType := Op\<rparr>)"

definition scan_literal :: "nat \<Rightarrow> string \<Rightarrow> scan_state \<Rightarrow> scan_state" where
  "scan_literal i v st =
     (let st1 = (if currentTokenType st \<noteq> NoToken \<and> currentTokenType st \<noteq> Literal \<and>
                    currentTokenType st \<noteq> QuotedLiteral
                 then sendCurrentTokens st else st) in
      append_cur (mk_token Literal v i) (st1\<lparr>currentTokenType := Literal\<rparr>))"

definition scan_backslash :: "nat \<Rightarrow> scan_state \<Rightarrow> scan_state" where
  "scan_backslash i st =
     (if quoted st then append_cur (mk_token QuotedLiteral [CHR 92] i) (st\<lparr>escaped := True\<rparr>)
      else scan_literal i [CHR 92] st)"

definition scan_quote :: "nat \<Rightarrow> scan_state \<Rightarrow> scan_state" where
  "scan_quote i st =
     (if quoted st then
        (let st1 = append_cur (mk_token QuotedLiteral [CHR 39] i) st;
             st2 = (if \<not> escaped st1
                    then (sendCurrentTokens st1)\<lparr>quoted := False, currentTokenType := NoToken\<rparr>
                    else st1)
         in st2\<lparr>escaped := False\<rparr>)
      else
        append_cur (mk_token Op [CHR 39] i)
          ((sendCurrentTokens st)\<lparr>quoted := True, currentTokenType := QuotedLiteral\<rparr>))"

definition scan_char :: "scan_state \<Rightarrow> nat \<times> nat \<Rightarrow> scan_state" where
  "scan_char st ir = (case ir of (i, r) \<Rightarrow>
     (if r = of_char (CHR '' '') then scan_space i st
      else if r = of_char (CHR ''('') \<or> r = of_char (CHR '')'') then scan_brace i r st
      else if r = of_char (CHR ''='') \<or> r = of_char (CHR ''<'') \<or> r = of_char (CHR ''>'') then scan_op i r st
      else if r = of_char (CHR 92) then scan_backslash i st
      else if r = of_char (CHR 39) then scan_quote i st
      else scan_literal i (encode_rune r) st))"

definition scanner_Init :: "scanner \<Rightarrow> string \<Rightarrow> scanner" where
  "scanner_Init s txt =
     s\<lparr>tokens := out_tokens (sendCurrentTokens
          (foldl scan_char (scan_init (tokens s)) (runes_from 0 txt)))\<rparr>"

definition scanner_Next :: "scanner \<Rightarrow> bool \<times> scanner" where
  "scanner_Next s =
     (if pos s < int (length (tokens s)) - 1 then (True, s\<lparr>pos := pos s + 1\<rparr>) else (False, s))"

definition scanner_Peek :: "scanner \<Rightarrow> bool \<times> Token option" where
  "scanner_Peek s =
     (if pos s < int (length (tokens s)) - 1 then (True, Some (tokens s ! nat (pos s + 1))) else (False, None))"

text \<open>\<^verbatim>\<open>Token()\<close> panics on an invalid position: \<open>None\<close>.\<close>

definition scanner_Token :: "scanner \<Rightarrow> Token option" where
  "scanner_Token s =
     (if pos s < 0 \<or> int (length (tokens s)) \<le> pos s then None else Some (tokens s ! nat (pos s)))"

abbreviation scan_tokens :: "string \<Rightarrow> Token list" where
  "scan_tokens txt \<equiv> tokens (scanner_Init NewScanner txt)"

lemmas scan_defs = scan_char_def scan_space_def scan_brace_def scan_op_def scan_literal_def
  scan_backslash_def scan_quote_def sendCurrentTokens_def append_cur_def Let_def

subsection \<open>Tokens are substrings of the text at their positions\<close>

definition tok_at :: "string \<Rightarrow> Token \<Rightarrow> bool" where
  "tok_at txt t \<longleftrightarrow> TokValue t \<noteq> [] \<and> (\<exists>pre post. txt = pre @ TokValue t @ post \<and> length pre = Position t)"

definition tok_end :: "Token \<Rightarrow> nat" where
  "tok_end t = Position t + length (TokValue t)"

definition toks_ordered :: "Token list \<Rightarrow> bool" where
  "toks_ordered ts = sorted_wrt (\<lambda>a b. tok_end a \<le> Position b) ts"

text \<open>After the first \<open>i\<close> bytes \<open>pre\<close>: the emitted tokens are in order, and the pending
  tokens spell a suffix of \<open>pre\<close> that starts after the last emitted token.\<close>

definition scan_inv :: "string \<Rightarrow> string \<Rightarrow> Token list \<Rightarrow> Token list \<Rightarrow> bool" where
  "scan_inv pre post out cur \<longleftrightarrow>
     (\<exists>a. pre = a @ concat (map TokValue cur) \<and> (cur \<noteq> [] \<longrightarrow> Position (hd cur) = length a) \<and>
          (\<forall>t\<in>set out. tok_at (pre @ post) t \<and> tok_end t \<le> length a) \<and>
          (\<forall>t\<in>set cur. TokValue t \<noteq> []) \<and> toks_ordered out)"

lemma scan_inv_send:
  "scan_inv pre post (out_tokens st) (cur_tokens st) \<Longrightarrow>
   scan_inv pre post (out_tokens (sendCurrentTokens st)) (cur_tokens (sendCurrentTokens st))"
proof -
  assume inv: "scan_inv pre post (out_tokens st) (cur_tokens st)"
  let ?res = "concat (map TokValue (cur_tokens st))"
  obtain a where a: "pre = a @ ?res" "cur_tokens st \<noteq> [] \<longrightarrow> Position (hd (cur_tokens st)) = length a"
    "\<forall>t\<in>set (out_tokens st). tok_at (pre @ post) t \<and> tok_end t \<le> length a" "toks_ordered (out_tokens st)"
    using inv by (auto simp: scan_inv_def)
  show ?thesis
  proof (cases "?res = []")
    case True
    then show ?thesis using a by (auto simp: sendCurrentTokens_def scan_inv_def)
  next
    case False
    then have "cur_tokens st \<noteq> []" by auto
    then have p: "Position (hd (cur_tokens st)) = length a" using a(2) by simp
    let ?t = "mk_token (currentTokenType st) ?res (length a)"
    have t: "tok_at (pre @ post) ?t" "tok_end ?t = length pre"
      using False a(1) by (auto simp: tok_at_def tok_end_def)
    have "\<forall>t\<in>set (out_tokens st). tok_end t \<le> length pre" using a by (auto simp: trans_le_add1)
    then show ?thesis using a t False p unfolding scan_inv_def
      by (intro exI [of _ pre]) (auto simp: sendCurrentTokens_def toks_ordered_def sorted_wrt_append)
  qed
qed

lemma scan_inv_append:
  "scan_inv pre (v @ post) out cur \<Longrightarrow> v \<noteq> [] \<Longrightarrow> cur \<noteq> [] \<or> i = length pre \<Longrightarrow>
   scan_inv (pre @ v) post out (cur @ [mk_token ty v i])"
  unfolding scan_inv_def by (elim exE) (rule exI, auto simp: hd_append)

lemma scan_inv_skip: "scan_inv pre (v @ post) out [] \<Longrightarrow> scan_inv (pre @ v) post out []"
  unfolding scan_inv_def by (auto intro!: exI [of _ "pre @ v"])

lemma scan_inv_brace:
  "scan_inv pre (v @ post) out [] \<Longrightarrow> v \<noteq> [] \<Longrightarrow>
   scan_inv (pre @ v) post (out @ [mk_token ty v (length pre)]) []"
proof -
  let ?t = "mk_token ty v (length pre)"
  assume inv: "scan_inv pre (v @ post) out []" and v: "v \<noteq> []"
  have t: "tok_at (pre @ v @ post) ?t" "tok_end ?t = length pre + length v"
    using v by (auto simp: tok_at_def tok_end_def)
  show ?thesis using inv t unfolding scan_inv_def
    by (intro exI [of _ "pre @ v"]) (auto simp: toks_ordered_def sorted_wrt_append)
qed

lemma cur_send [simp]: "cur_tokens (sendCurrentTokens st) = []"
  by (simp add: sendCurrentTokens_def)

lemma scan_char_inv:
  assumes "scan_inv pre (v @ post) (out_tokens st) (cur_tokens st)" "v = encode_rune r" "v \<noteq> []"
    and i: "i = length pre"
  shows "scan_inv (pre @ v) post (out_tokens (scan_char st (i, r))) (cur_tokens (scan_char st (i, r)))"
proof -
  note send = scan_inv_send [OF assms(1)]
  have ascii: "r = of_char c \<Longrightarrow> char_code c < 128 \<Longrightarrow> v = [c]" for c using assms(2) by simp
  have app: "scan_inv pre (v @ post) out cur \<Longrightarrow> scan_inv (pre @ v) post out (cur @ [mk_token ty v i])" for out cur ty
    using scan_inv_append assms(3) i by blast
  have lit: "scan_inv (pre @ v) post (out_tokens (scan_literal i v st)) (cur_tokens (scan_literal i v st))"
    using app [OF assms(1)] app [OF send] by (auto simp: scan_literal_def append_cur_def Let_def)
  have sp: "r = of_char (CHR '' '') \<Longrightarrow> ?thesis"
    using app [OF assms(1), of Literal] scan_inv_skip [of pre v] send ascii [of "CHR '' ''"]
    by (auto simp: scan_char_def scan_space_def append_cur_def)
  have br: "r \<noteq> 32 \<Longrightarrow> r = of_char (CHR ''('') \<or> r = of_char (CHR '')'') \<Longrightarrow> ?thesis"
    using scan_inv_brace [of pre v] send assms(2,3) i by (auto simp: scan_char_def scan_brace_def Let_def)
  have op: "r = of_char (CHR ''='') \<or> r = of_char (CHR ''<'') \<or> r = of_char (CHR ''>'') \<Longrightarrow> ?thesis"
    using app [OF assms(1), of Op] app [OF send, of Op] assms(2)
    by (auto simp: scan_char_def scan_op_def append_cur_def Let_def)
  have bs: "r = of_char (CHR 92) \<Longrightarrow> ?thesis"
    using app [OF assms(1), of QuotedLiteral] lit ascii [of "CHR 92"]
    by (auto simp: scan_char_def scan_backslash_def append_cur_def)
  have qu: "r = of_char (CHR 39) \<Longrightarrow> ?thesis"
    using app [OF assms(1), of QuotedLiteral] app [OF send, of Op] ascii [of "CHR 39"]
      scan_inv_send [of "pre @ v" post "append_cur (mk_token QuotedLiteral [CHR 39] i) st"]
    by (auto simp: scan_char_def scan_quote_def append_cur_def Let_def)
  show ?thesis
    using sp br op bs qu lit assms(2) by (auto simp: scan_char_def)
qed

lemma scan_fold_inv:
  "valid_utf8 s \<Longrightarrow> scan_inv pre s (out_tokens st) (cur_tokens st) \<Longrightarrow> i = length pre \<Longrightarrow>
   scan_inv (pre @ s) [] (out_tokens (foldl scan_char st (runes_from i s)))
     (cur_tokens (foldl scan_char st (runes_from i s)))"
proof (induction i s arbitrary: st pre rule: runes_from.induct)
  case (2 i c cs)
  let ?w = "snd (decode_rune c cs)"
  let ?v = "encode_rune (fst (decode_rune c cs))"
  have v: "?v = c # take (?w - 1) cs" using 2(2) encode_decode_rune by simp
  have split: "c # cs = ?v @ drop (?w - 1) cs" by (simp add: v)
  have inv: "scan_inv pre (?v @ drop (?w - 1) cs) (out_tokens st) (cur_tokens st)"
    using 2(3) by (simp only: split [symmetric])
  have len: "length ?v = ?w" using v decode_rune_width [of c cs] by (simp add: min_def) linarith
  have "scan_inv (pre @ ?v) (drop (?w - 1) cs)
      (out_tokens (scan_char st (i, fst (decode_rune c cs)))) (cur_tokens (scan_char st (i, fst (decode_rune c cs))))"
    using scan_char_inv [OF inv refl _ 2(4)] v by simp
  then have "scan_inv ((pre @ ?v) @ drop (?w - 1) cs) []
      (out_tokens (foldl scan_char st (runes_from i (c # cs)))) (cur_tokens (foldl scan_char st (runes_from i (c # cs))))"
    using 2(1) [of "pre @ ?v"] 2(2,4) len by simp
  then show ?case by (simp only: append_assoc split [symmetric])
qed simp

lemma scan_tokens_inv: "valid_utf8 txt \<Longrightarrow> scan_inv txt [] (scan_tokens txt) []"
proof -
  assume v: "valid_utf8 txt"
  have "scan_inv [] txt [] []" by (simp add: scan_inv_def toks_ordered_def)
  then have "scan_inv ([] @ txt) [] (out_tokens (foldl scan_char (scan_init []) (runes_from 0 txt)))
      (cur_tokens (foldl scan_char (scan_init []) (runes_from 0 txt)))"
    by (intro scan_fold_inv [OF v]) (simp_all add: scan_init_def)
  from scan_inv_send [OF this] show ?thesis by (simp add: scanner_Init_def NewScanner_def)
qed

subsection \<open>Parentheses are always tokens of their own\<close>

abbreviation is_paren :: "char \<Rightarrow> bool" where
  "is_paren c \<equiv> c = CHR ''('' \<or> c = CHR '')''"

definition paren_free :: "string \<Rightarrow> bool" where
  "paren_free s = list_all (\<lambda>c. \<not> is_paren c) s"

definition paren_inv :: "scan_state \<Rightarrow> bool" where
  "paren_inv st \<longleftrightarrow> list_all (\<lambda>t. paren_free (TokValue t)) (cur_tokens st) \<and>
     list_all (\<lambda>t. TokValue t = ''('' \<or> TokValue t = '')'' \<or> paren_free (TokValue t)) (out_tokens st)"

lemma char_of_high: "n < 128 \<Longrightarrow> 128 \<le> char_code (char_of (128 + n :: nat))"
  by (simp add: take_bit_eq_mod)

lemma encode_rune_high: "128 \<le> r \<Longrightarrow> c \<in> set (encode_rune r) \<Longrightarrow> 128 \<le> char_code c"
proof -
  assume r: "128 \<le> r" and c: "c \<in> set (encode_rune r)"
  define q where "q = (if r > 1114111 \<or> (55296 \<le> r \<and> r \<le> 57343) then rune_error else r)"
  have q: "128 \<le> q" "q \<le> 1114111" using r by (auto simp: q_def rune_error_def)
  have e: "encode_rune r = (if q < 2048 then [char_of (192 + q div 64), char_of (128 + q mod 64)]
      else if q < 65536 then
        [char_of (224 + q div 4096), char_of (128 + q div 64 mod 64), char_of (128 + q mod 64)]
      else [char_of (240 + q div 262144), char_of (128 + q div 4096 mod 64),
         char_of (128 + q div 64 mod 64), char_of (128 + q mod 64)])"
    using q(1) by (simp add: encode_rune_def q_def [symmetric])
  have b: "q < 2048 \<Longrightarrow> q div 64 < 64" "q < 65536 \<Longrightarrow> q div 4096 < 32" "q div 262144 < 16"
    using q(2) by auto
  have m: "128 \<le> char_code (char_of (128 + k mod 64))" for k :: nat
    using char_of_high [of "k mod 64"] mod_less_divisor [of 64 k] by linarith
  have h: "q < 2048 \<Longrightarrow> 128 \<le> char_code (char_of (192 + q div 64))"
    "q < 65536 \<Longrightarrow> 128 \<le> char_code (char_of (224 + q div 4096))"
    "128 \<le> char_code (char_of (240 + q div 262144))"
    using char_of_high [of "64 + q div 64"] char_of_high [of "96 + q div 4096"]
      char_of_high [of "112 + q div 262144"] b by (simp_all add: add.assoc [symmetric])
  show ?thesis using c h m [of q] m [of "q div 64"] m [of "q div 4096"] unfolding e
    by (auto simp only: list.set insert_iff empty_iff split: if_splits)
qed

lemma encode_rune_low: "c \<in> set (encode_rune r) \<Longrightarrow> char_code c < 128 \<Longrightarrow> r = char_code c"
proof (cases "r < 128")
  case True
  assume "c \<in> set (encode_rune r)"
  with True show ?thesis by (simp add: encode_rune_def Let_def take_bit_eq_mod)
next
  case False
  assume "c \<in> set (encode_rune r)" "char_code c < 128"
  with encode_rune_high [of r c] False show ?thesis by simp
qed

lemma paren_inv_send: "paren_inv st \<Longrightarrow> paren_inv (sendCurrentTokens st)"
  by (auto simp: paren_inv_def sendCurrentTokens_def Let_def paren_free_def list_all_iff)

lemma paren_inv_char: "paren_inv st \<Longrightarrow> paren_inv (scan_char st ir)"
proof -
  assume inv: "paren_inv st"
  obtain i r where ir: "ir = (i, r)" by fastforce
  have enc: "r \<noteq> 40 \<Longrightarrow> r \<noteq> 41 \<Longrightarrow> paren_free (encode_rune r)"
    using encode_rune_low [of "CHR ''(''" r] encode_rune_low [of "CHR '')''" r]
    by (auto simp: paren_free_def list_all_iff)
  have br: "r = 40 \<or> r = 41 \<Longrightarrow> encode_rune r = ''('' \<or> encode_rune r = '')''"
    using encode_rune_ascii [of "CHR ''(''"] encode_rune_ascii [of "CHR '')''"] by auto
  have upd: "paren_inv (st'\<lparr>quoted := q\<rparr>) = paren_inv st'"
    "paren_inv (st'\<lparr>escaped := q\<rparr>) = paren_inv st'" "paren_inv (st'\<lparr>currentTokenType := ty\<rparr>) = paren_inv st'" for st' q ty
    by (auto simp: paren_inv_def)
  have app: "paren_inv st' \<Longrightarrow> paren_free v \<Longrightarrow> paren_inv (append_cur (mk_token ty v i) st')" for st' ty v
    by (auto simp: paren_inv_def append_cur_def)
  have lits: "paren_free '' ''" "paren_free [CHR 92]" "paren_free [CHR 39]" by (simp_all add: paren_free_def)
  note send = paren_inv_send [OF inv]
  have lit: "paren_free v \<Longrightarrow> paren_inv (scan_literal i v st)" for v
    by (simp add: scan_literal_def Let_def app upd inv send)
  have "paren_inv (scan_space i st)" by (simp add: scan_space_def app lits inv send)
  moreover have "r = 40 \<or> r = 41 \<Longrightarrow> paren_inv (scan_brace i r st)"
    using send br by (auto simp: scan_brace_def Let_def paren_inv_def)
  moreover have "r \<noteq> 40 \<Longrightarrow> r \<noteq> 41 \<Longrightarrow> paren_inv (scan_op i r st)"
    by (simp add: scan_op_def Let_def app upd inv send enc)
  moreover have "paren_inv (scan_backslash i st)" by (simp add: scan_backslash_def lit app upd lits inv)
  moreover have "paren_inv (scan_quote i st)"
    by (simp add: scan_quote_def Let_def app upd lits inv send paren_inv_send)
  ultimately show ?thesis using lit [OF enc] by (auto simp: scan_char_def ir)
qed

lemma paren_inv_fold: "paren_inv st \<Longrightarrow> paren_inv (foldl scan_char st rs)"
  by (induction rs arbitrary: st) (auto simp: paren_inv_char)

lemma scan_tokens_parens:
  "t \<in> set (scan_tokens txt) \<Longrightarrow> TokValue t = ''('' \<or> TokValue t = '')'' \<or> paren_free (TokValue t)"
  using paren_inv_send [OF paren_inv_fold [of "scan_init []" "runes_from 0 txt"]]
  by (auto simp: paren_inv_def scanner_Init_def NewScanner_def scan_init_def list_all_iff)

end
