(* ===== verification/Go_Regexp.thy ===== *)
theory Go_Regexp
  imports Go_Prelude
begin

text \<open>
  The fragment of Go's package \<^verbatim>\<open>regexp\<close> that the source uses: character classes, sequence,
  alternative, repetition. Every pattern of the source is anchored (\<^verbatim>\<open>^...$\<close>), so a match is
  membership of the whole string in the pattern's language. The matcher is executable (by
  derivatives) and is proved equal to the language; the special characters of the patterns are
  ASCII, so matching bytes and matching runes agree.
\<close>

datatype char_class = CharClass (negated: bool) (ranges: "(char \<times> char) list")

datatype regexp =
    Zero
  | One
  | Class char_class
  | Seq regexp regexp
  | Alt regexp regexp
  | Star regexp

definition in_class :: "char_class \<Rightarrow> char \<Rightarrow> bool" where
  "in_class cc c \<longleftrightarrow>
     (negated cc \<noteq> list_ex (\<lambda>(lo, hi). char_code lo \<le> char_code c \<and> char_code c \<le> char_code hi) (ranges cc))"

definition lit :: "char \<Rightarrow> regexp" where
  "lit c = Class (CharClass False [(c, c)])"

definition opt :: "regexp \<Rightarrow> regexp" where
  "opt r = Alt r One"

fun nullable :: "regexp \<Rightarrow> bool" where
  "nullable Zero = False"
| "nullable One = True"
| "nullable (Class _) = False"
| "nullable (Seq r s) = (nullable r \<and> nullable s)"
| "nullable (Alt r s) = (nullable r \<or> nullable s)"
| "nullable (Star _) = True"

fun deriv :: "char \<Rightarrow> regexp \<Rightarrow> regexp" where
  "deriv c Zero = Zero"
| "deriv c One = Zero"
| "deriv c (Class cc) = (if in_class cc c then One else Zero)"
| "deriv c (Seq r s) =
     (if nullable r then Alt (Seq (deriv c r) s) (deriv c s) else Seq (deriv c r) s)"
| "deriv c (Alt r s) = Alt (deriv c r) (deriv c s)"
| "deriv c (Star r) = Seq (deriv c r) (Star r)"

fun re_match :: "regexp \<Rightarrow> string \<Rightarrow> bool" where
  "re_match r [] = nullable r"
| "re_match r (c # cs) = re_match (deriv c r) cs"

subsection \<open>The language of a pattern\<close>

inductive_set star_lang :: "string set \<Rightarrow> string set" for A where
  star_Nil: "[] \<in> star_lang A"
| star_step: "u \<in> A \<Longrightarrow> v \<in> star_lang A \<Longrightarrow> u @ v \<in> star_lang A"

fun re_lang :: "regexp \<Rightarrow> string set" where
  "re_lang Zero = {}"
| "re_lang One = {[]}"
| "re_lang (Class cc) = {[c] | c. in_class cc c}"
| "re_lang (Seq r s) = {u @ v | u v. u \<in> re_lang r \<and> v \<in> re_lang s}"
| "re_lang (Alt r s) = re_lang r \<union> re_lang s"
| "re_lang (Star r) = star_lang (re_lang r)"

lemma nullable_iff: "nullable r \<longleftrightarrow> [] \<in> re_lang r"
  by (induction r) (auto intro: star_lang.star_Nil)

lemma star_lang_ConsD:
  "w \<in> star_lang A \<Longrightarrow> w = c # cs \<Longrightarrow> \<exists>u v. cs = u @ v \<and> c # u \<in> A \<and> v \<in> star_lang A"
proof (induction arbitrary: cs rule: star_lang.induct)
  case star_Nil
  then show ?case by simp
next
  case (star_step u v)
  show ?case
  proof (cases u)
    case Nil
    with star_step show ?thesis by auto
  next
    case (Cons d ds)
    with star_step show ?thesis by auto
  qed
qed

lemma deriv_lang: "cs \<in> re_lang (deriv c r) \<longleftrightarrow> c # cs \<in> re_lang r"
proof (induction r arbitrary: cs)
  case (Seq r s)
  have "c # cs \<in> re_lang (Seq r s) \<longleftrightarrow>
      (\<exists>u v. cs = u @ v \<and> c # u \<in> re_lang r \<and> v \<in> re_lang s) \<or> ([] \<in> re_lang r \<and> c # cs \<in> re_lang s)"
    by (auto simp: Cons_eq_append_conv)
  then show ?case using Seq by (auto simp: nullable_iff)
next
  case (Star r)
  have "c # cs \<in> star_lang (re_lang r) \<longleftrightarrow>
      (\<exists>u v. cs = u @ v \<and> c # u \<in> re_lang r \<and> v \<in> star_lang (re_lang r))"
    using star_lang_ConsD [of "c # cs"] star_lang.star_step [of "c # _" "re_lang r"] by fastforce
  then show ?case using Star by auto
qed auto

theorem re_match_iff: "re_match r s \<longleftrightarrow> s \<in> re_lang r"
  by (induction s arbitrary: r) (auto simp: nullable_iff deriv_lang)

subsection \<open>Closed forms of the pattern shapes of the source\<close>

lemma star_class_iff: "s \<in> star_lang {[c] | c. in_class cc c} \<longleftrightarrow> list_all (in_class cc) s"
proof
  show "s \<in> star_lang {[c] | c. in_class cc c} \<Longrightarrow> list_all (in_class cc) s"
    by (induction rule: star_lang.induct) auto
next
  show "list_all (in_class cc) s \<Longrightarrow> s \<in> star_lang {[c] | c. in_class cc c}"
  proof (induction s)
    case Nil
    then show ?case by (simp add: star_lang.star_Nil)
  next
    case (Cons c s)
    then show ?case using star_lang.star_step [of "[c]" _ s] by simp
  qed
qed

lemma match_Class: "re_match (Class cc) s \<longleftrightarrow> (\<exists>c. s = [c] \<and> in_class cc c)"
  by (auto simp: re_match_iff)

lemma match_Star_Class: "re_match (Star (Class cc)) s \<longleftrightarrow> list_all (in_class cc) s"
  by (simp add: re_match_iff star_class_iff)

lemma match_Seq: "re_match (Seq r q) s \<longleftrightarrow> (\<exists>u v. s = u @ v \<and> re_match r u \<and> re_match q v)"
  by (auto simp: re_match_iff)

lemma match_Alt: "re_match (Alt r q) s \<longleftrightarrow> re_match r s \<or> re_match q s"
  by (auto simp: re_match_iff)

lemma match_One: "re_match One s \<longleftrightarrow> s = []"
  by (auto simp: re_match_iff)

lemma match_lit: "re_match (lit c) s \<longleftrightarrow> s = [c]"
  by (auto simp: lit_def match_Class in_class_def)

lemma in_class_single: "in_class (CharClass neg [(d, d)]) c \<longleftrightarrow> neg \<noteq> (c = d)"
proof -
  have "(char_code d \<le> char_code c \<and> char_code c \<le> char_code d) = (c = d)"
    by (auto dest: order_antisym)
  then show ?thesis by (simp add: in_class_def)
qed

lemma match_Class_Star:
  "re_match (Seq (Class a) (Star (Class b))) s \<longleftrightarrow>
     (\<exists>c cs. s = c # cs \<and> in_class a c \<and> list_all (in_class b) cs)"
proof
  assume "\<exists>c cs. s = c # cs \<and> in_class a c \<and> list_all (in_class b) cs"
  then obtain c cs where "s = [c] @ cs" "in_class a c" "list_all (in_class b) cs" by auto
  then show "re_match (Seq (Class a) (Star (Class b))) s"
    unfolding match_Seq match_Class match_Star_Class by blast
qed (auto simp: match_Seq match_Class match_Star_Class)

lemmas match_simps = match_Class match_Star_Class match_Seq match_Alt match_One match_lit

end
