(* ===== verification/Query_State_Machine.thy ===== *)
theory Query_State_Machine
  imports Go_Regexp
begin

text \<open>
  The generic token state machine of the query parser
  (\<^verbatim>\<open>pkg/services/queryparser/statemachine.go\<close> and \<^verbatim>\<open>statemachine_builder.go\<close>). The states
  are pointers that refer to one another; here a state is named by its key in the builder's
  \<^verbatim>\<open>tokenMap\<close> and \<open>next\<close> lists keys. A transition that names an unknown token dereferences a
  nil interface in Go: the builder then has no result (\<open>None\<close>).
\<close>

record ParsedToken =
  tokenName :: string
  family :: string
  ptValue :: string

datatype parse_error = ParseErr (parse_msg: string) | ParsePanic (parse_msg: string)

type_synonym 's token_handler = "'s \<Rightarrow> ParsedToken \<Rightarrow> parse_error option \<times> 's"

record 's state =
  stName :: string
  stFamily :: string
  acceptPattern :: regexp
  last_state :: bool
  isEOF :: bool
  next_states :: "string list"
  onNewToken :: "'s token_handler option"

type_synonym 's token_map = "string \<rightharpoonup> 's state"

definition StartState :: string where "StartState = ''__$$_START_$$__''"
definition EndState :: string where "EndState = ''__$$_END_$$__''"

text \<open>The start state only accepts the empty token; the end state has the empty pattern, which
  matches every text, and is never a member of \<open>next_states\<close>.\<close>

definition NewStartState :: "'s state" where
  "NewStartState = \<lparr>stName = ''START'', stFamily = [], acceptPattern = One, last_state = False,
     isEOF = False, next_states = [], onNewToken = None\<rparr>"

definition NewEndState :: "'s state" where
  "NewEndState = \<lparr>stName = ''END'', stFamily = [], acceptPattern = Star (Class (CharClass True [])),
     last_state = False, isEOF = True, next_states = [], onNewToken = None\<rparr>"

definition state_accept :: "'s state \<Rightarrow> string \<Rightarrow> bool" where
  "state_accept st tok = re_match (acceptPattern st) tok"

definition unexpected_token :: "string \<Rightarrow> parse_error" where
  "unexpected_token tok = ParseErr (''Unexpected Token `'' @ tok @ ''`'')"

text \<open>The loop of \<^verbatim>\<open>parse\<close> over the successors of a state: the first that accepts the token
  handles it and becomes the current state.\<close>

fun state_parse_next :: "'s token_map \<Rightarrow> string list \<Rightarrow> string \<Rightarrow> 's \<Rightarrow> (parse_error + string) \<times> 's" where
  "state_parse_next m [] tok h = (Inl (unexpected_token tok), h)"
| "state_parse_next m (k # ks) tok h = (case m k of
     None \<Rightarrow> (Inl (ParsePanic ''nil state''), h)
   | Some nx \<Rightarrow>
       (if state_accept nx tok then
          (case onNewToken nx of
             None \<Rightarrow> (Inr k, h)
           | Some f \<Rightarrow>
               (case f h \<lparr>tokenName = stName nx, family = stFamily nx, ptValue = tok\<rparr> of
                  (Some e, h') \<Rightarrow> (Inl e, h')
                | (None, h') \<Rightarrow> (Inr k, h')))
        else state_parse_next m ks tok h))"

definition state_parse :: "'s token_map \<Rightarrow> string \<Rightarrow> string \<Rightarrow> 's \<Rightarrow> (parse_error + string) \<times> 's" where
  "state_parse m k tok h = (case m k of
     None \<Rightarrow> (Inl (ParsePanic ''nil state''), h)
   | Some st \<Rightarrow> state_parse_next m (next_states st) tok h)"

definition state_eof :: "'s state \<Rightarrow> parse_error option" where
  "state_eof st = (if \<not> last_state st then Some (ParseErr ''EOF encountered while parsing string'') else None)"

definition addNextState :: "'s token_map \<Rightarrow> string \<Rightarrow> string \<Rightarrow> 's token_map option" where
  "addNextState m k target = (case (m k, m target) of
     (Some st, Some n) \<Rightarrow>
       Some (if isEOF n then m(k \<mapsto> st\<lparr>last_state := True\<rparr>)
             else m(k \<mapsto> st\<lparr>next_states := next_states st @ [target]\<rparr>))
   | _ \<Rightarrow> None)"

subsection \<open>Builders\<close>

definition NewStateBuilder :: "string \<Rightarrow> 's state" where
  "NewStateBuilder nm = \<lparr>stName = nm, stFamily = [], acceptPattern = One, last_state = False,
     isEOF = False, next_states = [], onNewToken = None\<rparr>"

record TokenDefinition =
  tdName :: string
  tdFamily :: string
  tdPattern :: regexp

record TransitionDefinition =
  trToken :: string
  ValidTransitions :: "string list"

record Grammar =
  Tokens :: "TokenDefinition list"
  Transitions :: "TransitionDefinition list"

text \<open>\<^verbatim>\<open>stateBuilder.Build\<close> anchors the pattern (\<^verbatim>\<open>^...$\<close>); a match of an anchored pattern is
  \<^const>\<open>re_match\<close>, so the regular expression itself stays.\<close>

definition build_token :: "'s token_handler option \<Rightarrow> TokenDefinition \<Rightarrow> 's state" where
  "build_token hdl t = (NewStateBuilder (tdName t))
     \<lparr>stFamily := tdFamily t, acceptPattern := tdPattern t, onNewToken := hdl\<rparr>"

fun add_targets :: "string \<Rightarrow> string list \<Rightarrow> 's token_map \<Rightarrow> 's token_map option" where
  "add_targets k [] m = Some m"
| "add_targets k (t # ts) m = (case addNextState m k t of None \<Rightarrow> None | Some m' \<Rightarrow> add_targets k ts m')"

fun add_transitions :: "TransitionDefinition list \<Rightarrow> 's token_map \<Rightarrow> 's token_map option" where
  "add_transitions [] m = Some m"
| "add_transitions (t # ts) m =
     (case add_targets (trToken t) (ValidTransitions t) m of None \<Rightarrow> None | Some m' \<Rightarrow> add_transitions ts m')"

definition build_tokens :: "'s token_handler option \<Rightarrow> TokenDefinition list \<Rightarrow> 's token_map" where
  "build_tokens hdl ts =
     foldl (\<lambda>m t. m(tdName t \<mapsto> build_token hdl t)) [StartState \<mapsto> NewStartState, EndState \<mapsto> NewEndState] ts"

text \<open>\<^verbatim>\<open>stateMachineBuilder.Build\<close>: the machine's current state is the key \<^const>\<open>StartState\<close>.\<close>

definition machine_Build :: "Grammar \<Rightarrow> 's token_handler option \<Rightarrow> 's token_map option" where
  "machine_Build g hdl = add_transitions (Transitions g) (build_tokens hdl (Tokens g))"

end
