(* ===== verification/Query_Parser.thy ===== *)
theory Query_Parser
  imports Query_Scanner Query_State_Machine
begin

text \<open>
  The query parser (\<^verbatim>\<open>pkg/services/queryparser/query_parser.go\<close>): the grammar of the search
  language, the handler that assembles the SQL condition and its bound values, and \<^verbatim>\<open>Parse\<close>.
  The closure variables of \<^verbatim>\<open>initStateMachine\<close> and the parser's query are the fields of
  \<open>parser_state\<close>.
\<close>

definition validColumns :: "string list" where
  "validColumns = [''region'', ''name'', ''cloud_provider'', ''status'', ''owner'']"

definition BraceTokenFamily :: string where "BraceTokenFamily = ''BRACE''"
definition OpTokenFamily :: string where "OpTokenFamily = ''OP''"
definition LogicalOpTokenFamily :: string where "LogicalOpTokenFamily = ''LOGICAL''"
definition ColumnTokenFamily :: string where "ColumnTokenFamily = ''COLUMN''"
definition ValueTokenFamily :: string where "ValueTokenFamily = ''VALUE''"
definition QuotedValueTokenFamily :: string where "QuotedValueTokenFamily = ''QUOTED''"

definition OpenBrace :: string where "OpenBrace = ''OPEN_BRACE''"
definition ClosedBrace :: string where "ClosedBrace = ''CLOSED_BRACE''"
definition Column :: string where "Column = ''COLUMN''"
definition Value :: string where "Value = ''VALUE''"
definition QuotedValue :: string where "QuotedValue = ''QUOTED_VALUE''"
definition Eq :: string where "Eq = ''EQ''"
definition NotEq :: string where "NotEq = ''NOT_EQ''"
definition LikeState :: string where "LikeState = ''LIKE''"
definition AndState :: string where "AndState = ''AND''"
definition OrState :: string where "OrState = ''OR''"

lemmas family_defs = BraceTokenFamily_def OpTokenFamily_def LogicalOpTokenFamily_def
  ColumnTokenFamily_def ValueTokenFamily_def QuotedValueTokenFamily_def
lemmas token_defs = OpenBrace_def ClosedBrace_def Column_def Value_def QuotedValue_def
  Eq_def NotEq_def LikeState_def AndState_def OrState_def StartState_def EndState_def

definition MaximumComplexity :: int where "MaximumComplexity = 10"

record DBQuery =
  Query :: string
  Values :: "string list"
  ValidColumns :: "string list"

record parser_state =
  dbqry :: DBQuery
  complexity :: int
  openBraces :: int

definition add_query :: "string \<Rightarrow> parser_state \<Rightarrow> parser_state" where
  "add_query s h = h\<lparr>dbqry := (dbqry h)\<lparr>Query := Query (dbqry h) @ s\<rparr>\<rparr>"

definition add_value :: "string \<Rightarrow> parser_state \<Rightarrow> parser_state" where
  "add_value v h = h\<lparr>dbqry := (dbqry h)\<lparr>Values := Values (dbqry h) @ [v]\<rparr>\<rparr>"

definition countOpenBraces :: "string \<Rightarrow> parser_state \<Rightarrow> parse_error option \<times> parser_state" where
  "countOpenBraces tok h =
     (let h' = (if tok = ''('' then h\<lparr>openBraces := openBraces h + 1\<rparr>
                else if tok = '')'' then h\<lparr>openBraces := openBraces h - 1\<rparr> else h) in
      (if openBraces h' < 0 then Some (ParseErr (''unexpected '' @ [CHR 39] @ '')'' @ [CHR 39])) else None, h'))"

text \<open>
  The unescaping of a quoted value. \<^verbatim>\<open>[]rune(tmp)[1 : len(tmp)-1]\<close> slices a slice of runes
  with the byte length of the string as bound: a bound past the length of the slice reaches the
  zeroed spare capacity, a bound past the capacity panics. \<open>rcap n\<close> is the capacity that the
  runtime gives a slice of \<open>n\<close> runes.
\<close>

definition unquote :: "(nat \<Rightarrow> nat) \<Rightarrow> string \<Rightarrow> parse_error + string" where
  "unquote rcap v =
     (let tmp = replace_pair (CHR 92) (CHR 39) (CHR 39) v in
      if length tmp > 1 then
        (let rs = runes tmp; hi = length tmp - 1 in
         if hi > rcap (length rs) then Inl (ParsePanic ''slice bounds out of range'')
         else Inr (concat (map encode_rune
                (drop 1 (take hi (rs @ replicate (rcap (length rs) - length rs) 0))))))
      else Inr tmp)"

definition joins_exceeded :: parse_error where
  "joins_exceeded = ParseErr (''maximum number of permitted joins ('' @ itoa MaximumComplexity @ '') exceeded'')"

definition onNewToken_handler :: "(nat \<Rightarrow> nat) \<Rightarrow> parser_state token_handler" where
  "onNewToken_handler rcap h token =
     (if family token = BraceTokenFamily then
        (case countOpenBraces (ptValue token) h of
           (Some e, h') \<Rightarrow> (Some e, h')
         | (None, h') \<Rightarrow> (None, add_query (ptValue token) h'))
      else if family token = ValueTokenFamily then
        (None, add_value (ptValue token) (add_query '' ?'' h))
      else if family token = QuotedValueTokenFamily then
        (case unquote rcap (ptValue token) of
           Inl e \<Rightarrow> (Some e, add_query '' ?'' h)
         | Inr v \<Rightarrow> (None, add_value v (add_query '' ?'' h)))
      else if family token = LogicalOpTokenFamily then
        (let h' = h\<lparr>complexity := complexity h + 1\<rparr> in
         if complexity h' > MaximumComplexity then (Some joins_exceeded, h')
         else (None, add_query ('' '' @ ptValue token @ '' '') h'))
      else if family token = ColumnTokenFamily then
        (let columnName = to_lower (ptValue token) in
         if \<not> List.member (ValidColumns (dbqry h)) columnName
         then (Some (ParseErr (''invalid column name: '' @ [CHR 39] @ ptValue token @ [CHR 39])), h)
         else (None, add_query columnName h))
      else (None, add_query ('' '' @ ptValue token) h))"

subsection \<open>The grammar\<close>

definition letters :: "(char \<times> char) list" where
  "letters = [(CHR ''A'', CHR ''Z''), (CHR ''a'', CHR ''z'')]"

definition word_chars :: "(char \<times> char) list" where
  "word_chars = letters @ [(CHR ''0'', CHR ''9''), (CHR ''_'', CHR ''_'')]"

definition both_cases :: "char \<Rightarrow> char \<Rightarrow> regexp" where
  "both_cases u l = Class (CharClass False [(u, u), (l, l)])"

definition column_pattern :: regexp where
  "column_pattern = Seq (Class (CharClass False letters)) (Star (Class (CharClass False word_chars)))"

definition value_pattern :: regexp where
  "value_pattern = Seq (Class (CharClass True [(CHR 39, CHR 39)]))
     (Star (Class (CharClass True [(CHR '' '', CHR '' ''), (CHR ''^'', CHR ''^''),
        (CHR ''('', CHR ''(''), (CHR ''^'', CHR ''^''), (CHR '')'', CHR '')'')])))"

definition quoted_pattern :: regexp where
  "quoted_pattern = Seq (lit (CHR 39))
     (Seq (Star (Alt (Class (CharClass True [(CHR 39, CHR 39)])) (Seq (lit (CHR 92)) (lit (CHR 39)))))
       (lit (CHR 39)))"

definition like_pattern :: regexp where
  "like_pattern = Seq (both_cases (CHR ''L'') (CHR ''l'')) (Seq (both_cases (CHR ''I'') (CHR ''i''))
     (Seq (both_cases (CHR ''K'') (CHR ''k'')) (both_cases (CHR ''E'') (CHR ''e''))))"

definition and_pattern :: regexp where
  "and_pattern = Seq (both_cases (CHR ''A'') (CHR ''a'')) (Seq (both_cases (CHR ''N'') (CHR ''n''))
     (both_cases (CHR ''D'') (CHR ''d'')))"

definition or_pattern :: regexp where
  "or_pattern = Seq (both_cases (CHR ''O'') (CHR ''o'')) (both_cases (CHR ''R'') (CHR ''r''))"

definition not_eq_pattern :: regexp where
  "not_eq_pattern = Seq (lit (CHR ''<'')) (lit (CHR ''>''))"

abbreviation token_def :: "string \<Rightarrow> string \<Rightarrow> regexp \<Rightarrow> TokenDefinition" where
  "token_def n f p \<equiv> \<lparr>tdName = n, tdFamily = f, tdPattern = p\<rparr>"

abbreviation transition :: "string \<Rightarrow> string list \<Rightarrow> TransitionDefinition" where
  "transition n ts \<equiv> \<lparr>trToken = n, ValidTransitions = ts\<rparr>"

definition grammar :: Grammar where
  "grammar = \<lparr>
     Tokens = [
       token_def OpenBrace BraceTokenFamily (lit (CHR ''('')),
       token_def ClosedBrace BraceTokenFamily (lit (CHR '')'')),
       token_def Column ColumnTokenFamily column_pattern,
       token_def Value ValueTokenFamily value_pattern,
       token_def QuotedValue QuotedValueTokenFamily quoted_pattern,
       token_def Eq OpTokenFamily (lit (CHR ''='')),
       token_def NotEq OpTokenFamily not_eq_pattern,
       token_def LikeState OpTokenFamily like_pattern,
       token_def AndState LogicalOpTokenFamily and_pattern,
       token_def OrState LogicalOpTokenFamily or_pattern],
     Transitions = [
       transition StartState [Column, OpenBrace],
       transition OpenBrace [Column, OpenBrace],
       transition Column [Eq, NotEq, LikeState],
       transition Eq [QuotedValue, Value],
       transition NotEq [QuotedValue, Value],
       transition LikeState [QuotedValue, Value],
       transition QuotedValue [OrState, AndState, ClosedBrace, EndState],
       transition Value [OrState, AndState, ClosedBrace, EndState],
       transition ClosedBrace [OrState, AndState, ClosedBrace, EndState],
       transition AndState [Column, OpenBrace],
       transition OrState [Column, OpenBrace]]\<rparr>"

definition initStateMachine :: "(nat \<Rightarrow> nat) \<Rightarrow> parser_state token_map option" where
  "initStateMachine rcap = machine_Build grammar (Some (onNewToken_handler rcap))"

definition checkUnbalancedBraces :: "parser_state \<Rightarrow> parse_error option" where
  "checkUnbalancedBraces h =
     (if openBraces h > 0
      then Some (ParseErr (''EOF while searching for closing brace '' @ [CHR 39] @ '')'' @ [CHR 39]))
      else None)"

subsection \<open>Parse\<close>

definition parse_filter_error :: "Token \<Rightarrow> parse_error \<Rightarrow> parse_error" where
  "parse_filter_error t e = (case e of
     ParsePanic m \<Rightarrow> ParsePanic m
   | ParseErr m \<Rightarrow> ParseErr (''['' @ itoa (int (Position t) + 1) @ ''] error parsing the filter: '' @ m))"

function parse_loop ::
  "'s token_map \<Rightarrow> string \<Rightarrow> scanner \<Rightarrow> 's \<Rightarrow> (parse_error + string) \<times> 's" where
  "parse_loop m k sc h = (case scanner_Next sc of
     (False, _) \<Rightarrow> (Inr k, h)
   | (True, sc') \<Rightarrow>
       (case scanner_Token sc' of
          None \<Rightarrow> (Inl (ParsePanic ''Invalid scanner Position''), h)
        | Some t \<Rightarrow>
            (case state_parse m k (TokValue t) h of
               (Inl e, h') \<Rightarrow> (Inl (parse_filter_error t e), h')
             | (Inr k', h') \<Rightarrow> parse_loop m k' sc' h')))"
  by pat_completeness auto
termination
  by (relation "measure (\<lambda>(m, k, sc, h). nat (int (length (tokens sc)) - 1 - pos sc))")
    (auto simp: scanner_Next_def split: if_splits)

declare parse_loop.simps [simp del]

definition parse_finish :: "parser_state token_map \<Rightarrow> string \<Rightarrow> parser_state \<Rightarrow> (parse_error + DBQuery) \<times> DBQuery" where
  "parse_finish m k h = (case m k of
     None \<Rightarrow> (Inl (ParsePanic ''nil state''), dbqry h)
   | Some st \<Rightarrow>
      (case state_eof st of
        Some e \<Rightarrow> (Inl (ParseErr (''unexpected EOF during parsing of database query: '' @ parse_msg e)), dbqry h)
      | None \<Rightarrow>
         (case checkUnbalancedBraces h of
           Some e \<Rightarrow> (Inl e, dbqry h)
         | None \<Rightarrow> (let q = (dbqry h)\<lparr>Query := trim_char (CHR '' '') (Query (dbqry h))\<rparr> in (Inr q, q)))))"

text \<open>\<open>Parse rcap q sql\<close>: \<open>q\<close> is the parser's query before the call, the second component after it.\<close>

definition Parse :: "(nat \<Rightarrow> nat) \<Rightarrow> DBQuery \<Rightarrow> string \<Rightarrow> (parse_error + DBQuery) \<times> DBQuery" where
  "Parse rcap q sql = (case initStateMachine rcap of
     None \<Rightarrow> (Inl (ParsePanic ''nil state''), q)
   | Some m \<Rightarrow>
      (case parse_loop m StartState (scanner_Init NewScanner sql)
              \<lparr>dbqry = q, complexity = 0, openBraces = 0\<rparr> of
         (Inl e, h) \<Rightarrow> (Inl e, dbqry h)
       | (Inr k, h) \<Rightarrow> parse_finish m k h))"

definition NewQueryParser :: "string list \<Rightarrow> DBQuery" where
  "NewQueryParser columns =
     \<lparr>Query = [], Values = [], ValidColumns = (if columns = [] then validColumns else columns)\<rparr>"

end
