(* ===== verification/Query_Grammar.thy ===== *)
theory Query_Grammar
  imports Query_Parser
begin

text \<open>
  What the search language means. Abstract syntax trees are the sentences of the context-free
  grammar \<^verbatim>\<open>query ::= term | term (AND | OR) query\<close>,
  \<^verbatim>\<open>term ::= column op value | ( query )\<close>; the automaton of \<^verbatim>\<open>Query_Parser\<close>, with its brace and
  join counters, is shown to accept exactly the token lists of well-formed trees and to emit
  exactly their rendering. A small reference automaton over four modes stands in between.
\<close>

datatype qvalue = Plain string | Quoted string

datatype query = Single qterm | Join qterm string query
  and qterm = Cmp string string qvalue | Paren query

definition is_column :: "string \<Rightarrow> bool" where
  "is_column tok = re_match column_pattern tok"

definition is_operator :: "string \<Rightarrow> bool" where
  "is_operator tok \<longleftrightarrow> tok = ''='' \<or> tok = ''<>'' \<or> re_match like_pattern tok"

definition is_logical :: "string \<Rightarrow> bool" where
  "is_logical tok \<longleftrightarrow> re_match and_pattern tok \<or> re_match or_pattern tok"

definition is_quoted :: "string \<Rightarrow> bool" where
  "is_quoted tok = re_match quoted_pattern tok"

definition is_plain :: "string \<Rightarrow> bool" where
  "is_plain tok = re_match value_pattern tok"

fun value_tok :: "qvalue \<Rightarrow> string" where
  "value_tok (Plain v) = v"
| "value_tok (Quoted v) = v"

fun wf_value :: "qvalue \<Rightarrow> bool" where
  "wf_value (Plain v) = is_plain v"
| "wf_value (Quoted v) = is_quoted v"

fun wf_query :: "query \<Rightarrow> bool" and wf_term :: "qterm \<Rightarrow> bool" where
  "wf_query (Single t) = wf_term t"
| "wf_query (Join t l q) = (wf_term t \<and> is_logical l \<and> wf_query q)"
| "wf_term (Cmp c oper v) = (is_column c \<and> is_operator oper \<and> wf_value v)"
| "wf_term (Paren q) = wf_query q"

fun query_toks :: "query \<Rightarrow> string list" and term_toks :: "qterm \<Rightarrow> string list" where
  "query_toks (Single t) = term_toks t"
| "query_toks (Join t l q) = term_toks t @ l # query_toks q"
| "term_toks (Cmp c oper v) = [c, oper, value_tok v]"
| "term_toks (Paren q) = ''('' # query_toks q @ ['')'']"

fun render_query :: "query \<Rightarrow> string" and render_term :: "qterm \<Rightarrow> string" where
  "render_query (Single t) = render_term t"
| "render_query (Join t l q) = render_term t @ '' '' @ l @ '' '' @ render_query q"
| "render_term (Cmp c oper v) = to_lower c @ '' '' @ oper @ '' ?''"
| "render_term (Paren q) = ''('' @ render_query q @ '')''"

fun value_text :: "(nat \<Rightarrow> nat) \<Rightarrow> qvalue \<Rightarrow> parse_error + string" where
  "value_text rcap (Plain v) = Inr v"
| "value_text rcap (Quoted v) = unquote rcap v"

fun query_vals :: "query \<Rightarrow> qvalue list" and term_vals :: "qterm \<Rightarrow> qvalue list" where
  "query_vals (Single t) = term_vals t"
| "query_vals (Join t l q) = term_vals t @ query_vals q"
| "term_vals (Cmp c oper v) = [v]"
| "term_vals (Paren q) = query_vals q"

fun query_cols :: "query \<Rightarrow> string list" and term_cols :: "qterm \<Rightarrow> string list" where
  "query_cols (Single t) = term_cols t"
| "query_cols (Join t l q) = term_cols t @ query_cols q"
| "term_cols (Cmp c oper v) = [to_lower c]"
| "term_cols (Paren q) = query_cols q"

fun query_joins :: "query \<Rightarrow> nat" and term_joins :: "qterm \<Rightarrow> nat" where
  "query_joins (Single t) = term_joins t"
| "query_joins (Join t l q) = term_joins t + Suc (query_joins q)"
| "term_joins (Cmp c oper v) = 0"
| "term_joins (Paren q) = query_joins q"

definition bound_text :: "(nat \<Rightarrow> nat) \<Rightarrow> qvalue \<Rightarrow> string" where
  "bound_text rcap v = (case value_text rcap v of Inl e \<Rightarrow> [] | Inr s \<Rightarrow> s)"

text \<open>The side conditions of acceptance: admissible columns, no slice panic, the bound on joins.\<close>

definition bindable :: "(nat \<Rightarrow> nat) \<Rightarrow> qvalue \<Rightarrow> bool" where
  "bindable rcap v \<longleftrightarrow> (\<exists>s. value_text rcap v = Inr s)"

subsection \<open>The reference automaton\<close>

datatype mode = ExpOperand | ExpOperator | ExpValue | ExpConnective

definition on_family :: "(nat \<Rightarrow> nat) \<Rightarrow> parser_state \<Rightarrow> string \<Rightarrow> string \<Rightarrow> mode \<Rightarrow> (parse_error + mode) \<times> parser_state" where
  "on_family rcap h fam tok md =
     (case onNewToken_handler rcap h \<lparr>tokenName = [], family = fam, ptValue = tok\<rparr> of
        (Some e, h') \<Rightarrow> (Inl e, h')
      | (None, h') \<Rightarrow> (Inr md, h'))"

fun ref_step :: "(nat \<Rightarrow> nat) \<Rightarrow> mode \<Rightarrow> string \<Rightarrow> parser_state \<Rightarrow> (parse_error + mode) \<times> parser_state" where
  "ref_step rcap ExpOperand tok h =
     (if is_column tok then on_family rcap h ColumnTokenFamily tok ExpOperator
      else if tok = ''('' then on_family rcap h BraceTokenFamily tok ExpOperand
      else (Inl (unexpected_token tok), h))"
| "ref_step rcap ExpOperator tok h =
     (if is_operator tok then on_family rcap h OpTokenFamily tok ExpValue
      else (Inl (unexpected_token tok), h))"
| "ref_step rcap ExpValue tok h =
     (if is_quoted tok then on_family rcap h QuotedValueTokenFamily tok ExpConnective
      else if is_plain tok then on_family rcap h ValueTokenFamily tok ExpConnective
      else (Inl (unexpected_token tok), h))"
| "ref_step rcap ExpConnective tok h =
     (if is_logical tok then on_family rcap h LogicalOpTokenFamily tok ExpOperand
      else if tok = '')'' then on_family rcap h BraceTokenFamily tok ExpConnective
      else (Inl (unexpected_token tok), h))"

fun ref_run :: "(nat \<Rightarrow> nat) \<Rightarrow> mode \<Rightarrow> string list \<Rightarrow> parser_state \<Rightarrow> (parse_error + mode) \<times> parser_state" where
  "ref_run rcap md [] h = (Inr md, h)"
| "ref_run rcap md (t # ts) h = (case ref_step rcap md t h of
     (Inl e, h') \<Rightarrow> (Inl e, h')
   | (Inr md', h') \<Rightarrow> ref_run rcap md' ts h')"

definition mode_of :: "string \<Rightarrow> mode" where
  "mode_of k = (if k = Column then ExpOperator
     else if k \<in> {Eq, NotEq, LikeState} then ExpValue
     else if k \<in> {Value, QuotedValue, ClosedBrace} then ExpConnective else ExpOperand)"

definition machine_keys :: "string set" where
  "machine_keys = {StartState, OpenBrace, ClosedBrace, Column, Value, QuotedValue, Eq, NotEq,
     LikeState, AndState, OrState}"

subsection \<open>The built machine\<close>

definition token_state :: "(nat \<Rightarrow> nat) \<Rightarrow> string \<Rightarrow> string \<Rightarrow> regexp \<Rightarrow> bool \<Rightarrow> string list \<Rightarrow> parser_state state" where
  "token_state rcap nm fam pat lst nxt = \<lparr>stName = nm, stFamily = fam, acceptPattern = pat,
     last_state = lst, isEOF = False, next_states = nxt, onNewToken = Some (onNewToken_handler rcap)\<rparr>"

definition machine :: "(nat \<Rightarrow> nat) \<Rightarrow> parser_state token_map" where
  "machine rcap = the (initStateMachine rcap)"

lemma token_names_distinct:
  "distinct [StartState, EndState, OpenBrace, ClosedBrace, Column, Value, QuotedValue, Eq, NotEq,
     LikeState, AndState, OrState]"
  by (simp add: token_defs)

lemma token_names_distinct_rev:
  "distinct [OrState, AndState, LikeState, NotEq, Eq, QuotedValue, Value, Column, ClosedBrace,
     OpenBrace, EndState, StartState]"
  by (simp add: token_defs)

lemmas token_neq = token_names_distinct [simplified] token_names_distinct_rev [simplified]

lemmas build_defs = initStateMachine_def machine_Build_def grammar_def build_tokens_def
  addNextState_def NewStartState_def NewEndState_def build_token_def NewStateBuilder_def

lemma initStateMachine_Some: "initStateMachine rcap = Some (machine rcap)"
  by (simp add: machine_def build_defs token_neq)

lemma machine_lookup:
  "machine rcap StartState = Some (NewStartState\<lparr>next_states := [Column, OpenBrace]\<rparr>)"
  "machine rcap OpenBrace =
     Some (token_state rcap OpenBrace BraceTokenFamily (lit (CHR ''('')) False [Column, OpenBrace])"
  "machine rcap ClosedBrace =
     Some (token_state rcap ClosedBrace BraceTokenFamily (lit (CHR '')'')) True [OrState, AndState, ClosedBrace])"
  "machine rcap Column =
     Some (token_state rcap Column ColumnTokenFamily column_pattern False [Eq, NotEq, LikeState])"
  "machine rcap Value =
     Some (token_state rcap Value ValueTokenFamily value_pattern True [OrState, AndState, ClosedBrace])"
  "machine rcap QuotedValue =
     Some (token_state rcap QuotedValue QuotedValueTokenFamily quoted_pattern True [OrState, AndState, ClosedBrace])"
  "machine rcap Eq = Some (token_state rcap Eq OpTokenFamily (lit (CHR ''='')) False [QuotedValue, Value])"
  "machine rcap NotEq = Some (token_state rcap NotEq OpTokenFamily not_eq_pattern False [QuotedValue, Value])"
  "machine rcap LikeState = Some (token_state rcap LikeState OpTokenFamily like_pattern False [QuotedValue, Value])"
  "machine rcap AndState = Some (token_state rcap AndState LogicalOpTokenFamily and_pattern False [Column, OpenBrace])"
  "machine rcap OrState = Some (token_state rcap OrState LogicalOpTokenFamily or_pattern False [Column, OpenBrace])"
  by (simp_all add: machine_def build_defs token_neq token_state_def)

subsection \<open>The built machine simulates the reference automaton\<close>

lemma on_family_handler:
  "on_family rcap h fam tok md =
     (case onNewToken_handler rcap h \<lparr>tokenName = nm, family = fam, ptValue = tok\<rparr> of
        (Some e, h') \<Rightarrow> (Inl e, h')
      | (None, h') \<Rightarrow> (Inr md, h'))"
  unfolding on_family_def onNewToken_handler_def ParsedToken.select_convs ..

lemma column_first: "is_column tok \<Longrightarrow> tok \<noteq> ''(''"
  by (auto simp: is_column_def column_pattern_def match_Class_Star in_class_def letters_def)

lemma plain_first: "is_plain tok \<Longrightarrow> \<exists>c cs. tok = c # cs \<and> c \<noteq> CHR 39"
  by (auto simp: is_plain_def value_pattern_def match_Class_Star in_class_def)

lemma quoted_first: "is_quoted tok \<Longrightarrow> \<exists>cs. tok = CHR 39 # cs @ [CHR 39]"
  by (auto simp: is_quoted_def quoted_pattern_def match_Seq match_lit)

lemma plain_not_quoted: "is_plain tok \<Longrightarrow> \<not> is_quoted tok"
  using plain_first quoted_first by fastforce

lemma logical_not_brace: "is_logical tok \<Longrightarrow> tok \<noteq> '')''"
  by (auto simp: is_logical_def and_pattern_def or_pattern_def both_cases_def match_Seq match_Class
      in_class_def append_eq_Cons_conv)

lemma brace_not_column [simp]: "\<not> is_column ''(''"
  using column_first by blast

lemma brace_not_logical [simp]: "\<not> is_logical '')''"
  using logical_not_brace by blast

lemma mode_of_keys [simp]:
  "mode_of StartState = ExpOperand" "mode_of OpenBrace = ExpOperand" "mode_of AndState = ExpOperand"
  "mode_of OrState = ExpOperand" "mode_of Column = ExpOperator" "mode_of Eq = ExpValue"
  "mode_of NotEq = ExpValue" "mode_of LikeState = ExpValue" "mode_of Value = ExpConnective"
  "mode_of QuotedValue = ExpConnective" "mode_of ClosedBrace = ExpConnective"
  by (simp_all add: mode_of_def token_neq)

definition enter_state :: "(nat \<Rightarrow> nat) \<Rightarrow> parser_state \<Rightarrow> string \<Rightarrow> string \<Rightarrow> string \<Rightarrow> (parse_error + string) \<times> parser_state" where
  "enter_state rcap h fam tok k =
     (case on_family rcap h fam tok (mode_of k) of (Inl e, h') \<Rightarrow> (Inl e, h') | (Inr _, h') \<Rightarrow> (Inr k, h'))"

lemma parse_next_token_state:
  "machine rcap k = Some (token_state rcap k fam pat lst nxt) \<Longrightarrow>
   state_parse_next (machine rcap) (k # ks) tok h =
     (if re_match pat tok then enter_state rcap h fam tok k
      else state_parse_next (machine rcap) ks tok h)"
  by (simp add: enter_state_def token_state_def state_accept_def on_family_handler [where nm = k]
      split: prod.splits option.splits)

definition simulates :: "(parse_error + string) \<times> parser_state \<Rightarrow> (parse_error + mode) \<times> parser_state \<Rightarrow> bool" where
  "simulates c r = (case c of
     (Inl e, h) \<Rightarrow> r = (Inl e, h)
   | (Inr k, h) \<Rightarrow> k \<in> machine_keys \<and> r = (Inr (mode_of k), h))"

lemma not_eq_match: "re_match not_eq_pattern tok \<longleftrightarrow> tok = ''<>''"
  by (auto simp: not_eq_pattern_def match_Seq match_lit)

lemmas machine_steps = machine_lookup(2-) [THEN parse_next_token_state]

lemma simulates_enter:
  "k \<in> machine_keys \<Longrightarrow> simulates (enter_state rcap h fam tok k) (on_family rcap h fam tok (mode_of k))"
  by (auto simp: simulates_def enter_state_def on_family_def split: prod.splits sum.splits option.splits)

lemmas enter_sims =
  simulates_enter [of Column, simplified] simulates_enter [of OpenBrace, simplified]
  simulates_enter [of Eq, simplified] simulates_enter [of NotEq, simplified]
  simulates_enter [of LikeState, simplified] simulates_enter [of QuotedValue, simplified]
  simulates_enter [of Value, simplified] simulates_enter [of OrState, simplified]
  simulates_enter [of AndState, simplified] simulates_enter [of ClosedBrace, simplified]

lemma simulates_unexpected: "simulates (Inl e, h) (Inl e, h)"
  by (simp add: simulates_def)

lemma machine_keys_mem [simp]:
  "StartState \<in> machine_keys" "OpenBrace \<in> machine_keys" "AndState \<in> machine_keys"
  "OrState \<in> machine_keys" "Column \<in> machine_keys" "Eq \<in> machine_keys" "NotEq \<in> machine_keys"
  "LikeState \<in> machine_keys" "Value \<in> machine_keys" "QuotedValue \<in> machine_keys"
  "ClosedBrace \<in> machine_keys"
  by (simp_all add: machine_keys_def)

lemma operand_sim:
  "simulates (state_parse_next (machine rcap) [Column, OpenBrace] tok h) (ref_step rcap ExpOperand tok h)"
  by (simp add: machine_steps match_lit is_column_def enter_sims simulates_unexpected
      del: state_parse_next.simps(2) re_match.simps)

lemma operator_sim:
  "simulates (state_parse_next (machine rcap) [Eq, NotEq, LikeState] tok h) (ref_step rcap ExpOperator tok h)"
  by (simp add: machine_steps match_lit not_eq_match is_operator_def enter_sims simulates_unexpected
      del: state_parse_next.simps(2) re_match.simps)

lemma value_sim:
  "simulates (state_parse_next (machine rcap) [QuotedValue, Value] tok h) (ref_step rcap ExpValue tok h)"
  by (simp add: machine_steps is_quoted_def is_plain_def enter_sims simulates_unexpected
      del: state_parse_next.simps(2) re_match.simps)

lemma connective_sim:
  "simulates (state_parse_next (machine rcap) [OrState, AndState, ClosedBrace] tok h) (ref_step rcap ExpConnective tok h)"
  by (simp add: machine_steps match_lit is_logical_def enter_sims simulates_unexpected
      del: state_parse_next.simps(2) re_match.simps)

lemma step_simulates:
  assumes "k \<in> machine_keys"
  shows "simulates (state_parse (machine rcap) k tok h) (ref_step rcap (mode_of k) tok h)"
proof -
  consider "k \<in> {StartState, OpenBrace, AndState, OrState}" | "k = Column"
    | "k \<in> {Eq, NotEq, LikeState}" | "k \<in> {Value, QuotedValue, ClosedBrace}"
    using assms by (auto simp: machine_keys_def)
  then show ?thesis
  proof cases
    case 1 then show ?thesis using operand_sim
      by (auto simp: state_parse_def machine_lookup token_state_def simp del: ref_step.simps state_parse_next.simps)
  next
    case 2 then show ?thesis using operator_sim
      by (auto simp: state_parse_def machine_lookup token_state_def simp del: ref_step.simps state_parse_next.simps)
  next
    case 3 then show ?thesis using value_sim
      by (auto simp: state_parse_def machine_lookup token_state_def simp del: ref_step.simps state_parse_next.simps)
  next
    case 4 then show ?thesis using connective_sim
      by (auto simp: state_parse_def machine_lookup token_state_def simp del: ref_step.simps state_parse_next.simps)
  qed
qed

lemma machine_last:
  "k \<in> machine_keys \<Longrightarrow> \<exists>st. machine rcap k = Some st \<and> (last_state st \<longleftrightarrow> mode_of k = ExpConnective)"
  by (auto simp: machine_keys_def machine_lookup token_state_def NewStartState_def)

subsection \<open>The loop of Parse as a run over the token list\<close>

fun parse_tokens :: "'s token_map \<Rightarrow> string \<Rightarrow> Token list \<Rightarrow> 's \<Rightarrow> (parse_error + string) \<times> 's" where
  "parse_tokens m k [] h = (Inr k, h)"
| "parse_tokens m k (t # ts) h = (case state_parse m k (TokValue t) h of
     (Inl e, h') \<Rightarrow> (Inl (parse_filter_error t e), h')
   | (Inr k', h') \<Rightarrow> parse_tokens m k' ts h')"

lemma parse_loop_at:
  "i \<le> length ts \<Longrightarrow>
   parse_loop m k \<lparr>tokens = ts, pos = int i - 1\<rparr> h = parse_tokens m k (drop i ts) h"
proof (induction "length ts - i" arbitrary: i k h)
  case 0
  then show ?case by (subst parse_loop.simps) (simp add: scanner_Next_def)
next
  case (Suc n)
  then have i: "i < length ts" by simp
  have IH: "parse_loop m k' \<lparr>tokens = ts, pos = int i\<rparr> h' = parse_tokens m k' (drop (Suc i) ts) h'" for k' h'
    using Suc(1) [of "Suc i"] Suc(2) i by simp
  have d: "drop i ts = ts ! i # drop (Suc i) ts" using i by (simp add: Cons_nth_drop_Suc)
  show ?case using i
    by (subst parse_loop.simps) (simp add: scanner_Next_def scanner_Token_def d IH split: prod.splits sum.splits)
qed

lemma scanner_pos_Init [simp]: "pos (scanner_Init s txt) = pos s"
  by (simp add: scanner_Init_def)

lemma parse_loop_tokens:
  "parse_loop m k (scanner_Init NewScanner txt) h = parse_tokens m k (scan_tokens txt) h"
proof -
  have "scanner_Init NewScanner txt = \<lparr>tokens = scan_tokens txt, pos = int 0 - 1\<rparr>"
    by (simp add: NewScanner_def scanner_Init_def)
  then show ?thesis using parse_loop_at [of 0 "scan_tokens txt" m k h] by simp
qed

lemma tokens_simulate:
  "k \<in> machine_keys \<Longrightarrow>
   (case parse_tokens (machine rcap) k ts h of
      (Inl e, h') \<Rightarrow> (\<exists>e'. ref_run rcap (mode_of k) (map TokValue ts) h = (Inl e', h'))
    | (Inr k', h') \<Rightarrow> k' \<in> machine_keys \<and> ref_run rcap (mode_of k) (map TokValue ts) h = (Inr (mode_of k'), h'))"
proof (induction ts arbitrary: k h)
  case (Cons t ts)
  obtain r h' where r: "state_parse (machine rcap) k (TokValue t) h = (r, h')" by fastforce
  note sim = step_simulates [OF Cons.prems, of rcap "TokValue t" h, unfolded r]
  show ?case
  proof (cases r)
    case (Inl e)
    with sim r show ?thesis by (simp add: simulates_def)
  next
    case (Inr k')
    with sim r Cons.IH [of k' h'] show ?thesis by (simp add: simulates_def split: prod.splits sum.splits)
  qed
qed simp

subsection \<open>Effect of one token\<close>

definition emit :: "string \<Rightarrow> string list \<Rightarrow> nat \<Rightarrow> parser_state \<Rightarrow> parser_state" where
  "emit s vs n h = h\<lparr>dbqry := (dbqry h)\<lparr>Query := Query (dbqry h) @ s, Values := Values (dbqry h) @ vs\<rparr>,
     complexity := complexity h + int n\<rparr>"

lemma emit_emit [simp]: "emit s2 v2 n2 (emit s1 v1 n1 h) = emit (s1 @ s2) (v1 @ v2) (n1 + n2) h"
  by (simp add: emit_def)

lemma emit_sel [simp]:
  "complexity (emit s v n h) = complexity h + int n"
  "openBraces (emit s v n h) = openBraces h"
  "ValidColumns (dbqry (emit s v n h)) = ValidColumns (dbqry h)"
  "Query (dbqry (emit s v n h)) = Query (dbqry h) @ s"
  "Values (dbqry (emit s v n h)) = Values (dbqry h) @ v"
  by (simp_all add: emit_def)

lemma emit_braces [simp]: "(emit s v n h)\<lparr>openBraces := b\<rparr> = emit s v n (h\<lparr>openBraces := b\<rparr>)"
  by (simp add: emit_def)

lemma families_distinct:
  "distinct [BraceTokenFamily, ValueTokenFamily, QuotedValueTokenFamily, LogicalOpTokenFamily,
     ColumnTokenFamily, OpTokenFamily]"
  "distinct [OpTokenFamily, ColumnTokenFamily, LogicalOpTokenFamily, QuotedValueTokenFamily,
     ValueTokenFamily, BraceTokenFamily]"
  by (simp_all add: family_defs)

lemmas family_neq = families_distinct [simplified]

lemma family_column:
  "on_family rcap h ColumnTokenFamily tok md =
     (if to_lower tok \<in> set (ValidColumns (dbqry h)) then (Inr md, emit (to_lower tok) [] 0 h)
      else (Inl (ParseErr (''invalid column name: '' @ [CHR 39] @ tok @ [CHR 39])), h))"
  by (simp add: on_family_def onNewToken_handler_def family_neq Let_def emit_def add_query_def)

lemma family_op: "on_family rcap h OpTokenFamily tok md = (Inr md, emit ('' '' @ tok) [] 0 h)"
  by (simp add: on_family_def onNewToken_handler_def family_neq emit_def add_query_def)

lemma family_value: "on_family rcap h ValueTokenFamily tok md = (Inr md, emit '' ?'' [tok] 0 h)"
  by (simp add: on_family_def onNewToken_handler_def family_neq emit_def add_query_def add_value_def)

lemma family_quoted:
  "on_family rcap h QuotedValueTokenFamily tok md = (case unquote rcap tok of
     Inl e \<Rightarrow> (Inl e, emit '' ?'' [] 0 h) | Inr v \<Rightarrow> (Inr md, emit '' ?'' [v] 0 h))"
  by (simp add: on_family_def onNewToken_handler_def family_neq emit_def add_query_def add_value_def
      split: sum.splits)

lemma family_logical:
  "on_family rcap h LogicalOpTokenFamily tok md =
     (if complexity h + 1 > MaximumComplexity then (Inl joins_exceeded, h\<lparr>complexity := complexity h + 1\<rparr>)
      else (Inr md, emit ('' '' @ tok @ '' '') [] 1 h))"
  by (simp add: on_family_def onNewToken_handler_def family_neq Let_def emit_def add_query_def)

lemma family_open:
  "0 \<le> openBraces h \<Longrightarrow> on_family rcap h BraceTokenFamily ''('' md =
     (Inr md, emit ''('' [] 0 (h\<lparr>openBraces := openBraces h + 1\<rparr>))"
  by (simp add: on_family_def onNewToken_handler_def countOpenBraces_def Let_def emit_def add_query_def)

lemma family_close:
  "on_family rcap h BraceTokenFamily '')'' md =
     (if openBraces h < 1 then (Inl (ParseErr (''unexpected '' @ [CHR 39] @ '')'' @ [CHR 39])), h\<lparr>openBraces := openBraces h - 1\<rparr>)
      else (Inr md, emit '')'' [] 0 (h\<lparr>openBraces := openBraces h - 1\<rparr>)))"
  by (simp add: on_family_def onNewToken_handler_def countOpenBraces_def Let_def emit_def add_query_def)

lemmas family_simps = family_column family_op family_value family_quoted family_logical family_open family_close

subsection \<open>Well-formed queries are accepted\<close>

definition admissible :: "(nat \<Rightarrow> nat) \<Rightarrow> parser_state \<Rightarrow> query \<Rightarrow> bool" where
  "admissible rcap h q \<longleftrightarrow> wf_query q \<and> set (query_cols q) \<subseteq> set (ValidColumns (dbqry h)) \<and>
     (\<forall>v\<in>set (query_vals q). bindable rcap v) \<and> complexity h + int (query_joins q) \<le> MaximumComplexity"

definition admissible_term :: "(nat \<Rightarrow> nat) \<Rightarrow> parser_state \<Rightarrow> qterm \<Rightarrow> bool" where
  "admissible_term rcap h t \<longleftrightarrow> wf_term t \<and> set (term_cols t) \<subseteq> set (ValidColumns (dbqry h)) \<and>
     (\<forall>v\<in>set (term_vals t). bindable rcap v) \<and> complexity h + int (term_joins t) \<le> MaximumComplexity"

definition emit_query :: "(nat \<Rightarrow> nat) \<Rightarrow> query \<Rightarrow> parser_state \<Rightarrow> parser_state" where
  "emit_query rcap q = emit (render_query q) (map (bound_text rcap) (query_vals q)) (query_joins q)"

definition emit_term :: "(nat \<Rightarrow> nat) \<Rightarrow> qterm \<Rightarrow> parser_state \<Rightarrow> parser_state" where
  "emit_term rcap t = emit (render_term t) (map (bound_text rcap) (term_vals t)) (term_joins t)"

lemma run_value:
  "wf_value v \<Longrightarrow> bindable rcap v \<Longrightarrow>
   ref_run rcap ExpValue (value_tok v # rest) h = ref_run rcap ExpConnective rest (emit '' ?'' [bound_text rcap v] 0 h)"
  by (cases v) (auto simp: plain_not_quoted family_simps bindable_def bound_text_def)

lemma run_column_operator:
  "is_column c \<Longrightarrow> to_lower c \<in> set (ValidColumns (dbqry h)) \<Longrightarrow> is_operator oper \<Longrightarrow>
   ref_run rcap ExpOperand (c # oper # ts) h = ref_run rcap ExpValue ts (emit (to_lower c @ '' '' @ oper) [] 0 h)"
  by (simp add: family_simps)

lemma run_accepts:
  "admissible rcap h q \<Longrightarrow> 0 \<le> openBraces h \<Longrightarrow>
     ref_run rcap ExpOperand (query_toks q @ rest) h = ref_run rcap ExpConnective rest (emit_query rcap q h)"
  "admissible_term rcap h t \<Longrightarrow> 0 \<le> openBraces h \<Longrightarrow>
     ref_run rcap ExpOperand (term_toks t @ rest) h = ref_run rcap ExpConnective rest (emit_term rcap t h)"
proof (induction q and t arbitrary: h rest and h rest)
  case (Single t)
  then show ?case by (simp add: admissible_def admissible_term_def emit_query_def emit_term_def)
next
  case (Join t l q)
  have t: "admissible_term rcap h t" and l: "is_logical l" "\<not> complexity h + int (term_joins t) + 1 > MaximumComplexity"
    and q: "admissible rcap (emit ('' '' @ l @ '' '') [] 1 (emit_term rcap t h)) q"
    using Join.prems(1) by (auto simp: admissible_def admissible_term_def emit_term_def)
  then show ?case using Join.IH(1) [OF t Join.prems(2)] Join.IH(2) [OF q] Join.prems(2)
    by (simp add: family_simps emit_term_def emit_query_def add.assoc)
next
  case (Cmp c oper v)
  then show ?case
    by (simp add: admissible_term_def emit_term_def run_column_operator run_value del: ref_run.simps(2))
next
  case (Paren q)
  have "admissible rcap (emit ''('' [] 0 (h\<lparr>openBraces := openBraces h + 1\<rparr>)) q"
    using Paren.prems(1) by (simp add: admissible_term_def admissible_def)
  then show ?case using Paren.IH [of "emit ''('' [] 0 (h\<lparr>openBraces := openBraces h + 1\<rparr>)"] Paren.prems(2)
   
    by (auto simp: family_simps emit_term_def emit_query_def)
qed

subsection \<open>Accepted token lists are well-formed queries\<close>

definition sentence_prefix :: "(nat \<Rightarrow> nat) \<Rightarrow> parser_state \<Rightarrow> string list \<Rightarrow> bool" where
  "sentence_prefix rcap h ts \<longleftrightarrow>
     (\<exists>q rest. ts = query_toks q @ rest \<and> admissible rcap h q \<and> (rest = [] \<or> hd rest = '')''))"

definition accepting :: "(nat \<Rightarrow> nat) \<Rightarrow> mode \<Rightarrow> string list \<Rightarrow> parser_state \<Rightarrow> bool" where
  "accepting rcap md ts h \<longleftrightarrow>
     (\<exists>h'. ref_run rcap md ts h = (Inr ExpConnective, h') \<and> openBraces h' \<le> 0)"

lemma accepting_step:
  "accepting rcap md (x # ts) h \<longleftrightarrow>
     (\<exists>md' h'. ref_step rcap md x h = (Inr md', h') \<and> accepting rcap md' ts h')"
  by (auto simp: accepting_def split: prod.splits sum.splits)

lemma accepting_Nil: "accepting rcap md [] h \<longleftrightarrow> md = ExpConnective \<and> openBraces h \<le> 0"
  by (simp add: accepting_def)

lemma accepting_after_query:
  "admissible rcap h q \<Longrightarrow> 0 \<le> openBraces h \<Longrightarrow>
   accepting rcap ExpOperand (query_toks q @ rest) h \<longleftrightarrow> accepting rcap ExpConnective rest (emit_query rcap q h)"
  by (simp add: accepting_def run_accepts)

lemma after_term:
  assumes IH: "\<And>ts' h2. length ts' < length r \<Longrightarrow> accepting rcap ExpOperand ts' h2 \<Longrightarrow>
      0 \<le> openBraces h2 \<Longrightarrow> complexity h2 \<le> MaximumComplexity \<Longrightarrow> sentence_prefix rcap h2 ts'"
    and t: "admissible_term rcap h t" and run: "accepting rcap ExpConnective r (emit_term rcap t h)"
    and ob: "0 \<le> openBraces h"
  shows "sentence_prefix rcap h (term_toks t @ r)"
proof -
  have single: "admissible rcap h (Single t)" using t by (simp add: admissible_def admissible_term_def)
  show ?thesis
  proof (cases "r = [] \<or> hd r = '')''")
    case True
    then show ?thesis using single unfolding sentence_prefix_def by (metis query_toks.simps(1))
  next
    case False
    then obtain l r' where r: "r = l # r'" and l: "l \<noteq> '')''" by (cases r) auto
    define h2 where "h2 = emit ('' '' @ l @ '' '') [] 1 (emit_term rcap t h)"
    have lg: "is_logical l" and c: "\<not> complexity h + int (term_joins t) + 1 > MaximumComplexity"
      and run2: "accepting rcap ExpOperand r' h2"
      using run l by (auto simp: r accepting_step family_simps emit_term_def h2_def split: if_splits)
    obtain q rest where q: "r' = query_toks q @ rest" "admissible rcap h2 q" "rest = [] \<or> hd rest = '')''"
      using IH [OF _ run2] ob c by (auto simp: r h2_def emit_term_def sentence_prefix_def)
    have "admissible rcap h (Join t l q)"
      using t q(2) lg by (auto simp: admissible_def admissible_term_def h2_def emit_term_def)
    then show ?thesis using q(1,3) r unfolding sentence_prefix_def
      by (intro exI [of _ "Join t l q"] exI [of _ rest]) simp
  qed
qed

lemma run_comparison:
  assumes "accepting rcap ExpOperand (c # ts) h" "is_column c" "complexity h \<le> MaximumComplexity"
  obtains oper v r where "ts = oper # value_tok v # r" "admissible_term rcap h (Cmp c oper v)"
    "accepting rcap ExpConnective r (emit_term rcap (Cmp c oper v) h)"
proof -
  have c: "to_lower c \<in> set (ValidColumns (dbqry h))"
    and r1: "accepting rcap ExpOperator ts (emit (to_lower c) [] 0 h)"
    using assms by (auto simp: accepting_step family_simps split: if_splits)
  obtain oper ts2 where ts: "ts = oper # ts2" using r1 by (cases ts) (auto simp: accepting_Nil)
  have o: "is_operator oper" and r2: "accepting rcap ExpValue ts2 (emit (to_lower c @ '' '' @ oper) [] 0 h)"
    using r1 by (auto simp: ts accepting_step family_simps split: if_splits)
  obtain x r where ts2: "ts2 = x # r" using r2 by (cases ts2) (auto simp: accepting_Nil)
  show thesis
  proof (cases "is_quoted x")
    case True
    then show thesis using that [of oper "Quoted x" r] assms c o r2
      by (auto simp: ts ts2 accepting_step family_simps admissible_term_def emit_term_def bindable_def
          bound_text_def split: sum.splits if_splits)
  next
    case False
    then show thesis using that [of oper "Plain x" r] assms c o r2
      by (auto simp: ts ts2 accepting_step family_simps admissible_term_def emit_term_def bindable_def
          bound_text_def split: sum.splits if_splits)
  qed
qed

lemma run_paren:
  assumes run: "accepting rcap ExpOperand (''('' # ts) h" and ob: "0 \<le> openBraces h"
    and p: "sentence_prefix rcap (emit ''('' [] 0 (h\<lparr>openBraces := openBraces h + 1\<rparr>)) ts"
  obtains q r where "ts = query_toks q @ '')'' # r" "admissible_term rcap h (Paren q)"
    "accepting rcap ExpConnective r (emit_term rcap (Paren q) h)"
proof -
  define h1 where "h1 = emit ''('' [] 0 (h\<lparr>openBraces := openBraces h + 1\<rparr>)"
  have r1: "accepting rcap ExpOperand ts h1"
    using run ob by (auto simp: accepting_step family_simps h1_def)
  obtain q rest where q: "ts = query_toks q @ rest" "admissible rcap h1 q" "rest = [] \<or> hd rest = '')''"
    using p by (auto simp: sentence_prefix_def h1_def)
  have r2: "accepting rcap ExpConnective rest (emit_query rcap q h1)"
    using r1 accepting_after_query [OF q(2), of rest] ob by (simp add: q(1) h1_def)
  then have "rest \<noteq> []" using ob by (auto simp: accepting_Nil emit_query_def h1_def)
  then obtain r where r: "rest = '')'' # r" using q(3) by (cases rest) auto
  have "accepting rcap ExpConnective r (emit_term rcap (Paren q) h)"
    using r2 ob
    by (auto simp: r accepting_step family_simps emit_query_def emit_term_def h1_def split: if_splits)
  moreover have "admissible_term rcap h (Paren q)"
    using q(2) by (simp add: admissible_def admissible_term_def h1_def)
  ultimately show thesis using that q(1) r by blast
qed

lemma run_sound:
  "accepting rcap ExpOperand ts h \<Longrightarrow> 0 \<le> openBraces h \<Longrightarrow> complexity h \<le> MaximumComplexity \<Longrightarrow>
     sentence_prefix rcap h ts"
proof (induction "length ts" arbitrary: ts h rule: less_induct)
  case less
  obtain x ts1 where ts: "ts = x # ts1" using less.prems(1) by (cases ts) (auto simp: accepting_Nil)
  have "is_column x \<or> x = ''(''" using less.prems(1) by (auto simp: ts accepting_step split: if_splits)
  then show ?case
  proof
    assume c: "is_column x"
    obtain oper v r where t: "ts1 = oper # value_tok v # r" "admissible_term rcap h (Cmp x oper v)"
      "accepting rcap ExpConnective r (emit_term rcap (Cmp x oper v) h)"
      using run_comparison [OF less.prems(1) [unfolded ts] c less.prems(3)] by blast
    show ?thesis using after_term [OF less.hyps t(2,3) less.prems(2)] by (simp add: ts t(1))
  next
    assume x: "x = ''(''"
    let ?h1 = "emit ''('' [] 0 (h\<lparr>openBraces := openBraces h + 1\<rparr>)"
    have "accepting rcap ExpOperand ts1 ?h1"
      using less.prems by (auto simp: ts x accepting_step family_simps)
    then have "sentence_prefix rcap ?h1 ts1" using less.hyps [of ts1 ?h1] less.prems by (simp add: ts)
    then obtain q r where t: "ts1 = query_toks q @ '')'' # r" "admissible_term rcap h (Paren q)"
      "accepting rcap ExpConnective r (emit_term rcap (Paren q) h)"
      using run_paren less.prems(1,2) unfolding ts x by blast
    show ?thesis using after_term [OF less.hyps t(2,3) less.prems(2)] by (simp add: ts x t(1))
  qed
qed

lemma accepting_iff:
  assumes "openBraces h = 0" "complexity h \<le> MaximumComplexity"
  shows "accepting rcap ExpOperand ts h \<longleftrightarrow> (\<exists>q. ts = query_toks q \<and> admissible rcap h q)"
proof
  assume run: "accepting rcap ExpOperand ts h"
  obtain q rest where q: "ts = query_toks q @ rest" "admissible rcap h q" "rest = [] \<or> hd rest = '')''"
    using run_sound [OF run] assms by (auto simp: sentence_prefix_def)
  have "accepting rcap ExpConnective rest (emit_query rcap q h)"
    using run accepting_after_query [OF q(2)] assms by (simp add: q(1))
  then have "rest = []" using q(3) assms
    by (cases rest) (auto simp: accepting_step family_simps emit_query_def)
  then show "\<exists>q. ts = query_toks q \<and> admissible rcap h q" using q by auto
next
  assume "\<exists>q. ts = query_toks q \<and> admissible rcap h q"
  then obtain q where q: "ts = query_toks q" "admissible rcap h q" by blast
  then show "accepting rcap ExpOperand ts h"
    using accepting_after_query [OF q(2), of "[]"] assms by (simp add: accepting_Nil emit_query_def)
qed

subsection \<open>The result of Parse\<close>

lemma trim_char_id: "s \<noteq> [] \<Longrightarrow> hd s \<noteq> c \<Longrightarrow> last s \<noteq> c \<Longrightarrow> trim_char c s = s"
  by (simp add: trim_char_def trim_left_char_id trim_right_char_id)

lemma lower_letter: "in_class (CharClass False letters) c \<Longrightarrow> to_lower_char c \<noteq> CHR '' ''"
proof
  assume l: "in_class (CharClass False letters) c" "to_lower_char c = CHR '' ''"
  have "char_code (to_lower_char c) = (if 65 \<le> char_code c \<and> char_code c \<le> 90 then char_code c + 32 else char_code c)"
    by (simp add: to_lower_char_def)
  with l show False by (auto simp: in_class_def letters_def split: if_splits)
qed

lemma column_lower_hd: "is_column c \<Longrightarrow> to_lower c \<noteq> [] \<and> hd (to_lower c) \<noteq> CHR '' ''"
  by (auto simp: is_column_def column_pattern_def match_Class_Star to_lower_def lower_letter)

lemma render_ends:
  "wf_query q \<Longrightarrow> render_query q \<noteq> [] \<and> hd (render_query q) \<noteq> CHR '' '' \<and> last (render_query q) \<noteq> CHR '' ''"
  "wf_term t \<Longrightarrow> render_term t \<noteq> [] \<and> hd (render_term t) \<noteq> CHR '' '' \<and> last (render_term t) \<noteq> CHR '' ''"
  by (induction q and t) (auto simp: column_lower_hd)

lemma trim_render: "wf_query q \<Longrightarrow> trim_char (CHR '' '') (render_query q) = render_query q"
  using render_ends(1) trim_char_id by blast

definition init_state :: "DBQuery \<Rightarrow> parser_state" where
  "init_state q = \<lparr>dbqry = q, complexity = 0, openBraces = 0\<rparr>"

lemma parse_tokens_accepting:
  assumes "k \<in> machine_keys"
  shows "accepting rcap (mode_of k) (map TokValue ts) h \<longleftrightarrow>
    (\<exists>k' h'. parse_tokens (machine rcap) k ts h = (Inr k', h') \<and> k' \<in> machine_keys \<and>
       mode_of k' = ExpConnective \<and> openBraces h' \<le> 0 \<and>
       ref_run rcap (mode_of k) (map TokValue ts) h = (Inr ExpConnective, h'))"
  using tokens_simulate [OF assms, of rcap ts h]
  by (auto simp: accepting_def split: prod.splits sum.splits)

lemma parse_finish_Inr:
  "k \<in> machine_keys \<Longrightarrow> (\<exists>q. fst (parse_finish (machine rcap) k h) = Inr q) \<longleftrightarrow>
     mode_of k = ExpConnective \<and> openBraces h \<le> 0"
  using machine_last [of k rcap]
  by (auto simp: parse_finish_def state_eof_def checkUnbalancedBraces_def Let_def split: if_splits)

lemma parse_finish_val:
  "k \<in> machine_keys \<Longrightarrow> mode_of k = ExpConnective \<Longrightarrow> openBraces h \<le> 0 \<Longrightarrow>
   fst (parse_finish (machine rcap) k h) = Inr ((dbqry h)\<lparr>Query := trim_char (CHR '' '') (Query (dbqry h))\<rparr>)"
  using machine_last [of k rcap]
  by (auto simp: parse_finish_def state_eof_def checkUnbalancedBraces_def Let_def)

lemma Parse_unfold:
  "Parse rcap q sql = (case parse_tokens (machine rcap) StartState (scan_tokens sql) (init_state q) of
     (Inl e, h) \<Rightarrow> (Inl e, dbqry h) | (Inr k, h) \<Rightarrow> parse_finish (machine rcap) k h)"
  by (simp add: Parse_def initStateMachine_Some parse_loop_tokens init_state_def)

lemma Parse_accepts:
  assumes "map TokValue (scan_tokens sql) = query_toks a" "admissible rcap (init_state q) a"
  shows "fst (Parse rcap q sql) =
    Inr (q\<lparr>Query := trim_char (CHR '' '') (Query q @ render_query a),
           Values := Values q @ map (bound_text rcap) (query_vals a)\<rparr>)"
proof -
  have "accepting rcap ExpOperand (query_toks a) (init_state q)"
    using accepting_iff [of "init_state q" rcap] assms by (auto simp: init_state_def MaximumComplexity_def)
  then obtain k h where k: "parse_tokens (machine rcap) StartState (scan_tokens sql) (init_state q) = (Inr k, h)"
    "k \<in> machine_keys" "mode_of k = ExpConnective" "openBraces h \<le> 0"
    "ref_run rcap ExpOperand (query_toks a) (init_state q) = (Inr ExpConnective, h)"
    using parse_tokens_accepting [of StartState rcap "scan_tokens sql" "init_state q"] assms(1) by auto
  have "h = emit_query rcap a (init_state q)"
    using run_accepts(1) [OF assms(2), of "[]"] k(5) by (simp add: init_state_def)
  then have h: "dbqry h = q\<lparr>Query := Query q @ render_query a, Values := Values q @ map (bound_text rcap) (query_vals a)\<rparr>"
    by (simp add: emit_query_def emit_def init_state_def)
  show ?thesis using parse_finish_val [OF k(2-4), of rcap] by (simp add: Parse_unfold k(1) h)
qed

lemma Parse_accepted:
  assumes "fst (Parse rcap q sql) = Inr db"
  shows "\<exists>a. map TokValue (scan_tokens sql) = query_toks a \<and> admissible rcap (init_state q) a"
proof -
  obtain k h where p: "parse_tokens (machine rcap) StartState (scan_tokens sql) (init_state q) = (Inr k, h)"
    "fst (parse_finish (machine rcap) k h) = Inr db"
    using assms by (auto simp: Parse_unfold split: prod.splits sum.splits)
  have k: "k \<in> machine_keys"
    "ref_run rcap ExpOperand (map TokValue (scan_tokens sql)) (init_state q) = (Inr (mode_of k), h)"
    using tokens_simulate [of StartState rcap "scan_tokens sql" "init_state q"] p(1) by auto
  have "accepting rcap ExpOperand (map TokValue (scan_tokens sql)) (init_state q)"
    using k p(2) parse_finish_Inr [OF k(1)] by (auto simp: accepting_def)
  then show ?thesis using accepting_iff [of "init_state q" rcap]
    by (auto simp: init_state_def MaximumComplexity_def)
qed

end
