(* ===== verification/Query_Roundtrip.thy ===== *)
theory Query_Roundtrip
  imports Query_Grammar
begin

text \<open>
  Printing a query and scanning it back. The scanner is first abstracted to the values it emits
  (positions dropped); then each token class followed by a space is shown to be scanned as
  itself, and a quoted literal to be bound to the text that was quoted.
\<close>

type_synonym scan_view = "string list \<times> string \<times> token_type \<times> bool \<times> bool"

definition view :: "scan_state \<Rightarrow> scan_view" where
  "view st = (map TokValue (out_tokens st), concat (map TokValue (cur_tokens st)),
     currentTokenType st, quoted st, escaped st)"

definition vsend :: "scan_view \<Rightarrow> scan_view" where
  "vsend v = (case v of (outs, cur, ty, q, e) \<Rightarrow> (if cur \<noteq> [] then outs @ [cur] else outs, [], NoToken, q, e))"

definition vliteral :: "scan_view \<Rightarrow> char \<Rightarrow> scan_view" where
  "vliteral v c = (case (if fst (snd (snd v)) \<in> {NoToken, Literal, QuotedLiteral} then v else vsend v) of
     (outs, cur, ty, q, e) \<Rightarrow> (outs, cur @ [c], Literal, q, e))"

definition vstep :: "scan_view \<Rightarrow> char \<Rightarrow> scan_view" where
  "vstep v c = (case v of (outs, cur, ty, q, e) \<Rightarrow>
     if c = CHR '' '' then (if q then (outs, cur @ [c], ty, q, e) else vsend v)
     else if is_paren c then (case vsend v of (outs', cur', ty', q', e') \<Rightarrow> (outs' @ [[c]], cur', ty', q', e'))
     else if c \<in> {CHR ''='', CHR ''<'', CHR ''>''} then
       (case (if ty \<noteq> NoToken \<and> ty \<noteq> Op then vsend v else v) of
          (outs', cur', ty', q', e') \<Rightarrow> (outs', cur' @ [c], Op, q', e'))
     else if c = CHR 92 then (if q then (outs, cur @ [c], ty, q, True) else vliteral v c)
     else if c = CHR 39 then
       (if q then
          (if \<not> e then (case vsend (outs, cur @ [c], ty, q, e) of (outs', cur', ty', q', e') \<Rightarrow> (outs', cur', NoToken, False, False))
           else (outs, cur @ [c], ty, q, False))
        else (case vsend v of (outs', cur', ty', q', e') \<Rightarrow> (outs', cur' @ [c], QuotedLiteral, True, e')))
     else vliteral v c)"

lemma view_send: "view (sendCurrentTokens st) = vsend (view st)"
  by (simp add: view_def vsend_def sendCurrentTokens_def Let_def)

lemma view_append: "view (append_cur t st) = (case view st of (outs, cur, r) \<Rightarrow> (outs, cur @ TokValue t, r))"
  by (simp add: view_def append_cur_def)

lemma view_literal: "view (scan_literal i [c] st) = vliteral (view st) c"
  by (auto simp: scan_literal_def Let_def view_append vliteral_def view_send [symmetric])
    (auto simp: view_def)

lemma view_step: "char_code c < 128 \<Longrightarrow> view (scan_char st (i, of_char c)) = vstep (view st) c"
proof -
  assume c: "char_code c < 128"
  have code: "char_code c = of_char d \<longleftrightarrow> c = d" for d by simp
  have sp: "view (scan_space i st) = vstep (view st) (CHR '' '')"
    by (auto simp: scan_space_def vstep_def view_append view_send) (auto simp: view_def)
  have br: "is_paren c \<Longrightarrow> view (scan_brace i (char_code c) st) = vstep (view st) c"
    using c by (auto simp: scan_brace_def vstep_def Let_def view_def vsend_def sendCurrentTokens_def)
  have op: "c \<in> {CHR ''='', CHR ''<'', CHR ''>''} \<Longrightarrow> view (scan_op i (char_code c) st) = vstep (view st) c"
    using c by (auto simp: scan_op_def vstep_def Let_def view_def append_cur_def vsend_def sendCurrentTokens_def)
  have bs: "view (scan_backslash i st) = vstep (view st) (CHR 92)"
    using view_literal [of i "CHR 92" st] by (auto simp: scan_backslash_def vstep_def view_def append_cur_def)
  have qu: "view (scan_quote i st) = vstep (view st) (CHR 39)"
    by (auto simp: scan_quote_def vstep_def Let_def view_def append_cur_def vsend_def sendCurrentTokens_def)
  have li: "\<not> is_paren c \<Longrightarrow> c \<notin> {CHR '' '', CHR ''='', CHR ''<'', CHR ''>'', CHR 92, CHR 39} \<Longrightarrow>
      vstep (view st) c = vliteral (view st) c"
    by (simp add: vstep_def split: prod.splits)
  show ?thesis
    using sp br op bs qu li view_literal [of i c st] encode_rune_ascii [OF c]
    unfolding scan_char_def prod.case code by auto
qed

lemma view_fold_ascii: "ascii s \<Longrightarrow> view (foldl scan_char st (runes_from i s)) = foldl vstep (view st) s"
  by (induction s arbitrary: st i) (simp_all add: view_step)

lemma scan_values_ascii:
  "ascii s \<Longrightarrow> map TokValue (scan_tokens s) = fst (vsend (foldl vstep ([], [], NoToken, False, False) s))"
proof -
  assume s: "ascii s"
  have "map TokValue (scan_tokens s) =
      fst (view (sendCurrentTokens (foldl scan_char (scan_init []) (runes_from 0 s))))"
    by (simp add: scanner_Init_def NewScanner_def view_def)
  also have "\<dots> = fst (vsend (foldl vstep (view (scan_init [])) s))"
    using s by (simp add: view_send view_fold_ascii)
  finally show ?thesis by (simp add: view_def scan_init_def)
qed

subsection \<open>Tokens that scan as themselves\<close>

abbreviation idle :: "string list \<Rightarrow> scan_view" where
  "idle outs \<equiv> (outs, [], NoToken, False, False)"

definition literal_char :: "char \<Rightarrow> bool" where
  "literal_char c \<longleftrightarrow> \<not> is_paren c \<and> c \<notin> {CHR '' '', CHR ''='', CHR ''<'', CHR ''>'', CHR 39}"

text \<open>The text between the quotes: no character that ends the token or starts an operator, and a
  backslash only in front of a quote.\<close>

fun quoted_body :: "string \<Rightarrow> bool" where
  "quoted_body [] = True"
| "quoted_body (c # s) =
     (if c = CHR 92 then (case s of [] \<Rightarrow> False | d # s' \<Rightarrow> d = CHR 39 \<and> quoted_body s')
      else (literal_char c \<or> c = CHR '' '') \<and> quoted_body s)"

definition scannable :: "string \<Rightarrow> bool" where
  "scannable t \<longleftrightarrow> t \<in> {''('', '')'', ''='', ''<>''} \<or> (t \<noteq> [] \<and> list_all literal_char t) \<or>
     (\<exists>b. t = [CHR 39] @ b @ [CHR 39] \<and> quoted_body b)"

lemma vstep_literals:
  "list_all literal_char w \<Longrightarrow> ty \<in> {NoToken, Literal} \<Longrightarrow>
   foldl vstep (outs, cur, ty, False, False) w = (outs, cur @ w, (if w = [] then ty else Literal), False, False)"
  by (induction w arbitrary: cur ty) (auto simp: vstep_def vliteral_def literal_char_def)

lemma vstep_body:
  "quoted_body b \<Longrightarrow> ty \<in> {QuotedLiteral, Literal} \<Longrightarrow>
   \<exists>ty'\<in>{QuotedLiteral, Literal}. foldl vstep (outs, cur, ty, True, False) b = (outs, cur @ b, ty', True, False)"
proof (induction b arbitrary: cur ty rule: quoted_body.induct)
  case (2 c s)
  show ?case
  proof (cases "c = CHR 92")
    case True
    then obtain s' where s: "s = CHR 39 # s'" "quoted_body s'"
      using 2(3) by (auto split: list.splits if_splits)
    have "foldl vstep (outs, cur, ty, True, False) (c # s) = foldl vstep (outs, cur @ [CHR 92, CHR 39], ty, True, False) s'"
      by (simp add: True s(1) vstep_def)
    then show ?thesis using 2(1) [OF True s(1) s(2) 2(4), of "cur @ [CHR 92, CHR 39]"] True s(1) by simp
  next
    case False
    then have b: "quoted_body s" "literal_char c \<or> c = CHR '' ''" using 2(3) by auto
    have "\<exists>ty'\<in>{QuotedLiteral, Literal}. vstep (outs, cur, ty, True, False) c = (outs, cur @ [c], ty', True, False)"
      using b(2) False 2(4) by (auto simp: vstep_def vliteral_def literal_char_def)
    then obtain ty1 where ty1: "ty1 \<in> {QuotedLiteral, Literal}"
      "vstep (outs, cur, ty, True, False) c = (outs, cur @ [c], ty1, True, False)" by blast
    show ?thesis using 2(2) [OF False b(1) ty1(1), of "cur @ [c]"] ty1(2) by simp
  qed
qed auto

lemma scan_one: "scannable t \<Longrightarrow> foldl vstep (idle outs) (t @ '' '') = idle (outs @ [t])"
proof -
  assume "scannable t"
  then consider "t \<in> {''('', '')'', ''='', ''<>''}" | "t \<noteq> []" "list_all literal_char t"
    | b where "t = [CHR 39] @ b @ [CHR 39]" "quoted_body b"
    by (auto simp: scannable_def)
  then show ?thesis
  proof cases
    case 1
    then show ?thesis by (auto simp: vstep_def vsend_def)
  next
    case 2
    then show ?thesis by (simp add: vstep_literals) (simp add: vstep_def vsend_def)
  next
    case 3
    have q: "vstep (idle outs) (CHR 39) = (outs, [CHR 39], QuotedLiteral, True, False)"
      by (simp add: vstep_def vsend_def)
    obtain ty' where "foldl vstep (outs, [CHR 39], QuotedLiteral, True, False) b = (outs, [CHR 39] @ b, ty', True, False)"
      using vstep_body [OF 3(2), of QuotedLiteral outs "[CHR 39]"] by auto
    then show ?thesis using q by (simp add: 3(1)) (simp add: vstep_def vsend_def)
  qed
qed

lemma scan_many:
  "list_all scannable ts \<Longrightarrow> foldl vstep (idle outs) (concat (map (\<lambda>t. t @ '' '') ts)) = idle (outs @ ts)"
proof (induction ts arbitrary: outs)
  case (Cons t ts)
  have "foldl vstep (idle outs) (concat (map (\<lambda>t. t @ '' '') (t # ts))) =
      foldl vstep (foldl vstep (idle outs) (t @ '' '')) (concat (map (\<lambda>t. t @ '' '') ts))"
    by (simp only: list.map concat.simps foldl_append)
  then show ?case using scan_one [of t outs] Cons by (simp del: foldl_Cons foldl_append)
qed simp

definition print_tokens :: "string list \<Rightarrow> string" where
  "print_tokens ts = concat (map (\<lambda>t. t @ '' '') ts)"

lemma scan_print:
  "list_all scannable ts \<Longrightarrow> list_all ascii ts \<Longrightarrow> map TokValue (scan_tokens (print_tokens ts)) = ts"
proof -
  assume t: "list_all scannable ts" "list_all ascii ts"
  have "ascii (print_tokens ts)" using t(2) by (induction ts) (auto simp: print_tokens_def)
  then show ?thesis using scan_many [OF t(1), of "[]"]
    by (simp add: scan_values_ascii) (simp add: print_tokens_def vsend_def)
qed

subsection \<open>Quoting a value\<close>

fun sql_escape :: "string \<Rightarrow> string" where
  "sql_escape [] = []"
| "sql_escape (c # s) = (if c = CHR 39 then [CHR 92, CHR 39] else [c]) @ sql_escape s"

definition sql_quote :: "string \<Rightarrow> string" where
  "sql_quote s = [CHR 39] @ sql_escape s @ [CHR 39]"

text \<open>The texts that survive quoting: ASCII without parentheses, comparison signs and backslashes.\<close>

definition quotable :: "string \<Rightarrow> bool" where
  "quotable s \<longleftrightarrow> ascii s \<and> list_all (\<lambda>c. c \<noteq> CHR 92 \<and> (literal_char c \<or> c = CHR 39 \<or> c = CHR '' '')) s"

lemma quotable_Cons:
  "quotable (c # s) \<longleftrightarrow>
     char_code c < 128 \<and> c \<noteq> CHR 92 \<and> (literal_char c \<or> c = CHR 39 \<or> c = CHR '' '') \<and> quotable s"
  by (auto simp: quotable_def)

lemma quotable_body: "quotable s \<Longrightarrow> quoted_body (sql_escape s)"
  by (induction s) (auto simp: quotable_Cons literal_char_def)

lemma ascii_sql_quote: "quotable s \<Longrightarrow> ascii (sql_quote s)"
proof -
  assume "quotable s"
  then have "ascii (sql_escape s)" by (induction s) (auto simp: quotable_Cons)
  then show ?thesis by (simp add: sql_quote_def)
qed

lemma scannable_sql_quote: "quotable s \<Longrightarrow> scannable (sql_quote s)"
  using quotable_body by (auto simp: scannable_def sql_quote_def)

definition quoted_char :: regexp where
  "quoted_char = Alt (Class (CharClass True [(CHR 39, CHR 39)])) (Seq (lit (CHR 92)) (lit (CHR 39)))"

lemma escaped_char: "re_match quoted_char (if c = CHR 39 then [CHR 92, CHR 39] else [c])"
  by (simp add: quoted_char_def match_Alt lit_def in_class_single)

lemma escape_in_star: "sql_escape s \<in> star_lang (re_lang quoted_char)"
proof (induction s)
  case Nil
  then show ?case by (simp add: star_lang.star_Nil)
next
  case (Cons c s)
  show ?case unfolding sql_escape.simps
    by (rule star_lang.star_step) (use escaped_char [of c] Cons in \<open>simp_all only: re_match_iff\<close>)
qed

lemma quoted_sql_quote: "is_quoted (sql_quote s)"
proof -
  have "re_match (Star quoted_char) (sql_escape s)" using escape_in_star by (simp add: re_match_iff)
  then show ?thesis unfolding is_quoted_def quoted_pattern_def quoted_char_def [symmetric] sql_quote_def match_Seq match_lit
    by blast
qed

lemma replace_escape: "quotable s \<Longrightarrow> replace_pair (CHR 92) (CHR 39) (CHR 39) (sql_escape s @ [CHR 39]) = s @ [CHR 39]"
proof (induction s)
  case (Cons c s)
  obtain d r where "sql_escape s @ [CHR 39] = d # r" by (cases "sql_escape s @ [CHR 39]") auto
  with Cons show ?case by (auto simp: quotable_Cons)
qed simp

lemma unquote_sql_quote:
  assumes "quotable s" "\<And>n. n \<le> rcap n"
  shows "unquote rcap (sql_quote s) = Inr s"
proof -
  have a: "ascii s" using assms(1) by (simp add: quotable_def)
  obtain d r where dr: "sql_escape s @ [CHR 39] = d # r" by (cases "sql_escape s @ [CHR 39]") auto
  have "replace_pair (CHR 92) (CHR 39) (CHR 39) (sql_quote s) = [CHR 39] @ s @ [CHR 39]"
    using replace_escape [OF assms(1)] by (simp add: sql_quote_def dr)
  moreover have "runes ([CHR 39] @ s @ [CHR 39]) = map of_char ([CHR 39] @ s @ [CHR 39])"
    using a by (intro runes_ascii) simp
  ultimately show ?thesis using assms(2) [of "Suc (Suc (length s))"] encode_runes_ascii [OF a]
    by (simp add: unquote_def Let_def)
qed

subsection \<open>Printing a query\<close>

text \<open>\<open>quote_query a\<close> reads the values of \<open>a\<close> as raw texts and quotes them.\<close>

fun quote_query :: "query \<Rightarrow> query" and quote_term :: "qterm \<Rightarrow> qterm" where
  "quote_query (Single t) = Single (quote_term t)"
| "quote_query (Join t l q) = Join (quote_term t) l (quote_query q)"
| "quote_term (Cmp c oper v) = Cmp c oper (Quoted (sql_quote (value_tok v)))"
| "quote_term (Paren q) = Paren (quote_query q)"

definition print_query :: "query \<Rightarrow> string" where
  "print_query a = print_tokens (query_toks (quote_query a))"

fun words_ok :: "query \<Rightarrow> bool" and words_ok_term :: "qterm \<Rightarrow> bool" where
  "words_ok (Single t) = words_ok_term t"
| "words_ok (Join t l q) = (words_ok_term t \<and> is_logical l \<and> words_ok q)"
| "words_ok_term (Cmp c oper v) = (is_column c \<and> is_operator oper \<and> quotable (value_tok v))"
| "words_ok_term (Paren q) = words_ok q"

lemma quote_shape:
  "render_query (quote_query q) = render_query q \<and> query_cols (quote_query q) = query_cols q \<and>
     query_joins (quote_query q) = query_joins q \<and>
     query_vals (quote_query q) = map (\<lambda>v. Quoted (sql_quote (value_tok v))) (query_vals q)"
  "render_term (quote_term t) = render_term t \<and> term_cols (quote_term t) = term_cols t \<and>
     term_joins (quote_term t) = term_joins t \<and>
     term_vals (quote_term t) = map (\<lambda>v. Quoted (sql_quote (value_tok v))) (term_vals t)"
  by (induction q and t) auto

lemma word_class_literal:
  "in_class (CharClass False word_chars) c \<Longrightarrow> literal_char c \<and> char_code c < 128"
  "in_class (CharClass False letters) c \<Longrightarrow> literal_char c \<and> char_code c < 128"
  by (auto simp: in_class_def word_chars_def letters_def literal_char_def)

lemma column_word: "is_column c \<Longrightarrow> scannable c \<and> ascii c"
  by (auto simp: is_column_def column_pattern_def match_Class_Star scannable_def ascii_def list_all_iff
      word_class_literal)

lemma both_cases_literal: "re_match (both_cases u l) s \<longleftrightarrow> s = [u] \<or> s = [l]"
  by (auto simp: both_cases_def match_Class in_class_def dest: order_antisym)

lemma keyword_word:
  "re_match like_pattern t \<or> is_logical t \<Longrightarrow> scannable t \<and> ascii t"
  by (auto simp: like_pattern_def is_logical_def and_pattern_def or_pattern_def match_Seq both_cases_literal
      scannable_def literal_char_def)

lemma operator_word: "is_operator t \<Longrightarrow> scannable t \<and> ascii t"
  using keyword_word [of t] by (auto simp: is_operator_def scannable_def)

lemma quote_tokens_ok:
  "words_ok q \<Longrightarrow> list_all (\<lambda>t. scannable t \<and> ascii t) (query_toks (quote_query q)) \<and> wf_query (quote_query q)"
  "words_ok_term t \<Longrightarrow> list_all (\<lambda>t. scannable t \<and> ascii t) (term_toks (quote_term t)) \<and> wf_term (quote_term t)"
proof (induction q and t)
  case (Paren q)
  then show ?case by (auto simp: scannable_def)
qed (auto simp: column_word operator_word keyword_word scannable_sql_quote ascii_sql_quote quoted_sql_quote)

lemma words_quotable:
  "words_ok q \<Longrightarrow> list_all (\<lambda>v. quotable (value_tok v)) (query_vals q)"
  "words_ok_term t \<Longrightarrow> list_all (\<lambda>v. quotable (value_tok v)) (term_vals t)"
  by (induction q and t) auto

lemma print_parse:
  assumes w: "words_ok a" and c: "set (query_cols a) \<subseteq> set (ValidColumns q)"
    and j: "int (query_joins a) \<le> MaximumComplexity" and r: "\<And>n. n \<le> rcap n"
  shows "map TokValue (scan_tokens (print_query a)) = query_toks (quote_query a)"
    "admissible rcap (init_state q) (quote_query a)"
    "map (bound_text rcap) (query_vals (quote_query a)) = map value_tok (query_vals a)"
proof -
  have u: "v \<in> set (query_vals a) \<Longrightarrow> unquote rcap (sql_quote (value_tok v)) = Inr (value_tok v)" for v
    using words_quotable(1) [OF w] unquote_sql_quote r by (auto simp: list_all_iff)
  show "map TokValue (scan_tokens (print_query a)) = query_toks (quote_query a)"
    unfolding print_query_def using quote_tokens_ok(1) [OF w] by (intro scan_print) (auto simp: list_all_iff)
  show "admissible rcap (init_state q) (quote_query a)"
    using quote_tokens_ok(1) [OF w] c j u by (auto simp: admissible_def quote_shape init_state_def bindable_def)
  show "map (bound_text rcap) (query_vals (quote_query a)) = map value_tok (query_vals a)"
    using u by (simp add: quote_shape bound_text_def)
qed

end
