(* ===== verification/Query_Correct.thy ===== *)
theory Query_Correct
  imports Query_Roundtrip
begin

text \<open>
  The properties of the query parser as its callers (the list endpoints, which hand \<^verbatim>\<open>Query\<close> and
  \<^verbatim>\<open>Values\<close> to the database) rely on them.
\<close>

subsection \<open>The shape of a rendered query\<close>

definition sql_char :: "char \<Rightarrow> bool" where
  "sql_char c \<longleftrightarrow> in_class (CharClass False word_chars) c \<or>
     c \<in> {CHR '' '', CHR ''('', CHR '')'', CHR ''?'', CHR ''='', CHR ''<'', CHR ''>''}"

definition occurrences :: "char \<Rightarrow> string \<Rightarrow> nat" where
  "occurrences c s = length (filter (\<lambda>d. d = c) s)"

lemma occurrences_simps [simp]:
  "occurrences c [] = 0"
  "occurrences c (d # s) = (if d = c then 1 else 0) + occurrences c s"
  "occurrences c (s @ t) = occurrences c s + occurrences c t"
  by (simp_all add: occurrences_def)

lemma word_lower: "in_class (CharClass False word_chars) c \<Longrightarrow> in_class (CharClass False word_chars) (to_lower_char c)"
proof -
  assume c: "in_class (CharClass False word_chars) c"
  have "char_code (to_lower_char c) = (if 65 \<le> char_code c \<and> char_code c \<le> 90 then char_code c + 32 else char_code c)"
    by (simp add: to_lower_char_def)
  with c show ?thesis by (auto simp: in_class_def word_chars_def letters_def)
qed

lemma letter_word: "in_class (CharClass False letters) c \<Longrightarrow> in_class (CharClass False word_chars) c"
  by (auto simp: in_class_def word_chars_def)

lemma column_chars: "is_column c \<Longrightarrow> list_all (in_class (CharClass False word_chars)) (to_lower c)"
  by (auto simp: is_column_def column_pattern_def match_Class_Star to_lower_def list_all_iff letter_word word_lower)

lemma keyword_chars:
  "re_match like_pattern t \<or> is_logical t \<Longrightarrow> list_all (in_class (CharClass False word_chars)) t"
  by (auto simp: like_pattern_def is_logical_def and_pattern_def or_pattern_def match_Seq both_cases_literal
      in_class_def word_chars_def letters_def)

lemma word_no_special:
  "list_all (in_class (CharClass False word_chars)) w \<Longrightarrow> d \<in> {CHR ''?'', CHR ''('', CHR '')''} \<Longrightarrow> occurrences d w = 0"
  by (auto simp: occurrences_def filter_empty_conv list_all_iff in_class_def word_chars_def letters_def)

lemma words_safe: "list_all (in_class (CharClass False word_chars)) w \<Longrightarrow> list_all sql_char w"
  by (auto simp: sql_char_def list_all_iff)

lemma operator_chars:
  "is_operator t \<Longrightarrow> list_all sql_char t \<and> occurrences (CHR ''?'') t = 0 \<and> occurrences (CHR ''('') t = 0 \<and> occurrences (CHR '')'') t = 0"
  using keyword_chars [of t] words_safe [of t]
  by (auto simp: is_operator_def word_no_special) (simp_all add: sql_char_def)

lemma logical_chars:
  "is_logical t \<Longrightarrow> list_all sql_char t \<and> occurrences (CHR ''?'') t = 0 \<and> occurrences (CHR ''('') t = 0 \<and> occurrences (CHR '')'') t = 0"
  using keyword_chars [of t] words_safe [of t] by (auto simp: word_no_special)

definition safe_render :: "string \<Rightarrow> nat \<Rightarrow> bool" where
  "safe_render s n \<longleftrightarrow> list_all sql_char s \<and> occurrences (CHR ''?'') s = n \<and>
     occurrences (CHR ''('') s = occurrences (CHR '')'') s"

lemma render_safe:
  "wf_query q \<Longrightarrow> safe_render (render_query q) (length (query_vals q))"
  "wf_term t \<Longrightarrow> safe_render (render_term t) (length (term_vals t))"
proof (induction q and t)
  case (Cmp c oper v)
  then show ?case using operator_chars [of oper] column_chars [of c] words_safe [of "to_lower c"]
    by (auto simp: safe_render_def word_no_special) (simp_all add: sql_char_def)
next
  case (Join t l q)
  then show ?case using logical_chars [of l] by (auto simp: safe_render_def sql_char_def)
qed (auto simp: safe_render_def sql_char_def)

lemma vals_joins:
  "length (query_vals q) = Suc (query_joins q)" "length (term_vals t) = Suc (term_joins t)"
  by (induction q and t) auto

subsection \<open>Properties\<close>

definition is_sentence :: "(nat \<Rightarrow> nat) \<Rightarrow> string list \<Rightarrow> query \<Rightarrow> string \<Rightarrow> bool" where
  "is_sentence rcap cols a sql \<longleftrightarrow>
     query_toks a = map TokValue (scan_tokens sql) \<and> wf_query a \<and>
     set (query_cols a) \<subseteq> set cols \<and> list_all (bindable rcap) (query_vals a) \<and>
     int (query_joins a) \<le> MaximumComplexity"

lemma is_sentence_admissible:
  "is_sentence rcap (ValidColumns q) a sql \<longleftrightarrow>
     map TokValue (scan_tokens sql) = query_toks a \<and> admissible rcap (init_state q) a"
  by (auto simp: is_sentence_def admissible_def init_state_def list_all_iff)

text \<open>C1: the parser accepts exactly the sentences of the grammar. \<open>Parse\<close> on a fresh parser
  returns a query iff the scanned tokens are those of a well-formed tree whose columns are
  admissible, whose quoted values can be unquoted and that has at most ten joins; the returned
  condition is the rendering of that tree and the bound values are the values of the tree.\<close>

theorem parse_exact:
  "fst (Parse rcap (NewQueryParser cols) sql) = Inr db \<longleftrightarrow>
     (\<exists>a. is_sentence rcap (ValidColumns (NewQueryParser cols)) a sql \<and>
          db = \<lparr>Query = render_query a, Values = map (bound_text rcap) (query_vals a),
                ValidColumns = ValidColumns (NewQueryParser cols)\<rparr>)"
proof
  assume p: "fst (Parse rcap (NewQueryParser cols) sql) = Inr db"
  then obtain a where a: "map TokValue (scan_tokens sql) = query_toks a"
    "admissible rcap (init_state (NewQueryParser cols)) a" using Parse_accepted by blast
  then have "wf_query a" by (simp add: admissible_def)
  with p Parse_accepts [OF a] a show "\<exists>a. is_sentence rcap (ValidColumns (NewQueryParser cols)) a sql \<and>
     db = \<lparr>Query = render_query a, Values = map (bound_text rcap) (query_vals a),
           ValidColumns = ValidColumns (NewQueryParser cols)\<rparr>"
    unfolding is_sentence_admissible by (intro exI [of _ a]) (auto simp: NewQueryParser_def trim_render)
next
  assume "\<exists>a. is_sentence rcap (ValidColumns (NewQueryParser cols)) a sql \<and>
     db = \<lparr>Query = render_query a, Values = map (bound_text rcap) (query_vals a),
           ValidColumns = ValidColumns (NewQueryParser cols)\<rparr>"
  then obtain a where a: "map TokValue (scan_tokens sql) = query_toks a"
    "admissible rcap (init_state (NewQueryParser cols)) a"
    "db = \<lparr>Query = render_query a, Values = map (bound_text rcap) (query_vals a),
           ValidColumns = ValidColumns (NewQueryParser cols)\<rparr>"
    unfolding is_sentence_admissible by blast
  then have "wf_query a" by (simp add: admissible_def)
  then show "fst (Parse rcap (NewQueryParser cols) sql) = Inr db"
    using Parse_accepts [OF a(1,2)] by (simp add: a(3) NewQueryParser_def trim_render)
qed



text \<open>the scanner loses and invents nothing. On valid UTF-8 every token is the non-empty piece
  of the text that starts at its position, and the tokens are in order without overlap.\<close>

theorem scan_positions:
  assumes "valid_utf8 txt"
  shows "list_all (\<lambda>t. TokValue t \<noteq> [] \<and>
      take (length (TokValue t)) (drop (Position t) txt) = TokValue t) (scan_tokens txt) \<and>
    sorted_wrt (\<lambda>a b. Position a + length (TokValue a) \<le> Position b) (scan_tokens txt)"
proof -
  note inv = scan_tokens_inv [OF assms]
  have "tok_at txt t \<Longrightarrow> TokValue t \<noteq> [] \<and> take (length (TokValue t)) (drop (Position t) txt) = TokValue t" for t
    by (auto simp: tok_at_def)
  then show ?thesis using inv by (auto simp: scan_inv_def toks_ordered_def tok_end_def list_all_iff)
qed

lemma sample_parse:
  "fst (Parse (\<lambda>n. n) (NewQueryParser []) ''(name = a)'') =
     Inr \<lparr>Query = ''(name = ?)'', Values = [''a''], ValidColumns = validColumns\<rparr>"
proof -
  let ?a = "Single (Paren (Single (Cmp ''name'' ''='' (Plain ''a''))))"
  have t: "map TokValue (scan_tokens ''(name = a)'') = query_toks ?a"
    by (simp add: scan_values_ascii vstep_def vsend_def vliteral_def)
  have w: "wf_query ?a" by code_simp
  have "admissible (\<lambda>n. n) (init_state (NewQueryParser [])) ?a"
    using w by (simp add: admissible_def init_state_def NewQueryParser_def validColumns_def bindable_def
        MaximumComplexity_def to_lower_def to_lower_char_def)
  from Parse_accepts [OF t this] show ?thesis
    using trim_render [OF w] by (simp add: NewQueryParser_def bound_text_def to_lower_def to_lower_char_def)
qed



text \<open>Witness of the token positions, on a text with a two-byte rune.\<close>

lemma scan_positions_witness:
  "valid_utf8 [CHR ''a'', CHR '' '', CHR 0xC3, CHR 0xA9] \<and>
   sorted_wrt (\<lambda>a b. Position a + length (TokValue a) \<le> Position b) (scan_tokens [CHR ''a'', CHR '' '', CHR 0xC3, CHR 0xA9])"
proof -
  have "valid_utf8 [CHR ''a'', CHR '' '', CHR 0xC3, CHR 0xA9]" by code_simp
  then show ?thesis using scan_positions by blast
qed

subsection \<open>Panics and texts that cannot be searched for\<close>

lemma unquote_ascii: "ascii v \<Longrightarrow> (\<And>n. n \<le> rcap n) \<Longrightarrow> \<exists>s. unquote rcap v = Inr s"
proof -
  assume v: "ascii v" and r: "\<And>n. n \<le> rcap n"
  let ?t = "replace_pair (CHR 92) (CHR 39) (CHR 39) v"
  have t: "ascii ?t" using v by (induction "CHR 92" "CHR 39" "CHR 39" v rule: replace_pair.induct) auto
  have "length (runes ?t) = length ?t" using runes_ascii [OF t] by simp
  then have "length ?t - 1 \<le> rcap (length (runes ?t))" using r [of "length ?t"] by simp
  then show ?thesis by (simp add: unquote_def Let_def)
qed

lemma ref_step_no_panic:
  "ascii tok \<Longrightarrow> (\<And>n. n \<le> rcap n) \<Longrightarrow> fst (ref_step rcap md tok h) \<noteq> Inl (ParsePanic m)"
  using unquote_ascii [of tok rcap]
  by (cases md) (auto simp: family_simps unexpected_token_def joins_exceeded_def on_family_def
      onNewToken_handler_def countOpenBraces_def family_neq Let_def split: sum.splits option.splits)

lemma parse_tokens_no_panic:
  assumes r: "\<And>n. n \<le> rcap n"
  shows "k \<in> machine_keys \<Longrightarrow> list_all (\<lambda>t. ascii (TokValue t)) ts \<Longrightarrow>
    fst (parse_tokens (machine rcap) k ts h) \<noteq> Inl (ParsePanic m)"
proof (induction ts arbitrary: k h)
  case (Cons t ts)
  obtain r' h' where r': "state_parse (machine rcap) k (TokValue t) h = (r', h')" by fastforce
  note sim = step_simulates [OF Cons.prems(1), of rcap "TokValue t" h, unfolded r']
  show ?case
  proof (cases r')
    case (Inl e)
    then have "e \<noteq> ParsePanic m'" for m'
      using ref_step_no_panic [OF _ r, of "TokValue t" "mode_of k" h] sim Cons.prems(2) by (auto simp: simulates_def)
    then show ?thesis by (cases e) (auto simp: r' Inl parse_filter_error_def)
  next
    case (Inr k')
    then show ?thesis using sim Cons by (simp add: r' simulates_def)
  qed
qed simp

definition ascii_view :: "scan_view \<Rightarrow> bool" where
  "ascii_view v = (case v of (outs, cur, _) \<Rightarrow> list_all ascii outs \<and> ascii cur)"

lemma vstep_ascii: "ascii_view v \<Longrightarrow> char_code c < 128 \<Longrightarrow> ascii_view (vstep v c)"
  by (cases v) (auto simp: ascii_view_def vstep_def vsend_def vliteral_def)

lemma vsteps_ascii: "ascii_view v \<Longrightarrow> ascii s \<Longrightarrow> ascii_view (foldl vstep v s)"
  by (induction s arbitrary: v) (auto simp: vstep_ascii)

lemma scan_tokens_ascii: "ascii sql \<Longrightarrow> list_all (\<lambda>t. ascii (TokValue t)) (scan_tokens sql)"
proof -
  assume a: "ascii sql"
  have "list_all ascii (map TokValue (scan_tokens sql))"
    using vsteps_ascii [of "idle []" sql] a
    by (auto simp: scan_values_ascii vsend_def ascii_view_def split: prod.splits)
  then show ?thesis by (simp add: list_all_iff)
qed

text \<open>On ASCII input the parser never panics, whatever capacity the runtime gives a slice of
  runes: every rejected search is an ordinary error.\<close>

theorem parse_ascii_no_panic:
  assumes "ascii sql" "\<And>n. n \<le> rcap n"
  shows "fst (Parse rcap (NewQueryParser cols) sql) \<noteq> Inl (ParsePanic m)"
proof -
  obtain r h where p: "parse_tokens (machine rcap) StartState (scan_tokens sql) (init_state (NewQueryParser cols)) = (r, h)"
    by fastforce
  show ?thesis
  proof (cases r)
    case (Inl e)
    have "fst (r, h) \<noteq> Inl (ParsePanic m)"
      unfolding p [symmetric] using scan_tokens_ascii [OF assms(1)]
      by (intro parse_tokens_no_panic assms(2)) simp_all
    then show ?thesis by (simp add: Parse_unfold p Inl)
  next
    case (Inr k)
    then have "k \<in> machine_keys"
      using tokens_simulate [of StartState rcap "scan_tokens sql" "init_state (NewQueryParser cols)"] p by simp
    then obtain st where "machine rcap k = Some st" using machine_last by blast
    then show ?thesis
      by (simp add: Parse_unfold p Inr parse_finish_def state_eof_def checkUnbalancedBraces_def Let_def)
  qed
qed

text \<open>Witness: an unterminated quote is an ordinary error.\<close>

lemma parse_ascii_no_panic_witness:
  "fst (Parse (\<lambda>n. n) (NewQueryParser []) (''name = '' @ [CHR 39])) \<noteq> Inl (ParsePanic [])"
  by (rule parse_ascii_no_panic) (simp_all add: ascii_def)

lemma paren_free_replace: "paren_free s \<Longrightarrow> paren_free (replace_pair (CHR 92) (CHR 39) (CHR 39) s)"
  by (induction "CHR 92" "CHR 39" "CHR 39" s rule: replace_pair.induct) (auto simp: paren_free_def)

lemma runes_from_low:
  "(i, r) \<in> set (runes_from j s) \<Longrightarrow> r < 128 \<Longrightarrow> \<exists>c\<in>set s. r = char_code c"
proof (induction j s rule: runes_from.induct)
  case (2 j c cs)
  have tail: "128 \<le> b \<Longrightarrow> 128 \<le> fst (decode_tail b bs)" for b bs
    by (cases "(b, bs)" rule: decode_tail.cases)
      (auto simp: rune_error_def rune2_def rune3_def rune4_def cont_byte_def second_ok_def split: if_splits)
  consider "r = fst (decode_rune c cs)"
    | "(i, r) \<in> set (runes_from (j + snd (decode_rune c cs)) (drop (snd (decode_rune c cs) - 1) cs))"
    using 2(2) by auto
  then show ?case
  proof cases
    case 1
    then show ?thesis using 2(3) tail [of "char_code c" "map of_char (take 3 cs)"]
      by (auto simp: decode_rune_def split: if_splits)
  next
    case 2
    then show ?thesis using "2.IH" "2.prems"(2) in_set_dropD by fastforce
  qed
qed simp

lemma paren_free_unquote:
  assumes "paren_free v" "unquote rcap v = Inr s"
  shows "paren_free s"
proof -
  let ?t = "replace_pair (CHR 92) (CHR 39) (CHR 39) v"
  have t: "paren_free ?t" using assms(1) by (rule paren_free_replace)
  have "\<not> is_paren c" if c: "c \<in> set s" for c
  proof
    assume p: "is_paren c"
    then have lt: "char_code c < 128" "char_code c \<noteq> 0" by auto
    show False
    proof (cases "length ?t > 1")
      case True
      then obtain r where r: "c \<in> set (encode_rune r)" "r \<in> set (runes ?t) \<or> r = 0"
        using assms(2) c by (auto simp: unquote_def Let_def split: if_splits dest!: in_set_takeD in_set_dropD)
      have "r = char_code c" using encode_rune_low [OF r(1) lt(1)] .
      then obtain d where "d \<in> set ?t" "char_code c = char_code d"
        using r(2) lt runes_from_low by (fastforce simp: runes_def)
      then show False using t p by (auto simp: paren_free_def list_all_iff)
    next
      case False
      then show False using assms(2) c p t by (auto simp: unquote_def Let_def paren_free_def list_all_iff)
    qed
  qed
  then show ?thesis by (simp add: paren_free_def list_all_iff)
qed

lemma wf_query_vals:
  "wf_query q \<Longrightarrow> v \<in> set (query_vals q) \<Longrightarrow> wf_value v"
  "wf_term t \<Longrightarrow> v \<in> set (term_vals t) \<Longrightarrow> wf_value v"
  by (induction q and t) auto

lemma value_in_toks:
  "v \<in> set (query_vals q) \<Longrightarrow> value_tok v \<in> set (query_toks q)"
  "v \<in> set (term_vals t) \<Longrightarrow> value_tok v \<in> set (term_toks t)"
  by (induction q and t) auto

text \<open>A bound value that contains a parenthesis is a lone parenthesis. The scanner cuts the
  text at every parenthesis, also inside quotes, so no quoted value can contain one, although the
  documentation of the language allows any text between quotes; and the pattern of unquoted values
  admits a parenthesis as first character, although the grammar in the comments excludes it.\<close>

theorem parse_values_parens:
  assumes "fst (Parse rcap (NewQueryParser cols) sql) = Inr db"
  shows "list_all (\<lambda>v. paren_free v \<or> v = ''('' \<or> v = '')'') (Values db)"
proof -
  obtain a where a: "map TokValue (scan_tokens sql) = query_toks a"
    "admissible rcap (init_state (NewQueryParser cols)) a" using assms Parse_accepted by blast
  have v: "Values db = map (bound_text rcap) (query_vals a)"
    using assms Parse_accepts [OF a] by (auto simp: NewQueryParser_def)
  have "paren_free (bound_text rcap v) \<or> bound_text rcap v = ''('' \<or> bound_text rcap v = '')''"
    if m: "v \<in> set (query_vals a)" for v
  proof -
    have "value_tok v \<in> set (map TokValue (scan_tokens sql))" using value_in_toks(1) [OF m] a(1) by simp
    then have tok: "value_tok v = ''('' \<or> value_tok v = '')'' \<or> paren_free (value_tok v)"
      using scan_tokens_parens [of _ sql] by fastforce
    obtain s where s: "value_text rcap v = Inr s" using a(2) m by (auto simp: admissible_def bindable_def)
    show ?thesis
    proof (cases v)
      case (Plain x)
      then show ?thesis using tok by (auto simp: bound_text_def)
    next
      case (Quoted x)
      then have "is_quoted x" using a(2) m wf_query_vals(1) [of a v] by (simp add: admissible_def)
      then have "paren_free x" using tok Quoted quoted_first by fastforce
      then show ?thesis using paren_free_unquote s Quoted by (auto simp: bound_text_def)
    qed
  qed
  then show ?thesis by (simp add: v list_all_iff)
qed

text \<open>Witness: an unquoted parenthesis is accepted as a value.\<close>

lemma paren_value_accepted:
  "fst (Parse (\<lambda>n. n) (NewQueryParser []) ''name = ('') =
     Inr \<lparr>Query = ''name = ?'', Values = [''(''], ValidColumns = validColumns\<rparr>"
proof -
  let ?a = "Single (Cmp ''name'' ''='' (Plain ''(''))"
  have t: "map TokValue (scan_tokens ''name = ('') = query_toks ?a"
    by (simp add: scan_values_ascii vstep_def vsend_def vliteral_def)
  have w: "wf_query ?a" by code_simp
  have "admissible (\<lambda>n. n) (init_state (NewQueryParser [])) ?a"
    using w by (simp add: admissible_def init_state_def NewQueryParser_def validColumns_def bindable_def
        MaximumComplexity_def to_lower_def to_lower_char_def)
  from Parse_accepts [OF t this] show ?thesis
    using trim_render [OF w] by (simp add: NewQueryParser_def bound_text_def to_lower_def to_lower_char_def)
qed

lemma parse_values_parens_witness:
  "list_all (\<lambda>v. paren_free v \<or> v = ''('' \<or> v = '')'') [''('']"
  using parse_values_parens [OF paren_value_accepted] by simp

subsection \<open>Values outside ASCII\<close>

abbreviation e_acute :: string where "e_acute \<equiv> [CHR 0xC3, CHR 0xA9]"

lemma scan_e_acute:
  "map TokValue (scan_tokens (''name = '' @ [CHR 39] @ e_acute @ [CHR 39])) = [''name'', ''='', [CHR 39] @ e_acute @ [CHR 39]]"
  by (simp add: scanner_Init_def NewScanner_def scan_init_def scan_defs decode_rune_def cont_byte_def
      rune2_def encode_rune_def char_of_def bit_0)

text \<open>A quoted value with one two-byte character keeps its closing quote. The slice that
  removes the quotes is bounded by the number of bytes but taken on the runes, so the search
  \<^verbatim>\<open>name = 'X'\<close> for \<^verbatim>\<open>X\<close> the letter e with an acute accent binds \<^verbatim>\<open>X'\<close>.\<close>

theorem parse_two_byte_value_keeps_quote:
  assumes "3 \<le> rcap 3"
  shows "fst (Parse rcap (NewQueryParser []) (''name = '' @ [CHR 39] @ e_acute @ [CHR 39])) =
    Inr \<lparr>Query = ''name = ?'', Values = [e_acute @ [CHR 39]], ValidColumns = validColumns\<rparr>"
proof -
  let ?v = "[CHR 39] @ e_acute @ [CHR 39]"
  let ?a = "Single (Cmp ''name'' ''='' (Quoted ?v))"
  have w: "wf_query ?a" by code_simp
  have "runes ?v = [39, 233, 39]" by (simp add: runes_def decode_rune_def cont_byte_def rune2_def)
  then have u: "unquote rcap ?v = Inr (e_acute @ [CHR 39])"
    using assms by (simp add: unquote_def Let_def encode_rune_def numeral_3_eq_3)
      (simp add: char_of_def bit_0)
  have "admissible rcap (init_state (NewQueryParser [])) ?a"
    using w u by (simp add: admissible_def init_state_def NewQueryParser_def validColumns_def bindable_def
        MaximumComplexity_def to_lower_def to_lower_char_def)
  from Parse_accepts [of "''name = '' @ ?v", OF _ this] show ?thesis
    using trim_render [OF w] scan_e_acute u
    by (simp add: NewQueryParser_def bound_text_def to_lower_def to_lower_char_def)
qed

text \<open>Witness: the capacity equal to the length.\<close>

lemma parse_two_byte_value_keeps_quote_witness:
  "fst (Parse (\<lambda>n. n) (NewQueryParser []) (''name = '' @ [CHR 39] @ e_acute @ [CHR 39])) =
    Inr \<lparr>Query = ''name = ?'', Values = [e_acute @ [CHR 39]], ValidColumns = validColumns\<rparr>"
  by (rule parse_two_byte_value_keeps_quote) simp

end
