(* ===== verification/Service_Errors.thy ===== *)
theory Service_Errors
  imports Go_UTF8
begin

text \<open>
  The error values of the service (\<^verbatim>\<open>pkg/errors/errors.go\<close>): the codes, the table of errors with
  their HTTP status, the constructors, the classification predicates and the conversions. A reason
  is a format with its arguments; \<open>NoReason\<close> is the empty format, \<open>Fmt r\<close> a non-empty format
  whose expansion is \<open>r\<close>. A cause with a stack trace attached is the cause itself; \<open>NilSvcErr\<close> is a nil
  \<^verbatim>\<open>*ServiceError\<close> in a non-nil \<^verbatim>\<open>error\<close> interface, and \<open>Wrap\<close> an error wrapped with a message.
\<close>

datatype reason = NoReason | Fmt string

datatype service_error =
    ServiceError (Code: int) (Reason: string) (HTTPCode: int) (cause: "go_error option")
  and go_error =
    GoErr string
  | RecordNotFound
  | Wrap string go_error
  | SvcErr service_error
  | NilSvcErr

text \<open>\<^verbatim>\<open>fmt.Sprintf(s)\<close> without arguments: \<^verbatim>\<open>%%\<close> is a percent sign, every other verb reports its
  missing argument. Explicit argument indexes and starred widths are not expanded.\<close>

definition fmt_flag :: "char \<Rightarrow> bool" where
  "fmt_flag c \<longleftrightarrow> c \<in> set ''#0+- 123456789.''"

function sprintf0 :: "string \<Rightarrow> string" where
  "sprintf0 [] = []"
| "sprintf0 (c # cs) =
     (if c \<noteq> CHR ''%'' then c # sprintf0 cs
      else (case dropWhile fmt_flag cs of
          [] \<Rightarrow> ''%!(NOVERB)''
        | v # vs \<Rightarrow>
            if v = CHR ''%'' then CHR ''%'' # sprintf0 vs
            else ''%!'' @ encode_rune (fst (decode_rune v vs)) @ ''(MISSING)'' @
                 sprintf0 (drop (snd (decode_rune v vs) - 1) vs)))"
  by pat_completeness auto
termination
proof (relation "measure length", goal_cases)
  case (3 c cs v vs)
  then show ?case using length_dropWhile_le [of fmt_flag cs] by simp
next
  case (4 c cs v vs)
  then show ?case using length_dropWhile_le [of fmt_flag cs] by simp
qed simp_all

text \<open>A text used as a format.\<close>

definition as_format :: "string \<Rightarrow> reason" where
  "as_format s = (if s = [] then NoReason else Fmt (sprintf0 s))"

definition reason_text :: "reason \<Rightarrow> string" where
  "reason_text r = (case r of NoReason \<Rightarrow> [] | Fmt s \<Rightarrow> s)"

subsection \<open>Codes and default reasons\<close>

named_theorems error_consts \<open>the codes and reasons\<close>

definition ErrorCodePrefix :: string where "ErrorCodePrefix = ''RHACS-MGMT''"
definition ErrorHREF :: string where "ErrorHREF = ''/api/rhacs/v1/errors/''"
definition ConnectorMgmtErrorCodePrefix :: string where "ConnectorMgmtErrorCodePrefix = ''CONNECTOR-MGMT''"
definition ConnectorMgmtErrorHREF :: string where "ConnectorMgmtErrorHREF = ''/api/connector_mgmt/v1/errors/''"

definition ErrorForbidden :: int where [error_consts]: "ErrorForbidden = 4"
definition ErrorForbiddenReason :: string where [error_consts]: "ErrorForbiddenReason = ''Forbidden to perform this action''"
definition ErrorMaxAllowedInstanceReached :: int where [error_consts]: "ErrorMaxAllowedInstanceReached = 5"
definition ErrorMaxAllowedInstanceReachedReason :: string where [error_consts]: "ErrorMaxAllowedInstanceReachedReason = ''Forbidden to create more instances than the maximum allowed''"
definition ErrorConflict :: int where [error_consts]: "ErrorConflict = 6"
definition ErrorConflictReason :: string where [error_consts]: "ErrorConflictReason = ''An entity with the specified unique values already exists''"
definition ErrorNotFound :: int where [error_consts]: "ErrorNotFound = 7"
definition ErrorNotFoundReason :: string where [error_consts]: "ErrorNotFoundReason = ''Resource not found''"
definition ErrorValidation :: int where [error_consts]: "ErrorValidation = 8"
definition ErrorValidationReason :: string where [error_consts]: "ErrorValidationReason = ''General validation failure''"
definition ErrorGeneral :: int where [error_consts]: "ErrorGeneral = 9"
definition ErrorGeneralReason :: string where [error_consts]: "ErrorGeneralReason = ''Unspecified error''"
definition ErrorNotImplemented :: int where [error_consts]: "ErrorNotImplemented = 10"
definition ErrorNotImplementedReason :: string where [error_consts]: "ErrorNotImplementedReason = ''HTTP Method not implemented for this endpoint''"
definition ErrorUnauthorized :: int where [error_consts]: "ErrorUnauthorized = 11"
definition ErrorUnauthorizedReason :: string where [error_consts]: "ErrorUnauthorizedReason = ''Account is unauthorized to perform this action''"
definition ErrorTermsNotAccepted :: int where [error_consts]: "ErrorTermsNotAccepted = 12"
definition ErrorTermsNotAcceptedReason :: string where [error_consts]: "ErrorTermsNotAcceptedReason = ''Required terms have not been accepted''"
definition ErrorUnauthenticated :: int where [error_consts]: "ErrorUnauthenticated = 15"
definition ErrorUnauthenticatedReason :: string where [error_consts]: "ErrorUnauthenticatedReason = ''Account authentication could not be verified''"
definition ErrorMalformedRequest :: int where [error_consts]: "ErrorMalformedRequest = 17"
definition ErrorMalformedRequestReason :: string where [error_consts]: "ErrorMalformedRequestReason = ''Unable to read request body''"
definition ErrorBadRequest :: int where [error_consts]: "ErrorBadRequest = 21"
definition ErrorBadRequestReason :: string where [error_consts]: "ErrorBadRequestReason = ''Bad request''"
definition ErrorFailedToParseSearch :: int where [error_consts]: "ErrorFailedToParseSearch = 23"
definition ErrorFailedToParseSearchReason :: string where [error_consts]: "ErrorFailedToParseSearchReason = ''Failed to parse search query''"
definition ErrorTooManyDinosaurInstancesReached :: int where [error_consts]: "ErrorTooManyDinosaurInstancesReached = 24"
definition ErrorTooManyDinosaurInstancesReachedReason :: string where [error_consts]: "ErrorTooManyDinosaurInstancesReachedReason = ''The maximum number of allowed central instances has been reached''"
definition ErrorGone :: int where [error_consts]: "ErrorGone = 25"
definition ErrorGoneReason :: string where [error_consts]: "ErrorGoneReason = ''Resource gone''"
definition ErrorSyncActionNotSupported :: int where [error_consts]: "ErrorSyncActionNotSupported = 103"
definition ErrorSyncActionNotSupportedReason :: string where [error_consts]: "ErrorSyncActionNotSupportedReason = ''Synchronous action is not supported, use async=true parameter''"
definition ErrorFailedToCreateSSOClient :: int where [error_consts]: "ErrorFailedToCreateSSOClient = 106"
definition ErrorFailedToCreateSSOClientReason :: string where [error_consts]: "ErrorFailedToCreateSSOClientReason = ''Failed to create central client in the mas sso''"
definition ErrorFailedToGetSSOClientSecret :: int where [error_consts]: "ErrorFailedToGetSSOClientSecret = 107"
definition ErrorFailedToGetSSOClientSecretReason :: string where [error_consts]: "ErrorFailedToGetSSOClientSecretReason = ''Failed to get central client secret from the mas sso''"
definition ErrorFailedToGetSSOClient :: int where [error_consts]: "ErrorFailedToGetSSOClient = 108"
definition ErrorFailedToGetSSOClientReason :: string where [error_consts]: "ErrorFailedToGetSSOClientReason = ''Failed to get central client from the mas sso''"
definition ErrorFailedToDeleteSSOClient :: int where [error_consts]: "ErrorFailedToDeleteSSOClient = 109"
definition ErrorFailedToDeleteSSOClientReason :: string where [error_consts]: "ErrorFailedToDeleteSSOClientReason = ''Failed to delete central client from the mas sso''"
definition ErrorFailedToCreateServiceAccount :: int where [error_consts]: "ErrorFailedToCreateServiceAccount = 110"
definition ErrorFailedToCreateServiceAccountReason :: string where [error_consts]: "ErrorFailedToCreateServiceAccountReason = ''Failed to create service account''"
definition ErrorFailedToGetServiceAccount :: int where [error_consts]: "ErrorFailedToGetServiceAccount = 111"
definition ErrorFailedToGetServiceAccountReason :: string where [error_consts]: "ErrorFailedToGetServiceAccountReason = ''Failed to get service account''"
definition ErrorFailedToDeleteServiceAccount :: int where [error_consts]: "ErrorFailedToDeleteServiceAccount = 112"
definition ErrorFailedToDeleteServiceAccountReason :: string where [error_consts]: "ErrorFailedToDeleteServiceAccountReason = ''Failed to delete service account''"
definition ErrorServiceAccountNotFound :: int where [error_consts]: "ErrorServiceAccountNotFound = 113"
definition ErrorServiceAccountNotFoundReason :: string where [error_consts]: "ErrorServiceAccountNotFoundReason = ''Failed to find service account''"
definition ErrorMaxLimitForServiceAccountsReached :: int where [error_consts]: "ErrorMaxLimitForServiceAccountsReached = 115"
definition ErrorMaxLimitForServiceAccountsReachedReason :: string where [error_consts]: "ErrorMaxLimitForServiceAccountsReachedReason = ''Max limit for the service account creation has reached''"
definition ErrorInsufficientQuota :: int where [error_consts]: "ErrorInsufficientQuota = 120"
definition ErrorInsufficientQuotaReason :: string where [error_consts]: "ErrorInsufficientQuotaReason = ''Insufficient quota''"
definition ErrorFailedToCheckQuota :: int where [error_consts]: "ErrorFailedToCheckQuota = 121"
definition ErrorFailedToCheckQuotaReason :: string where [error_consts]: "ErrorFailedToCheckQuotaReason = ''Failed to check quota''"
definition ErrorProviderNotSupported :: int where [error_consts]: "ErrorProviderNotSupported = 30"
definition ErrorProviderNotSupportedReason :: string where [error_consts]: "ErrorProviderNotSupportedReason = ''Provider not supported''"
definition ErrorInvalidCloudAccountID :: int where [error_consts]: "ErrorInvalidCloudAccountID = 122"
definition ErrorInvalidCloudAccountIDReason :: string where [error_consts]: "ErrorInvalidCloudAccountIDReason = ''Cloud account ID is not set up properly''"
definition ErrorRegionNotSupported :: int where [error_consts]: "ErrorRegionNotSupported = 31"
definition ErrorRegionNotSupportedReason :: string where [error_consts]: "ErrorRegionNotSupportedReason = ''Region not supported''"
definition ErrorMalformedDinosaurClusterName :: int where [error_consts]: "ErrorMalformedDinosaurClusterName = 32"
definition ErrorMalformedDinosaurClusterNameReason :: string where [error_consts]: "ErrorMalformedDinosaurClusterNameReason = ''Central cluster name is invalid''"
definition ErrorMinimumFieldLength :: int where [error_consts]: "ErrorMinimumFieldLength = 33"
definition ErrorMinimumFieldLengthReason :: string where [error_consts]: "ErrorMinimumFieldLengthReason = ''Minimum field length not reached''"
definition ErrorMaximumFieldLength :: int where [error_consts]: "ErrorMaximumFieldLength = 34"
definition ErrorMaximumFieldLengthReason :: string where [error_consts]: "ErrorMaximumFieldLengthReason = ''Maximum field length has been depassed''"
definition ErrorOnlyMultiAZSupported :: int where [error_consts]: "ErrorOnlyMultiAZSupported = 35"
definition ErrorOnlyMultiAZSupportedReason :: string where [error_consts]: "ErrorOnlyMultiAZSupportedReason = ''Only multiAZ Centrals are supported, use multi_az=true''"
definition ErrorDuplicateDinosaurClusterName :: int where [error_consts]: "ErrorDuplicateDinosaurClusterName = 36"
definition ErrorDuplicateDinosaurClusterNameReason :: string where [error_consts]: "ErrorDuplicateDinosaurClusterNameReason = ''Central cluster name is already used''"
definition ErrorFieldValidationError :: int where [error_consts]: "ErrorFieldValidationError = 37"
definition ErrorFieldValidationErrorReason :: string where [error_consts]: "ErrorFieldValidationErrorReason = ''Field validation failed''"
definition ErrorUnableToSendErrorResponse :: int where [error_consts]: "ErrorUnableToSendErrorResponse = 1000"
definition ErrorUnableToSendErrorResponseReason :: string where [error_consts]: "ErrorUnableToSendErrorResponseReason = ''An unexpected error happened, please check the log of the service for details''"
definition ErrorMalformedServiceAccountName :: int where [error_consts]: "ErrorMalformedServiceAccountName = 38"
definition ErrorMalformedServiceAccountNameReason :: string where [error_consts]: "ErrorMalformedServiceAccountNameReason = ''Service account name is invalid''"
definition ErrorMalformedServiceAccountDesc :: int where [error_consts]: "ErrorMalformedServiceAccountDesc = 39"
definition ErrorMalformedServiceAccountDescReason :: string where [error_consts]: "ErrorMalformedServiceAccountDescReason = ''Service account desc is invalid''"
definition ErrorMalformedServiceAccountID :: int where [error_consts]: "ErrorMalformedServiceAccountID = 40"
definition ErrorMalformedServiceAccountIDReason :: string where [error_consts]: "ErrorMalformedServiceAccountIDReason = ''Service account id is invalid''"
definition ErrorInstanceTypeNotSupported :: int where [error_consts]: "ErrorInstanceTypeNotSupported = 41"
definition ErrorInstanceTypeNotSupportedReason :: string where [error_consts]: "ErrorInstanceTypeNotSupportedReason = ''Instance Type not supported''"
definition ErrorInstancePlanNotSupported :: int where [error_consts]: "ErrorInstancePlanNotSupported = 42"
definition ErrorInstancePlanNotSupportedReason :: string where [error_consts]: "ErrorInstancePlanNotSupportedReason = ''Instance plan not supported''"
definition ErrorTooManyRequests :: int where [error_consts]: "ErrorTooManyRequests = 429"
definition ErrorTooManyRequestsReason :: string where [error_consts]: "ErrorTooManyRequestsReason = ''Too Many requests''"

subsection \<open>The table of errors\<close>

definition StatusForbidden :: int where [error_consts]: "StatusForbidden = 403"
definition StatusTooManyRequests :: int where [error_consts]: "StatusTooManyRequests = 429"
definition StatusConflict :: int where [error_consts]: "StatusConflict = 409"
definition StatusNotFound :: int where [error_consts]: "StatusNotFound = 404"
definition StatusGone :: int where [error_consts]: "StatusGone = 410"
definition StatusBadRequest :: int where [error_consts]: "StatusBadRequest = 400"
definition StatusInternalServerError :: int where [error_consts]: "StatusInternalServerError = 500"
definition StatusMethodNotAllowed :: int where [error_consts]: "StatusMethodNotAllowed = 405"
definition StatusUnauthorized :: int where [error_consts]: "StatusUnauthorized = 401"

definition Errors :: "service_error list" where
  "Errors = [
     ServiceError ErrorForbidden ErrorForbiddenReason StatusForbidden None,
     ServiceError ErrorMaxAllowedInstanceReached ErrorMaxAllowedInstanceReachedReason StatusForbidden None,
     ServiceError ErrorTooManyDinosaurInstancesReached ErrorTooManyDinosaurInstancesReachedReason StatusForbidden None,
     ServiceError ErrorTooManyRequests ErrorTooManyRequestsReason StatusTooManyRequests None,
     ServiceError ErrorConflict ErrorConflictReason StatusConflict None,
     ServiceError ErrorNotFound ErrorNotFoundReason StatusNotFound None,
     ServiceError ErrorGone ErrorGoneReason StatusGone None,
     ServiceError ErrorValidation ErrorValidationReason StatusBadRequest None,
     ServiceError ErrorGeneral ErrorGeneralReason StatusInternalServerError None,
     ServiceError ErrorNotImplemented ErrorNotImplementedReason StatusMethodNotAllowed None,
     ServiceError ErrorUnauthorized ErrorUnauthorizedReason StatusForbidden None,
     ServiceError ErrorTermsNotAccepted ErrorTermsNotAcceptedReason StatusForbidden None,
     ServiceError ErrorUnauthenticated ErrorUnauthenticatedReason StatusUnauthorized None,
     ServiceError ErrorMalformedRequest ErrorMalformedRequestReason StatusBadRequest None,
     ServiceError ErrorBadRequest ErrorBadRequestReason StatusBadRequest None,
     ServiceError ErrorFailedToParseSearch ErrorFailedToParseSearchReason StatusBadRequest None,
     ServiceError ErrorSyncActionNotSupported ErrorSyncActionNotSupportedReason StatusBadRequest None,
     ServiceError ErrorFailedToCreateSSOClient ErrorFailedToCreateSSOClientReason StatusInternalServerError None,
     ServiceError ErrorFailedToGetSSOClientSecret ErrorFailedToGetSSOClientSecretReason StatusInternalServerError None,
     ServiceError ErrorFailedToGetSSOClient ErrorFailedToGetSSOClientReason StatusInternalServerError None,
     ServiceError ErrorFailedToDeleteSSOClient ErrorFailedToDeleteSSOClientReason StatusInternalServerError None,
     ServiceError ErrorFailedToCreateServiceAccount ErrorFailedToCreateServiceAccountReason StatusInternalServerError None,
     ServiceError ErrorFailedToGetServiceAccount ErrorFailedToGetServiceAccountReason StatusInternalServerError None,
     ServiceError ErrorServiceAccountNotFound ErrorServiceAccountNotFoundReason StatusNotFound None,
     ServiceError ErrorFailedToDeleteServiceAccount ErrorFailedToDeleteServiceAccountReason StatusInternalServerError None,
     ServiceError ErrorProviderNotSupported ErrorProviderNotSupportedReason StatusBadRequest None,
     ServiceError ErrorRegionNotSupported ErrorRegionNotSupportedReason StatusBadRequest None,
     ServiceError ErrorInstanceTypeNotSupported ErrorInstanceTypeNotSupportedReason StatusBadRequest None,
     ServiceError ErrorMalformedDinosaurClusterName ErrorMalformedDinosaurClusterNameReason StatusBadRequest None,
     ServiceError ErrorMinimumFieldLength ErrorMinimumFieldLengthReason StatusBadRequest None,
     ServiceError ErrorMaximumFieldLength ErrorMaximumFieldLengthReason StatusBadRequest None,
     ServiceError ErrorOnlyMultiAZSupported ErrorOnlyMultiAZSupportedReason StatusBadRequest None,
     ServiceError ErrorDuplicateDinosaurClusterName ErrorDuplicateDinosaurClusterNameReason StatusConflict None,
     ServiceError ErrorUnableToSendErrorResponse ErrorUnableToSendErrorResponseReason StatusInternalServerError None,
     ServiceError ErrorFieldValidationError ErrorFieldValidationErrorReason StatusBadRequest None,
     ServiceError ErrorInsufficientQuota ErrorInsufficientQuotaReason StatusForbidden None,
     ServiceError ErrorFailedToCheckQuota ErrorFailedToCheckQuotaReason StatusInternalServerError None,
     ServiceError ErrorMalformedServiceAccountName ErrorMalformedServiceAccountNameReason StatusBadRequest None,
     ServiceError ErrorMalformedServiceAccountDesc ErrorMalformedServiceAccountDescReason StatusBadRequest None,
     ServiceError ErrorMalformedServiceAccountID ErrorMalformedServiceAccountIDReason StatusBadRequest None,
     ServiceError ErrorMaxLimitForServiceAccountsReached ErrorMaxLimitForServiceAccountsReachedReason StatusForbidden None,
     ServiceError ErrorInstancePlanNotSupported ErrorInstancePlanNotSupportedReason StatusBadRequest None,
     ServiceError ErrorInvalidCloudAccountID ErrorInvalidCloudAccountIDReason StatusBadRequest None]"

fun find_error :: "int \<Rightarrow> service_error list \<Rightarrow> service_error option" where
  "find_error code [] = None"
| "find_error code (e # es) = (if Code e = code then Some e else find_error code es)"

definition Find :: "int \<Rightarrow> service_error option" where
  "Find code = find_error code Errors"

definition NewWithCause :: "int \<Rightarrow> go_error option \<Rightarrow> reason \<Rightarrow> service_error" where
  "NewWithCause code c reason =
     (let err = (case Find code of
            Some e \<Rightarrow> e
          | None \<Rightarrow> ServiceError ErrorGeneral ''Unspecified error'' StatusInternalServerError None)
      in ServiceError (Code err) (case reason of NoReason \<Rightarrow> Reason err | Fmt r \<Rightarrow> r) (HTTPCode err) c)"

definition New :: "int \<Rightarrow> reason \<Rightarrow> service_error" where
  "New code reason = NewWithCause code None reason"

definition Unwrap :: "service_error \<Rightarrow> go_error option" where
  "Unwrap e = cause e"

definition CodeStr :: "int \<Rightarrow> string" where
  "CodeStr code = ErrorCodePrefix @ ''-'' @ itoa code"

definition Href :: "int \<Rightarrow> string" where
  "Href code = ErrorHREF @ itoa code"

fun svc_Error :: "service_error \<Rightarrow> string" and go_Error :: "go_error \<Rightarrow> string" where
  "svc_Error (ServiceError c r h cs) = (case cs of
     Some e \<Rightarrow> CodeStr c @ '': '' @ r @ [CHR 10] @ '' caused by: '' @ go_Error e
   | None \<Rightarrow> CodeStr c @ '': '' @ r)"
| "go_Error (GoErr m) = m"
| "go_Error RecordNotFound = ''record not found''"
| "go_Error (Wrap m e) = m @ '': '' @ go_Error e"
| "go_Error (SvcErr e) = svc_Error e"
| "go_Error NilSvcErr = []"

definition AsError :: "service_error option \<Rightarrow> go_error option" where
  "AsError e = (case e of None \<Rightarrow> None | Some err \<Rightarrow> Some (GoErr (sprintf0 (svc_Error err))))"

fun errorlist_text :: "go_error list \<Rightarrow> string" where
  "errorlist_text [] = []"
| "errorlist_text (e # es) = '';'' @ go_Error e @ errorlist_text es"

definition ErrorList_Error :: "go_error list \<Rightarrow> string" where
  "ErrorList_Error es = ''['' @ errorlist_text es @ '']''"

subsection \<open>Constructors\<close>

definition NotFound :: "reason \<Rightarrow> service_error" where
  "NotFound r = New ErrorNotFound r"

definition GeneralError :: "reason \<Rightarrow> service_error" where
  "GeneralError r = New ErrorGeneral r"

definition Unauthorized :: "reason \<Rightarrow> service_error" where
  "Unauthorized r = New ErrorUnauthorized r"

definition TermsNotAccepted :: "reason \<Rightarrow> service_error" where
  "TermsNotAccepted r = New ErrorTermsNotAccepted r"

definition Unauthenticated :: "reason \<Rightarrow> service_error" where
  "Unauthenticated r = New ErrorUnauthenticated r"

definition Forbidden :: "reason \<Rightarrow> service_error" where
  "Forbidden r = New ErrorForbidden r"

definition MaximumAllowedInstanceReached :: "reason \<Rightarrow> service_error" where
  "MaximumAllowedInstanceReached r = New ErrorMaxAllowedInstanceReached r"

definition TooManyDinosaurInstancesReached :: "reason \<Rightarrow> service_error" where
  "TooManyDinosaurInstancesReached r = New ErrorTooManyDinosaurInstancesReached r"

definition NotImplemented :: "reason \<Rightarrow> service_error" where
  "NotImplemented r = New ErrorNotImplemented r"

definition Conflict :: "reason \<Rightarrow> service_error" where
  "Conflict r = New ErrorConflict r"

definition Validation :: "reason \<Rightarrow> service_error" where
  "Validation r = New ErrorValidation r"

definition MalformedRequest :: "reason \<Rightarrow> service_error" where
  "MalformedRequest r = New ErrorMalformedRequest r"

definition BadRequest :: "reason \<Rightarrow> service_error" where
  "BadRequest r = New ErrorBadRequest r"

definition FailedToParseSearch :: "reason \<Rightarrow> service_error" where
  "FailedToParseSearch r = New ErrorFailedToParseSearch (Fmt (ErrorFailedToParseSearchReason @ '': '' @ reason_text r))"

definition SyncActionNotSupported :: service_error where
  "SyncActionNotSupported = New ErrorSyncActionNotSupported (Fmt ErrorSyncActionNotSupportedReason)"

definition NotMultiAzActionNotSupported :: service_error where
  "NotMultiAzActionNotSupported = New ErrorOnlyMultiAZSupported (Fmt ErrorOnlyMultiAZSupportedReason)"

definition FailedToCreateSSOClient :: "reason \<Rightarrow> service_error" where
  "FailedToCreateSSOClient r = New ErrorFailedToCreateSSOClient r"

definition FailedToGetSSOClientSecret :: "reason \<Rightarrow> service_error" where
  "FailedToGetSSOClientSecret r = New ErrorFailedToGetSSOClientSecret r"

definition FailedToGetSSOClient :: "reason \<Rightarrow> service_error" where
  "FailedToGetSSOClient r = New ErrorFailedToGetSSOClient r"

definition FailedToDeleteSSOClient :: "reason \<Rightarrow> service_error" where
  "FailedToDeleteSSOClient r = New ErrorFailedToDeleteSSOClient r"

definition FailedToCreateServiceAccount :: "reason \<Rightarrow> service_error" where
  "FailedToCreateServiceAccount r = New ErrorFailedToCreateServiceAccount r"

definition FailedToDeleteServiceAccount :: "reason \<Rightarrow> service_error" where
  "FailedToDeleteServiceAccount r = New ErrorFailedToDeleteServiceAccount r"

definition MaxLimitForServiceAccountReached :: "reason \<Rightarrow> service_error" where
  "MaxLimitForServiceAccountReached r = New ErrorMaxLimitForServiceAccountsReached r"

definition FailedToGetServiceAccount :: "reason \<Rightarrow> service_error" where
  "FailedToGetServiceAccount r = New ErrorFailedToGetServiceAccount r"

definition ServiceAccountNotFound :: "reason \<Rightarrow> service_error" where
  "ServiceAccountNotFound r = New ErrorServiceAccountNotFound r"

definition RegionNotSupported :: "reason \<Rightarrow> service_error" where
  "RegionNotSupported r = New ErrorRegionNotSupported r"

definition InstanceTypeNotSupported :: "reason \<Rightarrow> service_error" where
  "InstanceTypeNotSupported r = New ErrorInstanceTypeNotSupported r"

definition ProviderNotSupported :: "reason \<Rightarrow> service_error" where
  "ProviderNotSupported r = New ErrorProviderNotSupported r"

definition MalformedDinosaurClusterName :: "reason \<Rightarrow> service_error" where
  "MalformedDinosaurClusterName r = New ErrorMalformedDinosaurClusterName r"

definition InstancePlanNotSupported :: "reason \<Rightarrow> service_error" where
  "InstancePlanNotSupported r = New ErrorInstancePlanNotSupported r"

definition MalformedServiceAccountName :: "reason \<Rightarrow> service_error" where
  "MalformedServiceAccountName r = New ErrorMalformedServiceAccountName r"

definition MalformedServiceAccountDesc :: "reason \<Rightarrow> service_error" where
  "MalformedServiceAccountDesc r = New ErrorMalformedServiceAccountDesc r"

definition MalformedServiceAccountID :: "reason \<Rightarrow> service_error" where
  "MalformedServiceAccountID r = New ErrorMalformedServiceAccountID r"

definition DuplicateDinosaurClusterName :: service_error where
  "DuplicateDinosaurClusterName = New ErrorDuplicateDinosaurClusterName (Fmt ErrorDuplicateDinosaurClusterNameReason)"

definition MinimumFieldLengthNotReached :: "reason \<Rightarrow> service_error" where
  "MinimumFieldLengthNotReached r = New ErrorMinimumFieldLength r"

definition MaximumFieldLengthMissing :: "reason \<Rightarrow> service_error" where
  "MaximumFieldLengthMissing r = New ErrorMaximumFieldLength r"

definition UnableToSendErrorResponse :: service_error where
  "UnableToSendErrorResponse = New ErrorUnableToSendErrorResponse (Fmt ErrorUnableToSendErrorResponseReason)"

definition FailedToParseQueryParms :: "reason \<Rightarrow> service_error" where
  "FailedToParseQueryParms r = New ErrorBadRequest r"

definition FieldValidationError :: "reason \<Rightarrow> service_error" where
  "FieldValidationError r = New ErrorFieldValidationError (Fmt (ErrorFieldValidationErrorReason @ '': '' @ reason_text r))"

definition InsufficientQuotaError :: "reason \<Rightarrow> service_error" where
  "InsufficientQuotaError r = New ErrorInsufficientQuota (Fmt (ErrorInsufficientQuotaReason @ '': '' @ reason_text r))"

definition FailedToCheckQuota :: "reason \<Rightarrow> service_error" where
  "FailedToCheckQuota r = New ErrorFailedToCheckQuota (Fmt (ErrorFailedToCheckQuotaReason @ '': '' @ reason_text r))"

definition InvalidCloudAccountID :: "reason \<Rightarrow> service_error" where
  "InvalidCloudAccountID r = New ErrorInvalidCloudAccountID (Fmt (ErrorInvalidCloudAccountIDReason @ '': '' @ reason_text r))"

definition InvalidOCMConnection :: service_error where
  "InvalidOCMConnection = New ErrorGeneral (Fmt ''invalid OCM connection'')"

subsection \<open>Classification\<close>

definition Is404 :: "service_error \<Rightarrow> bool" where
  "Is404 e \<longleftrightarrow> Code e = Code (NotFound NoReason)"

definition IsConflict :: "service_error \<Rightarrow> bool" where
  "IsConflict e \<longleftrightarrow> Code e = Code (Conflict NoReason)"

definition IsForbidden :: "service_error \<Rightarrow> bool" where
  "IsForbidden e \<longleftrightarrow> Code e = Code (Forbidden NoReason)"

definition IsFailedToCreateSSOClient :: "service_error \<Rightarrow> bool" where
  "IsFailedToCreateSSOClient e \<longleftrightarrow> Code e = Code (FailedToCreateSSOClient NoReason)"

definition IsClientErrorClass :: "service_error \<Rightarrow> bool" where
  "IsClientErrorClass e \<longleftrightarrow> StatusBadRequest \<le> HTTPCode e \<and> HTTPCode e < StatusInternalServerError"

definition IsServerErrorClass :: "service_error \<Rightarrow> bool" where
  "IsServerErrorClass e \<longleftrightarrow> StatusInternalServerError \<le> HTTPCode e"

definition IsFailedToGetSSOClientSecret :: "service_error \<Rightarrow> bool" where
  "IsFailedToGetSSOClientSecret e \<longleftrightarrow> Code e = Code (FailedToGetSSOClientSecret NoReason)"

definition IsFailedToGetSSOClient :: "service_error \<Rightarrow> bool" where
  "IsFailedToGetSSOClient e \<longleftrightarrow> Code e = Code (FailedToGetSSOClient NoReason)"

definition IsFailedToDeleteSSOClient :: "service_error \<Rightarrow> bool" where
  "IsFailedToDeleteSSOClient e \<longleftrightarrow> Code e = Code (FailedToDeleteSSOClient NoReason)"

definition IsFailedToCreateServiceAccount :: "service_error \<Rightarrow> bool" where
  "IsFailedToCreateServiceAccount e \<longleftrightarrow> Code e = Code (FailedToCreateServiceAccount NoReason)"

definition IsFailedToGetServiceAccount :: "service_error \<Rightarrow> bool" where
  "IsFailedToGetServiceAccount e \<longleftrightarrow> Code e = Code (FailedToGetServiceAccount NoReason)"

definition IsFailedToDeleteServiceAccount :: "service_error \<Rightarrow> bool" where
  "IsFailedToDeleteServiceAccount e \<longleftrightarrow> Code e = Code (FailedToDeleteServiceAccount NoReason)"

definition IsServiceAccountNotFound :: "service_error \<Rightarrow> bool" where
  "IsServiceAccountNotFound e \<longleftrightarrow> Code e = Code (ServiceAccountNotFound NoReason)"

definition IsMaxLimitForServiceAccountReached :: "service_error \<Rightarrow> bool" where
  "IsMaxLimitForServiceAccountReached e \<longleftrightarrow> Code e = ErrorMaxLimitForServiceAccountsReached"

definition IsBadRequest :: "service_error \<Rightarrow> bool" where
  "IsBadRequest e \<longleftrightarrow> Code e = Code (BadRequest NoReason)"

definition InSufficientQuota :: "service_error \<Rightarrow> bool" where
  "InSufficientQuota e \<longleftrightarrow> Code e = Code (InsufficientQuotaError NoReason)"

definition IsFailedToCheckQuota :: "service_error \<Rightarrow> bool" where
  "IsFailedToCheckQuota e \<longleftrightarrow> Code e = Code (FailedToCheckQuota NoReason)"

definition IsInstanceTypeNotSupported :: "service_error \<Rightarrow> bool" where
  "IsInstanceTypeNotSupported e \<longleftrightarrow> Code e = ErrorInstanceTypeNotSupported"

subsection \<open>Conversions\<close>

definition NewErrorFromHTTPStatusCode :: "int \<Rightarrow> reason \<Rightarrow> service_error" where
  "NewErrorFromHTTPStatusCode httpCode r =
     (if StatusBadRequest \<le> httpCode \<and> httpCode < StatusInternalServerError then
        (if httpCode = StatusBadRequest then BadRequest r
         else if httpCode = StatusUnauthorized then Unauthorized r
         else if httpCode = StatusForbidden then Forbidden r
         else if httpCode = StatusNotFound then NotFound r
         else if httpCode = StatusMethodNotAllowed then NotImplemented r
         else if httpCode = StatusConflict then Conflict r
         else BadRequest r)
      else GeneralError r)"

definition ToServiceError :: "go_error \<Rightarrow> service_error" where
  "ToServiceError err = (case err of SvcErr e \<Rightarrow> e | _ \<Rightarrow> GeneralError (as_format (go_Error err)))"

text \<open>\<^verbatim>\<open>%q\<close> of an ASCII string; runes outside ASCII are copied.\<close>

definition hex_digit :: "nat \<Rightarrow> char" where
  "hex_digit n = (if n < 10 then char_of (48 + n) else char_of (87 + n))"

definition quote_char :: "char \<Rightarrow> string" where
  "quote_char c =
     (if c = CHR 34 then [CHR 92, CHR 34]
      else if c = CHR 92 then [CHR 92, CHR 92]
      else if char_code c = 7 then [CHR 92, CHR ''a'']
      else if char_code c = 8 then [CHR 92, CHR ''b'']
      else if char_code c = 12 then [CHR 92, CHR ''f'']
      else if char_code c = 10 then [CHR 92, CHR ''n'']
      else if char_code c = 13 then [CHR 92, CHR ''r'']
      else if char_code c = 9 then [CHR 92, CHR ''t'']
      else if char_code c = 11 then [CHR 92, CHR ''v'']
      else if char_code c < 32 \<or> char_code c = 127
        then [CHR 92, CHR ''x'', hex_digit (char_code c div 16), hex_digit (char_code c mod 16)]
      else [c])"

definition go_quote :: "string \<Rightarrow> string" where
  "go_quote s = [CHR 34] @ concat (map quote_char s) @ [CHR 34]"

definition OrganisationNameInvalid :: "string \<Rightarrow> string \<Rightarrow> service_error" where
  "OrganisationNameInvalid externalID name =
     New ErrorGeneral (Fmt (''organisation with external id '' @ go_quote externalID @ '' has invalid name '' @ go_quote name))"

definition OrganisationNotFound :: "string \<Rightarrow> go_error \<Rightarrow> service_error" where
  "OrganisationNotFound externalID err =
     (let svcErr = ToServiceError err;
          r = ''organisation with external id '' @ externalID @ '' not found'' @
              (if Is404 svcErr then '' - visit https://console.redhat.com/openshift and try again'' else [])
      in NewWithCause (Code svcErr) (Some (SvcErr svcErr)) (Fmt r))"

definition FailedClusterAuthorization :: "go_error \<Rightarrow> service_error" where
  "FailedClusterAuthorization err =
     (let svcErr = ToServiceError err;
          r = ''failed to reserve quota'' @
              (if Is404 svcErr then '' - visit https://console.redhat.com/openshift and try again'' else [])
      in NewWithCause (Code svcErr) (Some (SvcErr svcErr)) (Fmt r))"

record openapi_error =
  errKind :: string
  errId :: string
  errHref :: string
  errCode :: string
  errReason :: string
  errOperationId :: string

text \<open>\<^verbatim>\<open>strings.Replace(s, old, new, 1)\<close>.\<close>

fun replace_first :: "string \<Rightarrow> string \<Rightarrow> string \<Rightarrow> string" where
  "replace_first old new [] = (if old = [] then new else [])"
| "replace_first old new (c # s) =
     (if has_prefix (c # s) old then new @ drop (length old) (c # s) else c # replace_first old new s)"

definition AsOpenapiError :: "service_error \<Rightarrow> string \<Rightarrow> string \<Rightarrow> openapi_error" where
  "AsOpenapiError e operationID basePath =
     (let connector = contains_sub basePath ''/api/connector_mgmt/'' in
      \<lparr>errKind = ''Error'', errId = itoa (Code e),
       errHref = (if connector then replace_first ErrorHREF ConnectorMgmtErrorHREF (Href (Code e)) else Href (Code e)),
       errCode = (if connector then replace_first ErrorCodePrefix ConnectorMgmtErrorCodePrefix (CodeStr (Code e)) else CodeStr (Code e)),
       errReason = Reason e, errOperationId = operationID\<rparr>)"

subsection \<open>Properties\<close>

lemma Find_Code: "Find c = Some e \<Longrightarrow> Code e = c \<and> e \<in> set Errors"
proof -
  have "find_error c es = Some e \<Longrightarrow> Code e = c \<and> e \<in> set es" for es
    by (induction es) (auto split: if_splits)
  then show "Find c = Some e \<Longrightarrow> Code e = c \<and> e \<in> set Errors" by (simp add: Find_def)
qed

lemma Errors_http:
  "e \<in> set Errors \<Longrightarrow> HTTPCode e \<in> {400, 401, 403, 404, 405, 409, 410, 429, 500} \<and> cause e = None"
  by (auto simp: Errors_def error_consts)

lemma NewWithCause_http: "HTTPCode (NewWithCause c cs r) \<in> {400, 401, 403, 404, 405, 409, 410, 429, 500}"
  using Find_Code [of c] Errors_http
  by (cases "Find c") (auto simp: NewWithCause_def error_consts simp del: insert_iff)

text \<open>The table of errors gives every code once, and every error made from it is either a
  client error or a server error, never both, with a status of the table.\<close>

theorem error_classes_partition:
  "distinct (map Code Errors) \<and>
   IsClientErrorClass (NewWithCause c cs r) = (\<not> IsServerErrorClass (NewWithCause c cs r)) \<and>
   HTTPCode (NewWithCause c cs r) \<in> {400, 401, 403, 404, 405, 409, 410, 429, 500} \<and>
   Code (NewWithCause c cs r) = (if c \<in> set (map Code Errors) then c else ErrorGeneral) \<and>
   Unwrap (NewWithCause c cs r) = cs"
proof -
  have d: "distinct (map Code Errors)" by (simp add: Errors_def error_consts)
  have f: "find_error c es = None \<longleftrightarrow> c \<notin> set (map Code es)" for es by (induction es) auto
  have "Code (NewWithCause c cs r) = (if c \<in> set (map Code Errors) then c else ErrorGeneral)"
    using f [of Errors] Find_Code [of c] by (auto simp: NewWithCause_def Find_def split: option.splits)
  moreover have "IsClientErrorClass (NewWithCause c cs r) = (\<not> IsServerErrorClass (NewWithCause c cs r))"
    using NewWithCause_http [of c cs r] by (auto simp: IsClientErrorClass_def IsServerErrorClass_def error_consts)
  moreover have "Unwrap (NewWithCause c cs r) = cs" by (simp add: NewWithCause_def Unwrap_def Let_def)
  ultimately show ?thesis using d NewWithCause_http [of c cs r] by blast
qed

lemma New_table:
  "HTTPCode (BadRequest r) = 400" "HTTPCode (Unauthorized r) = 403" "HTTPCode (Forbidden r) = 403"
  "HTTPCode (NotFound r) = 404" "HTTPCode (NotImplemented r) = 405" "HTTPCode (Conflict r) = 409"
  "HTTPCode (GeneralError r) = 500"
  by (simp_all add: BadRequest_def Unauthorized_def Forbidden_def NotFound_def NotImplemented_def Conflict_def
      GeneralError_def New_def NewWithCause_def Find_def Errors_def error_consts)

text \<open>An upstream status is turned into an error of the same class, and of the same status
  for the statuses that have an error of their own, with one exception: 401 becomes an error that
  is reported as 403.\<close>

theorem http_status_conversion:
  "HTTPCode (NewErrorFromHTTPStatusCode h r) =
     (if h = 401 then 403
      else if h \<in> {403, 404, 405, 409} then h
      else if 400 \<le> h \<and> h < 500 then 400 else 500)"
  by (simp add: NewErrorFromHTTPStatusCode_def New_table error_consts)

end
