(* ===== verification/Central_Types.thy ===== *)
theory Central_Types
  imports Service_Errors
begin

text \<open>
  The data of a tenant: the statuses of a central request and their order
  (\<^verbatim>\<open>internal/dinosaur/constants/central.go\<close>), the instance types, and the database row
  \<^verbatim>\<open>CentralRequest\<close> with its methods (\<^verbatim>\<open>dbapi/central_request_types.go\<close>). Times are nanoseconds;
  the zero time is 0. The JSON columns of the specs are kept as raw bytes (\<open>None\<close> is a nil slice);
  the routes column is kept by its decoded content.
\<close>

named_theorems status_defs \<open>the status constants\<close>

definition CentralRequestStatusAccepted :: string where [status_defs]: "CentralRequestStatusAccepted = ''accepted''"
definition CentralRequestStatusPreparing :: string where [status_defs]: "CentralRequestStatusPreparing = ''preparing''"
definition CentralRequestStatusProvisioning :: string where [status_defs]: "CentralRequestStatusProvisioning = ''provisioning''"
definition CentralRequestStatusReady :: string where [status_defs]: "CentralRequestStatusReady = ''ready''"
definition CentralRequestStatusFailed :: string where [status_defs]: "CentralRequestStatusFailed = ''failed''"
definition CentralRequestStatusDeprovision :: string where [status_defs]: "CentralRequestStatusDeprovision = ''deprovision''"
definition CentralRequestStatusDeleting :: string where [status_defs]: "CentralRequestStatusDeleting = ''deleting''"

lemma central_status_distinct:
  "distinct [CentralRequestStatusAccepted, CentralRequestStatusPreparing, CentralRequestStatusProvisioning,
     CentralRequestStatusReady, CentralRequestStatusFailed, CentralRequestStatusDeprovision,
     CentralRequestStatusDeleting, []]"
  "distinct [[], CentralRequestStatusDeleting, CentralRequestStatusDeprovision, CentralRequestStatusFailed,
     CentralRequestStatusReady, CentralRequestStatusProvisioning, CentralRequestStatusPreparing,
     CentralRequestStatusAccepted]"
  by (simp_all add: status_defs)

lemmas status_neq [simp] = central_status_distinct [simplified]

definition second :: int where "second = 1000000000"
definition minute :: int where "minute = 60 * second"
definition hour :: int where "hour = 60 * minute"

definition CentralMaxDurationWithProvisioningErrs :: int where
  "CentralMaxDurationWithProvisioningErrs = 5 * minute"

definition AcceptedCentralMaxRetryDuration :: int where
  "AcceptedCentralMaxRetryDuration = 5 * minute"

text \<open>A lookup of a missing key of a Go map yields the zero value.\<close>

definition central_ordinals :: "string \<Rightarrow> int" where
  "central_ordinals s =
     (if s = CentralRequestStatusAccepted then 0
      else if s = CentralRequestStatusPreparing then 10
      else if s = CentralRequestStatusProvisioning then 20
      else if s = CentralRequestStatusReady then 30
      else if s = CentralRequestStatusDeprovision then 40
      else if s = CentralRequestStatusDeleting then 50
      else if s = CentralRequestStatusFailed then 500
      else 0)"

definition CentralStatus_CompareTo :: "string \<Rightarrow> string \<Rightarrow> int" where
  "CentralStatus_CompareTo k k1 =
     (if central_ordinals k = central_ordinals k1 then 0
      else if central_ordinals k > central_ordinals k1 then 1 else -1)"

definition GetUpdateableStatuses :: "string list" where
  "GetUpdateableStatuses = [CentralRequestStatusPreparing, CentralRequestStatusProvisioning,
     CentralRequestStatusFailed, CentralRequestStatusReady]"

definition EVAL :: string where "EVAL = ''eval''"
definition STANDARD :: string where "STANDARD = ''standard''"

definition AuthConfigStaticClientOrigin :: string where
  "AuthConfigStaticClientOrigin = ''shared_static_rhsso''"
definition AuthConfigDynamicClientOrigin :: string where
  "AuthConfigDynamicClientOrigin = ''dedicated_dynamic_rhsso''"

subsection \<open>The row of a central request\<close>

record DataPlaneCentralRoute =
  rtDomain :: string
  rtRouter :: string

text \<open>\<open>RNil\<close> is a nil column, \<open>RJson rs\<close> a JSON text that decodes to the slice \<open>rs\<close> (\<open>None\<close> for the
  text \<^verbatim>\<open>null\<close>), \<open>RBad\<close> a text that does not decode.\<close>

datatype routes_json = RNil | RJson "DataPlaneCentralRoute list option" | RBad

record CentralRequest =
  crID :: string
  crCreatedAt :: int
  crUpdatedAt :: int
  crDeletedAt :: "int option"
  crRegion :: string
  crClusterID :: string
  crCloudProvider :: string
  crCloudAccountID :: string
  crMultiAZ :: bool
  crName :: string
  crStatus :: string
  crSubscriptionID :: string
  crOwner :: string
  crOwnerAccountID :: string
  crOwnerUserID :: string
  crHost :: string
  crOrganisationID :: string
  crOrganisationName :: string
  crFailedReason :: string
  crPlacementID :: string
  crCentral :: "string option"
  crScanner :: "string option"
  crDesiredCentralVersion :: string
  crActualCentralVersion :: string
  crDesiredCentralOperatorVersion :: string
  crActualCentralOperatorVersion :: string
  crCentralUpgrading :: bool
  crCentralOperatorUpgrading :: bool
  crInstanceType :: string
  crQuotaType :: string
  crRoutes :: routes_json
  crRoutesCreated :: bool
  crNamespace :: string
  crRoutesCreationID :: string
  crDeletionTimestamp :: "int option"
  crInternal :: bool
  crClientID :: string
  crClientSecret :: string
  crIssuer :: string
  crClientOrigin :: string

definition empty_central :: CentralRequest where
  "empty_central = \<lparr>crID = [],
     crCreatedAt = 0,
     crUpdatedAt = 0,
     crDeletedAt = None,
     crRegion = [],
     crClusterID = [],
     crCloudProvider = [],
     crCloudAccountID = [],
     crMultiAZ = False,
     crName = [],
     crStatus = [],
     crSubscriptionID = [],
     crOwner = [],
     crOwnerAccountID = [],
     crOwnerUserID = [],
     crHost = [],
     crOrganisationID = [],
     crOrganisationName = [],
     crFailedReason = [],
     crPlacementID = [],
     crCentral = None,
     crScanner = None,
     crDesiredCentralVersion = [],
     crActualCentralVersion = [],
     crDesiredCentralOperatorVersion = [],
     crActualCentralOperatorVersion = [],
     crCentralUpgrading = False,
     crCentralOperatorUpgrading = False,
     crInstanceType = [],
     crQuotaType = [],
     crRoutes = RNil,
     crRoutesCreated = False,
     crNamespace = [],
     crRoutesCreationID = [],
     crDeletionTimestamp = None,
     crInternal = False,
     crClientID = [],
     crClientSecret = [],
     crIssuer = [],
     crClientOrigin = []\<rparr>"

text \<open>\<^verbatim>\<open>GetRoutes\<close>: the slice may be nil (\<open>None\<close>).\<close>

definition GetRoutes :: "CentralRequest \<Rightarrow> go_error + DataPlaneCentralRoute list option" where
  "GetRoutes k = (case crRoutes k of
     RNil \<Rightarrow> Inr None
   | RJson rs \<Rightarrow> Inr rs
   | RBad \<Rightarrow> Inl (Wrap ''unmarshalling routes from JSON'' (GoErr ''invalid JSON'')))"

definition SetRoutes :: "DataPlaneCentralRoute list option \<Rightarrow> CentralRequest \<Rightarrow> CentralRequest" where
  "SetRoutes rs k = k\<lparr>crRoutes := RJson rs\<rparr>"

definition GetUIHost :: "CentralRequest \<Rightarrow> string" where
  "GetUIHost k = (if crHost k = [] then [] else ''acs-'' @ crID k @ ''.'' @ crHost k)"

definition GetDataHost :: "CentralRequest \<Rightarrow> string" where
  "GetDataHost k = (if crHost k = [] then [] else ''acs-data-'' @ crID k @ ''.'' @ crHost k)"

definition central_BeforeCreate :: "string \<Rightarrow> CentralRequest \<Rightarrow> CentralRequest" where
  "central_BeforeCreate newID k = (if crID k = [] then k\<lparr>crID := newID\<rparr> else k)"

definition CentralList_Index :: "CentralRequest list \<Rightarrow> string \<Rightarrow> CentralRequest option" where
  "CentralList_Index l = foldl (\<lambda>index o'. index(crID o' \<mapsto> o')) Map.empty l"

subsection \<open>Lemmas\<close>

lemma CompareTo_refl [simp]: "CentralStatus_CompareTo s s = 0"
  by (simp add: CentralStatus_CompareTo_def)

lemma CompareTo_antisym: "CentralStatus_CompareTo s t = - CentralStatus_CompareTo t s"
  by (auto simp: CentralStatus_CompareTo_def)

lemma GetRoutes_SetRoutes [simp]: "GetRoutes (SetRoutes rs k) = Inr rs"
  by (simp add: GetRoutes_def SetRoutes_def)

lemma hosts_differ: "crHost k \<noteq> [] \<Longrightarrow> GetUIHost k \<noteq> GetDataHost k"
  by (auto simp: GetUIHost_def GetDataHost_def dest: arg_cong [of _ _ length])

end
