(* ===== verification/Cluster_Types.thy ===== *)
theory Cluster_Types
  imports Central_Types
begin

text \<open>
  Data-plane clusters: their statuses and order, the database row \<^verbatim>\<open>Cluster\<close> and the versions it
  offers (\<^verbatim>\<open>pkg/api/cluster_types.go\<close>), the statically configured clusters and the questions the
  configuration answers (\<^verbatim>\<open>config/dataplane_cluster_config.go\<close>).
\<close>

named_theorems cluster_status_defs \<open>the cluster status constants\<close>

definition ClusterAccepted :: string where [cluster_status_defs]: "ClusterAccepted = ''cluster_accepted''"
definition ClusterProvisioning :: string where [cluster_status_defs]: "ClusterProvisioning = ''cluster_provisioning''"
definition ClusterProvisioned :: string where [cluster_status_defs]: "ClusterProvisioned = ''cluster_provisioned''"
definition ClusterFailed :: string where [cluster_status_defs]: "ClusterFailed = ''failed''"
definition ClusterReady :: string where [cluster_status_defs]: "ClusterReady = ''ready''"
definition ClusterDeprovisioning :: string where [cluster_status_defs]: "ClusterDeprovisioning = ''deprovisioning''"
definition ClusterCleanup :: string where [cluster_status_defs]: "ClusterCleanup = ''cleanup''"
definition ClusterWaitingForFleetShardOperator :: string where
  [cluster_status_defs]: "ClusterWaitingForFleetShardOperator = ''waiting_for_fleetshard_operator''"
definition ClusterFull :: string where [cluster_status_defs]: "ClusterFull = ''full''"
definition ClusterComputeNodeScalingUp :: string where
  [cluster_status_defs]: "ClusterComputeNodeScalingUp = ''compute_node_scaling_up''"

definition ClusterProviderOCM :: string where "ClusterProviderOCM = ''ocm''"
definition ClusterProviderAwsEKS :: string where "ClusterProviderAwsEKS = ''aws_eks''"
definition ClusterProviderStandalone :: string where "ClusterProviderStandalone = ''standalone''"

definition EvalTypeSupport :: string where "EvalTypeSupport = ''eval''"
definition StandardTypeSupport :: string where "StandardTypeSupport = ''standard''"
definition AllInstanceTypeSupport :: string where "AllInstanceTypeSupport = ''standard,eval''"

definition cluster_ordinals :: "string \<Rightarrow> int" where
  "cluster_ordinals s =
     (if s = ClusterAccepted then 0
      else if s = ClusterProvisioning then 10
      else if s = ClusterProvisioned then 20
      else if s = ClusterWaitingForFleetShardOperator then 30
      else if s = ClusterReady then 40
      else if s = ClusterComputeNodeScalingUp then 50
      else if s = ClusterDeprovisioning then 60
      else if s = ClusterCleanup then 70
      else if s = ClusterFailed then 80
      else 0)"

definition ClusterStatus_CompareTo :: "string \<Rightarrow> string \<Rightarrow> int" where
  "ClusterStatus_CompareTo k k1 =
     (if cluster_ordinals k = cluster_ordinals k1 then 0
      else if cluster_ordinals k > cluster_ordinals k1 then 1 else -1)"

definition ClusterStatus_UnmarshalYAML :: "string \<Rightarrow> go_error + string" where
  "ClusterStatus_UnmarshalYAML s =
     (if s = ClusterProvisioning \<or> s = ClusterProvisioned \<or> s = ClusterReady then Inr s
      else Inl (GoErr (''invalid value '' @ s)))"

definition ClusterProviderType_UnmarshalYAML :: "string \<Rightarrow> go_error + string" where
  "ClusterProviderType_UnmarshalYAML s =
     (if s = ClusterProviderOCM \<or> s = ClusterProviderAwsEKS \<or> s = ClusterProviderStandalone then Inr s
      else Inl (GoErr (''invalid value '' @ s)))"

definition StatusForValidCluster :: "string list" where
  "StatusForValidCluster = [ClusterProvisioning, ClusterProvisioned, ClusterReady, ClusterAccepted,
     ClusterWaitingForFleetShardOperator, ClusterComputeNodeScalingUp]"

definition ClusterDeletionStatuses :: "string list" where
  "ClusterDeletionStatuses = [ClusterCleanup, ClusterDeprovisioning]"

subsection \<open>Rows\<close>

record CentralOperatorVersion =
  ovVersion :: string
  ovReady :: bool
  ovCentralVersions :: "string list"

text \<open>\<open>VNil\<close> is a nil column, \<open>VJson vs\<close> a text that decodes to \<open>vs\<close> (\<open>None\<close> for \<^verbatim>\<open>null\<close>).\<close>

datatype versions_json = VNil | VJson "CentralOperatorVersion list option" | VBad

record Cluster =
  clID :: string
  clCreatedAt :: int
  clUpdatedAt :: int
  clDeletedAt :: "int option"
  clCloudProvider :: string
  clClusterID :: string
  clExternalID :: string
  clMultiAZ :: bool
  clRegion :: string
  clStatus :: string
  clStatusDetails :: string
  clIdentityProviderID :: string
  clClusterDNS :: string
  clProviderType :: string
  clProviderSpec :: "string option"
  clClusterSpec :: "string option"
  clAvailableCentralOperatorVersions :: versions_json
  clSupportedInstanceType :: string
  clSchedulable :: bool

definition empty_cluster :: Cluster where
  "empty_cluster = \<lparr>clID = [], clCreatedAt = 0, clUpdatedAt = 0, clDeletedAt = None, clCloudProvider = [],
     clClusterID = [], clExternalID = [], clMultiAZ = False, clRegion = [], clStatus = [],
     clStatusDetails = [], clIdentityProviderID = [], clClusterDNS = [], clProviderType = [],
     clProviderSpec = None, clClusterSpec = None, clAvailableCentralOperatorVersions = VNil,
     clSupportedInstanceType = [], clSchedulable = False\<rparr>"

definition cluster_BeforeCreate :: "string \<Rightarrow> Cluster \<Rightarrow> Cluster" where
  "cluster_BeforeCreate newID c =
     c\<lparr>clStatus := (if clStatus c = [] then ClusterAccepted else clStatus c),
       clID := (if clID c = [] then newID else clID c),
       clSupportedInstanceType :=
         (if clSupportedInstanceType c = [] then AllInstanceTypeSupport else clSupportedInstanceType c)\<rparr>"

definition ClusterList_Index :: "Cluster list \<Rightarrow> string \<Rightarrow> Cluster option" where
  "ClusterList_Index l = foldl (\<lambda>index c. index(clID c \<mapsto> c)) Map.empty l"

definition GetAvailableCentralOperatorVersions :: "Cluster \<Rightarrow> go_error + CentralOperatorVersion list" where
  "GetAvailableCentralOperatorVersions c = (case clAvailableCentralOperatorVersions c of
     VNil \<Rightarrow> Inr []
   | VJson None \<Rightarrow> Inr []
   | VJson (Some vs) \<Rightarrow> Inr vs
   | VBad \<Rightarrow> Inl (Wrap ''getting available central operator versions'' (GoErr ''invalid JSON'')))"

definition GetAvailableAndReadyCentralOperatorVersions :: "Cluster \<Rightarrow> go_error + CentralOperatorVersion list" where
  "GetAvailableAndReadyCentralOperatorVersions c = (case GetAvailableCentralOperatorVersions c of
     Inl e \<Rightarrow> Inl e
   | Inr vs \<Rightarrow> Inr (filter ovReady vs))"

definition CheckDinosaurOperatorVersionReady :: "Cluster \<Rightarrow> string \<Rightarrow> go_error + bool" where
  "CheckDinosaurOperatorVersionReady c v = (case GetAvailableAndReadyCentralOperatorVersions c of
     Inl e \<Rightarrow> Inl (Wrap ''retrieving ready central operator versions'' e)
   | Inr vs \<Rightarrow> Inr (list_ex (\<lambda>ov. ovVersion ov = v) vs))"

fun version_available :: "CentralOperatorVersion list \<Rightarrow> string \<Rightarrow> string \<Rightarrow> bool" where
  "version_available [] opv v = False"
| "version_available (ov # ovs) opv v =
     (if ovVersion ov = opv then list_ex (\<lambda>kv. kv = v) (ovCentralVersions ov)
      else version_available ovs opv v)"

definition IsDinosaurVersionAvailableInCluster :: "Cluster \<Rightarrow> string \<Rightarrow> string \<Rightarrow> go_error + bool" where
  "IsDinosaurVersionAvailableInCluster c opv v = (case GetAvailableAndReadyCentralOperatorVersions c of
     Inl e \<Rightarrow> Inl (Wrap ''retrieving ready central operator versions'' e)
   | Inr vs \<Rightarrow> Inr (version_available vs opv v))"

subsection \<open>Configured clusters\<close>

record ManualCluster =
  mcName :: string
  mcClusterID :: string
  mcCloudProvider :: string
  mcRegion :: string
  mcMultiAZ :: bool
  mcSchedulable :: bool
  mcCentralInstanceLimit :: int
  mcStatus :: string
  mcProviderType :: string
  mcClusterDNS :: string
  mcSupportedInstanceType :: string
  mcAvailableCentralOperatorVersions :: "CentralOperatorVersion list"

definition manual_cluster_defaults :: ManualCluster where
  "manual_cluster_defaults = \<lparr>mcName = [], mcClusterID = [], mcCloudProvider = [], mcRegion = [],
     mcMultiAZ = False, mcSchedulable = False, mcCentralInstanceLimit = 0, mcStatus = ClusterProvisioning,
     mcProviderType = ClusterProviderOCM, mcClusterDNS = [], mcSupportedInstanceType = AllInstanceTypeSupport,
     mcAvailableCentralOperatorVersions = []\<rparr>"

text \<open>\<open>unmarshal\<close> is the decoder of the YAML library, run on the defaults.\<close>

definition ManualCluster_UnmarshalYAML :: "(ManualCluster \<Rightarrow> go_error + ManualCluster) \<Rightarrow> go_error + ManualCluster" where
  "ManualCluster_UnmarshalYAML unmarshal = (case unmarshal manual_cluster_defaults of
     Inl e \<Rightarrow> Inl e
   | Inr c \<Rightarrow>
       if mcClusterID c = [] then Inl (GoErr ''cluster_id is empty'')
       else if mcProviderType c = ClusterProviderStandalone \<and> mcClusterDNS c = [] then
         Inl (GoErr (''Standalone cluster with id '' @ mcClusterID c @ '' does not have the cluster dns field provided''))
       else if mcProviderType c = ClusterProviderStandalone \<and> mcName c = [] then
         Inl (GoErr (''Standalone cluster with id '' @ mcClusterID c @ '' does not have the name field provided''))
       else Inr (c\<lparr>
           mcStatus := (if mcProviderType c = ClusterProviderStandalone \<and> mcStatus c \<noteq> ClusterProvisioning \<and>
                           mcStatus c \<noteq> ClusterProvisioned \<and> mcStatus c \<noteq> ClusterReady
                        then ClusterProvisioning else mcStatus c),
           mcSupportedInstanceType := (if mcSupportedInstanceType c = [] then AllInstanceTypeSupport
                                       else mcSupportedInstanceType c)\<rparr>))"

record ClusterConfig =
  clusterList :: "ManualCluster list"
  clusterConfigMap :: "string \<rightharpoonup> ManualCluster"

definition NewClusterConfig :: "ManualCluster list \<Rightarrow> ClusterConfig" where
  "NewClusterConfig cs = \<lparr>clusterList = cs,
     clusterConfigMap = foldl (\<lambda>m c. m(mcClusterID c \<mapsto> c)) Map.empty cs\<rparr>"

fun capacity_sum :: "string \<Rightarrow> ManualCluster list \<Rightarrow> int" where
  "capacity_sum region [] = 0"
| "capacity_sum region (c # cs) =
     (if mcRegion c = region then mcCentralInstanceLimit c else 0) + capacity_sum region cs"

definition GetCapacityForRegion :: "ClusterConfig \<Rightarrow> string \<Rightarrow> int" where
  "GetCapacityForRegion conf region = capacity_sum region (clusterList conf)"

definition IsNumberOfDinosaurWithinClusterLimit :: "ClusterConfig \<Rightarrow> string \<Rightarrow> int \<Rightarrow> bool" where
  "IsNumberOfDinosaurWithinClusterLimit conf clusterID count = (case clusterConfigMap conf clusterID of
     Some c \<Rightarrow> mcCentralInstanceLimit c = -1 \<or> count \<le> mcCentralInstanceLimit c
   | None \<Rightarrow> True)"

definition IsClusterSchedulable :: "ClusterConfig \<Rightarrow> string \<Rightarrow> bool" where
  "IsClusterSchedulable conf clusterID = (case clusterConfigMap conf clusterID of
     Some c \<Rightarrow> mcSchedulable c
   | None \<Rightarrow> True)"

definition GetClusterSupportedInstanceType :: "ClusterConfig \<Rightarrow> string \<Rightarrow> string \<times> bool" where
  "GetClusterSupportedInstanceType conf clusterID = (case clusterConfigMap conf clusterID of
     Some c \<Rightarrow> (mcSupportedInstanceType c, True)
   | None \<Rightarrow> ([], False))"

text \<open>The cluster maps that the callers pass are given by their key-value pairs in iteration order.\<close>

definition ExcessClusters :: "ClusterConfig \<Rightarrow> (string \<times> Cluster) list \<Rightarrow> string list" where
  "ExcessClusters conf m = map (\<lambda>(k, c). clClusterID c) (filter (\<lambda>(k, c). clusterConfigMap conf k = None) m)"

definition MissingClusters :: "ClusterConfig \<Rightarrow> (string \<times> Cluster) list \<Rightarrow> ManualCluster list" where
  "MissingClusters conf m = filter (\<lambda>p. map_of m (mcClusterID p) = None) (clusterList conf)"

definition ExistingClusters :: "ClusterConfig \<Rightarrow> (string \<times> Cluster) list \<Rightarrow> ManualCluster list" where
  "ExistingClusters conf m = filter (\<lambda>p. map_of m (mcClusterID p) \<noteq> None) (clusterList conf)"

subsection \<open>Lemmas\<close>

lemma config_map_last:
  "clusterConfigMap (NewClusterConfig cs) k = map_of (rev (map (\<lambda>c. (mcClusterID c, c)) cs)) k"
proof -
  have "foldl (\<lambda>m c. m(mcClusterID c \<mapsto> c)) m cs = m ++ map_of (rev (map (\<lambda>c. (mcClusterID c, c)) cs))" for m :: "string \<rightharpoonup> ManualCluster"
    by (induction cs arbitrary: m) (auto simp: map_add_def fun_eq_iff split: option.splits)
  then show ?thesis by (simp add: NewClusterConfig_def)
qed

lemma configured_iff: "clusterConfigMap (NewClusterConfig cs) k \<noteq> None \<longleftrightarrow> k \<in> mcClusterID ` set cs"
  unfolding config_map_last by (force simp: map_of_eq_None_iff)

lemma missing_existing_partition:
  "filter (\<lambda>p. p \<in> set (MissingClusters conf m)) (clusterList conf) = MissingClusters conf m \<and>
   set (clusterList conf) = set (MissingClusters conf m) \<union> set (ExistingClusters conf m) \<and>
   set (MissingClusters conf m) \<inter> set (ExistingClusters conf m) = {}"
  by (auto simp: MissingClusters_def ExistingClusters_def intro!: filter_cong)

text \<open>The configuration splits the known and the configured clusters. Every configured cluster
  is either missing from or present in the known clusters, never both; a known cluster is in excess
  iff no configured cluster has its id; so reconciling leaves no cluster out.\<close>

theorem cluster_config_partition:
  "set cs = set (MissingClusters (NewClusterConfig cs) m) \<union> set (ExistingClusters (NewClusterConfig cs) m) \<and>
   set (MissingClusters (NewClusterConfig cs) m) \<inter> set (ExistingClusters (NewClusterConfig cs) m) = {} \<and>
   set (ExcessClusters (NewClusterConfig cs) m) = {clClusterID c | k c. (k, c) \<in> set m \<and> k \<notin> mcClusterID ` set cs}"
proof -
  have "set (ExcessClusters (NewClusterConfig cs) m) = {clClusterID c | k c. (k, c) \<in> set m \<and> k \<notin> mcClusterID ` set cs}"
    using configured_iff [of cs] by (force simp: ExcessClusters_def)
  then show ?thesis using missing_existing_partition [of "NewClusterConfig cs" m]
    by (simp add: NewClusterConfig_def)
qed

end
