(* ===== verification/Fleet_World.thy ===== *)
theory Fleet_World
  imports Cluster_Types "HOL-Library.List_Lexorder" "HOL-Library.Char_ord"
begin

text \<open>
  The state the services share: the two database tables, the outcome of the database statements to
  come, and the log of the calls to external systems. A statement of the object-relational mapper
  (gorm) is executed by \<open>stmt\<close>: it takes the next planned outcome, and a planned error makes it
  fail without effect. Rows that are soft-deleted (\<^verbatim>\<open>deleted_at\<close> set) are invisible to every
  statement. \<^verbatim>\<open>Updates\<close> with a struct writes its non-zero fields, \<^verbatim>\<open>Model(x)\<close> adds the condition on
  the primary key of \<open>x\<close> when that is set, \<^verbatim>\<open>First\<close> orders by primary key.
\<close>

datatype ext_event =
    EvReserveQuota string string
  | EvDeleteQuota string
  | EvCreateClient string "string list"
  | EvDeleteClient string
  | EvChangeCNAME "DataPlaneCentralRoute list" string

record world =
  centrals :: "CentralRequest list"
  clusters :: "Cluster list"
  faults :: "go_error option list"
  events :: "ext_event list"

text \<open>A failing statement answers with an error of the driver, which is none of the errors that the mapper
  itself defines.\<close>

definition driver_error :: "go_error \<Rightarrow> go_error" where
  "driver_error e = GoErr (go_Error e)"

definition stmt :: "(world \<Rightarrow> (go_error + 'a) \<times> world) \<Rightarrow> world \<Rightarrow> (go_error + 'a) \<times> world" where
  "stmt f w = (case faults w of
     Some e # fs \<Rightarrow> (Inl (driver_error e), w\<lparr>faults := fs\<rparr>)
   | None # fs \<Rightarrow> f (w\<lparr>faults := fs\<rparr>)
   | [] \<Rightarrow> f w)"

definition log_event :: "ext_event \<Rightarrow> world \<Rightarrow> world" where
  "log_event e w = w\<lparr>events := events w @ [e]\<rparr>"

subsection \<open>Central requests\<close>

definition live :: "CentralRequest \<Rightarrow> bool" where
  "live r \<longleftrightarrow> crDeletedAt r = None"

definition find_centrals :: "(CentralRequest \<Rightarrow> bool) \<Rightarrow> world \<Rightarrow> (go_error + CentralRequest list) \<times> world" where
  "find_centrals P = stmt (\<lambda>w. (Inr (filter (\<lambda>r. live r \<and> P r) (centrals w)), w))"

definition count_centrals :: "(CentralRequest \<Rightarrow> bool) \<Rightarrow> world \<Rightarrow> (go_error + int) \<times> world" where
  "count_centrals P = stmt (\<lambda>w. (Inr (int (length (filter (\<lambda>r. live r \<and> P r) (centrals w)))), w))"

definition first_central :: "(CentralRequest \<Rightarrow> bool) \<Rightarrow> world \<Rightarrow> (go_error + CentralRequest) \<times> world" where
  "first_central P = stmt (\<lambda>w.
     (case sort_key crID (filter (\<lambda>r. live r \<and> P r) (centrals w)) of
        [] \<Rightarrow> Inl RecordNotFound
      | r # _ \<Rightarrow> Inr r, w))"

definition update_centrals ::
  "(CentralRequest \<Rightarrow> bool) \<Rightarrow> (CentralRequest \<Rightarrow> CentralRequest) \<Rightarrow> world \<Rightarrow> (go_error + int) \<times> world" where
  "update_centrals P f = stmt (\<lambda>w.
     (Inr (int (length (filter (\<lambda>r. live r \<and> P r) (centrals w)))),
      w\<lparr>centrals := map (\<lambda>r. if live r \<and> P r then f r else r) (centrals w)\<rparr>))"

definition nz :: "string \<Rightarrow> string \<Rightarrow> string" where "nz v old = (if v = [] then old else v)"
definition nzi :: "int \<Rightarrow> int \<Rightarrow> int" where "nzi v old = (if v = 0 then old else v)"
definition nzb :: "bool \<Rightarrow> bool \<Rightarrow> bool" where "nzb v old = (v \<or> old)"
definition nzo :: "'a option \<Rightarrow> 'a option \<Rightarrow> 'a option" where
  "nzo v old = (case v of None \<Rightarrow> old | Some _ \<Rightarrow> v)"
definition nzj :: "string option \<Rightarrow> string option \<Rightarrow> string option" where
  "nzj v old = (case v of None \<Rightarrow> old | Some s \<Rightarrow> if s = [] \<or> s = ''null'' then None else Some s)"
definition nzr :: "routes_json \<Rightarrow> routes_json \<Rightarrow> routes_json" where
  "nzr v old = (case v of RNil \<Rightarrow> old | RJson None \<Rightarrow> RNil | _ \<Rightarrow> v)"

lemmas nz_defs = nz_def nzi_def nzb_def nzo_def nzj_def nzr_def

text \<open>The row after \<^verbatim>\<open>Updates(u)\<close> with a struct \<open>u\<close> at time \<open>now\<close>.\<close>

definition assign_central :: "int \<Rightarrow> CentralRequest \<Rightarrow> CentralRequest \<Rightarrow> CentralRequest" where
  "assign_central now u r = r\<lparr>
     crCreatedAt := nzi (crCreatedAt u) (crCreatedAt r),
     crUpdatedAt := now,
     crDeletedAt := nzo (crDeletedAt u) (crDeletedAt r),
     crRegion := nz (crRegion u) (crRegion r),
     crClusterID := nz (crClusterID u) (crClusterID r),
     crCloudProvider := nz (crCloudProvider u) (crCloudProvider r),
     crCloudAccountID := nz (crCloudAccountID u) (crCloudAccountID r),
     crMultiAZ := nzb (crMultiAZ u) (crMultiAZ r),
     crName := nz (crName u) (crName r),
     crStatus := nz (crStatus u) (crStatus r),
     crSubscriptionID := nz (crSubscriptionID u) (crSubscriptionID r),
     crOwner := nz (crOwner u) (crOwner r),
     crOwnerAccountID := nz (crOwnerAccountID u) (crOwnerAccountID r),
     crOwnerUserID := nz (crOwnerUserID u) (crOwnerUserID r),
     crHost := nz (crHost u) (crHost r),
     crOrganisationID := nz (crOrganisationID u) (crOrganisationID r),
     crOrganisationName := nz (crOrganisationName u) (crOrganisationName r),
     crFailedReason := nz (crFailedReason u) (crFailedReason r),
     crPlacementID := nz (crPlacementID u) (crPlacementID r),
     crCentral := nzj (crCentral u) (crCentral r),
     crScanner := nzj (crScanner u) (crScanner r),
     crDesiredCentralVersion := nz (crDesiredCentralVersion u) (crDesiredCentralVersion r),
     crActualCentralVersion := nz (crActualCentralVersion u) (crActualCentralVersion r),
     crDesiredCentralOperatorVersion := nz (crDesiredCentralOperatorVersion u) (crDesiredCentralOperatorVersion r),
     crActualCentralOperatorVersion := nz (crActualCentralOperatorVersion u) (crActualCentralOperatorVersion r),
     crCentralUpgrading := nzb (crCentralUpgrading u) (crCentralUpgrading r),
     crCentralOperatorUpgrading := nzb (crCentralOperatorUpgrading u) (crCentralOperatorUpgrading r),
     crInstanceType := nz (crInstanceType u) (crInstanceType r),
     crQuotaType := nz (crQuotaType u) (crQuotaType r),
     crRoutes := nzr (crRoutes u) (crRoutes r),
     crRoutesCreated := nzb (crRoutesCreated u) (crRoutesCreated r),
     crNamespace := nz (crNamespace u) (crNamespace r),
     crRoutesCreationID := nz (crRoutesCreationID u) (crRoutesCreationID r),
     crDeletionTimestamp := nzo (crDeletionTimestamp u) (crDeletionTimestamp r),
     crInternal := nzb (crInternal u) (crInternal r),
     crClientID := nz (crClientID u) (crClientID r),
     crClientSecret := nz (crClientSecret u) (crClientSecret r),
     crIssuer := nz (crIssuer u) (crIssuer r),
     crClientOrigin := nz (crClientOrigin u) (crClientOrigin r)\<rparr>"

definition pk_match :: "CentralRequest \<Rightarrow> CentralRequest \<Rightarrow> bool" where
  "pk_match u r \<longleftrightarrow> crID u = [] \<or> crID r = crID u"

definition stored :: "int \<Rightarrow> CentralRequest \<Rightarrow> CentralRequest" where
  "stored now k = k\<lparr>crCreatedAt := (if crCreatedAt k = 0 then now else crCreatedAt k),
     crUpdatedAt := (if crUpdatedAt k = 0 then now else crUpdatedAt k),
     crRoutes := nzr (crRoutes k) RNil, crCentral := nzj (crCentral k) None, crScanner := nzj (crScanner k) None\<rparr>"

definition unique_violation :: go_error where
  "unique_violation = GoErr ''ERROR: duplicate key value violates unique constraint''"

definition create_central :: "string \<Rightarrow> int \<Rightarrow> CentralRequest \<Rightarrow> world \<Rightarrow> (go_error + CentralRequest) \<times> world" where
  "create_central newID now k = stmt (\<lambda>w.
     let k' = stored now (central_BeforeCreate newID k) in
     if crID k' \<in> set (map crID (centrals w)) then (Inl unique_violation, w)
     else (Inr k', w\<lparr>centrals := centrals w @ [k']\<rparr>))"

text \<open>\<^verbatim>\<open>Delete(x)\<close>: sets \<^verbatim>\<open>deleted_at\<close>; without a primary key there is no condition and gorm
  refuses the statement.\<close>

definition delete_central :: "int \<Rightarrow> CentralRequest \<Rightarrow> world \<Rightarrow> (go_error + int) \<times> world" where
  "delete_central now k =
     (if crID k = [] then stmt (\<lambda>w. (Inl (GoErr ''WHERE conditions required''), w))
      else update_centrals (\<lambda>r. crID r = crID k) (\<lambda>r. r\<lparr>crDeletedAt := Some now\<rparr>))"

subsection \<open>Clusters\<close>

definition cluster_live :: "Cluster \<Rightarrow> bool" where
  "cluster_live c \<longleftrightarrow> clDeletedAt c = None"

definition find_clusters :: "(Cluster \<Rightarrow> bool) \<Rightarrow> world \<Rightarrow> (go_error + Cluster list) \<times> world" where
  "find_clusters P = stmt (\<lambda>w. (Inr (filter (\<lambda>c. cluster_live c \<and> P c) (clusters w)), w))"

definition first_cluster :: "(Cluster \<Rightarrow> bool) \<Rightarrow> world \<Rightarrow> (go_error + Cluster) \<times> world" where
  "first_cluster P = stmt (\<lambda>w.
     (case sort_key clID (filter (\<lambda>c. cluster_live c \<and> P c) (clusters w)) of
        [] \<Rightarrow> Inl RecordNotFound
      | c # _ \<Rightarrow> Inr c, w))"

definition update_clusters :: "(Cluster \<Rightarrow> bool) \<Rightarrow> (Cluster \<Rightarrow> Cluster) \<Rightarrow> world \<Rightarrow> (go_error + int) \<times> world" where
  "update_clusters P f = stmt (\<lambda>w.
     (Inr (int (length (filter (\<lambda>c. cluster_live c \<and> P c) (clusters w)))),
      w\<lparr>clusters := map (\<lambda>c. if cluster_live c \<and> P c then f c else c) (clusters w)\<rparr>))"

definition nzv :: "versions_json \<Rightarrow> versions_json \<Rightarrow> versions_json" where
  "nzv v old = (case v of VNil \<Rightarrow> old | VJson None \<Rightarrow> VNil | _ \<Rightarrow> v)"

text \<open>\<^verbatim>\<open>StatusDetails\<close> is not a column.\<close>

definition assign_cluster :: "int \<Rightarrow> Cluster \<Rightarrow> Cluster \<Rightarrow> Cluster" where
  "assign_cluster now u c = c\<lparr>
     clCreatedAt := nzi (clCreatedAt u) (clCreatedAt c),
     clUpdatedAt := now,
     clDeletedAt := nzo (clDeletedAt u) (clDeletedAt c),
     clCloudProvider := nz (clCloudProvider u) (clCloudProvider c),
     clClusterID := nz (clClusterID u) (clClusterID c),
     clExternalID := nz (clExternalID u) (clExternalID c),
     clMultiAZ := nzb (clMultiAZ u) (clMultiAZ c),
     clRegion := nz (clRegion u) (clRegion c),
     clStatus := nz (clStatus u) (clStatus c),
     clIdentityProviderID := nz (clIdentityProviderID u) (clIdentityProviderID c),
     clClusterDNS := nz (clClusterDNS u) (clClusterDNS c),
     clProviderType := nz (clProviderType u) (clProviderType c),
     clProviderSpec := nzj (clProviderSpec u) (clProviderSpec c),
     clClusterSpec := nzj (clClusterSpec u) (clClusterSpec c),
     clAvailableCentralOperatorVersions := nzv (clAvailableCentralOperatorVersions u) (clAvailableCentralOperatorVersions c),
     clSupportedInstanceType := nz (clSupportedInstanceType u) (clSupportedInstanceType c),
     clSchedulable := nzb (clSchedulable u) (clSchedulable c)\<rparr>"

end
