(* ===== verification/Cluster_Service.thy ===== *)
theory Cluster_Service
  imports Fleet_World
begin

text \<open>
  The cluster service (\<^verbatim>\<open>services/clusters.go\<close>) and the placement of tenants on clusters
  (\<^verbatim>\<open>services/cluster_placement_strategy.go\<close>). The providers of clusters (OCM, standalone) are
  interfaces of the source: a record of functions. An operation that dereferences a nil cluster
  panics; the operations that can do so return an option, \<open>None\<close> for the panic.
\<close>

record ClusterSpec =
  csInternalID :: string
  csExternalID :: string
  csStatus :: string
  csStatusDetails :: string
  csAdditionalInfo :: "string option"

record ClusterRequest =
  rqCloudProvider :: string
  rqRegion :: string
  rqMultiAZ :: bool
  rqAdditionalSpec :: "string option"

record provider =
  prCreate :: "ClusterRequest \<Rightarrow> go_error + ClusterSpec"
  prDelete :: "ClusterSpec \<Rightarrow> go_error + bool"
  prCheckClusterStatus :: "ClusterSpec \<Rightarrow> go_error + ClusterSpec"
  prAddIdentityProvider :: "ClusterSpec \<Rightarrow> string \<Rightarrow> go_error + string"
  prApplyResources :: "ClusterSpec \<Rightarrow> string \<Rightarrow> go_error option"
  prScaleUp :: "ClusterSpec \<Rightarrow> int \<Rightarrow> go_error + ClusterSpec"
  prScaleDown :: "ClusterSpec \<Rightarrow> int \<Rightarrow> go_error + ClusterSpec"
  prSetComputeNodes :: "ClusterSpec \<Rightarrow> int \<Rightarrow> go_error + ClusterSpec"
  prGetComputeNodes :: "ClusterSpec \<Rightarrow> go_error + int \<times> int"
  prGetClusterDNS :: "ClusterSpec \<Rightarrow> go_error + string"
  prInstallDinosaurOperator :: "ClusterSpec \<Rightarrow> go_error option \<times> bool"

type_synonym provider_factory = "string \<Rightarrow> go_error + provider"

definition general_error :: "go_error \<Rightarrow> string \<Rightarrow> service_error" where
  "general_error e msg = NewWithCause ErrorGeneral (Some e) (Fmt msg)"

definition provider_error :: "go_error \<Rightarrow> service_error" where
  "provider_error e = general_error e ''failed to get provider implementation''"

definition buildClusterSpec :: "Cluster \<Rightarrow> ClusterSpec" where
  "buildClusterSpec c = \<lparr>csInternalID = clClusterID c, csExternalID = clExternalID c, csStatus = clStatus c,
     csStatusDetails = [], csAdditionalInfo = clClusterSpec c\<rparr>"

text \<open>\<^verbatim>\<open>Save\<close>: inserts a row without primary key (or whose key is unknown), otherwise overwrites all
  columns of the row with that key.\<close>

definition save_cluster :: "string \<Rightarrow> int \<Rightarrow> Cluster \<Rightarrow> world \<Rightarrow> (go_error + Cluster) \<times> world" where
  "save_cluster newID now c = stmt (\<lambda>w.
     if clID c \<noteq> [] \<and> list_ex (\<lambda>r. cluster_live r \<and> clID r = clID c) (clusters w) then
       (let c' = c\<lparr>clUpdatedAt := now\<rparr> in
        if list_ex (\<lambda>r. clID r \<noteq> clID c \<and> clClusterID r = clClusterID c) (clusters w) then (Inl unique_violation, w)
        else (Inr c', w\<lparr>clusters := map (\<lambda>r. if cluster_live r \<and> clID r = clID c then c' else r) (clusters w)\<rparr>))
     else
       (let c' = (cluster_BeforeCreate newID c)\<lparr>clCreatedAt := nzi (clCreatedAt c) now, clUpdatedAt := now\<rparr> in
        if list_ex (\<lambda>r. clID r = clID c' \<or> clClusterID r = clClusterID c') (clusters w)
        then (Inl unique_violation, w)
        else (Inr c', w\<lparr>clusters := clusters w @ [c']\<rparr>)))"

definition RegisterClusterJob :: "string \<Rightarrow> int \<Rightarrow> Cluster \<Rightarrow> world \<Rightarrow> service_error option \<times> world" where
  "RegisterClusterJob newID now c w = (case save_cluster newID now c w of
     (Inl e, w') \<Rightarrow> (Some (general_error e ''failed to register cluster job''), w')
   | (Inr _, w') \<Rightarrow> (None, w'))"

definition cluster_Create :: "provider_factory \<Rightarrow> string \<Rightarrow> int \<Rightarrow> Cluster \<Rightarrow> world \<Rightarrow> (service_error + Cluster) \<times> world" where
  "cluster_Create pf newID now c w =
     (let r = \<lparr>rqCloudProvider = clCloudProvider c, rqRegion = clRegion c, rqMultiAZ = clMultiAZ c,
               rqAdditionalSpec = clProviderSpec c\<rparr> in
      case pf (clProviderType c) of
        Inl e \<Rightarrow> (Inl (provider_error e), w)
      | Inr p \<Rightarrow>
          (case prCreate p r of
             Inl e \<Rightarrow> (Inl (general_error e ''failed to create cluster''), w)
           | Inr spec \<Rightarrow>
               (let c1 = c\<lparr>clClusterID := csInternalID spec, clExternalID := csExternalID spec,
                            clStatus := csStatus spec, clSchedulable := True,
                            clClusterSpec := (case csAdditionalInfo spec of None \<Rightarrow> clClusterSpec c | Some i \<Rightarrow> Some i)\<rparr> in
                case save_cluster newID now c1 w of
                  (Inl e, w') \<Rightarrow> (Inl (general_error e ''failed to save data to db''), w')
                | (Inr c2, w') \<Rightarrow> (Inr c2, w'))))"

definition cluster_ListByStatus :: "string \<Rightarrow> world \<Rightarrow> (service_error + Cluster list) \<times> world" where
  "cluster_ListByStatus status w =
     (if status = [] then (Inl (Validation (Fmt ''status is undefined'')), w)
      else (case find_clusters (\<lambda>c. clStatus c = status) w of
        (Inl e, w') \<Rightarrow> (Inl (general_error e ''failed to query by status''), w')
      | (Inr cs, w') \<Rightarrow> (Inr cs, w')))"

definition cluster_Update :: "int \<Rightarrow> Cluster \<Rightarrow> world \<Rightarrow> service_error option \<times> world" where
  "cluster_Update now c w =
     (if clID c = [] then (Some (Validation (Fmt ''id is undefined'')), w)
      else (case update_clusters (\<lambda>r. clID r = clID c) (assign_cluster now c) w of
        (Inl e, w') \<Rightarrow> (Some (general_error e ''failed to update cluster''), w')
      | (Inr _, w') \<Rightarrow> (None, w')))"

text \<open>\<open>assigns\<close> is the effect of the map of columns on a row.\<close>

definition cluster_Updates :: "int \<Rightarrow> Cluster \<Rightarrow> (Cluster \<Rightarrow> Cluster) \<Rightarrow> world \<Rightarrow> service_error option \<times> world" where
  "cluster_Updates now c assigns w =
     (if clID c = [] then (Some (Validation (Fmt ''id is undefined'')), w)
      else (case update_clusters (\<lambda>r. clID r = clID c) (\<lambda>r. (assigns r)\<lparr>clUpdatedAt := now\<rparr>) w of
        (Inl e, w') \<Rightarrow> (Some (general_error e ''failed to update cluster''), w')
      | (Inr _, w') \<Rightarrow> (None, w')))"

definition set_cluster_status :: "int \<Rightarrow> string \<Rightarrow> Cluster \<Rightarrow> Cluster" where
  "set_cluster_status now status r = r\<lparr>clStatus := status, clUpdatedAt := now\<rparr>"

definition cluster_UpdateStatus :: "int \<Rightarrow> Cluster \<Rightarrow> string \<Rightarrow> world \<Rightarrow> service_error option \<times> world" where
  "cluster_UpdateStatus now c status w =
     (if status = [] then (Some (Validation (Fmt ''status is undefined'')), w)
      else if clID c = [] \<and> clClusterID c = [] then (Some (Validation (Fmt ''id is undefined'')), w)
      else (case update_clusters
               (\<lambda>r. if clID c \<noteq> [] then clID r = clID c else clClusterID r = clClusterID c)
               (set_cluster_status now status) w of
        (Inl e, w') \<Rightarrow> (Some (general_error e ''failed to update cluster status''), w')
      | (Inr _, w') \<Rightarrow> (None, w')))"

text \<open>\<^verbatim>\<open>GROUP BY\<close> with a count, and the zero counts that the services add for keys without rows.\<close>

definition group_count :: "'a list \<Rightarrow> ('a \<times> int) list" where
  "group_count ks = map (\<lambda>k. (k, int (length (filter (\<lambda>x. x = k) ks)))) (remdups ks)"

definition add_missing :: "string list \<Rightarrow> (string \<times> int) list \<Rightarrow> (string \<times> int) list" where
  "add_missing wanted res = res @ map (\<lambda>k. (k, 0)) (filter (\<lambda>k. k \<notin> fst ` set res) wanted)"

definition ListGroupByProviderAndRegion ::
  "string list \<Rightarrow> string list \<Rightarrow> string list \<Rightarrow> world \<Rightarrow> (service_error + ((string \<times> string) \<times> int) list) \<times> world" where
  "ListGroupByProviderAndRegion providers regions status w =
     (if providers = [] \<or> regions = [] \<or> status = [] then
        (Inl (Validation (Fmt ''provider, region and status must not be empty'')), w)
      else (case find_clusters (\<lambda>c. clCloudProvider c \<in> set providers \<and> clRegion c \<in> set regions \<and> clStatus c \<in> set status) w of
        (Inl e, w') \<Rightarrow> (Inl (general_error e ''failed to list by cloud provider, regions and status''), w')
      | (Inr cs, w') \<Rightarrow> (Inr (group_count (map (\<lambda>c. (clCloudProvider c, clRegion c)) cs)), w')))"

record FindClusterCriteria =
  fcProvider :: string
  fcRegion :: string
  fcMultiAZ :: bool
  fcStatus :: string

text \<open>A struct condition: zero fields are not compared, so \<^verbatim>\<open>MultiAZ = false\<close> is no condition.\<close>

definition criteria_match :: "FindClusterCriteria \<Rightarrow> Cluster \<Rightarrow> bool" where
  "criteria_match cr c \<longleftrightarrow>
     (fcProvider cr = [] \<or> clCloudProvider c = fcProvider cr) \<and>
     (fcRegion cr = [] \<or> clRegion c = fcRegion cr) \<and>
     (fcMultiAZ cr \<longrightarrow> clMultiAZ c) \<and>
     (fcStatus cr = [] \<or> clStatus c = fcStatus cr)"

text \<open>\<^verbatim>\<open>First\<close> runs the query: the \<^verbatim>\<open>Order\<close> that follows it in the source has no effect.\<close>

definition cluster_FindCluster :: "FindClusterCriteria \<Rightarrow> world \<Rightarrow> (service_error + Cluster option) \<times> world" where
  "cluster_FindCluster cr w = (case first_cluster (criteria_match cr) w of
     (Inl RecordNotFound, w') \<Rightarrow> (Inr None, w')
   | (Inl e, w') \<Rightarrow> (Inl (general_error e ''failed to find cluster with criteria''), w')
   | (Inr c, w') \<Rightarrow> (Inr (Some c), w'))"

definition FindClusterByID :: "string \<Rightarrow> world \<Rightarrow> (service_error + Cluster option) \<times> world" where
  "FindClusterByID clusterID w =
     (if clusterID = [] then (Inl (Validation (Fmt ''clusterID is undefined'')), w)
      else (case first_cluster (\<lambda>c. clClusterID c = clusterID) w of
        (Inl RecordNotFound, w') \<Rightarrow> (Inr None, w')
      | (Inl e, w') \<Rightarrow> (Inl (general_error e (''failed to find cluster with id: '' @ clusterID)), w')
      | (Inr c, w') \<Rightarrow> (Inr (Some c), w')))"

definition FindAllClusters :: "FindClusterCriteria \<Rightarrow> world \<Rightarrow> (service_error + Cluster list) \<times> world" where
  "FindAllClusters cr w = (case find_clusters (criteria_match cr) w of
     (Inl RecordNotFound, w') \<Rightarrow> (Inr [], w')
   | (Inl e, w') \<Rightarrow> (Inl (general_error e ''failed to find all clusters with criteria''), w')
   | (Inr cs, w') \<Rightarrow> (Inr (sort_key clCreatedAt cs), w'))"

definition GetClusterDNS :: "provider_factory \<Rightarrow> int \<Rightarrow> string \<Rightarrow> world \<Rightarrow> (service_error + string) option \<times> world" where
  "GetClusterDNS pf now clusterID w = (case FindClusterByID clusterID w of
     (Inl e, w') \<Rightarrow> (Some (Inl e), w')
   | (Inr None, w') \<Rightarrow> (None, w')
   | (Inr (Some c), w') \<Rightarrow>
       if clClusterDNS c \<noteq> [] then (Some (Inr (clClusterDNS c)), w')
       else (case pf (clProviderType c) of
          Inl e \<Rightarrow> (Some (Inl (provider_error e)), w')
        | Inr p \<Rightarrow>
            (case prGetClusterDNS p (buildClusterSpec c) of
               Inl e \<Rightarrow> (Some (Inl (general_error e ''failed to get cluster DNS from OCM'')), w')
             | Inr dns \<Rightarrow>
                 (case cluster_Update now (c\<lparr>clClusterDNS := dns\<rparr>) w' of
                    (Some e, w2) \<Rightarrow> (Some (Inl (general_error (SvcErr e) ''failed to update cluster DNS'')), w2)
                  | (None, w2) \<Rightarrow> (Some (Inr dns), w2)))))"

definition with_cluster_provider ::
  "provider_factory \<Rightarrow> string \<Rightarrow> bool \<Rightarrow> (provider \<Rightarrow> ClusterSpec \<Rightarrow> service_error + 'a) \<Rightarrow> world
     \<Rightarrow> (service_error + 'a) option \<times> world" where
  "with_cluster_provider pf clusterID checks_nil f w =
     (if clusterID = [] then (Some (Inl (Validation (Fmt ''clusterID is undefined''))), w)
      else (case FindClusterByID clusterID w of
        (Inl e, w') \<Rightarrow> (Some (Inl e), w')
      | (Inr None, w') \<Rightarrow>
          if checks_nil then
            (Some (Inl (New ErrorGeneral (Fmt (''unable to find a cluster identified by '' @ [CHR 39] @ clusterID @ [CHR 39])))), w')
          else (None, w')
      | (Inr (Some c), w') \<Rightarrow>
          (case pf (clProviderType c) of
             Inl e \<Rightarrow> (Some (Inl (provider_error e)), w')
           | Inr p \<Rightarrow> (Some (f p (buildClusterSpec c)), w'))))"

definition provider_result :: "string \<Rightarrow> go_error + 'a \<Rightarrow> service_error + 'a" where
  "provider_result msg r = (case r of Inl e \<Rightarrow> Inl (general_error e msg) | Inr x \<Rightarrow> Inr x)"

definition ScaleUpComputeNodes :: "provider_factory \<Rightarrow> string \<Rightarrow> int \<Rightarrow> world \<Rightarrow> (service_error + ClusterSpec) option \<times> world" where
  "ScaleUpComputeNodes pf clusterID increment =
     with_cluster_provider pf clusterID True (\<lambda>p s. provider_result ''failed to scale up cluster'' (prScaleUp p s increment))"

definition ScaleDownComputeNodes :: "provider_factory \<Rightarrow> string \<Rightarrow> int \<Rightarrow> world \<Rightarrow> (service_error + ClusterSpec) option \<times> world" where
  "ScaleDownComputeNodes pf clusterID decrement =
     with_cluster_provider pf clusterID True (\<lambda>p s. provider_result ''failed to scale down cluster'' (prScaleDown p s decrement))"

definition SetComputeNodes :: "provider_factory \<Rightarrow> string \<Rightarrow> int \<Rightarrow> world \<Rightarrow> (service_error + ClusterSpec) option \<times> world" where
  "SetComputeNodes pf clusterID n =
     with_cluster_provider pf clusterID False (\<lambda>p s. provider_result ''failed to set compute nodes'' (prSetComputeNodes p s n))"

definition GetComputeNodes :: "provider_factory \<Rightarrow> string \<Rightarrow> world \<Rightarrow> (service_error + int \<times> int) option \<times> world" where
  "GetComputeNodes pf clusterID =
     with_cluster_provider pf clusterID False
       (\<lambda>p s. provider_result ''failed to get compute nodes info from provider'' (prGetComputeNodes p s))"

definition DeleteByClusterID :: "int \<Rightarrow> string \<Rightarrow> world \<Rightarrow> service_error option \<times> world" where
  "DeleteByClusterID now clusterID w =
     (case (if clusterID = [] then stmt (\<lambda>w. (Inl (GoErr ''WHERE conditions required''), w)) w
            else update_clusters (\<lambda>c. clClusterID c = clusterID) (\<lambda>c. c\<lparr>clDeletedAt := Some now\<rparr>) w) of
        (Inl e, w') \<Rightarrow> (Some (general_error e (''Unable to delete cluster with cluster_id '' @ clusterID)), w')
      | (Inr _, w') \<Rightarrow> (None, w'))"

text \<open>The sub-query on central requests is part of the same statement.\<close>

definition FindNonEmptyClusterByID :: "string \<Rightarrow> world \<Rightarrow> (service_error + Cluster option) \<times> world" where
  "FindNonEmptyClusterByID clusterID w =
     (case first_cluster (\<lambda>c. (clusterID = [] \<or> clClusterID c = clusterID) \<and>
             list_ex (\<lambda>r. live r \<and> crStatus r \<noteq> CentralRequestStatusFailed \<and> crClusterID r = clusterID \<and>
                          clClusterID c = crClusterID r) (centrals w)) w of
        (Inl RecordNotFound, w') \<Rightarrow> (Inr None, w')
      | (Inl e, w') \<Rightarrow> (Inl (general_error e (''failed to find cluster with id '' @ clusterID)), w')
      | (Inr c, w') \<Rightarrow> (Inr (Some c), w'))"

definition ListAllClusterIds :: "world \<Rightarrow> (service_error + Cluster list) \<times> world" where
  "ListAllClusterIds w = (case find_clusters (\<lambda>c. clClusterID c \<noteq> []) w of
     (Inl e, w') \<Rightarrow> (Inl (general_error e ''failed to query by cluster info''), w')
   | (Inr cs, w') \<Rightarrow>
       (Inr (map (\<lambda>c. empty_cluster\<lparr>clClusterID := clClusterID c\<rparr>) (sort_key clCreatedAt cs)), w'))"

definition GetExternalID :: "string \<Rightarrow> world \<Rightarrow> (service_error + string) \<times> world" where
  "GetExternalID clusterID w = (case FindClusterByID clusterID w of
     (Inl e, w') \<Rightarrow> (Inl e, w')
   | (Inr None, w') \<Rightarrow> (Inl (GeneralError (Fmt (''failed to get External ID for clusterID '' @ clusterID))), w')
   | (Inr (Some c), w') \<Rightarrow> (Inr (clExternalID c), w'))"

definition FindDinosaurInstanceCount :: "string list \<Rightarrow> world \<Rightarrow> (service_error + (string \<times> int) list) \<times> world" where
  "FindDinosaurInstanceCount clusterIDs w =
     (case find_centrals (\<lambda>r. crStatus r \<noteq> CentralRequestStatusAccepted \<and>
              (if clusterIDs \<noteq> [] then crClusterID r \<in> set clusterIDs else crClusterID r \<noteq> [])) w of
        (Inl e, w') \<Rightarrow> (Inl (general_error e ''failed to query by cluster info''), w')
      | (Inr rs, w') \<Rightarrow>
          (Inr (add_missing clusterIDs (sort_key fst (group_count (map crClusterID rs)))), w'))"

definition UpdateMultiClusterStatus :: "int \<Rightarrow> string list \<Rightarrow> string \<Rightarrow> world \<Rightarrow> service_error option \<times> world" where
  "UpdateMultiClusterStatus now clusterIds status w =
     (if status = [] then (Some (Validation (Fmt ''status is undefined'')), w)
      else if clusterIds = [] then (Some (Validation (Fmt ''ids is empty'')), w)
      else (case update_clusters (\<lambda>c. clClusterID c \<in> set clusterIds \<and>
                (status = ClusterDeprovisioning \<longrightarrow> clStatus c \<noteq> ClusterCleanup))
                (set_cluster_status now status) w of
        (Inl e, w') \<Rightarrow> (Some (general_error e (''failed to update status: ['' @ concat (map (\<lambda>s. s @ '' '') (butlast clusterIds)) @ last clusterIds @ '']'')), w')
      | (Inr _, w') \<Rightarrow> (None, w')))"

definition cluster_CountByStatus :: "string list \<Rightarrow> world \<Rightarrow> (service_error + (string \<times> int) list) \<times> world" where
  "cluster_CountByStatus status w = (case find_clusters (\<lambda>c. clStatus c \<in> set status) w of
     (Inl e, w') \<Rightarrow> (Inl (general_error e ''failed to count by status''), w')
   | (Inr cs, w') \<Rightarrow> (Inr (add_missing status (group_count (map clStatus cs))), w'))"

definition CheckClusterStatus :: "provider_factory \<Rightarrow> int \<Rightarrow> Cluster \<Rightarrow> world \<Rightarrow> (service_error + Cluster) \<times> world" where
  "CheckClusterStatus pf now c w = (case pf (clProviderType c) of
     Inl e \<Rightarrow> (Inl (provider_error e), w)
   | Inr p \<Rightarrow>
      (case prCheckClusterStatus p (buildClusterSpec c) of
         Inl e \<Rightarrow> (Inl (general_error e ''failed to check cluster status''), w)
       | Inr spec \<Rightarrow>
          (let c1 = c\<lparr>clStatus := csStatus spec, clStatusDetails := csStatusDetails spec,
                       clClusterSpec := csAdditionalInfo spec,
                       clExternalID := (if csExternalID spec \<noteq> [] \<and> clExternalID c = [] then csExternalID spec
                                        else clExternalID c)\<rparr> in
           case cluster_Update now c1 w of
             (Some e, w') \<Rightarrow> (Inl e, w')
           | (None, w') \<Rightarrow> (Inr c1, w'))))"

definition cluster_Delete :: "provider_factory \<Rightarrow> Cluster \<Rightarrow> service_error + bool" where
  "cluster_Delete pf c = (case pf (clProviderType c) of
     Inl e \<Rightarrow> Inl (provider_error e)
   | Inr p \<Rightarrow> provider_result ''failed to delete the cluster from the provider'' (prDelete p (buildClusterSpec c)))"

definition ConfigureAndSaveIdentityProvider ::
  "provider_factory \<Rightarrow> int \<Rightarrow> Cluster \<Rightarrow> string \<Rightarrow> world \<Rightarrow> (service_error + Cluster) \<times> world" where
  "ConfigureAndSaveIdentityProvider pf now c idp w =
     (if clIdentityProviderID c \<noteq> [] then (Inr c, w)
      else (case pf (clProviderType c) of
         Inl e \<Rightarrow> (Inl (provider_error e), w)
       | Inr p \<Rightarrow>
          (case prAddIdentityProvider p (buildClusterSpec c) idp of
             Inl e \<Rightarrow> (Inl (general_error e ''failed to add identity provider''), w)
           | Inr idpID \<Rightarrow>
              (case cluster_Update now (c\<lparr>clIdentityProviderID := idpID\<rparr>) w of
                 (Some e, w') \<Rightarrow> (Inl (general_error (SvcErr e) ''failed to update cluster''), w')
               | (None, w') \<Rightarrow> (Inr (c\<lparr>clIdentityProviderID := idpID\<rparr>), w')))))"

definition ApplyResources :: "provider_factory \<Rightarrow> Cluster \<Rightarrow> string \<Rightarrow> service_error option" where
  "ApplyResources pf c name = (case pf (clProviderType c) of
     Inl e \<Rightarrow> Some (provider_error e)
   | Inr p \<Rightarrow> (case prApplyResources p (buildClusterSpec c) name of
        Some e \<Rightarrow> Some (general_error e (''failed to apply resources '' @ name))
      | None \<Rightarrow> None))"

definition InstallDinosaurOperator :: "provider_factory \<Rightarrow> Cluster \<Rightarrow> service_error option \<times> bool" where
  "InstallDinosaurOperator pf c = (case pf (clProviderType c) of
     Inl e \<Rightarrow> (Some (provider_error e), False)
   | Inr p \<Rightarrow> (case prInstallDinosaurOperator p (buildClusterSpec c) of
        (Some e, ready) \<Rightarrow> (Some (general_error e (''failed to install central for cluster '' @ clClusterID c)), ready)
      | (None, ready) \<Rightarrow> (None, ready)))"

subsection \<open>Placement\<close>

definition supportsInstanceType :: "Cluster \<Rightarrow> string \<Rightarrow> bool" where
  "supportsInstanceType c instanceType \<longleftrightarrow>
     list_ex (\<lambda>t. t = instanceType) (split_on (CHR '','') (clSupportedInstanceType c))"

definition placement_criteria :: "CentralRequest \<Rightarrow> FindClusterCriteria" where
  "placement_criteria k = \<lparr>fcProvider = crCloudProvider k, fcRegion = crRegion k, fcMultiAZ = crMultiAZ k,
     fcStatus = ClusterReady\<rparr>"

definition FindCluster :: "CentralRequest \<Rightarrow> world \<Rightarrow> (service_error + Cluster option) \<times> world" where
  "FindCluster k w = (case FindAllClusters (placement_criteria k) w of
     (Inl e, w') \<Rightarrow> (Inl e, w')
   | (Inr cs, w') \<Rightarrow>
       (Inr (find (\<lambda>c. clSchedulable c \<and> supportsInstanceType c (crInstanceType k)) cs), w'))"

end
