(* ===== verification/World_Contracts.thy ===== *)
theory World_Contracts
  imports Fleet_World
begin

text \<open>
  The contract of an operation on the table of central requests. \<open>central_update\<close> is the interface
  an operation offers to reasoning about its callers: a relation between every row before and the
  row at the same place after, which keeps identifiers and soft-deleted rows. From it follow the
  uniqueness of identifiers and what happens to the row of a given identifier. \<open>lifecycle_update\<close>
  adds the laws of the life of a tenant. The services interpret these locales for their operations.
\<close>

subsection \<open>Statements\<close>

definition planned :: "world \<Rightarrow> go_error option" where
  "planned w = (case faults w of Some e # _ \<Rightarrow> Some (driver_error e) | _ \<Rightarrow> None)"

definition next_stmt :: "world \<Rightarrow> world" where
  "next_stmt w = w\<lparr>faults := tl (faults w)\<rparr>"

lemma stmt_unfold: "stmt f w = (case planned w of Some e \<Rightarrow> (Inl e, next_stmt w) | None \<Rightarrow> f (next_stmt w))"
  by (cases w) (auto simp: stmt_def planned_def next_stmt_def split: list.splits option.splits)

lemma planned_driver [simp]: "planned w \<noteq> Some RecordNotFound"
  by (auto simp: planned_def driver_error_def split: list.splits option.splits)

lemma next_stmt_sel [simp]:
  "centrals (next_stmt w) = centrals w" "clusters (next_stmt w) = clusters w" "events (next_stmt w) = events w"
  "faults (next_stmt w) = tl (faults w)"
  by (simp_all add: next_stmt_def)

text \<open>No statement of the future fails.\<close>

definition no_faults :: "world \<Rightarrow> bool" where
  "no_faults w \<longleftrightarrow> list_all (\<lambda>f. f = None) (faults w)"

lemma no_faults_planned [simp]: "no_faults w \<Longrightarrow> planned w = None"
  by (auto simp: no_faults_def planned_def split: list.splits)

lemma no_faults_next [simp]: "no_faults w \<Longrightarrow> no_faults (next_stmt w)"
  by (cases "faults w") (auto simp: no_faults_def next_stmt_def)

lemma update_centrals_unfold:
  "update_centrals P f w = (case planned w of
     Some e \<Rightarrow> (Inl e, next_stmt w)
   | None \<Rightarrow> (Inr (int (length (filter (\<lambda>r. live r \<and> P r) (centrals w)))),
       (next_stmt w)\<lparr>centrals := map (\<lambda>r. if live r \<and> P r then f r else r) (centrals w)\<rparr>))"
  by (simp add: update_centrals_def stmt_unfold split: option.splits)

lemma find_centrals_unfold:
  "find_centrals P w = (case planned w of
     Some e \<Rightarrow> (Inl e, next_stmt w) | None \<Rightarrow> (Inr (filter (\<lambda>r. live r \<and> P r) (centrals w)), next_stmt w))"
  by (simp add: find_centrals_def stmt_unfold split: option.splits)

lemma count_centrals_unfold:
  "count_centrals P w = (case planned w of
     Some e \<Rightarrow> (Inl e, next_stmt w)
   | None \<Rightarrow> (Inr (int (length (filter (\<lambda>r. live r \<and> P r) (centrals w)))), next_stmt w))"
  by (simp add: count_centrals_def stmt_unfold split: option.splits)

lemma first_central_Inr:
  "first_central P w = (Inr r, w') \<Longrightarrow> r \<in> set (centrals w) \<and> live r \<and> P r \<and> w' = next_stmt w"
proof -
  assume a: "first_central P w = (Inr r, w')"
  then obtain rs where "sort_key crID (filter (\<lambda>r. live r \<and> P r) (centrals w)) = r # rs" "w' = next_stmt w"
    by (auto simp: first_central_def stmt_unfold split: option.splits list.splits)
  then have "r \<in> set (sort_key crID (filter (\<lambda>r. live r \<and> P r) (centrals w)))" "w' = next_stmt w" by simp_all
  then show ?thesis by simp
qed

lemma first_central_world: "snd (first_central P w) = next_stmt w"
  by (simp add: first_central_def stmt_unfold split: option.splits)

lemma first_central_None:
  "first_central P w = (Inl e, w') \<Longrightarrow> planned w = None \<Longrightarrow>
     e = RecordNotFound \<and> filter (\<lambda>r. live r \<and> P r) (centrals w) = []"
proof -
  assume a: "first_central P w = (Inl e, w')" "planned w = None"
  then have "sort_key crID (filter (\<lambda>r. live r \<and> P r) (centrals w)) = [] \<and> e = RecordNotFound"
    by (auto simp: first_central_def stmt_unfold split: list.splits)
  moreover have "set (sort_key crID (filter (\<lambda>r. live r \<and> P r) (centrals w))) = set (filter (\<lambda>r. live r \<and> P r) (centrals w))"
    by simp
  ultimately show ?thesis by (metis set_empty)
qed

subsection \<open>Contracts\<close>

text \<open>The primary key is unique and never empty.\<close>

definition wf_ids :: "world \<Rightarrow> bool" where
  "wf_ids w \<longleftrightarrow> distinct (map crID (centrals w)) \<and> [] \<notin> crID ` set (centrals w)"

lemma wf_ids_next [simp]: "wf_ids (next_stmt w) = wf_ids w"
  by (simp add: wf_ids_def)

lemma wf_ids_unique:
  "wf_ids w \<Longrightarrow> r \<in> set (centrals w) \<Longrightarrow> r' \<in> set (centrals w) \<Longrightarrow> crID r = crID r' \<Longrightarrow> r = r'"
  by (auto simp: wf_ids_def distinct_map dest: inj_onD)

lemma wf_ids_nonempty: "wf_ids w \<Longrightarrow> r \<in> set (centrals w) \<Longrightarrow> crID r \<noteq> []"
  by (force simp: wf_ids_def)

definition row_kept :: "CentralRequest \<Rightarrow> CentralRequest \<Rightarrow> bool" where
  "row_kept r r' \<longleftrightarrow> crID r' = crID r \<and> (\<not> live r \<longrightarrow> r' = r)"

lemma list_all2_left: "list_all2 R xs ys \<Longrightarrow> x \<in> set xs \<Longrightarrow> \<exists>y\<in>set ys. R x y"
  by (induction rule: list_all2_induct) auto

lemma list_all2_right: "list_all2 R xs ys \<Longrightarrow> y \<in> set ys \<Longrightarrow> \<exists>x\<in>set xs. R x y"
  by (induction rule: list_all2_induct) auto

locale central_update =
  fixes op :: "world \<Rightarrow> 'r \<times> world" and R :: "CentralRequest \<Rightarrow> CentralRequest \<Rightarrow> bool"
  assumes rel_refl: "R r r"
    and rel_kept: "R r r' \<Longrightarrow> row_kept r r'"
    and step: "wf_ids w \<Longrightarrow> list_all2 R (centrals w) (centrals (snd (op w)))"
begin

lemma ids_kept: "wf_ids w \<Longrightarrow> map crID (centrals (snd (op w))) = map crID (centrals w)"
proof -
  assume "wf_ids w"
  from step [OF this] show ?thesis
    by (induction rule: list_all2_induct) (auto simp: row_kept_def dest: rel_kept)
qed

lemma wf_kept: "wf_ids w \<Longrightarrow> wf_ids (snd (op w))"
  using ids_kept [of w] by (simp add: wf_ids_def) (metis list.set_map)

lemma row_after: "wf_ids w \<Longrightarrow> r \<in> set (centrals w) \<Longrightarrow> \<exists>r'\<in>set (centrals (snd (op w))). R r r'"
  using list_all2_left [OF step] .

lemma row_before: "wf_ids w \<Longrightarrow> r' \<in> set (centrals (snd (op w))) \<Longrightarrow> \<exists>r\<in>set (centrals w). R r r'"
  using list_all2_right [OF step] .

lemma no_resurrection: "wf_ids w \<Longrightarrow> r \<in> set (centrals w) \<Longrightarrow> \<not> live r \<Longrightarrow> r \<in> set (centrals (snd (op w)))"
  using row_after [of w r] rel_kept [of r] unfolding row_kept_def by blast

end

text \<open>The two statuses of a tenant that is going away.\<close>

definition dinosaurDeletionStatuses :: "string list" where
  "dinosaurDeletionStatuses = [CentralRequestStatusDeleting, CentralRequestStatusDeprovision]"

abbreviation under_deletion :: "CentralRequest \<Rightarrow> bool" where
  "under_deletion r \<equiv> crStatus r \<in> set dinosaurDeletionStatuses"

lemma deletion_statuses [simp]:
  "s \<in> set dinosaurDeletionStatuses \<longleftrightarrow> s = CentralRequestStatusDeleting \<or> s = CentralRequestStatusDeprovision"
  by (simp add: dinosaurDeletionStatuses_def)

text \<open>What a step may do to a row. \<open>D\<close> has the identifiers of the tenants whose deletion the step may complete:
  only these may enter \<open>deleting\<close>. A tenant under deletion stays so and stays on its cluster.\<close>

definition life_step :: "string set \<Rightarrow> CentralRequest \<Rightarrow> CentralRequest \<Rightarrow> bool" where
  "life_step D r r' \<longleftrightarrow> row_kept r r' \<and>
     (under_deletion r \<longrightarrow> under_deletion r' \<and> crClusterID r' = crClusterID r) \<and>
     (crDeletionTimestamp r \<noteq> None \<longrightarrow> crDeletionTimestamp r' \<noteq> None) \<and>
     (crStatus r' = CentralRequestStatusDeprovision \<longrightarrow>
        crStatus r = CentralRequestStatusDeprovision \<or> crDeletionTimestamp r' \<noteq> None) \<and>
     (crStatus r' = CentralRequestStatusDeleting \<longrightarrow> crStatus r = CentralRequestStatusDeleting \<or> crID r \<in> D)"

lemma life_step_refl [simp]: "life_step D r r"
  by (simp add: life_step_def row_kept_def)

lemma life_step_trans: "life_step D r s \<Longrightarrow> life_step D s t \<Longrightarrow> life_step D r t"
  unfolding life_step_def row_kept_def by (elim conjE, intro conjI) metis+

lemma life_step_mono: "life_step D r s \<Longrightarrow> D \<subseteq> E \<Longrightarrow> life_step E r s"
  by (auto simp: life_step_def)

lemma row_kept_trans: "row_kept r s \<Longrightarrow> row_kept s t \<Longrightarrow> row_kept r t"
  by (auto simp: row_kept_def)

locale lifecycle_update = central_update op R for op :: "world \<Rightarrow> 'r \<times> world" and R +
  fixes D :: "string set"
  assumes rel_life: "R r r' \<Longrightarrow> life_step D r r'"
begin

lemma life_effect: "wf_ids w \<Longrightarrow> list_all2 (life_step D) (centrals w) (centrals (snd (op w)))"
  by (rule list_all2_mono [OF step]) (auto dest: rel_life)

lemma deletion_irreversible:
  "wf_ids w \<Longrightarrow> r \<in> set (centrals w) \<Longrightarrow> under_deletion r \<Longrightarrow>
     \<exists>r'\<in>set (centrals (snd (op w))). crID r' = crID r \<and> under_deletion r'"
  using row_after [of w r] rel_life [of r] unfolding life_step_def row_kept_def by blast

lemma deprovision_stamped:
  "wf_ids w \<Longrightarrow> r' \<in> set (centrals (snd (op w))) \<Longrightarrow> crStatus r' = CentralRequestStatusDeprovision \<Longrightarrow>
     crDeletionTimestamp r' = None \<Longrightarrow>
     \<exists>r\<in>set (centrals w). crID r = crID r' \<and> crStatus r = CentralRequestStatusDeprovision"
  using row_before [of w r'] rel_life [of _ r'] unfolding life_step_def row_kept_def by metis

end

text \<open>What \<open>update_centrals P f\<close> does to a row.\<close>

definition cond_rel :: "(CentralRequest \<Rightarrow> bool) \<Rightarrow> (CentralRequest \<Rightarrow> CentralRequest) \<Rightarrow> CentralRequest \<Rightarrow> CentralRequest \<Rightarrow> bool" where
  "cond_rel P f r r' \<longleftrightarrow> r' = r \<or> (live r \<and> P r \<and> r' = f r)"

lemma update_centrals_rel: "list_all2 (cond_rel P f) (centrals w) (centrals (snd (update_centrals P f w)))"
  by (auto simp: update_centrals_unfold cond_rel_def list_all2_conv_all_nth split: option.splits)

lemma list_all2_same: "(\<And>x. R x x) \<Longrightarrow> list_all2 R xs xs"
  by (simp add: list_all2_conv_all_nth)

lemma list_all2_strengthen:
  "list_all2 R xs ys \<Longrightarrow> (\<And>x y. x \<in> set xs \<Longrightarrow> R x y \<Longrightarrow> S x y) \<Longrightarrow> list_all2 S xs ys"
  by (erule list.rel_mono_strong) simp

lemma list_all2_compose:
  "list_all2 R xs ys \<Longrightarrow> list_all2 R ys zs \<Longrightarrow> (\<And>x y z. R x y \<Longrightarrow> R y z \<Longrightarrow> R x z) \<Longrightarrow> list_all2 R xs zs"
  by (rule list_all2_trans [of R R R]) auto

lemma assign_central_sel [simp]:
  "crID (assign_central now u r) = crID r"
  "crStatus (assign_central now u r) = nz (crStatus u) (crStatus r)"
  "crDeletedAt (assign_central now u r) = nzo (crDeletedAt u) (crDeletedAt r)"
  "crDeletionTimestamp (assign_central now u r) = nzo (crDeletionTimestamp u) (crDeletionTimestamp r)"
  "crHost (assign_central now u r) = nz (crHost u) (crHost r)"
  "crClusterID (assign_central now u r) = nz (crClusterID u) (crClusterID r)"
  "crOwner (assign_central now u r) = nz (crOwner u) (crOwner r)"
  "crOrganisationID (assign_central now u r) = nz (crOrganisationID u) (crOrganisationID r)"
  "crRegion (assign_central now u r) = nz (crRegion u) (crRegion r)"
  "crInstanceType (assign_central now u r) = nz (crInstanceType u) (crInstanceType r)"
  "crNamespace (assign_central now u r) = nz (crNamespace u) (crNamespace r)"
  "crClientID (assign_central now u r) = nz (crClientID u) (crClientID r)"
  "crRoutes (assign_central now u r) = nzr (crRoutes u) (crRoutes r)"
  "crRoutesCreated (assign_central now u r) = nzb (crRoutesCreated u) (crRoutesCreated r)"
  "crDesiredCentralVersion (assign_central now u r) = nz (crDesiredCentralVersion u) (crDesiredCentralVersion r)"
  "crDesiredCentralOperatorVersion (assign_central now u r) =
     nz (crDesiredCentralOperatorVersion u) (crDesiredCentralOperatorVersion r)"
  "crPlacementID (assign_central now u r) = nz (crPlacementID u) (crPlacementID r)"
  "crOrganisationName (assign_central now u r) = nz (crOrganisationName u) (crOrganisationName r)"
  "crFailedReason (assign_central now u r) = nz (crFailedReason u) (crFailedReason r)"
  "crCreatedAt (assign_central now u r) = nzi (crCreatedAt u) (crCreatedAt r)"
  by (simp_all add: assign_central_def)

end
