(* ===== verification/Auth_Context.thy ===== *)
theory Auth_Context
  imports Service_Errors
begin

text \<open>
  The request context as the services see it (\<^verbatim>\<open>pkg/auth/acs_claims.go\<close>, \<^verbatim>\<open>pkg/auth/context.go\<close>):
  the claims of the token, the admin flag and the flag to filter by organisation. A claim that is
  absent or null is \<open>None\<close>. The value of a claim is a JSON value: a string, a boolean, an array, an object,
  or one of the others (a number, or null inside an array or object).
\<close>

datatype claim = CStr string | CBool bool | CArr "claim list" | CMap "(string \<times> claim) list" | COther

type_synonym claims = "string \<rightharpoonup> claim"

record request_context =
  ctxToken :: "go_error + claims option"
  ctxIsAdmin :: "bool option"
  ctxFilterByOrganisation :: "bool option"

definition tenantUsernameClaim :: string where "tenantUsernameClaim = ''username''"
definition tenantIDClaim :: string where "tenantIDClaim = ''org_id''"
definition tenantOrgAdminClaim :: string where "tenantOrgAdminClaim = ''is_org_admin''"
definition alternateTenantUsernameClaim :: string where "alternateTenantUsernameClaim = ''preferred_username''"
definition tenantAccountIDClaim :: string where "tenantAccountIDClaim = ''account_id''"
definition tenantUserIDClaim :: string where "tenantUserIDClaim = ''user_id''"
definition tenantSubClaim :: string where "tenantSubClaim = ''sub''"
definition alternateTenantIDClaim :: string where "alternateTenantIDClaim = ''rh-org-id''"
definition alternateTenantUserIDClaim :: string where "alternateTenantUserIDClaim = ''rh-user-id''"

fun FindFirst :: "('a \<Rightarrow> bool) \<Rightarrow> 'a list \<Rightarrow> 'a option" where
  "FindFirst predicate [] = None"
| "FindFirst predicate (v # vs) = (if predicate v then Some v else FindFirst predicate vs)"

text \<open>The first claim that is present, when it is a string.\<close>

definition first_string_claim :: "claims \<Rightarrow> string \<Rightarrow> string \<Rightarrow> go_error + string" where
  "first_string_claim c k alt = (case FindFirst (\<lambda>x. x \<noteq> None) [c k, c alt] of
     Some (Some (CStr s)) \<Rightarrow> Inr s
   | _ \<Rightarrow> Inl (GoErr (''can'' @ [CHR 39] @ ''t find neither '' @ go_quote k @ '' or '' @ go_quote alt @ '' attribute in claims'')))"

definition string_claim :: "claims \<Rightarrow> string \<Rightarrow> go_error + string" where
  "string_claim c k = (case c k of
     Some (CStr s) \<Rightarrow> Inr s
   | _ \<Rightarrow> Inl (GoErr (''can'' @ [CHR 39] @ ''t find '' @ go_quote k @ '' attribute in claims'')))"

definition GetUsername :: "claims \<Rightarrow> go_error + string" where
  "GetUsername c = first_string_claim c tenantUsernameClaim alternateTenantUsernameClaim"

definition GetAccountID :: "claims \<Rightarrow> go_error + string" where
  "GetAccountID c = string_claim c tenantAccountIDClaim"

definition GetUserID :: "claims \<Rightarrow> go_error + string" where
  "GetUserID c = first_string_claim c tenantUserIDClaim alternateTenantUserIDClaim"

definition GetOrgID :: "claims \<Rightarrow> go_error + string" where
  "GetOrgID c = first_string_claim c tenantIDClaim alternateTenantIDClaim"

definition GetSubject :: "claims \<Rightarrow> go_error + string" where
  "GetSubject c = string_claim c tenantSubClaim"

definition IsOrgAdmin :: "claims \<Rightarrow> bool" where
  "IsOrgAdmin c = (c tenantOrgAdminClaim = Some (CBool True))"

text \<open>\<^verbatim>\<open>v, _ := f()\<close>: the value with the error dropped is the empty string on error.\<close>

definition or_empty :: "go_error + string \<Rightarrow> string" where
  "or_empty r = (case r of Inl _ \<Rightarrow> [] | Inr s \<Rightarrow> s)"

definition GetIsAdminFromContext :: "request_context \<Rightarrow> bool" where
  "GetIsAdminFromContext ctx = (case ctxIsAdmin ctx of None \<Rightarrow> False | Some b \<Rightarrow> b)"

definition SetIsAdminContext :: "request_context \<Rightarrow> bool \<Rightarrow> request_context" where
  "SetIsAdminContext ctx b = ctx\<lparr>ctxIsAdmin := Some b\<rparr>"

definition GetFilterByOrganisationFromContext :: "request_context \<Rightarrow> bool" where
  "GetFilterByOrganisationFromContext ctx = (case ctxFilterByOrganisation ctx of None \<Rightarrow> False | Some b \<Rightarrow> b)"

definition SetFilterByOrganisationContext :: "request_context \<Rightarrow> bool \<Rightarrow> request_context" where
  "SetFilterByOrganisationContext ctx b = ctx\<lparr>ctxFilterByOrganisation := Some b\<rparr>"

definition GetClaimsFromContext :: "request_context \<Rightarrow> go_error + claims" where
  "GetClaimsFromContext ctx = (case ctxToken ctx of
     Inl e \<Rightarrow> Inl (GoErr (''failed to get jwt token from context: '' @ go_Error e))
   | Inr None \<Rightarrow> Inr Map.empty
   | Inr (Some c) \<Rightarrow> Inr c)"

end
