(* ===== verification/Central_Service.thy ===== *)
theory Central_Service
  imports Cluster_Service World_Contracts Auth_Context Query_Parser
begin

text \<open>
  The service of central requests (\<^verbatim>\<open>internal/dinosaur/pkg/services/dinosaur.go\<close>) with the helpers
  of \<^verbatim>\<open>services/util.go\<close> and \<^verbatim>\<open>pkg/services/util.go\<close>. The dependencies of the service object are the
  fields of \<open>env\<close>: its configuration, the quota services, the cluster providers, the clients of AMS,
  Route53 and the SSO server; \<open>evNow\<close> is the time at which the operation runs and \<open>evNewID\<close> the
  next generated identifier.
\<close>

subsection \<open>Helpers\<close>

definition piiFields :: "string list" where
  "piiFields = [''username'', ''first_name'', ''last_name'', ''email'', ''address'']"

definition redacted :: "string \<Rightarrow> string \<Rightarrow> string" where
  "redacted field v = (if List.member piiFields field then ''<redacted>'' else v)"

definition IsRecordNotFoundError :: "go_error \<Rightarrow> bool" where
  "IsRecordNotFoundError e \<longleftrightarrow> e = RecordNotFound"

definition field_is :: "string \<Rightarrow> string \<Rightarrow> string \<Rightarrow> string" where
  "field_is resourceType field v = resourceType @ '' with '' @ field @ ''='' @ [CHR 39] @ redacted field v @ [CHR 39]"

definition HandleGetError :: "string \<Rightarrow> string \<Rightarrow> string \<Rightarrow> go_error \<Rightarrow> service_error" where
  "HandleGetError resourceType field v err =
     (if IsRecordNotFoundError err then NotFound (Fmt (field_is resourceType field v @ '' not found''))
      else NewWithCause ErrorGeneral (Some err) (Fmt (''Unable to find '' @ field_is resourceType field v)))"

definition HandleGoneError :: "string \<Rightarrow> string \<Rightarrow> string \<Rightarrow> service_error" where
  "HandleGoneError resourceType field v =
     New ErrorGone (Fmt (field_is resourceType field v @ '' has been deleted''))"

definition HandleDeleteError :: "string \<Rightarrow> string \<Rightarrow> string \<Rightarrow> go_error \<Rightarrow> service_error" where
  "HandleDeleteError resourceType field v err =
     NewWithCause ErrorGeneral (Some err) (Fmt (''Unable to delete '' @ field_is resourceType field v))"

definition HandleCreateError :: "string \<Rightarrow> go_error \<Rightarrow> service_error" where
  "HandleCreateError resourceType err =
     (if contains_sub (go_Error err) ''violates unique constraint''
      then Conflict (Fmt (''This '' @ resourceType @ '' already exists''))
      else GeneralError (Fmt (''Unable to create '' @ resourceType @ '': '' @ go_Error err)))"

definition HandleUpdateError :: "string \<Rightarrow> go_error \<Rightarrow> service_error" where
  "HandleUpdateError resourceType err =
     (if contains_sub (go_Error err) ''violates unique constraint''
      then Conflict (Fmt (''Changes to '' @ resourceType @ '' conflict with existing records''))
      else GeneralError (Fmt (''Unable to update '' @ resourceType @ '': '' @ go_Error err)))"

definition LabelValueMaxLength :: nat where "LabelValueMaxLength = 63"

definition truncateString :: "string \<Rightarrow> nat \<Rightarrow> string" where
  "truncateString str num = (if length str > num then take num str else str)"

definition maskProceedingandTrailingDash :: "string \<Rightarrow> string" where
  "maskProceedingandTrailingDash name =
     (let n1 = (if has_suffix name ''-'' then butlast name @ ''a'' else name) in
      if has_prefix n1 ''-'' then replace_first ''-'' ''a'' n1 else n1)"

definition lower_alnum :: "(char \<times> char) list" where
  "lower_alnum = [(CHR ''a'', CHR ''z''), (CHR ''0'', CHR ''9'')]"

text \<open>\<^verbatim>\<open>[a-z0-9]([-a-z0-9]*[a-z0-9])?\<close>\<close>

definition dns1123Label :: regexp where
  "dns1123Label = Seq (Class (CharClass False lower_alnum))
     (opt (Seq (Star (Class (CharClass False ((CHR ''-'', CHR ''-'') # lower_alnum)))) (Class (CharClass False lower_alnum))))"

text \<open>The text of the validation error comes from the Kubernetes library.\<close>

definition FormatNamespace :: "string \<Rightarrow> go_error + string" where
  "FormatNamespace text =
     (if \<not> re_match dns1123Label text then Inl (GoErr (''invalid namespace '' @ text))
      else Inr (trim_right_char (CHR ''-'') (truncateString (''rhacs-'' @ text) LabelValueMaxLength)))"

subsection \<open>Dependencies\<close>

record central_config =
  ccEnableCentralExternalCertificate :: bool
  ccCentralDomainName :: string
  ccEnableDeletionOfExpiredCentral :: bool
  ccCentralLifespanInHours :: int
  ccQuotaType :: string
  ccAllowEvaluatorInstance :: bool
  ccCentralIDPClientID :: string
  ccCentralIDPClientSecret :: string
  ccCentralIDPIssuer :: string

record quota_service =
  qsCheckIfQuotaIsDefined :: "CentralRequest \<Rightarrow> string \<Rightarrow> world \<Rightarrow> (service_error + bool) \<times> world"
  qsReserveQuota :: "CentralRequest \<Rightarrow> string \<Rightarrow> world \<Rightarrow> (service_error + string) \<times> world"
  qsDeleteQuota :: "string \<Rightarrow> world \<Rightarrow> service_error option \<times> world"

record change_info =
  ciId :: "string option"
  ciStatus :: "string option"

record record_change =
  rcAction :: string
  rcName :: string
  rcType :: string
  rcTTL :: int
  rcValues :: "string list"

record env =
  evConfig :: central_config
  evClusterConfig :: ClusterConfig
  evProviders :: provider_factory
  evQuota :: "string \<Rightarrow> service_error + quota_service"
  evGetOrganisation :: "string \<Rightarrow> go_error + string \<times> string"
  evAwsClient :: "string \<Rightarrow> go_error option"
  evChangeRecords :: "string \<Rightarrow> record_change list \<Rightarrow> go_error + change_info option option"
  evGetChange :: "string \<Rightarrow> go_error + change_info"
  evNow :: int
  evNewID :: string

subsection \<open>Creation\<close>

definition HasAvailableCapacityInRegion :: "env \<Rightarrow> CentralRequest \<Rightarrow> world \<Rightarrow> (service_error + bool) \<times> world" where
  "HasAvailableCapacityInRegion ev k w =
     (let regionCapacity = GetCapacityForRegion (evClusterConfig ev) (crRegion k) in
      if regionCapacity \<le> 0 then (Inr False, w)
      else (case count_centrals (\<lambda>r. crRegion r = crRegion k) w of
        (Inl e, w') \<Rightarrow> (Inl (general_error e ''failed to count central request''), w')
      | (Inr count, w') \<Rightarrow> (Inr (count < regionCapacity), w')))"

definition DetectInstanceType :: "env \<Rightarrow> CentralRequest \<Rightarrow> world \<Rightarrow> string \<times> world" where
  "DetectInstanceType ev k w = (case evQuota ev (ccQuotaType (evConfig ev)) of
     Inl _ \<Rightarrow> (EVAL, w)
   | Inr qs \<Rightarrow>
      (case qsCheckIfQuotaIsDefined qs k STANDARD w of
         (Inl _, w') \<Rightarrow> (EVAL, w')
       | (Inr hasQuota, w') \<Rightarrow> (if hasQuota then STANDARD else EVAL, w')))"

definition reserve_from_service :: "env \<Rightarrow> CentralRequest \<Rightarrow> world \<Rightarrow> (service_error + string) \<times> world" where
  "reserve_from_service ev k w = (case evQuota ev (ccQuotaType (evConfig ev)) of
     Inl e \<Rightarrow> (Inl (general_error (SvcErr e) ''unable to check quota''), w)
   | Inr qs \<Rightarrow> qsReserveQuota qs k (crInstanceType k) w)"

definition reserveQuota :: "env \<Rightarrow> CentralRequest \<Rightarrow> world \<Rightarrow> (service_error + string) \<times> world" where
  "reserveQuota ev k w =
     (if crInstanceType k = EVAL then
        (if \<not> ccAllowEvaluatorInstance (evConfig ev) then
           (Inl (NewWithCause ErrorForbidden (Some NilSvcErr) (Fmt ''central eval instances are not allowed'')), w)
         else (case count_centrals (\<lambda>r. crInstanceType r = EVAL \<and> crOwner r = crOwner k \<and>
                    crOrganisationID r = crOrganisationID k) w of
             (Inl e, w') \<Rightarrow> (Inl (general_error e ''failed to count central eval instances''), w')
           | (Inr count, w') \<Rightarrow>
               if count > 0 then
                 (Inl (TooManyDinosaurInstancesReached (Fmt ''only one eval instance is allowed; increase your account quota'')), w')
               else reserve_from_service ev k w'))
      else reserve_from_service ev k w)"

definition capacity_exhausted :: "env \<Rightarrow> CentralRequest \<Rightarrow> service_error" where
  "capacity_exhausted ev k = TooManyDinosaurInstancesReached (as_format
     (''Cluster capacity('' @ itoa (GetCapacityForRegion (evClusterConfig ev) (crRegion k)) @ '') exhausted in '' @ crRegion k @ '' region''))"

definition region_full :: "CentralRequest \<Rightarrow> service_error" where
  "region_full k = TooManyDinosaurInstancesReached (as_format
     (''Region '' @ crRegion k @ '' cannot accept instance type: '' @ crInstanceType k @ '' at this moment''))"

text \<open>The result carries the request as the operation leaves it.\<close>

definition RegisterDinosaurJob :: "env \<Rightarrow> CentralRequest \<Rightarrow> world \<Rightarrow> (service_error + CentralRequest) \<times> world" where
  "RegisterDinosaurJob ev k0 w0 =
     (let k1 = k0\<lparr>crID := evNewID ev\<rparr> in
      case HasAvailableCapacityInRegion ev k1 w0 of
        (Inl e, w1) \<Rightarrow> (Inl (general_error (SvcErr e) ''failed to create central request''), w1)
      | (Inr False, w1) \<Rightarrow> (Inl (capacity_exhausted ev k1), w1)
      | (Inr True, w1) \<Rightarrow>
         (case DetectInstanceType ev k1 w1 of (instanceType, w2) \<Rightarrow>
           (let k2 = k1\<lparr>crInstanceType := instanceType\<rparr> in
            case FindCluster k2 w2 of
              (Inl _, w3) \<Rightarrow> (Inl (region_full k2), w3)
            | (Inr None, w3) \<Rightarrow> (Inl (region_full k2), w3)
            | (Inr (Some cluster), w3) \<Rightarrow>
               (let k3 = k2\<lparr>crClusterID := clClusterID cluster\<rparr> in
                case reserveQuota ev k3 w3 of
                  (Inl e, w4) \<Rightarrow> (Inl e, w4)
                | (Inr subscriptionID, w4) \<Rightarrow>
                   (let k4 = k3\<lparr>crStatus := CentralRequestStatusAccepted, crSubscriptionID := subscriptionID,
                                 crQuotaType := ccQuotaType (evConfig ev)\<rparr> in
                    case create_central (evNewID ev) (evNow ev) k4 w4 of
                      (Inl e, w5) \<Rightarrow> (Inl (general_error e ''failed to create central request''), w5)
                    | (Inr k5, w5) \<Rightarrow> (Inr k5, w5))))))"

subsection \<open>Updates\<close>

definition not_under_deletion :: "CentralRequest \<Rightarrow> bool" where
  "not_under_deletion r \<longleftrightarrow> \<not> List.member dinosaurDeletionStatuses (crStatus r)"

definition central_Update :: "env \<Rightarrow> CentralRequest \<Rightarrow> world \<Rightarrow> service_error option \<times> world" where
  "central_Update ev k w =
     (case update_centrals (\<lambda>r. pk_match k r \<and> not_under_deletion r) (assign_central (evNow ev) k) w of
        (Inl e, w') \<Rightarrow> (Some (general_error e ''Failed to update central''), w')
      | (Inr _, w') \<Rightarrow> (None, w'))"

text \<open>\<open>assigns\<close> is the effect of the map of columns on a row.\<close>

definition central_Updates ::
  "env \<Rightarrow> CentralRequest \<Rightarrow> (CentralRequest \<Rightarrow> CentralRequest) \<Rightarrow> world \<Rightarrow> service_error option \<times> world" where
  "central_Updates ev k assigns w =
     (case update_centrals (\<lambda>r. pk_match k r \<and> not_under_deletion r) (\<lambda>r. (assigns r)\<lparr>crUpdatedAt := evNow ev\<rparr>) w of
        (Inl e, w') \<Rightarrow> (Some (general_error e ''Failed to update central''), w')
      | (Inr _, w') \<Rightarrow> (None, w'))"

definition GetByID :: "string \<Rightarrow> world \<Rightarrow> (service_error + CentralRequest) \<times> world" where
  "GetByID rid w =
     (if rid = [] then (Inl (Validation (Fmt ''id is undefined'')), w)
      else (case first_central (\<lambda>r. crID r = rid) w of
        (Inl e, w') \<Rightarrow> (Inl (HandleGetError ''CentralResource'' ''id'' rid e), w')
      | (Inr r, w') \<Rightarrow> (Inr r, w')))"

definition status_update :: "env \<Rightarrow> string \<Rightarrow> CentralRequest" where
  "status_update ev status = empty_central\<lparr>crStatus := status,
     crDeletionTimestamp := (if status = CentralRequestStatusDeprovision then Some (evNow ev) else None)\<rparr>"

text \<open>The boolean says whether the update was attempted.\<close>

definition UpdateStatus :: "env \<Rightarrow> string \<Rightarrow> string \<Rightarrow> world \<Rightarrow> (bool \<times> service_error option) \<times> world" where
  "UpdateStatus ev rid status w = (case GetByID rid w of
     (Inl e, w1) \<Rightarrow> ((True, Some (general_error (SvcErr e) ''failed to update status'')), w1)
   | (Inr dinosaur, w1) \<Rightarrow>
      if crStatus dinosaur = CentralRequestStatusDeprovision \<and> status \<noteq> CentralRequestStatusDeleting then
        ((False, Some (GeneralError (Fmt ''failed to update status: cluster is deprovisioning''))), w1)
      else if crStatus dinosaur = status then
        ((False, Some (GeneralError (Fmt (''failed to update status: the cluster '' @ rid @ '' is already in '' @ status @ '' state'')))), w1)
      else (case update_centrals (\<lambda>r. crID r = rid) (assign_central (evNow ev) (status_update ev status)) w1 of
          (Inl e, w2) \<Rightarrow> ((True, Some (general_error e ''Failed to update central status'')), w2)
        | (Inr _, w2) \<Rightarrow> ((True, None), w2)))"

text \<open>The struct literals of the two operations that follow.\<close>

definition accepted_fields :: "env \<Rightarrow> CentralRequest \<Rightarrow> string \<Rightarrow> string \<Rightarrow> CentralRequest" where
  "accepted_fields ev k host namespace = empty_central\<lparr>crID := crID k, crHost := host, crPlacementID := evNewID ev,
     crStatus := CentralRequestStatusPreparing, crNamespace := namespace\<rparr>"

definition prepared_fields :: "CentralRequest \<Rightarrow> string \<Rightarrow> CentralRequest" where
  "prepared_fields k orgName = empty_central\<lparr>crID := crID k, crOrganisationName := orgName,
     crStatus := CentralRequestStatusProvisioning\<rparr>"

definition AcceptCentralRequest :: "env \<Rightarrow> CentralRequest \<Rightarrow> world \<Rightarrow> service_error option option \<times> world" where
  "AcceptCentralRequest ev k w = (case FormatNamespace (crID k) of
     Inl e \<Rightarrow> (Some (Some (general_error e ''invalid id format'')), w)
   | Inr namespace \<Rightarrow>
      (case (if ccEnableCentralExternalCertificate (evConfig ev)
             then (Some (Inr (ccCentralDomainName (evConfig ev))), w)
             else GetClusterDNS (evProviders ev) (evNow ev) (crClusterID k) w) of
         (None, w1) \<Rightarrow> (None, w1)
       | (Some (Inl e), w1) \<Rightarrow> (Some (Some (general_error (SvcErr e) ''error retrieving cluster DNS'')), w1)
       | (Some (Inr host), w1) \<Rightarrow>
          (case central_Update ev (accepted_fields ev k host namespace) w1 of
             (Some e, w2) \<Rightarrow> (Some (Some (general_error (SvcErr e) ''failed to update central request'')), w2)
           | (None, w2) \<Rightarrow> (Some None, w2))))"

definition PrepareDinosaurRequest :: "env \<Rightarrow> CentralRequest \<Rightarrow> world \<Rightarrow> service_error option \<times> world" where
  "PrepareDinosaurRequest ev k w =
     (if crClientID k = [] then (None, w)
      else (case evGetOrganisation ev (crOrganisationID k) of
         Inl e \<Rightarrow> (Some (OrganisationNotFound (crOrganisationID k) e), w)
       | Inr (_, orgName) \<Rightarrow>
          if orgName = [] then (Some (OrganisationNameInvalid (crOrganisationID k) orgName), w)
          else (case central_Update ev (prepared_fields k orgName) w of
             (Some e, w') \<Rightarrow> (Some (general_error (SvcErr e) ''failed to update central request''), w')
           | (None, w') \<Rightarrow> (None, w'))))"

definition VerifyAndUpdateDinosaurAdmin :: "env \<Rightarrow> request_context \<Rightarrow> CentralRequest \<Rightarrow> world \<Rightarrow> service_error option \<times> world" where
  "VerifyAndUpdateDinosaurAdmin ev ctx k w =
     (if \<not> GetIsAdminFromContext ctx then (Some (New ErrorUnauthenticated (Fmt ''User not authenticated'')), w)
      else (case FindClusterByID (crClusterID k) w of
         (Inl e, w') \<Rightarrow> (Some (general_error (SvcErr e) (''Unable to find cluster associated with central request: '' @ crID k)), w')
       | (Inr None, w') \<Rightarrow> (Some (New ErrorValidation (as_format (''Unable to get cluster for central '' @ crID k))), w')
       | (Inr (Some _), w') \<Rightarrow> central_Update ev k w'))"

subsection \<open>Reads\<close>

definition ListByStatus :: "string list \<Rightarrow> world \<Rightarrow> (service_error + CentralRequest list) \<times> world" where
  "ListByStatus status w =
     (if status = [] then (Inl (GeneralError (Fmt ''no status provided'')), w)
      else (case find_centrals (\<lambda>r. List.member status (crStatus r)) w of
        (Inl e, w') \<Rightarrow> (Inl (general_error e ''failed to list by status''), w')
      | (Inr rs, w') \<Rightarrow> (Inr rs, w')))"

text \<open>The rows a request may see: all for an admin, otherwise those of the organisation or of the
  user. \<open>Inl\<close> when the user cannot be determined.\<close>

definition visible_to :: "request_context \<Rightarrow> claims \<Rightarrow> service_error + (string \<times> (CentralRequest \<Rightarrow> bool))" where
  "visible_to ctx c =
     (if GetIsAdminFromContext ctx then Inr ([], \<lambda>r. True)
      else (let user = or_empty (GetUsername c); orgID = or_empty (GetOrgID c) in
        if user = [] then Inl (Unauthenticated (Fmt ''user not authenticated''))
        else if GetFilterByOrganisationFromContext ctx then Inr (user, \<lambda>r. crOrganisationID r = orgID)
        else Inr (user, \<lambda>r. crOwner r = user)))"

definition unauthenticated :: "go_error \<Rightarrow> service_error" where
  "unauthenticated e = NewWithCause ErrorUnauthenticated (Some e) (Fmt ''user not authenticated'')"

definition central_Get :: "request_context \<Rightarrow> string \<Rightarrow> world \<Rightarrow> (service_error + CentralRequest) \<times> world" where
  "central_Get ctx rid w =
     (if rid = [] then (Inl (Validation (Fmt ''id is undefined'')), w)
      else (case GetClaimsFromContext ctx of
         Inl e \<Rightarrow> (Inl (unauthenticated e), w)
       | Inr c \<Rightarrow>
          (case visible_to ctx c of
             Inl e \<Rightarrow> (Inl e, w)
           | Inr (user, V) \<Rightarrow>
              (case first_central (\<lambda>r. crID r = rid \<and> V r) w of
                 (Inl e, w') \<Rightarrow>
                    (Inl (HandleGetError (if user \<noteq> [] then ''CentralResource for user '' @ user else ''CentralResource'') ''id'' rid e), w')
               | (Inr r, w') \<Rightarrow> (Inr r, w')))))"

record ListArguments =
  laPage :: int
  laSize :: int
  laSearch :: string
  laOrderBy :: "string list"

record PagingMeta =
  pmPage :: int
  pmSize :: int
  pmTotal :: int

text \<open>The database evaluates the condition of a search (\<open>sql_match\<close>) and orders rows (\<open>order_rows\<close>).
  The error of the count is dropped by the source; the total is then zero.\<close>

definition page_of :: "int \<Rightarrow> int \<Rightarrow> 'a list \<Rightarrow> 'a list" where
  "page_of page sz xs =
     (let offset = wrap_int64 ((page - 1) * sz); ys = (if offset > 0 then drop (nat offset) xs else xs) in
      if sz \<ge> 0 then take (nat sz) ys else ys)"

text \<open>A search on which the parser panics makes the request panic: \<open>None\<close>.\<close>

definition search_condition ::
  "(nat \<Rightarrow> nat) \<Rightarrow> (DBQuery \<Rightarrow> CentralRequest \<Rightarrow> bool) \<Rightarrow> string \<Rightarrow> (service_error + (CentralRequest \<Rightarrow> bool)) option" where
  "search_condition rcap sql_match search =
     (if search \<noteq> [] then
        (case fst (Parse rcap (NewQueryParser []) search) of
           Inl (ParsePanic _) \<Rightarrow> None
         | Inl e \<Rightarrow> Some (Inl (NewWithCause ErrorFailedToParseSearch (Some (GoErr (parse_msg e)))
                      (Fmt (''Unable to list central requests: '' @ parse_msg e))))
         | Inr q \<Rightarrow> Some (Inr (sql_match q)))
      else Some (Inr (\<lambda>r. True)))"

definition central_List ::
  "(nat \<Rightarrow> nat) \<Rightarrow> (DBQuery \<Rightarrow> CentralRequest \<Rightarrow> bool) \<Rightarrow> (string list \<Rightarrow> CentralRequest list \<Rightarrow> CentralRequest list)
     \<Rightarrow> request_context \<Rightarrow> ListArguments \<Rightarrow> world \<Rightarrow> (service_error + CentralRequest list \<times> PagingMeta) option \<times> world" where
  "central_List rcap sql_match order_rows ctx la w =
     (case GetClaimsFromContext ctx of
        Inl e \<Rightarrow> (Some (Inl (unauthenticated e)), w)
      | Inr c \<Rightarrow>
         (case visible_to ctx c of
            Inl e \<Rightarrow> (Some (Inl e), w)
          | Inr (_, V) \<Rightarrow>
             (case search_condition rcap sql_match (laSearch la) of
                None \<Rightarrow> (None, w)
              | Some (Inl e) \<Rightarrow> (Some (Inl e), w)
              | Some (Inr S) \<Rightarrow>
                 (let P = (\<lambda>r. V r \<and> S r) in case count_centrals P w of (cnt, w1) \<Rightarrow>
                   (let total = (case cnt of Inl _ \<Rightarrow> 0 | Inr n \<Rightarrow> n);
                        sz = (if laSize la > total then total else laSize la);
                        meta = \<lparr>pmPage = laPage la, pmSize = sz, pmTotal = total\<rparr> in
                    case find_centrals P w1 of
                      (Inl e, w2) \<Rightarrow> (Some (Inl (general_error e ''Unable to list central requests'')), w2)
                    | (Inr rs, w2) \<Rightarrow>
                        (Some (Inr (page_of (laPage la) sz
                           (order_rows (if laOrderBy la = [] then [''name''] else laOrderBy la) rs), meta)), w2))))))"

definition dinosaurManagedCRStatuses :: "string list" where
  "dinosaurManagedCRStatuses = [CentralRequestStatusProvisioning, CentralRequestStatusDeprovision,
     CentralRequestStatusReady, CentralRequestStatusFailed]"

definition ListByClusterID :: "string \<Rightarrow> world \<Rightarrow> (service_error + CentralRequest list) \<times> world" where
  "ListByClusterID clusterID w =
     (case find_centrals (\<lambda>r. crClusterID r = clusterID \<and> List.member dinosaurManagedCRStatuses (crStatus r) \<and> crHost r \<noteq> []) w of
        (Inl e, w') \<Rightarrow> (Inl (general_error e ''unable to list central requests''), w')
      | (Inr rs, w') \<Rightarrow> (Inr rs, w'))"

definition CountByRegionAndInstanceType :: "world \<Rightarrow> (service_error + ((string \<times> string \<times> string) \<times> int) list) \<times> world" where
  "CountByRegionAndInstanceType w = (case find_centrals (\<lambda>r. True) w of
     (Inl e, w') \<Rightarrow> (Inl (general_error e ''Failed to count centrals''), w')
   | (Inr rs, w') \<Rightarrow> (Inr (group_count (map (\<lambda>r. (crRegion r, crInstanceType r, crClusterID r)) rs)), w'))"

definition CountByStatus :: "string list \<Rightarrow> world \<Rightarrow> (service_error + (string \<times> int) list) \<times> world" where
  "CountByStatus status w = (case find_centrals (\<lambda>r. List.member status (crStatus r)) w of
     (Inl e, w') \<Rightarrow> (Inl (general_error e ''Failed to count centrals''), w')
   | (Inr rs, w') \<Rightarrow> (Inr (add_missing status (group_count (map crStatus rs))), w'))"

record DinosaurComponentVersions =
  dvID :: string
  dvClusterID :: string
  dvDesiredDinosaurOperatorVersion :: string
  dvActualDinosaurOperatorVersion :: string
  dvDinosaurOperatorUpgrading :: bool
  dvDesiredDinosaurVersion :: string
  dvActualDinosaurVersion :: string
  dvDinosaurUpgrading :: bool

text \<open>The scan matches columns to fields by name: the fields of the versions are named after
  \<^verbatim>\<open>dinosaur\<close>, the selected columns after \<^verbatim>\<open>central\<close>, so only the identifiers are filled in.\<close>

definition ListComponentVersions :: "world \<Rightarrow> (service_error + DinosaurComponentVersions list) \<times> world" where
  "ListComponentVersions w = (case find_centrals (\<lambda>r. True) w of
     (Inl e, w') \<Rightarrow> (Inl (general_error e ''failed to list component versions''), w')
   | (Inr rs, w') \<Rightarrow> (Inr (map (\<lambda>r. \<lparr>dvID = crID r, dvClusterID = crClusterID r,
       dvDesiredDinosaurOperatorVersion = [], dvActualDinosaurOperatorVersion = [],
       dvDinosaurOperatorUpgrading = False, dvDesiredDinosaurVersion = [], dvActualDinosaurVersion = [],
       dvDinosaurUpgrading = False\<rparr>) rs), w'))"

definition ListDinosaursWithRoutesNotCreated :: "world \<Rightarrow> (service_error + CentralRequest list) \<times> world" where
  "ListDinosaursWithRoutesNotCreated w = (case find_centrals (\<lambda>r. crRoutes r \<noteq> RNil \<and> \<not> crRoutesCreated r) w of
     (Inl e, w') \<Rightarrow> (Inl (general_error e ''failed to list central requests''), w')
   | (Inr rs, w') \<Rightarrow> (Inr rs, w'))"

definition ListCentralsWithoutAuthConfig :: "world \<Rightarrow> (service_error + CentralRequest list) \<times> world" where
  "ListCentralsWithoutAuthConfig w = (case find_centrals (\<lambda>r. crClientID r = [] \<and> crHost r \<noteq> []) w of
     (Inl e, w') \<Rightarrow> (Inl (general_error e ''failed to list Central requests''), w')
   | (Inr rs, w') \<Rightarrow>
       (Inr (filter (\<lambda>r. CentralStatus_CompareTo (crStatus r) CentralRequestStatusPreparing \<le> 0) rs), w'))"

subsection \<open>Deletion\<close>

definition RegisterDinosaurDeprovisionJob :: "env \<Rightarrow> request_context \<Rightarrow> string \<Rightarrow> world \<Rightarrow> service_error option \<times> world" where
  "RegisterDinosaurDeprovisionJob ev ctx rid w =
     (if rid = [] then (Some (Validation (Fmt ''id is undefined'')), w)
      else (case GetClaimsFromContext ctx of
         Inl e \<Rightarrow> (Some (unauthenticated e), w)
       | Inr c \<Rightarrow>
          (case first_central (\<lambda>r. crID r = rid \<and>
                  (if GetIsAdminFromContext ctx then True
                   else if IsOrgAdmin c then crOrganisationID r = or_empty (GetOrgID c)
                   else crOwner r = or_empty (GetUsername c))) w of
             (Inl e, w1) \<Rightarrow> (Some (HandleGetError ''CentralResource'' ''id'' rid e), w1)
           | (Inr _, w1) \<Rightarrow>
              (case UpdateStatus ev rid CentralRequestStatusDeprovision w1 of
                 ((True, Some e), w2) \<Rightarrow> (Some (HandleGetError ''CentralResource'' ''id'' rid (SvcErr e)), w2)
               | (_, w2) \<Rightarrow> (None, w2)))))"

definition set_deprovision :: "env \<Rightarrow> CentralRequest \<Rightarrow> CentralRequest" where
  "set_deprovision ev r = r\<lparr>crStatus := CentralRequestStatusDeprovision, crDeletionTimestamp := Some (evNow ev),
     crUpdatedAt := evNow ev\<rparr>"

definition DeprovisionDinosaurForUsers :: "env \<Rightarrow> string list \<Rightarrow> world \<Rightarrow> service_error option \<times> world" where
  "DeprovisionDinosaurForUsers ev users w =
     (case update_centrals (\<lambda>r. List.member users (crOwner r) \<and> not_under_deletion r) (set_deprovision ev) w of
        (Inl e, w') \<Rightarrow> (Some (general_error e ''Unable to deprovision central requests for users''), w')
      | (Inr _, w') \<Rightarrow> (None, w'))"

definition DeprovisionExpiredDinosaurs :: "env \<Rightarrow> int \<Rightarrow> world \<Rightarrow> service_error option \<times> world" where
  "DeprovisionExpiredDinosaurs ev dinosaurAgeInHours w =
     (case update_centrals (\<lambda>r. crInstanceType r = EVAL \<and> crCreatedAt r \<le> evNow ev - dinosaurAgeInHours * hour \<and>
              not_under_deletion r) (set_deprovision ev) w of
        (Inl e, w') \<Rightarrow> (Some (general_error e ''unable to deprovision expired centrals''), w')
      | (Inr _, w') \<Rightarrow> (None, w'))"

definition DinosaurRoutesActionCreate :: string where "DinosaurRoutesActionCreate = ''CREATE''"
definition DinosaurRoutesActionDelete :: string where "DinosaurRoutesActionDelete = ''DELETE''"

definition buildResourceRecordChange :: "string \<Rightarrow> string \<Rightarrow> string \<Rightarrow> record_change" where
  "buildResourceRecordChange recordName clusterIngress action =
     \<lparr>rcAction = action, rcName = recordName, rcType = ''CNAME'', rcTTL = 300, rcValues = [clusterIngress]\<rparr>"

definition buildDinosaurClusterCNAMESRecordBatch :: "DataPlaneCentralRoute list \<Rightarrow> string \<Rightarrow> record_change list" where
  "buildDinosaurClusterCNAMESRecordBatch routes action =
     map (\<lambda>r. buildResourceRecordChange (rtDomain r) (rtRouter r) action) routes"

definition ChangeDinosaurCNAMErecords ::
  "env \<Rightarrow> CentralRequest \<Rightarrow> string \<Rightarrow> world \<Rightarrow> (service_error + change_info option option) \<times> world" where
  "ChangeDinosaurCNAMErecords ev k action w = (case GetRoutes k of
     Inl e \<Rightarrow> (Inl (NewWithCause ErrorGeneral (Some e) (Fmt ''failed to get routes'')), w)
   | Inr None \<Rightarrow> (Inl (NewWithCause ErrorGeneral None (Fmt ''failed to get routes'')), w)
   | Inr (Some routes) \<Rightarrow>
      (case evAwsClient ev (crRegion k) of
         Some e \<Rightarrow> (Inl (general_error e ''Unable to create aws client''), w)
       | None \<Rightarrow>
          (let w1 = log_event (EvChangeCNAME routes action) w in
           case evChangeRecords ev (ccCentralDomainName (evConfig ev)) (buildDinosaurClusterCNAMESRecordBatch routes action) of
             Inl e \<Rightarrow> (Inl (general_error e ''Unable to create domain record sets''), w1)
           | Inr out \<Rightarrow> (Inr out, w1))))"

definition GetCNAMERecordStatus :: "env \<Rightarrow> CentralRequest \<Rightarrow> service_error + change_info" where
  "GetCNAMERecordStatus ev k = (case evAwsClient ev (crRegion k) of
     Some e \<Rightarrow> Inl (general_error e ''Unable to create aws client'')
   | None \<Rightarrow> (case evGetChange ev (crRoutesCreationID k) of
        Inl e \<Rightarrow> Inl (general_error e ''Unable to CNAME record status'')
      | Inr ci \<Rightarrow> Inr ci))"

definition delete_row :: "env \<Rightarrow> CentralRequest \<Rightarrow> world \<Rightarrow> service_error option \<times> world" where
  "delete_row ev k w = (case delete_central (evNow ev) k w of
     (Inl e, w') \<Rightarrow> (Some (general_error e (''unable to delete central request with id '' @ crID k)), w')
   | (Inr _, w') \<Rightarrow> (None, w'))"

definition central_Delete :: "env \<Rightarrow> CentralRequest \<Rightarrow> bool \<Rightarrow> world \<Rightarrow> service_error option \<times> world" where
  "central_Delete ev k force w =
     (if crClusterID k \<noteq> [] then
        (case GetRoutes k of
           Inl e \<Rightarrow> (Some (general_error e ''failed to get routes''), w)
         | Inr routes \<Rightarrow>
            if routes \<noteq> None \<and> ccEnableCentralExternalCertificate (evConfig ev) then
              (case ChangeDinosaurCNAMErecords ev k DinosaurRoutesActionDelete w of
                 (Inl e, w1) \<Rightarrow> if force then delete_row ev k w1 else (Some e, w1)
               | (Inr _, w1) \<Rightarrow> delete_row ev k w1)
            else delete_row ev k w)
      else delete_row ev k w)"

end
