(* ===== verification/Quota_Service.thy ===== *)
theory Quota_Service
  imports Central_Service
begin

text \<open>
  The two quota services (\<^verbatim>\<open>services/quota\<close>) and the list of registered users (\<^verbatim>\<open>pkg/quotamanagement\<close>).
  The client of the account management service is a record of functions. The locale \<open>quota_provider\<close>
  is what the central service relies on: a quota service leaves both tables as they are. It is
  interpreted for both services.
\<close>

subsection \<open>Quota types\<close>

definition AMSQuotaType :: string where "AMSQuotaType = ''ams''"
definition QuotaManagementListQuotaType :: string where "QuotaManagementListQuotaType = ''quota-management-list''"
definition UndefinedQuotaType :: string where "UndefinedQuotaType = []"

definition EvalQuota :: string where "EvalQuota = ''eval''"
definition StandardQuota :: string where "StandardQuota = ''standard''"

definition GetQuotaType :: "string \<Rightarrow> string" where
  "GetQuotaType t = (if t = STANDARD then StandardQuota else EvalQuota)"

definition RHACSProduct :: string where "RHACSProduct = ''RHACS''"
definition RHACSTrialProduct :: string where "RHACSTrialProduct = ''RHACSTrial''"

definition GetProduct :: "string \<Rightarrow> string" where
  "GetProduct t = (if t = StandardQuota then RHACSProduct else RHACSTrialProduct)"

definition GetResourceName :: "string \<Rightarrow> string" where
  "GetResourceName t = ''rhacs''"

definition quota_Equals :: "string \<Rightarrow> string \<Rightarrow> bool" where
  "quota_Equals t t1 \<longleftrightarrow> GetProduct t1 = GetProduct t \<and> GetResourceName t1 = GetResourceName t"

subsection \<open>Quota in the account management service\<close>

definition BillingModelMarketplace :: string where "BillingModelMarketplace = ''marketplace''"
definition BillingModelStandard :: string where "BillingModelStandard = ''standard''"
definition BillingModelMarketplaceAWS :: string where "BillingModelMarketplaceAWS = ''marketplace-aws''"

record related_resource =
  rrBillingModel :: string
  rrCost :: int

record quota_cost =
  qcAllowed :: int
  qcConsumed :: int
  qcRelatedResources :: "related_resource list"

record cloud_account =
  caCloudAccountID :: string
  caCloudProviderID :: string

record authorization_request =
  arAccountUsername :: string
  arCloudProviderID :: string
  arProductID :: string
  arClusterID :: string
  arBillingModel :: string
  arBillingMarketplaceAccount :: "string option"

record ams_client =
  amsGetOrganisation :: "string \<Rightarrow> go_error + string \<times> string"
  amsGetQuotaCosts :: "string \<Rightarrow> string \<Rightarrow> string \<Rightarrow> go_error + quota_cost list"
  amsGetCloudAccounts :: "string \<Rightarrow> string list \<Rightarrow> go_error + cloud_account list"
  amsClusterAuthorization :: "authorization_request \<Rightarrow> go_error + bool \<times> string"
  amsDeleteSubscription :: "string \<Rightarrow> go_error option"

definition RHACSMarketplaceQuotaID :: string where
  "RHACSMarketplaceQuotaID = ''cluster|rhinfra|rhacs|marketplace''"

definition awsCloudProvider :: string where "awsCloudProvider = ''aws''"

definition supportedAMSBillingModels :: "string list" where
  "supportedAMSBillingModels = [BillingModelMarketplace, BillingModelStandard, BillingModelMarketplaceAWS]"

text \<open>The loops over the related resources: \<open>Inr ()\<close> is the early return of a supported billing
  model, \<open>Inl\<close> the last unsupported one.\<close>

fun scan_resources :: "string \<Rightarrow> related_resource list \<Rightarrow> string + unit" where
  "scan_resources found [] = Inl found"
| "scan_resources found (rr # rrs) =
     (if List.member supportedAMSBillingModels (rrBillingModel rr) then Inr ()
      else scan_resources (rrBillingModel rr) rrs)"

fun scan_costs :: "string \<Rightarrow> quota_cost list \<Rightarrow> string + unit" where
  "scan_costs found [] = Inl found"
| "scan_costs found (qc # qcs) =
     (if qcAllowed qc > 0
      then (case scan_resources found (qcRelatedResources qc) of Inr _ \<Rightarrow> Inr () | Inl found' \<Rightarrow> scan_costs found' qcs)
      else scan_costs found qcs)"

definition hasConfiguredQuotaCost :: "ams_client \<Rightarrow> string \<Rightarrow> string \<Rightarrow> go_error + bool" where
  "hasConfiguredQuotaCost ams organizationID quotaType =
     (case amsGetQuotaCosts ams organizationID (GetResourceName quotaType) (GetProduct quotaType) of
        Inl e \<Rightarrow> Inl (Wrap (''retrieving quota costs for product '' @ GetProduct quotaType @ '', organization ID '' @
                   organizationID @ '', resource type '' @ GetResourceName quotaType) e)
      | Inr qcs \<Rightarrow>
         (case scan_costs [] qcs of
            Inr _ \<Rightarrow> Inr True
          | Inl found \<Rightarrow>
             if found \<noteq> [] then Inl (SvcErr (GeneralError (Fmt (''Product '' @ GetProduct quotaType @
                 '' only has unsupported allowed billing models. Last one found: '' @ found))))
             else Inr False))"

definition ams_CheckIfQuotaIsDefined :: "ams_client \<Rightarrow> CentralRequest \<Rightarrow> string \<Rightarrow> service_error + bool" where
  "ams_CheckIfQuotaIsDefined ams k instanceType = (case amsGetOrganisation ams (crOrganisationID k) of
     Inl e \<Rightarrow> Inl (OrganisationNotFound (crOrganisationID k) e)
   | Inr (orgID, _) \<Rightarrow>
      (case hasConfiguredQuotaCost ams orgID (GetQuotaType instanceType) of
         Inl e \<Rightarrow> Inl (NewWithCause ErrorGeneral (Some e) (as_format (''failed to get assigned quota of type '' @
             GetQuotaType instanceType @ '' for organization with external id '' @ crOrganisationID k @ '' and id '' @ orgID)))
       | Inr b \<Rightarrow> Inr b))"

text \<open>Whether some resource of a billing model has quota left or costs nothing.\<close>

definition has_model :: "string \<Rightarrow> quota_cost list \<Rightarrow> bool" where
  "has_model bm qcs \<longleftrightarrow> list_ex (\<lambda>qc. list_ex (\<lambda>rr.
     (qcConsumed qc < qcAllowed qc \<or> rrCost rr = 0) \<and> rrBillingModel rr = bm) (qcRelatedResources qc)) qcs"

definition selectBillingModelFromDinosaurInstanceType ::
  "ams_client \<Rightarrow> string \<Rightarrow> string \<Rightarrow> string \<Rightarrow> string \<Rightarrow> service_error + string" where
  "selectBillingModelFromDinosaurInstanceType ams orgID cloudProviderID cloudAccountID instanceType =
     (let prod = GetProduct (GetQuotaType instanceType) in
      case amsGetQuotaCosts ams orgID (GetResourceName (GetQuotaType instanceType)) prod of
        Inl e \<Rightarrow> Inl (InsufficientQuotaError (Fmt (go_Error e @ '': error getting quotas for product '' @ prod)))
      | Inr qcs \<Rightarrow>
         if cloudAccountID \<noteq> [] \<and> cloudProviderID = awsCloudProvider then
           (if has_model BillingModelMarketplaceAWS qcs \<or> has_model BillingModelMarketplace qcs
            then Inr BillingModelMarketplaceAWS
            else Inl (InvalidCloudAccountID (Fmt (''No subscription available for cloud account '' @ cloudAccountID))))
         else if has_model BillingModelMarketplace qcs then Inr BillingModelMarketplace
         else if has_model BillingModelStandard qcs then Inr BillingModelStandard
         else Inl (InsufficientQuotaError (Fmt ''No available billing model found'')))"

definition verifyCloudAccountInAMS :: "ams_client \<Rightarrow> CentralRequest \<Rightarrow> string \<Rightarrow> service_error option" where
  "verifyCloudAccountInAMS ams k orgID = (case amsGetCloudAccounts ams orgID [RHACSMarketplaceQuotaID] of
     Inl e \<Rightarrow> (let svcErr = ToServiceError e in
               Some (NewWithCause (Code svcErr) (Some (SvcErr svcErr)) (Fmt ''Error getting cloud accounts'')))
   | Inr accounts \<Rightarrow>
      if crCloudAccountID k = [] then
        (if accounts \<noteq> [] then Some (InvalidCloudAccountID (Fmt ''Missing cloud account id in creation request'')) else None)
      else if list_ex (\<lambda>a. caCloudAccountID a = crCloudAccountID k \<and> caCloudProviderID a = crCloudProvider k) accounts then None
      else Some (InvalidCloudAccountID (Fmt (''Request cloud account '' @ crCloudAccountID k @
             '' does not match organization cloud accounts''))))"

definition ams_request :: "CentralRequest \<Rightarrow> string \<Rightarrow> string \<Rightarrow> authorization_request" where
  "ams_request k instanceType bm = \<lparr>arAccountUsername = crOwner k, arCloudProviderID = crCloudProvider k,
     arProductID = GetProduct (GetQuotaType instanceType), arClusterID = crID k, arBillingModel = bm,
     arBillingMarketplaceAccount = (if bm \<noteq> BillingModelStandard then Some (crCloudAccountID k) else None)\<rparr>"

definition ams_ReserveQuota :: "ams_client \<Rightarrow> CentralRequest \<Rightarrow> string \<Rightarrow> world \<Rightarrow> (service_error + string) \<times> world" where
  "ams_ReserveQuota ams k instanceType w = (case amsGetOrganisation ams (crOrganisationID k) of
     Inl e \<Rightarrow> (Inl (OrganisationNotFound (crOrganisationID k) e), w)
   | Inr (orgID, _) \<Rightarrow>
      (case selectBillingModelFromDinosaurInstanceType ams orgID (crCloudProvider k) (crCloudAccountID k) instanceType of
         Inl e \<Rightarrow> (Inl (NewWithCause (Code e) (Some (SvcErr e)) (Fmt ''Error getting billing model'')), w)
       | Inr bm \<Rightarrow>
          (case (if bm \<noteq> BillingModelStandard then verifyCloudAccountInAMS ams k orgID else None) of
             Some e \<Rightarrow> (Inl e, w)
           | None \<Rightarrow>
              (case amsClusterAuthorization ams (ams_request k instanceType bm) of
                 Inl e \<Rightarrow> (Inl (FailedClusterAuthorization e), log_event (EvReserveQuota (crID k) bm) w)
               | Inr (allowed, subscriptionID) \<Rightarrow>
                  (if allowed then Inr subscriptionID else Inl (InsufficientQuotaError (Fmt ''Insufficient Quota'')),
                   log_event (EvReserveQuota (crID k) bm) w)))))"

definition ams_DeleteQuota :: "ams_client \<Rightarrow> string \<Rightarrow> world \<Rightarrow> service_error option \<times> world" where
  "ams_DeleteQuota ams subscriptionID w =
     (if subscriptionID = [] then (None, w)
      else (case amsDeleteSubscription ams subscriptionID of
         Some e \<Rightarrow> Some (GeneralError (Fmt (''failed to delete the quota: '' @ go_Error e)))
       | None \<Rightarrow> None, log_event (EvDeleteQuota subscriptionID) w))"

definition amsQuotaService :: "ams_client \<Rightarrow> quota_service" where
  "amsQuotaService ams = \<lparr>qsCheckIfQuotaIsDefined = (\<lambda>k t w. (ams_CheckIfQuotaIsDefined ams k t, w)),
     qsReserveQuota = ams_ReserveQuota ams, qsDeleteQuota = ams_DeleteQuota ams\<rparr>"

subsection \<open>The list of registered users\<close>

text \<open>\<open>dflt\<close> is the value of the flag \<^verbatim>\<open>max-allowed-instances\<close>.\<close>

record Account =
  acUsername :: string
  acMaxAllowedInstances :: int

record Organisation =
  ogID :: string
  ogAnyUser :: bool
  ogMaxAllowedInstances :: int
  ogRegisteredUsers :: "Account list"

record QuotaManagementListConfig =
  qmOrganisations :: "Organisation list"
  qmServiceAccounts :: "Account list"
  qmEnableInstanceLimitControl :: bool
  qmMaxAllowedInstances :: int

definition account_GetMaxAllowedInstances :: "int \<Rightarrow> Account \<Rightarrow> int" where
  "account_GetMaxAllowedInstances dflt a = (if acMaxAllowedInstances a \<le> 0 then dflt else acMaxAllowedInstances a)"

definition org_GetMaxAllowedInstances :: "int \<Rightarrow> Organisation \<Rightarrow> int" where
  "org_GetMaxAllowedInstances dflt g = (if ogMaxAllowedInstances g \<le> 0 then dflt else ogMaxAllowedInstances g)"

definition GetByUsername :: "Account list \<Rightarrow> string \<Rightarrow> Account option" where
  "GetByUsername accounts username = find (\<lambda>a. username = acUsername a) accounts"

definition org_GetByID :: "Organisation list \<Rightarrow> string \<Rightarrow> Organisation option" where
  "org_GetByID orgs gid = find (\<lambda>g. gid = ogID g) orgs"

definition HasUsersRegistered :: "Organisation \<Rightarrow> bool" where
  "HasUsersRegistered g \<longleftrightarrow> length (ogRegisteredUsers g) > 0"

definition IsUserRegistered :: "Organisation \<Rightarrow> string \<Rightarrow> bool" where
  "IsUserRegistered g username =
     (if \<not> HasUsersRegistered g then ogAnyUser g else GetByUsername (ogRegisteredUsers g) username \<noteq> None)"

definition GetAllowedAccountByUsernameAndOrgID :: "QuotaManagementListConfig \<Rightarrow> string \<Rightarrow> string \<Rightarrow> Account option" where
  "GetAllowedAccountByUsernameAndOrgID qm username orgID =
     (case (case org_GetByID (qmOrganisations qm) orgID of
              None \<Rightarrow> None | Some g \<Rightarrow> GetByUsername (ogRegisteredUsers g) username) of
        Some a \<Rightarrow> Some a
      | None \<Rightarrow> GetByUsername (qmServiceAccounts qm) username)"

text \<open>The item of the list that governs a user: the organisation when the user is registered there,
  otherwise the service account.\<close>

datatype quota_item = ItemOrg Organisation | ItemUser Account

definition quota_item_of :: "QuotaManagementListConfig \<Rightarrow> string \<Rightarrow> string \<Rightarrow> quota_item option" where
  "quota_item_of qm orgID username = (case org_GetByID (qmOrganisations qm) orgID of
     Some g \<Rightarrow> if IsUserRegistered g username then Some (ItemOrg g)
               else map_option ItemUser (GetByUsername (qmServiceAccounts qm) username)
   | None \<Rightarrow> map_option ItemUser (GetByUsername (qmServiceAccounts qm) username))"

definition item_limit :: "int \<Rightarrow> quota_item \<Rightarrow> int" where
  "item_limit dflt i = (case i of ItemOrg g \<Rightarrow> org_GetMaxAllowedInstances dflt g | ItemUser a \<Rightarrow> account_GetMaxAllowedInstances dflt a)"

definition IsInstanceCountWithinLimit :: "int \<Rightarrow> quota_item \<Rightarrow> int \<Rightarrow> bool" where
  "IsInstanceCountWithinLimit dflt i count \<longleftrightarrow> count < item_limit dflt i"

definition limit_message :: "QuotaManagementListConfig \<Rightarrow> string \<Rightarrow> string \<Rightarrow> string" where
  "limit_message qm orgID username =
     (case quota_item_of qm orgID username of
        Some (ItemOrg g) \<Rightarrow> ''Organization '' @ [CHR 39] @ orgID @ [CHR 39] @ '' has reached a maximum number of '' @
           itoa (org_GetMaxAllowedInstances (qmMaxAllowedInstances qm) g)
      | Some (ItemUser a) \<Rightarrow> ''User '' @ [CHR 39] @ username @ [CHR 39] @ '' has reached a maximum number of '' @
           itoa (account_GetMaxAllowedInstances (qmMaxAllowedInstances qm) a)
      | None \<Rightarrow> ''User '' @ [CHR 39] @ username @ [CHR 39] @ '' has reached a maximum number of '' @
           itoa (qmMaxAllowedInstances qm)) @ '' allowed instances.''"

definition qml_CheckIfQuotaIsDefined :: "QuotaManagementListConfig \<Rightarrow> CentralRequest \<Rightarrow> string \<Rightarrow> bool" where
  "qml_CheckIfQuotaIsDefined qm k instanceType =
     (let userIsRegistered = (quota_item_of qm (crOrganisationID k) (crOwner k) \<noteq> None) in
      if userIsRegistered \<and> instanceType = STANDARD then True
      else if \<not> userIsRegistered \<and> instanceType = EVAL then True
      else False)"

definition counted_for :: "QuotaManagementListConfig \<Rightarrow> CentralRequest \<Rightarrow> string \<Rightarrow> CentralRequest \<Rightarrow> bool" where
  "counted_for qm k instanceType r \<longleftrightarrow> crInstanceType r = instanceType \<and>
     (case quota_item_of qm (crOrganisationID k) (crOwner k) of
        Some (ItemOrg _) \<Rightarrow> if instanceType = STANDARD then crOrganisationID r = crOrganisationID k else crOwner r = crOwner k
      | _ \<Rightarrow> crOwner r = crOwner k)"

definition qml_ReserveQuota ::
  "QuotaManagementListConfig \<Rightarrow> CentralRequest \<Rightarrow> string \<Rightarrow> world \<Rightarrow> (service_error + string) \<times> world" where
  "qml_ReserveQuota qm k instanceType w =
     (if \<not> qmEnableInstanceLimitControl qm then (Inr [], w)
      else (let item = quota_item_of qm (crOrganisationID k) (crOwner k);
                limit_reached = MaximumAllowedInstanceReached (as_format (limit_message qm (crOrganisationID k) (crOwner k))) in
        case count_centrals (counted_for qm k instanceType) w of
          (Inl _, w') \<Rightarrow> (Inl (GeneralError (Fmt ''count failed from database'')), w')
        | (Inr count, w') \<Rightarrow>
           (case item of
              Some i \<Rightarrow>
                if instanceType = STANDARD then
                  (if IsInstanceCountWithinLimit (qmMaxAllowedInstances qm) i count then (Inr [], w') else (Inl limit_reached, w'))
                else (Inl (InsufficientQuotaError (Fmt ''Insufficient Quota'')), w')
            | None \<Rightarrow>
                if instanceType = EVAL then
                  (if count \<ge> qmMaxAllowedInstances qm then (Inl limit_reached, w') else (Inr [], w'))
                else (Inl (InsufficientQuotaError (Fmt ''Insufficient Quota'')), w'))))"

definition qml_DeleteQuota :: "string \<Rightarrow> world \<Rightarrow> service_error option \<times> world" where
  "qml_DeleteQuota subscriptionID w = (None, w)"

definition QuotaManagementListService :: "QuotaManagementListConfig \<Rightarrow> quota_service" where
  "QuotaManagementListService qm = \<lparr>qsCheckIfQuotaIsDefined = (\<lambda>k t w. (Inr (qml_CheckIfQuotaIsDefined qm k t), w)),
     qsReserveQuota = qml_ReserveQuota qm, qsDeleteQuota = qml_DeleteQuota\<rparr>"

subsection \<open>Factory\<close>

definition GetQuotaService :: "ams_client \<Rightarrow> QuotaManagementListConfig \<Rightarrow> string \<Rightarrow> service_error + quota_service" where
  "GetQuotaService ams qm quotaType =
     (let t = (if quotaType = UndefinedQuotaType then QuotaManagementListQuotaType else quotaType) in
      if t = AMSQuotaType then Inr (amsQuotaService ams)
      else if t = QuotaManagementListQuotaType then Inr (QuotaManagementListService qm)
      else Inl (GeneralError (Fmt (''invalid quota service type: '' @ t))))"

subsection \<open>The contract of a quota service\<close>

definition same_tables :: "world \<Rightarrow> world \<Rightarrow> bool" where
  "same_tables w w' \<longleftrightarrow> centrals w' = centrals w \<and> clusters w' = clusters w"

lemma same_tables_refl [simp]: "same_tables w w"
  by (simp add: same_tables_def)

lemma same_tables_log [simp]: "same_tables w (log_event e w)"
  by (simp add: same_tables_def log_event_def)

lemma same_tables_next [simp]: "same_tables w (next_stmt w)"
  by (simp add: same_tables_def)

locale quota_provider =
  fixes qs :: quota_service
  assumes check_frame: "same_tables w (snd (qsCheckIfQuotaIsDefined qs k t w))"
    and reserve_frame: "same_tables w (snd (qsReserveQuota qs k t w))"
    and delete_frame: "same_tables w (snd (qsDeleteQuota qs s w))"

interpretation ams: quota_provider "amsQuotaService c" for c
proof unfold_locales
  fix w k t s
  show "same_tables w (snd (qsCheckIfQuotaIsDefined (amsQuotaService c) k t w))"
    by (simp add: amsQuotaService_def)
  show "same_tables w (snd (qsReserveQuota (amsQuotaService c) k t w))"
    by (simp add: amsQuotaService_def ams_ReserveQuota_def split: sum.splits option.splits prod.splits)
  show "same_tables w (snd (qsDeleteQuota (amsQuotaService c) s w))"
    by (simp add: amsQuotaService_def ams_DeleteQuota_def split: option.splits)
qed

lemma count_centrals_frame: "snd (count_centrals P w) = next_stmt w"
  by (simp add: count_centrals_unfold split: option.splits)

lemma qml_ReserveQuota_frame:
  "snd (qml_ReserveQuota qm k t w) = (if qmEnableInstanceLimitControl qm then next_stmt w else w)"
  using count_centrals_frame [of "counted_for qm k t" w]
  by (auto simp: qml_ReserveQuota_def Let_def split: prod.splits sum.splits option.splits)

interpretation qml: quota_provider "QuotaManagementListService qm" for qm
  by unfold_locales (simp_all add: QuotaManagementListService_def qml_ReserveQuota_frame qml_DeleteQuota_def)

lemma GetQuotaService_provider: "GetQuotaService c qm t = Inr qs \<Longrightarrow> quota_provider qs"
  using ams.quota_provider_axioms qml.quota_provider_axioms
  by (auto simp: GetQuotaService_def Let_def split: if_splits)

end
