(* ===== verification/Central_Contracts.thy ===== *)
theory Central_Contracts
  imports Quota_Service
begin

text \<open>
  The operations of the central service meet the contracts of \<open>World_Contracts\<close>: each interpretation
  names the relation between the rows before and after. The lemmas before them compute the effect of
  an operation on the table from the outcome of its statements. \<open>central_env\<close> is what the service
  relies on of its quota services; it is interpreted for the environment that uses the factory of
  \<open>Quota_Service\<close>.
\<close>

subsection \<open>Effects on the tables\<close>

lemma not_under_deletion_iff: "not_under_deletion r \<longleftrightarrow> \<not> under_deletion r"
  by (auto simp: not_under_deletion_def dinosaurDeletionStatuses_def)

lemma central_Update_world:
  "snd (central_Update ev k w) =
     snd (update_centrals (\<lambda>r. pk_match k r \<and> not_under_deletion r) (assign_central (evNow ev) k) w)"
  by (auto simp: central_Update_def split: prod.splits sum.splits)

lemma central_Updates_world:
  "snd (central_Updates ev k f w) =
     snd (update_centrals (\<lambda>r. pk_match k r \<and> not_under_deletion r) (\<lambda>r. (f r)\<lparr>crUpdatedAt := evNow ev\<rparr>) w)"
  by (auto simp: central_Updates_def split: prod.splits sum.splits)

lemma GetByID_world: "snd (GetByID rid w) = (if rid = [] then w else next_stmt w)"
  using first_central_world [of "\<lambda>r. crID r = rid" w]
  by (auto simp: GetByID_def split: prod.splits sum.splits)

lemma GetByID_Inr:
  "GetByID rid w = (Inr r, w') \<Longrightarrow> r \<in> set (centrals w) \<and> live r \<and> crID r = rid \<and> rid \<noteq> [] \<and> w' = next_stmt w"
  by (auto simp: GetByID_def split: if_splits prod.splits sum.splits dest: first_central_Inr)

lemma find_clusters_world: "snd (find_clusters P w) = next_stmt w"
  by (simp add: find_clusters_def stmt_unfold split: option.splits)

lemma first_cluster_world: "snd (first_cluster P w) = next_stmt w"
  by (simp add: first_cluster_def stmt_unfold split: option.splits)

lemma update_clusters_centrals: "centrals (snd (update_clusters P f w)) = centrals w"
  by (simp add: update_clusters_def stmt_unfold split: option.splits)

lemma cluster_Update_centrals: "centrals (snd (cluster_Update now c w)) = centrals w"
  using update_clusters_centrals [of "\<lambda>r. clID r = clID c" "assign_cluster now c" w]
  by (auto simp: cluster_Update_def split: prod.splits sum.splits)

lemma FindClusterByID_centrals: "centrals (snd (FindClusterByID cid w)) = centrals w"
  using first_cluster_world [of "\<lambda>c. clClusterID c = cid" w]
  by (auto simp: FindClusterByID_def split: prod.splits sum.splits go_error.splits)

lemma FindAllClusters_world: "snd (FindAllClusters cr w) = next_stmt w"
  using find_clusters_world [of "criteria_match cr" w]
  by (auto simp: FindAllClusters_def split: prod.splits sum.splits go_error.splits)

lemma FindCluster_world: "snd (FindCluster k w) = next_stmt w"
  using FindAllClusters_world [of "placement_criteria k" w]
  by (auto simp: FindCluster_def split: prod.splits sum.splits)

lemma GetClusterDNS_centrals: "centrals (snd (GetClusterDNS pf now cid w)) = centrals w"
proof -
  obtain x w1 where f: "FindClusterByID cid w = (x, w1)" by fastforce
  then have "centrals w1 = centrals w" using FindClusterByID_centrals [of cid w] by simp
  moreover have "centrals (snd (cluster_Update now c w1)) = centrals w1" for c by (rule cluster_Update_centrals)
  ultimately show ?thesis using f
    by (auto simp: GetClusterDNS_def split: sum.splits option.splits prod.splits) (metis snd_conv)+
qed

subsection \<open>Contracts of the updates\<close>

text \<open>\<open>central_Update\<close> writes only rows that are not under deletion.\<close>

definition update_rel :: "env \<Rightarrow> CentralRequest \<Rightarrow> CentralRequest \<Rightarrow> CentralRequest \<Rightarrow> bool" where
  "update_rel ev k = cond_rel (\<lambda>r. pk_match k r \<and> not_under_deletion r) (assign_central (evNow ev) k)"

lemma cond_rel_kept: "(\<And>r. crID (f r) = crID r) \<Longrightarrow> cond_rel P f r r' \<Longrightarrow> row_kept r r'"
  by (auto simp: cond_rel_def row_kept_def)

interpretation upd: central_update "central_Update ev k" "update_rel ev k" for ev k
proof unfold_locales
  show "update_rel ev k r r" for r by (simp add: update_rel_def cond_rel_def)
  show "update_rel ev k r r' \<Longrightarrow> row_kept r r'" for r r'
    unfolding update_rel_def by (rule cond_rel_kept) (simp_all add: assign_central_def)
  show "list_all2 (update_rel ev k) (centrals w) (centrals (snd (central_Update ev k w)))" for w
    unfolding central_Update_world update_rel_def by (rule update_centrals_rel)
qed

text \<open>A row moves to the status \<open>s\<close> unless it is under deletion.\<close>

definition advance_rel :: "(CentralRequest \<Rightarrow> bool) \<Rightarrow> string \<Rightarrow> CentralRequest \<Rightarrow> CentralRequest \<Rightarrow> bool" where
  "advance_rel P s r r' \<longleftrightarrow> r' = r \<or>
     (live r \<and> live r' \<and> P r \<and> \<not> under_deletion r \<and> crID r' = crID r \<and> crStatus r' = s \<and>
      (crDeletionTimestamp r \<noteq> None \<longrightarrow> crDeletionTimestamp r' \<noteq> None))"

lemma advance_rel_refl [simp]: "advance_rel P s r r"
  by (simp add: advance_rel_def)

lemma advance_rel_life: "s \<notin> set dinosaurDeletionStatuses \<Longrightarrow> advance_rel P s r r' \<Longrightarrow> life_step {} r r'"
  by (auto simp: advance_rel_def life_step_def row_kept_def)

lemma advance_rel_kept: "advance_rel P s r r' \<Longrightarrow> row_kept r r'"
  by (auto simp: advance_rel_def row_kept_def)

lemma pk_match_cong: "crID u = crID k \<Longrightarrow> pk_match u = pk_match k"
  by (simp add: pk_match_def fun_eq_iff)

lemma update_rel_advance:
  "update_rel ev u r r' \<Longrightarrow> crStatus u = s \<Longrightarrow> s \<noteq> [] \<Longrightarrow> crDeletedAt u = None \<Longrightarrow> crID u = crID k \<Longrightarrow>
     advance_rel (pk_match k) s r r'"
  using pk_match_cong [of u k]
  by (auto simp: update_rel_def cond_rel_def advance_rel_def not_under_deletion_iff live_def nz_def nzo_def
      split: option.splits)

lemma central_Update_advance:
  assumes "crStatus u = s" "s \<noteq> []" "crDeletedAt u = None" "crID u = crID k" "wf_ids w"
  shows "list_all2 (advance_rel (pk_match k) s) (centrals w) (centrals (snd (central_Update ev u w)))"
  by (rule list_all2_mono [OF upd.step [OF assms(5)]]) (rule update_rel_advance [OF _ assms(1-4)])

lemma list_all2_advance [simp]: "list_all2 (advance_rel P s) rs rs"
  by (rule list_all2_same) simp

lemma update_fields [simp]:
  "crStatus (accepted_fields ev k host ns) = CentralRequestStatusPreparing" "crDeletedAt (accepted_fields ev k host ns) = None"
  "crID (accepted_fields ev k host ns) = crID k"
  "crStatus (prepared_fields k orgName) = CentralRequestStatusProvisioning" "crDeletedAt (prepared_fields k orgName) = None"
  "crID (prepared_fields k orgName) = crID k"
  "crStatus (status_update ev s) = s" "crDeletedAt (status_update ev s) = None" "crID (status_update ev s) = []"
  "crClusterID (status_update ev s) = []"
  by (simp_all add: accepted_fields_def prepared_fields_def status_update_def empty_central_def)

lemma PrepareDinosaurRequest_world:
  "snd (PrepareDinosaurRequest ev k w) = w \<or>
   (\<exists>orgName. snd (PrepareDinosaurRequest ev k w) = snd (central_Update ev (prepared_fields k orgName) w))"
  by (simp add: PrepareDinosaurRequest_def case_prod_beta split: sum.split option.split) blast

lemma status_nonempty [simp]:
  "CentralRequestStatusPreparing \<noteq> []" "CentralRequestStatusProvisioning \<noteq> []" "CentralRequestStatusDeprovision \<noteq> []"
  "CentralRequestStatusDeleting \<noteq> []" "CentralRequestStatusReady \<noteq> []" "CentralRequestStatusFailed \<noteq> []"
  "CentralRequestStatusAccepted \<noteq> []"
  by (simp_all add: status_defs)

interpretation prep: lifecycle_update "PrepareDinosaurRequest ev k" "advance_rel (pk_match k) CentralRequestStatusProvisioning" "{}"
  for ev k
proof unfold_locales
  show "wf_ids w \<Longrightarrow> list_all2 (advance_rel (pk_match k) CentralRequestStatusProvisioning) (centrals w)
      (centrals (snd (PrepareDinosaurRequest ev k w)))" for w
    using PrepareDinosaurRequest_world [of ev k w]
    by (auto intro!: central_Update_advance)
qed (auto intro: advance_rel_kept advance_rel_life [rotated])

lemma AcceptCentralRequest_world:
  "\<exists>w1. centrals w1 = centrals w \<and> (snd (AcceptCentralRequest ev k w) = w1 \<or>
   (\<exists>host ns. snd (AcceptCentralRequest ev k w) = snd (central_Update ev (accepted_fields ev k host ns) w1)))"
proof (cases "FormatNamespace (crID k)")
  case (Inl e)
  then show ?thesis by (auto simp: AcceptCentralRequest_def)
next
  case (Inr ns)
  define h where "h = (if ccEnableCentralExternalCertificate (evConfig ev) then (Some (Inr (ccCentralDomainName (evConfig ev))), w)
            else GetClusterDNS (evProviders ev) (evNow ev) (crClusterID k) w)"
  have c: "centrals (snd h) = centrals w"
    by (simp add: h_def GetClusterDNS_centrals)
  have "snd (AcceptCentralRequest ev k w) = snd h \<or>
    (\<exists>host ns. snd (AcceptCentralRequest ev k w) = snd (central_Update ev (accepted_fields ev k host ns) (snd h)))"
    unfolding AcceptCentralRequest_def Inr sum.case h_def [symmetric]
    by (simp add: case_prod_beta split: option.split sum.split) blast
  with c show ?thesis by blast
qed

interpretation acc: lifecycle_update "AcceptCentralRequest ev k" "advance_rel (pk_match k) CentralRequestStatusPreparing" "{}"
  for ev k
proof unfold_locales
  show "wf_ids w \<Longrightarrow> list_all2 (advance_rel (pk_match k) CentralRequestStatusPreparing) (centrals w)
      (centrals (snd (AcceptCentralRequest ev k w)))" for w
  proof -
    assume wf: "wf_ids w"
    obtain w1 where c: "centrals w1 = centrals w" and
      w1: "snd (AcceptCentralRequest ev k w) = w1 \<or>
       (\<exists>host ns. snd (AcceptCentralRequest ev k w) = snd (central_Update ev (accepted_fields ev k host ns) w1))"
      using AcceptCentralRequest_world by blast
    have "wf_ids w1" using wf c by (simp add: wf_ids_def)
    then show ?thesis using w1 central_Update_advance [of _ CentralRequestStatusPreparing k w1 ev] c by auto
  qed
qed (auto intro: advance_rel_kept advance_rel_life [rotated])

subsection \<open>Status changes and deletion\<close>

text \<open>\<open>UpdateStatus\<close> reads the row and then writes it: with unique identifiers it is the same row.\<close>

definition status_rel :: "env \<Rightarrow> string \<Rightarrow> string \<Rightarrow> CentralRequest \<Rightarrow> CentralRequest \<Rightarrow> bool" where
  "status_rel ev rid s r r' \<longleftrightarrow> r' = r \<or>
     (live r \<and> crID r = rid \<and> crStatus r \<noteq> s \<and>
      (crStatus r = CentralRequestStatusDeprovision \<longrightarrow> s = CentralRequestStatusDeleting) \<and>
      r' = assign_central (evNow ev) (status_update ev s) r)"

lemma status_rel_refl [simp]: "status_rel ev rid s r r"
  by (simp add: status_rel_def)

lemma UpdateStatus_step:
  assumes wf: "wf_ids w"
  shows "list_all2 (status_rel ev rid s) (centrals w) (centrals (snd (UpdateStatus ev rid s w)))"
proof (cases "GetByID rid w")
  case (Pair g w1)
  have c1: "centrals w1 = centrals w" using GetByID_world [of rid w] Pair by (simp split: if_splits)
  show ?thesis
  proof (cases g)
    case (Inl e)
    then show ?thesis using Pair c1 by (simp add: UpdateStatus_def list_all2_same)
  next
    case (Inr d)
    have d: "d \<in> set (centrals w)" "live d" "crID d = rid" using GetByID_Inr Pair Inr by auto
    let ?f = "assign_central (evNow ev) (status_update ev s)"
    let ?no = "crStatus d = CentralRequestStatusDeprovision \<and> s \<noteq> CentralRequestStatusDeleting \<or> crStatus d = s"
    show ?thesis
    proof (cases ?no)
      case True
      then show ?thesis using Pair Inr c1 by (auto simp: UpdateStatus_def list_all2_same)
    next
      case False
      have "snd (UpdateStatus ev rid s w) = snd (update_centrals (\<lambda>r. crID r = rid) ?f w1)"
        using Pair Inr False by (auto simp: UpdateStatus_def case_prod_beta split: sum.split)
      moreover have "list_all2 (cond_rel (\<lambda>r. crID r = rid) ?f) (centrals w) (centrals (snd (update_centrals (\<lambda>r. crID r = rid) ?f w1)))"
        using update_centrals_rel [of "\<lambda>r. crID r = rid" ?f w1] c1 by simp
      moreover have "r \<in> set (centrals w) \<Longrightarrow> cond_rel (\<lambda>r. crID r = rid) ?f r r' \<Longrightarrow> status_rel ev rid s r r'" for r r'
        using False wf_ids_unique [OF wf d(1), of r] d(3) unfolding cond_rel_def status_rel_def by blast
      ultimately show ?thesis using list_all2_strengthen by metis
    qed
  qed
qed

interpretation ust: central_update "UpdateStatus ev rid s" "status_rel ev rid s" for ev rid s
  by unfold_locales (auto simp: UpdateStatus_step, auto simp: status_rel_def row_kept_def)

text \<open>The two statuses of deletion are the ones the callers pass.\<close>

interpretation ust_dep: lifecycle_update "UpdateStatus ev rid CentralRequestStatusDeprovision"
    "status_rel ev rid CentralRequestStatusDeprovision" "{}" for ev rid
  by unfold_locales (auto simp: status_rel_def life_step_def row_kept_def status_update_def empty_central_def nz_def nzo_def)

interpretation ust_del: lifecycle_update "UpdateStatus ev rid CentralRequestStatusDeleting"
    "status_rel ev rid CentralRequestStatusDeleting" "{rid}" for ev rid
  by unfold_locales (auto simp: status_rel_def life_step_def row_kept_def nz_def nzo_def split: option.split)

text \<open>The bulk operations stamp every row they write.\<close>

definition stamp_rel :: "env \<Rightarrow> (CentralRequest \<Rightarrow> bool) \<Rightarrow> CentralRequest \<Rightarrow> CentralRequest \<Rightarrow> bool" where
  "stamp_rel ev P = cond_rel (\<lambda>r. P r \<and> not_under_deletion r) (set_deprovision ev)"

lemma stamp_rel_life: "stamp_rel ev P r r' \<Longrightarrow> life_step {} r r'"
  by (auto simp: stamp_rel_def cond_rel_def life_step_def row_kept_def set_deprovision_def not_under_deletion_iff)

lemma stamp_rel_kept: "stamp_rel ev P r r' \<Longrightarrow> row_kept r r'"
  using stamp_rel_life life_step_def by blast

definition expired :: "env \<Rightarrow> int \<Rightarrow> CentralRequest \<Rightarrow> bool" where
  "expired ev age r \<longleftrightarrow> crInstanceType r = EVAL \<and> crCreatedAt r \<le> evNow ev - age * hour"

interpretation users: lifecycle_update "DeprovisionDinosaurForUsers ev us" "stamp_rel ev (\<lambda>r. crOwner r \<in> set us)" "{}" for ev us
proof unfold_locales
  show "list_all2 (stamp_rel ev (\<lambda>r. crOwner r \<in> set us)) (centrals w) (centrals (snd (DeprovisionDinosaurForUsers ev us w)))" for w
    using update_centrals_rel [of "\<lambda>r. crOwner r \<in> set us \<and> not_under_deletion r" "set_deprovision ev" w]
    by (simp add: DeprovisionDinosaurForUsers_def stamp_rel_def case_prod_beta split: sum.split)
qed (auto intro: stamp_rel_life stamp_rel_kept, simp add: stamp_rel_def cond_rel_def)

interpretation expiry: lifecycle_update "DeprovisionExpiredDinosaurs ev age" "stamp_rel ev (expired ev age)" "{}" for ev age
proof unfold_locales
  show "list_all2 (stamp_rel ev (expired ev age)) (centrals w) (centrals (snd (DeprovisionExpiredDinosaurs ev age w)))" for w
    using update_centrals_rel [of "\<lambda>r. expired ev age r \<and> not_under_deletion r" "set_deprovision ev" w]
    by (simp add: DeprovisionExpiredDinosaurs_def stamp_rel_def expired_def case_prod_beta split: sum.split)
qed (auto intro: stamp_rel_life stamp_rel_kept, simp add: stamp_rel_def cond_rel_def)

text \<open>Deletion marks the live row of the request and nothing else.\<close>

definition delete_rel :: "env \<Rightarrow> CentralRequest \<Rightarrow> CentralRequest \<Rightarrow> CentralRequest \<Rightarrow> bool" where
  "delete_rel ev k = cond_rel (\<lambda>r. crID r = crID k \<and> crID k \<noteq> []) (\<lambda>r. r\<lparr>crDeletedAt := Some (evNow ev)\<rparr>)"

lemma delete_row_step: "list_all2 (delete_rel ev k) (centrals w) (centrals (snd (delete_row ev k w)))"
proof (cases "crID k = []")
  case True
  then show ?thesis
    by (simp add: delete_row_def delete_central_def stmt_unfold case_prod_beta list_all2_same delete_rel_def cond_rel_def
        split: sum.split option.split)
next
  case False
  then show ?thesis
    using update_centrals_rel [of "\<lambda>r. crID r = crID k" "\<lambda>r. r\<lparr>crDeletedAt := Some (evNow ev)\<rparr>" w]
    by (simp add: delete_row_def delete_central_def delete_rel_def case_prod_beta split: sum.split)
qed

lemma ChangeDinosaurCNAMErecords_frame: "same_tables w (snd (ChangeDinosaurCNAMErecords ev k a w))"
  by (simp add: ChangeDinosaurCNAMErecords_def Let_def split: sum.split option.split)

lemma central_Delete_step: "list_all2 (delete_rel ev k) (centrals w) (centrals (snd (central_Delete ev k force w)))"
proof -
  have id: "list_all2 (delete_rel ev k) rs rs" for rs by (simp add: list_all2_same delete_rel_def cond_rel_def)
  define w1 where "w1 = snd (ChangeDinosaurCNAMErecords ev k DinosaurRoutesActionDelete w)"
  have c: "centrals w1 = centrals w"
    using ChangeDinosaurCNAMErecords_frame [of w ev k DinosaurRoutesActionDelete] by (simp add: w1_def same_tables_def)
  have "snd (central_Delete ev k force w) \<in> {w, w1, snd (delete_row ev k w), snd (delete_row ev k w1)}"
    by (simp add: central_Delete_def case_prod_beta w1_def split: sum.split)
  then show ?thesis using delete_row_step [of ev k w] delete_row_step [of ev k w1] id c by auto
qed

interpretation del: lifecycle_update "central_Delete ev k force" "delete_rel ev k" "{}" for ev k force
  by unfold_locales
     (simp_all add: central_Delete_step, auto simp: delete_rel_def cond_rel_def row_kept_def life_step_def)

subsection \<open>Authorization\<close>

text \<open>Who may deprovision a tenant: an admin, an administrator of its organisation, its owner.\<close>

definition may_deprovision :: "request_context \<Rightarrow> claims \<Rightarrow> CentralRequest \<Rightarrow> bool" where
  "may_deprovision ctx c r \<longleftrightarrow> GetIsAdminFromContext ctx \<or>
     (if IsOrgAdmin c then crOrganisationID r = or_empty (GetOrgID c) else crOwner r = or_empty (GetUsername c))"

definition deprovision_rel :: "env \<Rightarrow> request_context \<Rightarrow> string \<Rightarrow> CentralRequest \<Rightarrow> CentralRequest \<Rightarrow> bool" where
  "deprovision_rel ev ctx rid r r' \<longleftrightarrow> status_rel ev rid CentralRequestStatusDeprovision r r' \<and>
     (r' \<noteq> r \<longrightarrow> (\<exists>c. GetClaimsFromContext ctx = Inr c \<and> may_deprovision ctx c r))"

lemma RegisterDinosaurDeprovisionJob_step:
  assumes wf: "wf_ids w"
  shows "list_all2 (deprovision_rel ev ctx rid) (centrals w) (centrals (snd (RegisterDinosaurDeprovisionJob ev ctx rid w)))"
proof -
  have id: "list_all2 (deprovision_rel ev ctx rid) rs rs" for rs
    by (simp add: list_all2_same deprovision_rel_def)
  show ?thesis
  proof (cases "rid = [] \<or> (\<exists>e. GetClaimsFromContext ctx = Inl e)")
    case True
    then have "snd (RegisterDinosaurDeprovisionJob ev ctx rid w) = w" by (auto simp: RegisterDinosaurDeprovisionJob_def)
    then show ?thesis by (simp add: id)
  next
    case False
    then obtain c where rid: "rid \<noteq> []" and c: "GetClaimsFromContext ctx = Inr c"
      by (cases "GetClaimsFromContext ctx") auto
    define P where "P r \<longleftrightarrow> crID r = rid \<and> (if GetIsAdminFromContext ctx then True
      else if IsOrgAdmin c then crOrganisationID r = or_empty (GetOrgID c) else crOwner r = or_empty (GetUsername c))" for r :: CentralRequest
    obtain f w1 where f: "first_central P w = (f, w1)" by fastforce
    have w1: "w1 = next_stmt w" using first_central_world [of P w] f by simp
    have job: "snd (RegisterDinosaurDeprovisionJob ev ctx rid w) =
       (case f of Inl e \<Rightarrow> w1 | Inr _ \<Rightarrow> snd (UpdateStatus ev rid CentralRequestStatusDeprovision w1))"
      unfolding RegisterDinosaurDeprovisionJob_def using rid c f
      by (simp add: P_def [symmetric] case_prod_beta split: sum.split bool.split option.split)
    show ?thesis
    proof (cases f)
      case (Inl e)
      then show ?thesis using job w1 id by simp
    next
      case (Inr d)
      have d: "d \<in> set (centrals w)" "P d" using first_central_Inr f Inr by auto
      have upd: "list_all2 (status_rel ev rid CentralRequestStatusDeprovision) (centrals w)
          (centrals (snd (UpdateStatus ev rid CentralRequestStatusDeprovision w1)))"
        using ust.step [of w1 ev rid CentralRequestStatusDeprovision] wf w1 by simp
      have may: "may_deprovision ctx c d" and drid: "crID d = rid"
        using d(2) by (auto simp: P_def may_deprovision_def split: if_splits)
      have "deprovision_rel ev ctx rid r r'"
        if r: "r \<in> set (centrals w)" and rel: "status_rel ev rid CentralRequestStatusDeprovision r r'" for r r'
      proof (cases "r' = r")
        case False
        then have "crID r = rid" using rel unfolding status_rel_def by blast
        then have "r = d" using wf_ids_unique [OF wf d(1) r] drid by simp
        then show ?thesis using rel may c unfolding deprovision_rel_def by blast
      qed (use rel in \<open>simp add: deprovision_rel_def\<close>)
      then have "list_all2 (deprovision_rel ev ctx rid) (centrals w)
          (centrals (snd (UpdateStatus ev rid CentralRequestStatusDeprovision w1)))"
        by (rule list_all2_strengthen [OF upd])
      then show ?thesis using job Inr by simp
    qed
  qed
qed

interpretation job: lifecycle_update "RegisterDinosaurDeprovisionJob ev ctx rid" "deprovision_rel ev ctx rid" "{}" for ev ctx rid
  by unfold_locales
     (auto simp: RegisterDinosaurDeprovisionJob_step, auto simp: deprovision_rel_def dest: ust.rel_kept ust_dep.rel_life)

subsection \<open>Creation\<close>

locale central_env =
  fixes ev :: env
  assumes quota_services: "evQuota ev t = Inr qs \<Longrightarrow> quota_provider qs"
begin

lemma DetectInstanceType_frame: "same_tables w (snd (DetectInstanceType ev k w))"
  using quota_provider.check_frame [OF quota_services]
  by (simp add: DetectInstanceType_def case_prod_beta split: sum.split)

lemma DetectInstanceType_type: "fst (DetectInstanceType ev k w) = STANDARD \<or> fst (DetectInstanceType ev k w) = EVAL"
  by (simp add: DetectInstanceType_def case_prod_beta split: sum.split)

lemma reserve_from_service_frame: "same_tables w (snd (reserve_from_service ev k w))"
  using quota_provider.reserve_frame [OF quota_services]
  by (simp add: reserve_from_service_def split: sum.split)

lemma same_tables_trans: "same_tables w w' \<Longrightarrow> same_tables w' w'' \<Longrightarrow> same_tables w w''"
  by (simp add: same_tables_def)

lemma reserveQuota_frame: "same_tables w (snd (reserveQuota ev k w))"
  using reserve_from_service_frame [of w k] reserve_from_service_frame [of "next_stmt w" k]
  by (auto simp: reserveQuota_def count_centrals_unfold same_tables_def split: option.split)

end

text \<open>The environment of the program: the quota services come from the factory.\<close>

definition fleet_env :: "ams_client \<Rightarrow> QuotaManagementListConfig \<Rightarrow> env \<Rightarrow> env" where
  "fleet_env ams qm ev = ev\<lparr>evQuota := GetQuotaService ams qm\<rparr>"

interpretation fleet: central_env "fleet_env ams qm ev" for ams qm ev
  by (rule central_env.intro) (simp add: fleet_env_def GetQuotaService_provider)

end
