(* ===== verification/Central_Managers.thy ===== *)
theory Central_Managers
  imports Central_Contracts
begin

text \<open>
  The workers that reconcile central requests (\<^verbatim>\<open>workers/dinosaurmgrs\<close>): accepted, preparing,
  provisioning, ready and deleting requests, the auth configuration, the DNS records, denied owners
  and expiry. A worker lists the rows it is responsible for and handles them one after the other;
  the errors are collected. A worker that dereferences a nil pointer panics: \<open>None\<close>.
\<close>

record sso_client =
  ssoCreateAcsClient :: "string \<Rightarrow> string \<Rightarrow> string list \<Rightarrow> go_error + string \<times> string"
  ssoDeleteAcsClient :: "string \<Rightarrow> (go_error \<times> int option) option"
  ssoValidIssuerURI :: string

record mgr_env =
  mgEnv :: env
  mgTimeout :: int
  mgSSO :: sso_client
  mgTruncate :: "string \<Rightarrow> nat \<Rightarrow> string"
  mgEnableDenyList :: bool
  mgDenyList :: "string list"

definition opt_list :: "'a option \<Rightarrow> 'a list" where
  "opt_list x = (case x of None \<Rightarrow> [] | Some e \<Rightarrow> [e])"

text \<open>The loop of a worker over the listed rows: \<open>f\<close> handles one row and returns its error, \<open>None\<close>
  for a panic.\<close>

fun reconcile_each ::
  "('k \<Rightarrow> world \<Rightarrow> go_error option option \<times> world) \<Rightarrow> 'k list \<Rightarrow> world \<Rightarrow> go_error list option \<times> world" where
  "reconcile_each f [] w = (Some [], w)"
| "reconcile_each f (k # ks) w = (case f k w of
     (None, w1) \<Rightarrow> (None, w1)
   | (Some e, w1) \<Rightarrow> (case reconcile_each f ks w1 of
        (None, w2) \<Rightarrow> (None, w2)
      | (Some es, w2) \<Rightarrow> (Some (opt_list e @ es), w2)))"

text \<open>The shape of the workers: list, note the error of the listing, handle what was listed.\<close>

definition reconcile_listed ::
  "(world \<Rightarrow> (service_error + 'k list) \<times> world) \<Rightarrow> string \<Rightarrow>
   ('k \<Rightarrow> world \<Rightarrow> go_error option option \<times> world) \<Rightarrow> world \<Rightarrow> go_error list option \<times> world" where
  "reconcile_listed list_op msg f w = (case list_op w of
     (Inl e, w1) \<Rightarrow> (Some [Wrap msg (SvcErr e)], w1)
   | (Inr ks, w1) \<Rightarrow> reconcile_each f ks w1)"

definition wrap_error :: "string \<Rightarrow> go_error option option \<times> world \<Rightarrow> go_error option option \<times> world" where
  "wrap_error msg r = (case r of (Some (Some e), w) \<Rightarrow> (Some (Some (Wrap msg e)), w) | _ \<Rightarrow> r)"

subsection \<open>Timeout\<close>

definition failed_request :: "CentralRequest \<Rightarrow> string \<Rightarrow> CentralRequest" where
  "failed_request k reason = k\<lparr>crStatus := CentralRequestStatusFailed, crFailedReason := reason\<rparr>"

definition FailIfTimeoutExceeded :: "env \<Rightarrow> int \<Rightarrow> CentralRequest \<Rightarrow> world \<Rightarrow> go_error option \<times> world" where
  "FailIfTimeoutExceeded ev timeout k w =
     (if crCreatedAt k < evNow ev - timeout then
        (case central_Update ev (failed_request k
                ''Creation time went over the timeout. Interrupting central initialization.'') w of
           (Some e, w') \<Rightarrow> (Some (Wrap (''failed to update timed out central '' @ crID k) (SvcErr e)), w')
         | (None, w') \<Rightarrow> (Some (GoErr (''Central request timed out: '' @ crID k)), w'))
      else (None, w))"

subsection \<open>Accepted requests\<close>

definition no_version_error :: "CentralRequest \<Rightarrow> go_error option \<Rightarrow> go_error" where
  "no_version_error k err = (case err of
     Some e \<Rightarrow> Wrap (''failed to get desired central operator version '' @ crID k) e
   | None \<Rightarrow> GoErr (''failed to get desired central operator version '' @ crID k))"

text \<open>No version of the operator is ready: retry for some time, then fail the request.\<close>

definition without_version :: "env \<Rightarrow> CentralRequest \<Rightarrow> go_error option \<Rightarrow> world \<Rightarrow> go_error option option \<times> world" where
  "without_version ev k err w =
     (if evNow ev - crCreatedAt k < AcceptedCentralMaxRetryDuration then (Some None, w)
      else (let e = no_version_error k err in
        case central_Update ev (failed_request k (go_Error e)) w of
          (Some e2, w') \<Rightarrow> (Some (Some (Wrap (''failed to update failed central '' @ crID k) (SvcErr e2))), w')
        | (None, w') \<Rightarrow> (Some (Some e), w')))"

definition accept_on_cluster :: "env \<Rightarrow> CentralRequest \<Rightarrow> Cluster \<Rightarrow> world \<Rightarrow> go_error option option \<times> world" where
  "accept_on_cluster ev k0 c w =
     (let k = k0\<lparr>crClusterID := clClusterID c\<rparr> in
      case GetAvailableAndReadyCentralOperatorVersions c of
        Inl e \<Rightarrow> without_version ev k (Some e) w
      | Inr [] \<Rightarrow> without_version ev k None w
      | Inr (v # vs) \<Rightarrow>
         (let ov = last (v # vs) in
          if ovCentralVersions ov = [] then (Some (Some (GoErr (''failed to get Central version '' @ crID k))), w)
          else (case AcceptCentralRequest ev (k\<lparr>crDesiredCentralOperatorVersion := ovVersion ov,
                        crDesiredCentralVersion := last (ovCentralVersions ov)\<rparr>) w of
             (None, w') \<Rightarrow> (None, w')
           | (Some (Some e), w') \<Rightarrow>
               (Some (Some (Wrap (''failed to accept Central '' @ crID k @ '' with cluster details'') (SvcErr e))), w')
           | (Some None, w') \<Rightarrow> (Some None, w'))))"

definition reconcileAcceptedCentral :: "mgr_env \<Rightarrow> CentralRequest \<Rightarrow> world \<Rightarrow> go_error option option \<times> world" where
  "reconcileAcceptedCentral mg k w = (let ev = mgEnv mg in
     case FailIfTimeoutExceeded ev (mgTimeout mg) k w of
       (Some e, w1) \<Rightarrow> (Some (Some e), w1)
     | (None, w1) \<Rightarrow>
        (case FindCluster k w1 of
           (Inl e, w2) \<Rightarrow> (Some (Some (Wrap (''failed to find cluster for central request '' @ crID k) (SvcErr e))), w2)
         | (Inr None, w2) \<Rightarrow> (Some None, w2)
         | (Inr (Some c), w2) \<Rightarrow> accept_on_cluster ev k c w2))"

definition accepted_Reconcile :: "mgr_env \<Rightarrow> world \<Rightarrow> go_error list option \<times> world" where
  "accepted_Reconcile mg = reconcile_listed (ListByStatus [CentralRequestStatusAccepted]) ''failed to list accepted centrals''
     (\<lambda>k w. wrap_error (''failed to reconcile accepted central '' @ crID k) (reconcileAcceptedCentral mg k w))"

subsection \<open>Preparing requests\<close>

definition handleDinosaurRequestCreationError :: "env \<Rightarrow> CentralRequest \<Rightarrow> service_error \<Rightarrow> world \<Rightarrow> go_error \<times> world" where
  "handleDinosaurRequestCreationError ev k err w =
     (let unprovisioned = Wrap (''failed to provision central '' @ crID k @ '' on cluster '' @ crClusterID k) (SvcErr err) in
      if IsServerErrorClass err then
        (if evNow ev - crCreatedAt k > CentralMaxDurationWithProvisioningErrs then
           (case central_Update ev (failed_request k (Reason err)) w of
              (Some e, w') \<Rightarrow> (Wrap (''Failed to update central '' @ crID k @ '' in failed state. Central failed reason '' @ Reason err) (SvcErr e), w')
            | (None, w') \<Rightarrow> (Wrap (''Central '' @ crID k @ '' is in server error failed state. Maximum attempts has been reached'') (SvcErr err), w'))
         else (unprovisioned, w))
      else if IsClientErrorClass err then
        (case central_Update ev (failed_request k (Reason err)) w of
           (Some _, w') \<Rightarrow> (Wrap (''Failed to update central '' @ crID k @ '' in failed state'') (SvcErr err), w')
         | (None, w') \<Rightarrow> (Wrap (''error creating central '' @ crID k) (SvcErr err), w'))
      else (unprovisioned, w))"

definition reconcilePreparingDinosaur :: "mgr_env \<Rightarrow> CentralRequest \<Rightarrow> world \<Rightarrow> go_error option option \<times> world" where
  "reconcilePreparingDinosaur mg k w = (let ev = mgEnv mg in
     case FailIfTimeoutExceeded ev (mgTimeout mg) k w of
       (Some e, w1) \<Rightarrow> (Some (Some e), w1)
     | (None, w1) \<Rightarrow>
        (case PrepareDinosaurRequest ev k w1 of
           (Some err, w2) \<Rightarrow> (case handleDinosaurRequestCreationError ev k err w2 of (e, w3) \<Rightarrow> (Some (Some e), w3))
         | (None, w2) \<Rightarrow> (Some None, w2)))"

definition preparing_Reconcile :: "mgr_env \<Rightarrow> world \<Rightarrow> go_error list option \<times> world" where
  "preparing_Reconcile mg = reconcile_listed (ListByStatus [CentralRequestStatusPreparing]) ''failed to list preparing centrals''
     (\<lambda>k w. wrap_error (''failed to reconcile preparing central '' @ crID k) (reconcilePreparingDinosaur mg k w))"

subsection \<open>Provisioning and ready requests\<close>

definition provisioning_Reconcile :: "mgr_env \<Rightarrow> world \<Rightarrow> go_error list option \<times> world" where
  "provisioning_Reconcile mg = reconcile_listed (ListByStatus [CentralRequestStatusProvisioning]) ''failed to list provisioning centrals''
     (\<lambda>k w. case FailIfTimeoutExceeded (mgEnv mg) (mgTimeout mg) k w of (e, w') \<Rightarrow> (Some e, w'))"

definition ready_Reconcile :: "world \<Rightarrow> go_error list option \<times> world" where
  "ready_Reconcile = reconcile_listed (ListByStatus [CentralRequestStatusReady]) ''failed to list ready centrals''
     (\<lambda>k w. (Some None, w))"

subsection \<open>Deleting requests\<close>

text \<open>The deletion of the dynamic client: the error of a call without response makes the worker panic.\<close>

definition delete_client :: "mgr_env \<Rightarrow> CentralRequest \<Rightarrow> world \<Rightarrow> go_error option option \<times> world" where
  "delete_client mg k w =
     (if crClientOrigin k = AuthConfigStaticClientOrigin then (Some None, w)
      else if crClientOrigin k = AuthConfigDynamicClientOrigin then
        (let w' = log_event (EvDeleteClient (crClientID k)) w in
         case ssoDeleteAcsClient (mgSSO mg) (crClientID k) of
           None \<Rightarrow> (Some None, w')
         | Some (e, None) \<Rightarrow> (None, w')
         | Some (e, Some code) \<Rightarrow>
             if code = StatusNotFound then (Some None, w')
             else (Some (Some (Wrap (''failed to delete dynamic OIDC client id '' @ crClientID k @ '' for central '' @ crID k) e)), w'))
      else (Some None, w))"

definition reconcileDeletingDinosaurs :: "mgr_env \<Rightarrow> CentralRequest \<Rightarrow> world \<Rightarrow> go_error option option \<times> world" where
  "reconcileDeletingDinosaurs mg k w = (let ev = mgEnv mg in
     case evQuota ev (crQuotaType k) of
       Inl e \<Rightarrow> (Some (Some (SvcErr e)), w)
     | Inr qs \<Rightarrow>
        (case qsDeleteQuota qs (crSubscriptionID k) w of
           (Some e, w1) \<Rightarrow>
             (Some (Some (Wrap (''failed to delete subscription id '' @ crSubscriptionID k @ '' for central '' @ crID k) (SvcErr e))), w1)
         | (None, w1) \<Rightarrow>
            (case delete_client mg k w1 of
               (None, w2) \<Rightarrow> (None, w2)
             | (Some (Some e), w2) \<Rightarrow> (Some (Some e), w2)
             | (Some None, w2) \<Rightarrow>
                (case central_Delete ev k False w2 of
                   (Some e, w3) \<Rightarrow> (Some (Some (Wrap (''failed to delete central '' @ crID k) (SvcErr e))), w3)
                 | (None, w3) \<Rightarrow> (Some None, w3)))))"

text \<open>Requests in \<open>deprovision\<close> without a host were never provisioned: they are removed as well.\<close>

definition deleting_Reconcile :: "mgr_env \<Rightarrow> world \<Rightarrow> go_error list option \<times> world" where
  "deleting_Reconcile mg w =
     (case ListByStatus [CentralRequestStatusDeleting] w of (del, w1) \<Rightarrow>
       (case ListByStatus [CentralRequestStatusDeprovision] w1 of (dep, w2) \<Rightarrow>
         (let listed = (case del of Inl _ \<Rightarrow> [] | Inr ks \<Rightarrow> ks) @
                       filter (\<lambda>k. crHost k = []) (case dep of Inl _ \<Rightarrow> [] | Inr ks \<Rightarrow> ks);
              errs = (case del of Inl e \<Rightarrow> [Wrap ''failed to list deleting central requests'' (SvcErr e)] | Inr _ \<Rightarrow> []) @
                     (case dep of Inl e \<Rightarrow> [Wrap ''failed to list central deprovisioning requests'' (SvcErr e)] | Inr _ \<Rightarrow> []) in
          case reconcile_each (\<lambda>k w. wrap_error (''failed to reconcile deleting central request '' @ crID k)
                 (reconcileDeletingDinosaurs mg k w)) listed w2 of
            (None, w3) \<Rightarrow> (None, w3)
          | (Some es, w3) \<Rightarrow> (Some (errs @ es), w3))))"

subsection \<open>Auth configuration\<close>

definition oidcProviderCallbackPath :: string where "oidcProviderCallbackPath = ''/sso/providers/oidc/callback''"
definition dynamicClientsNameMaxLength :: nat where "dynamicClientsNameMaxLength = 50"

definition HasStaticAuth :: "central_config \<Rightarrow> bool" where
  "HasStaticAuth c \<longleftrightarrow> ccCentralIDPClientID c \<noteq> []"

definition augmentWithStaticAuthConfig :: "central_config \<Rightarrow> CentralRequest \<Rightarrow> CentralRequest" where
  "augmentWithStaticAuthConfig c k = k\<lparr>crClientID := ccCentralIDPClientID c, crClientSecret := ccCentralIDPClientSecret c,
     crIssuer := ccCentralIDPIssuer c\<rparr>"

definition augmentWithDynamicAuthConfig :: "mgr_env \<Rightarrow> CentralRequest \<Rightarrow> world \<Rightarrow> (go_error + CentralRequest) \<times> world" where
  "augmentWithDynamicAuthConfig mg k w =
     (let name = mgTruncate mg (''acsms-'' @ crName k) dynamicClientsNameMaxLength;
          uris = [''https://'' @ GetUIHost k @ oidcProviderCallbackPath];
          w' = log_event (EvCreateClient name uris) w in
      case ssoCreateAcsClient (mgSSO mg) name (crOrganisationID k) uris of
        Inl e \<Rightarrow> (Inl (Wrap (''failed to create RHSSO dynamic client for '' @ crID k) e), w')
      | Inr (clientID, secret) \<Rightarrow>
          (Inr (k\<lparr>crClientID := clientID, crClientSecret := secret, crIssuer := ssoValidIssuerURI (mgSSO mg)\<rparr>), w'))"

definition reconcileCentralRequest :: "mgr_env \<Rightarrow> CentralRequest \<Rightarrow> world \<Rightarrow> go_error option option \<times> world" where
  "reconcileCentralRequest mg k w = (let ev = mgEnv mg; static = HasStaticAuth (evConfig ev) in
     case (if static then (Inr (augmentWithStaticAuthConfig (evConfig ev) k), w) else augmentWithDynamicAuthConfig mg k w) of
       (Inl e, w1) \<Rightarrow> (Some (Some (Wrap ''failed to augment central request with auth config'' e)), w1)
     | (Inr k1, w1) \<Rightarrow>
        (case central_Update ev (k1\<lparr>crClientOrigin := (if static then AuthConfigStaticClientOrigin else AuthConfigDynamicClientOrigin)\<rparr>) w1 of
           (Some e, w2) \<Rightarrow> (Some (Some (Wrap (''failed to update central request '' @ crID k) (SvcErr e))), w2)
         | (None, w2) \<Rightarrow> (Some None, w2)))"

definition auth_config_Reconcile :: "mgr_env \<Rightarrow> world \<Rightarrow> go_error list option \<times> world" where
  "auth_config_Reconcile mg = reconcile_listed ListCentralsWithoutAuthConfig ''failed to list centrals without auth config''
     (reconcileCentralRequest mg)"

subsection \<open>DNS records\<close>

definition INSYNC :: string where "INSYNC = ''INSYNC''"

definition store_routes :: "env \<Rightarrow> CentralRequest \<Rightarrow> world \<Rightarrow> go_error option option \<times> world" where
  "store_routes ev k w = (case central_Update ev k w of
     (Some e, w') \<Rightarrow> (Some (Some (SvcErr e)), w')
   | (None, w') \<Rightarrow> (Some None, w'))"

definition reconcile_routes :: "env \<Rightarrow> CentralRequest \<Rightarrow> world \<Rightarrow> go_error option option \<times> world" where
  "reconcile_routes ev k w =
     (if ccEnableCentralExternalCertificate (evConfig ev) then
        (if crRoutesCreationID k = [] then
           (case ChangeDinosaurCNAMErecords ev k DinosaurRoutesActionCreate w of
              (Inl e, w1) \<Rightarrow> (Some (Some (SvcErr e)), w1)
            | (Inr None, w1) \<Rightarrow> (Some None, w1)
            | (Inr (Some None), w1) \<Rightarrow> (Some None, w1)
            | (Inr (Some (Some ci)), w1) \<Rightarrow>
                (case (ciId ci, ciStatus ci) of
                   (Some i, Some s) \<Rightarrow> store_routes ev (k\<lparr>crRoutesCreationID := i, crRoutesCreated := (s = INSYNC)\<rparr>) w1
                 | _ \<Rightarrow> (Some None, w1)))
         else (case GetCNAMERecordStatus ev k of
            Inl e \<Rightarrow> (Some (Some (SvcErr e)), w)
          | Inr ci \<Rightarrow> (case ciStatus ci of
               None \<Rightarrow> (None, w)
             | Some s \<Rightarrow> store_routes ev (k\<lparr>crRoutesCreated := (s = INSYNC)\<rparr>) w)))
      else store_routes ev (k\<lparr>crRoutesCreated := True\<rparr>) w)"

definition cname_Reconcile :: "mgr_env \<Rightarrow> world \<Rightarrow> go_error list option \<times> world" where
  "cname_Reconcile mg = reconcile_listed ListDinosaursWithRoutesNotCreated ''failed to list centrals whose routes are not created''
     (reconcile_routes (mgEnv mg))"

subsection \<open>Denied owners and expiry\<close>

definition dinosaurMetricsStatuses :: "string list" where
  "dinosaurMetricsStatuses = [CentralRequestStatusAccepted, CentralRequestStatusPreparing, CentralRequestStatusProvisioning,
     CentralRequestStatusReady, CentralRequestStatusDeprovision, CentralRequestStatusDeleting, CentralRequestStatusFailed]"

definition reconcileDeniedDinosaurOwners :: "env \<Rightarrow> string list \<Rightarrow> world \<Rightarrow> service_error option \<times> world" where
  "reconcileDeniedDinosaurOwners ev deniedUsers w =
     (if length deniedUsers < 1 then (None, w) else DeprovisionDinosaurForUsers ev deniedUsers w)"

definition count_errors :: "string \<Rightarrow> (service_error + 'a) \<times> world \<Rightarrow> go_error list \<times> world" where
  "count_errors msg r = (case r of (Inl e, w) \<Rightarrow> ([Wrap msg (SvcErr e)], w) | (Inr _, w) \<Rightarrow> ([], w))"

definition dinosaurs_Reconcile :: "mgr_env \<Rightarrow> world \<Rightarrow> go_error list \<times> world" where
  "dinosaurs_Reconcile mg w = (let ev = mgEnv mg in
     case count_errors ''failed to count Centrals by status'' (CountByStatus dinosaurMetricsStatuses w) of (e1, w1) \<Rightarrow>
     (case count_errors ''failed to count Centrals by region'' (CountByRegionAndInstanceType w1) of (e2, w2) \<Rightarrow>
     (case (if mgEnableDenyList mg then reconcileDeniedDinosaurOwners ev (mgDenyList mg) w2 else (None, w2)) of (d, w3) \<Rightarrow>
     (case (if ccEnableDeletionOfExpiredCentral (evConfig ev)
            then DeprovisionExpiredDinosaurs ev (ccCentralLifespanInHours (evConfig ev)) w3 else (None, w3)) of (x, w4) \<Rightarrow>
       (e1 @ e2 @
        (case d of Some e \<Rightarrow> [Wrap (''Failed to deprovision central for denied owners ['' @
            concat (map (\<lambda>s. s @ '' '') (butlast (mgDenyList mg))) @ last (mgDenyList mg) @ '']'') (SvcErr e)] | None \<Rightarrow> []) @
        (case x of Some e \<Rightarrow> [Wrap ''failed to deprovision expired Central instances'' (SvcErr e)] | None \<Rightarrow> []), w4)))))"

end
