(* ===== verification/Data_Plane_Central.thy ===== *)
theory Data_Plane_Central
  imports Central_Contracts
begin

text \<open>
  The reports of the data plane on its tenants (\<^verbatim>\<open>services/data_plane_dinosaur.go\<close>,
  \<^verbatim>\<open>dbapi/data_plane_central_status.go\<close>): the agent of a cluster sends conditions, routes and versions, and
  the service moves the rows accordingly.
\<close>

record DataPlaneCentralStatusCondition =
  dcType :: string
  dcReason :: string
  dcStatus :: string
  dcMessage :: string

record DataPlaneCentralStatus =
  dsCentralClusterID :: string
  dsConditions :: "DataPlaneCentralStatusCondition list"
  dsRoutes :: "DataPlaneCentralRoute list option"
  dsCentralVersion :: string
  dsCentralOperatorVersion :: string

datatype centralStatus = statusInstalling | statusReady | statusError | statusRejected | statusDeleted | statusUnknown

definition dinosaurOperatorUpdating :: string where "dinosaurOperatorUpdating = ''DinosaurOperatorUpdating''"
definition dinosaurUpdating :: string where "dinosaurUpdating = ''DinosaurUpdating''"

definition GetReadyCondition :: "DataPlaneCentralStatus \<Rightarrow> DataPlaneCentralStatusCondition option" where
  "GetReadyCondition d = find (\<lambda>c. equal_fold (dcType c) ''Ready'') (dsConditions d)"

text \<open>The loop goes on to the next condition when the reason of a ready condition is none of those.\<close>

fun conditions_status :: "DataPlaneCentralStatusCondition list \<Rightarrow> centralStatus" where
  "conditions_status [] = statusInstalling"
| "conditions_status (c # cs) =
     (if equal_fold (dcType c) ''Ready'' then
        if equal_fold (dcStatus c) ''True'' then statusReady
        else if equal_fold (dcStatus c) ''Unknown'' then statusUnknown
        else if equal_fold (dcReason c) ''Installing'' then statusInstalling
        else if equal_fold (dcReason c) ''Deleted'' then statusDeleted
        else if equal_fold (dcReason c) ''Error'' then statusError
        else if equal_fold (dcReason c) ''Rejected'' then statusRejected
        else conditions_status cs
      else conditions_status cs)"

definition getStatus :: "DataPlaneCentralStatus \<Rightarrow> centralStatus" where
  "getStatus d = conditions_status (dsConditions d)"

fun validate_routes :: "DataPlaneCentralRoute list \<Rightarrow> CentralRequest \<Rightarrow> string \<Rightarrow> go_error option" where
  "validate_routes [] k clusterDNS = None"
| "validate_routes (r # rs) k clusterDNS =
     (if \<not> has_suffix (rtRouter r) clusterDNS then
        Some (GoErr (''cluster router is not valid. router = '' @ rtRouter r @ '', expected = '' @ clusterDNS))
      else if \<not> has_suffix (rtDomain r) (crHost k) then
        Some (GoErr (''exposed domain is not valid. domain = '' @ rtDomain r @ '', expected = '' @ crHost k))
      else validate_routes rs k clusterDNS)"

definition validateRouters :: "DataPlaneCentralRoute list option \<Rightarrow> CentralRequest \<Rightarrow> string \<Rightarrow> go_error option" where
  "validateRouters routes k clusterDNS = (case routes of None \<Rightarrow> None | Some rs \<Rightarrow> validate_routes rs k clusterDNS)"

definition checkCentralRequestCurrentStatus :: "CentralRequest \<Rightarrow> string \<Rightarrow> world \<Rightarrow> (service_error + bool) \<times> world" where
  "checkCentralRequestCurrentStatus k status w = (case GetByID (crID k) w of
     (Inl e, w') \<Rightarrow> (Inl e, w')
   | (Inr cur, w') \<Rightarrow> (Inr (crStatus cur = status), w'))"

definition recode :: "service_error \<Rightarrow> string \<Rightarrow> service_error" where
  "recode e msg = NewWithCause (Code e) (Some (SvcErr e)) (Fmt msg)"

definition setCentralClusterReady :: "env \<Rightarrow> CentralRequest \<Rightarrow> world \<Rightarrow> service_error option \<times> world" where
  "setCentralClusterReady ev k w =
     (if \<not> crRoutesCreated k then (None, w)
      else (case checkCentralRequestCurrentStatus k CentralRequestStatusProvisioning w of
         (Inl e, w1) \<Rightarrow> (Some e, w1)
       | (Inr _, w1) \<Rightarrow>
          (case central_Updates ev k (\<lambda>r. r\<lparr>crFailedReason := [], crStatus := CentralRequestStatusReady\<rparr>) w1 of
             (Some e, w2) \<Rightarrow> (Some (recode e (''failed to update status '' @ CentralRequestStatusReady @ '' for central cluster '' @ crID k)), w2)
           | (None, w2) \<Rightarrow> (None, w2))))"

definition setCentralClusterFailed :: "env \<Rightarrow> CentralRequest \<Rightarrow> string \<Rightarrow> world \<Rightarrow> service_error option \<times> world" where
  "setCentralClusterFailed ev k errMessage w =
     (if crStatus k = CentralRequestStatusFailed then (None, w)
      else (case checkCentralRequestCurrentStatus k CentralRequestStatusProvisioning w of
         (Inl e, w1) \<Rightarrow> (Some e, w1)
       | (Inr _, w1) \<Rightarrow>
          (case central_Update ev (k\<lparr>crStatus := CentralRequestStatusFailed,
                  crFailedReason := ''Central reported as failed: '' @ [CHR 39] @ errMessage @ [CHR 39]\<rparr>) w1 of
             (Some e, w2) \<Rightarrow> (Some (recode e (''failed to update central cluster to '' @ CentralRequestStatusFailed @
                '' status for central cluster '' @ crID k)), w2)
           | (None, w2) \<Rightarrow> (None, w2))))"

definition setCentralClusterDeleting :: "env \<Rightarrow> CentralRequest \<Rightarrow> world \<Rightarrow> service_error option \<times> world" where
  "setCentralClusterDeleting ev k w = (case UpdateStatus ev (crID k) CentralRequestStatusDeleting w of
     ((True, Some e), w') \<Rightarrow> (Some (recode e (''failed to update status '' @ CentralRequestStatusDeleting @ '' for central cluster '' @ crID k)), w')
   | (_, w') \<Rightarrow> (None, w'))"

definition reassignCentralCluster :: "env \<Rightarrow> CentralRequest \<Rightarrow> world \<Rightarrow> service_error option \<times> world" where
  "reassignCentralCluster ev k w =
     (if crStatus k = CentralRequestStatusProvisioning then central_Update ev (k\<lparr>crPlacementID := evNewID ev\<rparr>) w
      else (None, w))"

text \<open>The result carries the request as the operation leaves it; \<open>None\<close> is the panic of \<^verbatim>\<open>GetClusterDNS\<close>.\<close>

definition persistCentralRoutes ::
  "env \<Rightarrow> CentralRequest \<Rightarrow> DataPlaneCentralStatus \<Rightarrow> Cluster \<Rightarrow> world \<Rightarrow> (service_error option \<times> CentralRequest) option \<times> world" where
  "persistCentralRoutes ev k ds c w =
     (if crRoutes k \<noteq> RNil then (Some (None, k), w)
      else (case GetClusterDNS (evProviders ev) (evNow ev) (clClusterID c) w of
         (None, w1) \<Rightarrow> (None, w1)
       | (Some (Inl e), w1) \<Rightarrow> (Some (Some (recode e (''failed to get DNS entry for cluster '' @ clClusterID c)), k), w1)
       | (Some (Inr clusterDNS), w1) \<Rightarrow>
          (case validateRouters (dsRoutes ds) k clusterDNS of
             Some e \<Rightarrow> (Some (Some (NewWithCause ErrorBadRequest (Some e) (Fmt ''routes are not valid'')), k), w1)
           | None \<Rightarrow>
              (let k' = SetRoutes (dsRoutes ds) k in
               case central_Update ev k' w1 of
                 (Some e, w2) \<Rightarrow> (Some (Some (recode e (''failed to update routes for central cluster '' @ crID k)), k'), w2)
               | (None, w2) \<Rightarrow> (Some (None, k'), w2)))))"

text \<open>The version fields of the request after a report, and whether any of them changed.\<close>

definition version_fields :: "DataPlaneCentralStatus \<Rightarrow> CentralRequest \<Rightarrow> CentralRequest" where
  "version_fields ds k =
     (let k1 = (if dsCentralVersion ds \<noteq> [] then k\<lparr>crActualCentralVersion := dsCentralVersion ds\<rparr> else k);
          k2 = (if dsCentralOperatorVersion ds \<noteq> [] then k1\<lparr>crActualCentralOperatorVersion := dsCentralOperatorVersion ds\<rparr> else k1) in
      case GetReadyCondition ds of
        None \<Rightarrow> k2
      | Some c \<Rightarrow> k2\<lparr>crCentralOperatorUpgrading := (dcReason c = dinosaurOperatorUpdating),
                      crCentralUpgrading := (dcReason c = dinosaurUpdating)\<rparr>)"

definition needs_update :: "DataPlaneCentralStatus \<Rightarrow> CentralRequest \<Rightarrow> bool" where
  "needs_update ds k \<longleftrightarrow>
     (dsCentralVersion ds \<noteq> [] \<and> dsCentralVersion ds \<noteq> crActualCentralVersion k) \<or>
     (dsCentralOperatorVersion ds \<noteq> [] \<and> dsCentralOperatorVersion ds \<noteq> crActualCentralOperatorVersion k) \<or>
     (case GetReadyCondition ds of None \<Rightarrow> False
      | Some c \<Rightarrow> (dcReason c = dinosaurOperatorUpdating) \<noteq> crCentralOperatorUpgrading k \<or>
                  (dcReason c = dinosaurUpdating) \<noteq> crCentralUpgrading k)"

definition setCentralRequestVersionFields :: "env \<Rightarrow> CentralRequest \<Rightarrow> DataPlaneCentralStatus \<Rightarrow> world \<Rightarrow> service_error option \<times> world" where
  "setCentralRequestVersionFields ev k ds w =
     (if needs_update ds k then
        (let k' = version_fields ds k in
         case central_Updates ev k (\<lambda>r. r\<lparr>crActualCentralOperatorVersion := crActualCentralOperatorVersion k',
                crActualCentralVersion := crActualCentralVersion k', crCentralOperatorUpgrading := crCentralOperatorUpgrading k',
                crCentralUpgrading := crCentralUpgrading k'\<rparr>) w of
           (Some e, w') \<Rightarrow> (Some (recode e (''failed to update actual version fields for central cluster '' @ crID k)), w')
         | (None, w') \<Rightarrow> (None, w'))
      else (None, w))"

text \<open>One report. Errors are logged only; \<open>False\<close> is a panic.\<close>

definition apply_status :: "env \<Rightarrow> Cluster \<Rightarrow> CentralRequest \<Rightarrow> DataPlaneCentralStatus \<Rightarrow> world \<Rightarrow> bool \<times> world" where
  "apply_status ev c k ds w = (case getStatus ds of
     statusReady \<Rightarrow>
       (case persistCentralRoutes ev k ds c w of
          (None, w1) \<Rightarrow> (False, w1)
        | (Some (Some _, _), w1) \<Rightarrow> (True, w1)
        | (Some (None, k1), w1) \<Rightarrow> (True, snd (setCentralClusterReady ev k1 w1)))
   | statusError \<Rightarrow>
       (True, snd (setCentralClusterFailed ev k (case GetReadyCondition ds of Some rc \<Rightarrow> dcMessage rc | None \<Rightarrow> []) w))
   | statusDeleted \<Rightarrow> (True, snd (setCentralClusterDeleting ev k w))
   | statusRejected \<Rightarrow> (True, snd (reassignCentralCluster ev k w))
   | statusUnknown \<Rightarrow> (True, w)
   | statusInstalling \<Rightarrow> (True, w))"

definition report_one :: "env \<Rightarrow> string \<Rightarrow> Cluster \<Rightarrow> DataPlaneCentralStatus \<Rightarrow> world \<Rightarrow> bool \<times> world" where
  "report_one ev clusterID c ds w = (case GetByID (dsCentralClusterID ds) w of
     (Inl _, w1) \<Rightarrow> (True, w1)
   | (Inr k, w1) \<Rightarrow>
      if crClusterID k \<noteq> clusterID then (True, w1)
      else (case apply_status ev c k ds w1 of
         (False, w2) \<Rightarrow> (False, w2)
       | (True, w2) \<Rightarrow> (True, snd (setCentralRequestVersionFields ev k ds w2))))"

fun report_all :: "env \<Rightarrow> string \<Rightarrow> Cluster \<Rightarrow> DataPlaneCentralStatus list \<Rightarrow> world \<Rightarrow> bool \<times> world" where
  "report_all ev clusterID c [] w = (True, w)"
| "report_all ev clusterID c (ds # dss) w = (case report_one ev clusterID c ds w of
     (False, w1) \<Rightarrow> (False, w1)
   | (True, w1) \<Rightarrow> report_all ev clusterID c dss w1)"

definition UpdateDataPlaneCentralService ::
  "env \<Rightarrow> string \<Rightarrow> DataPlaneCentralStatus list \<Rightarrow> world \<Rightarrow> service_error option option \<times> world" where
  "UpdateDataPlaneCentralService ev clusterID status w = (case FindClusterByID clusterID w of
     (Inl e, w1) \<Rightarrow> (Some (Some e), w1)
   | (Inr None, w1) \<Rightarrow> (Some (Some (BadRequest (Fmt (''Cluster id '' @ clusterID @ '' not found'')))), w1)
   | (Inr (Some c), w1) \<Rightarrow>
      (case report_all ev clusterID c status w1 of
         (False, w2) \<Rightarrow> (None, w2)
       | (True, w2) \<Rightarrow> (Some None, w2)))"

end
