(* ===== verification/Central_Create.thy ===== *)
theory Central_Create
  imports Central_Contracts
begin

text \<open>
  Creation of a tenant (\<^verbatim>\<open>RegisterDinosaurJob\<close>): placement, capacity, quota, and what is stored.
\<close>

subsection \<open>The successful run\<close>

lemma stored_sel [simp]:
  "crID (stored now k) = crID k" "crDeletedAt (stored now k) = crDeletedAt k" "crRegion (stored now k) = crRegion k"
  "crStatus (stored now k) = crStatus k" "crInstanceType (stored now k) = crInstanceType k" "crOwner (stored now k) = crOwner k"
  "crOrganisationID (stored now k) = crOrganisationID k" "crClusterID (stored now k) = crClusterID k"
  "crQuotaType (stored now k) = crQuotaType k" "crSubscriptionID (stored now k) = crSubscriptionID k"
  "crName (stored now k) = crName k" "crCloudProvider (stored now k) = crCloudProvider k" "crMultiAZ (stored now k) = crMultiAZ k"
  by (simp_all add: stored_def)

lemma BeforeCreate_same: "central_BeforeCreate (crID k) k = k"
  by (simp add: central_BeforeCreate_def)

lemma create_central_Inr:
  "create_central nid now k w = (Inr k', w') \<Longrightarrow> crID k = nid \<Longrightarrow>
     k' = stored now k \<and> nid \<notin> crID ` set (centrals w) \<and> w' = (next_stmt w)\<lparr>centrals := centrals w @ [k']\<rparr>"
  using BeforeCreate_same [of k]
  by (auto simp: create_central_def stmt_unfold Let_def split: option.splits if_splits)

lemma create_central_Inl: "create_central nid now k w = (Inl e, w') \<Longrightarrow> w' = next_stmt w"
  by (auto simp: create_central_def stmt_unfold Let_def split: option.splits if_splits)

lemma register_success:
  assumes "RegisterDinosaurJob ev k w = (Inr k', w')"
  obtains w1 t w2 c w3 sub w4 where
    "HasAvailableCapacityInRegion ev (k\<lparr>crID := evNewID ev\<rparr>) w = (Inr True, w1)"
    "DetectInstanceType ev (k\<lparr>crID := evNewID ev\<rparr>) w1 = (t, w2)"
    "FindCluster (k\<lparr>crID := evNewID ev, crInstanceType := t\<rparr>) w2 = (Inr (Some c), w3)"
    "reserveQuota ev (k\<lparr>crID := evNewID ev, crInstanceType := t, crClusterID := clClusterID c\<rparr>) w3 = (Inr sub, w4)"
    "create_central (evNewID ev) (evNow ev) (k\<lparr>crID := evNewID ev, crInstanceType := t, crClusterID := clClusterID c,
       crStatus := CentralRequestStatusAccepted, crSubscriptionID := sub, crQuotaType := ccQuotaType (evConfig ev)\<rparr>) w4 = (Inr k', w')"
  using assms
  by (auto simp: RegisterDinosaurJob_def Let_def split: prod.splits sum.splits bool.splits option.splits)

lemma HasAvailableCapacity_world: "same_tables w (snd (HasAvailableCapacityInRegion ev k w))"
  by (simp add: HasAvailableCapacityInRegion_def Let_def case_prod_beta count_centrals_frame split: sum.split)

definition region_count :: "string \<Rightarrow> world \<Rightarrow> int" where
  "region_count region w = int (length (filter (\<lambda>r. live r \<and> crRegion r = region) (centrals w)))"

lemma HasAvailableCapacity_True:
  "HasAvailableCapacityInRegion ev k w = (Inr True, w1) \<Longrightarrow>
     region_count (crRegion k) w < GetCapacityForRegion (evClusterConfig ev) (crRegion k)"
  by (auto simp: HasAvailableCapacityInRegion_def Let_def count_centrals_unfold region_count_def
      split: if_splits prod.splits sum.splits option.splits)

lemma region_count_tables: "same_tables w w' \<Longrightarrow> region_count g w' = region_count g w"
  by (simp add: region_count_def same_tables_def)

text \<open>The candidates of the placement.\<close>

definition candidate :: "CentralRequest \<Rightarrow> Cluster \<Rightarrow> bool" where
  "candidate k c \<longleftrightarrow> cluster_live c \<and> criteria_match (placement_criteria k) c \<and> clSchedulable c \<and>
     supportsInstanceType c (crInstanceType k)"

lemma find_sorted:
  assumes "find P (sort_key f xs) = Some x"
  shows "x \<in> set xs \<and> P x \<and> (\<forall>y\<in>set xs. P y \<longrightarrow> f x \<le> f y)"
proof -
  obtain i where i: "i < length (sort_key f xs)" "P (sort_key f xs ! i)" "x = sort_key f xs ! i"
      "\<forall>j<i. \<not> P (sort_key f xs ! j)"
    using assms unfolding find_Some_iff by blast
  have "f x \<le> f y" if "y \<in> set xs" "P y" for y
  proof -
    have "y \<in> set (sort_key f xs)" using that by simp
    then obtain j where j: "j < length (sort_key f xs)" "y = sort_key f xs ! j" unfolding in_set_conv_nth by blast
    then have "i \<le> j" using i(4) that(2) not_less by blast
    moreover have "sorted (map f (sort_key f xs))" by simp
    ultimately show ?thesis using sorted_nth_mono [of "map f (sort_key f xs)" i j] j i by simp
  qed
  moreover have "x \<in> set xs" using nth_mem [OF i(1)] i(3) by simp
  ultimately show ?thesis using i by blast
qed

lemma FindCluster_Some:
  assumes "FindCluster k w = (Inr (Some c), w')"
  shows "c \<in> set (clusters w) \<and> candidate k c \<and> (\<forall>c'\<in>set (clusters w). candidate k c' \<longrightarrow> clCreatedAt c \<le> clCreatedAt c')"
proof -
  let ?cs = "filter (\<lambda>c. cluster_live c \<and> criteria_match (placement_criteria k) c) (clusters w)"
  have "find (\<lambda>c. clSchedulable c \<and> supportsInstanceType c (crInstanceType k)) (sort_key clCreatedAt ?cs) = Some c"
    using assms by (auto simp: FindCluster_def FindAllClusters_def find_clusters_def stmt_unfold
        split: option.splits prod.splits sum.splits go_error.splits)
  from find_sorted [OF this] show ?thesis by (auto simp: candidate_def)
qed

lemma FindCluster_None:
  assumes "FindCluster k w = (Inr None, w')" "planned w = None"
  shows "\<not> (\<exists>c\<in>set (clusters w). candidate k c)"
proof -
  let ?cs = "filter (\<lambda>c. cluster_live c \<and> criteria_match (placement_criteria k) c) (clusters w)"
  have "find (\<lambda>c. clSchedulable c \<and> supportsInstanceType c (crInstanceType k)) (sort_key clCreatedAt ?cs) = None"
    using assms by (auto simp: FindCluster_def FindAllClusters_def find_clusters_def stmt_unfold
        split: option.splits prod.splits sum.splits go_error.splits)
  then show ?thesis by (auto simp: candidate_def find_None_iff)
qed

definition eval_of :: "CentralRequest \<Rightarrow> CentralRequest \<Rightarrow> bool" where
  "eval_of k r \<longleftrightarrow> live r \<and> crInstanceType r = EVAL \<and> crOwner r = crOwner k \<and> crOrganisationID r = crOrganisationID k"

lemma reserveQuota_eval:
  assumes "reserveQuota ev k w = (Inr sub, w')" "crInstanceType k = EVAL"
  shows "ccAllowEvaluatorInstance (evConfig ev) \<and> filter (eval_of k) (centrals w) = []"
proof -
  define P where "P r \<longleftrightarrow> crInstanceType r = EVAL \<and> crOwner r = crOwner k \<and> crOrganisationID r = crOrganisationID k"
    for r :: CentralRequest
  have P: "eval_of k = (\<lambda>r. live r \<and> P r)" by (simp add: P_def eval_of_def fun_eq_iff)
  have "ccAllowEvaluatorInstance (evConfig ev)" and
    "\<exists>n. fst (count_centrals P w) = Inr n \<and> \<not> n > 0"
    using assms by (auto simp: reserveQuota_def P_def [symmetric] split: if_splits prod.splits sum.splits)
  then show ?thesis unfolding P by (auto simp: count_centrals_unfold split: option.splits)
qed

subsection \<open>What a registration stores\<close>

context central_env
begin

lemma register_stored:
  assumes "RegisterDinosaurJob ev k w = (Inr k', w')"
  obtains c where
    "centrals w' = centrals w @ [k']" "clusters w' = clusters w" "crID k' \<notin> crID ` set (centrals w)" "crID k' = evNewID ev"
    "crStatus k' = CentralRequestStatusAccepted" "crDeletedAt k' = crDeletedAt k" "crRegion k' = crRegion k"
    "crOwner k' = crOwner k" "crOrganisationID k' = crOrganisationID k" "crQuotaType k' = ccQuotaType (evConfig ev)"
    "crInstanceType k' = STANDARD \<or> crInstanceType k' = EVAL"
    "region_count (crRegion k) w < GetCapacityForRegion (evClusterConfig ev) (crRegion k)"
    "crInstanceType k' = EVAL \<Longrightarrow> ccAllowEvaluatorInstance (evConfig ev) \<and> filter (eval_of k) (centrals w) = []"
    "c \<in> set (clusters w)" "candidate (k\<lparr>crID := evNewID ev, crInstanceType := crInstanceType k'\<rparr>) c" "crClusterID k' = clClusterID c"
proof -
  from register_success [OF assms] obtain w1 t w2 c w3 sub w4 where
    s1: "HasAvailableCapacityInRegion ev (k\<lparr>crID := evNewID ev\<rparr>) w = (Inr True, w1)" and
    s2: "DetectInstanceType ev (k\<lparr>crID := evNewID ev\<rparr>) w1 = (t, w2)" and
    s3: "FindCluster (k\<lparr>crID := evNewID ev, crInstanceType := t\<rparr>) w2 = (Inr (Some c), w3)" and
    s4: "reserveQuota ev (k\<lparr>crID := evNewID ev, crInstanceType := t, crClusterID := clClusterID c\<rparr>) w3 = (Inr sub, w4)" and
    s5: "create_central (evNewID ev) (evNow ev) (k\<lparr>crID := evNewID ev, crInstanceType := t, crClusterID := clClusterID c,
       crStatus := CentralRequestStatusAccepted, crSubscriptionID := sub, crQuotaType := ccQuotaType (evConfig ev)\<rparr>) w4 = (Inr k', w')"
    by metis
  have t1: "same_tables w w1" using HasAvailableCapacity_world [of w ev] s1 by (metis snd_conv)
  have t2: "same_tables w1 w2" using DetectInstanceType_frame [of w1] s2 by (metis snd_conv)
  have t3: "same_tables w2 w3" using FindCluster_world [of _ w2] s3 by (metis same_tables_next snd_conv)
  have t4: "same_tables w3 w4" using reserveQuota_frame [of w3] s4 by (metis snd_conv)
  have tt: "centrals w3 = centrals w" "centrals w4 = centrals w" "clusters w2 = clusters w" "clusters w4 = clusters w"
    using t1 t2 t3 t4 by (simp_all add: same_tables_def)
  have ity: "t = STANDARD \<or> t = EVAL" using DetectInstanceType_type [of _ w1] s2 by (metis fst_conv)
  from create_central_Inr [OF s5]
  have k': "k' = stored (evNow ev) (k\<lparr>crID := evNewID ev, crInstanceType := t, crClusterID := clClusterID c,
       crStatus := CentralRequestStatusAccepted, crSubscriptionID := sub, crQuotaType := ccQuotaType (evConfig ev)\<rparr>)"
    and new: "evNewID ev \<notin> crID ` set (centrals w4)" and w': "w' = (next_stmt w4)\<lparr>centrals := centrals w4 @ [k']\<rparr>"
    by simp_all
  show thesis
  proof (rule that)
    show "crInstanceType k' = EVAL \<Longrightarrow> ccAllowEvaluatorInstance (evConfig ev) \<and> filter (eval_of k) (centrals w) = []"
      using reserveQuota_eval [OF s4] tt by (simp add: k' eval_of_def [abs_def])
    show "c \<in> set (clusters w)" "candidate (k\<lparr>crID := evNewID ev, crInstanceType := crInstanceType k'\<rparr>) c"
      using FindCluster_Some [OF s3] tt by (simp_all add: k')
    show "region_count (crRegion k) w < GetCapacityForRegion (evClusterConfig ev) (crRegion k)"
      using HasAvailableCapacity_True [OF s1] by simp
  qed (use tt ity new w' in \<open>simp_all add: k'\<close>)
qed

lemma register_reserved:
  assumes "RegisterDinosaurJob ev k w = (Inr k', w')"
  obtains k3 w3 sub where "same_tables w w3" "fst (reserveQuota ev k3 w3) = Inr sub" "crOwner k3 = crOwner k"
    "crOrganisationID k3 = crOrganisationID k" "crInstanceType k3 = crInstanceType k'"
proof -
  from register_success [OF assms] obtain w1 t w2 c w3 sub w4 where
    s: "HasAvailableCapacityInRegion ev (k\<lparr>crID := evNewID ev\<rparr>) w = (Inr True, w1)"
      "DetectInstanceType ev (k\<lparr>crID := evNewID ev\<rparr>) w1 = (t, w2)"
      "FindCluster (k\<lparr>crID := evNewID ev, crInstanceType := t\<rparr>) w2 = (Inr (Some c), w3)"
      "reserveQuota ev (k\<lparr>crID := evNewID ev, crInstanceType := t, crClusterID := clClusterID c\<rparr>) w3 = (Inr sub, w4)" and
    s5: "create_central (evNewID ev) (evNow ev) (k\<lparr>crID := evNewID ev, crInstanceType := t, crClusterID := clClusterID c,
       crStatus := CentralRequestStatusAccepted, crSubscriptionID := sub, crQuotaType := ccQuotaType (evConfig ev)\<rparr>) w4 = (Inr k', w')"
    by metis
  have "same_tables w w3"
    using HasAvailableCapacity_world [of w ev] DetectInstanceType_frame [of w1] FindCluster_world [of _ w2] s(1-3)
    by (metis same_tables_next same_tables_trans snd_conv)
  moreover have "crInstanceType k' = t" using create_central_Inr [OF s5] by simp
  ultimately show thesis by (intro that [OF _ arg_cong [OF s(4), of fst, simplified]]) simp_all
qed

lemma register_error:
  assumes "RegisterDinosaurJob ev k w = (Inl e, w')"
  shows "same_tables w w'"
proof -
  let ?k1 = "k\<lparr>crID := evNewID ev\<rparr>"
  obtain x1 w1 where s1: "HasAvailableCapacityInRegion ev ?k1 w = (x1, w1)" by fastforce
  then have t1: "same_tables w w1" using HasAvailableCapacity_world [of w ev ?k1] by simp
  obtain t w2 where s2: "DetectInstanceType ev ?k1 w1 = (t, w2)" by fastforce
  then have t2: "same_tables w w2" using DetectInstanceType_frame [of w1 ?k1] t1 by (simp add: same_tables_def)
  obtain x3 w3 where s3: "FindCluster (?k1\<lparr>crInstanceType := t\<rparr>) w2 = (x3, w3)" by fastforce
  then have t3: "same_tables w w3" using FindCluster_world [of "?k1\<lparr>crInstanceType := t\<rparr>" w2] t2 by (simp add: same_tables_def)
  have t4: "same_tables w (snd (reserveQuota ev k3 w3))" for k3 using reserveQuota_frame [of w3 k3] t3 by (simp add: same_tables_def)
  have t5: "create_central nid now k4 (snd (reserveQuota ev k3 w3)) = (Inl e', w5) \<Longrightarrow> same_tables w w5" for nid now k4 k3 e' w5
    using t4 [of k3] by (auto dest!: create_central_Inl simp: same_tables_def)
  show ?thesis using assms t1 t2 t3
    by (simp add: RegisterDinosaurJob_def Let_def s1 s2 s3 split: sum.splits bool.splits option.splits prod.splits)
       (metis snd_conv t4 t5)+
qed

end

subsection \<open>Properties\<close>

text \<open>C8: Placement. When the query succeeds, the cluster chosen for a request is a live, ready and
  schedulable cluster of the requested provider and region that supports the instance type, and no
  older cluster qualifies; no cluster is returned only when none qualifies.\<close>

theorem placement_oldest_candidate:
  assumes "planned w = None"
  shows "case fst (FindCluster k w) of
           Inl _ \<Rightarrow> False
         | Inr None \<Rightarrow> \<not> (\<exists>c\<in>set (clusters w). candidate k c)
         | Inr (Some c) \<Rightarrow> c \<in> set (clusters w) \<and> candidate k c \<and>
             (\<forall>c'\<in>set (clusters w). candidate k c' \<longrightarrow> clCreatedAt c \<le> clCreatedAt c')"
proof -
  have "\<exists>x. fst (FindCluster k w) = Inr x"
    using assms by (simp add: FindCluster_def FindAllClusters_def find_clusters_def stmt_unfold)
  then show ?thesis
    using FindCluster_Some [of k w] FindCluster_None [of k w _, OF _ assms]
    by (cases "FindCluster k w") (auto split: option.splits)
qed

text \<open>A small fleet: one cluster with room for two tenants, quota from the list of registered users,
  evaluation instances allowed.\<close>

definition sample_cluster :: Cluster where
  "sample_cluster = empty_cluster\<lparr>clID := ''c1'', clClusterID := ''cluster-1'', clCloudProvider := ''aws'', clRegion := ''us-east-1'',
     clStatus := ClusterReady, clSupportedInstanceType := ''eval,standard'', clSchedulable := True, clCreatedAt := 5\<rparr>"

definition sample_world :: world where
  "sample_world = \<lparr>centrals = [], clusters = [sample_cluster\<lparr>clID := ''c0'', clStatus := ClusterProvisioning, clCreatedAt := 1\<rparr>, sample_cluster],
     faults = [], events = []\<rparr>"

definition sample_request :: CentralRequest where
  "sample_request = empty_central\<lparr>crName := ''t'', crRegion := ''us-east-1'', crCloudProvider := ''aws'', crOwner := ''alice'',
     crOrganisationID := ''org1''\<rparr>"

definition sample_env :: env where
  "sample_env = \<lparr>
     evConfig = \<lparr>ccEnableCentralExternalCertificate = True, ccCentralDomainName = ''example.com'', ccEnableDeletionOfExpiredCentral = True,
       ccCentralLifespanInHours = 48, ccQuotaType = QuotaManagementListQuotaType, ccAllowEvaluatorInstance = True,
       ccCentralIDPClientID = [], ccCentralIDPClientSecret = [], ccCentralIDPIssuer = []\<rparr>,
     evClusterConfig = NewClusterConfig [\<lparr>mcName = ''n'', mcClusterID = ''cluster-1'', mcCloudProvider = ''aws'', mcRegion = ''us-east-1'',
       mcMultiAZ = True, mcSchedulable = True, mcCentralInstanceLimit = 2, mcStatus = ClusterReady, mcProviderType = ''standalone'',
       mcClusterDNS = [], mcSupportedInstanceType = ''eval,standard'', mcAvailableCentralOperatorVersions = []\<rparr>],
     evProviders = (\<lambda>_. Inl (GoErr ''none'')), evQuota = (\<lambda>_. Inl (GeneralError NoReason)),
     evGetOrganisation = (\<lambda>_. Inr (''1'', ''Org'')), evAwsClient = (\<lambda>_. None),
     evChangeRecords = (\<lambda>_ _. Inr None), evGetChange = (\<lambda>_. Inl (GoErr ''none'')), evNow = 100, evNewID = ''tenant1''\<rparr>"

definition sample_ams :: ams_client where
  "sample_ams = \<lparr>amsGetOrganisation = (\<lambda>_. Inr (''1'', ''Org'')), amsGetQuotaCosts = (\<lambda>_ _ _. Inr []),
     amsGetCloudAccounts = (\<lambda>_ _. Inr []), amsClusterAuthorization = (\<lambda>_. Inr (True, ''sub'')), amsDeleteSubscription = (\<lambda>_. None)\<rparr>"

definition sample_quota :: QuotaManagementListConfig where
  "sample_quota = \<lparr>qmOrganisations = [], qmServiceAccounts = [\<lparr>acUsername = ''bob'', acMaxAllowedInstances = 2\<rparr>],
     qmEnableInstanceLimitControl = True, qmMaxAllowedInstances = 1\<rparr>"

theorem placement_oldest_candidate_witness:
  "planned sample_world = None \<and>
   (case fst (FindCluster (sample_request\<lparr>crInstanceType := STANDARD\<rparr>) sample_world) of
      Inr (Some c) \<Rightarrow> c = sample_cluster \<and> candidate (sample_request\<lparr>crInstanceType := STANDARD\<rparr>) c
    | _ \<Rightarrow> False)"
proof -
  have p: "planned sample_world = None" by (simp add: sample_world_def planned_def)
  have "fst (FindCluster (sample_request\<lparr>crInstanceType := STANDARD\<rparr>) sample_world) = Inr (Some sample_cluster)"
    by code_simp
  then show ?thesis using p placement_oldest_candidate [OF p, of "sample_request\<lparr>crInstanceType := STANDARD\<rparr>"] by simp
qed

text \<open>C4: Registration. When the registration of a tenant fails, whatever fails, neither table
  changes; when it succeeds, the only change is one more central request, with the freshly generated
  identifier, the status \<open>accepted\<close>, the owner and organisation of the request, the configured quota
  type, and the identifier of a cluster that qualifies for it.\<close>

theorem register_all_or_nothing:
  "case RegisterDinosaurJob (fleet_env ams qm ev) k w of
     (Inl _, w') \<Rightarrow> centrals w' = centrals w \<and> clusters w' = clusters w
   | (Inr k', w') \<Rightarrow> centrals w' = centrals w @ [k'] \<and> clusters w' = clusters w \<and>
       crID k' = evNewID ev \<and> crID k' \<notin> crID ` set (centrals w) \<and> crStatus k' = CentralRequestStatusAccepted \<and>
       crOwner k' = crOwner k \<and> crOrganisationID k' = crOrganisationID k \<and> crQuotaType k' = ccQuotaType (evConfig ev) \<and>
       (\<exists>c\<in>set (clusters w). candidate (k\<lparr>crID := evNewID ev, crInstanceType := crInstanceType k'\<rparr>) c \<and>
          crClusterID k' = clClusterID c)"
proof -
  have ids: "evNewID (fleet_env ams qm ev) = evNewID ev" "evConfig (fleet_env ams qm ev) = evConfig ev"
    by (simp_all add: fleet_env_def)
  obtain x w' where r: "RegisterDinosaurJob (fleet_env ams qm ev) k w = (x, w')" by fastforce
  show ?thesis
  proof (cases x)
    case (Inl e)
    then show ?thesis using fleet.register_error r by (simp add: same_tables_def)
  next
    case (Inr k')
    from fleet.register_stored [OF r [unfolded Inr]] show ?thesis
      unfolding r Inr using ids by (simp, metis)
  qed
qed

text \<open>C5: Capacity. After a successful registration the live tenants of the region are at most as many
  as the configured clusters of the region admit.\<close>

theorem register_within_capacity:
  assumes "fst (RegisterDinosaurJob (fleet_env ams qm ev) k w) = Inr k'"
  shows "region_count (crRegion k) (snd (RegisterDinosaurJob (fleet_env ams qm ev) k w))
           \<le> GetCapacityForRegion (evClusterConfig ev) (crRegion k)"
proof -
  obtain w' where r: "RegisterDinosaurJob (fleet_env ams qm ev) k w = (Inr k', w')"
    using assms by (metis prod.collapse)
  then show ?thesis
  proof (rule fleet.register_stored)
    assume a: "centrals w' = centrals w @ [k']"
      "region_count (crRegion k) w < GetCapacityForRegion (evClusterConfig (fleet_env ams qm ev)) (crRegion k)"
    have "region_count (crRegion k) w' \<le> region_count (crRegion k) w + 1"
      using a(1) by (simp add: region_count_def)
    then show ?thesis using a(2) r by (simp add: fleet_env_def)
  qed
qed

definition sample_register :: "(service_error + CentralRequest) \<times> world" where
  "sample_register = RegisterDinosaurJob (fleet_env sample_ams sample_quota sample_env) sample_request sample_world"

definition sample_tenant :: CentralRequest where
  "sample_tenant = sample_request\<lparr>crID := ''tenant1'', crCreatedAt := 100, crUpdatedAt := 100, crInstanceType := EVAL,
     crClusterID := ''cluster-1'', crStatus := CentralRequestStatusAccepted, crQuotaType := QuotaManagementListQuotaType\<rparr>"

lemma sample_register_ok: "fst sample_register = Inr sample_tenant"
  by code_simp

theorem register_within_capacity_witness:
  "fst sample_register = Inr sample_tenant \<and> region_count ''us-east-1'' (snd sample_register) \<le> 2"
proof -
  have "GetCapacityForRegion (evClusterConfig sample_env) (crRegion sample_request) = 2" by code_simp
  moreover have "crRegion sample_request = ''us-east-1''" by (simp add: sample_request_def)
  ultimately show ?thesis
    using register_within_capacity [of sample_ams sample_quota sample_env sample_request sample_world sample_tenant] sample_register_ok
    unfolding sample_register_def by metis
qed

text \<open>C7: Evaluation instances. A tenant registered as an evaluation instance is the only live one of
  its owner and organisation, and evaluation instances are allowed by the configuration.\<close>

theorem register_single_eval:
  assumes "fst (RegisterDinosaurJob (fleet_env ams qm ev) k w) = Inr k'" "crInstanceType k' = EVAL" "live k"
  shows "ccAllowEvaluatorInstance (evConfig ev) \<and>
     filter (eval_of k) (centrals (snd (RegisterDinosaurJob (fleet_env ams qm ev) k w))) = [k']"
proof -
  obtain w' where r: "RegisterDinosaurJob (fleet_env ams qm ev) k w = (Inr k', w')"
    using assms(1) by (metis prod.collapse)
  then show ?thesis
  proof (rule fleet.register_stored)
    assume a: "centrals w' = centrals w @ [k']" "crDeletedAt k' = crDeletedAt k" "crOwner k' = crOwner k"
      "crOrganisationID k' = crOrganisationID k"
      "crInstanceType k' = EVAL \<Longrightarrow> ccAllowEvaluatorInstance (evConfig (fleet_env ams qm ev)) \<and> filter (eval_of k) (centrals w) = []"
    then show ?thesis using assms r by (simp add: fleet_env_def eval_of_def live_def)
  qed
qed

theorem register_single_eval_witness:
  "fst sample_register = Inr sample_tenant \<and> filter (eval_of sample_request) (centrals (snd sample_register)) = [sample_tenant]"
  using register_single_eval [of sample_ams sample_quota sample_env sample_request sample_world sample_tenant] sample_register_ok
  unfolding sample_register_def
  by (simp add: sample_tenant_def sample_request_def live_def empty_central_def)

lemma reserve_list_limit:
  assumes "fst (reserveQuota (fleet_env ams qm ev) k w) = Inr sub" "qmEnableInstanceLimitControl qm"
    "ccQuotaType (evConfig ev) = QuotaManagementListQuotaType"
  shows "int (length (filter (\<lambda>r. live r \<and> counted_for qm k (crInstanceType k) r) (centrals w))) <
     (case quota_item_of qm (crOrganisationID k) (crOwner k) of None \<Rightarrow> qmMaxAllowedInstances qm | Some i \<Rightarrow> item_limit (qmMaxAllowedInstances qm) i)"
proof -
  have svc: "reserve_from_service (fleet_env ams qm ev) k v = qml_ReserveQuota qm k (crInstanceType k) v" for v
    using assms(3) by (simp add: reserve_from_service_def fleet_env_def GetQuotaService_def UndefinedQuotaType_def
        QuotaManagementListQuotaType_def AMSQuotaType_def QuotaManagementListService_def)
  obtain v where v: "centrals v = centrals w" "fst (qml_ReserveQuota qm k (crInstanceType k) v) = Inr sub"
  proof (rule that [of "if crInstanceType k = EVAL then next_stmt w else w"])
    show "fst (qml_ReserveQuota qm k (crInstanceType k) (if crInstanceType k = EVAL then next_stmt w else w)) = Inr sub"
      using assms(1) by (auto simp: reserveQuota_def svc count_centrals_unfold split: if_splits option.splits)
  qed simp
  then show ?thesis using assms(2)
    by (auto simp: qml_ReserveQuota_def Let_def count_centrals_unfold IsInstanceCountWithinLimit_def
        split: option.splits if_splits)
qed

text \<open>C6: Quota. With the list of registered users as quota and instance limits enabled, the instances
  that count against the limit of the owner (of the organisation for registered members, of the user
  otherwise) never exceed that limit after a successful registration.\<close>

theorem register_within_quota:
  assumes "fst (RegisterDinosaurJob (fleet_env ams qm ev) k w) = Inr k'" "qmEnableInstanceLimitControl qm"
    "ccQuotaType (evConfig ev) = QuotaManagementListQuotaType"
  shows "int (length (filter (\<lambda>r. live r \<and> counted_for qm k (crInstanceType k') r)
       (centrals (snd (RegisterDinosaurJob (fleet_env ams qm ev) k w))))) \<le>
     (case quota_item_of qm (crOrganisationID k) (crOwner k) of None \<Rightarrow> qmMaxAllowedInstances qm | Some i \<Rightarrow> item_limit (qmMaxAllowedInstances qm) i)"
proof -
  obtain w' where r: "RegisterDinosaurJob (fleet_env ams qm ev) k w = (Inr k', w')"
    using assms(1) by (metis prod.collapse)
  obtain k3 w3 sub where res: "same_tables w w3" "fst (reserveQuota (fleet_env ams qm ev) k3 w3) = Inr sub"
    "crOwner k3 = crOwner k" "crOrganisationID k3 = crOrganisationID k" "crInstanceType k3 = crInstanceType k'"
    using fleet.register_reserved [OF r] by metis
  have cf: "counted_for qm k3 (crInstanceType k') = counted_for qm k (crInstanceType k')"
    using res(3,4) by (auto simp: counted_for_def fun_eq_iff split: option.split quota_item.split)
  have "centrals w' = centrals w @ [k']" using fleet.register_stored [OF r] by metis
  moreover note reserve_list_limit [OF res(2) assms(2,3)]
  ultimately show ?thesis using res(1,3-5) r cf by (auto simp: same_tables_def)
qed

theorem register_within_quota_witness:
  "fst sample_register = Inr sample_tenant \<and>
   int (length (filter (\<lambda>r. live r \<and> counted_for sample_quota sample_request EVAL r) (centrals (snd sample_register)))) \<le> 1"
proof -
  have "quota_item_of sample_quota (crOrganisationID sample_request) (crOwner sample_request) = None"
    "qmMaxAllowedInstances sample_quota = 1" "qmEnableInstanceLimitControl sample_quota"
    "ccQuotaType (evConfig sample_env) = QuotaManagementListQuotaType" "crInstanceType sample_tenant = EVAL"
    by code_simp+
  then show ?thesis
    using register_within_quota [of sample_ams sample_quota sample_env sample_request sample_world sample_tenant] sample_register_ok
    unfolding sample_register_def by simp
qed

end
