(* ===== verification/Fleet_Lifecycle.thy ===== *)
theory Fleet_Lifecycle
  imports Central_Managers Data_Plane_Central Central_Create
begin

text \<open>
  The life of tenants under all operations: the workers and the reports of the data plane meet the
  contract \<open>lifecycle_update\<close>, and the step relation \<open>fleet_step\<close> puts the operations of the program
  together in any order, with any database faults.
\<close>

subsection \<open>Evolution of the table\<close>

definition evolves :: "string set \<Rightarrow> world \<Rightarrow> world \<Rightarrow> bool" where
  "evolves D w w' \<longleftrightarrow> list_all2 (life_step D) (centrals w) (centrals w')"

lemma evolves_refl [simp]: "evolves D w w"
  by (simp add: evolves_def list_all2_same)

lemma evolves_same: "centrals w' = centrals w \<Longrightarrow> evolves D w w'"
  by (simp add: evolves_def list_all2_same)

lemma evolves_trans: "evolves D w w' \<Longrightarrow> evolves D w' w'' \<Longrightarrow> evolves D w w''"
  unfolding evolves_def by (rule list_all2_compose) (auto intro: life_step_trans)

lemma evolves_ids: "evolves D w w' \<Longrightarrow> map crID (centrals w') = map crID (centrals w)"
  unfolding evolves_def by (induction rule: list_all2_induct) (auto simp: life_step_def row_kept_def)

lemma evolves_wf: "evolves D w w' \<Longrightarrow> wf_ids w' = wf_ids w"
  using evolves_ids [of D w w'] by (simp add: wf_ids_def) (metis list.set_map)

lemma evolves_mono: "evolves D w w' \<Longrightarrow> D \<subseteq> E \<Longrightarrow> evolves E w w'"
  unfolding evolves_def by (erule list_all2_mono) (auto intro: life_step_mono)

text \<open>A step that completes no deletion is a step for every set \<open>D\<close>.\<close>

lemma calm_evolves: "list_all2 (life_step {}) (centrals w) (centrals w') \<Longrightarrow> evolves D w w'"
  using evolves_mono [of "{}" w w' D] by (simp add: evolves_def)

lemma evolves_update_centrals:
  "(\<And>r. live r \<Longrightarrow> P r \<Longrightarrow> life_step D r (f r)) \<Longrightarrow> evolves D w (snd (update_centrals P f w))"
  unfolding evolves_def by (rule list_all2_mono [OF update_centrals_rel]) (auto simp: cond_rel_def)

text \<open>A request that was read under deletion may be written back only where the rows are under
  deletion already: then the guard of \<open>central_Update\<close> keeps them.\<close>

definition guarded :: "CentralRequest \<Rightarrow> world \<Rightarrow> bool" where
  "guarded k w \<longleftrightarrow> under_deletion k \<longrightarrow> (\<forall>r\<in>set (centrals w). live r \<and> pk_match k r \<longrightarrow> under_deletion r)"

lemma guarded_status [simp]: "\<not> under_deletion k \<Longrightarrow> guarded k w"
  by (simp add: guarded_def)

lemma guarded_listed: "wf_ids w \<Longrightarrow> k \<in> set (centrals w) \<Longrightarrow> guarded k w"
  using wf_ids_unique [of w _ k] wf_ids_nonempty [of w k] by (auto simp: guarded_def pk_match_def)

lemma guarded_evolves: "guarded k w \<Longrightarrow> evolves D w w' \<Longrightarrow> guarded k w'"
proof (unfold guarded_def, intro impI ballI)
  fix r'
  assume g: "under_deletion k \<longrightarrow> (\<forall>r\<in>set (centrals w). live r \<and> pk_match k r \<longrightarrow> under_deletion r)"
    and e: "evolves D w w'" and s: "under_deletion k" and r': "r' \<in> set (centrals w')" "live r' \<and> pk_match k r'"
  obtain r where r: "r \<in> set (centrals w)" "life_step D r r'"
    using list_all2_right [OF e [unfolded evolves_def] r'(1)] by blast
  then have "live r" "pk_match k r" using r'(2) by (auto simp: life_step_def row_kept_def pk_match_def)
  then show "under_deletion r'" using g s r unfolding life_step_def by blast
qed

lemma guarded_fields: "crID k' = crID k \<Longrightarrow> crStatus k' = crStatus k \<Longrightarrow> guarded k' w = guarded k w"
  by (simp add: guarded_def pk_match_def)

lemma assign_life: "\<not> under_deletion r \<Longrightarrow> \<not> under_deletion k \<Longrightarrow> live r \<Longrightarrow> life_step D r (assign_central now k r)"
  by (auto simp: life_step_def row_kept_def nz_def nzo_def split: option.splits)

lemma central_Update_evolves: "guarded k w \<Longrightarrow> evolves D w (snd (central_Update ev k w))"
proof (cases "under_deletion k")
  case True
  assume g: "guarded k w"
  let ?f = "assign_central (evNow ev) k"
  have "map (\<lambda>r. if live r \<and> pk_match k r \<and> not_under_deletion r then ?f r else r) (centrals w) = centrals w"
    using g True by (intro map_idI) (auto simp: guarded_def not_under_deletion_iff)
  then show ?thesis unfolding central_Update_world
    by (intro evolves_same) (simp add: update_centrals_unfold split: option.split)
next
  case False
  then show ?thesis unfolding central_Update_world
    by (intro evolves_update_centrals assign_life) (auto simp: not_under_deletion_iff)
qed

lemma central_Updates_evolves:
  "(\<And>r. live r \<Longrightarrow> \<not> under_deletion r \<Longrightarrow> life_step D r ((f r)\<lparr>crUpdatedAt := evNow ev\<rparr>)) \<Longrightarrow> evolves D w (snd (central_Updates ev k f w))"
  unfolding central_Updates_world by (rule evolves_update_centrals) (simp add: not_under_deletion_iff)

subsection \<open>Workers\<close>

lemma reconcile_each_evolves:
  assumes "\<And>k w. wf_ids w \<Longrightarrow> guarded k w \<Longrightarrow> evolves D w (snd (f k w))"
  shows "wf_ids w \<Longrightarrow> \<forall>k\<in>set ks. guarded k w \<Longrightarrow> evolves D w (snd (reconcile_each f ks w))"
proof (induction ks arbitrary: w)
  case (Cons k ks)
  obtain e w1 where f: "f k w = (e, w1)" by fastforce
  have e1: "evolves D w w1" using assms [of w k] Cons.prems f by simp
  then have "wf_ids w1" "\<forall>k\<in>set ks. guarded k w1"
    using Cons.prems evolves_wf [OF e1] guarded_evolves [OF _ e1] by simp_all
  then have "evolves D w1 (snd (reconcile_each f ks w1))" by (rule Cons.IH)
  then have "evolves D w (snd (reconcile_each f ks w1))" using e1 evolves_trans by blast
  then show ?case using f e1 by (auto split: option.splits prod.splits)
qed simp

lemma find_centrals_listed: "find_centrals P w = (Inr rs, w') \<Longrightarrow> set rs \<subseteq> set (centrals w) \<and> centrals w' = centrals w"
  by (auto simp: find_centrals_unfold split: option.splits)

lemma find_centrals_world: "centrals (snd (find_centrals P w)) = centrals w"
  by (simp add: find_centrals_unfold split: option.split)

text \<open>A listing returns rows of the table and leaves it as it is.\<close>

definition listing :: "(world \<Rightarrow> (service_error + CentralRequest list) \<times> world) \<Rightarrow> bool" where
  "listing l \<longleftrightarrow> (\<forall>w. centrals (snd (l w)) = centrals w \<and> (\<forall>ks. fst (l w) = Inr ks \<longrightarrow> set ks \<subseteq> set (centrals w)))"

lemma listings:
  "listing (ListByStatus ss)" "listing ListCentralsWithoutAuthConfig" "listing ListDinosaursWithRoutesNotCreated"
  by (auto simp: listing_def ListByStatus_def ListCentralsWithoutAuthConfig_def ListDinosaursWithRoutesNotCreated_def
      find_centrals_unfold split: option.splits)

lemma ListByStatus_listed:
  "ListByStatus ss w = (x, w') \<Longrightarrow> centrals w' = centrals w \<and> set (case x of Inl _ \<Rightarrow> [] | Inr ks \<Rightarrow> ks) \<subseteq> set (centrals w)"
  by (auto simp: ListByStatus_def find_centrals_unfold split: if_splits option.splits)

lemma reconcile_listed_evolves:
  assumes "listing l" "\<And>k w. wf_ids w \<Longrightarrow> guarded k w \<Longrightarrow> evolves D w (snd (f k w))" "wf_ids w"
  shows "evolves D w (snd (reconcile_listed l msg f w))"
proof (cases "l w")
  case (Pair x w1)
  have c: "centrals w1 = centrals w" using assms(1) Pair unfolding listing_def by (metis snd_conv)
  show ?thesis
  proof (cases x)
    case (Inl e)
    then show ?thesis using Pair c by (simp add: reconcile_listed_def evolves_same)
  next
    case (Inr ks)
    have ks: "set ks \<subseteq> set (centrals w)" using assms(1) Pair Inr unfolding listing_def by (metis fst_conv)
    have wf: "wf_ids w1" using assms(3) c by (simp add: wf_ids_def)
    have "\<forall>k\<in>set ks. guarded k w1" using guarded_listed [OF wf] ks c by auto
    then have "evolves D w1 (snd (reconcile_each f ks w1))"
      using reconcile_each_evolves [of D f w1 ks] assms(2) wf by simp
    then show ?thesis using evolves_trans [OF evolves_same [OF c]] Pair Inr by (simp add: reconcile_listed_def)
  qed
qed

lemma wrap_error_world [simp]: "snd (wrap_error msg r) = snd r"
  by (simp add: wrap_error_def split: prod.split option.split)

lemma failed_request_guarded [simp]: "guarded (failed_request k s) w"
  by (simp add: failed_request_def)

lemma FailIfTimeout_evolves: "evolves D w (snd (FailIfTimeoutExceeded ev t k w))"
  using central_Update_evolves [of _ w D ev]
  by (simp add: FailIfTimeoutExceeded_def case_prod_beta split: option.split)

lemma without_version_evolves: "evolves D w (snd (without_version ev k err w))"
  using central_Update_evolves [of _ w D ev]
  by (simp add: without_version_def case_prod_beta Let_def split: option.split)

lemma Accept_evolves: "wf_ids w \<Longrightarrow> evolves D w (snd (AcceptCentralRequest ev k w))"
  by (rule calm_evolves) (rule acc.life_effect)

lemma Prepare_evolves: "wf_ids w \<Longrightarrow> evolves D w (snd (PrepareDinosaurRequest ev k w))"
  by (rule calm_evolves) (rule prep.life_effect)

lemma accept_on_cluster_evolves: "wf_ids w \<Longrightarrow> evolves D w (snd (accept_on_cluster ev k c w))"
  using without_version_evolves Accept_evolves
  by (simp add: accept_on_cluster_def case_prod_beta Let_def split: sum.split list.split option.split)

lemma FindCluster_evolves: "evolves D w (snd (FindCluster k w))"
  by (simp add: FindCluster_world evolves_same)

lemma accepted_one_evolves: "wf_ids w \<Longrightarrow> evolves D w (snd (reconcileAcceptedCentral mg k w))"
proof -
  assume wf: "wf_ids w"
  obtain e w1 where f: "FailIfTimeoutExceeded (mgEnv mg) (mgTimeout mg) k w = (e, w1)" by fastforce
  have e1: "evolves D w w1" using FailIfTimeout_evolves [of D w "mgEnv mg" "mgTimeout mg" k] f by simp
  obtain x w2 where g: "FindCluster k w1 = (x, w2)" by fastforce
  have e2: "evolves D w w2" using FindCluster_evolves [of D w1 k] g e1 evolves_trans by fastforce
  have "evolves D w (snd (accept_on_cluster (mgEnv mg) k c w2))" for c
    using accept_on_cluster_evolves [of w2] e2 evolves_wf [OF e2] wf evolves_trans by blast
  then show ?thesis using f g e1 e2 by (simp add: reconcileAcceptedCentral_def Let_def split: option.split sum.split)
qed

lemma creation_error_evolves: "evolves D w (snd (handleDinosaurRequestCreationError ev k err w))"
  using central_Update_evolves [of _ w D ev]
  by (simp add: handleDinosaurRequestCreationError_def case_prod_beta Let_def split: option.split)

lemma preparing_one_evolves: "wf_ids w \<Longrightarrow> evolves D w (snd (reconcilePreparingDinosaur mg k w))"
proof -
  assume wf: "wf_ids w"
  obtain e w1 where f: "FailIfTimeoutExceeded (mgEnv mg) (mgTimeout mg) k w = (e, w1)" by fastforce
  have e1: "evolves D w w1" using FailIfTimeout_evolves [of D w "mgEnv mg" "mgTimeout mg" k] f by simp
  obtain x w2 where g: "PrepareDinosaurRequest (mgEnv mg) k w1 = (x, w2)" by fastforce
  have e2: "evolves D w w2" using Prepare_evolves [of w1 D "mgEnv mg" k] g e1 evolves_wf [OF e1] wf evolves_trans by fastforce
  have "evolves D w (snd (handleDinosaurRequestCreationError (mgEnv mg) k err w2))" for err
    using creation_error_evolves e2 evolves_trans by blast
  then show ?thesis using f g e1 e2 by (simp add: reconcilePreparingDinosaur_def Let_def case_prod_beta split: option.split)
qed

lemma auth_one_evolves: "guarded k w \<Longrightarrow> evolves D w (snd (reconcileCentralRequest mg k w))"
proof -
  assume g: "guarded k w"
  let ?c = "evConfig (mgEnv mg)"
  define a where "a = (if HasStaticAuth ?c then (Inr (augmentWithStaticAuthConfig ?c k), w) else augmentWithDynamicAuthConfig mg k w)"
  have c: "centrals (snd a) = centrals w"
    by (simp add: a_def augmentWithDynamicAuthConfig_def Let_def log_event_def split: sum.split prod.split)
  have k: "crID k1 = crID k \<and> crStatus k1 = crStatus k" if "fst a = Inr k1" for k1
    using that by (auto simp: a_def augmentWithStaticAuthConfig_def augmentWithDynamicAuthConfig_def Let_def split: if_splits sum.splits prod.splits)
  have "evolves D w (snd (central_Update (mgEnv mg) (k1\<lparr>crClientOrigin := origin\<rparr>) (snd a)))" if "fst a = Inr k1" for k1 origin
  proof -
    have "guarded (k1\<lparr>crClientOrigin := origin\<rparr>) (snd a)"
      using g k [OF that] c by (simp add: guarded_def pk_match_def)
    then show ?thesis using central_Update_evolves evolves_trans [OF evolves_same [OF c]] by blast
  qed
  then show ?thesis using evolves_same [OF c]
    unfolding reconcileCentralRequest_def Let_def a_def [symmetric]
    by (simp add: case_prod_beta split: sum.split option.split)
qed

lemma store_routes_evolves: "guarded k w \<Longrightarrow> evolves D w (snd (store_routes ev k w))"
  using central_Update_evolves [of k w D ev] by (simp add: store_routes_def case_prod_beta split: option.split)

lemma routes_one_evolves: "guarded k w \<Longrightarrow> evolves D w (snd (reconcile_routes ev k w))"
proof -
  assume g: "guarded k w"
  define w1 where "w1 = snd (ChangeDinosaurCNAMErecords ev k DinosaurRoutesActionCreate w)"
  have c: "centrals w1 = centrals w"
    using ChangeDinosaurCNAMErecords_frame [of w ev k DinosaurRoutesActionCreate] by (simp add: w1_def same_tables_def)
  have s: "evolves D w (snd (store_routes ev (k\<lparr>crRoutesCreationID := i, crRoutesCreated := b\<rparr>) w1))" for i b
  proof -
    have "guarded (k\<lparr>crRoutesCreationID := i, crRoutesCreated := b\<rparr>) w1" using g c by (simp add: guarded_def pk_match_def)
    then show ?thesis using store_routes_evolves evolves_trans [OF evolves_same [OF c]] by blast
  qed
  have s': "evolves D w (snd (store_routes ev (k\<lparr>crRoutesCreated := b\<rparr>) w))" for b
    by (rule store_routes_evolves) (use g in \<open>simp add: guarded_def pk_match_def\<close>)
  show ?thesis using s s' evolves_same [OF c]
    by (simp add: reconcile_routes_def case_prod_beta w1_def [symmetric] split: sum.split option.split)
qed

context central_env
begin

lemma delete_quota_frame: "evQuota ev t = Inr qs \<Longrightarrow> centrals (snd (qsDeleteQuota qs s w)) = centrals w"
  using quota_provider.delete_frame [OF quota_services] by (simp add: same_tables_def)

lemma deleting_one_evolves:
  assumes wf: "wf_ids w" and mg: "mgEnv mg = ev"
  shows "evolves D w (snd (reconcileDeletingDinosaurs mg k w))"
proof (cases "evQuota ev (crQuotaType k)")
  case (Inl e)
  then show ?thesis by (simp add: reconcileDeletingDinosaurs_def mg)
next
  case (Inr qs)
  obtain q w1 where q: "qsDeleteQuota qs (crSubscriptionID k) w = (q, w1)" by fastforce
  have c1: "centrals w1 = centrals w" using delete_quota_frame [OF Inr] q by (metis snd_conv)
  obtain d w2 where d: "delete_client mg k w1 = (d, w2)" by fastforce
  have c2: "centrals w2 = centrals w"
    using d c1 by (auto simp: delete_client_def log_event_def Let_def split: if_splits option.splits prod.splits)
  have "wf_ids w2" using wf c2 by (simp add: wf_ids_def)
  then have "evolves D w (snd (central_Delete ev k False w2))"
    using calm_evolves [OF del.life_effect, of w2 D ev k False] evolves_trans [OF evolves_same [OF c2]] by blast
  then show ?thesis using Inr q d evolves_same [OF c1] evolves_same [OF c2]
    by (simp add: reconcileDeletingDinosaurs_def mg case_prod_beta split: option.split)
qed

lemma deleting_evolves:
  assumes wf: "wf_ids w" and mg: "mgEnv mg = ev"
  shows "evolves D w (snd (deleting_Reconcile mg w))"
proof -
  obtain x w1 where x: "ListByStatus [CentralRequestStatusDeleting] w = (x, w1)" by fastforce
  obtain y w2 where y: "ListByStatus [CentralRequestStatusDeprovision] w1 = (y, w2)" by fastforce
  have c: "centrals w2 = centrals w" using ListByStatus_listed [OF x] ListByStatus_listed [OF y] by simp
  have wf2: "wf_ids w2" using wf c by (simp add: wf_ids_def)
  define f where "f = (\<lambda>k w. wrap_error (''failed to reconcile deleting central request '' @ crID k) (reconcileDeletingDinosaurs mg k w))"
  have "evolves D v (snd (f k v))" if "wf_ids v" for k v
    using deleting_one_evolves [OF that mg] by (simp add: f_def)
  moreover define ks where "ks = (case x of Inl _ \<Rightarrow> [] | Inr ks \<Rightarrow> ks) @ filter (\<lambda>k. crHost k = []) (case y of Inl _ \<Rightarrow> [] | Inr ks \<Rightarrow> ks)"
  have "set (case x of Inl _ \<Rightarrow> [] | Inr ks \<Rightarrow> ks) \<subseteq> set (centrals w)" "set (case y of Inl _ \<Rightarrow> [] | Inr ks \<Rightarrow> ks) \<subseteq> set (centrals w1)" "centrals w1 = centrals w"
    using ListByStatus_listed [OF x] ListByStatus_listed [OF y] by simp_all
  then have "\<forall>k\<in>set ks. guarded k w2" using guarded_listed [OF wf2] c by (auto simp: ks_def)
  ultimately have "evolves D w2 (snd (reconcile_each f ks w2))" using reconcile_each_evolves [of D f w2 ks] wf2 by simp
  then have "evolves D w (snd (reconcile_each f ks w2))" using evolves_trans [OF evolves_same [OF c]] by blast
  then show ?thesis
    unfolding deleting_Reconcile_def x y prod.case Let_def f_def [symmetric] ks_def [symmetric]
    by (simp add: case_prod_beta split: option.split)
qed

end

lemma dinosaurs_evolves: "wf_ids w \<Longrightarrow> evolves D w (snd (dinosaurs_Reconcile mg w))"
proof -
  assume wf: "wf_ids w"
  let ?ev = "mgEnv mg"
  define w1 where "w1 = snd (count_errors ''failed to count Centrals by status'' (CountByStatus dinosaurMetricsStatuses w))"
  define w2 where "w2 = snd (count_errors ''failed to count Centrals by region'' (CountByRegionAndInstanceType w1))"
  have c: "centrals w2 = centrals w"
    by (simp add: w1_def w2_def count_errors_def CountByStatus_def CountByRegionAndInstanceType_def case_prod_beta
        find_centrals_world split: sum.split)
  define w3 where "w3 = snd (if mgEnableDenyList mg then reconcileDeniedDinosaurOwners ?ev (mgDenyList mg) w2 else (None, w2))"
  have wf2: "wf_ids w2" using wf c by (simp add: wf_ids_def)
  have e3: "evolves D w2 w3"
    using calm_evolves [OF users.life_effect [OF wf2]] by (simp add: w3_def reconcileDeniedDinosaurOwners_def)
  have wf3: "wf_ids w3" using wf2 evolves_wf [OF e3] by simp
  have e4: "evolves D w3 (snd (if ccEnableDeletionOfExpiredCentral (evConfig ?ev)
            then DeprovisionExpiredDinosaurs ?ev (ccCentralLifespanInHours (evConfig ?ev)) w3 else (None, w3)))"
    using calm_evolves [OF expiry.life_effect [OF wf3]] by simp
  have "snd (dinosaurs_Reconcile mg w) = snd (if ccEnableDeletionOfExpiredCentral (evConfig ?ev)
            then DeprovisionExpiredDinosaurs ?ev (ccCentralLifespanInHours (evConfig ?ev)) w3 else (None, w3))"
    unfolding dinosaurs_Reconcile_def Let_def case_prod_beta snd_conv w1_def [symmetric] w2_def [symmetric] w3_def [symmetric] by (rule refl)
  then show ?thesis using e3 e4 evolves_trans evolves_same [OF c] by metis
qed

subsection \<open>Reports of the data plane\<close>

lemma check_status_world: "centrals (snd (checkCentralRequestCurrentStatus k s w)) = centrals w"
  using GetByID_world [of "crID k" w] by (simp add: checkCentralRequestCurrentStatus_def case_prod_beta split: sum.split)

lemma set_ready_evolves: "evolves D w (snd (setCentralClusterReady ev k w))"
proof -
  define w1 where "w1 = snd (checkCentralRequestCurrentStatus k CentralRequestStatusProvisioning w)"
  have c: "centrals w1 = centrals w" by (simp add: w1_def check_status_world)
  have "evolves D w1 (snd (central_Updates ev k (\<lambda>r. r\<lparr>crFailedReason := [], crStatus := CentralRequestStatusReady\<rparr>) w1))"
    by (rule central_Updates_evolves) (simp add: life_step_def row_kept_def)
  then have "evolves D w (snd (central_Updates ev k (\<lambda>r. r\<lparr>crFailedReason := [], crStatus := CentralRequestStatusReady\<rparr>) w1))"
    using evolves_trans [OF evolves_same [OF c]] by blast
  then show ?thesis using evolves_same [OF c]
    by (simp add: setCentralClusterReady_def case_prod_beta w1_def [symmetric] split: sum.split option.split)
qed

lemma set_failed_evolves: "evolves D w (snd (setCentralClusterFailed ev k msg w))"
proof -
  define w1 where "w1 = snd (checkCentralRequestCurrentStatus k CentralRequestStatusProvisioning w)"
  have c: "centrals w1 = centrals w" by (simp add: w1_def check_status_world)
  have "evolves D w (snd (central_Update ev (k\<lparr>crStatus := CentralRequestStatusFailed, crFailedReason := m\<rparr>) w1))" for m
    using central_Update_evolves [of "k\<lparr>crStatus := CentralRequestStatusFailed, crFailedReason := m\<rparr>" w1 D ev]
      evolves_trans [OF evolves_same [OF c]] by (simp add: guarded_def)
  then show ?thesis using evolves_same [OF c]
    by (simp add: setCentralClusterFailed_def case_prod_beta w1_def [symmetric] split: sum.split option.split)
qed

lemma set_deleting_evolves: "wf_ids w \<Longrightarrow> crID k \<in> D \<Longrightarrow> evolves D w (snd (setCentralClusterDeleting ev k w))"
  using evolves_mono [of "{crID k}" w "snd (UpdateStatus ev (crID k) CentralRequestStatusDeleting w)" D] ust_del.life_effect [of w "crID k" ev]
  by (simp add: setCentralClusterDeleting_def evolves_def case_prod_beta split: bool.split option.split)

lemma reassign_evolves: "evolves D w (snd (reassignCentralCluster ev k w))"
  using central_Update_evolves [of "k\<lparr>crPlacementID := evNewID ev\<rparr>" w D ev]
  by (simp add: reassignCentralCluster_def guarded_def)

lemma persist_routes_evolves: "guarded k w \<Longrightarrow> evolves D w (snd (persistCentralRoutes ev k ds c w))"
proof -
  assume g: "guarded k w"
  define w1 where "w1 = snd (GetClusterDNS (evProviders ev) (evNow ev) (clClusterID c) w)"
  have c: "centrals w1 = centrals w" by (simp add: w1_def GetClusterDNS_centrals)
  have "guarded (SetRoutes rs k) w1" for rs using g c by (simp add: SetRoutes_def guarded_def pk_match_def)
  then have "evolves D w (snd (central_Update ev (SetRoutes rs k) w1))" for rs
    using central_Update_evolves evolves_trans [OF evolves_same [OF c]] by blast
  then show ?thesis using evolves_same [OF c]
    by (simp add: persistCentralRoutes_def case_prod_beta w1_def [symmetric] Let_def split: sum.split option.split)
qed

lemma versions_evolves: "evolves D w (snd (setCentralRequestVersionFields ev k ds w))"
proof -
  have "evolves D w (snd (central_Updates ev k (\<lambda>r. r\<lparr>crActualCentralOperatorVersion := a, crActualCentralVersion := b,
      crCentralOperatorUpgrading := c, crCentralUpgrading := d\<rparr>) w))" for a b c d
    by (rule central_Updates_evolves) (simp add: life_step_def row_kept_def)
  then show ?thesis by (simp add: setCentralRequestVersionFields_def case_prod_beta Let_def split: option.split)
qed

lemma apply_status_evolves:
  assumes wf: "wf_ids w" and g: "guarded k w" and d: "getStatus ds = statusDeleted \<Longrightarrow> crID k \<in> D"
  shows "evolves D w (snd (apply_status ev c k ds w))"
proof -
  note p = persist_routes_evolves [OF g, of D ev ds c]
  have "evolves D w (snd (setCentralClusterReady ev k1 (snd (persistCentralRoutes ev k ds c w))))" for k1
    using p set_ready_evolves evolves_trans by blast
  then show ?thesis using p set_failed_evolves set_deleting_evolves [OF wf d] reassign_evolves
    by (simp add: apply_status_def case_prod_beta split: centralStatus.split option.split)
qed

lemma report_one_evolves:
  assumes wf: "wf_ids w" and d: "getStatus ds = statusDeleted \<Longrightarrow> dsCentralClusterID ds \<in> D"
  shows "evolves D w (snd (report_one ev cid c ds w))"
proof -
  obtain x w1 where x: "GetByID (dsCentralClusterID ds) w = (x, w1)" by fastforce
  have c1: "centrals w1 = centrals w" using GetByID_world [of "dsCentralClusterID ds" w] x by (simp split: if_splits)
  have wf1: "wf_ids w1" using wf c1 by (simp add: wf_ids_def)
  show ?thesis
  proof (cases x)
    case (Inl e)
    then show ?thesis using x c1 by (simp add: report_one_def evolves_same)
  next
    case (Inr k)
    have k: "k \<in> set (centrals w1)" "crID k = dsCentralClusterID ds" using GetByID_Inr [of "dsCentralClusterID ds" w k w1] x Inr c1 by simp_all
    then have a: "evolves D w1 (snd (apply_status ev c k ds w1))" using apply_status_evolves [OF wf1 guarded_listed [OF wf1]] d by simp
    then have "evolves D w1 (snd (setCentralRequestVersionFields ev k ds (snd (apply_status ev c k ds w1))))"
      using versions_evolves evolves_trans by blast
    then show ?thesis using a x Inr evolves_trans [OF evolves_same [OF c1]]
      by (auto simp: report_one_def evolves_same [OF c1] case_prod_beta split: bool.split)
  qed
qed

text \<open>The tenants that a report declares deleted.\<close>

definition finished :: "DataPlaneCentralStatus list \<Rightarrow> string set" where
  "finished dss = {dsCentralClusterID ds | ds. ds \<in> set dss \<and> getStatus ds = statusDeleted}"

lemma report_all_evolves: "wf_ids w \<Longrightarrow> finished dss \<subseteq> D \<Longrightarrow> evolves D w (snd (report_all ev cid c dss w))"
proof (induction dss arbitrary: w)
  case (Cons ds dss)
  have e: "evolves D w (snd (report_one ev cid c ds w))"
    by (rule report_one_evolves [OF Cons.prems(1)]) (use Cons.prems(2) in \<open>auto simp: finished_def\<close>)
  have "finished dss \<subseteq> D" using Cons.prems(2) by (auto simp: finished_def)
  then have "evolves D (snd (report_one ev cid c ds w)) (snd (report_all ev cid c dss (snd (report_one ev cid c ds w))))"
    using Cons.IH Cons.prems(1) evolves_wf [OF e] by blast
  then show ?case using e evolves_trans by (auto simp: case_prod_beta split: bool.split)
qed simp

lemma data_plane_evolves: "wf_ids w \<Longrightarrow> evolves (finished dss) w (snd (UpdateDataPlaneCentralService ev cid dss w))"
proof -
  assume wf: "wf_ids w"
  define w1 where "w1 = snd (FindClusterByID cid w)"
  have c: "centrals w1 = centrals w" by (simp add: w1_def FindClusterByID_centrals)
  have "wf_ids w1" using wf c by (simp add: wf_ids_def)
  then have "evolves (finished dss) w (snd (report_all ev cid c dss w1))" for c
    using report_all_evolves [of w1 dss "finished dss" ev cid c] evolves_trans [OF evolves_same] \<open>centrals w1 = centrals w\<close> by blast
  then show ?thesis using evolves_same [OF c]
    by (simp add: UpdateDataPlaneCentralService_def case_prod_beta w1_def [symmetric] split: sum.split option.split bool.split)
qed

subsection \<open>The workers and the reports meet the contract\<close>

lemma evolves_lifecycle: "(\<And>w. wf_ids w \<Longrightarrow> evolves D w (snd (op w))) \<Longrightarrow> lifecycle_update op (life_step D) D"
  by unfold_locales (auto simp: evolves_def life_step_def)

interpretation accepted_worker: lifecycle_update "accepted_Reconcile mg" "life_step {}" "{}" for mg
  unfolding accepted_Reconcile_def
  by (rule evolves_lifecycle) (rule reconcile_listed_evolves, auto simp: listings accepted_one_evolves)

interpretation preparing_worker: lifecycle_update "preparing_Reconcile mg" "life_step {}" "{}" for mg
  unfolding preparing_Reconcile_def
  by (rule evolves_lifecycle) (rule reconcile_listed_evolves, auto simp: listings preparing_one_evolves)

interpretation provisioning_worker: lifecycle_update "provisioning_Reconcile mg" "life_step {}" "{}" for mg
  unfolding provisioning_Reconcile_def
  by (rule evolves_lifecycle) (rule reconcile_listed_evolves, auto simp: listings FailIfTimeout_evolves case_prod_beta)

interpretation ready_worker: lifecycle_update ready_Reconcile "life_step {}" "{}"
  unfolding ready_Reconcile_def
  by (rule evolves_lifecycle) (rule reconcile_listed_evolves, auto simp: listings)

interpretation auth_worker: lifecycle_update "auth_config_Reconcile mg" "life_step {}" "{}" for mg
  unfolding auth_config_Reconcile_def
  by (rule evolves_lifecycle) (rule reconcile_listed_evolves, auto simp: listings auth_one_evolves)

interpretation cname_worker: lifecycle_update "cname_Reconcile mg" "life_step {}" "{}" for mg
  unfolding cname_Reconcile_def
  by (rule evolves_lifecycle) (rule reconcile_listed_evolves, auto simp: listings routes_one_evolves)

interpretation dinosaurs_worker: lifecycle_update "dinosaurs_Reconcile mg" "life_step {}" "{}" for mg
  by (rule evolves_lifecycle) (rule dinosaurs_evolves)

interpretation deleting_worker: lifecycle_update "deleting_Reconcile (mg\<lparr>mgEnv := fleet_env ams qm ev\<rparr>)" "life_step {}" "{}" for mg ams qm ev
  by (rule evolves_lifecycle) (rule fleet.deleting_evolves, simp_all)

interpretation reports: lifecycle_update "UpdateDataPlaneCentralService ev cid dss" "life_step (finished dss)" "finished dss" for ev cid dss
  by (rule evolves_lifecycle) (rule data_plane_evolves)

subsection \<open>All operations in any order\<close>

text \<open>Every step is one operation of the program at some time, with some environment and arguments.
  The last rule of \<open>control_step\<close> lets the database fail at any later statement. The reports of the data
  plane come from outside and are apart: they alone complete deletions.\<close>

inductive control_step :: "world \<Rightarrow> world \<Rightarrow> bool" where
  register: "evNewID ev \<noteq> [] \<Longrightarrow> live k \<Longrightarrow> control_step w (snd (RegisterDinosaurJob (fleet_env ams qm ev) k w))"
| deprovision: "control_step w (snd (RegisterDinosaurDeprovisionJob ev ctx rid w))"
| remove: "control_step w (snd (central_Delete ev k force w))"
| accepted: "control_step w (snd (accepted_Reconcile mg w))"
| preparing: "control_step w (snd (preparing_Reconcile mg w))"
| provisioning: "control_step w (snd (provisioning_Reconcile mg w))"
| ready: "control_step w (snd (ready_Reconcile w))"
| deleting: "control_step w (snd (deleting_Reconcile (mg\<lparr>mgEnv := fleet_env ams qm ev\<rparr>) w))"
| auth_config: "control_step w (snd (auth_config_Reconcile mg w))"
| cname: "control_step w (snd (cname_Reconcile mg w))"
| dinosaurs: "control_step w (snd (dinosaurs_Reconcile mg w))"
| database: "control_step w (w\<lparr>faults := fs\<rparr>)"

inductive fleet_step :: "world \<Rightarrow> world \<Rightarrow> bool" where
  control: "control_step w w' \<Longrightarrow> fleet_step w w'"
| report: "fleet_step w (snd (UpdateDataPlaneCentralService ev cid dss w))"

text \<open>What a step does to the table: the rows evolve, and a registration may add one more.\<close>

definition grows :: "string set \<Rightarrow> world \<Rightarrow> world \<Rightarrow> bool" where
  "grows D w w' \<longleftrightarrow> evolves D w w' \<or>
     (\<exists>k. centrals w' = centrals w @ [k] \<and> crID k \<notin> crID ` set (centrals w) \<and> crID k \<noteq> [] \<and>
        crStatus k = CentralRequestStatusAccepted \<and> live k)"

lemma grows_mono: "grows D w w' \<Longrightarrow> D \<subseteq> E \<Longrightarrow> grows E w w'"
  using evolves_mono by (auto simp: grows_def)

lemma register_grows:
  assumes "evNewID ev \<noteq> []" "live k"
  shows "grows D w (snd (RegisterDinosaurJob (fleet_env ams qm ev) k w))"
proof (cases "RegisterDinosaurJob (fleet_env ams qm ev) k w")
  case (Pair x w')
  show ?thesis
  proof (cases x)
    case (Inl e)
    then show ?thesis using fleet.register_error Pair by (simp add: grows_def evolves_same same_tables_def)
  next
    case (Inr k')
    from fleet.register_stored [OF Pair [unfolded Inr]]
    have "centrals w' = centrals w @ [k'] \<and> crID k' \<notin> crID ` set (centrals w) \<and> crID k' = evNewID (fleet_env ams qm ev) \<and>
        crStatus k' = CentralRequestStatusAccepted \<and> crDeletedAt k' = crDeletedAt k" by metis
    then show ?thesis using Pair assms by (auto simp: grows_def fleet_env_def live_def)
  qed
qed

lemma evolves_grows: "list_all2 (life_step D) (centrals w) (centrals w') \<Longrightarrow> grows D w w'"
  by (simp add: grows_def evolves_def)

lemma control_grows: "control_step w w' \<Longrightarrow> wf_ids w \<Longrightarrow> grows {} w w'"
proof (induction rule: control_step.induct)
  case (register ev w ams qm k)
  then show ?case by (simp add: register_grows)
next
  case (database w fs)
  then show ?case by (simp add: grows_def evolves_same)
qed (auto intro!: evolves_grows job.life_effect del.life_effect accepted_worker.life_effect
  preparing_worker.life_effect provisioning_worker.life_effect ready_worker.life_effect deleting_worker.life_effect
  auth_worker.life_effect cname_worker.life_effect dinosaurs_worker.life_effect)

lemma step_grows: "fleet_step w w' \<Longrightarrow> wf_ids w \<Longrightarrow> grows UNIV w w'"
  by (induction rule: fleet_step.induct)
     (auto intro: grows_mono [OF control_grows] grows_mono [OF evolves_grows [OF reports.life_effect]])

lemma grows_wf: "grows D w w' \<Longrightarrow> wf_ids w \<Longrightarrow> wf_ids w'"
  using evolves_wf [of D w w'] by (auto simp: grows_def wf_ids_def)

lemma grows_row:
  assumes "grows D w w'" "r \<in> set (centrals w)"
  shows "\<exists>r'\<in>set (centrals w'). life_step D r r'"
proof (cases "evolves D w w'")
  case True
  then show ?thesis using assms(2) list_all2_left [of "life_step D" "centrals w" "centrals w'" r] by (simp add: evolves_def)
next
  case False
  then have "r \<in> set (centrals w')" using assms by (auto simp: grows_def)
  then show ?thesis using life_step_refl by blast
qed

lemma grows_row_before:
  assumes "grows D w w'" "r' \<in> set (centrals w')"
  shows "crStatus r' = CentralRequestStatusAccepted \<or> (\<exists>r\<in>set (centrals w). life_step D r r')"
  using assms list_all2_right [of "life_step D" "centrals w" "centrals w'" r'] life_step_refl [of D r']
  by (auto simp: grows_def evolves_def simp del: life_step_refl)

lemma steps_wf: "rtranclp fleet_step w w' \<Longrightarrow> wf_ids w \<Longrightarrow> wf_ids w'"
  by (induction rule: rtranclp_induct) (auto dest: step_grows intro: grows_wf)

lemma steps_row:
  "rtranclp fleet_step w w' \<Longrightarrow> wf_ids w \<Longrightarrow> r \<in> set (centrals w) \<Longrightarrow> \<exists>r'\<in>set (centrals w'). life_step UNIV r r'"
proof (induction rule: rtranclp_induct)
  case base
  then show ?case using life_step_refl by blast
next
  case (step v v')
  then obtain s where "s \<in> set (centrals v)" "life_step UNIV r s" by blast
  moreover have "grows UNIV v v'" using step.hyps step.prems step_grows steps_wf by blast
  ultimately show ?case using grows_row [of UNIV v v' s] life_step_trans by blast
qed

text \<open>Every tenant in \<open>deprovision\<close> has its deletion timestamp.\<close>

definition stamped :: "world \<Rightarrow> bool" where
  "stamped w \<longleftrightarrow> (\<forall>r\<in>set (centrals w). crStatus r = CentralRequestStatusDeprovision \<longrightarrow> crDeletionTimestamp r \<noteq> None)"

lemma grows_stamped:
  assumes "grows D w w'" "stamped w"
  shows "stamped w'"
proof (unfold stamped_def, intro ballI impI)
  fix r' assume r': "r' \<in> set (centrals w')" and s: "crStatus r' = CentralRequestStatusDeprovision"
  then obtain r where "r \<in> set (centrals w)" "life_step D r r'" using grows_row_before [OF assms(1) r'] by auto
  then show "crDeletionTimestamp r' \<noteq> None" using assms(2) s unfolding stamped_def life_step_def by metis
qed

definition empty_world :: world where
  "empty_world = \<lparr>centrals = [], clusters = [], faults = [], events = []\<rparr>"

inductive_cases fleet_stepE: "fleet_step w w'"

end
