(* ===== verification/Central_Correct.thy ===== *)
theory Central_Correct
  imports Central_Create "HOL-Library.Multiset"
begin

text \<open>
  The properties of the reads, of the status changes and of the deletion in the central service:
  who sees and who removes a tenant, what a page of a listing holds, what a status change does, what
  the namespaces of tenants look like.
\<close>

subsection \<open>Who sees a tenant\<close>

text \<open>An admin sees every tenant, a member of an organisation the tenants of the organisation when the
  filter is set, anyone else the own tenants.\<close>

definition sees :: "request_context \<Rightarrow> CentralRequest \<Rightarrow> bool" where
  "sees ctx r \<longleftrightarrow> (\<exists>c. GetClaimsFromContext ctx = Inr c \<and>
     (GetIsAdminFromContext ctx \<or>
      or_empty (GetUsername c) \<noteq> [] \<and>
      (if GetFilterByOrganisationFromContext ctx then crOrganisationID r = or_empty (GetOrgID c)
       else crOwner r = or_empty (GetUsername c))))"

lemma visible_to_sees:
  "GetClaimsFromContext ctx = Inr c \<Longrightarrow> visible_to ctx c = Inr (u, V) \<Longrightarrow> V r \<longleftrightarrow> sees ctx r"
  by (auto simp: visible_to_def sees_def Let_def split: if_splits)

lemma visible_to_Inl: "GetClaimsFromContext ctx = Inr c \<Longrightarrow> visible_to ctx c = Inl e \<Longrightarrow> \<not> sees ctx r"
  by (auto simp: visible_to_def sees_def Let_def split: if_splits)

lemma first_central_unique:
  assumes "wf_ids w" "planned w = None" "r \<in> set (centrals w)" "live r" "P r" "\<And>r'. P r' \<Longrightarrow> crID r' = crID r"
  shows "first_central P w = (Inr r, next_stmt w)"
proof (cases "first_central P w")
  case (Pair f w1)
  have w1: "w1 = next_stmt w" using first_central_world [of P w] Pair by simp
  show ?thesis
  proof (cases f)
    case (Inl e)
    then have "filter (\<lambda>r. live r \<and> P r) (centrals w) = []" using first_central_None Pair assms(2) by simp
    then show ?thesis using assms(3-5) by (auto simp: filter_empty_conv)
  next
    case (Inr d)
    then have "d \<in> set (centrals w)" "P d" using first_central_Inr Pair by auto
    then have "d = r" using wf_ids_unique [OF assms(1) _ assms(3)] assms(6) by simp
    then show ?thesis using Pair Inr w1 by simp
  qed
qed

text \<open>C33: Tenant isolation of reads. With unique identifiers and a working database, \<^verbatim>\<open>Get\<close> returns the
  tenant of an identifier exactly to the requests that may see it; to any other request, and for an
  unknown or deleted tenant, it returns an error.\<close>

theorem get_isolation:
  assumes "wf_ids w" "planned w = None"
  shows "fst (central_Get ctx rid w) = Inr r \<longleftrightarrow>
     rid \<noteq> [] \<and> r \<in> set (centrals w) \<and> live r \<and> crID r = rid \<and> sees ctx r"
proof
  assume g: "fst (central_Get ctx rid w) = Inr r"
  then obtain c u V where c: "rid \<noteq> []" "GetClaimsFromContext ctx = Inr c" "visible_to ctx c = Inr (u, V)"
    "fst (first_central (\<lambda>r. crID r = rid \<and> V r) w) = Inr r"
    by (auto simp: central_Get_def split: if_splits sum.splits prod.splits)
  then show "rid \<noteq> [] \<and> r \<in> set (centrals w) \<and> live r \<and> crID r = rid \<and> sees ctx r"
    using first_central_Inr [of "\<lambda>r. crID r = rid \<and> V r" w r] visible_to_sees by (metis prod.collapse)
next
  assume a: "rid \<noteq> [] \<and> r \<in> set (centrals w) \<and> live r \<and> crID r = rid \<and> sees ctx r"
  then obtain c where c: "GetClaimsFromContext ctx = Inr c" by (auto simp: sees_def)
  then obtain u V where V: "visible_to ctx c = Inr (u, V)" using visible_to_Inl a by (cases "visible_to ctx c") auto
  have "first_central (\<lambda>r. crID r = rid \<and> V r) w = (Inr r, next_stmt w)"
    using a visible_to_sees [OF c V] by (intro first_central_unique [OF assms]) auto
  then show "fst (central_Get ctx rid w) = Inr r" using a c V by (simp add: central_Get_def)
qed

definition alice_context :: request_context where
  "alice_context = \<lparr>ctxToken = Inr (Some [''username'' \<mapsto> CStr ''alice'', ''org_id'' \<mapsto> CStr ''org1'']), ctxIsAdmin = None,
     ctxFilterByOrganisation = Some True\<rparr>"

definition mallory_context :: request_context where
  "mallory_context = \<lparr>ctxToken = Inr (Some [''username'' \<mapsto> CStr ''mallory'', ''org_id'' \<mapsto> CStr ''org2'']), ctxIsAdmin = None,
     ctxFilterByOrganisation = Some True\<rparr>"

definition tenant_world :: world where
  "tenant_world = sample_world\<lparr>centrals := [sample_tenant, sample_tenant\<lparr>crID := ''tenant2'', crOrganisationID := ''org3'', crOwner := ''eve''\<rparr>]\<rparr>"

lemma tenant_world_ok: "wf_ids tenant_world" "planned tenant_world = None" "no_faults tenant_world"
  by (simp_all add: tenant_world_def sample_world_def sample_tenant_def wf_ids_def planned_def no_faults_def)

lemma sees_sample: "sees alice_context sample_tenant" "\<not> sees mallory_context sample_tenant"
  by (simp_all add: sees_def alice_context_def mallory_context_def GetClaimsFromContext_def GetIsAdminFromContext_def
      GetFilterByOrganisationFromContext_def GetUsername_def GetOrgID_def first_string_claim_def or_empty_def
      tenantUsernameClaim_def tenantIDClaim_def alternateTenantUsernameClaim_def alternateTenantIDClaim_def
      sample_tenant_def sample_request_def)

theorem get_isolation_witness:
  "fst (central_Get alice_context ''tenant1'' tenant_world) = Inr sample_tenant \<and>
   fst (central_Get mallory_context ''tenant1'' tenant_world) \<noteq> Inr sample_tenant"
  using get_isolation [OF tenant_world_ok(1,2), of alice_context "''tenant1''" sample_tenant]
    get_isolation [OF tenant_world_ok(1,2), of mallory_context "''tenant1''" sample_tenant] sees_sample
  by (simp add: tenant_world_def sample_tenant_def sample_request_def empty_central_def live_def)

subsection \<open>Pages of a listing\<close>

lemma concat_pages: "concat (map (\<lambda>p. take s (drop ((p - 1) * s) xs)) [1..<Suc m]) = take (m * s) xs"
proof (induction m)
  case (Suc m)
  have "[1..<Suc (Suc m)] = [1..<Suc m] @ [Suc m]" by simp
  then show ?case using Suc by (simp add: take_add add.commute [of s])
qed simp

lemma page_of_nat: "0 < p \<Longrightarrow> int ((p - 1) * s) < 2 ^ 63 \<Longrightarrow> page_of (int p) (int s) xs = take s (drop ((p - 1) * s) xs)"
proof -
  assume "0 < p" and b: "int ((p - 1) * s) < 2 ^ 63"
  then have "(int p - 1) * int s = int ((p - 1) * s)" by (simp add: of_nat_diff)
  moreover have "wrap_int64 (int ((p - 1) * s)) = int ((p - 1) * s)" using b of_nat_0_le_iff [of "(p - 1) * s"] by (intro wrap_int64_id) linarith+
  ultimately show ?thesis by (auto simp: page_of_def Let_def simp del: of_nat_mult of_nat_diff)
qed

text \<open>What a request lists: the rows of the answer, none for an error.\<close>

definition list_rows :: "(service_error + CentralRequest list \<times> PagingMeta) option \<Rightarrow> CentralRequest list" where
  "list_rows res = (case res of Some (Inr (rs, _)) \<Rightarrow> rs | _ \<Rightarrow> [])"

lemma central_List_page:
  assumes w: "no_faults w" and c: "GetClaimsFromContext ctx = Inr c" and V: "visible_to ctx c = Inr (u, V)"
    and S: "search_condition rcap sm (laSearch la) = Some (Inr S)"
  shows "fst (central_List rcap sm ord ctx la w) =
     (let xs = filter (\<lambda>r. live r \<and> sees ctx r \<and> S r) (centrals w);
          sz = (if laSize la > int (length xs) then int (length xs) else laSize la) in
      Some (Inr (page_of (laPage la) sz (ord (if laOrderBy la = [] then [''name''] else laOrderBy la) xs),
        \<lparr>pmPage = laPage la, pmSize = sz, pmTotal = int (length xs)\<rparr>)))"
proof -
  have "V = sees ctx" using visible_to_sees [OF c V] by blast
  then show ?thesis using w c V S
    by (simp add: central_List_def count_centrals_unfold find_centrals_unfold Let_def)
qed


definition sample_list :: ListArguments where
  "sample_list = \<lparr>laPage = 1, laSize = 1, laSearch = [], laOrderBy = []\<rparr>"


subsection \<open>Status changes\<close>

lemma GetByID_found:
  "wf_ids w \<Longrightarrow> planned w = None \<Longrightarrow> r \<in> set (centrals w) \<Longrightarrow> live r \<Longrightarrow> GetByID (crID r) w = (Inr r, next_stmt w)"
  using first_central_unique [of w r "\<lambda>x. crID x = crID r"] wf_ids_nonempty [of w r] by (simp add: GetByID_def)

text \<open>Status change. With unique identifiers and a working database, \<^verbatim>\<open>UpdateStatus\<close> of a live
  tenant is refused, without effect, when the tenant has the status already or is in \<open>deprovision\<close>
  and the new status is not \<open>deleting\<close>; otherwise it is carried out on that row alone, which gets the
  new status and, for \<open>deprovision\<close>, the time as its deletion timestamp.\<close>

theorem update_status_effect:
  assumes "wf_ids w" "no_faults w" "r \<in> set (centrals w)" "live r"
  shows "if crStatus r = s \<or> crStatus r = CentralRequestStatusDeprovision \<and> s \<noteq> CentralRequestStatusDeleting
    then fst (fst (UpdateStatus ev (crID r) s w)) = False \<and> snd (fst (UpdateStatus ev (crID r) s w)) \<noteq> None \<and>
         centrals (snd (UpdateStatus ev (crID r) s w)) = centrals w
    else fst (UpdateStatus ev (crID r) s w) = (True, None) \<and>
         centrals (snd (UpdateStatus ev (crID r) s w)) =
           map (\<lambda>x. if crID x = crID r then r\<lparr>crStatus := nz s (crStatus r), crUpdatedAt := evNow ev,
                  crDeletionTimestamp := (if s = CentralRequestStatusDeprovision then Some (evNow ev) else crDeletionTimestamp r)\<rparr> else x)
             (centrals w)"
proof -
  have g: "GetByID (crID r) w = (Inr r, next_stmt w)" using GetByID_found assms by simp
  have row: "assign_central (evNow ev) (status_update ev s) r = r\<lparr>crStatus := nz s (crStatus r), crUpdatedAt := evNow ev,
     crDeletionTimestamp := (if s = CentralRequestStatusDeprovision then Some (evNow ev) else crDeletionTimestamp r)\<rparr>"
    by (simp add: assign_central_def status_update_def empty_central_def nz_defs)
  have "map (\<lambda>x. if live x \<and> crID x = crID r then assign_central (evNow ev) (status_update ev s) x else x) (centrals w) =
        map (\<lambda>x. if crID x = crID r then assign_central (evNow ev) (status_update ev s) r else x) (centrals w)"
  proof (rule map_cong)
    fix x assume "x \<in> set (centrals w)"
    then have "crID x = crID r \<Longrightarrow> x = r" using wf_ids_unique [OF assms(1) _ assms(3)] by simp
    then show "(if live x \<and> crID x = crID r then assign_central (evNow ev) (status_update ev s) x else x) =
        (if crID x = crID r then assign_central (evNow ev) (status_update ev s) r else x)" using assms(4) by auto
  qed simp
  then show ?thesis using assms(2)
    unfolding UpdateStatus_def g row by (simp add: update_centrals_unfold row)
qed

text \<open>\<^verbatim>\<open>UpdateStatus\<close> lets a tenant that is being deleted go back to \<open>deprovision\<close>.\<close>

theorem update_status_effect_witness:
  "fst (UpdateStatus sample_env ''tenant1'' CentralRequestStatusDeprovision
      (tenant_world\<lparr>centrals := [sample_tenant\<lparr>crStatus := CentralRequestStatusDeleting\<rparr>]\<rparr>)) = (True, None)"
proof -
  let ?r = "sample_tenant\<lparr>crStatus := CentralRequestStatusDeleting\<rparr>"
  have r: "crID ?r = ''tenant1''" "live ?r"
    by (simp_all add: sample_tenant_def sample_request_def empty_central_def live_def)
  have "wf_ids (tenant_world\<lparr>centrals := [?r]\<rparr>)" "no_faults (tenant_world\<lparr>centrals := [?r]\<rparr>)"
    using tenant_world_ok r(1) by (simp_all add: wf_ids_def no_faults_def)
  then show ?thesis
    using update_status_effect [of "tenant_world\<lparr>centrals := [?r]\<rparr>" ?r CentralRequestStatusDeprovision sample_env] r by simp
qed

subsection \<open>Deletion\<close>

text \<open>C35: Authorization of deprovisioning. \<^verbatim>\<open>RegisterDinosaurDeprovisionJob\<close> changes a row only when the
  caller is an admin, an administrator of the tenant's organisation, or its owner, only the row of the
  given identifier, and only to the status \<open>deprovision\<close> with the time stamped; every other row stays.\<close>

theorem deprovision_authorized:
  assumes "wf_ids w" "r' \<in> set (centrals (snd (RegisterDinosaurDeprovisionJob ev ctx rid w)))" "r' \<notin> set (centrals w)"
  shows "\<exists>r\<in>set (centrals w). \<exists>c. live r \<and> crID r = rid \<and> crStatus r \<noteq> CentralRequestStatusDeprovision \<and>
     GetClaimsFromContext ctx = Inr c \<and> may_deprovision ctx c r \<and>
     r' = r\<lparr>crStatus := CentralRequestStatusDeprovision, crUpdatedAt := evNow ev, crDeletionTimestamp := Some (evNow ev)\<rparr>"
proof -
  obtain r where r: "r \<in> set (centrals w)" "deprovision_rel ev ctx rid r r'"
    using job.row_before [OF assms(1,2)] by blast
  moreover have "r' \<noteq> r" using r(1) assms(3) by blast
  ultimately show ?thesis
    unfolding deprovision_rel_def status_rel_def
    by (auto simp: assign_central_def status_update_def empty_central_def nz_defs)
qed

lemma RegisterDeprovision_authorized_run:
  assumes "wf_ids w" "no_faults w" "r \<in> set (centrals w)" "live r" "GetClaimsFromContext ctx = Inr c" "may_deprovision ctx c r"
  shows "RegisterDinosaurDeprovisionJob ev ctx (crID r) w =
    (case UpdateStatus ev (crID r) CentralRequestStatusDeprovision (next_stmt w) of
       ((True, Some e), w2) \<Rightarrow> (Some (HandleGetError ''CentralResource'' ''id'' (crID r) (SvcErr e)), w2)
     | (_, w2) \<Rightarrow> (None, w2))"
proof -
  have "first_central (\<lambda>x. crID x = crID r \<and> (if GetIsAdminFromContext ctx then True
        else if IsOrgAdmin c then crOrganisationID x = or_empty (GetOrgID c) else crOwner x = or_empty (GetUsername c))) w = (Inr r, next_stmt w)"
    using assms by (intro first_central_unique) (auto simp: may_deprovision_def)
  then show ?thesis using assms(5) wf_ids_nonempty [OF assms(1,3)] by (simp add: RegisterDinosaurDeprovisionJob_def)
qed

lemma alice_claims: "\<exists>c. GetClaimsFromContext alice_context = Inr c \<and> may_deprovision alice_context c sample_tenant"
  by (simp add: alice_context_def GetClaimsFromContext_def may_deprovision_def IsOrgAdmin_def tenantOrgAdminClaim_def
      GetUsername_def first_string_claim_def or_empty_def tenantUsernameClaim_def sample_tenant_def sample_request_def)

theorem deprovision_authorized_witness:
  "(let r' = sample_tenant\<lparr>crStatus := CentralRequestStatusDeprovision, crUpdatedAt := 100, crDeletionTimestamp := Some 100\<rparr> in
    r' \<in> set (centrals (snd (RegisterDinosaurDeprovisionJob sample_env alice_context ''tenant1'' tenant_world))) \<and>
    (\<exists>r\<in>set (centrals tenant_world). crID r = ''tenant1'' \<and> (\<exists>c. may_deprovision alice_context c r)))"
proof -
  let ?r' = "sample_tenant\<lparr>crStatus := CentralRequestStatusDeprovision, crUpdatedAt := 100, crDeletionTimestamp := Some 100\<rparr>"
  have 1: "?r' \<in> set (centrals (snd (RegisterDinosaurDeprovisionJob sample_env alice_context ''tenant1'' tenant_world)))"
    by code_simp
  have 2: "?r' \<notin> set (centrals tenant_world)" by code_simp
  show ?thesis using deprovision_authorized [OF tenant_world_ok(1) 1 2] 1 by (auto simp: Let_def)
qed

text \<open>Expiry. After \<^verbatim>\<open>DeprovisionExpiredDinosaurs\<close> with a working database every live evaluation
  tenant of the given age is under deletion; a row that changed was a live evaluation tenant of that
  age not under deletion, and now is in \<open>deprovision\<close> with the time stamped.\<close>

theorem deprovision_expired_exact:
  assumes "planned w = None"
  shows "\<forall>i < length (centrals w).
    (let r = centrals w ! i; r' = centrals (snd (DeprovisionExpiredDinosaurs ev age w)) ! i in
     if live r \<and> expired ev age r \<and> \<not> under_deletion r
     then r' = r\<lparr>crStatus := CentralRequestStatusDeprovision, crDeletionTimestamp := Some (evNow ev), crUpdatedAt := evNow ev\<rparr>
     else r' = r)"
  using assms
  by (simp add: DeprovisionExpiredDinosaurs_def update_centrals_unfold set_deprovision_def expired_def not_under_deletion_iff Let_def)

theorem deprovision_expired_exact_witness:
  "planned tenant_world = None \<and>
   (let w = tenant_world\<lparr>centrals := [sample_tenant\<lparr>crCreatedAt := - 48 * hour\<rparr>]\<rparr> in
    centrals (snd (DeprovisionExpiredDinosaurs sample_env 48 w)) ! 0 =
      sample_tenant\<lparr>crCreatedAt := - 48 * hour, crStatus := CentralRequestStatusDeprovision, crDeletionTimestamp := Some 100, crUpdatedAt := 100\<rparr>)"
proof -
  let ?w = "tenant_world\<lparr>centrals := [sample_tenant\<lparr>crCreatedAt := - 48 * hour\<rparr>]\<rparr>"
  have p: "planned ?w = None" using tenant_world_ok(2) by (simp add: planned_def)
  show ?thesis
    using deprovision_expired_exact [OF p, of sample_env 48] tenant_world_ok(2)
    by (simp add: Let_def expired_def sample_tenant_def sample_request_def empty_central_def live_def sample_env_def)
qed

text \<open>C36: An authorized deprovisioning takes effect: with unique identifiers and a working database it
  returns no error, and the tenant of the identifier is in \<open>deprovision\<close> afterwards.\<close>

theorem deprovision_takes_effect:
  assumes "wf_ids w" "no_faults w" "r \<in> set (centrals w)" "live r"
    "GetClaimsFromContext ctx = Inr c" "may_deprovision ctx c r"
  shows "fst (RegisterDinosaurDeprovisionJob ev ctx (crID r) w) = None \<and>
    (\<exists>r'\<in>set (centrals (snd (RegisterDinosaurDeprovisionJob ev ctx (crID r) w))).
       crID r' = crID r \<and> live r' \<and> crStatus r' = CentralRequestStatusDeprovision)"
proof -
  note run = RegisterDeprovision_authorized_run [OF assms, of ev]
  have g: "GetByID (crID r) (next_stmt w) = (Inr r, next_stmt (next_stmt w))" using GetByID_found assms by simp
  show ?thesis
  proof (cases "crStatus r = CentralRequestStatusDeprovision")
    case True
    then show ?thesis using run g assms(3,4) by (auto simp: UpdateStatus_def)
  next
    case False
    let ?f = "assign_central (evNow ev) (status_update ev CentralRequestStatusDeprovision)"
    have j: "fst (RegisterDinosaurDeprovisionJob ev ctx (crID r) w) = None"
      "centrals (snd (RegisterDinosaurDeprovisionJob ev ctx (crID r) w)) = map (\<lambda>x. if live x \<and> crID x = crID r then ?f x else x) (centrals w)"
      using run g False assms(2) by (simp_all add: UpdateStatus_def update_centrals_unfold)
    have "?f r \<in> set (map (\<lambda>x. if live x \<and> crID x = crID r then ?f x else x) (centrals w))"
      using assms(3,4) by (force simp: image_iff)
    moreover have "crID (?f r) = crID r" "live (?f r)" "crStatus (?f r) = CentralRequestStatusDeprovision"
      using assms(4) by (simp_all add: live_def nz_def nzo_def)
    ultimately show ?thesis using j by metis
  qed
qed

theorem deprovision_takes_effect_witness:
  "fst (RegisterDinosaurDeprovisionJob sample_env alice_context ''tenant1'' tenant_world) = None"
proof -
  obtain c where c: "GetClaimsFromContext alice_context = Inr c" "may_deprovision alice_context c sample_tenant"
    using alice_claims by blast
  have r: "sample_tenant \<in> set (centrals tenant_world)" "live sample_tenant" "crID sample_tenant = ''tenant1''"
    by (simp_all add: tenant_world_def sample_tenant_def sample_request_def empty_central_def live_def)
  show ?thesis using deprovision_takes_effect [OF tenant_world_ok(1,3) r(1,2) c, of sample_env] r(3) by simp
qed

text \<open>Removal. \<^verbatim>\<open>Delete\<close> without error leaves no live row of the identifier; with an error the table
  is as it was. Without \<^verbatim>\<open>force\<close>, an error in removing the DNS records is returned.\<close>

theorem delete_effect:
  "case central_Delete ev k force w of
     (None, w') \<Rightarrow> \<not> (\<exists>r\<in>set (centrals w'). live r \<and> crID r = crID k)
   | (Some e, w') \<Rightarrow> centrals w' = centrals w"
proof -
  have row: "case delete_row ev k v of (None, w') \<Rightarrow> \<not> (\<exists>r\<in>set (centrals w'). live r \<and> crID r = crID k)
     | (Some e, w') \<Rightarrow> centrals w' = centrals v" for v
    by (auto simp: delete_row_def delete_central_def update_centrals_unfold stmt_unfold live_def split: option.splits)
  define w1 where "w1 = snd (ChangeDinosaurCNAMErecords ev k DinosaurRoutesActionDelete w)"
  have c: "centrals w1 = centrals w"
    using ChangeDinosaurCNAMErecords_frame [of w ev k DinosaurRoutesActionDelete] by (simp add: w1_def same_tables_def)
  have "(\<exists>e. central_Delete ev k force w = (Some e, w)) \<or> (\<exists>e. central_Delete ev k force w = (Some e, w1)) \<or>
      central_Delete ev k force w = delete_row ev k w \<or> central_Delete ev k force w = delete_row ev k w1"
    by (auto simp: central_Delete_def w1_def case_prod_beta split: sum.split)
  then show ?thesis using row [of w] row [of w1] c by (auto split: prod.splits option.splits)
qed

subsection \<open>Namespaces\<close>

abbreviation label_char :: "char \<Rightarrow> bool" where
  "label_char \<equiv> in_class (CharClass False ((CHR ''-'', CHR ''-'') # lower_alnum))"

abbreviation alnum :: "char \<Rightarrow> bool" where
  "alnum \<equiv> in_class (CharClass False lower_alnum)"

lemma alnum_label: "alnum c \<Longrightarrow> label_char c"
  by (simp add: in_class_def)

lemma label_dash: "label_char c \<Longrightarrow> c \<noteq> CHR ''-'' \<Longrightarrow> alnum c"
  using in_class_single [of False "CHR ''-''" c] by (auto simp: in_class_def)

lemma dns_label_iff:
  "re_match dns1123Label s \<longleftrightarrow> s \<noteq> [] \<and> alnum (hd s) \<and> alnum (last s) \<and> list_all label_char s"
proof
  assume "re_match dns1123Label s"
  then show "s \<noteq> [] \<and> alnum (hd s) \<and> alnum (last s) \<and> list_all label_char s"
    by (auto simp: dns1123Label_def opt_def match_simps alnum_label)
next
  assume a: "s \<noteq> [] \<and> alnum (hd s) \<and> alnum (last s) \<and> list_all label_char s"
  then obtain c cs where s: "s = c # cs" by (cases s) auto
  show "re_match dns1123Label s"
  proof (cases cs rule: rev_cases)
    case Nil
    then show ?thesis using a s by (auto simp: dns1123Label_def opt_def match_simps)
  next
    case (snoc ds d)
    then have "s = [c] @ (ds @ [d])" "alnum c" "alnum d" "list_all label_char ds" using a s by auto
    then show ?thesis unfolding dns1123Label_def opt_def match_simps by blast
  qed
qed

lemma trim_right_last: "trim_right_char c s = [] \<or> last (trim_right_char c s) \<noteq> c"
  using hd_dropWhile [of "\<lambda>x. x = c" "rev s"] by (auto simp: trim_right_char_def last_rev)

lemma trim_right_append: "x \<noteq> c \<Longrightarrow> trim_right_char c (xs @ x # ys) = xs @ x # trim_right_char c ys"
  by (cases "\<forall>y\<in>set ys. y = c") (auto simp: trim_right_char_def dropWhile_append3)

lemma set_trim_right: "set (trim_right_char c s) \<subseteq> set s"
  unfolding trim_right_char_def using set_dropWhileD [of _ "\<lambda>x. x = c" "rev s"] by auto

lemma length_trim_right: "length (trim_right_char c s) \<le> length s"
  unfolding trim_right_char_def using length_dropWhile_le [of "\<lambda>x. x = c" "rev s"] by simp

lemma alnum_dash: "alnum c \<Longrightarrow> c \<noteq> CHR ''-''"
  by (auto simp: in_class_def lower_alnum_def)

lemma FormatNamespace_shape:
  assumes "FormatNamespace text = Inr ns"
  obtains c cs where "text = c # cs" "alnum c" "alnum (last text)" "list_all label_char cs" "ns = ''rhacs-'' @ c # trim_right_char (CHR ''-'') (take 56 cs)"
proof -
  have m: "re_match dns1123Label text" and
    ns: "ns = trim_right_char (CHR ''-'') (truncateString (''rhacs-'' @ text) 63)"
    using assms by (auto simp: FormatNamespace_def LabelValueMaxLength_def split: if_splits)
  then obtain c cs where t: "text = c # cs" "alnum c" "alnum (last text)" "list_all label_char cs"
    unfolding dns_label_iff by (cases "text") auto
  have "truncateString (''rhacs-'' @ text) 63 = ''rhacs-'' @ c # take 56 cs"
    using t(1) by (simp add: truncateString_def)
  then show thesis using that t ns trim_right_append [OF alnum_dash [OF t(2)], of "''rhacs-''" "take 56 cs"] by simp
qed

text \<open>Namespaces. The namespace of a tenant, when there is one, is a valid DNS label (lower-case
  letters, digits and dashes, no dash at either end) of at most 63 characters that starts with
  \<^verbatim>\<open>rhacs-\<close>; for identifiers of up to 57 characters it is the identifier behind that prefix, so that
  different tenants have different namespaces.\<close>

theorem namespace_valid:
  assumes "FormatNamespace text = Inr ns"
  shows "re_match dns1123Label ns \<and> length ns \<le> 63 \<and> has_prefix ns ''rhacs-'' \<and> (length text \<le> 57 \<longrightarrow> ns = ''rhacs-'' @ text)"
proof -
  obtain c cs where t: "text = c # cs" "alnum c" "alnum (last text)" "list_all label_char cs"
    "ns = ''rhacs-'' @ c # trim_right_char (CHR ''-'') (take 56 cs)"
    using FormatNamespace_shape [OF assms] by metis
  let ?tr = "trim_right_char (CHR ''-'') (take 56 cs)"
  have lab: "\<forall>x\<in>set ?tr. label_char x"
    using t(4) set_trim_right [of "CHR ''-''" "take 56 cs"] set_take_subset [of 56 cs] by (auto simp: list_all_iff)
  then have "alnum (last (c # ?tr))"
    using t(2) trim_right_last [of "CHR ''-''" "take 56 cs"] label_dash by (cases "?tr = []") auto
  moreover have "alnum (CHR ''r'')" "list_all label_char ''rhacs-''" by (simp_all add: in_class_def lower_alnum_def)
  ultimately have "re_match dns1123Label ns"
    unfolding dns_label_iff t(5) using t(2) alnum_label lab by (auto simp: list_all_iff)
  moreover have "length ns \<le> 63" using length_trim_right [of "CHR ''-''" "take 56 cs"] t(5) by simp
  moreover have "ns = ''rhacs-'' @ text" if "length text \<le> 57"
  proof -
    have "cs = [] \<or> last cs \<noteq> CHR ''-''" using t(1,3) alnum_dash [of "last cs"] by auto
    then show ?thesis using trim_right_char_id [of cs "CHR ''-''"] that t(1,5) by simp
  qed
  ultimately show ?thesis using t(5) by (simp add: has_prefix_def)
qed

theorem namespace_valid_witness:
  "FormatNamespace ''cfo2g0e2v5hfk5r2ajkg'' = Inr ''rhacs-cfo2g0e2v5hfk5r2ajkg'' \<and> re_match dns1123Label ''rhacs-cfo2g0e2v5hfk5r2ajkg''"
proof -
  have "FormatNamespace ''cfo2g0e2v5hfk5r2ajkg'' = Inr ''rhacs-cfo2g0e2v5hfk5r2ajkg''" by code_simp
  then show ?thesis using namespace_valid by blast
qed

subsection \<open>Counts\<close>

lemma group_count_lookup: "map_of (group_count ks) k = (if k \<in> set ks then Some (int (length (filter (\<lambda>x. x = k) ks))) else None)"
  unfolding group_count_def by (simp add: map_of_map_restrict restrict_map_def)

lemma group_count_keys: "map fst (group_count ks) = remdups ks"
  by (simp add: group_count_def comp_def)

text \<open>Counting by status. For distinct statuses and a working database the answer has exactly one
  entry per status asked for, and the entry counts the live tenants in that status, zero included.\<close>

theorem count_by_status_exact:
  assumes "planned w = None" "distinct status" "fst (CountByStatus status w) = Inr res"
  shows "distinct (map fst res) \<and> set (map fst res) = set status \<and>
    (\<forall>s\<in>set status. map_of res s = Some (int (length (filter (\<lambda>r. live r \<and> crStatus r = s) (centrals w)))))"
proof -
  let ?rs = "filter (\<lambda>r. live r \<and> crStatus r \<in> set status) (centrals w)"
  let ?g = "group_count (map crStatus ?rs)"
  have res: "res = add_missing status ?g"
    using assms by (auto simp: CountByStatus_def find_centrals_unfold)
  have keys: "fst ` set ?g = crStatus ` set ?rs" using group_count_keys [of "map crStatus ?rs"] by (metis list.set_map set_remdups)
  have d: "distinct (map fst ?g)" by (simp add: group_count_keys)
  have cnt: "map_of res s = Some (int (length (filter (\<lambda>r. live r \<and> crStatus r = s) (centrals w))))" if s: "s \<in> set status" for s
  proof -
    have f: "filter (\<lambda>x. x = s) (map crStatus ?rs) = map crStatus (filter (\<lambda>r. live r \<and> crStatus r = s) (centrals w))"
      using s by (auto simp: filter_map comp_def intro!: arg_cong [of _ _ "map crStatus"] filter_cong)
    have app: "map_of res s = (map_of (map (\<lambda>k. (k, 0)) (filter (\<lambda>k. k \<notin> fst ` set ?g) status)) ++ map_of ?g) s"
      by (simp only: res add_missing_def map_of_append)
    show ?thesis
    proof (cases "s \<in> crStatus ` set ?rs")
      case True
      then have "map_of ?g s = Some (int (length (filter (\<lambda>r. live r \<and> crStatus r = s) (centrals w))))"
        unfolding group_count_lookup f by simp
      then show ?thesis using app by (simp only: map_add_find_right)
    next
      case False
      then have "map_of ?g s = None" "s \<in> set (filter (\<lambda>k. k \<notin> fst ` set ?g) status)"
        using keys s by (simp_all only: group_count_lookup set_map set_filter) auto
      moreover have "filter (\<lambda>r. live r \<and> crStatus r = s) (centrals w) = []"
        using False s by (auto simp: filter_empty_conv)
      ultimately show ?thesis using app by (simp add: map_add_def map_of_map_restrict)
    qed
  qed
  have "distinct (map fst res)"
    using d assms(2) by (simp add: res add_missing_def comp_def) auto
  moreover have "set (map fst res) = set status"
    using keys by (auto simp: res add_missing_def image_Un image_image)
  ultimately show ?thesis using cnt by blast
qed

theorem count_by_status_exact_witness:
  "fst (CountByStatus [CentralRequestStatusAccepted, CentralRequestStatusReady] tenant_world) =
     Inr [(CentralRequestStatusAccepted, 2), (CentralRequestStatusReady, 0)] \<and>
   map_of [(CentralRequestStatusAccepted, 2), (CentralRequestStatusReady, 0)] CentralRequestStatusReady =
     Some (int (length (filter (\<lambda>r. live r \<and> crStatus r = CentralRequestStatusReady) (centrals tenant_world))))"
proof -
  have r: "fst (CountByStatus [CentralRequestStatusAccepted, CentralRequestStatusReady] tenant_world) =
     Inr [(CentralRequestStatusAccepted, 2), (CentralRequestStatusReady, 0)]" by code_simp
  show ?thesis using count_by_status_exact [OF tenant_world_ok(2) _ r] r by simp
qed

end
