(* ===== verification/Data_Plane_Correct.thy ===== *)
theory Data_Plane_Correct
  imports Fleet_Lifecycle Central_Correct
begin

text \<open>
  What a report of the data plane can do: it touches only the tenants of the reporting cluster, keeps
  whose they are and where they run, and makes a tenant ready only after its DNS records exist.
\<close>

subsection \<open>The effect of a report on a row\<close>

text \<open>The fields a report leaves alone.\<close>

definition tenancy :: "CentralRequest \<Rightarrow> string list \<times> bool \<times> int option \<times> int option" where
  "tenancy r = ([crID r, crClusterID r, crOwner r, crOrganisationID r, crRegion r, crInstanceType r, crHost r, crNamespace r],
     crRoutesCreated r, crDeletedAt r, crDeletionTimestamp r)"

definition report_rel :: "string \<Rightarrow> CentralRequest \<Rightarrow> CentralRequest \<Rightarrow> bool" where
  "report_rel cid r r' \<longleftrightarrow> r' = r \<or>
     (live r \<and> crClusterID r = cid \<and> tenancy r' = tenancy r \<and>
      (crStatus r' = crStatus r \<or> crStatus r' = CentralRequestStatusDeleting \<or>
       \<not> under_deletion r \<and> (crStatus r' = CentralRequestStatusFailed \<or>
         crStatus r' = CentralRequestStatusReady \<and> crRoutesCreated r)))"

lemma report_rel_refl [simp]: "report_rel cid r r"
  by (simp add: report_rel_def)

lemma report_rel_trans: "report_rel cid r s \<Longrightarrow> report_rel cid s t \<Longrightarrow> report_rel cid r t"
  unfolding report_rel_def tenancy_def live_def by auto

lemma report_rel_kept: "report_rel cid r r' \<Longrightarrow> row_kept r r'"
  by (auto simp: report_rel_def row_kept_def tenancy_def)

definition reported :: "string \<Rightarrow> world \<Rightarrow> world \<Rightarrow> bool" where
  "reported cid w w' \<longleftrightarrow> list_all2 (report_rel cid) (centrals w) (centrals w')"

lemma reported_same: "centrals w' = centrals w \<Longrightarrow> reported cid w w'"
  by (simp add: reported_def list_all2_same)

lemma reported_trans: "reported cid w w' \<Longrightarrow> reported cid w' w'' \<Longrightarrow> reported cid w w''"
  unfolding reported_def by (rule list_all2_compose) (auto intro: report_rel_trans)

text \<open>The request \<open>k\<close> that an operation works on agrees with its row on the fields that reports leave alone,
  and, as long as nothing was written, on the status.\<close>

definition current :: "string \<Rightarrow> CentralRequest \<Rightarrow> world \<Rightarrow> bool" where
  "current cid k w \<longleftrightarrow> crClusterID k = cid \<and> crID k \<noteq> [] \<and> (\<forall>r\<in>set (centrals w). crID r = crID k \<longrightarrow> tenancy r = tenancy k)"

definition fresh :: "string \<Rightarrow> CentralRequest \<Rightarrow> world \<Rightarrow> bool" where
  "fresh cid k w \<longleftrightarrow> current cid k w \<and> (\<forall>r\<in>set (centrals w). crID r = crID k \<longrightarrow> crStatus r = crStatus k)"

lemma fresh_same: "centrals w' = centrals w \<Longrightarrow> fresh cid k w' = fresh cid k w"
  by (simp add: fresh_def current_def)

lemma current_same: "centrals w' = centrals w \<Longrightarrow> current cid k w' = current cid k w"
  by (simp add: current_def)

lemma current_fields: "tenancy k' = tenancy k \<Longrightarrow> current cid k w \<Longrightarrow> current cid k' w"
  by (simp add: current_def tenancy_def)

lemma fresh_listed: "wf_ids w \<Longrightarrow> k \<in> set (centrals w) \<Longrightarrow> crClusterID k = cid \<Longrightarrow> fresh cid k w"
  using wf_ids_unique [of w _ k] wf_ids_nonempty [of w k] by (auto simp: fresh_def current_def)

lemma current_reported:
  assumes "current cid k w" "reported cid w w'"
  shows "current cid k w'"
proof -
  have "tenancy r' = tenancy k" if r': "r' \<in> set (centrals w')" "crID r' = crID k" for r'
  proof -
    obtain r where r: "r \<in> set (centrals w)" "report_rel cid r r'"
      using list_all2_right [OF assms(2) [unfolded reported_def] r'(1)] by blast
    then have "tenancy r' = tenancy r" by (auto simp: report_rel_def)
    moreover have "crID r = crID k" using calculation r'(2) by (simp add: tenancy_def)
    ultimately show ?thesis using r assms(1) by (simp add: current_def)
  qed
  then show ?thesis using assms(1) by (simp add: current_def)
qed

lemma nz_failed [simp]: "nz CentralRequestStatusFailed v = CentralRequestStatusFailed" "nz CentralRequestStatusDeleting v = CentralRequestStatusDeleting"
  by (simp_all add: nz_def CentralRequestStatusFailed_def CentralRequestStatusDeleting_def)

lemma nz_same [simp]: "nz v v = v" "nzo x x = x" "nzb b b = b" "nz [] v = v" "nzo None x = x" "nzb False b = b"
  by (simp_all add: nz_def nzo_def nzb_def split: option.split)

lemma assign_tenancy: "tenancy k = tenancy r \<Longrightarrow> tenancy (assign_central now k r) = tenancy r"
  by (simp add: tenancy_def)

lemma update_reported:
  assumes "\<And>r. r \<in> set (centrals w) \<Longrightarrow> live r \<Longrightarrow> P r \<Longrightarrow> report_rel cid r (f r)"
  shows "reported cid w (snd (update_centrals P f w))"
  unfolding reported_def
  by (rule list_all2_strengthen [OF update_centrals_rel]) (auto simp: cond_rel_def assms)

text \<open>\<open>central_Update\<close> of a current request whose status was kept or set to a status that a report may set.\<close>

lemma central_Update_reported:
  assumes "fresh cid k w" "tenancy k' = tenancy k"
    "crStatus k' = crStatus k \<or> crStatus k' = CentralRequestStatusFailed"
  shows "reported cid w (snd (central_Update ev k' w))"
  unfolding central_Update_world
proof (rule update_reported)
  fix r assume r: "r \<in> set (centrals w)" "live r" "pk_match k' r \<and> not_under_deletion r"
  then have "tenancy r = tenancy k" "crStatus r = crStatus k" "\<not> under_deletion r" "crClusterID k = cid"
    using assms(1,2) by (auto simp: fresh_def current_def pk_match_def tenancy_def not_under_deletion_iff)
  then show "report_rel cid r (assign_central (evNow ev) k' r)"
    using assms(2,3) r(2) assign_tenancy [of k' r "evNow ev"]
    by (auto simp: report_rel_def tenancy_def)
qed

lemma central_Updates_reported:
  assumes "current cid k w" "\<And>r. tenancy (f r) = tenancy r"
    "\<And>r. crStatus (f r) = crStatus r \<or> crStatus (f r) = CentralRequestStatusReady \<and> crRoutesCreated k"
  shows "reported cid w (snd (central_Updates ev k f w))"
  unfolding central_Updates_world
proof (rule update_reported)
  fix r assume r: "r \<in> set (centrals w)" "live r" "pk_match k r \<and> not_under_deletion r"
  then have "tenancy r = tenancy k" "\<not> under_deletion r" "crClusterID k = cid"
    using assms(1) by (auto simp: current_def pk_match_def not_under_deletion_iff)
  then show "report_rel cid r ((f r)\<lparr>crUpdatedAt := evNow ev\<rparr>)"
    using assms(2,3) [of r] r(2) by (auto simp: report_rel_def tenancy_def)
qed

subsection \<open>The operations of a report\<close>

lemma setReady_reported:
  assumes "current cid k w"
  shows "reported cid w (snd (setCentralClusterReady ev k w))"
proof -
  define w1 where "w1 = snd (checkCentralRequestCurrentStatus k CentralRequestStatusProvisioning w)"
  have c: "centrals w1 = centrals w" by (simp add: w1_def check_status_world)
  have u: "crRoutesCreated k \<Longrightarrow>
      reported cid w (snd (central_Updates ev k (\<lambda>r. r\<lparr>crFailedReason := [], crStatus := CentralRequestStatusReady\<rparr>) w1))"
    by (rule reported_trans [OF reported_same [OF c]], rule central_Updates_reported)
       (use assms in \<open>simp_all add: current_same [OF c] tenancy_def\<close>)
  show ?thesis using reported_same [OF c] u
    by (simp add: setCentralClusterReady_def case_prod_beta w1_def [symmetric] reported_same split: sum.split option.split)
qed

lemma setFailed_reported:
  assumes "fresh cid k w"
  shows "reported cid w (snd (setCentralClusterFailed ev k msg w))"
proof -
  define w1 where "w1 = snd (checkCentralRequestCurrentStatus k CentralRequestStatusProvisioning w)"
  have c: "centrals w1 = centrals w" by (simp add: w1_def check_status_world)
  have u: "reported cid w (snd (central_Update ev (k\<lparr>crStatus := CentralRequestStatusFailed, crFailedReason := m\<rparr>) w1))" for m
    by (rule reported_trans [OF reported_same [OF c]], rule central_Update_reported [of _ k])
       (use assms in \<open>simp_all add: fresh_same [OF c] tenancy_def\<close>)
  show ?thesis using reported_same [OF c] u
    by (simp add: setCentralClusterFailed_def case_prod_beta w1_def [symmetric] reported_same split: sum.split option.split)
qed

lemma setDeleting_reported:
  assumes "wf_ids w" "current cid k w"
  shows "reported cid w (snd (setCentralClusterDeleting ev k w))"
proof -
  have w: "snd (setCentralClusterDeleting ev k w) = snd (UpdateStatus ev (crID k) CentralRequestStatusDeleting w)"
    by (simp add: setCentralClusterDeleting_def case_prod_beta split: bool.split option.split)
  have "report_rel cid r r'" if "r \<in> set (centrals w)" "status_rel ev (crID k) CentralRequestStatusDeleting r r'" for r r'
    using that assms(2)
    by (auto simp: status_rel_def report_rel_def current_def tenancy_def status_update_def empty_central_def)
  then show ?thesis unfolding w reported_def
    using list_all2_strengthen [OF UpdateStatus_step [OF assms(1)]] by blast
qed

lemma reassign_reported: "fresh cid k w \<Longrightarrow> reported cid w (snd (reassignCentralCluster ev k w))"
  using central_Update_reported [of cid k w "k\<lparr>crPlacementID := evNewID ev\<rparr>" ev]
  by (simp add: reassignCentralCluster_def reported_same tenancy_def)

lemma versions_reported: "current cid k w \<Longrightarrow> reported cid w (snd (setCentralRequestVersionFields ev k ds w))"
proof -
  assume "current cid k w"
  then have "reported cid w (snd (central_Updates ev k (\<lambda>r. r\<lparr>crActualCentralOperatorVersion := a, crActualCentralVersion := b,
      crCentralOperatorUpgrading := c, crCentralUpgrading := d\<rparr>) w))" for a b c d
    by (rule central_Updates_reported) (simp_all add: tenancy_def)
  then show ?thesis by (simp add: setCentralRequestVersionFields_def case_prod_beta Let_def reported_same split: option.split)
qed


lemma persist_reported:
  assumes "fresh cid k w"
  shows "reported cid w (snd (persistCentralRoutes ev k ds c w))"
proof -
  define w1 where "w1 = snd (GetClusterDNS (evProviders ev) (evNow ev) (clClusterID c) w)"
  have c: "centrals w1 = centrals w" by (simp add: w1_def GetClusterDNS_centrals)
  have u: "reported cid w (snd (central_Update ev (SetRoutes rs k) w1))" for rs
    by (rule reported_trans [OF reported_same [OF c]], rule central_Update_reported [of _ k])
       (use assms in \<open>simp_all add: fresh_same [OF c] tenancy_def SetRoutes_def\<close>)
  show ?thesis using reported_same [OF c] u
    by (simp add: persistCentralRoutes_def case_prod_beta w1_def [symmetric] Let_def reported_same split: sum.split option.split)
qed

lemma persist_request: "persistCentralRoutes ev k ds c w = (Some (None, k1), w1) \<Longrightarrow> tenancy k1 = tenancy k"
  by (auto simp: persistCentralRoutes_def Let_def tenancy_def SetRoutes_def split: if_splits option.splits sum.splits prod.splits)

lemma apply_status_reported:
  assumes "wf_ids w" "fresh cid k w"
  shows "reported cid w (snd (apply_status ev c k ds w))"
proof -
  have cur: "current cid k w" using assms(2) by (simp add: fresh_def)
  note p = persist_reported [OF assms(2), of ev ds c]
  have "reported cid w (snd (setCentralClusterReady ev k1 w1))"
    if "persistCentralRoutes ev k ds c w = (Some (None, k1), w1)" for k1 w1
  proof -
    have r1: "reported cid w w1" using p that by simp
    then have "current cid k1 w1" using current_fields [OF persist_request [OF that]] current_reported [OF cur] by blast
    then show ?thesis using reported_trans [OF r1] setReady_reported by blast
  qed
  then show ?thesis using p setFailed_reported [OF assms(2)] setDeleting_reported [OF assms(1) cur] reassign_reported [OF assms(2)]
    by (auto simp: apply_status_def reported_same split: centralStatus.split prod.split option.split)
qed

lemma reported_wf: "reported cid w w' \<Longrightarrow> wf_ids w' = wf_ids w"
proof -
  assume "reported cid w w'"
  then have "map crID (centrals w') = map crID (centrals w)"
    unfolding reported_def by (induction rule: list_all2_induct) (auto dest: report_rel_kept simp: row_kept_def)
  then show ?thesis by (simp add: wf_ids_def) (metis list.set_map)
qed

lemma report_one_reported: "wf_ids w \<Longrightarrow> reported cid w (snd (report_one ev cid c ds w))"
proof -
  assume wf: "wf_ids w"
  obtain x w1 where x: "GetByID (dsCentralClusterID ds) w = (x, w1)" by fastforce
  have c1: "centrals w1 = centrals w" using GetByID_world [of "dsCentralClusterID ds" w] x by (simp split: if_splits)
  have wf1: "wf_ids w1" using wf c1 by (simp add: wf_ids_def)
  note s = reported_same [OF c1]
  have u: "reported cid w (snd (apply_status ev c k ds w1)) \<and>
      reported cid w (snd (setCentralRequestVersionFields ev k ds (snd (apply_status ev c k ds w1))))"
    if k: "x = Inr k" "crClusterID k = cid" for k
  proof -
    have "k \<in> set (centrals w1)" using GetByID_Inr [of "dsCentralClusterID ds" w k w1] x k c1 by simp
    then have f: "fresh cid k w1" using fresh_listed [OF wf1] k by blast
    have a: "reported cid w1 (snd (apply_status ev c k ds w1))" using apply_status_reported [OF wf1 f] .
    moreover have "current cid k (snd (apply_status ev c k ds w1))" using current_reported [OF _ a] f by (simp add: fresh_def)
    ultimately show ?thesis using versions_reported reported_trans s by blast
  qed
  show ?thesis using x s u
    by (auto simp: report_one_def case_prod_beta split: sum.split bool.split)
qed

lemma report_all_reported: "wf_ids w \<Longrightarrow> reported cid w (snd (report_all ev cid c dss w))"
proof (induction dss arbitrary: w)
  case (Cons ds dss)
  have e: "reported cid w (snd (report_one ev cid c ds w))" using report_one_reported Cons.prems .
  then have "reported cid (snd (report_one ev cid c ds w)) (snd (report_all ev cid c dss (snd (report_one ev cid c ds w))))"
    using Cons.IH Cons.prems reported_wf by blast
  then show ?case using e reported_trans by (auto simp: case_prod_beta split: bool.split)
qed (simp add: reported_same)

lemma data_plane_reported: "wf_ids w \<Longrightarrow> reported cid w (snd (UpdateDataPlaneCentralService ev cid dss w))"
proof -
  assume wf: "wf_ids w"
  define w1 where "w1 = snd (FindClusterByID cid w)"
  have c: "centrals w1 = centrals w" by (simp add: w1_def FindClusterByID_centrals)
  have "wf_ids w1" using wf c by (simp add: wf_ids_def)
  then have u: "reported cid w (snd (report_all ev cid cl dss w1))" for cl
    using report_all_reported reported_trans [OF reported_same [OF c]] by blast
  show ?thesis using reported_same [OF c] u
    by (simp add: UpdateDataPlaneCentralService_def case_prod_beta w1_def [symmetric] split: sum.split option.split bool.split)
qed

interpretation own_reports: central_update "UpdateDataPlaneCentralService ev cid dss" "report_rel cid" for ev cid dss
  by unfold_locales (use data_plane_reported in \<open>auto simp: reported_def intro: report_rel_kept\<close>)

subsection \<open>Properties\<close>

text \<open>C14: A report of a cluster, whatever it says and wherever the database fails, leaves the tenants of
  other clusters exactly as they are. A tenant of the cluster keeps its owner, organisation, cluster,
  host, region and deletion marks; its status changes only to \<open>deleting\<close>, or, unless it is under deletion,
  to \<open>failed\<close>, or to \<open>ready\<close> when its DNS records were created.\<close>

theorem report_effect:
  assumes "wf_ids w" "r \<in> set (centrals w)"
  shows "\<exists>r'\<in>set (centrals (snd (UpdateDataPlaneCentralService ev cid dss w))).
     tenancy r' = tenancy r \<and> (crClusterID r \<noteq> cid \<longrightarrow> r' = r) \<and>
     (crStatus r' \<noteq> crStatus r \<longrightarrow> crStatus r' = CentralRequestStatusDeleting \<or>
        \<not> under_deletion r \<and> (crStatus r' = CentralRequestStatusFailed \<or>
          crStatus r' = CentralRequestStatusReady \<and> crRoutesCreated r))"
  using own_reports.row_after [OF assms, of ev cid dss] unfolding report_rel_def by metis

definition shard_world :: world where
  "shard_world = sample_world\<lparr>centrals := [
     sample_tenant\<lparr>crStatus := CentralRequestStatusProvisioning, crRoutes := RJson (Some []), crRoutesCreated := True\<rparr>,
     sample_tenant\<lparr>crID := ''tenant2'', crClusterID := ''cluster-2''\<rparr>]\<rparr>"

definition ready_report :: "string \<Rightarrow> DataPlaneCentralStatus" where
  "ready_report i = \<lparr>dsCentralClusterID = i, dsConditions = [\<lparr>dcType = ''Ready'', dcReason = [], dcStatus = ''True'', dcMessage = []\<rparr>],
     dsRoutes = None, dsCentralVersion = ''3.72'', dsCentralOperatorVersion = []\<rparr>"

lemma shard_world_ok: "wf_ids shard_world" "no_faults shard_world"
  by (simp_all add: shard_world_def sample_world_def sample_tenant_def wf_ids_def no_faults_def)

theorem report_effect_witness:
  "sample_tenant\<lparr>crID := ''tenant2'', crClusterID := ''cluster-2''\<rparr> \<in>
     set (centrals (snd (UpdateDataPlaneCentralService sample_env ''cluster-1'' [ready_report ''tenant1'', ready_report ''tenant2''] shard_world)))"
proof -
  let ?r = "sample_tenant\<lparr>crID := ''tenant2'', crClusterID := ''cluster-2''\<rparr>"
  have "?r \<in> set (centrals shard_world)" "crClusterID ?r \<noteq> ''cluster-1''" by (simp_all add: shard_world_def)
  then show ?thesis using report_effect [OF shard_world_ok(1), of ?r sample_env "''cluster-1''"] by metis
qed

lemma FindClusterByID_found:
  assumes "no_faults w" "cid \<noteq> []" "\<exists>c\<in>set (clusters w). cluster_live c \<and> clClusterID c = cid"
  shows "\<exists>c. FindClusterByID cid w = (Inr (Some c), next_stmt w)"
proof -
  let ?cs = "sort_key clID (filter (\<lambda>c. cluster_live c \<and> clClusterID c = cid) (clusters w))"
  have "set ?cs \<noteq> {}" using assms(3) by auto
  then obtain c cs where "?cs = c # cs" by (cases ?cs) auto
  then show ?thesis using assms(1,2) by (simp add: FindClusterByID_def first_cluster_def stmt_unfold)
qed

lemma versions_status:
  assumes "r \<in> set (centrals w)"
  shows "\<exists>r'\<in>set (centrals (snd (setCentralRequestVersionFields ev k ds w))). crID r' = crID r \<and> crStatus r' = crStatus r"
proof -
  have "\<exists>r'\<in>set (centrals (snd (central_Updates ev k f w))). crID r' = crID r \<and> crStatus r' = crStatus r"
    if "\<And>r. crID (f r) = crID r \<and> crStatus (f r) = crStatus r" for f
    using list_all2_left [OF update_centrals_rel assms, of "\<lambda>r. pk_match k r \<and> not_under_deletion r" "\<lambda>r. (f r)\<lparr>crUpdatedAt := evNow ev\<rparr>"] that
    unfolding central_Updates_world by (auto simp: cond_rel_def intro: rev_bexI)
  then show ?thesis using assms
    by (simp add: setCentralRequestVersionFields_def case_prod_beta Let_def split: option.split) blast
qed

text \<open>C15: The data plane reports a tenant as ready and the database does not fail: the tenant is \<open>ready\<close>
  afterwards, provided that its routes are stored and its DNS records exist and nobody deletes it.\<close>

theorem report_ready_takes_effect:
  assumes "wf_ids w" "no_faults w" "k \<in> set (centrals w)" "live k" "\<not> under_deletion k"
    "crClusterID k \<noteq> []" "\<exists>c\<in>set (clusters w). cluster_live c \<and> clClusterID c = crClusterID k"
    "crRoutes k \<noteq> RNil" "crRoutesCreated k" "getStatus ds = statusReady" "dsCentralClusterID ds = crID k"
  shows "fst (UpdateDataPlaneCentralService ev (crClusterID k) [ds] w) = Some None \<and>
    (\<exists>r\<in>set (centrals (snd (UpdateDataPlaneCentralService ev (crClusterID k) [ds] w))).
       crID r = crID k \<and> crStatus r = CentralRequestStatusReady)"
proof -
  let ?w1 = "next_stmt w" and ?cid = "crClusterID k" and ?f = "\<lambda>r. r\<lparr>crFailedReason := [], crStatus := CentralRequestStatusReady\<rparr>"
  let ?w2 = "next_stmt ?w1"
  obtain c where f: "FindClusterByID ?cid w = (Inr (Some c), ?w1)"
    using FindClusterByID_found [of w ?cid] assms by auto
  have g: "GetByID (crID k) ?w1 = (Inr k, ?w2)" "GetByID (crID k) ?w2 = (Inr k, next_stmt ?w2)"
    using GetByID_found assms by simp_all
  define w3 where "w3 = snd (central_Updates ev k ?f (next_stmt ?w2))"
  have a: "apply_status ev c k ds ?w2 = (True, w3)"
    using assms g(2) by (simp add: apply_status_def persistCentralRoutes_def setCentralClusterReady_def checkCentralRequestCurrentStatus_def w3_def
        case_prod_beta split: option.split)
  have run: "UpdateDataPlaneCentralService ev ?cid [ds] w = (Some None, snd (setCentralRequestVersionFields ev k ds w3))"
    using f g a assms by (simp add: UpdateDataPlaneCentralService_def report_one_def)
  have "(?f k)\<lparr>crUpdatedAt := evNow ev\<rparr> \<in> set (centrals w3)"
    using assms(2-5) by (auto simp: w3_def central_Updates_world update_centrals_unfold pk_match_def not_under_deletion_iff intro!: image_eqI [of _ _ k])
  then obtain r where "r \<in> set (centrals (snd (setCentralRequestVersionFields ev k ds w3)))" "crID r = crID k" "crStatus r = CentralRequestStatusReady"
    using versions_status [of _ w3 ev k ds] by fastforce
  then show ?thesis unfolding run by auto
qed

theorem report_ready_takes_effect_witness:
  "\<exists>r\<in>set (centrals (snd (UpdateDataPlaneCentralService sample_env ''cluster-1'' [ready_report ''tenant1''] shard_world))).
     crID r = ''tenant1'' \<and> crStatus r = CentralRequestStatusReady"
proof -
  let ?k = "sample_tenant\<lparr>crStatus := CentralRequestStatusProvisioning, crRoutes := RJson (Some []), crRoutesCreated := True\<rparr>"
  have "?k \<in> set (centrals shard_world)" "live ?k" "\<not> under_deletion ?k" "crClusterID ?k = ''cluster-1''" "crID ?k = ''tenant1''"
    by (simp_all add: shard_world_def sample_tenant_def sample_request_def empty_central_def live_def
        CentralRequestStatusDeleting_def CentralRequestStatusDeprovision_def CentralRequestStatusProvisioning_def)
  moreover have "getStatus (ready_report ''tenant1'') = statusReady" by code_simp
  moreover have "\<exists>c\<in>set (clusters shard_world). cluster_live c \<and> clClusterID c = ''cluster-1''"
    by (simp add: shard_world_def sample_world_def sample_cluster_def empty_cluster_def cluster_live_def)
  ultimately show ?thesis
    using report_ready_takes_effect [OF shard_world_ok, of ?k "ready_report ''tenant1''" sample_env] by (simp add: ready_report_def)
qed

end
