(* ===== verification/Fleet_Correct.thy ===== *)
theory Fleet_Correct
  imports Data_Plane_Correct
begin

text \<open>
  Properties of the program as a whole: the invariant of the table and the history of a tenant under
  all operations in any order, the refinement of an abstract life cycle, what the deleting worker
  removes and when, and which rows a report of the data plane can touch.
\<close>

subsection \<open>Invariants and history\<close>


definition sample_world2 :: world where
  "sample_world2 = snd sample_register"

lemma register_step: "fleet_step sample_world sample_world2"
  unfolding sample_world2_def sample_register_def
  by (intro fleet_step.control control_step.register) (simp_all add: sample_env_def sample_request_def empty_central_def live_def)

lemma register_step_empty:
  "fleet_step empty_world (snd (RegisterDinosaurJob (fleet_env sample_ams sample_quota sample_env) sample_request empty_world))"
  by (intro fleet_step.control control_step.register) (simp_all add: sample_env_def sample_request_def empty_central_def live_def)




subsection \<open>The abstract life cycle\<close>

text \<open>What a user is promised: a tenant is active, leaves, and is removed, in this order; a new tenant
  is active; nothing else changes.\<close>

datatype phase = Active | Leaving | Removed

fun phase_le :: "phase \<Rightarrow> phase \<Rightarrow> bool" where
  "phase_le Active _ = True"
| "phase_le Leaving p = (p \<noteq> Active)"
| "phase_le Removed p = (p = Removed)"

definition spec_step :: "(string \<rightharpoonup> phase) \<Rightarrow> (string \<rightharpoonup> phase) \<Rightarrow> bool" where
  "spec_step m m' \<longleftrightarrow>
     dom m \<subseteq> dom m' \<and> (\<forall>i p p'. m i = Some p \<and> m' i = Some p' \<longrightarrow> phase_le p p') \<and>
     (dom m' = dom m \<or> (\<exists>i. i \<notin> dom m \<and> m' = m(i \<mapsto> Active)))"

definition row_phase :: "CentralRequest \<Rightarrow> phase" where
  "row_phase r = (if \<not> live r then Removed else if under_deletion r then Leaving else Active)"

definition abs_fleet :: "world \<Rightarrow> string \<rightharpoonup> phase" where
  "abs_fleet w = map_of (map (\<lambda>r. (crID r, row_phase r)) (centrals w))"

lemma life_step_phase: "life_step D r r' \<Longrightarrow> phase_le (row_phase r) (row_phase r')"
  by (auto simp: life_step_def row_kept_def row_phase_def)

lemma abs_fleet_dom: "dom (abs_fleet w) = crID ` set (centrals w)"
  by (force simp: abs_fleet_def dom_map_of_conv_image_fst)

lemma abs_fleet_row: "wf_ids w \<Longrightarrow> r \<in> set (centrals w) \<Longrightarrow> abs_fleet w (crID r) = Some (row_phase r)"
  unfolding abs_fleet_def by (rule map_of_is_SomeI) (auto simp: wf_ids_def comp_def)

lemma abs_fleet_new:
  "wf_ids w \<Longrightarrow> centrals w' = centrals w @ [k] \<Longrightarrow> crID k \<notin> crID ` set (centrals w) \<Longrightarrow> row_phase k = Active \<Longrightarrow>
     abs_fleet w' = (abs_fleet w)(crID k \<mapsto> Active)"
  using abs_fleet_dom [of w]
  by (auto simp: abs_fleet_def fun_eq_iff map_add_def split: option.splits)



subsection \<open>The deleting worker\<close>

definition mark_deleted :: "env \<Rightarrow> (CentralRequest \<Rightarrow> bool) \<Rightarrow> CentralRequest list \<Rightarrow> CentralRequest list" where
  "mark_deleted ev P rs = map (\<lambda>r. if live r \<and> P r then r\<lparr>crDeletedAt := Some (evNow ev)\<rparr> else r) rs"

lemma mark_deleted_twice:
  "(\<And>r. P (r\<lparr>crDeletedAt := Some (evNow ev)\<rparr>) = P r) \<Longrightarrow> mark_deleted ev Q (mark_deleted ev P rs) = mark_deleted ev (\<lambda>r. P r \<or> Q r) rs"
  by (auto simp: mark_deleted_def live_def)

lemma delete_row_None: "delete_row ev k w = (None, w') \<Longrightarrow> centrals w' = mark_deleted ev (\<lambda>r. crID r = crID k) (centrals w)"
  by (auto simp: delete_row_def delete_central_def update_centrals_unfold stmt_unfold mark_deleted_def split: if_splits option.splits)

lemma central_Delete_None:
  assumes "central_Delete ev k force w = (None, w')"
  shows "centrals w' = mark_deleted ev (\<lambda>r. crID r = crID k) (centrals w)"
proof -
  define w1 where "w1 = snd (ChangeDinosaurCNAMErecords ev k DinosaurRoutesActionDelete w)"
  have c: "centrals w1 = centrals w"
    using ChangeDinosaurCNAMErecords_frame [of w ev k DinosaurRoutesActionDelete] by (simp add: w1_def same_tables_def)
  have "delete_row ev k w = (None, w') \<or> delete_row ev k w1 = (None, w')"
    using assms by (auto simp: central_Delete_def case_prod_beta w1_def split: if_splits sum.splits)
  then show ?thesis using delete_row_None c by metis
qed

context central_env
begin

lemma deleting_one_success:
  assumes "mgEnv mg = ev" "fst (reconcileDeletingDinosaurs mg k w) = Some None"
  obtains qs w1 where "evQuota ev (crQuotaType k) = Inr qs" "qsDeleteQuota qs (crSubscriptionID k) w = (None, w1)"
    "fst (delete_client mg k w1) = Some None"
    "centrals (snd (reconcileDeletingDinosaurs mg k w)) = mark_deleted ev (\<lambda>r. crID r = crID k) (centrals w)"
proof -
  obtain qs where qs: "evQuota ev (crQuotaType k) = Inr qs"
    using assms by (cases "evQuota ev (crQuotaType k)") (auto simp: reconcileDeletingDinosaurs_def)
  obtain w1 where w1: "qsDeleteQuota qs (crSubscriptionID k) w = (None, w1)"
    using assms qs by (cases "qsDeleteQuota qs (crSubscriptionID k) w", cases "fst (qsDeleteQuota qs (crSubscriptionID k) w)")
      (auto simp: reconcileDeletingDinosaurs_def)
  obtain w2 where w2: "delete_client mg k w1 = (Some None, w2)"
    using assms qs w1 by (cases "delete_client mg k w1") (auto simp: reconcileDeletingDinosaurs_def split: option.splits)
  obtain w3 where w3: "central_Delete ev k False w2 = (None, w3)"
    using assms qs w1 w2 by (cases "central_Delete ev k False w2") (auto simp: reconcileDeletingDinosaurs_def split: option.splits)
  have "centrals w1 = centrals w" using delete_quota_frame [OF qs, of "crSubscriptionID k" w] w1 by simp
  moreover have "centrals w2 = centrals w1"
    using w2 by (auto simp: delete_client_def log_event_def Let_def split: if_splits option.splits prod.splits)
  ultimately have "centrals (snd (reconcileDeletingDinosaurs mg k w)) = mark_deleted ev (\<lambda>r. crID r = crID k) (centrals w)"
    using central_Delete_None [OF w3] assms(1) qs w1 w2 w3 by (simp add: reconcileDeletingDinosaurs_def)
  then show thesis using that qs w1 w2 by simp
qed

lemma deleting_loop:
  assumes "mgEnv mg = ev"
  shows "fst (reconcile_each (\<lambda>k w. wrap_error (m k) (reconcileDeletingDinosaurs mg k w)) ks w) = Some [] \<Longrightarrow>
    centrals (snd (reconcile_each (\<lambda>k w. wrap_error (m k) (reconcileDeletingDinosaurs mg k w)) ks w)) =
      mark_deleted ev (\<lambda>r. crID r \<in> crID ` set ks) (centrals w)"
proof (induction ks arbitrary: w)
  case Nil
  then show ?case by (simp add: mark_deleted_def)
next
  case (Cons k ks)
  let ?f = "\<lambda>k w. wrap_error (m k) (reconcileDeletingDinosaurs mg k w)"
  obtain e w1 where f: "reconcileDeletingDinosaurs mg k w = (e, w1)" by fastforce
  have e: "e = Some None" and r: "fst (reconcile_each ?f ks w1) = Some []"
    using Cons.prems f by (auto simp: wrap_error_def opt_list_def split: option.splits prod.splits)
  have "centrals w1 = mark_deleted ev (\<lambda>r. crID r = crID k) (centrals w)"
    using deleting_one_success [OF assms, of k w] f e by (metis fst_conv snd_conv)
  moreover have "snd (reconcile_each ?f (k # ks) w) = snd (reconcile_each ?f ks w1)"
    using f e r by (simp add: wrap_error_def case_prod_beta)
  ultimately show ?case using Cons.IH [OF r] by (simp add: mark_deleted_twice disj_commute)
qed

end

lemma ListByStatus_single:
  "ListByStatus [s] w = (x, w') \<Longrightarrow>
   (x = Inr (filter (\<lambda>r. live r \<and> crStatus r = s) (centrals w)) \<or> (\<exists>e. x = Inl e)) \<and> centrals w' = centrals w"
  by (auto simp: ListByStatus_def find_centrals_unfold split: option.splits)

lemma deleting_run:
  assumes "ListByStatus [CentralRequestStatusDeleting] w = (x, w1)" "ListByStatus [CentralRequestStatusDeprovision] w1 = (y, w2)"
  shows "deleting_Reconcile mg w =
    (case reconcile_each (\<lambda>k w. wrap_error (''failed to reconcile deleting central request '' @ crID k) (reconcileDeletingDinosaurs mg k w))
       ((case x of Inl _ \<Rightarrow> [] | Inr ks \<Rightarrow> ks) @ filter (\<lambda>k. crHost k = []) (case y of Inl _ \<Rightarrow> [] | Inr ks \<Rightarrow> ks)) w2 of
       (None, w3) \<Rightarrow> (None, w3)
     | (Some es, w3) \<Rightarrow>
        (Some (((case x of Inl e \<Rightarrow> [Wrap ''failed to list deleting central requests'' (SvcErr e)] | Inr _ \<Rightarrow> []) @
          (case y of Inl e \<Rightarrow> [Wrap ''failed to list central deprovisioning requests'' (SvcErr e)] | Inr _ \<Rightarrow> [])) @ es), w3))"
  unfolding deleting_Reconcile_def by (simp only: assms prod.case Let_def)

text \<open>C12: The deleting worker. A run without errors soft-deletes exactly the live tenants in \<open>deleting\<close> and
  those in \<open>deprovision\<close> that never got a host, and leaves every other row as it was.\<close>

theorem deleting_removes_exactly:
  assumes "wf_ids w" "fst (deleting_Reconcile (mg\<lparr>mgEnv := fleet_env ams qm ev\<rparr>) w) = Some []"
  shows "centrals (snd (deleting_Reconcile (mg\<lparr>mgEnv := fleet_env ams qm ev\<rparr>) w)) =
    map (\<lambda>r. if live r \<and> (crStatus r = CentralRequestStatusDeleting \<or> crStatus r = CentralRequestStatusDeprovision \<and> crHost r = [])
             then r\<lparr>crDeletedAt := Some (evNow ev)\<rparr> else r) (centrals w)"
proof -
  let ?mg = "mg\<lparr>mgEnv := fleet_env ams qm ev\<rparr>"
  let ?D = "filter (\<lambda>r. live r \<and> crStatus r = CentralRequestStatusDeleting) (centrals w)"
  let ?P = "filter (\<lambda>r. live r \<and> crStatus r = CentralRequestStatusDeprovision) (centrals w)"
  define m :: "CentralRequest \<Rightarrow> string" where "m = (\<lambda>k. ''failed to reconcile deleting central request '' @ crID k)"
  define f where "f = (\<lambda>k w. wrap_error (m k) (reconcileDeletingDinosaurs ?mg k w))"
  define ks where "ks = ?D @ filter (\<lambda>k. crHost k = []) ?P"
  obtain x w1 where x: "ListByStatus [CentralRequestStatusDeleting] w = (x, w1)" by fastforce
  obtain y w2 where y: "ListByStatus [CentralRequestStatusDeprovision] w1 = (y, w2)" by fastforce
  have lists: "x = Inr ?D \<or> (\<exists>e. x = Inl e)" "y = Inr ?P \<or> (\<exists>e. y = Inl e)" "centrals w2 = centrals w"
    using ListByStatus_single [OF x] ListByStatus_single [OF y] by auto
  note run = deleting_run [OF x y, of ?mg]
  have "x = Inr ?D" "y = Inr ?P" using assms(2) lists(1,2) unfolding run by (auto split: prod.splits option.splits)
  then have "fst (reconcile_each f ks w2) = Some []" "centrals w2 = centrals w"
    and r: "snd (deleting_Reconcile ?mg w) = snd (reconcile_each f ks w2)"
    using assms(2) lists(3) unfolding run by (auto simp: ks_def f_def m_def split: prod.splits option.splits)
  then have "centrals (snd (reconcile_each f ks w2)) = mark_deleted (fleet_env ams qm ev) (\<lambda>r. crID r \<in> crID ` set ks) (centrals w)"
    using fleet.deleting_loop [of ?mg ams qm ev m ks w2] by (simp add: f_def)
  moreover have "crID r \<in> crID ` set ks \<longleftrightarrow> r \<in> set ks" if "r \<in> set (centrals w)" for r
    using that wf_ids_unique [OF assms(1)] by (auto simp: ks_def)
  ultimately show ?thesis unfolding r
    by (auto simp: mark_deleted_def ks_def fleet_env_def)
qed


definition sample_mgr :: mgr_env where
  "sample_mgr = \<lparr>mgEnv = sample_env, mgTimeout = 60, mgSSO = \<lparr>ssoCreateAcsClient = (\<lambda>n oid uris. Inr (''client-'' @ n, ''secret'')),
     ssoDeleteAcsClient = (\<lambda>_. None), ssoValidIssuerURI = ''https://sso''\<rparr>, mgTruncate = (\<lambda>s n. take n s),
     mgEnableDenyList = False, mgDenyList = []\<rparr>"

definition leaving_world :: world where
  "leaving_world = sample_world\<lparr>centrals := [
     sample_tenant\<lparr>crStatus := CentralRequestStatusDeleting, crClientOrigin := AuthConfigDynamicClientOrigin, crClientID := ''cid''\<rparr>,
     sample_tenant\<lparr>crID := ''tenant2'', crStatus := CentralRequestStatusDeprovision, crDeletionTimestamp := Some 90\<rparr>,
     sample_tenant\<lparr>crID := ''tenant3'', crStatus := CentralRequestStatusDeprovision, crDeletionTimestamp := Some 90, crHost := ''h''\<rparr>,
     sample_tenant\<lparr>crID := ''tenant4'', crStatus := CentralRequestStatusReady\<rparr>]\<rparr>"

theorem deleting_removes_exactly_witness:
  "wf_ids leaving_world \<and>
   fst (deleting_Reconcile (sample_mgr\<lparr>mgEnv := fleet_env sample_ams sample_quota sample_env\<rparr>) leaving_world) = Some [] \<and>
   map live (centrals (snd (deleting_Reconcile (sample_mgr\<lparr>mgEnv := fleet_env sample_ams sample_quota sample_env\<rparr>) leaving_world))) =
     [False, False, True, True]"
proof -
  have wf: "wf_ids leaving_world"
    by (simp add: leaving_world_def sample_world_def sample_tenant_def wf_ids_def)
  have ok: "fst (deleting_Reconcile (sample_mgr\<lparr>mgEnv := fleet_env sample_ams sample_quota sample_env\<rparr>) leaving_world) = Some []"
    by code_simp
  show ?thesis using wf ok unfolding deleting_removes_exactly [OF wf ok]
    by (simp add: leaving_world_def sample_tenant_def sample_request_def empty_central_def live_def
        CentralRequestStatusDeleting_def CentralRequestStatusDeprovision_def CentralRequestStatusReady_def)
qed

text \<open>Events of the external systems are only appended.\<close>

lemma fleet_DeleteQuota:
  assumes "evQuota (fleet_env ams qm ev) t = Inr qs" "qsDeleteQuota qs s w = (None, w1)"
  shows "\<exists>es. events w1 = events w @ es \<and> (t = AMSQuotaType \<and> s \<noteq> [] \<longrightarrow> EvDeleteQuota s \<in> set es \<and> amsDeleteSubscription ams s = None)"
  using assms
  by (auto simp: fleet_env_def GetQuotaService_def Let_def amsQuotaService_def QuotaManagementListService_def ams_DeleteQuota_def
      qml_DeleteQuota_def log_event_def AMSQuotaType_def QuotaManagementListQuotaType_def UndefinedQuotaType_def split: if_splits option.splits)

lemma delete_client_events:
  assumes "delete_client mg k w = (Some None, w1)"
  shows "\<exists>es. events w1 = events w @ es \<and> (crClientOrigin k = AuthConfigDynamicClientOrigin \<longrightarrow> EvDeleteClient (crClientID k) \<in> set es \<and>
     (\<forall>e c. ssoDeleteAcsClient (mgSSO mg) (crClientID k) = Some (e, c) \<longrightarrow> c = Some StatusNotFound))"
  using assms
  by (auto simp: delete_client_def log_event_def Let_def AuthConfigDynamicClientOrigin_def AuthConfigStaticClientOrigin_def
      split: if_splits option.splits)

lemma delete_row_events: "delete_row ev k w = (x, w') \<Longrightarrow> events w' = events w"
  by (auto simp: delete_row_def delete_central_def update_centrals_unfold stmt_unfold split: if_splits option.splits)

lemma delete_row_error: "delete_row ev k w = (Some e, w') \<Longrightarrow> centrals w' = centrals w"
  by (auto simp: delete_row_def delete_central_def update_centrals_unfold stmt_unfold split: if_splits option.splits)

lemma central_Delete_error: "central_Delete ev k force w = (Some e, w') \<Longrightarrow> centrals w' = centrals w"
proof -
  assume d: "central_Delete ev k force w = (Some e, w')"
  define w1 where "w1 = snd (ChangeDinosaurCNAMErecords ev k DinosaurRoutesActionDelete w)"
  have c: "centrals w1 = centrals w"
    using ChangeDinosaurCNAMErecords_frame [of w ev k DinosaurRoutesActionDelete] by (simp add: w1_def same_tables_def)
  have "centrals w' = centrals w \<or> delete_row ev k w = (Some e, w') \<or> delete_row ev k w1 = (Some e, w')"
    using d c by (auto simp: central_Delete_def case_prod_beta w1_def split: if_splits sum.splits)
  then show ?thesis using delete_row_error c by metis
qed

lemma central_Delete_events:
  assumes "central_Delete ev k False w = (None, w')"
  shows "\<exists>es. events w' = events w @ es \<and>
    (\<forall>rs. crClusterID k \<noteq> [] \<and> GetRoutes k = Inr (Some rs) \<and> ccEnableCentralExternalCertificate (evConfig ev) \<longrightarrow>
       EvChangeCNAME rs DinosaurRoutesActionDelete \<in> set es)"
  using assms
  by (auto simp: central_Delete_def ChangeDinosaurCNAMErecords_def log_event_def case_prod_beta Let_def
      split: if_splits sum.splits option.splits dest!: delete_row_events)

text \<open>C13: The row of a tenant is removed last. When the deleting worker removes a row, the subscription
  of the tenant was deleted, its dynamic OIDC client was deleted or did not exist, and the deletion of
  its DNS records was requested, in this run and before.\<close>

theorem cleanup_before_removal:
  assumes "centrals (snd (reconcileDeletingDinosaurs (mg\<lparr>mgEnv := fleet_env ams qm ev\<rparr>) k w)) \<noteq> centrals w"
  shows "\<exists>es. events (snd (reconcileDeletingDinosaurs (mg\<lparr>mgEnv := fleet_env ams qm ev\<rparr>) k w)) = events w @ es \<and>
    (crQuotaType k = AMSQuotaType \<and> crSubscriptionID k \<noteq> [] \<longrightarrow>
       EvDeleteQuota (crSubscriptionID k) \<in> set es \<and> amsDeleteSubscription ams (crSubscriptionID k) = None) \<and>
    (crClientOrigin k = AuthConfigDynamicClientOrigin \<longrightarrow> EvDeleteClient (crClientID k) \<in> set es \<and>
       (\<forall>e c. ssoDeleteAcsClient (mgSSO mg) (crClientID k) = Some (e, c) \<longrightarrow> c = Some StatusNotFound)) \<and>
    (\<forall>rs. crClusterID k \<noteq> [] \<and> GetRoutes k = Inr (Some rs) \<and> ccEnableCentralExternalCertificate (evConfig ev) \<longrightarrow>
       EvChangeCNAME rs DinosaurRoutesActionDelete \<in> set es)"
proof -
  let ?ev = "fleet_env ams qm ev"
  let ?mg = "mg\<lparr>mgEnv := ?ev\<rparr>"
  have q_frame: "centrals (snd (qsDeleteQuota qs s w)) = centrals w" if "evQuota ?ev t = Inr qs" for qs s t w
    using fleet.delete_quota_frame that by blast
  have c_frame: "centrals (snd (delete_client ?mg k w)) = centrals w" for w
    by (auto simp: delete_client_def log_event_def Let_def split: option.split)
  obtain qs where qs: "evQuota ?ev (crQuotaType k) = Inr qs"
    using assms by (cases "evQuota ?ev (crQuotaType k)") (simp_all add: reconcileDeletingDinosaurs_def Let_def)
  obtain e1 w1 where q: "qsDeleteQuota qs (crSubscriptionID k) w = (e1, w1)" by fastforce
  obtain e2 w2 where c: "delete_client ?mg k w1 = (e2, w2)" by fastforce
  obtain e3 w3 where d: "central_Delete ?ev k False w2 = (e3, w3)" by fastforce
  have same: "centrals w1 = centrals w" "centrals w2 = centrals w" using q_frame [OF qs, of "crSubscriptionID k" w] c_frame [of w1] q c by simp_all
  have ok: "e1 = None" "e2 = Some None" "e3 = None"
    using assms qs q c d same central_Delete_error [of ?ev k False w2 _ w3]
    by (auto simp: reconcileDeletingDinosaurs_def Let_def split: option.splits)
  have env: "evConfig ?ev = evConfig ev" "mgSSO ?mg = mgSSO mg" by (simp_all add: fleet_env_def)
  note es1 = fleet_DeleteQuota [OF qs q [unfolded ok]] and es2 = delete_client_events [OF c [unfolded ok], unfolded env] and
    es3 = central_Delete_events [OF d [unfolded ok], unfolded env]
  obtain es1 where e1: "events w1 = events w @ es1" "crQuotaType k = AMSQuotaType \<and> crSubscriptionID k \<noteq> [] \<longrightarrow>
      EvDeleteQuota (crSubscriptionID k) \<in> set es1 \<and> amsDeleteSubscription ams (crSubscriptionID k) = None"
    using es1 by blast
  obtain es2 where e2: "events w2 = events w1 @ es2" "crClientOrigin k = AuthConfigDynamicClientOrigin \<longrightarrow> EvDeleteClient (crClientID k) \<in> set es2 \<and>
       (\<forall>e c. ssoDeleteAcsClient (mgSSO mg) (crClientID k) = Some (e, c) \<longrightarrow> c = Some StatusNotFound)"
    using es2 by blast
  obtain es3 where e3: "events w3 = events w2 @ es3" "\<forall>rs. crClusterID k \<noteq> [] \<and> GetRoutes k = Inr (Some rs) \<and>
      ccEnableCentralExternalCertificate (evConfig ev) \<longrightarrow> EvChangeCNAME rs DinosaurRoutesActionDelete \<in> set es3"
    using es3 by blast
  have "snd (reconcileDeletingDinosaurs ?mg k w) = w3" using qs q c d ok by (simp add: reconcileDeletingDinosaurs_def Let_def)
  then show ?thesis using e1 e2 e3 by (intro exI [of _ "es1 @ es2 @ es3"]) simp
qed

theorem cleanup_before_removal_witness:
  "EvDeleteClient ''cid'' \<in> set (events (snd (reconcileDeletingDinosaurs (sample_mgr\<lparr>mgEnv := fleet_env sample_ams sample_quota sample_env\<rparr>)
     (hd (centrals leaving_world)) leaving_world)))"
proof -
  have "\<not> live (hd (centrals (snd (reconcileDeletingDinosaurs (sample_mgr\<lparr>mgEnv := fleet_env sample_ams sample_quota sample_env\<rparr>)
     (hd (centrals leaving_world)) leaving_world))))" by code_simp
  moreover have "live (hd (centrals leaving_world))" by code_simp
  ultimately have n: "centrals (snd (reconcileDeletingDinosaurs (sample_mgr\<lparr>mgEnv := fleet_env sample_ams sample_quota sample_env\<rparr>)
     (hd (centrals leaving_world)) leaving_world)) \<noteq> centrals leaving_world" by metis
  have "crClientOrigin (hd (centrals leaving_world)) = AuthConfigDynamicClientOrigin" "crClientID (hd (centrals leaving_world)) = ''cid''"
    by (simp_all add: leaving_world_def)
  then show ?thesis using cleanup_before_removal [OF n] by (metis Un_iff set_append)
qed

end
