(* ===== verification/Leader_Election.thy ===== *)
theory Leader_Election
  imports Service_Errors
begin

text \<open>
  Leader election of the workers (\<^verbatim>\<open>pkg/workers\<close>): every instance of the fleet manager runs the same
  workers; for each type of worker a row of the table \<^verbatim>\<open>leader_leases\<close> says who may run. The acquisition
  of a lease is two database transactions, a read and a locked update, at two instants. A panic is
  \<open>None\<close>. Go's goroutines and channels appear as the state of a worker: its stop channel and the count
  of its wait group.
\<close>

subsection \<open>Leases\<close>

record LeaderLease =
  llID :: string
  llDeletedAt :: "nanoseconds option"
  llLeader :: string
  llLeaseType :: string
  llExpires :: "nanoseconds option"

definition seconds :: "int \<Rightarrow> nanoseconds" where "seconds n = n * 1000000000"

definition mgrRepeatInterval :: nanoseconds where "mgrRepeatInterval = seconds 15"
definition leaseRenewTime :: nanoseconds where "leaseRenewTime = seconds 60"

text \<open>\<^verbatim>\<open>Expires\<close> is a pointer: a lease with a leader and no expiry makes the comparison panic.\<close>

definition isExpired :: "nanoseconds \<Rightarrow> LeaderLease \<Rightarrow> bool option" where
  "isExpired now lease =
     (if llLeader lease = [] then Some True
      else (case llExpires lease of None \<Rightarrow> None | Some x \<Rightarrow> Some (now > x)))"

text \<open>The outcomes of the statements of one acquisition: errors, whether another transaction holds the
  lock on the row, and the time between the read and the locked update.\<close>

record lease_io =
  ioRead :: "go_error option"
  ioDelay :: nanoseconds
  ioLock :: "go_error option"
  ioSkipped :: bool
  ioUpdate :: "go_error option"
  ioCommit :: "go_error option"

definition lease_of :: "string \<Rightarrow> LeaderLease list \<Rightarrow> LeaderLease option" where
  "lease_of workerType leases = find (\<lambda>l. llDeletedAt l = None \<and> llLeaseType l = workerType) leases"

datatype read_outcome =
    ReadFailed go_error
  | ReadPanic
  | ReadDecided bool LeaderLease
  | ReadTryLock LeaderLease nanoseconds

definition acquire_read :: "nanoseconds \<Rightarrow> string \<Rightarrow> string \<Rightarrow> nanoseconds \<Rightarrow> go_error option \<Rightarrow> LeaderLease list \<Rightarrow> read_outcome" where
  "acquire_read renewTime workerID workerType now fault leases = (case fault of
     Some e \<Rightarrow> ReadFailed (Wrap ''failed to retrieve leader leases'' e)
   | None \<Rightarrow> (case lease_of workerType leases of
        None \<Rightarrow> ReadFailed (GoErr (''expected to find a lease entry, found none for :'' @ workerType))
      | Some lease \<Rightarrow>
         (let newExpiryTime = now + renewTime in
          case isExpired now lease of
            None \<Rightarrow> ReadPanic
          | Some True \<Rightarrow> ReadTryLock lease newExpiryTime
          | Some False \<Rightarrow>
             (if llLeader lease = workerID then
                (case llExpires lease of
                   None \<Rightarrow> ReadPanic
                 | Some x \<Rightarrow> if x < now + seconds 30 then ReadTryLock lease newExpiryTime else ReadDecided True lease)
              else ReadDecided False lease))))"

text \<open>The transaction: \<^verbatim>\<open>SELECT ... FOR UPDATE SKIP LOCKED\<close>, the update of the row that was read before,
  and the commit, whose error the code drops.\<close>

definition update_lease :: "LeaderLease \<Rightarrow> string \<Rightarrow> nanoseconds \<Rightarrow> LeaderLease list \<Rightarrow> LeaderLease list" where
  "update_lease lease workerID expires leases =
     map (\<lambda>l. if llDeletedAt l = None \<and> llID l = llID lease then l\<lparr>llLeader := workerID, llExpires := Some expires\<rparr> else l) leases"

definition acquire_write ::
  "string \<Rightarrow> string \<Rightarrow> LeaderLease \<Rightarrow> nanoseconds \<Rightarrow> nanoseconds \<Rightarrow> lease_io \<Rightarrow> LeaderLease list \<Rightarrow>
   (go_error + bool \<times> LeaderLease) option \<times> LeaderLease list" where
  "acquire_write workerID workerType lease newExpiryTime now io leases = (case ioLock io of
     Some e \<Rightarrow> (Some (Inl (Wrap ''failed to retrieve leader leases'' e)), leases)
   | None \<Rightarrow>
      if ioSkipped io \<or> lease_of workerType leases = None then
        (case isExpired now lease of
           None \<Rightarrow> (None, leases)
         | Some True \<Rightarrow> (Some (Inr (False, lease)), leases)
         | Some False \<Rightarrow> (Some (Inr (True, lease)), leases))
      else (case ioUpdate io of
         Some e \<Rightarrow> (Some (Inl (Wrap ''failed to update leader lease'' e)), leases)
       | None \<Rightarrow> (Some (Inr (True, lease\<lparr>llLeader := workerID, llExpires := Some newExpiryTime\<rparr>)),
                  if ioCommit io = None then update_lease lease workerID newExpiryTime leases else leases)))"

definition acquireLeaderLease ::
  "nanoseconds \<Rightarrow> string \<Rightarrow> string \<Rightarrow> nanoseconds \<Rightarrow> lease_io \<Rightarrow> LeaderLease list \<Rightarrow>
   (go_error + bool \<times> LeaderLease) option \<times> LeaderLease list" where
  "acquireLeaderLease renewTime workerID workerType now io leases =
     (case acquire_read renewTime workerID workerType now (ioRead io) leases of
        ReadFailed e \<Rightarrow> (Some (Inl e), leases)
      | ReadPanic \<Rightarrow> (None, leases)
      | ReadDecided b lease \<Rightarrow> (Some (Inr (b, lease)), leases)
      | ReadTryLock lease newExpiryTime \<Rightarrow>
          acquire_write workerID workerType lease newExpiryTime (now + ioDelay io) io leases)"

subsection \<open>Workers\<close>

text \<open>A stop channel is nil before the first start, then open or closed. \<open>wkLoops\<close> counts the running
  reconciliation loops, which is what the wait group of the worker counts.\<close>

datatype stop_chan = ChanNil | ChanOpen | ChanClosed

record BaseWorker =
  wkID :: string
  wkType :: string
  wkRunning :: bool
  wkStop :: stop_chan
  wkLoops :: nat

definition Reconciler_Start :: "BaseWorker \<Rightarrow> BaseWorker" where
  "Reconciler_Start wk = wk\<lparr>wkStop := ChanOpen, wkLoops := wkLoops wk + 1, wkRunning := True\<rparr>"

text \<open>The loop returns once its channel is closed, so the wait ends with no loop left. Closing the nil
  channel panics.\<close>

definition Reconciler_Stop :: "BaseWorker \<Rightarrow> BaseWorker option" where
  "Reconciler_Stop wk = (case wkStop wk of
     ChanClosed \<Rightarrow> Some (wk\<lparr>wkRunning := False\<rparr>)
   | ChanOpen \<Rightarrow> Some (wk\<lparr>wkStop := ChanClosed, wkLoops := 0, wkRunning := False\<rparr>)
   | ChanNil \<Rightarrow> None)"

subsection \<open>The manager\<close>

record LeaderElectionManager =
  lmWorkers :: "BaseWorker list"
  lmLeaseRenewTime :: nanoseconds
  lmForceLeader :: bool
  lmWorkerGrp :: int
  lmTearDown :: stop_chan

definition NewLeaderElectionManager :: "BaseWorker list \<Rightarrow> bool \<Rightarrow> LeaderElectionManager" where
  "NewLeaderElectionManager workers forceLeader =
     \<lparr>lmWorkers = workers, lmLeaseRenewTime = leaseRenewTime, lmForceLeader = forceLeader, lmWorkerGrp = 0, lmTearDown = ChanNil\<rparr>"

definition isWorkerLeader ::
  "LeaderElectionManager \<Rightarrow> BaseWorker \<Rightarrow> nanoseconds \<Rightarrow> lease_io \<Rightarrow> LeaderLease list \<Rightarrow> bool option \<times> LeaderLease list" where
  "isWorkerLeader s wk now io leases =
     (if lmForceLeader s then (Some True, leases)
      else (case acquireLeaderLease (lmLeaseRenewTime s) (wkID wk) (wkType wk) now io leases of
         (None, ls) \<Rightarrow> (None, ls)
       | (Some (Inl _), ls) \<Rightarrow> (Some False, ls)
       | (Some (Inr (acquired, _)), ls) \<Rightarrow> (Some acquired, ls)))"

text \<open>One round of the loop of \<^verbatim>\<open>startWorkers\<close>: the worker and the change of the wait group of the manager.\<close>

definition start_worker ::
  "LeaderElectionManager \<Rightarrow> nanoseconds \<Rightarrow> lease_io \<Rightarrow> BaseWorker \<Rightarrow> LeaderLease list \<Rightarrow> (BaseWorker \<times> int) option \<times> LeaderLease list" where
  "start_worker s now io wk leases = (case isWorkerLeader s wk now io leases of
     (None, ls) \<Rightarrow> (None, ls)
   | (Some isLeader, ls) \<Rightarrow>
      if isLeader \<and> \<not> wkRunning wk then (Some (Reconciler_Start wk, 1), ls)
      else if \<not> isLeader \<and> wkRunning wk then
        (case Reconciler_Stop wk of None \<Rightarrow> (None, ls) | Some wk' \<Rightarrow> (Some (wk', - 1), ls))
      else (Some (wk, 0), ls))"

fun start_all ::
  "LeaderElectionManager \<Rightarrow> nanoseconds \<Rightarrow> (string \<Rightarrow> lease_io) \<Rightarrow> BaseWorker list \<Rightarrow> LeaderLease list \<Rightarrow>
   (BaseWorker list \<times> int) option \<times> LeaderLease list" where
  "start_all s now ios [] leases = (Some ([], 0), leases)"
| "start_all s now ios (wk # wks) leases = (case start_worker s now (ios (wkID wk)) wk leases of
     (None, ls) \<Rightarrow> (None, ls)
   | (Some (wk', d), ls) \<Rightarrow> (case start_all s now ios wks ls of
        (None, ls') \<Rightarrow> (None, ls')
      | (Some (wks', d'), ls') \<Rightarrow> (Some (wk' # wks', d + d'), ls')))"

definition startWorkers ::
  "nanoseconds \<Rightarrow> (string \<Rightarrow> lease_io) \<Rightarrow> LeaderElectionManager \<Rightarrow> LeaderLease list \<Rightarrow> LeaderElectionManager option \<times> LeaderLease list" where
  "startWorkers now ios s leases = (case start_all s now ios (lmWorkers s) leases of
     (None, ls) \<Rightarrow> (None, ls)
   | (Some (wks, d), ls) \<Rightarrow> (Some (s\<lparr>lmWorkers := wks, lmWorkerGrp := lmWorkerGrp s + d\<rparr>), ls))"

definition manager_Start ::
  "nanoseconds \<Rightarrow> (string \<Rightarrow> lease_io) \<Rightarrow> LeaderElectionManager \<Rightarrow> LeaderLease list \<Rightarrow> LeaderElectionManager option \<times> LeaderLease list" where
  "manager_Start now ios s = startWorkers now ios (s\<lparr>lmTearDown := ChanOpen\<rparr>)"

text \<open>The branch of the loop of \<^verbatim>\<open>Start\<close> that the closed channel \<^verbatim>\<open>tearDown\<close> selects.\<close>

fun stop_running :: "BaseWorker list \<Rightarrow> (BaseWorker list \<times> int) option" where
  "stop_running [] = Some ([], 0)"
| "stop_running (wk # wks) =
     (case (if wkRunning wk then map_option (\<lambda>wk'. (wk', - 1)) (Reconciler_Stop wk) else Some (wk, 0)) of
        None \<Rightarrow> None
      | Some (wk', d) \<Rightarrow> (case stop_running wks of None \<Rightarrow> None | Some (wks', d') \<Rightarrow> Some (wk' # wks', d + d')))"

text \<open>\<^verbatim>\<open>Stop\<close> closes the channel, which runs the branch above, and waits for the group: it returns when the
  count is zero.\<close>

datatype stop_result = StopReturns LeaderElectionManager | StopPanics | StopBlocks

definition manager_Stop :: "LeaderElectionManager \<Rightarrow> stop_result" where
  "manager_Stop s = (case lmTearDown s of
     ChanNil \<Rightarrow> StopReturns s
   | ChanClosed \<Rightarrow> StopReturns s
   | ChanOpen \<Rightarrow> (case stop_running (lmWorkers s) of
        None \<Rightarrow> StopPanics
      | Some (wks, d) \<Rightarrow>
          (if lmWorkerGrp s + d = 0 then StopReturns (s\<lparr>lmTearDown := ChanClosed, lmWorkers := wks, lmWorkerGrp := 0\<rparr>)
           else if lmWorkerGrp s + d < 0 then StopPanics else StopBlocks)))"

end
