(* ===== verification/Leader_Correct.thy ===== *)
theory Leader_Correct
  imports Leader_Election
begin

text \<open>
  Leader election keeps workers exclusive: with acquisitions that do not overlap, commits that do not
  fail and tickers that are late by at most one interval, no two workers of a type run at the same
  time, over any number of instances. Overlapping acquisitions break it, because the transaction does not read
  the lease again after it got the lock. The wait group of a manager counts its running workers, so
  that stopping it returns.
\<close>

subsection \<open>The contract of leases\<close>

text \<open>A worker \<open>i\<close> holds the lease of a type until \<open>u\<close> at least.\<close>

definition held :: "string \<Rightarrow> string \<Rightarrow> nanoseconds \<Rightarrow> LeaderLease list \<Rightarrow> bool" where
  "held i t u leases \<longleftrightarrow> i \<noteq> [] \<and> (case lease_of t leases of
     None \<Rightarrow> False
   | Some l \<Rightarrow> llLeader l = i \<and> (case llExpires l of None \<Rightarrow> False | Some x \<Rightarrow> u \<le> x))"

text \<open>No other transaction interferes and the commit succeeds; every other statement may fail.\<close>

definition undisturbed :: "lease_io \<Rightarrow> bool" where
  "undisturbed io \<longleftrightarrow> \<not> ioSkipped io \<and> ioCommit io = None"

definition wf_leases :: "LeaderLease list \<Rightarrow> bool" where
  "wf_leases leases \<longleftrightarrow> distinct (map llID leases)"

definition grace :: nanoseconds where "grace = seconds 30"

locale lease_contract =
  fixes s :: LeaderElectionManager and holds :: "string \<Rightarrow> string \<Rightarrow> nanoseconds \<Rightarrow> LeaderLease list \<Rightarrow> bool"
    and calm :: "lease_io \<Rightarrow> bool" and wf :: "LeaderLease list \<Rightarrow> bool"
  assumes grant: "calm io \<Longrightarrow> wf ls \<Longrightarrow> wkID wk \<noteq> [] \<Longrightarrow> isWorkerLeader s wk now io ls = (Some True, ls') \<Longrightarrow>
      holds (wkID wk) (wkType wk) (now + grace) ls'"
    and others: "calm io \<Longrightarrow> wf ls \<Longrightarrow> holds j t u ls \<Longrightarrow> now \<le> u \<Longrightarrow> j \<noteq> wkID wk \<Longrightarrow>
      isWorkerLeader s wk now io ls = (r, ls') \<Longrightarrow> holds j t u ls'"
    and wf_kept: "wf ls \<Longrightarrow> isWorkerLeader s wk now io ls = (r, ls') \<Longrightarrow> wf ls'"
begin

lemma start_worker_contract:
  assumes "calm io" "wf ls" "wkID wk \<noteq> []" "start_worker s now io wk ls = (Some (wk', d), ls')"
  shows "wkID wk' = wkID wk" "wkType wk' = wkType wk" "wf ls'"
    "wkRunning wk' \<Longrightarrow> holds (wkID wk) (wkType wk) (now + grace) ls'"
    "holds j t u ls \<Longrightarrow> now \<le> u \<Longrightarrow> j \<noteq> wkID wk \<Longrightarrow> holds j t u ls'"
proof -
  obtain b where b: "isWorkerLeader s wk now io ls = (Some b, ls')"
    and c: "wkID wk' = wkID wk" "wkType wk' = wkType wk" "wkRunning wk' \<Longrightarrow> b"
    using assms(4)
    by (auto simp: start_worker_def Reconciler_Start_def Reconciler_Stop_def
        split: prod.splits option.splits if_splits stop_chan.splits)
  show "wkID wk' = wkID wk" "wkType wk' = wkType wk" "wf ls'" using c wf_kept [OF assms(2) b] by simp_all
  show "wkRunning wk' \<Longrightarrow> holds (wkID wk) (wkType wk) (now + grace) ls'"
    using grant [OF assms(1,2,3), of now ls'] b c(3) by auto
  show "holds j t u ls \<Longrightarrow> now \<le> u \<Longrightarrow> j \<noteq> wkID wk \<Longrightarrow> holds j t u ls'"
    using others [OF assms(1,2)] b by blast
qed

lemma start_all_contract:
  assumes "\<And>i. calm (ios i)"
  shows "start_all s now ios wks ls = (Some (wks', d), ls') \<Longrightarrow> wf ls \<Longrightarrow> distinct (map wkID wks) \<Longrightarrow> [] \<notin> wkID ` set wks \<Longrightarrow>
    map wkID wks' = map wkID wks \<and> map wkType wks' = map wkType wks \<and> wf ls' \<and>
    (\<forall>wk\<in>set wks'. wkRunning wk \<longrightarrow> holds (wkID wk) (wkType wk) (now + grace) ls') \<and>
    (\<forall>j t u. holds j t u ls \<and> now \<le> u \<and> j \<notin> wkID ` set wks \<longrightarrow> holds j t u ls')"
proof (induction wks arbitrary: ls wks' d)
  case (Cons wk wks)
  obtain wk1 d1 ls1 where h: "start_worker s now (ios (wkID wk)) wk ls = (Some (wk1, d1), ls1)"
    using Cons.prems(1) by (auto split: prod.splits option.splits)
  obtain wks1 d2 where t: "start_all s now ios wks ls1 = (Some (wks1, d2), ls')" and w: "wks' = wk1 # wks1"
    using Cons.prems(1) h by (auto split: prod.splits option.splits)
  note c = start_worker_contract [OF assms Cons.prems(2) _ h]
  have ne: "wkID wk \<noteq> []" using Cons.prems(4) by force
  have IH: "map wkID wks1 = map wkID wks \<and> map wkType wks1 = map wkType wks \<and> wf ls' \<and>
    (\<forall>wk\<in>set wks1. wkRunning wk \<longrightarrow> holds (wkID wk) (wkType wk) (now + grace) ls') \<and>
    (\<forall>j t u. holds j t u ls1 \<and> now \<le> u \<and> j \<notin> wkID ` set wks \<longrightarrow> holds j t u ls')"
    using Cons.IH [OF t c(3) [OF ne]] Cons.prems(3,4) by auto
  have "wkRunning wk1 \<longrightarrow> holds (wkID wk1) (wkType wk1) (now + grace) ls'"
    using c(1,2,4) [OF ne] IH Cons.prems(3) by (auto simp: grace_def seconds_def)
  moreover have "\<forall>j t u. holds j t u ls \<and> now \<le> u \<and> j \<notin> wkID ` set (wk # wks) \<longrightarrow> holds j t u ls'"
    using c(5) [OF ne] IH by auto
  ultimately show ?case using IH c(1,2) [OF ne] w by auto
qed simp

end

lemma lease_of_update:
  assumes "wf_leases ls" "lease_of t ls = Some l"
  shows "lease_of t' (update_lease l i x ls) =
    (if t' = t then Some (l\<lparr>llLeader := i, llExpires := Some x\<rparr>) else lease_of t' ls)"
  using assms
proof (induction ls)
  case (Cons a ls)
  have tl: "wf_leases ls" using Cons.prems(1) by (simp add: wf_leases_def)
  show ?case
  proof (cases "llDeletedAt a = None \<and> llLeaseType a = t")
    case True
    then have a: "a = l" using Cons.prems(2) by (simp add: lease_of_def)
    have "llID l \<notin> llID ` set ls" using Cons.prems(1) a by (simp add: wf_leases_def)
    then have "update_lease l i x ls = ls"
      unfolding update_lease_def by (intro map_idI) (metis image_eqI)
    then show ?thesis using True a by (simp add: lease_of_def update_lease_def)
  next
    case False
    then have l: "lease_of t ls = Some l" using Cons.prems(2) by (simp add: lease_of_def split: if_splits)
    then have "l \<in> set ls" by (auto simp: lease_of_def find_Some_iff)
    then have "llID a \<noteq> llID l" using Cons.prems(1) by (auto simp: wf_leases_def)
    then show ?thesis using False Cons.IH [OF tl l] by (auto simp: lease_of_def update_lease_def)
  qed
qed (simp add: lease_of_def)

lemma update_lease_wf: "wf_leases (update_lease l i x ls) = wf_leases ls"
proof -
  have "map llID (update_lease l i x ls) = map llID ls" by (simp add: update_lease_def)
  then show ?thesis by (simp add: wf_leases_def)
qed

subsection \<open>The leases of the database meet the contract\<close>

lemma acquire_grant:
  assumes "undisturbed io" "wf_leases ls" "i \<noteq> []" "acquireLeaderLease leaseRenewTime i t now io ls = (Some (Inr (True, l')), ls')"
  shows "held i t (now + grace) ls'"
proof (cases "acquire_read leaseRenewTime i t now (ioRead io) ls")
  case (ReadTryLock l x)
  then have l: "lease_of t ls = Some l" "x = now + leaseRenewTime"
    by (auto simp: acquire_read_def Let_def split: option.splits bool.splits if_splits)
  then have "ls' = update_lease l i x ls"
    using assms(1,4) ReadTryLock by (auto simp: acquireLeaderLease_def acquire_write_def undisturbed_def split: option.splits)
  then show ?thesis using lease_of_update [OF assms(2) l(1)] l(2) assms(3)
    by (simp add: held_def leaseRenewTime_def grace_def seconds_def)
qed (use assms in \<open>auto simp: acquireLeaderLease_def acquire_read_def Let_def held_def grace_def isExpired_def
    split: option.splits bool.splits if_splits\<close>)

lemma acquire_others:
  assumes "wf_leases ls" "held j t' u ls" "now \<le> u" "j \<noteq> i" "acquireLeaderLease r i t now io ls = (a, ls')"
  shows "held j t' u ls'"
proof (cases "ls' = ls")
  case False
  then obtain l x where l: "acquire_read r i t now (ioRead io) ls = ReadTryLock l x" "ls' = update_lease l i x ls"
    using assms(5) by (auto simp: acquireLeaderLease_def acquire_write_def split: read_outcome.splits option.splits bool.splits if_splits)
  then have r: "lease_of t ls = Some l" "isExpired now l = Some True \<or> llLeader l = i"
    by (auto simp: acquire_read_def Let_def split: option.splits bool.splits if_splits)
  have "t' \<noteq> t" using assms(2,3,4) r by (auto simp: held_def isExpired_def split: option.splits if_splits)
  then show ?thesis using assms(2) lease_of_update [OF assms(1) r(1)] l(2) by (simp add: held_def)
qed (use assms in simp)

lemma acquire_wf: "wf_leases ls \<Longrightarrow> acquireLeaderLease r i t now io ls = (a, ls') \<Longrightarrow> wf_leases ls'"
  by (auto simp: acquireLeaderLease_def acquire_write_def update_lease_wf split: read_outcome.splits option.splits bool.splits if_splits)

abbreviation elected :: "LeaderElectionManager \<Rightarrow> LeaderElectionManager" where
  "elected s \<equiv> s\<lparr>lmForceLeader := False, lmLeaseRenewTime := leaseRenewTime\<rparr>"

interpretation lease: lease_contract "elected s" held undisturbed wf_leases for s
proof unfold_locales
  show "held (wkID wk) (wkType wk) (now + grace) ls'"
    if "undisturbed io" "wf_leases ls" "wkID wk \<noteq> []" "isWorkerLeader (elected s) wk now io ls = (Some True, ls')" for io ls wk now ls'
    using that acquire_grant [OF that(1-3)]
    by (auto simp: isWorkerLeader_def split: prod.splits option.splits sum.splits)
  show "held j t u ls'" if "wf_leases ls" "held j t u ls" "now \<le> u" "j \<noteq> wkID wk" "isWorkerLeader (elected s) wk now io ls = (r, ls')"
    for io ls j t u now wk r ls'
    using that(5) acquire_others [OF that(1-4)]
    by (auto simp: isWorkerLeader_def split: prod.splits option.splits sum.splits)
  show "wf_leases ls'" if "wf_leases ls" "isWorkerLeader (elected s) wk now io ls = (r, ls')" for ls wk now io r ls'
    using that(2) acquire_wf [OF that(1)]
    by (auto simp: isWorkerLeader_def split: prod.splits option.splits sum.splits)
qed

subsection \<open>Many instances\<close>

record election =
  elLeases :: "LeaderLease list"
  elInstances :: "(LeaderElectionManager \<times> nanoseconds) list"
  elNow :: nanoseconds

text \<open>An instance is its manager with the time of its last round. A round is one step; time passes in
  between, but the round of an instance with running workers is at most one interval late.\<close>

inductive election_step :: "election \<Rightarrow> election \<Rightarrow> bool" where
  round: "i < length (elInstances e) \<Longrightarrow> elInstances e ! i = (s, prev) \<Longrightarrow> (\<And>w. undisturbed (ios w)) \<Longrightarrow>
     startWorkers (elNow e) ios s (elLeases e) = (Some s', ls) \<Longrightarrow>
     election_step e (e\<lparr>elLeases := ls, elInstances := (elInstances e)[i := (s', elNow e)]\<rparr>)"
| pass: "elNow e \<le> now \<Longrightarrow>
     (\<And>s prev. (s, prev) \<in> set (elInstances e) \<Longrightarrow> \<exists>wk\<in>set (lmWorkers s). wkRunning wk \<Longrightarrow> now \<le> prev + 2 * mgrRepeatInterval) \<Longrightarrow>
     election_step e (e\<lparr>elNow := now\<rparr>)"

definition all_workers :: "election \<Rightarrow> BaseWorker list" where
  "all_workers e = concat (map (\<lambda>x. lmWorkers (fst x)) (elInstances e))"

definition electing :: "election \<Rightarrow> bool" where
  "electing e \<longleftrightarrow> wf_leases (elLeases e) \<and> distinct (map wkID (all_workers e)) \<and> [] \<notin> wkID ` set (all_workers e) \<and>
     (\<forall>x\<in>set (elInstances e). \<not> lmForceLeader (fst x) \<and> lmLeaseRenewTime (fst x) = leaseRenewTime)"

definition exclusive :: "election \<Rightarrow> bool" where
  "exclusive e \<longleftrightarrow> (\<forall>x\<in>set (elInstances e). \<forall>wk\<in>set (lmWorkers (fst x)). wkRunning wk \<longrightarrow>
     elNow e \<le> snd x + grace \<and> held (wkID wk) (wkType wk) (snd x + grace) (elLeases e))"

lemma concat_map_update:
  assumes "i < length xs" "f y = f (xs ! i)"
  shows "concat (map f (xs[i := y])) = concat (map f xs)"
proof -
  have "map f (xs[i := y]) = map f xs" using assms by (simp add: map_update list_update_same_conv)
  then show ?thesis by simp
qed

lemma distinct_concat_parts:
  "distinct (concat (map f xs)) \<Longrightarrow> i < length xs \<Longrightarrow> k < length xs \<Longrightarrow> i \<noteq> k \<Longrightarrow> set (f (xs ! i)) \<inter> set (f (xs ! k)) = {}"
proof (induction xs arbitrary: i k)
  case (Cons x xs)
  have d: "set (f x) \<inter> (\<Union>a\<in>set xs. set (f a)) = {}" using Cons.prems(1) by simp
  have part: "set (f (xs ! n)) \<inter> set (f x) = {}" if "n < length xs" for n
    using d nth_mem [OF that] by blast
  show ?case
  proof (cases i)
    case 0
    then show ?thesis using part [of "k - 1"] Cons.prems(3,4) by (cases k) auto
  next
    case (Suc i')
    then show ?thesis using part [of i'] Cons.IH [of i' "k - 1"] Cons.prems by (cases k) simp_all
  qed
qed simp

lemma worker_ids: "map wkID (all_workers e) = concat (map (\<lambda>x. map wkID (lmWorkers (fst x))) (elInstances e))"
  by (simp add: all_workers_def map_concat comp_def)

lemma instance_ok:
  assumes "electing e" "x \<in> set (elInstances e)"
  shows "distinct (map wkID (lmWorkers (fst x)))" "[] \<notin> wkID ` set (lmWorkers (fst x))" "elected (fst x) = fst x" "wf_leases (elLeases e)"
  using assms unfolding electing_def worker_ids by (auto simp: distinct_concat_iff all_workers_def)

lemma startWorkers_ids:
  assumes "startWorkers now ios s ls = (Some s', ls')"
  shows "map wkID (lmWorkers s') = map wkID (lmWorkers s) \<and> lmForceLeader s' = lmForceLeader s \<and> lmLeaseRenewTime s' = lmLeaseRenewTime s"
proof -
  have one: "start_worker s now io wk ls = (Some (wk', d), ls') \<Longrightarrow> wkID wk' = wkID wk" for io wk ls wk' d ls'
    by (auto simp: start_worker_def Reconciler_Start_def Reconciler_Stop_def split: prod.splits option.splits if_splits stop_chan.splits)
  have "start_all s now ios wks ls = (Some (wks', d), ls') \<Longrightarrow> map wkID wks' = map wkID wks" for wks wks' d ls ls'
    by (induction wks arbitrary: wks' d ls) (auto split: prod.splits option.splits dest: one)
  then show ?thesis using assms by (auto simp: startWorkers_def split: prod.splits option.splits)
qed

text \<open>What a round of an instance does to the leases.\<close>

lemma round_leases:
  assumes "electing e" "(s, prev) \<in> set (elInstances e)" "\<And>w. undisturbed (ios w)" "startWorkers now ios s (elLeases e) = (Some s', ls)"
  shows "wf_leases ls"
    "\<And>wk. wk \<in> set (lmWorkers s') \<Longrightarrow> wkRunning wk \<Longrightarrow> held (wkID wk) (wkType wk) (now + grace) ls"
    "\<And>j t u. held j t u (elLeases e) \<Longrightarrow> now \<le> u \<Longrightarrow> j \<notin> wkID ` set (lmWorkers s) \<Longrightarrow> held j t u ls"
proof -
  obtain wks d where r: "start_all s now ios (lmWorkers s) (elLeases e) = (Some (wks, d), ls)" "lmWorkers s' = wks"
    using assms(4) by (auto simp: startWorkers_def split: prod.splits option.splits)
  note ok = instance_ok [OF assms(1,2), unfolded fst_conv]
  note c = lease.start_all_contract [of ios s now "lmWorkers s" "elLeases e" wks d ls, OF assms(3), unfolded ok(3), OF r(1) ok(4) ok(1,2)]
  show "wf_leases ls"
    "\<And>wk. wk \<in> set (lmWorkers s') \<Longrightarrow> wkRunning wk \<Longrightarrow> held (wkID wk) (wkType wk) (now + grace) ls"
    "\<And>j t u. held j t u (elLeases e) \<Longrightarrow> now \<le> u \<Longrightarrow> j \<notin> wkID ` set (lmWorkers s) \<Longrightarrow> held j t u ls"
    using c r(2) by auto
qed

lemma electing_step: "election_step e e' \<Longrightarrow> electing e \<Longrightarrow> electing e'"
proof (induction rule: election_step.induct)
  case (round i e s prev ios s' ls)
  note ids = startWorkers_ids [OF round(4)]
  let ?e = "e\<lparr>elLeases := ls, elInstances := (elInstances e)[i := (s', elNow e)]\<rparr>"
  have m: "(s, prev) \<in> set (elInstances e)" using round(1,2) nth_mem by metis
  have w: "map wkID (all_workers ?e) = map wkID (all_workers e)"
    unfolding worker_ids using round(1,2) ids by (simp add: concat_map_update)
  have c: "\<not> lmForceLeader s' \<and> lmLeaseRenewTime s' = leaseRenewTime"
    using round(5) m ids unfolding electing_def by fastforce
  have "\<forall>x\<in>set (elInstances ?e). \<not> lmForceLeader (fst x) \<and> lmLeaseRenewTime (fst x) = leaseRenewTime"
    using c round(5) set_update_subset_insert [of "elInstances e" i "(s', elNow e)"] unfolding electing_def by auto
  moreover have "wkID ` set (all_workers ?e) = wkID ` set (all_workers e)" using w by (metis list.set_map)
  ultimately show ?case using w round(5) round_leases(1) [OF round(5) m round(3,4)] unfolding electing_def by auto
next
  case (pass e now)
  then show ?case by (simp add: electing_def all_workers_def)
qed

lemma exclusive_step: "election_step e e' \<Longrightarrow> electing e \<Longrightarrow> exclusive e \<Longrightarrow> exclusive e'"
proof (induction rule: election_step.induct)
  case (round i e s prev ios s' ls)
  have m: "(s, prev) \<in> set (elInstances e)" using round(1,2) nth_mem by metis
  note r = round_leases [OF round(5) m round(3,4)]
  have "elNow e \<le> snd x + grace \<and> held (wkID wk) (wkType wk) (snd x + grace) ls"
    if x: "x \<in> set ((elInstances e)[i := (s', elNow e)])" "wk \<in> set (lmWorkers (fst x))" "wkRunning wk" for x wk
  proof -
    obtain k where k: "k < length (elInstances e)" "x = (elInstances e)[i := (s', elNow e)] ! k"
      using x(1) by (auto simp: in_set_conv_nth)
    show ?thesis
    proof (cases "k = i")
      case True
      then show ?thesis using k x(2,3) r(2) by (auto simp: grace_def seconds_def)
    next
      case False
      then have xk: "x = elInstances e ! k" using k by simp
      then have h: "elNow e \<le> snd x + grace" "held (wkID wk) (wkType wk) (snd x + grace) (elLeases e)"
        using round(6) k(1) x(2,3) nth_mem unfolding exclusive_def by blast+
      have "distinct (concat (map (\<lambda>x. map wkID (lmWorkers (fst x))) (elInstances e)))"
        using round(5) unfolding electing_def worker_ids by blast
      then have "wkID wk \<notin> wkID ` set (lmWorkers s)"
        using distinct_concat_parts [of _ "elInstances e" k i] k(1) round(1,2) False xk x(2) by fastforce
      then show ?thesis using h r(3) by blast
    qed
  qed
  then show ?case unfolding exclusive_def by simp
next
  case (pass e now)
  then show ?case unfolding exclusive_def by (fastforce simp: grace_def mgrRepeatInterval_def seconds_def)
qed

subsection \<open>Properties\<close>

lemma election_steps:
  "rtranclp election_step e e' \<Longrightarrow> electing e \<Longrightarrow> exclusive e \<Longrightarrow> electing e' \<and> exclusive e'"
  by (induction rule: rtranclp_induct) (auto dest: electing_step exclusive_step)

text \<open>C28: At most one leader. Start any number of instances with no running worker and let them run rounds
  in any order, with any database errors except failing commits, acquisitions one after the other, and
  rounds of instances with running workers at most one interval late: two running workers of the same type,
  in whatever instances, are the same worker.\<close>

theorem at_most_one_leader:
  assumes "rtranclp election_step e e'" "electing e" "\<forall>wk\<in>set (all_workers e). \<not> wkRunning wk"
    "wk \<in> set (all_workers e')" "wk' \<in> set (all_workers e')" "wkRunning wk" "wkRunning wk'" "wkType wk = wkType wk'"
  shows "wk = wk'"
proof -
  have "exclusive e" using assms(3) by (auto simp: exclusive_def all_workers_def)
  then have e': "electing e'" "exclusive e'" using election_steps assms(1,2) by blast+
  have held: "\<exists>u. held (wkID v) (wkType v) u (elLeases e')" if "v \<in> set (all_workers e')" "wkRunning v" for v
    using e'(2) that unfolding exclusive_def all_workers_def by fastforce
  have "wkID wk = wkID wk'"
    using held [OF assms(4,6)] held [OF assms(5,7)] assms(8) by (auto simp: held_def split: option.splits)
  moreover have "inj_on wkID (set (all_workers e'))" using e'(1) by (simp add: electing_def distinct_map)
  ultimately show ?thesis using assms(4,5) by (meson inj_onD)
qed

definition sample_worker :: "string \<Rightarrow> BaseWorker" where
  "sample_worker i = \<lparr>wkID = i, wkType = ''cluster'', wkRunning = False, wkStop = ChanNil, wkLoops = 0\<rparr>"

definition sample_lease :: LeaderLease where
  "sample_lease = \<lparr>llID = ''l1'', llDeletedAt = None, llLeader = ''old'', llLeaseType = ''cluster'', llExpires = Some 0\<rparr>"

definition sample_io :: lease_io where
  "sample_io = \<lparr>ioRead = None, ioDelay = 1, ioLock = None, ioSkipped = False, ioUpdate = None, ioCommit = None\<rparr>"

definition sample_election :: election where
  "sample_election = \<lparr>elLeases = [sample_lease], elInstances = [(NewLeaderElectionManager [sample_worker ''a''] False, 0),
     (NewLeaderElectionManager [sample_worker ''b''] False, 0)], elNow = 5\<rparr>"

definition sample_started :: election where
  "sample_started = (let s = fst (elInstances sample_election ! 0);
      r = startWorkers 5 (\<lambda>_. sample_io) s (elLeases sample_election) in
     sample_election\<lparr>elLeases := snd r, elInstances := (elInstances sample_election)[0 := (the (fst r), 5)]\<rparr>)"

lemma sample_started_step: "election_step sample_election sample_started"
proof -
  let ?s = "fst (elInstances sample_election ! 0)"
  obtain s' ls where r: "startWorkers 5 (\<lambda>_. sample_io) ?s (elLeases sample_election) = (Some s', ls)"
  proof -
    have "fst (startWorkers 5 (\<lambda>_. sample_io) ?s (elLeases sample_election)) \<noteq> None" by code_simp
    then show thesis using that by (cases "startWorkers 5 (\<lambda>_. sample_io) ?s (elLeases sample_election)") auto
  qed
  show ?thesis
    using election_step.round [of 0 sample_election ?s 0 "\<lambda>_. sample_io" s' ls] r
    by (simp add: sample_started_def sample_election_def undisturbed_def sample_io_def Let_def)
qed

theorem at_most_one_leader_witness: "\<exists>wk. set (filter wkRunning (all_workers sample_started)) = {wk}"
proof -
  have r: "list_ex wkRunning (all_workers sample_started)" "list_all (\<lambda>wk. wkType wk = ''cluster'') (all_workers sample_started)"
    by code_simp+
  have "electing sample_election" "\<forall>wk\<in>set (all_workers sample_election). \<not> wkRunning wk"
    by (simp_all add: electing_def sample_election_def all_workers_def NewLeaderElectionManager_def sample_worker_def wf_leases_def)
  note one = at_most_one_leader [OF r_into_rtranclp [of election_step, OF sample_started_step] this]
  obtain wk where wk: "wk \<in> set (all_workers sample_started)" "wkRunning wk" using r(1) by (auto simp: list_ex_iff)
  have "v = wk" if "v \<in> set (all_workers sample_started)" "wkRunning v" for v
    using one [OF that(1) wk(1) that(2) wk(2)] that(1) wk(1) r(2) by (simp add: list_all_iff)
  then have "set (filter wkRunning (all_workers sample_started)) = {wk}" using wk unfolding set_filter by blast
  then show ?thesis by blast
qed

text \<open>C38: Overlapping acquisitions break exclusion. Two workers of a type read the same expired lease; the
  first locks, updates and commits; then the second gets the lock, does not look at the lease again and
  takes it over. Both have acquired the lease.\<close>

theorem overlapping_acquisitions_both_lead:
  assumes "wf_leases ls" "lease_of t ls = Some l" "isExpired now l = Some True" "undisturbed io" "undisturbed io'"
    "ioLock io = None" "ioUpdate io = None" "ioLock io' = None" "ioUpdate io' = None" "acquire_write a t l x now1 io ls = (r, ls')"
  shows "acquire_read leaseRenewTime a t now None ls = ReadTryLock l (now + leaseRenewTime) \<and>
    acquire_read leaseRenewTime b t now None ls = ReadTryLock l (now + leaseRenewTime) \<and>
    (\<exists>la. r = Some (Inr (True, la))) \<and> (\<exists>lb. fst (acquire_write b t l y now2 io' ls') = Some (Inr (True, lb)))"
proof -
  have "lease_of t ls' \<noteq> None"
    using assms lease_of_update [OF assms(1,2), of t a x] by (auto simp: acquire_write_def undisturbed_def split: if_splits)
  then show ?thesis using assms by (auto simp: acquire_read_def acquire_write_def undisturbed_def)
qed

theorem overlapping_acquisitions_both_lead_witness:
  "\<exists>la. fst (acquire_write ''a'' ''cluster'' sample_lease (seconds 61) (seconds 2) sample_io [sample_lease]) = Some (Inr (True, la))"
proof -
  have "wf_leases [sample_lease]" "lease_of ''cluster'' [sample_lease] = Some sample_lease" "isExpired (seconds 1) sample_lease = Some True"
    "undisturbed sample_io" "ioLock sample_io = None" "ioUpdate sample_io = None"
    by (simp_all add: wf_leases_def lease_of_def sample_lease_def isExpired_def seconds_def undisturbed_def sample_io_def)
  then show ?thesis
    using overlapping_acquisitions_both_lead [of "[sample_lease]" "''cluster''" sample_lease "seconds 1" sample_io sample_io "''a''" "seconds 61" "seconds 2"]
    by (metis prod.collapse)
qed

subsection \<open>Stopping a manager\<close>

text \<open>A running worker has an open stop channel and one loop; the group of the manager counts them.\<close>

definition worker_ok :: "BaseWorker \<Rightarrow> bool" where
  "worker_ok wk \<longleftrightarrow> (wkRunning wk \<longrightarrow> wkStop wk = ChanOpen \<and> wkLoops wk = 1) \<and> (\<not> wkRunning wk \<longrightarrow> wkStop wk \<noteq> ChanOpen \<and> wkLoops wk = 0)"

definition running :: "BaseWorker list \<Rightarrow> int" where
  "running wks = int (length (filter wkRunning wks))"

definition manager_ok :: "LeaderElectionManager \<Rightarrow> bool" where
  "manager_ok s \<longleftrightarrow> list_all worker_ok (lmWorkers s) \<and> lmWorkerGrp s = running (lmWorkers s)"

lemma start_worker_ok:
  "worker_ok wk \<Longrightarrow> start_worker s now io wk ls = (Some (wk', d), ls') \<Longrightarrow> worker_ok wk' \<and> running [wk'] = running [wk] + d"
  by (auto simp: start_worker_def worker_ok_def Reconciler_Start_def Reconciler_Stop_def running_def
      split: prod.splits option.splits if_splits stop_chan.splits)

lemma running_Cons: "running (wk # wks) = running [wk] + running wks"
  by (simp add: running_def)

lemma start_all_ok:
  "start_all s now ios wks ls = (Some (wks', d), ls') \<Longrightarrow> list_all worker_ok wks \<Longrightarrow> list_all worker_ok wks' \<and> running wks' = running wks + d"
proof (induction wks arbitrary: ls wks' d)
  case (Cons wk wks)
  then obtain wk1 d1 ls1 wks1 d2 where h: "start_worker s now (ios (wkID wk)) wk ls = (Some (wk1, d1), ls1)"
    and t: "start_all s now ios wks ls1 = (Some (wks1, d2), ls')" and w: "wks' = wk1 # wks1" "d = d1 + d2"
    by (auto split: prod.splits option.splits)
  then show ?case using Cons.IH [OF t] Cons.prems(2) start_worker_ok [OF _ h] running_Cons [of wk1 wks1] running_Cons [of wk wks] by simp
qed (simp add: running_def)

lemma startWorkers_ok: "manager_ok s \<Longrightarrow> startWorkers now ios s ls = (Some s', ls') \<Longrightarrow> manager_ok s' \<and> lmTearDown s' = lmTearDown s"
  using start_all_ok [of s now ios "lmWorkers s" ls] by (auto simp: startWorkers_def manager_ok_def split: prod.splits option.splits)

lemma stop_running_ok:
  "list_all worker_ok wks \<Longrightarrow> \<exists>wks'. stop_running wks = Some (wks', - running wks) \<and> list_all worker_ok wks' \<and> \<not> list_ex wkRunning wks'"
  by (induction wks) (auto simp: worker_ok_def Reconciler_Stop_def running_def)

text \<open>The rounds of a started manager.\<close>

inductive manager_run :: "LeaderElectionManager \<Rightarrow> bool" where
  start: "list_all (\<lambda>wk. \<not> wkRunning wk \<and> wkStop wk = ChanNil \<and> wkLoops wk = 0) wks \<Longrightarrow>
     manager_Start now ios (NewLeaderElectionManager wks force) ls = (Some s, ls') \<Longrightarrow> manager_run s"
| round: "manager_run s \<Longrightarrow> startWorkers now ios s ls = (Some s', ls') \<Longrightarrow> manager_run s'"

text \<open>C32: Stopping returns. After the start and any number of rounds, with any database errors and lost or
  won leases, stopping the manager neither panics nor waits forever: every worker is stopped, with its
  loop ended and its channel closed.\<close>

theorem manager_stop_returns:
  assumes "manager_run s"
  shows "\<exists>s'. manager_Stop s = StopReturns s' \<and> list_all (\<lambda>wk. \<not> wkRunning wk \<and> wkLoops wk = 0) (lmWorkers s')"
proof -
  have "manager_ok s \<and> lmTearDown s = ChanOpen"
    using assms
  proof (induction rule: manager_run.induct)
    case (start wks now ios force ls s ls')
    have "manager_ok ((NewLeaderElectionManager wks force)\<lparr>lmTearDown := ChanOpen\<rparr>)"
      using start(1) by (auto simp: NewLeaderElectionManager_def manager_ok_def worker_ok_def running_def list_all_iff filter_empty_conv)
    then show ?case using startWorkers_ok [OF _ start(2) [unfolded manager_Start_def]] by simp
  qed (use startWorkers_ok in fastforce)
  then obtain wks' where "stop_running (lmWorkers s) = Some (wks', - running (lmWorkers s))" "list_all worker_ok wks'" "\<not> list_ex wkRunning wks'"
      "lmWorkerGrp s = running (lmWorkers s)" "lmTearDown s = ChanOpen"
    using stop_running_ok [of "lmWorkers s"] by (auto simp: manager_ok_def)
  then show ?thesis by (auto simp: manager_Stop_def list_all_iff list_ex_iff worker_ok_def)
qed

theorem manager_stop_returns_witness:
  "\<exists>s'. manager_Stop (the (fst (manager_Start 5 (\<lambda>_. sample_io) (NewLeaderElectionManager [sample_worker ''a''] False) [sample_lease]))) = StopReturns s'"
proof -
  let ?r = "manager_Start 5 (\<lambda>_. sample_io) (NewLeaderElectionManager [sample_worker ''a''] False) [sample_lease]"
  have "fst ?r \<noteq> None" by code_simp
  then have "?r = (Some (the (fst ?r)), snd ?r)" by (cases ?r) auto
  then have "manager_run (the (fst ?r))"
    by (rule manager_run.start [rotated]) (simp add: sample_worker_def)
  then show ?thesis using manager_stop_returns by blast
qed

end
