(* ===== verification/Request_Validation.thy ===== *)
theory Request_Validation
  imports Central_Service
begin

text \<open>
  What the service checks before it acts on a request: the arguments of listings
  (\<^verbatim>\<open>pkg/services/types.go\<close>), the supported cloud providers (\<^verbatim>\<open>config/providers.go\<close>) and the validators
  (\<^verbatim>\<open>pkg/handlers/validation.go\<close>, \<^verbatim>\<open>internal/dinosaur/pkg/handlers/validation.go\<close>). The checks of resource
  quantities call the Kubernetes library, which is a parameter.
\<close>

subsection \<open>Arguments of a listing\<close>

type_synonym url_values = "(string \<times> string list) list"

text \<open>\<^verbatim>\<open>url.Values.Get\<close>: the first value of a key, or the empty string.\<close>

definition values_Get :: "url_values \<Rightarrow> string \<Rightarrow> string" where
  "values_Get params key = (case map_of params key of Some (v # _) \<Rightarrow> v | _ \<Rightarrow> [])"

definition GetAcceptedOrderByParams :: "string list" where
  "GetAcceptedOrderByParams = [''host'', ''cloud_provider'', ''cluster_id'', ''created_at'', ''href'', ''id'', ''instance_type'', ''multi_az'',
     ''name'', ''organisation_id'', ''owner'', ''region'', ''status'', ''updated_at'', ''version'']"

definition NewListArguments :: "url_values \<Rightarrow> ListArguments" where
  "NewListArguments params =
     (let page = (let v = values_Get params ''page'' in if v \<noteq> [] then fst (Atoi v) else 1);
          sz0 = (let v = values_Get params ''size'' in if v \<noteq> [] then fst (Atoi v) else 100);
          sz = (if sz0 > 65500 \<or> sz0 < 0 then 65500 else sz0);
          orderBy = (let v = values_Get params ''orderBy'' in if v \<noteq> [] then map (trim_char (CHR '' '')) (split_on (CHR '','') v) else []) in
      \<lparr>laPage = page, laSize = sz, laSearch = values_Get params ''search'', laOrderBy = orderBy\<rparr>)"

text \<open>White space of \<^verbatim>\<open>\s\<close>, and the replacement of its runs by one space.\<close>

definition is_space :: "char \<Rightarrow> bool" where
  "is_space c \<longleftrightarrow> char_code c \<in> {9, 10, 12, 13, 32}"

function squeeze_spaces :: "string \<Rightarrow> string" where
  "squeeze_spaces [] = []"
| "squeeze_spaces (c # cs) =
     (if is_space c then CHR '' '' # squeeze_spaces (dropWhile is_space cs) else c # squeeze_spaces cs)"
  by pat_completeness auto
termination
  by (relation "measure length") (auto simp: length_dropWhile_le le_imp_less_Suc)

text \<open>\<^verbatim>\<open>strings.ToLower\<close> maps rune by rune; \<open>lower_rune\<close> is the table of Unicode for runes that are not ASCII.\<close>

definition go_ToLower :: "(nat \<Rightarrow> nat) \<Rightarrow> string \<Rightarrow> string" where
  "go_ToLower lower_rune s =
     (if list_all (\<lambda>c. char_code c < 128) s then to_lower s
      else concat (map (\<lambda>(_, r). encode_rune (if r < 128 then char_code (to_lower_char (char_of r)) else lower_rune r)) (runes_from 0 s)))"

definition order_by_error :: "(nat \<Rightarrow> nat) \<Rightarrow> string \<Rightarrow> go_error option" where
  "order_by_error lower_rune orderByClause =
     (let keywords = split_on (CHR '' '') (squeeze_spaces (go_ToLower lower_rune orderByClause)) in
      if length keywords > 2 then Some (GoErr (''invalid order by clause '' @ [CHR 39] @ orderByClause @ [CHR 39]))
      else if \<not> List.member GetAcceptedOrderByParams (keywords ! 0) then Some (GoErr (''unknown order by field '' @ [CHR 39] @ keywords ! 0 @ [CHR 39]))
      else if length keywords = 2 \<and> keywords ! 1 \<noteq> ''asc'' \<and> keywords ! 1 \<noteq> ''desc'' then
        Some (GoErr (''invalid order by direction '' @ [CHR 39] @ keywords ! 1 @ [CHR 39]))
      else None)"

fun first_error :: "('a \<Rightarrow> 'e option) \<Rightarrow> 'a list \<Rightarrow> 'e option" where
  "first_error f [] = None"
| "first_error f (x # xs) = (case f x of Some e \<Rightarrow> Some e | None \<Rightarrow> first_error f xs)"

definition ListArguments_Validate :: "(nat \<Rightarrow> nat) \<Rightarrow> ListArguments \<Rightarrow> go_error option" where
  "ListArguments_Validate lower_rune la =
     (if laPage la < 0 then Some (GoErr ''page must be equal or greater than 0'')
      else if laSize la < 1 then Some (GoErr ''size must be equal or greater than 1'')
      else first_error (order_by_error lower_rune) (laOrderBy la))"

subsection \<open>Cloud providers\<close>

text \<open>The map of instance types as an association list; the limit is optional.\<close>

record Region =
  rgName :: string
  rgDefault :: bool
  rgSupportedInstanceTypes :: "(string \<times> int option) list"

record Provider =
  pvName :: string
  pvDefault :: bool
  pvRegions :: "Region list"

definition AsSlice :: "(string \<times> int option) list \<Rightarrow> string list" where
  "AsSlice itl = map fst itl"

definition IsInstanceTypeSupported :: "Region \<Rightarrow> string \<Rightarrow> bool" where
  "IsInstanceTypeSupported r instanceType \<longleftrightarrow> list_ex (\<lambda>(k, _). k = instanceType) (rgSupportedInstanceTypes r)"

definition empty_region :: Region where "empty_region = \<lparr>rgName = [], rgDefault = False, rgSupportedInstanceTypes = []\<rparr>"
definition empty_provider :: Provider where "empty_provider = \<lparr>pvName = [], pvDefault = False, pvRegions = []\<rparr>"

definition region_GetByName :: "Region list \<Rightarrow> string \<Rightarrow> Region \<times> bool" where
  "region_GetByName rl regionName = (case find (\<lambda>r. rgName r = regionName) rl of Some r \<Rightarrow> (r, True) | None \<Rightarrow> (empty_region, False))"

definition provider_GetByName :: "Provider list \<Rightarrow> string \<Rightarrow> Provider \<times> bool" where
  "provider_GetByName pl providerName = (case find (\<lambda>p. pvName p = providerName) pl of Some p \<Rightarrow> (p, True) | None \<Rightarrow> (empty_provider, False))"

definition names_text :: "string list \<Rightarrow> string" where
  "names_text ns = ''['' @ concat (map (\<lambda>n. n @ '' '') (butlast ns)) @ (if ns = [] then [] else last ns) @ '']''"

definition RegionList_String :: "Region list \<Rightarrow> string" where
  "RegionList_String rl = names_text (map rgName rl)"

definition ProviderList_String :: "Provider list \<Rightarrow> string" where
  "ProviderList_String pl = names_text (map pvName pl)"

definition provider_Validate :: "Provider \<Rightarrow> go_error option" where
  "provider_Validate p =
     (let defaultCount = length (filter rgDefault (pvRegions p)) in
      if defaultCount \<noteq> 1 then Some (GoErr (''expected 1 default region in provider '' @ pvName p @ '', got '' @ itoa (int defaultCount))) else None)"

definition ProviderConfig_Validate :: "Provider list \<Rightarrow> go_error option" where
  "ProviderConfig_Validate pl = (case first_error provider_Validate pl of
     Some e \<Rightarrow> Some e
   | None \<Rightarrow>
      (let providerDefaultCount = length (filter pvDefault pl) in
       if providerDefaultCount \<noteq> 1 then Some (GoErr (''expected 1 default provider in provider list, got '' @ itoa (int providerDefaultCount))) else None))"

definition GetDefault :: "Provider list \<Rightarrow> Provider \<times> go_error option" where
  "GetDefault pl = (case find pvDefault pl of
     Some p \<Rightarrow> (p, None) | None \<Rightarrow> (empty_provider, Some (GoErr ''no default provider found in list of supported providers'')))"

definition GetDefaultRegion :: "Provider \<Rightarrow> Region \<times> go_error option" where
  "GetDefaultRegion p = (case find rgDefault (pvRegions p) of
     Some r \<Rightarrow> (r, None) | None \<Rightarrow> (empty_region, Some (GoErr (''no default region found for provider '' @ pvName p))))"

definition IsRegionSupported :: "Provider \<Rightarrow> string \<Rightarrow> bool" where
  "IsRegionSupported p regionName = snd (region_GetByName (pvRegions p) regionName)"

subsection \<open>Validators of texts\<close>

definition az :: "char \<times> char" where "az = (CHR ''a'', CHR ''z'')"

text \<open>\<^verbatim>\<open>^[a-z]([-a-z0-9]*[a-z0-9])?$\<close>\<close>

definition ValidDinosaurClusterNameRegexp :: regexp where
  "ValidDinosaurClusterNameRegexp = Seq (Class (CharClass False [az]))
     (opt (Seq (Star (Class (CharClass False ((CHR ''-'', CHR ''-'') # lower_alnum)))) (Class (CharClass False lower_alnum))))"

definition name_regexp_text :: string where
  "name_regexp_text = ''^[a-z]([-a-z0-9]*[a-z0-9])?$''"

definition ValidServiceAccountNameRegexp :: regexp where
  "ValidServiceAccountNameRegexp = ValidDinosaurClusterNameRegexp"

definition MinRequiredFieldLength :: int where "MinRequiredFieldLength = 1"
definition MaxCentralNameLength :: int where "MaxCentralNameLength = 32"

definition ValidateAsyncEnabled :: "url_values \<Rightarrow> service_error option" where
  "ValidateAsyncEnabled query = (if values_Get query ''async'' \<noteq> ''true'' then Some SyncActionNotSupported else None)"

definition ValidateMultiAZEnabled :: "bool \<Rightarrow> service_error option" where
  "ValidateMultiAZEnabled v = (if \<not> v then Some NotMultiAzActionNotSupported else None)"

definition ValidateMaxLength :: "string \<Rightarrow> string \<Rightarrow> int option \<Rightarrow> service_error option" where
  "ValidateMaxLength v field maxVal = (case maxVal of
     None \<Rightarrow> None
   | Some m \<Rightarrow> if int (length v) > m then
        Some (MaximumFieldLengthMissing (Fmt (field @ '' is not valid. Maximum length '' @ itoa m @ '' is required''))) else None)"

definition ValidateMinLength :: "string option \<Rightarrow> string \<Rightarrow> int \<Rightarrow> service_error option" where
  "ValidateMinLength v field m =
     (if v = None \<or> int (length (the v)) < m then
        Some (MinimumFieldLengthNotReached (Fmt (field @ '' is not valid. Minimum length '' @ itoa m @ '' is required.''))) else None)"

text \<open>\<^verbatim>\<open>ValidateLength\<close> builds a closure: the closure of the maximum, which is never nil, so that the closure
  of the minimum is never returned. \<open>min_closure\<close> is what would be returned otherwise.\<close>

definition ValidateLength :: "string \<Rightarrow> string \<Rightarrow> int \<Rightarrow> int option \<Rightarrow> service_error option" where
  "ValidateLength v field minVal maxVal =
     (let m = (if minVal > 1 then minVal else 1);
          resp = Some (\<lambda>_::unit. ValidateMaxLength v field maxVal);
          min_closure = (\<lambda>_::unit. ValidateMinLength (Some v) field m) in
      case resp of Some closure \<Rightarrow> closure () | None \<Rightarrow> min_closure ())"

definition ValidDinosaurClusterName :: "string \<Rightarrow> string \<Rightarrow> service_error option" where
  "ValidDinosaurClusterName v field =
     (if \<not> re_match ValidDinosaurClusterNameRegexp v then
        Some (MalformedDinosaurClusterName (Fmt (field @ '' does not match '' @ name_regexp_text))) else None)"

definition ValidateServiceAccountName :: "string \<Rightarrow> string \<Rightarrow> service_error option" where
  "ValidateServiceAccountName v field =
     (if \<not> re_match ValidServiceAccountNameRegexp v then
        Some (MalformedServiceAccountName (Fmt (field @ '' does not match '' @ name_regexp_text))) else None)"

definition hexdigit :: regexp where
  "hexdigit = Class (CharClass False [(CHR ''0'', CHR ''9''), (CHR ''a'', CHR ''f'')])"

fun re_times :: "nat \<Rightarrow> regexp \<Rightarrow> regexp" where
  "re_times 0 r = One"
| "re_times (Suc n) r = Seq r (re_times n r)"

text \<open>\<^verbatim>\<open>^[0-9a-f]{8}-[0-9a-f]{4}-[0-9a-f]{4}-[0-9a-f]{4}-[0-9a-f]{12}$\<close>\<close>

definition ValidUUIDRegexp :: regexp where
  "ValidUUIDRegexp = foldr Seq [re_times 8 hexdigit, lit (CHR ''-''), re_times 4 hexdigit, lit (CHR ''-''), re_times 4 hexdigit, lit (CHR ''-''),
     re_times 4 hexdigit, lit (CHR ''-''), re_times 12 hexdigit] One"

definition uuid_regexp_text :: string where
  "uuid_regexp_text = ''^[0-9a-f]{8}-[0-9a-f]{4}-[0-9a-f]{4}-[0-9a-f]{4}-[0-9a-f]{12}$''"

definition ValidateServiceAccountID :: "string \<Rightarrow> string \<Rightarrow> service_error option" where
  "ValidateServiceAccountID v field =
     (if \<not> re_match ValidUUIDRegexp v then
        Some (MalformedServiceAccountID (Fmt (field @ '' does not match '' @ uuid_regexp_text))) else None)"

text \<open>\<^verbatim>\<open>^[a-zA-Z0-9.,\-\s]*$\<close>\<close>

definition ValidServiceAccountDescRegexp :: regexp where
  "ValidServiceAccountDescRegexp = Star (Class (CharClass False [az, (CHR ''A'', CHR ''Z''), (CHR ''0'', CHR ''9''), (CHR ''.'', CHR ''.''),
     (CHR '','', CHR '',''), (CHR ''-'', CHR ''-''), (CHR 9, CHR 10), (CHR 12, CHR 13), (CHR '' '', CHR '' '')]))"

definition ValidateServiceAccountDesc :: "string \<Rightarrow> string \<Rightarrow> service_error option" where
  "ValidateServiceAccountDesc v field =
     (if \<not> re_match ValidServiceAccountDescRegexp v then
        Some (MalformedServiceAccountDesc (Fmt (field @ '' does not match ^[a-zA-Z0-9.,'' @ [CHR 92] @ ''-'' @ [CHR 92] @ ''s]*$''))) else None)"

text \<open>\<^verbatim>\<open>strconv.ParseInt\<close> with base 10 and 64 bits accepts what \<open>Atoi\<close> accepts.\<close>

definition ValidatQueryParam :: "url_values \<Rightarrow> string \<Rightarrow> service_error option" where
  "ValidatQueryParam queryParams field =
     (let v = values_Get queryParams field in
      if v = [] \<or> \<not> snd (Atoi v) then
        Some (FailedToParseQueryParms (Fmt (''bad request, cannot parse query parameter '' @ [CHR 39] @ field @ [CHR 39] @ '' '' @ [CHR 39] @ v @ [CHR 39]))) else None)"

subsection \<open>Default version\<close>

definition allowedVersionPrefixes :: "string list" where
  "allowedVersionPrefixes = [''quay.io/rhacs-eng'', ''registry.redhat.io/advanced-cluster-security'', ''quay.io/stackrox-io'']"

definition isAllowedVersion :: "string \<Rightarrow> bool" where
  "isAllowedVersion version \<longleftrightarrow> list_ex (has_prefix version) allowedVersionPrefixes"

definition ValidateCentralVersionString :: "string \<Rightarrow> go_error option" where
  "ValidateCentralVersionString version =
     (if \<not> isAllowedVersion version then
        Some (GoErr (''version: '' @ version @ '' does not match one of the allowed version prefixes: '' @ names_text allowedVersionPrefixes))
      else None)"

definition validateCentralVersionString :: "string \<Rightarrow> service_error option" where
  "validateCentralVersionString version = (case ValidateCentralVersionString version of
     Some e \<Rightarrow> Some (Validation (Fmt (''validating central version string: '' @ go_Error e)))
   | None \<Rightarrow> None)"

definition ValidateUpdateCentralVersion :: "string \<Rightarrow> service_error option" where
  "ValidateUpdateCentralVersion version = (if version = [] then None else validateCentralVersionString version)"

end
