(* ===== verification/Central_Handlers.thy ===== *)
theory Central_Handlers
  imports Request_Validation
begin

text \<open>
  The REST handlers of central requests (\<^verbatim>\<open>handlers/dinosaur.go\<close>, and those of \<^verbatim>\<open>handlers/admin_dinosaur.go\<close>
  that do not touch the specs of a tenant) on the framework of \<^verbatim>\<open>pkg/handlers/framework.go\<close>: decode the body,
  run the validators in order, stop at the first error, act, answer. Validators and actions work on the
  request under construction and on the world; a panic is \<open>None\<close>. Telemetry is left out.
\<close>

subsection \<open>The framework\<close>

type_synonym 's validate = "'s \<Rightarrow> world \<Rightarrow> (service_error option \<times> 's) option \<times> world"
type_synonym ('s, 'a) http_action = "'s \<Rightarrow> world \<Rightarrow> (service_error + 'a) option \<times> world"

datatype 'a response = Reply (reply_status: int) (reply_body: 'a) | ErrorReply service_error

definition StatusOK :: int where "StatusOK = 200"
definition StatusAccepted :: int where "StatusAccepted = 202"

definition response_code :: "'a response \<Rightarrow> int" where
  "response_code r = (case r of Reply s _ \<Rightarrow> s | ErrorReply e \<Rightarrow> HTTPCode e)"

fun run_validators :: "'s validate list \<Rightarrow> 's validate" where
  "run_validators [] k w = (Some (None, k), w)"
| "run_validators (v # vs) k w = (case v k w of
     (None, w') \<Rightarrow> (None, w')
   | (Some (Some e, k'), w') \<Rightarrow> (Some (Some e, k'), w')
   | (Some (None, k'), w') \<Rightarrow> run_validators vs k' w')"

definition HandleDelete :: "'s validate list \<Rightarrow> ('s, 'a) http_action \<Rightarrow> int \<Rightarrow> 's \<Rightarrow> world \<Rightarrow> 'a response option \<times> world" where
  "HandleDelete validators action httpStatus k w = (case run_validators validators k w of
     (None, w') \<Rightarrow> (None, w')
   | (Some (Some e, _), w') \<Rightarrow> (Some (ErrorReply e), w')
   | (Some (None, k'), w') \<Rightarrow> (case action k' w' of
        (None, w'') \<Rightarrow> (None, w'')
      | (Some (Inl e), w'') \<Rightarrow> (Some (ErrorReply e), w'')
      | (Some (Inr r), w'') \<Rightarrow> (Some (Reply httpStatus r), w'')))"

definition HandleGet :: "'s validate list \<Rightarrow> ('s, 'a) http_action \<Rightarrow> 's \<Rightarrow> world \<Rightarrow> 'a response option \<times> world" where
  "HandleGet validators action = HandleDelete validators action StatusOK"

text \<open>\<open>body\<close> is the outcome of decoding the body into the payload.\<close>

definition Handle ::
  "go_error + 'p \<Rightarrow> ('p \<Rightarrow> 's validate list) \<Rightarrow> ('p \<Rightarrow> ('s, 'a) http_action) \<Rightarrow> int \<Rightarrow> 's \<Rightarrow> world \<Rightarrow> 'a response option \<times> world" where
  "Handle body validators action httpStatus k w = (case body of
     Inl e \<Rightarrow> (Some (ErrorReply (MalformedRequest (Fmt (''Invalid request format: '' @ go_Error e)))), w)
   | Inr p \<Rightarrow> HandleDelete (validators p) (action p) httpStatus k w)"

definition check :: "service_error option \<Rightarrow> 's validate" where
  "check e k w = (Some (e, k), w)"

subsection \<open>Requests and answers\<close>

record http_request =
  rqQuery :: url_values
  rqContext :: request_context
  rqUserAgent :: string
  rqID :: string

record ResourceRequirements =
  rrRequests :: "(string \<times> string) list"
  rrLimits :: "(string \<times> string) list"

record AnalyzerScaling =
  asAutoScaling :: string
  asReplicas :: int
  asMinReplicas :: int
  asMaxReplicas :: int

record CentralRequestPayload =
  cpCloudProvider :: string
  cpCloudAccountId :: string
  cpMultiAz :: bool
  cpName :: string
  cpRegion :: string
  cpCentralResources :: ResourceRequirements
  cpAnalyzerResources :: ResourceRequirements
  cpAnalyzerScaling :: AnalyzerScaling
  cpDbResources :: ResourceRequirements

record public_CentralRequest =
  pcId :: string
  pcKind :: string
  pcHref :: string
  pcStatus :: string
  pcCloudProvider :: string
  pcCloudAccountId :: string
  pcMultiAz :: bool
  pcRegion :: string
  pcOwner :: string
  pcName :: string
  pcCreatedAt :: int
  pcUpdatedAt :: int
  pcFailedReason :: string
  pcVersion :: string
  pcInstanceType :: string
  pcCentralUIURL :: string
  pcCentralDataURL :: string

definition sensorDataPort :: int where "sensorDataPort = 443"

definition PresentCentralRequest :: "CentralRequest \<Rightarrow> public_CentralRequest" where
  "PresentCentralRequest r =
     \<lparr>pcId = crID r, pcKind = ''CentralRequest'', pcHref = ''/api/rhacs/v1/centrals/'' @ crID r, pcStatus = crStatus r,
      pcCloudProvider = crCloudProvider r, pcCloudAccountId = crCloudAccountID r, pcMultiAz = crMultiAZ r, pcRegion = crRegion r,
      pcOwner = crOwner r, pcName = crName r, pcCreatedAt = crCreatedAt r, pcUpdatedAt = crUpdatedAt r, pcFailedReason = crFailedReason r,
      pcVersion = crActualCentralVersion r, pcInstanceType = crInstanceType r,
      pcCentralUIURL = (if crRoutesCreated r \<and> GetUIHost r \<noteq> [] then ''https://'' @ GetUIHost r else []),
      pcCentralDataURL = (if crRoutesCreated r \<and> GetDataHost r \<noteq> [] then GetDataHost r @ '':'' @ itoa sensorDataPort else [])\<rparr>"

text \<open>The dependencies of the handlers: the service with the parameters of its listing, the table of
  lower-case runes, the configured providers, the user agents of internal clients, and the parser of
  quantities and the encoder and decoder of specs of the Kubernetes and JSON libraries.\<close>

record api_env =
  aeEnv :: env
  aeRcap :: "nat \<Rightarrow> nat"
  aeSql :: "DBQuery \<Rightarrow> CentralRequest \<Rightarrow> bool"
  aeOrder :: "string list \<Rightarrow> CentralRequest list \<Rightarrow> CentralRequest list"
  aeLower :: "nat \<Rightarrow> nat"
  aeProviders :: "Provider list"
  aeInternalUserAgents :: "string list"
  aeParseQuantity :: "string \<Rightarrow> go_error option"
  aeMarshalCentral :: "CentralRequestPayload \<Rightarrow> go_error + string"
  aeMarshalScanner :: "CentralRequestPayload \<Rightarrow> go_error + string"
  aeDecodeCentral :: "string \<Rightarrow> go_error option"
  aeDecodeScanner :: "string \<Rightarrow> go_error option"

subsection \<open>Validators of a creation\<close>

definition ValidateDinosaurClusterNameIsUnique :: "api_env \<Rightarrow> request_context \<Rightarrow> string \<Rightarrow> 's validate" where
  "ValidateDinosaurClusterNameIsUnique ae ctx name k w =
     (case central_List (aeRcap ae) (aeSql ae) (aeOrder ae) ctx
             \<lparr>laPage = 1, laSize = 1, laSearch = ''name = '' @ name, laOrderBy = []\<rparr> w of
        (None, w') \<Rightarrow> (None, w')
      | (Some (Inl e), w') \<Rightarrow> (Some (Some e, k), w')
      | (Some (Inr (_, pageMeta)), w') \<Rightarrow>
          (Some (if pmTotal pageMeta > 0 then Some DuplicateDinosaurClusterName else None, k), w'))"

definition ValidateDinosaurClaims :: "request_context \<Rightarrow> CentralRequestPayload \<Rightarrow> CentralRequest validate" where
  "ValidateDinosaurClaims ctx p k w =
     (let k1 = k\<lparr>crRegion := cpRegion p, crName := cpName p, crCloudProvider := cpCloudProvider p, crMultiAZ := cpMultiAz p,
                  crCloudAccountID := cpCloudAccountId p\<rparr> in
      case GetClaimsFromContext ctx of
        Inl _ \<Rightarrow> (Some (Some (Unauthenticated (Fmt ''user not authenticated'')), k1), w)
      | Inr claims \<Rightarrow> (Some (None, k1\<lparr>crOwner := or_empty (GetUsername claims), crOrganisationID := or_empty (GetOrgID claims),
            crOwnerAccountID := or_empty (GetAccountID claims), crOwnerUserID := or_empty (GetSubject claims)\<rparr>), w))"

definition ValidateCloudProvider :: "api_env \<Rightarrow> CentralRequest validate" where
  "ValidateCloudProvider ae k w =
     (let pl = aeProviders ae;
          k1 = (if crCloudProvider k = [] then k\<lparr>crCloudProvider := pvName (fst (GetDefault pl))\<rparr> else k) in
      case provider_GetByName pl (crCloudProvider k1) of
        (_, False) \<Rightarrow> (Some (Some (ProviderNotSupported (Fmt (''provider '' @ crCloudProvider k1 @
            '' is not supported, supported providers are: '' @ ProviderList_String pl))), k1), w)
      | (provider, True) \<Rightarrow>
         (let k2 = (if crRegion k1 = [] then k1\<lparr>crRegion := rgName (fst (GetDefaultRegion provider))\<rparr> else k1) in
          if \<not> IsRegionSupported provider (crRegion k2) then
            (Some (Some (RegionNotSupported (Fmt (''region '' @ crRegion k2 @ '' is not supported for '' @ crCloudProvider k2 @
              '', supported regions are: '' @ RegionList_String (pvRegions provider)))), k2), w)
          else (case DetectInstanceType (aeEnv ae) k2 w of (instanceType, w') \<Rightarrow>
             (let region = fst (region_GetByName (pvRegions provider) (crRegion k2)) in
              if \<not> IsInstanceTypeSupported region instanceType then
                (Some (Some (InstanceTypeNotSupported (Fmt (''instance type '' @ [CHR 39] @ instanceType @ [CHR 39] @
                   '' not supported for region '' @ [CHR 39] @ rgName region @ [CHR 39]))), k2), w')
              else (Some (None, k2), w')))))"

definition validateCentralResourcesUnspecified :: "CentralRequestPayload \<Rightarrow> service_error option" where
  "validateCentralResourcesUnspecified p =
     (if rrLimits (cpCentralResources p) \<noteq> [] \<or> rrRequests (cpCentralResources p) \<noteq> [] then
        Some (Forbidden (Fmt ''not allowed to specify central resources'')) else None)"

definition validateScannerResourcesUnspecified :: "CentralRequestPayload \<Rightarrow> service_error option" where
  "validateScannerResourcesUnspecified p =
     (if rrLimits (cpAnalyzerResources p) \<noteq> [] \<or> rrRequests (cpAnalyzerResources p) \<noteq> [] then
        Some (Forbidden (Fmt ''not allowed to specify scanner analyzer resources''))
      else if rrLimits (cpDbResources p) \<noteq> [] \<or> rrRequests (cpDbResources p) \<noteq> [] then
        Some (Forbidden (Fmt ''not allowed to specify scanner db resources''))
      else None)"

definition ResourceCPU :: string where "ResourceCPU = ''cpu''"
definition ResourceMemory :: string where "ResourceMemory = ''memory''"

text \<open>The map is iterated in an order that Go does not fix: the order of the list.\<close>

definition validateResourceList :: "api_env \<Rightarrow> (string \<times> string) list \<Rightarrow> string \<Rightarrow> service_error option" where
  "validateResourceList ae resources path = first_error (\<lambda>(name, qty).
     if name \<noteq> ResourceCPU \<and> name \<noteq> ResourceMemory then
       Some (Validation (Fmt (''unsupported resource type '' @ go_quote name @ '' in '' @ path)))
     else if qty = [] then None
     else (case aeParseQuantity ae qty of
        Some e \<Rightarrow> Some (Validation (Fmt (''invalid resources: failed to parse quantity '' @ go_quote qty @ '' at '' @ path @ ''.'' @ name @ '' due to: '' @ go_Error e)))
      | None \<Rightarrow> None)) resources"

definition wrapped :: "string \<Rightarrow> service_error option \<Rightarrow> service_error option" where
  "wrapped msg e = map_option (\<lambda>e. Validation (Fmt (msg @ svc_Error e))) e"

text \<open>The first error of a list of checks.\<close>

definition in_order :: "service_error option list \<Rightarrow> service_error option" where
  "in_order es = first_error id es"

definition ValidateCentralSpec :: "api_env \<Rightarrow> CentralRequestPayload \<Rightarrow> CentralRequest validate" where
  "ValidateCentralSpec ae p k w =
     (case in_order [wrapped ''invalid resource requests for Central: '' (validateResourceList ae (rrRequests (cpCentralResources p)) ''central.resources.requests''),
          wrapped ''invalid resource limits for Central: '' (validateResourceList ae (rrLimits (cpCentralResources p)) ''central.resources.limits'')] of
        Some e \<Rightarrow> (Some (Some e, k), w)
      | None \<Rightarrow> (case aeMarshalCentral ae p of
          Inl e \<Rightarrow> (Some (Some (Validation (Fmt (''marshaling Central spec failed: '' @ go_Error e))), k), w)
        | Inr bytes \<Rightarrow> (case aeDecodeCentral ae bytes of
            Some e \<Rightarrow> (Some (Some (Validation (Fmt (''invalid value as Central spec: '' @ go_Error e))), k), w)
          | None \<Rightarrow> (Some (None, k\<lparr>crCentral := Some bytes\<rparr>), w))))"

text \<open>The limits of the database of the scanner are not looked at: the source validates those of the
  analyzer once more.\<close>

definition ValidateScannerSpec :: "api_env \<Rightarrow> CentralRequestPayload \<Rightarrow> CentralRequest validate" where
  "ValidateScannerSpec ae p k w =
     (let auto = asAutoScaling (cpAnalyzerScaling p) in
      case in_order [
        wrapped ''invalid resource requests for Scanner Analyzer: '' (validateResourceList ae (rrRequests (cpAnalyzerResources p)) ''scanner.analyzer.resources.requests''),
        wrapped ''invalid resource limits for Scanner Analyzer: '' (validateResourceList ae (rrLimits (cpAnalyzerResources p)) ''scanner.analyzer.resources.limits''),
        if auto \<noteq> [] \<and> auto \<noteq> ''Enabled'' \<and> auto \<noteq> ''Disabled'' then
          Some (Validation (Fmt (''invalid AutoScaling setting at Scanner.Analyzer.Scaling.AutoScaling, expected '' @ [CHR 39] @ ''Enabled'' @ [CHR 39] @
            '' or '' @ [CHR 39] @ ''Disabled'' @ [CHR 39]))) else None,
        wrapped ''invalid resource requests for Scanner DB: '' (validateResourceList ae (rrRequests (cpDbResources p)) ''scanner.db.resources.requests''),
        wrapped ''invalid resource limits for Scanner DB: '' (validateResourceList ae (rrLimits (cpAnalyzerResources p)) ''scanner.db.resources.limits'')] of
        Some e \<Rightarrow> (Some (Some e, k), w)
      | None \<Rightarrow> (case aeMarshalScanner ae p of
          Inl e \<Rightarrow> (Some (Some (Validation (Fmt (''marshaling Scanner spec failed: '' @ go_Error e))), k), w)
        | Inr bytes \<Rightarrow> (case aeDecodeScanner ae bytes of
            Some e \<Rightarrow> (Some (Some (Validation (Fmt (''invalid value as Scanner spec: '' @ go_Error e))), k), w)
          | None \<Rightarrow> (Some (None, k\<lparr>crScanner := Some bytes\<rparr>), w))))"

text \<open>The validators that the public and the admin creation share.\<close>

definition common_validators :: "api_env \<Rightarrow> http_request \<Rightarrow> CentralRequestPayload \<Rightarrow> CentralRequest validate list" where
  "common_validators ae r p =
     [check (ValidateAsyncEnabled (rqQuery r)),
      check (ValidateLength (cpName p) ''name'' MinRequiredFieldLength (Some MaxCentralNameLength)),
      check (ValidDinosaurClusterName (cpName p) ''name''),
      ValidateDinosaurClusterNameIsUnique ae (rqContext r) (cpName p),
      ValidateDinosaurClaims (rqContext r) p,
      ValidateCloudProvider ae,
      check (ValidateMultiAZEnabled (cpMultiAz p))]"

subsection \<open>The public handler\<close>

definition register_action :: "api_env \<Rightarrow> (CentralRequest, public_CentralRequest) http_action" where
  "register_action ae k w = (case RegisterDinosaurJob (aeEnv ae) k w of
     (Inl e, w') \<Rightarrow> (Some (Inl e), w')
   | (Inr k', w') \<Rightarrow> (Some (Inr (PresentCentralRequest k')), w'))"

definition dinosaurHandler_Create ::
  "api_env \<Rightarrow> http_request \<Rightarrow> go_error + CentralRequestPayload \<Rightarrow> world \<Rightarrow> public_CentralRequest response option \<times> world" where
  "dinosaurHandler_Create ae r body =
     Handle body
       (\<lambda>p. common_validators ae r p @ [check (validateCentralResourcesUnspecified p), check (validateScannerResourcesUnspecified p)])
       (\<lambda>p k. register_action ae (if List.member (aeInternalUserAgents ae) (rqUserAgent r) then k\<lparr>crInternal := True\<rparr> else k))
       StatusAccepted empty_central"

definition dinosaurHandler_Get :: "http_request \<Rightarrow> world \<Rightarrow> public_CentralRequest response option \<times> world" where
  "dinosaurHandler_Get r =
     HandleGet [] (\<lambda>_ w. case central_Get (rqContext r) (rqID r) w of
         (Inl e, w') \<Rightarrow> (Some (Inl e), w')
       | (Inr k, w') \<Rightarrow> (Some (Inr (PresentCentralRequest k)), w')) ()"

definition dinosaurHandler_Delete :: "api_env \<Rightarrow> http_request \<Rightarrow> world \<Rightarrow> unit response option \<times> world" where
  "dinosaurHandler_Delete ae r =
     HandleDelete [check (ValidateAsyncEnabled (rqQuery r))] (\<lambda>_ w.
       case central_Get (rqContext r) (rqID r) w of
         (Inl e, w1) \<Rightarrow> (Some (Inl e), w1)
       | (Inr _, w1) \<Rightarrow> (case RegisterDinosaurDeprovisionJob (aeEnv ae) (rqContext r) (rqID r) w1 of
            (Some e, w2) \<Rightarrow> (Some (Inl e), w2)
          | (None, w2) \<Rightarrow> (Some (Inr ()), w2))) StatusAccepted ()"

text \<open>The conversion to \<^verbatim>\<open>int32\<close> keeps the low 32 bits.\<close>

definition wrap_int32 :: "int \<Rightarrow> int" where
  "wrap_int32 x = (x + 2 ^ 31) mod 2 ^ 32 - 2 ^ 31"

record 'a item_list =
  ilKind :: string
  ilPage :: int
  ilSize :: int
  ilTotal :: int
  ilItems :: "'a list"

definition list_action :: "api_env \<Rightarrow> http_request \<Rightarrow> string \<Rightarrow> (CentralRequest \<Rightarrow> 'a) \<Rightarrow> (unit, 'a item_list) http_action" where
  "list_action ae r kind present _ w =
     (let listArgs = NewListArguments (rqQuery r) in
      case ListArguments_Validate (aeLower ae) listArgs of
        Some e \<Rightarrow> (Some (Inl (NewWithCause ErrorMalformedRequest (Some e) (Fmt (''Unable to list central requests: '' @ go_Error e)))), w)
      | None \<Rightarrow> (case central_List (aeRcap ae) (aeSql ae) (aeOrder ae) (rqContext r) listArgs w of
          (None, w') \<Rightarrow> (None, w')
        | (Some (Inl e), w') \<Rightarrow> (Some (Inl e), w')
        | (Some (Inr (rs, paging)), w') \<Rightarrow>
            (Some (Inr \<lparr>ilKind = kind, ilPage = wrap_int32 (pmPage paging), ilSize = wrap_int32 (pmSize paging),
               ilTotal = wrap_int32 (pmTotal paging), ilItems = map present rs\<rparr>), w')))"

definition dinosaurHandler_List :: "api_env \<Rightarrow> http_request \<Rightarrow> world \<Rightarrow> public_CentralRequest item_list response option \<times> world" where
  "dinosaurHandler_List ae r = HandleGet [] (list_action ae r ''CentralRequestList'' PresentCentralRequest) ()"

subsection \<open>The admin handler\<close>

definition adminHandler_Create ::
  "api_env \<Rightarrow> http_request \<Rightarrow> go_error + CentralRequestPayload \<Rightarrow> world \<Rightarrow> public_CentralRequest response option \<times> world" where
  "adminHandler_Create ae r body =
     Handle body (\<lambda>p. common_validators ae r p @ [ValidateCentralSpec ae p, ValidateScannerSpec ae p])
       (\<lambda>p. register_action ae) StatusAccepted empty_central"

definition adminHandler_Delete :: "api_env \<Rightarrow> http_request \<Rightarrow> world \<Rightarrow> unit response option \<times> world" where
  "adminHandler_Delete ae r =
     HandleDelete [check (ValidateAsyncEnabled (rqQuery r))] (\<lambda>_ w.
       case RegisterDinosaurDeprovisionJob (aeEnv ae) (rqContext r) (rqID r) w of
         (Some e, w') \<Rightarrow> (Some (Inl e), w')
       | (None, w') \<Rightarrow> (Some (Inr ()), w')) StatusAccepted ()"

definition adminHandler_DbDelete :: "api_env \<Rightarrow> http_request \<Rightarrow> world \<Rightarrow> unit response option \<times> world" where
  "adminHandler_DbDelete ae r =
     HandleDelete [] (\<lambda>_ w.
       case central_Get (rqContext r) (rqID r) w of
         (Inl e, w1) \<Rightarrow> (Some (Inl e), w1)
       | (Inr k, w1) \<Rightarrow> (case central_Delete (aeEnv ae) k True w1 of
            (Some e, w2) \<Rightarrow> (Some (Inl e), w2)
          | (None, w2) \<Rightarrow> (Some (Inr ()), w2))) StatusOK ()"

subsection \<open>The default version\<close>

text \<open>The table of default versions, newest last, and the outcomes of its statements.\<close>

record version_db =
  vdVersions :: "string list"
  vdQuery :: "go_error option"
  vdCreate :: "go_error option"

definition queryCurrentDefaultVersion :: "version_db \<Rightarrow> go_error + string" where
  "queryCurrentDefaultVersion db = (case vdQuery db of
     Some e \<Rightarrow> Inl (GoErr (''failed getting central default version: '' @ go_Error e))
   | None \<Rightarrow> if vdVersions db = [] then Inl (GoErr (''failed getting central default version: '' @ go_Error RecordNotFound))
             else Inr (last (vdVersions db)))"

definition SetDefaultVersion :: "string \<Rightarrow> version_db \<Rightarrow> go_error option \<times> version_db" where
  "SetDefaultVersion version db = (case queryCurrentDefaultVersion db of
     Inl e \<Rightarrow> (Some e, db)
   | Inr current \<Rightarrow>
      if current = version then (None, db)
      else (case vdCreate db of
         Some e \<Rightarrow> (Some (GoErr (''failed creating central default version entry: '' @ go_Error e)), db)
       | None \<Rightarrow> (None, db\<lparr>vdVersions := vdVersions db @ [version]\<rparr>)))"

definition GetDefaultVersion :: "version_db \<Rightarrow> go_error + string" where
  "GetDefaultVersion db = queryCurrentDefaultVersion db"

text \<open>The boolean tells whether the process goes on; a failure exits.\<close>

definition default_version_Start :: "string \<Rightarrow> version_db \<Rightarrow> bool \<times> version_db" where
  "default_version_Start configured db =
     (if configured = [] then (True, db)
      else (case ValidateCentralVersionString configured of
         Some _ \<Rightarrow> (False, db)
       | None \<Rightarrow> (case SetDefaultVersion configured db of (Some _, db') \<Rightarrow> (False, db') | (None, db') \<Rightarrow> (True, db'))))"

text \<open>The validator is built, with the version it checks, before the body is decoded: it checks the
  version of the empty payload.\<close>

definition ValidateCentralDefaultVersion :: "string \<Rightarrow> service_error option" where
  "ValidateCentralDefaultVersion version = validateCentralVersionString version"

definition SetCentralDefaultVersion :: "go_error + string \<Rightarrow> version_db \<Rightarrow> unit response \<times> version_db" where
  "SetCentralDefaultVersion body db =
     (let validator = ValidateCentralDefaultVersion [] in
      case body of
        Inl e \<Rightarrow> (ErrorReply (MalformedRequest (Fmt (''Invalid request format: '' @ go_Error e))), db)
      | Inr version \<Rightarrow>
         (case validator of
            Some e \<Rightarrow> (ErrorReply e, db)
          | None \<Rightarrow> (case SetDefaultVersion version db of
               (Some e, db') \<Rightarrow> (ErrorReply (NewWithCause ErrorGeneral (Some e) (Fmt (''Set CentralDefaultVersion requests: '' @ go_Error e))), db')
             | (None, db') \<Rightarrow> (Reply StatusOK (), db'))))"

definition GetCentralDefaultVersion :: "version_db \<Rightarrow> string response" where
  "GetCentralDefaultVersion db = (case GetDefaultVersion db of
     Inl e \<Rightarrow> ErrorReply (NewWithCause ErrorGeneral (Some e) (Fmt (''Get CentralDefaultVersion requests: '' @ go_Error e)))
   | Inr version \<Rightarrow> Reply StatusOK version)"

end
