(* ===== verification/Handlers_Correct.thy ===== *)
theory Handlers_Correct
  imports Central_Handlers Central_Correct Query_Correct
begin

text \<open>
  Properties of the requests: what a creation stores, the check that a name is unique, the bounds and
  the safety of the arguments of a listing, and the endpoint of the default version, which never
  succeeds.
\<close>

subsection \<open>Names\<close>

lemma valid_name_chars:
  assumes "re_match ValidDinosaurClusterNameRegexp n"
  shows "n \<noteq> []" "list_all (in_class (CharClass False ((CHR ''-'', CHR ''-'') # lower_alnum))) n"
proof -
  obtain c t where n: "n = c # t" "in_class (CharClass False [az]) c"
    and t: "re_match (opt (Seq (Star (Class (CharClass False ((CHR ''-'', CHR ''-'') # lower_alnum)))) (Class (CharClass False lower_alnum)))) t"
    using assms by (auto simp: ValidDinosaurClusterNameRegexp_def match_Seq match_Class)
  have "list_all (in_class (CharClass False ((CHR ''-'', CHR ''-'') # lower_alnum))) t"
    using t by (auto simp: opt_def match_simps in_class_def)
  then show "n \<noteq> []" "list_all (in_class (CharClass False ((CHR ''-'', CHR ''-'') # lower_alnum))) n"
    using n by (auto simp: in_class_def az_def lower_alnum_def)
qed

lemma name_char_plain:
  assumes "in_class (CharClass False ((CHR ''-'', CHR ''-'') # lower_alnum)) c"
  shows "char_code c < 128" "literal_char c" "in_class (CharClass True [(CHR 39, CHR 39)]) c"
    "in_class (CharClass True [(CHR '' '', CHR '' ''), (CHR ''^'', CHR ''^''), (CHR ''('', CHR ''(''), (CHR ''^'', CHR ''^''), (CHR '')'', CHR '')'')]) c"
  using assms by (auto simp: in_class_def lower_alnum_def literal_char_def)

lemma name_search:
  assumes "re_match ValidDinosaurClusterNameRegexp n"
  shows "fst (Parse rcap (NewQueryParser []) (''name = '' @ n)) = Inr \<lparr>Query = ''name = ?'', Values = [n], ValidColumns = validColumns\<rparr>"
proof -
  let ?a = "Single (Cmp ''name'' ''='' (Plain n))"
  note n = valid_name_chars [OF assms]
  have chars: "ascii n" "list_all literal_char n" "is_plain n"
    using n name_char_plain by (auto simp: ascii_def list_all_iff is_plain_def value_pattern_def match_Class_Star neq_Nil_conv)
  have "foldl vstep (idle []) (''name = '' @ n) = ([''name'', ''=''], n, Literal, False, False)"
    using vstep_literals [OF chars(2), of NoToken "[''name'', ''='']" "[]"] n(1) by (simp add: vstep_def vsend_def vliteral_def)
  then have t: "map TokValue (scan_tokens (''name = '' @ n)) = query_toks ?a"
    using chars(1) n(1) by (simp add: scan_values_ascii vsend_def)
  have k: "is_column ''name''" "to_lower ''name'' = ''name''" "''name'' \<in> set validColumns" "trim_char (CHR '' '') ''name = ?'' = ''name = ?''"
    by code_simp+
  have "admissible rcap (init_state (NewQueryParser [])) ?a"
    using chars(3) k by (simp add: admissible_def init_state_def NewQueryParser_def bindable_def MaximumComplexity_def is_operator_def)
  from Parse_accepts [OF t this] show ?thesis
    using k by (simp add: NewQueryParser_def bound_text_def)
qed

text \<open>With a working database the check lists exactly the live tenants with the name that the request may see.\<close>

lemma unique_result:
  assumes "re_match ValidDinosaurClusterNameRegexp n" "no_faults w" "GetClaimsFromContext ctx = Inr c"
    "GetIsAdminFromContext ctx \<or> or_empty (GetUsername c) \<noteq> []"
    "\<And>r. aeSql ae \<lparr>Query = ''name = ?'', Values = [n], ValidColumns = validColumns\<rparr> r \<longleftrightarrow> crName r = n"
  shows "ValidateDinosaurClusterNameIsUnique ae ctx n k w =
    (Some (if \<exists>r\<in>set (centrals w). live r \<and> sees ctx r \<and> crName r = n then Some DuplicateDinosaurClusterName else None, k), next_stmt (next_stmt w))"
proof -
  let ?la = "\<lparr>laPage = 1, laSize = 1, laSearch = ''name = '' @ n, laOrderBy = []\<rparr>"
  let ?xs = "filter (\<lambda>r. live r \<and> sees ctx r \<and> crName r = n) (centrals w)"
  obtain u V where V: "visible_to ctx c = Inr (u, V)"
    using assms(4) by (cases "visible_to ctx c") (auto simp: visible_to_def Let_def split: if_splits)
  have S: "search_condition (aeRcap ae) (aeSql ae) (laSearch ?la) = Some (Inr (\<lambda>r. crName r = n))"
    using name_search [OF assms(1), of "aeRcap ae"] assms(5) by (simp add: search_condition_def fun_eq_iff)
  have w: "snd (central_List (aeRcap ae) (aeSql ae) (aeOrder ae) ctx ?la w) = next_stmt (next_stmt w)"
    using assms(2,3) V S by (simp add: central_List_def Let_def count_centrals_unfold find_centrals_unfold)
  note l = central_List_page [OF assms(2,3) V S, of "aeOrder ae"]
  have e: "0 < length ?xs \<longleftrightarrow> (\<exists>r\<in>set (centrals w). live r \<and> sees ctx r \<and> crName r = n)"
    unfolding length_greater_0_conv filter_empty_conv by blast
  then show ?thesis using l w unfolding ValidateDinosaurClusterNameIsUnique_def
    by (cases "central_List (aeRcap ae) (aeSql ae) (aeOrder ae) ctx ?la w") (simp add: Let_def)
qed

subsection \<open>Validators\<close>

lemma check_None: "check None k w = (Some (None, k), w)"
  by (simp add: check_def)

lemma run_validators_Cons_ok:
  "run_validators (v # vs) k w = (Some (None, k'), w') \<longleftrightarrow>
     (\<exists>k1 w1. v k w = (Some (None, k1), w1) \<and> run_validators vs k1 w1 = (Some (None, k'), w'))"
  by (auto split: prod.splits option.splits)

lemma check_ok: "check e k w = (Some (None, k'), w') \<longleftrightarrow> e = None \<and> k' = k \<and> w' = w"
  by (auto simp: check_def)

lemma central_List_world: "same_tables w (snd (central_List rcap sm ord ctx la w))"
  by (auto simp: central_List_def Let_def case_prod_beta count_centrals_frame find_centrals_unfold same_tables_def
      split: sum.split option.split)

lemma unique_world: "same_tables w (snd (ValidateDinosaurClusterNameIsUnique ae ctx n k w))"
  using central_List_world [of w "aeRcap ae" "aeSql ae" "aeOrder ae" ctx]
  by (simp add: ValidateDinosaurClusterNameIsUnique_def case_prod_beta split: option.split sum.split)

lemma claims_world: "snd (ValidateDinosaurClaims ctx p k w) = w"
  by (simp add: ValidateDinosaurClaims_def Let_def split: sum.split)

subsection \<open>What a creation stores\<close>

context central_env
begin

lemma register_fields:
  assumes "RegisterDinosaurJob ev k w = (Inr k', w')"
  shows "crName k' = crName k \<and> crCloudProvider k' = crCloudProvider k \<and>
    (\<exists>w1. same_tables w w1 \<and> crInstanceType k' = fst (DetectInstanceType ev (k\<lparr>crID := evNewID ev\<rparr>) w1))"
proof -
  from register_success [OF assms] obtain w1 t w2 c w3 sub w4 where
    s1: "HasAvailableCapacityInRegion ev (k\<lparr>crID := evNewID ev\<rparr>) w = (Inr True, w1)" and
    s2: "DetectInstanceType ev (k\<lparr>crID := evNewID ev\<rparr>) w1 = (t, w2)" and
    s3: "FindCluster (k\<lparr>crID := evNewID ev, crInstanceType := t\<rparr>) w2 = (Inr (Some c), w3)" and
    s4: "reserveQuota ev (k\<lparr>crID := evNewID ev, crInstanceType := t, crClusterID := clClusterID c\<rparr>) w3 = (Inr sub, w4)" and
    s5: "create_central (evNewID ev) (evNow ev) (k\<lparr>crID := evNewID ev, crInstanceType := t, crClusterID := clClusterID c,
       crStatus := CentralRequestStatusAccepted, crSubscriptionID := sub, crQuotaType := ccQuotaType (evConfig ev)\<rparr>) w4 = (Inr k', w')"
    by metis
  have "same_tables w w1" using HasAvailableCapacity_world [of w ev] s1 by (metis snd_conv)
  then show ?thesis using create_central_Inr [OF s5] s2 by (auto simp: stored_def)
qed

end

text \<open>The detected type depends on the owner and the organisation only.\<close>

lemma detect_type_fleet:
  assumes "crOwner k = crOwner k'" "crOrganisationID k = crOrganisationID k'"
  shows "DetectInstanceType (fleet_env ams qm ev) k w = (fst (DetectInstanceType (fleet_env ams qm ev) k' w'), w)"
  using assms
  by (auto simp: DetectInstanceType_def fleet_env_def GetQuotaService_def Let_def amsQuotaService_def QuotaManagementListService_def
      ams_CheckIfQuotaIsDefined_def qml_CheckIfQuotaIsDefined_def split: sum.splits)

lemma cloud_provider_ok:
  assumes "ValidateCloudProvider ae k w = (Some (None, k'), w')"
  shows "\<exists>provider\<in>set (aeProviders ae). \<exists>region\<in>set (pvRegions provider). pvName provider = crCloudProvider k' \<and> rgName region = crRegion k' \<and>
      IsInstanceTypeSupported region (fst (DetectInstanceType (aeEnv ae) k' w))"
    "w' = snd (DetectInstanceType (aeEnv ae) k' w)"
    "crName k' = crName k" "crOwner k' = crOwner k" "crOrganisationID k' = crOrganisationID k"
  using assms
  by (auto simp: ValidateCloudProvider_def provider_GetByName_def IsRegionSupported_def region_GetByName_def Let_def find_Some_iff
      split: if_splits option.splits prod.splits bool.splits) (use nth_mem in fastforce)+

lemma claims_ok:
  "ValidateDinosaurClaims ctx p k w = (Some (None, k'), w') \<Longrightarrow> w' = w \<and> (\<exists>c. GetClaimsFromContext ctx = Inr c \<and>
     crName k' = cpName p \<and> crOwner k' = or_empty (GetUsername c) \<and> crOrganisationID k' = or_empty (GetOrgID c))"
  by (auto simp: ValidateDinosaurClaims_def Let_def split: sum.splits)

lemma common_ok:
  assumes "aeEnv ae = fleet_env ams qm ev" "run_validators (common_validators ae r p @ vs) k0 w = (Some (None, k'), w')"
  obtains k w1 c where "same_tables w w1" "run_validators vs k w1 = (Some (None, k'), w')"
    "values_Get (rqQuery r) ''async'' = ''true''" "re_match ValidDinosaurClusterNameRegexp (cpName p)" "length (cpName p) \<le> 32" "cpMultiAz p"
    "GetClaimsFromContext (rqContext r) = Inr c" "crName k = cpName p" "crOwner k = or_empty (GetUsername c)" "crOrganisationID k = or_empty (GetOrgID c)"
    "\<exists>provider\<in>set (aeProviders ae). \<exists>region\<in>set (pvRegions provider). pvName provider = crCloudProvider k \<and> rgName region = crRegion k \<and>
      (\<forall>w. IsInstanceTypeSupported region (fst (DetectInstanceType (aeEnv ae) k w)))"
proof -
  from assms(2) obtain k1 w1 k2 w2 k3 w3 where
    u: "ValidateDinosaurClusterNameIsUnique ae (rqContext r) (cpName p) k0 w = (Some (None, k1), w1)" and
    c: "ValidateDinosaurClaims (rqContext r) p k1 w1 = (Some (None, k2), w2)" and
    pr: "ValidateCloudProvider ae k2 w2 = (Some (None, k3), w3)" and
    rest: "run_validators vs k3 w3 = (Some (None, k'), w')" and
    checks: "ValidateAsyncEnabled (rqQuery r) = None" "ValidateMultiAZEnabled (cpMultiAz p) = None"
      "ValidateLength (cpName p) ''name'' MinRequiredFieldLength (Some MaxCentralNameLength) = None" "ValidDinosaurClusterName (cpName p) ''name'' = None"
    unfolding common_validators_def append_Cons append_Nil run_validators_Cons_ok check_ok by blast
  from claims_ok [OF c] obtain cl where cl: "w2 = w1" "GetClaimsFromContext (rqContext r) = Inr cl"
    "crName k2 = cpName p" "crOwner k2 = or_empty (GetUsername cl)" "crOrganisationID k2 = or_empty (GetOrgID cl)" by blast
  note pv = cloud_provider_ok [OF pr]
  have d: "DetectInstanceType (aeEnv ae) k3 v = (fst (DetectInstanceType (aeEnv ae) k3 w2), v)" for v
    unfolding assms(1) by (rule detect_type_fleet) simp_all
  have sup: "\<exists>provider\<in>set (aeProviders ae). \<exists>region\<in>set (pvRegions provider). pvName provider = crCloudProvider k3 \<and> rgName region = crRegion k3 \<and>
      (\<forall>w. IsInstanceTypeSupported region (fst (DetectInstanceType (aeEnv ae) k3 w)))"
    using pv(1) d by (metis fst_conv)
  have "same_tables w w3" using unique_world [of w ae "rqContext r" "cpName p" k0] u cl(1) pv(2) d by (metis snd_conv)
  then show thesis
    using that [OF _ rest _ _ _ _ cl(2) _ _ _ sup] checks cl pv
    by (simp add: ValidateAsyncEnabled_def ValidateMultiAZEnabled_def ValidateLength_def ValidateMaxLength_def MaxCentralNameLength_def
        ValidDinosaurClusterName_def split: if_splits)
qed

text \<open>A creation whose validators failed leaves the tables as they are.\<close>

lemma DetectInstanceType_world: "snd (DetectInstanceType (fleet_env ams qm ev) k w) = w"
  using detect_type_fleet [of k k ams qm ev w w] by (metis snd_conv)

lemma cloud_provider_world: "aeEnv ae = fleet_env ams qm ev \<Longrightarrow> snd (ValidateCloudProvider ae k w) = w"
  using DetectInstanceType_world [of ams qm ev]
  by (auto simp: ValidateCloudProvider_def Let_def case_prod_beta split: bool.split)

definition quiet :: "'s validate \<Rightarrow> bool" where
  "quiet v \<longleftrightarrow> (\<forall>k w. centrals (snd (v k w)) = centrals w)"

lemma run_quiet: "list_all quiet vs \<Longrightarrow> quiet (run_validators vs)"
proof (induction vs)
  case (Cons v vs)
  then have "centrals (snd (v k w)) = centrals w" "centrals (snd (run_validators vs k w)) = centrals w" for k w
    by (simp_all add: quiet_def)
  then show ?case by (auto simp: quiet_def case_prod_beta split: option.split)
qed (simp add: quiet_def)

lemma quiet_checks: "quiet (check e)"
  by (simp add: quiet_def check_def)

lemma common_quiet: "aeEnv ae = fleet_env ams qm ev \<Longrightarrow> list_all quiet (common_validators ae r p)"
  by (simp add: common_validators_def quiet_checks)
     (simp add: quiet_def unique_world [unfolded same_tables_def] claims_world cloud_provider_world)

lemma handle_changed:
  assumes "list_all quiet (vs p)" "centrals (snd (Handle (Inr p) vs act st k w)) \<noteq> centrals w"
  shows "\<exists>k' w'. run_validators (vs p) k w = (Some (None, k'), w') \<and> centrals w' = centrals w \<and>
    Handle (Inr p) vs act st k w = (case act p k' w' of (None, w2) \<Rightarrow> (None, w2)
       | (Some (Inl e), w2) \<Rightarrow> (Some (ErrorReply e), w2) | (Some (Inr x), w2) \<Rightarrow> (Some (Reply st x), w2)) \<and>
    centrals (snd (act p k' w')) \<noteq> centrals w"
proof -
  obtain x w1 where r: "run_validators (vs p) k w = (x, w1)" by fastforce
  have c: "centrals w1 = centrals w" using run_quiet [OF assms(1)] r unfolding quiet_def by (metis snd_conv)
  obtain k' where x: "x = Some (None, k')"
    using assms(2) r c by (auto simp: Handle_def HandleDelete_def split: option.splits)
  have "centrals (snd (act p k' w1)) \<noteq> centrals w"
    using assms(2) r x by (auto simp: Handle_def HandleDelete_def case_prod_beta split: option.splits sum.splits)
  then show ?thesis using r x c by (simp add: Handle_def HandleDelete_def)
qed

lemma register_action_changed:
  assumes "aeEnv ae = fleet_env ams qm ev" "centrals (snd (register_action ae k w)) \<noteq> centrals w"
  shows "\<exists>k' w'. RegisterDinosaurJob (fleet_env ams qm ev) k w = (Inr k', w') \<and> register_action ae k w = (Some (Inr (PresentCentralRequest k')), w')"
proof (cases "RegisterDinosaurJob (fleet_env ams qm ev) k w")
  case (Pair x w')
  show ?thesis
  proof (cases x)
    case (Inl e)
    have "same_tables w w'" using fleet.register_error Pair Inl by blast
    then show ?thesis using assms Pair Inl by (simp add: register_action_def same_tables_def)
  next
    case (Inr k')
    then show ?thesis using assms(1) Pair by (simp add: register_action_def)
  qed
qed

lemma create_changed:
  assumes "aeEnv ae = fleet_env ams qm ev" "centrals (snd (dinosaurHandler_Create ae r body w)) \<noteq> centrals w"
  shows "\<exists>p k c. body = Inr p \<and> centrals (snd (dinosaurHandler_Create ae r body w)) = centrals w @ [k] \<and>
    fst (dinosaurHandler_Create ae r body w) = Some (Reply StatusAccepted (PresentCentralRequest k)) \<and>
    values_Get (rqQuery r) ''async'' = ''true'' \<and> GetClaimsFromContext (rqContext r) = Inr c \<and> cpMultiAz p \<and>
    validateCentralResourcesUnspecified p = None \<and> validateScannerResourcesUnspecified p = None \<and>
    re_match ValidDinosaurClusterNameRegexp (crName k) \<and> length (crName k) \<le> 32 \<and> crName k = cpName p \<and>
    crOwner k = or_empty (GetUsername c) \<and> crOrganisationID k = or_empty (GetOrgID c) \<and> crStatus k = CentralRequestStatusAccepted \<and>
    (\<exists>provider\<in>set (aeProviders ae). \<exists>region\<in>set (pvRegions provider). pvName provider = crCloudProvider k \<and> rgName region = crRegion k \<and>
       IsInstanceTypeSupported region (crInstanceType k))"
proof -
  let ?int = "\<lambda>k. if List.member (aeInternalUserAgents ae) (rqUserAgent r) then k\<lparr>crInternal := True\<rparr> else k"
  define vs where "vs p = common_validators ae r p @ [check (validateCentralResourcesUnspecified p), check (validateScannerResourcesUnspecified p)]" for p
  define act where "act p k = register_action ae (?int k)" for p :: CentralRequestPayload and k
  have h: "dinosaurHandler_Create ae r body w = Handle body vs act StatusAccepted empty_central w"
    unfolding dinosaurHandler_Create_def vs_def act_def by simp
  obtain p where p: "body = Inr p" using assms(2) by (cases body) (simp_all add: dinosaurHandler_Create_def Handle_def)
  have q: "list_all quiet (vs p)" using common_quiet [OF assms(1)] by (simp add: vs_def quiet_checks)
  obtain k1 w1 where v: "run_validators (vs p) empty_central w = (Some (None, k1), w1)" "centrals w1 = centrals w"
    and run: "Handle (Inr p) vs act StatusAccepted empty_central w = (case act p k1 w1 of (None, w2) \<Rightarrow> (None, w2)
       | (Some (Inl e), w2) \<Rightarrow> (Some (ErrorReply e), w2) | (Some (Inr x), w2) \<Rightarrow> (Some (Reply StatusAccepted x), w2))"
    and ch: "centrals (snd (act p k1 w1)) \<noteq> centrals w"
    using handle_changed [of vs p act StatusAccepted empty_central w, OF q] assms(2) [unfolded h, unfolded p] by blast
  obtain k w2 where reg: "RegisterDinosaurJob (fleet_env ams qm ev) (?int k1) w1 = (Inr k, w2)"
    and a: "act p k1 w1 = (Some (Inr (PresentCentralRequest k)), w2)"
    using register_action_changed [OF assms(1), of "?int k1" w1] ch v(2) unfolding act_def by metis
  have ans: "dinosaurHandler_Create ae r body w = (Some (Reply StatusAccepted (PresentCentralRequest k)), w2)"
    unfolding h unfolding p run a by simp
  obtain k0 w0 c where k0: "run_validators [check (validateCentralResourcesUnspecified p), check (validateScannerResourcesUnspecified p)] k0 w0 = (Some (None, k1), w1)"
    "values_Get (rqQuery r) ''async'' = ''true''" "re_match ValidDinosaurClusterNameRegexp (cpName p)" "length (cpName p) \<le> 32" "cpMultiAz p"
    "GetClaimsFromContext (rqContext r) = Inr c" "crName k0 = cpName p" "crOwner k0 = or_empty (GetUsername c)" "crOrganisationID k0 = or_empty (GetOrgID c)"
    "\<exists>provider\<in>set (aeProviders ae). \<exists>region\<in>set (pvRegions provider). pvName provider = crCloudProvider k0 \<and> rgName region = crRegion k0 \<and>
      (\<forall>w. IsInstanceTypeSupported region (fst (DetectInstanceType (aeEnv ae) k0 w)))"
    using common_ok [OF assms(1) v(1) [unfolded vs_def]] by metis
  have k1: "k1 = k0" "validateCentralResourcesUnspecified p = None" "validateScannerResourcesUnspecified p = None"
    using k0(1) unfolding run_validators_Cons_ok check_ok by auto
  note f = fleet.register_fields [OF reg]
  obtain v where tv: "crInstanceType k = fst (DetectInstanceType (fleet_env ams qm ev) ((?int k1)\<lparr>crID := evNewID (fleet_env ams qm ev)\<rparr>) v)"
    using f by blast
  have t: "crInstanceType k = fst (DetectInstanceType (aeEnv ae) k0 w)"
    unfolding tv assms(1) by (subst detect_type_fleet [of _ k0 ams qm ev v w]) (simp_all add: k1(1))
  obtain "centrals w2 = centrals w1 @ [k]" "crStatus k = CentralRequestStatusAccepted" "crRegion k = crRegion (?int k1)"
    "crOwner k = crOwner (?int k1)" "crOrganisationID k = crOrganisationID (?int k1)"
    using fleet.register_stored [OF reg] by metis
  then have "centrals w2 = centrals w @ [k]" "crStatus k = CentralRequestStatusAccepted" "crRegion k = crRegion k0"
    "crOwner k = crOwner k0" "crOrganisationID k = crOrganisationID k0" "crName k = crName k0" "crCloudProvider k = crCloudProvider k0"
    using f v(2) k1 by auto
  then show ?thesis using ans k0 k1 t p unfolding ans by auto
qed



definition sample_api :: api_env where
  "sample_api = \<lparr>aeEnv = fleet_env sample_ams sample_quota sample_env, aeRcap = (\<lambda>n. n),
     aeSql = (\<lambda>q r. Query q = ''name = ?'' \<and> Values q = [crName r]), aeOrder = (\<lambda>cols rs. rs), aeLower = (\<lambda>r. r),
     aeProviders = [\<lparr>pvName = ''aws'', pvDefault = True, pvRegions = [\<lparr>rgName = ''us-east-1'', rgDefault = True,
        rgSupportedInstanceTypes = [(''eval'', None), (''standard'', Some 5)]\<rparr>]\<rparr>],
     aeInternalUserAgents = [''probe''], aeParseQuantity = (\<lambda>_. None), aeMarshalCentral = (\<lambda>_. Inr ''c''), aeMarshalScanner = (\<lambda>_. Inr ''s''),
     aeDecodeCentral = (\<lambda>_. None), aeDecodeScanner = (\<lambda>_. None)\<rparr>"

definition sample_http :: http_request where
  "sample_http = \<lparr>rqQuery = [(''async'', [''true''])], rqContext = alice_context, rqUserAgent = ''curl'', rqID = []\<rparr>"

definition no_resources :: ResourceRequirements where
  "no_resources = \<lparr>rrRequests = [], rrLimits = []\<rparr>"

definition sample_payload :: CentralRequestPayload where
  "sample_payload = \<lparr>cpCloudProvider = [], cpCloudAccountId = [], cpMultiAz = True, cpName = ''t-1'', cpRegion = [], cpCentralResources = no_resources,
     cpAnalyzerResources = no_resources, cpAnalyzerScaling = \<lparr>asAutoScaling = [], asReplicas = 0, asMinReplicas = 0, asMaxReplicas = 0\<rparr>,
     cpDbResources = no_resources\<rparr>"

lemma sample_search: "aeSql sample_api \<lparr>Query = ''name = ?'', Values = [n], ValidColumns = validColumns\<rparr> r \<longleftrightarrow> crName r = n"
  by (auto simp: sample_api_def)

lemma alice_ok: "GetClaimsFromContext alice_context = Inr [''username'' \<mapsto> CStr ''alice'', ''org_id'' \<mapsto> CStr ''org1'']"
  "or_empty (GetUsername [''username'' \<mapsto> CStr ''alice'', ''org_id'' \<mapsto> CStr ''org1'']) \<noteq> []"
  by (simp_all add: alice_context_def GetClaimsFromContext_def GetUsername_def first_string_claim_def tenantUsernameClaim_def or_empty_def)

definition api_world :: world where
  "api_world = sample_world\<lparr>clusters := [sample_cluster\<lparr>clMultiAZ := True\<rparr>]\<rparr>"

lemma sample_unique:
  "ValidateDinosaurClusterNameIsUnique sample_api alice_context ''t-1'' k api_world = (Some (None, k), api_world)"
proof -
  have "re_match ValidDinosaurClusterNameRegexp ''t-1''" by code_simp
  moreover have "no_faults api_world" "next_stmt api_world = api_world" "centrals api_world = []"
    by (simp_all add: api_world_def sample_world_def no_faults_def next_stmt_def)
  ultimately show ?thesis using unique_result [of "''t-1''" api_world alice_context _ sample_api k, OF _ _ alice_ok(1)] alice_ok(2) sample_search
    by simp
qed

lemma sample_create: "centrals (snd (dinosaurHandler_Create sample_api sample_http (Inr sample_payload) api_world)) \<noteq> centrals api_world"
proof -
  have k: "ValidateAsyncEnabled (rqQuery sample_http) = None" "ValidDinosaurClusterName ''t-1'' ''name'' = None"
    "ValidateLength ''t-1'' ''name'' MinRequiredFieldLength (Some MaxCentralNameLength) = None" "cpName sample_payload = ''t-1''"
    by code_simp+
  have c: "rqContext sample_http = alice_context" by (simp add: sample_http_def)
  let ?rest = "[ValidateDinosaurClaims alice_context sample_payload, ValidateCloudProvider sample_api, check (ValidateMultiAZEnabled (cpMultiAz sample_payload)),
      check (validateCentralResourcesUnspecified sample_payload), check (validateScannerResourcesUnspecified sample_payload)]"
  have "length (centrals (snd (HandleDelete ?rest (\<lambda>k. register_action sample_api (if List.member (aeInternalUserAgents sample_api) (rqUserAgent sample_http)
      then k\<lparr>crInternal := True\<rparr> else k)) StatusAccepted empty_central api_world))) = 1"
    by code_simp
  moreover have "dinosaurHandler_Create sample_api sample_http (Inr sample_payload) api_world =
      HandleDelete ?rest (\<lambda>k. register_action sample_api (if List.member (aeInternalUserAgents sample_api) (rqUserAgent sample_http)
      then k\<lparr>crInternal := True\<rparr> else k)) StatusAccepted empty_central api_world"
    using k c sample_unique [of empty_central] by (simp add: dinosaurHandler_Create_def Handle_def common_validators_def HandleDelete_def check_None)
  moreover have "centrals api_world = []" by (simp add: api_world_def sample_world_def)
  ultimately show ?thesis by auto
qed


text \<open>The name check is exact. For every valid name the search built from it parses to the comparison
  of names with that name as its bound value, so with a working database the check refuses the name
  exactly when a live tenant that the requester sees has it. The database is assumed to compare
  names as SQL does.\<close>

theorem name_check_exact:
  assumes "re_match ValidDinosaurClusterNameRegexp n" "no_faults w" "GetClaimsFromContext ctx = Inr c"
    "GetIsAdminFromContext ctx \<or> or_empty (GetUsername c) \<noteq> []"
    "\<And>r. aeSql ae \<lparr>Query = ''name = ?'', Values = [n], ValidColumns = validColumns\<rparr> r \<longleftrightarrow> crName r = n"
  shows "fst (ValidateDinosaurClusterNameIsUnique ae ctx n k w) =
    Some (if \<exists>r\<in>set (centrals w). live r \<and> sees ctx r \<and> crName r = n then Some DuplicateDinosaurClusterName else None, k)"
  unfolding unique_result [OF assms] by (rule fst_conv)

theorem name_check_exact_witness:
  "fst (ValidateDinosaurClusterNameIsUnique sample_api alice_context ''t'' (0::nat) tenant_world) = Some (Some DuplicateDinosaurClusterName, 0)"
proof -
  have "re_match ValidDinosaurClusterNameRegexp ''t''" by code_simp
  moreover have "sample_tenant \<in> set (centrals tenant_world)" "live sample_tenant" "crName sample_tenant = ''t''"
    by (simp_all add: tenant_world_def sample_tenant_def sample_request_def empty_central_def live_def)
  ultimately show ?thesis
    using name_check_exact [of "''t''" tenant_world alice_context _ sample_api "0::nat", OF _ tenant_world_ok(3) alice_ok(1)] alice_ok(2) sample_search sees_sample(1)
    by auto
qed

text \<open>C37: The default version cannot be set over the API. The validator is built before the body is decoded, so
  it checks the empty version, which has no allowed prefix: whatever the request and the table are,
  the answer is an error and the table stays.\<close>

theorem default_version_never_set:
  "\<exists>e. SetCentralDefaultVersion body db = (ErrorReply e, db)"
proof -
  have "ValidateCentralDefaultVersion [] \<noteq> None" by code_simp
  then show ?thesis by (auto simp: SetCentralDefaultVersion_def Let_def split: sum.split)
qed

subsection \<open>Arguments of a listing\<close>

lemma squeeze_id: "\<not> list_ex is_space s \<Longrightarrow> squeeze_spaces s = s"
  by (induction s rule: squeeze_spaces.induct) auto

lemma squeeze_space: "list_ex is_space s \<Longrightarrow> CHR '' '' \<in> set (squeeze_spaces s)"
  by (induction s rule: squeeze_spaces.induct) auto

lemma split_on_single: "split_on c s = [k] \<Longrightarrow> s = k \<and> c \<notin> set s"
  by (induction s arbitrary: k) (auto split: if_splits list.splits)

lemma squeeze_single: "split_on (CHR '' '') (squeeze_spaces s) = [k] \<Longrightarrow> s = k"
  using split_on_single [of "CHR '' ''" "squeeze_spaces s" k] squeeze_space [of s] squeeze_id [of s] by metis

lemma squeeze_pair:
  "split_on (CHR '' '') (squeeze_spaces s) = [k, d] \<Longrightarrow> \<exists>ws. ws \<noteq> [] \<and> list_all is_space ws \<and> s = k @ ws @ d"
proof (induction s arbitrary: k rule: squeeze_spaces.induct)
  case (2 c cs)
  have sp: "is_space (CHR '' '')" by (simp add: is_space_def)
  show ?case
  proof (cases "is_space c")
    case True
    then have "k = []" "split_on (CHR '' '') (squeeze_spaces (dropWhile is_space cs)) = [d]" using 2(3) by auto
    then have "k = []" "c # cs = (c # takeWhile is_space cs) @ d" using squeeze_single by fastforce+
    moreover have "list_all is_space (c # takeWhile is_space cs)" using True by (auto simp: list_all_iff dest: set_takeWhileD)
    ultimately show ?thesis by (metis append_Nil list.discI)
  next
    case False
    then have "c \<noteq> CHR '' ''" using sp by blast
    then obtain k1 where "k = c # k1" "split_on (CHR '' '') (squeeze_spaces cs) = [k1, d]"
      using 2(3) False by (auto split: list.splits)
    then show ?thesis using 2(2) [OF False] by (metis append_Cons)
  qed
qed simp

lemma first_error_None: "first_error f xs = None \<longleftrightarrow> (\<forall>x\<in>set xs. f x = None)"
  by (induction xs) (auto split: option.splits)

lemma order_by_ok:
  assumes "order_by_error lr c = None" "ascii c"
  shows "\<exists>col\<in>set GetAcceptedOrderByParams. to_lower c = col \<or>
    (\<exists>ws dir. ws \<noteq> [] \<and> list_all is_space ws \<and> dir \<in> {''asc'', ''desc''} \<and> to_lower c = col @ ws @ dir)"
proof -
  define ks where "ks = split_on (CHR '' '') (squeeze_spaces (to_lower c))"
  have "go_ToLower lr c = to_lower c" using assms(2) by (simp add: go_ToLower_def ascii_def)
  then have k: "length ks \<le> 2" "ks ! 0 \<in> set GetAcceptedOrderByParams" "length ks = 2 \<longrightarrow> ks ! 1 = ''asc'' \<or> ks ! 1 = ''desc''"
    using assms(1) by (auto simp: order_by_error_def Let_def ks_def split: if_splits)
  have "ks \<noteq> []" by (simp add: ks_def)
  then consider (one) a where "ks = [a]" | (two) a b where "ks = [a, b]"
    using k(1) by (cases ks; cases "tl ks") auto
  then show ?thesis
  proof cases
    case one
    then show ?thesis using squeeze_single [of "to_lower c" a] k(2) by (auto simp: ks_def)
  next
    case two
    then show ?thesis using squeeze_pair [of "to_lower c" a b] k(2,3) by (auto simp: ks_def)
  qed
qed

text \<open>C30: Bounds of a listing. From any query parameters, arguments that pass validation have a page that is
  not negative and fits 64 bits, a size between 1 and 65500, and order clauses that (for ASCII text) are, up
  to case and white space, an accepted column with at most a direction: nothing else reaches the
  \<^verbatim>\<open>ORDER BY\<close> of the statement.\<close>

theorem list_arguments_bounds:
  assumes "ListArguments_Validate lr (NewListArguments params) = None"
  shows "0 \<le> laPage (NewListArguments params) \<and> laPage (NewListArguments params) \<le> max_int64 \<and>
    1 \<le> laSize (NewListArguments params) \<and> laSize (NewListArguments params) \<le> 65500 \<and>
    (\<forall>c\<in>set (laOrderBy (NewListArguments params)). ascii c \<longrightarrow> (\<exists>col\<in>set GetAcceptedOrderByParams. to_lower c = col \<or>
      (\<exists>ws dir. ws \<noteq> [] \<and> list_all is_space ws \<and> dir \<in> {''asc'', ''desc''} \<and> to_lower c = col @ ws @ dir)))"
proof -
  have v: "0 \<le> laPage (NewListArguments params)" "1 \<le> laSize (NewListArguments params)"
    "\<forall>c\<in>set (laOrderBy (NewListArguments params)). order_by_error lr c = None"
    using assms by (auto simp: ListArguments_Validate_def first_error_None split: if_splits)
  moreover have "laPage (NewListArguments params) \<le> max_int64" "laSize (NewListArguments params) \<le> 65500"
    using Atoi_range [of "values_Get params ''page''"] by (simp_all add: NewListArguments_def Let_def max_int64_def)
  ultimately show ?thesis using order_by_ok by blast
qed

theorem list_arguments_bounds_witness:
  "laSize (NewListArguments [(''size'', [''99999999999999999999'']), (''orderBy'', [''Name  desc, region''])]) \<le> 65500"
proof -
  have "ListArguments_Validate (\<lambda>r. r) (NewListArguments [(''size'', [''99999999999999999999'']), (''orderBy'', [''Name  desc, region''])]) = None"
    by code_simp
  then show ?thesis using list_arguments_bounds by blast
qed

end
