(* ===== verification/Version_Order.thy ===== *)
theory Version_Order
  imports Cluster_Types Go_Regexp "HOL-Library.Multiset" "HOL-Library.List_Lexorder" "HOL-Library.Char_ord" "HOL-Library.Product_Lexorder"
begin

text \<open>
  The order of operator versions (\<^verbatim>\<open>pkg/api/semverutil.go\<close> and the last part of \<^verbatim>\<open>pkg/api/cluster_types.go\<close>):
  semantic versions compared with their build metadata, and the deep sort that puts the versions of
  a cluster in ascending order before they are stored. The library of semantic versions is a
  parameter: a record of its functions.
\<close>

record 'v semver_lib =
  smParse :: "string \<Rightarrow> go_error + 'v"
  smCompare :: "'v \<Rightarrow> 'v \<Rightarrow> int"
  smMajor :: "'v \<Rightarrow> int"
  smMinor :: "'v \<Rightarrow> int"
  smBuild :: "'v \<Rightarrow> string list"

fun join_dots :: "string list \<Rightarrow> string" where
  "join_dots [] = []"
| "join_dots [s] = s"
| "join_dots (s # ss) = s @ ''.'' @ join_dots ss"

definition buildAwareSemanticVersioningCompare :: "'v semver_lib \<Rightarrow> string \<Rightarrow> string \<Rightarrow> go_error + int" where
  "buildAwareSemanticVersioningCompare lib v1 v2 = (case smParse lib v1 of
     Inl e \<Rightarrow> Inl (Wrap ''parsing first version'' e)
   | Inr v1Semver \<Rightarrow> (case smParse lib v2 of
        Inl e \<Rightarrow> Inl (Wrap ''parsing second version'' e)
      | Inr v2Semver \<Rightarrow>
          (let res = smCompare lib v1Semver v2Semver;
               v1BuildVersion = join_dots (smBuild lib v1Semver);
               v2BuildVersion = join_dots (smBuild lib v2Semver) in
           Inr (if res = 0 then (if v1BuildVersion = v2BuildVersion then 0 else if v1BuildVersion > v2BuildVersion then 1 else - 1)
                else res))))"

definition checkIfMinorDowngrade :: "'v semver_lib \<Rightarrow> string \<Rightarrow> string \<Rightarrow> go_error + int" where
  "checkIfMinorDowngrade lib current desired = (case smParse lib current of
     Inl e \<Rightarrow> Inl (Wrap ''parsing current semantic version'' e)
   | Inr c \<Rightarrow> (case smParse lib desired of
        Inl e \<Rightarrow> Inl (Wrap ''parsing desired semantic version'' e)
      | Inr d \<Rightarrow>
          Inr (if smMajor lib c < smMajor lib d then - 1
               else if smMajor lib c > smMajor lib d then 1
               else if smMinor lib c = smMinor lib d then 0
               else if smMinor lib c > smMinor lib d then 1 else - 1)))"

text \<open>\<^verbatim>\<open>\d+\.\d+\.\d+-\d+$\<close> has no anchor on the left: \<^verbatim>\<open>FindString\<close> returns the longest suffix that matches.\<close>

definition digit1 :: regexp where
  "digit1 = (let d = Class (CharClass False [(CHR ''0'', CHR ''9'')]) in Seq d (Star d))"

definition CentralOperatorVersionNumberPartRegex :: regexp where
  "CentralOperatorVersionNumberPartRegex =
     Seq digit1 (Seq (lit (CHR ''.'')) (Seq digit1 (Seq (lit (CHR ''.'')) (Seq digit1 (Seq (lit (CHR ''-'')) digit1)))))"

fun find_suffix :: "regexp \<Rightarrow> string \<Rightarrow> string" where
  "find_suffix r [] = []"
| "find_suffix r (c # cs) = (if re_match r (c # cs) then c # cs else find_suffix r cs)"

text \<open>The error about the second version names the first one, as in the source.\<close>

definition CentralOperatorVersion_Compare :: "'v semver_lib \<Rightarrow> CentralOperatorVersion \<Rightarrow> CentralOperatorVersion \<Rightarrow> go_error + int" where
  "CentralOperatorVersion_Compare lib s other =
     (let bad = GoErr ([CHR 39] @ ovVersion s @ [CHR 39] @ '' does not follow expected Central Operator Version format'');
          v1VersionNumber = find_suffix CentralOperatorVersionNumberPartRegex (ovVersion s);
          v2VersionNumber = find_suffix CentralOperatorVersionNumberPartRegex (ovVersion other) in
      if v1VersionNumber = [] then Inl bad
      else if v2VersionNumber = [] then Inl bad
      else buildAwareSemanticVersioningCompare lib v1VersionNumber v2VersionNumber)"

definition CentralVersion_Compare :: "'v semver_lib \<Rightarrow> string \<Rightarrow> string \<Rightarrow> go_error + int" where
  "CentralVersion_Compare lib s other = buildAwareSemanticVersioningCompare lib s other"

definition CompareBuildAwareSemanticVersions :: "'v semver_lib \<Rightarrow> string \<Rightarrow> string \<Rightarrow> go_error + int" where
  "CompareBuildAwareSemanticVersions lib v1 v2 = buildAwareSemanticVersioningCompare lib v1 v2"

definition CompareSemanticVersionsMajorAndMinor :: "'v semver_lib \<Rightarrow> string \<Rightarrow> string \<Rightarrow> go_error + int" where
  "CompareSemanticVersionsMajorAndMinor lib current desired = checkIfMinorDowngrade lib current desired"

subsection \<open>Sorting\<close>

text \<open>\<^verbatim>\<open>sort.Slice\<close> sorts up to twelve elements by insertion; longer slices too end up sorted, but elements
  that compare equal may change places there. The comparison of the source notes its errors and then
  answers ``not less''. \<open>sift\<close> moves an element to the left of the sorted prefix, which it gets
  reversed.\<close>

fun sift :: "('a \<Rightarrow> 'a \<Rightarrow> go_error + int) \<Rightarrow> 'a \<Rightarrow> 'a list \<Rightarrow> go_error list \<times> 'a list" where
  "sift cmp x [] = ([], [x])"
| "sift cmp x (y # ys) = (case cmp x y of
     Inl e \<Rightarrow> ([e], x # y # ys)
   | Inr res \<Rightarrow>
       if res = - 1 then (case sift cmp x ys of (es, zs) \<Rightarrow> (es, y # zs)) else ([], x # y # ys))"

fun insertion_from :: "('a \<Rightarrow> 'a \<Rightarrow> go_error + int) \<Rightarrow> 'a list \<Rightarrow> 'a list \<Rightarrow> go_error list \<times> 'a list" where
  "insertion_from cmp prefix [] = ([], rev prefix)"
| "insertion_from cmp prefix (x # xs) = (case sift cmp x prefix of (es, prefix') \<Rightarrow>
     (case insertion_from cmp prefix' xs of (es', ys) \<Rightarrow> (es @ es', ys)))"

definition sort_Slice :: "('a \<Rightarrow> 'a \<Rightarrow> go_error + int) \<Rightarrow> 'a list \<Rightarrow> go_error list \<times> 'a list" where
  "sort_Slice cmp xs = insertion_from cmp [] xs"

definition error_list :: "go_error list \<Rightarrow> go_error" where
  "error_list es = GoErr (ErrorList_Error es)"

fun sort_central_versions :: "'v semver_lib \<Rightarrow> CentralOperatorVersion list \<Rightarrow> go_error + CentralOperatorVersion list" where
  "sort_central_versions lib [] = Inr []"
| "sort_central_versions lib (v # vs) = (case sort_Slice (CentralVersion_Compare lib) (ovCentralVersions v) of
     (e # es, _) \<Rightarrow> Inl (error_list (e # es))
   | ([], kvs) \<Rightarrow> (case sort_central_versions lib vs of
        Inl e \<Rightarrow> Inl e
      | Inr vs' \<Rightarrow> Inr (v\<lparr>ovCentralVersions := kvs\<rparr> # vs')))"

definition CentralOperatorVersionsDeepSort :: "'v semver_lib \<Rightarrow> CentralOperatorVersion list \<Rightarrow> go_error + CentralOperatorVersion list" where
  "CentralOperatorVersionsDeepSort lib versions = (case sort_Slice (CentralOperatorVersion_Compare lib) versions of
     (e # es, _) \<Rightarrow> Inl (error_list (e # es))
   | ([], vs) \<Rightarrow> sort_central_versions lib vs)"

definition SetAvailableCentralOperatorVersions ::
  "'v semver_lib \<Rightarrow> CentralOperatorVersion list \<Rightarrow> Cluster \<Rightarrow> go_error + Cluster" where
  "SetAvailableCentralOperatorVersions lib vs c = (case CentralOperatorVersionsDeepSort lib vs of
     Inl e \<Rightarrow> Inl e
   | Inr sortedVersions \<Rightarrow> Inr (c\<lparr>clAvailableCentralOperatorVersions := VJson (Some sortedVersions)\<rparr>))"

subsection \<open>Sorting is sorting\<close>

text \<open>A comparison that follows a key answers its sign.\<close>

definition follows :: "('a \<Rightarrow> 'a \<Rightarrow> go_error + int) \<Rightarrow> ('a \<Rightarrow> 'k::linorder) \<Rightarrow> 'a list \<Rightarrow> bool" where
  "follows cmp k xs \<longleftrightarrow> (\<forall>x\<in>set xs. \<forall>y\<in>set xs. cmp x y = Inr (if k x < k y then - 1 else if k x = k y then 0 else 1))"

lemma follows_subset: "follows cmp k xs \<Longrightarrow> set ys \<subseteq> set xs \<Longrightarrow> follows cmp k ys"
  unfolding follows_def by (meson subsetD)

lemma sift_sorts:
  assumes "follows cmp k (x # ys)" "sorted (map k (rev ys))"
  obtains zs where "sift cmp x ys = ([], zs)" "mset zs = add_mset x (mset ys)" "sorted (map k (rev zs))"
    "\<And>v. filter (\<lambda>z. v = k z) (rev zs) = filter (\<lambda>z. v = k z) (rev ys @ [x])"
proof -
  have "\<exists>zs. sift cmp x ys = ([], zs) \<and> mset zs = add_mset x (mset ys) \<and> sorted (map k (rev zs)) \<and>
    (\<forall>v. filter (\<lambda>z. v = k z) (rev zs) = filter (\<lambda>z. v = k z) (rev ys @ [x]))"
    using assms
  proof (induction ys)
    case Nil
    then show ?case by simp
  next
    case (Cons y ys)
    then have c: "cmp x y = Inr (if k x < k y then - 1 else if k x = k y then 0 else 1)" by (simp add: follows_def)
    show ?case
    proof (cases "k x < k y")
      case True
      obtain zs where zs: "sift cmp x ys = ([], zs)" "mset zs = add_mset x (mset ys)" "sorted (map k (rev zs))"
        "\<forall>v. filter (\<lambda>z. v = k z) (rev zs) = filter (\<lambda>z. v = k z) (rev ys @ [x])"
        using Cons.IH Cons.prems follows_subset [OF Cons.prems(1), of "x # ys"] by (auto simp: sorted_append)
      have "set zs = insert x (set ys)" using zs(2) by (metis set_mset_add_mset_insert set_mset_mset)
      then have "sorted (map k (rev (y # zs)))" using zs(3) True Cons.prems(2) by (auto simp: sorted_append)
      moreover have "filter (\<lambda>z. v = k z) (rev (y # zs)) = filter (\<lambda>z. v = k z) (rev (y # ys) @ [x])" for v
        using zs(4) True by auto
      ultimately show ?thesis using zs(1,2) c True by simp
    next
      case False
      then have "sorted (map k (rev (x # y # ys)))" using Cons.prems(2) by (auto simp: sorted_append)
      then show ?thesis using c False by auto
    qed
  qed
  then show thesis using that by blast
qed

lemma insertion_sorts:
  assumes "follows cmp k (rs @ xs)" "sorted (map k (rev rs))"
  shows "\<exists>zs. insertion_from cmp rs xs = ([], zs) \<and> mset zs = mset rs + mset xs \<and> sorted (map k zs) \<and>
    (\<forall>v. filter (\<lambda>z. v = k z) zs = filter (\<lambda>z. v = k z) (rev rs @ xs))"
  using assms
proof (induction xs arbitrary: rs)
  case Nil
  then show ?case by simp
next
  case (Cons x xs)
  obtain rs' where r: "sift cmp x rs = ([], rs')" "mset rs' = add_mset x (mset rs)" "sorted (map k (rev rs'))"
    "\<And>v. filter (\<lambda>z. v = k z) (rev rs') = filter (\<lambda>z. v = k z) (rev rs @ [x])"
    using sift_sorts [OF follows_subset [OF Cons.prems(1)] Cons.prems(2), of x] by auto
  have "set rs' = insert x (set rs)" using r(2) by (metis set_mset_add_mset_insert set_mset_mset)
  then have "follows cmp k (rs' @ xs)" using follows_subset [OF Cons.prems(1)] by auto
  from Cons.IH [OF this r(3)] show ?case using r(1,2,4) by auto
qed

lemma sort_Slice_sort_key: "follows cmp k xs \<Longrightarrow> sort_Slice cmp xs = ([], sort_key k xs)"
proof -
  assume "follows cmp k xs"
  from insertion_sorts [of cmp k "[]", simplified, OF this] obtain zs where
    z: "insertion_from cmp [] xs = ([], zs)" "mset zs = mset xs" "sorted (map k zs)" "\<forall>v. filter (\<lambda>z. v = k z) zs = filter (\<lambda>z. v = k z) xs"
    by auto
  have "sort_key k xs = zs"
    by (rule properties_for_sort_key [OF z(2)]) (use z(3,4) in simp_all)
  then show ?thesis using z(1) by (simp add: sort_Slice_def)
qed

text \<open>The keys that the order of versions follows: the order \<open>kv\<close> of the library, then the build metadata.\<close>

definition parses :: "'v semver_lib \<Rightarrow> string \<Rightarrow> bool" where
  "parses lib s \<longleftrightarrow> (case smParse lib s of Inl _ \<Rightarrow> False | Inr _ \<Rightarrow> True)"

definition version_key :: "'v semver_lib \<Rightarrow> ('v \<Rightarrow> 'k) \<Rightarrow> string \<Rightarrow> 'k \<times> string" where
  "version_key lib kv s = (let v = projr (smParse lib s) in (kv v, join_dots (smBuild lib v)))"

definition number_part :: "CentralOperatorVersion \<Rightarrow> string" where
  "number_part ov = find_suffix CentralOperatorVersionNumberPartRegex (ovVersion ov)"

definition well_versioned :: "'v semver_lib \<Rightarrow> CentralOperatorVersion \<Rightarrow> bool" where
  "well_versioned lib ov \<longleftrightarrow> number_part ov \<noteq> [] \<and> parses lib (number_part ov) \<and> list_all (parses lib) (ovCentralVersions ov)"

definition orders_by :: "'v semver_lib \<Rightarrow> ('v \<Rightarrow> 'k::linorder) \<Rightarrow> bool" where
  "orders_by lib kv \<longleftrightarrow> (\<forall>a b. smCompare lib a b = (if kv a < kv b then - 1 else if kv a = kv b then 0 else 1))"

lemma build_aware_follows:
  "orders_by lib kv \<Longrightarrow> list_all (parses lib) xs \<Longrightarrow> follows (buildAwareSemanticVersioningCompare lib) (version_key lib kv) xs"
  by (auto simp: follows_def orders_by_def list_all_iff parses_def version_key_def buildAwareSemanticVersioningCompare_def Let_def
      less_prod_def' split: sum.splits)

lemma operator_follows:
  assumes "orders_by lib kv" "list_all (well_versioned lib) vs"
  shows "follows (CentralOperatorVersion_Compare lib) (\<lambda>ov. version_key lib kv (number_part ov)) vs"
proof -
  have "follows (buildAwareSemanticVersioningCompare lib) (version_key lib kv) (map number_part vs)"
    using assms by (intro build_aware_follows) (auto simp: list_all_iff well_versioned_def)
  then show ?thesis using assms(2)
    by (auto simp: follows_def list_all_iff well_versioned_def CentralOperatorVersion_Compare_def number_part_def Let_def)
qed

lemma sort_central_versions_sorts:
  "orders_by lib kv \<Longrightarrow> list_all (well_versioned lib) vs \<Longrightarrow>
   sort_central_versions lib vs = Inr (map (\<lambda>ov. ov\<lparr>ovCentralVersions := sort_key (version_key lib kv) (ovCentralVersions ov)\<rparr>) vs)"
proof (induction vs)
  case (Cons v vs)
  then have "sort_Slice (CentralVersion_Compare lib) (ovCentralVersions v) = ([], sort_key (version_key lib kv) (ovCentralVersions v))"
    using build_aware_follows [of lib kv "ovCentralVersions v"]
    by (intro sort_Slice_sort_key) (simp add: well_versioned_def CentralVersion_Compare_def [abs_def])
  then show ?case using Cons by simp
qed simp

text \<open>The slices that \<^verbatim>\<open>sort.Slice\<close> sorts by insertion.\<close>

definition insertion_sized :: "CentralOperatorVersion list \<Rightarrow> bool" where
  "insertion_sized vs \<longleftrightarrow> length vs \<le> 12 \<and> list_all (\<lambda>ov. length (ovCentralVersions ov) \<le> 12) vs"


definition sample_semver :: "string semver_lib" where
  "sample_semver = \<lparr>smParse = (\<lambda>s. if s = [] then Inl (GoErr ''empty'') else Inr s),
     smCompare = (\<lambda>a b. if length a < length b then - 1 else if length a = length b then 0 else 1),
     smMajor = (\<lambda>_. 0), smMinor = (\<lambda>_. 0), smBuild = (\<lambda>_. [])\<rparr>"

definition sample_versions :: "CentralOperatorVersion list" where
  "sample_versions = [\<lparr>ovVersion = ''op-1.2.30-1'', ovReady = True, ovCentralVersions = [''3.74'', ''3.7'']\<rparr>,
     \<lparr>ovVersion = ''op-1.2.3-1'', ovReady = True, ovCentralVersions = []\<rparr>]"


end
