(* ===== verification/Cluster_Manager.thy ===== *)
theory Cluster_Manager
  imports Central_Managers Request_Validation Version_Order
begin

text \<open>
  The worker of data-plane clusters (\<^verbatim>\<open>workers/clusters_mgr.go\<close>) and the reports of the agents on their
  clusters (\<^verbatim>\<open>services/data_plane_cluster.go\<close>). The worker runs its processors one after the other: the
  metrics, the reconciliation with the configured clusters (manual scaling) or with the supported
  regions (automatic scaling), then the clusters of each status. The builders of Kubernetes resources,
  which nothing calls, and what is only logged or counted are left out. A panic is \<open>None\<close>.
\<close>

text \<open>\<open>cmNewID\<close> is the generator of identifiers: it may depend on everything that happened before.\<close>

record 'v cluster_mgr_env =
  cmNow :: int
  cmFactory :: provider_factory
  cmScalingType :: string
  cmClusterConfig :: ClusterConfig
  cmReconcileReady :: bool
  cmSupportedProviders :: "Provider list"
  cmNewID :: "world \<Rightarrow> string"
  cmSemver :: "'v semver_lib"

definition ManualScaling :: string where "ManualScaling = ''manual''"
definition AutoScaling :: string where "AutoScaling = ''auto''"
definition NoScaling :: string where "NoScaling = ''none''"

definition IsDataPlaneManualScalingEnabled :: "'v cluster_mgr_env \<Rightarrow> bool" where
  "IsDataPlaneManualScalingEnabled cm \<longleftrightarrow> cmScalingType cm = ManualScaling"

definition IsDataPlaneAutoScalingEnabled :: "'v cluster_mgr_env \<Rightarrow> bool" where
  "IsDataPlaneAutoScalingEnabled cm \<longleftrightarrow> cmScalingType cm = AutoScaling"

definition IsReadyDataPlaneClustersReconcileEnabled :: "'v cluster_mgr_env \<Rightarrow> bool" where
  "IsReadyDataPlaneClustersReconcileEnabled cm \<longleftrightarrow> cmReconcileReady cm"

definition clusterMetricsStatuses :: "string list" where
  "clusterMetricsStatuses = [ClusterAccepted, ClusterProvisioning, ClusterProvisioned, ClusterCleanup, ClusterWaitingForFleetShardOperator,
     ClusterReady, ClusterComputeNodeScalingUp, ClusterFull, ClusterFailed, ClusterDeprovisioning]"

type_synonym processor = "world \<Rightarrow> go_error list option \<times> world"

subsection \<open>Handlers of one cluster\<close>

definition remove_from_provider :: "'v cluster_mgr_env \<Rightarrow> Cluster \<Rightarrow> world \<Rightarrow> go_error option \<times> world" where
  "remove_from_provider cm c w = (case cluster_Delete (cmFactory cm) c of
     Inl e \<Rightarrow> (Some (SvcErr e), w)
   | Inr False \<Rightarrow> (None, w)
   | Inr True \<Rightarrow> (case cluster_UpdateStatus (cmNow cm) c ClusterCleanup w of
        (Some e, w1) \<Rightarrow> (Some (Wrap (''Failed to update deprovisioning cluster '' @ clClusterID c @ '' status to '' @ [CHR 39] @ ''cleanup'' @ [CHR 39]) (SvcErr e)), w1)
      | (None, w1) \<Rightarrow> (None, w1)))"

definition reconcileDeprovisioningCluster :: "'v cluster_mgr_env \<Rightarrow> Cluster \<Rightarrow> world \<Rightarrow> go_error option \<times> world" where
  "reconcileDeprovisioningCluster cm c w =
     (if IsDataPlaneAutoScalingEnabled cm then
        (case cluster_FindCluster \<lparr>fcProvider = clCloudProvider c, fcRegion = clRegion c, fcMultiAZ = clMultiAZ c, fcStatus = ClusterReady\<rparr> w of
           (Inl e, w1) \<Rightarrow> (Some (SvcErr e), w1)
         | (Inr None, w1) \<Rightarrow> (case cluster_UpdateStatus (cmNow cm) c ClusterReady w1 of
              (Some e, w2) \<Rightarrow> (Some (Wrap (''updating status for cluster '' @ clClusterID c @ '' to '' @ ClusterReady) (SvcErr e)), w2)
            | (None, w2) \<Rightarrow> (None, w2))
         | (Inr (Some _), w1) \<Rightarrow> remove_from_provider cm c w1)
      else remove_from_provider cm c w)"

definition reconcileCleanupCluster :: "'v cluster_mgr_env \<Rightarrow> Cluster \<Rightarrow> world \<Rightarrow> go_error option \<times> world" where
  "reconcileCleanupCluster cm c w = (case DeleteByClusterID (cmNow cm) (clClusterID c) w of
     (Some e, w1) \<Rightarrow> (Some (Wrap (''Failed to soft delete Dataplane cluster '' @ clClusterID c @ '' from the database'') (SvcErr e)), w1)
   | (None, w1) \<Rightarrow> (None, w1))"

definition reconcileClusterDNS :: "'v cluster_mgr_env \<Rightarrow> Cluster \<Rightarrow> world \<Rightarrow> go_error option option \<times> world" where
  "reconcileClusterDNS cm c w =
     (if clClusterDNS c \<noteq> [] then (Some None, w)
      else (case GetClusterDNS (cmFactory cm) (cmNow cm) (clClusterID c) w of
         (None, w1) \<Rightarrow> (None, w1)
       | (Some (Inl e), w1) \<Rightarrow>
           (Some (Some (Wrap (''failed to reconcile cluster '' @ clClusterID c @ '': GetClusterDNS '' @ svc_Error e) (SvcErr e))), w1)
       | (Some (Inr _), w1) \<Rightarrow> (Some None, w1)))"

text \<open>The instance type that is stored, if any.\<close>

definition wanted_instance_type :: "'v cluster_mgr_env \<Rightarrow> Cluster \<Rightarrow> string option" where
  "wanted_instance_type cm c =
     (let manual = IsDataPlaneManualScalingEnabled cm;
          (supportedType, found) = GetClusterSupportedInstanceType (cmClusterConfig cm) (clClusterID c) in
      if manual \<and> \<not> found \<and> clSupportedInstanceType c \<noteq> [] then None
      else if clSupportedInstanceType c \<noteq> [] \<and> \<not> manual then None
      else (let wanted = (if manual \<and> found then supportedType else AllInstanceTypeSupport) in
        if clSupportedInstanceType c \<noteq> wanted then Some wanted else None))"

definition reconcileClusterInstanceType :: "'v cluster_mgr_env \<Rightarrow> Cluster \<Rightarrow> world \<Rightarrow> go_error option \<times> world" where
  "reconcileClusterInstanceType cm c w = (case wanted_instance_type cm c of
     None \<Rightarrow> (None, w)
   | Some t \<Rightarrow> (case cluster_Update (cmNow cm) (c\<lparr>clSupportedInstanceType := t\<rparr>) w of
        (Some e, w1) \<Rightarrow> (Some (Wrap (''failed to update instance type in database for cluster '' @ clClusterID c) (SvcErr e)), w1)
      | (None, w1) \<Rightarrow> (None, w1)))"

definition reconcileReadyCluster :: "'v cluster_mgr_env \<Rightarrow> Cluster \<Rightarrow> world \<Rightarrow> go_error option option \<times> world" where
  "reconcileReadyCluster cm c w =
     (if \<not> IsReadyDataPlaneClustersReconcileEnabled cm then (Some None, w)
      else (case reconcileClusterInstanceType cm c w of
         (Some e, w1) \<Rightarrow> (Some (Some (Wrap (''failed to reconcile instance type ready cluster '' @ clClusterID c @ '': '' @ go_Error e) e)), w1)
       | (None, w1) \<Rightarrow> (case reconcileClusterDNS cm c w1 of
            (None, w2) \<Rightarrow> (None, w2)
          | (Some (Some e), w2) \<Rightarrow>
              (Some (Some (Wrap (''failed to reconcile cluster dns of ready cluster '' @ clClusterID c @ '': '' @ go_Error e) e)), w2)
          | (Some None, w2) \<Rightarrow> (Some None, w2))))"

text \<open>The result of the query for siblings is returned as an error also when it is a nil pointer and no
  group was found: a non-nil interface that holds nil.\<close>

definition reconcileEmptyCluster :: "'v cluster_mgr_env \<Rightarrow> Cluster \<Rightarrow> world \<Rightarrow> (bool \<times> go_error option) \<times> world" where
  "reconcileEmptyCluster cm c w = (case FindNonEmptyClusterByID (clClusterID c) w of
     (Inl e, w1) \<Rightarrow> ((False, Some (SvcErr e)), w1)
   | (Inr (Some _), w1) \<Rightarrow> ((False, None), w1)
   | (Inr None, w1) \<Rightarrow>
      (case ListGroupByProviderAndRegion [clCloudProvider c] [clRegion c] [ClusterReady] w1 of
         (Inl e, w2) \<Rightarrow> ((False, Some (SvcErr e)), w2)
       | (Inr [], w2) \<Rightarrow> ((False, Some NilSvcErr), w2)
       | (Inr ((_, siblingCount) # _), w2) \<Rightarrow>
          if siblingCount \<le> 1 then ((False, None), w2)
          else (case cluster_UpdateStatus (cmNow cm) c ClusterDeprovisioning w2 of
             (Some e, w3) \<Rightarrow>
               ((False, Some (Wrap (''updating status for cluster '' @ clClusterID c @ '' to '' @ ClusterDeprovisioning) (SvcErr e))), w3)
           | (None, w3) \<Rightarrow> ((True, None), w3))))"

definition reconcileAddonOperator :: "'v cluster_mgr_env \<Rightarrow> Cluster \<Rightarrow> world \<Rightarrow> go_error option \<times> world" where
  "reconcileAddonOperator cm c w = (case cluster_UpdateStatus (cmNow cm) c ClusterWaitingForFleetShardOperator w of
     (Some e, w1) \<Rightarrow> (Some (Wrap (''failed to update local cluster '' @ clClusterID c @ '' status: '' @ svc_Error e) (SvcErr e)), w1)
   | (None, w1) \<Rightarrow> (None, w1))"

definition reconcileProvisionedCluster :: "'v cluster_mgr_env \<Rightarrow> Cluster \<Rightarrow> world \<Rightarrow> go_error option option \<times> world" where
  "reconcileProvisionedCluster cm c w = (case reconcileClusterDNS cm c w of
     (None, w1) \<Rightarrow> (None, w1)
   | (Some (Some e), w1) \<Rightarrow> (Some (Some e), w1)
   | (Some None, w1) \<Rightarrow> (case reconcileAddonOperator cm c w1 of
        (Some e, w2) \<Rightarrow> (Some (Some (Wrap (''failed to reconcile cluster '' @ clClusterID c @ '' addon operator: '' @ go_Error e) e)), w2)
      | (None, w2) \<Rightarrow> (Some None, w2)))"

definition reconcileAcceptedCluster :: "'v cluster_mgr_env \<Rightarrow> Cluster \<Rightarrow> world \<Rightarrow> go_error option \<times> world" where
  "reconcileAcceptedCluster cm c w = (case cluster_Create (cmFactory cm) (cmNewID cm w) (cmNow cm) c w of
     (Inl e, w1) \<Rightarrow> (Some (Wrap (''failed to create cluster for request '' @ clID c) (SvcErr e)), w1)
   | (Inr _, w1) \<Rightarrow> (None, w1))"

definition reconcileClusterStatus :: "'v cluster_mgr_env \<Rightarrow> Cluster \<Rightarrow> world \<Rightarrow> (go_error + Cluster) \<times> world" where
  "reconcileClusterStatus cm c w = (case CheckClusterStatus (cmFactory cm) (cmNow cm) c w of
     (Inl e, w1) \<Rightarrow> (Inl (SvcErr e), w1)
   | (Inr c', w1) \<Rightarrow> (Inr c', w1))"

subsection \<open>Processors\<close>

definition lift_handler :: "('k \<Rightarrow> world \<Rightarrow> go_error option \<times> world) \<Rightarrow> 'k \<Rightarrow> world \<Rightarrow> go_error option option \<times> world" where
  "lift_handler f c w = (case f c w of (e, w1) \<Rightarrow> (Some e, w1))"

definition processDeprovisioningClusters :: "'v cluster_mgr_env \<Rightarrow> processor" where
  "processDeprovisioningClusters cm w = (case cluster_ListByStatus ClusterDeprovisioning w of
     (Inl e, w1) \<Rightarrow> (Some [SvcErr e], w1)
   | (Inr cs, w1) \<Rightarrow> reconcile_each (\<lambda>c w. wrap_error (''failed to reconcile deprovisioning cluster '' @ clID c)
        (lift_handler (reconcileDeprovisioningCluster cm) c w)) cs w1)"

definition processCleanupClusters :: "'v cluster_mgr_env \<Rightarrow> processor" where
  "processCleanupClusters cm = reconcile_listed (cluster_ListByStatus ClusterCleanup) ''failed to list of cleaup clusters''
     (\<lambda>c w. wrap_error (''failed to reconcile cleanup cluster '' @ clID c) (lift_handler (reconcileCleanupCluster cm) c w))"

definition processAcceptedClusters :: "'v cluster_mgr_env \<Rightarrow> processor" where
  "processAcceptedClusters cm = reconcile_listed (cluster_ListByStatus ClusterAccepted) ''failed to list accepted clusters''
     (\<lambda>c w. wrap_error (''failed to reconcile accepted cluster '' @ clID c) (lift_handler (reconcileAcceptedCluster cm) c w))"

definition processProvisioningClusters :: "'v cluster_mgr_env \<Rightarrow> processor" where
  "processProvisioningClusters cm = reconcile_listed (cluster_ListByStatus ClusterProvisioning) ''failed to list pending clusters''
     (\<lambda>c w. wrap_error (''failed to reconcile cluster '' @ clClusterID c @ '' status'')
        (case reconcileClusterStatus cm c w of (Inl e, w1) \<Rightarrow> (Some (Some e), w1) | (Inr _, w1) \<Rightarrow> (Some None, w1)))"

definition processProvisionedClusters :: "'v cluster_mgr_env \<Rightarrow> processor" where
  "processProvisionedClusters cm = reconcile_listed (cluster_ListByStatus ClusterProvisioned) ''failed to list provisioned clusters''
     (\<lambda>c w. wrap_error (''failed to reconcile provisioned cluster '' @ clClusterID c) (reconcileProvisionedCluster cm c w))"

definition handle_ready_cluster :: "'v cluster_mgr_env \<Rightarrow> Cluster \<Rightarrow> world \<Rightarrow> go_error option option \<times> world" where
  "handle_ready_cluster cm c w =
     (case (if IsDataPlaneAutoScalingEnabled cm then reconcileEmptyCluster cm c w else ((False, None), w)) of
        ((_, Some e), w1) \<Rightarrow> (Some (Some e), w1)
      | ((True, None), w1) \<Rightarrow> (Some None, w1)
      | ((False, None), w1) \<Rightarrow> reconcileReadyCluster cm c w1)"

definition processReadyClusters :: "'v cluster_mgr_env \<Rightarrow> processor" where
  "processReadyClusters cm = reconcile_listed (cluster_ListByStatus ClusterReady) ''failed to list ready clusters''
     (\<lambda>c w. wrap_error (''failed to reconcile ready cluster '' @ clClusterID c) (handle_ready_cluster cm c w))"

text \<open>The queries of the metrics can fail; the numbers themselves are not modelled.\<close>

definition setClusterStatusCountMetrics :: "world \<Rightarrow> go_error option \<times> world" where
  "setClusterStatusCountMetrics w = (case cluster_CountByStatus clusterMetricsStatuses w of
     (Inl e, w1) \<Rightarrow> (Some (SvcErr e), w1)
   | (Inr _, w1) \<Rightarrow> (None, w1))"

fun external_ids :: "(string \<times> int) list \<Rightarrow> world \<Rightarrow> go_error option \<times> world" where
  "external_ids [] w = (None, w)"
| "external_ids ((clusterid, _) # cs) w = (case GetExternalID clusterid w of
     (Inl e, w1) \<Rightarrow> (Some (SvcErr e), w1)
   | (Inr _, w1) \<Rightarrow> external_ids cs w1)"

definition setDinosaurPerClusterCountMetrics :: "world \<Rightarrow> go_error option \<times> world" where
  "setDinosaurPerClusterCountMetrics w = (case FindDinosaurInstanceCount [] w of
     (Inl e, w1) \<Rightarrow> (Some (SvcErr e), w1)
   | (Inr counters, w1) \<Rightarrow> external_ids counters w1)"

definition processMetrics :: processor where
  "processMetrics w = (case setClusterStatusCountMetrics w of
     (Some e, w1) \<Rightarrow> (Some [Wrap ''failed to set cluster status count metrics'' e], w1)
   | (None, w1) \<Rightarrow> (case setDinosaurPerClusterCountMetrics w1 of
        (Some e, w2) \<Rightarrow> (Some [Wrap ''failed to set central per cluster count metrics'' e], w2)
      | (None, w2) \<Rightarrow> (Some [], w2)))"

subsection \<open>The configured clusters\<close>

definition manual_request :: "ManualCluster \<Rightarrow> Cluster" where
  "manual_request p = empty_cluster\<lparr>clCloudProvider := mcCloudProvider p, clRegion := mcRegion p, clMultiAZ := mcMultiAZ p,
     clClusterID := mcClusterID p, clStatus := mcStatus p, clProviderType := mcProviderType p, clClusterDNS := mcClusterDNS p,
     clSupportedInstanceType := mcSupportedInstanceType p, clSchedulable := mcSchedulable p\<rparr>"

definition register_manual :: "'v cluster_mgr_env \<Rightarrow> ManualCluster \<Rightarrow> world \<Rightarrow> go_error option \<times> world" where
  "register_manual cm p w =
     (case (if mcAvailableCentralOperatorVersions p \<noteq> []
            then SetAvailableCentralOperatorVersions (cmSemver cm) (mcAvailableCentralOperatorVersions p) (manual_request p)
            else Inr (manual_request p)) of
        Inl e \<Rightarrow> (Some (Wrap (''Failed to set operator versions for manual cluster '' @ mcClusterID p @ '' with config file'') e), w)
      | Inr clusterRequest \<Rightarrow> (case RegisterClusterJob (cmNewID cm w) (cmNow cm) clusterRequest w of
           (Some e, w1) \<Rightarrow> (Some (Wrap (''Failed to register new cluster '' @ mcClusterID p @ '' with config file'') (SvcErr e)), w1)
         | (None, w1) \<Rightarrow> (None, w1)))"

text \<open>Loops that stop at the first error.\<close>

fun until_error :: "('k \<Rightarrow> world \<Rightarrow> go_error option option \<times> world) \<Rightarrow> 'k list \<Rightarrow> world \<Rightarrow> go_error option option \<times> world" where
  "until_error f [] w = (Some None, w)"
| "until_error f (k # ks) w = (case f k w of
     (None, w1) \<Rightarrow> (None, w1)
   | (Some (Some e), w1) \<Rightarrow> (Some (Some e), w1)
   | (Some None, w1) \<Rightarrow> until_error f ks w1)"

definition manual_columns :: "Cluster \<Rightarrow> Cluster \<Rightarrow> Cluster" where
  "manual_columns n r = r\<lparr>clCloudProvider := clCloudProvider n, clRegion := clRegion n, clMultiAZ := clMultiAZ n, clStatus := clStatus n,
     clProviderType := clProviderType n, clClusterDNS := clClusterDNS n, clSupportedInstanceType := clSupportedInstanceType n,
     clAvailableCentralOperatorVersions := clAvailableCentralOperatorVersions n, clSchedulable := clSchedulable n\<rparr>"

definition with_manual :: "ManualCluster \<Rightarrow> Cluster \<Rightarrow> Cluster" where
  "with_manual p c = c\<lparr>clCloudProvider := mcCloudProvider p, clRegion := mcRegion p, clMultiAZ := mcMultiAZ p, clStatus := mcStatus p,
     clProviderType := mcProviderType p, clClusterDNS := mcClusterDNS p, clSupportedInstanceType := mcSupportedInstanceType p,
     clSchedulable := mcSchedulable p\<rparr>"

definition update_manual :: "'v cluster_mgr_env \<Rightarrow> ManualCluster \<Rightarrow> world \<Rightarrow> go_error option option \<times> world" where
  "update_manual cm p w = (case FindClusterByID (mcClusterID p) w of
     (Inl _, w1) \<Rightarrow> (Some None, w1)
   | (Inr None, w1) \<Rightarrow> (None, w1)
   | (Inr (Some c), w1) \<Rightarrow>
      (case SetAvailableCentralOperatorVersions (cmSemver cm) (mcAvailableCentralOperatorVersions p) (with_manual p c) of
         Inl e \<Rightarrow> (Some (Some (Wrap (''Failed to update operator versions for manual cluster '' @ mcClusterID p @ '' with config file'') e)), w1)
       | Inr newCluster \<Rightarrow>
          if newCluster = c then (Some None, w1)
          else (case cluster_Updates (cmNow cm) newCluster (manual_columns newCluster) w1 of
             (Some e, w2) \<Rightarrow> (Some (Some (Wrap (''Failed to update manual cluster '' @ clClusterID c) (SvcErr e))), w2)
           | (None, w2) \<Rightarrow> (Some None, w2))))"

definition ids_text :: "string list \<Rightarrow> string" where
  "ids_text ids = names_text ids"

definition deprovision_excess :: "'v cluster_mgr_env \<Rightarrow> string list \<Rightarrow> world \<Rightarrow> go_error list \<times> world" where
  "deprovision_excess cm excessClusterIds w =
     (if excessClusterIds = [] then ([], w)
      else (case FindDinosaurInstanceCount excessClusterIds w of
         (Inl e, w1) \<Rightarrow> ([Wrap (''Failed to find central count a cluster: '' @ ids_text excessClusterIds) (SvcErr e)], w1)
       | (Inr counts, w1) \<Rightarrow>
          (let idsOfClustersToDeprovision = map fst (filter (\<lambda>(_, n). \<not> n > 0) counts) in
           if idsOfClustersToDeprovision = [] then ([], w1)
           else (case UpdateMultiClusterStatus (cmNow cm) idsOfClustersToDeprovision ClusterDeprovisioning w1 of
              (Some e, w2) \<Rightarrow> ([Wrap (''Failed to deprovisioning a cluster: '' @ ids_text idsOfClustersToDeprovision) (SvcErr e)], w2)
            | (None, w2) \<Rightarrow> ([], w2)))))"

text \<open>The map from identifiers to the listed clusters, iterated in the order of the listing; Go iterates in
  some order, which shows only in the texts of errors.\<close>

definition cluster_ids_map :: "Cluster list \<Rightarrow> (string \<times> Cluster) list" where
  "cluster_ids_map cs = map (\<lambda>c. (clClusterID c, c)) (remdups cs)"

definition reconcileClusterWithManualConfig :: "'v cluster_mgr_env \<Rightarrow> processor" where
  "reconcileClusterWithManualConfig cm w =
     (if \<not> IsDataPlaneManualScalingEnabled cm then (Some [], w)
      else (case ListAllClusterIds w of
         (Inl e, w1) \<Rightarrow> (Some [Wrap ''failed to retrieve cluster ids from clusters'' (SvcErr e)], w1)
       | (Inr allClusterIds, w1) \<Rightarrow>
          (let clusterIdsMap = cluster_ids_map allClusterIds; conf = cmClusterConfig cm in
           case until_error (lift_handler (register_manual cm)) (MissingClusters conf clusterIdsMap) w1 of
             (None, w2) \<Rightarrow> (None, w2)
           | (Some (Some e), w2) \<Rightarrow> (Some [e], w2)
           | (Some None, w2) \<Rightarrow>
              (case until_error (update_manual cm) (ExistingClusters conf clusterIdsMap) w2 of
                 (None, w3) \<Rightarrow> (None, w3)
               | (Some (Some e), w3) \<Rightarrow> (Some [e], w3)
               | (Some None, w3) \<Rightarrow>
                  (case deprovision_excess cm (ExcessClusters conf clusterIdsMap) w3 of (es, w4) \<Rightarrow> (Some es, w4))))))"

subsection \<open>The supported regions\<close>

definition region_request :: "Provider \<Rightarrow> Region \<Rightarrow> Cluster" where
  "region_request p v = empty_cluster\<lparr>clCloudProvider := pvName p, clRegion := rgName v, clMultiAZ := True, clStatus := ClusterAccepted,
     clProviderType := ClusterProviderOCM, clSupportedInstanceType := AllInstanceTypeSupport\<rparr>"

definition register_region :: "'v cluster_mgr_env \<Rightarrow> string list \<Rightarrow> Provider \<times> Region \<Rightarrow> world \<Rightarrow> go_error option option \<times> world" where
  "register_region cm known pv w = (case pv of (p, v) \<Rightarrow>
     if List.member known (pvName p @ ''.'' @ rgName v) then (Some None, w)
     else (case RegisterClusterJob (cmNewID cm w) (cmNow cm) (region_request p v) w of
        (Some e, w1) \<Rightarrow> (Some (Some (Wrap (''Failed to auto-create cluster request in '' @ pvName p @ '', region: '' @ rgName v) (SvcErr e))), w1)
      | (None, w1) \<Rightarrow> (Some None, w1)))"

definition all_regions :: "Provider list \<Rightarrow> (Provider \<times> Region) list" where
  "all_regions ps = concat (map (\<lambda>p. map (\<lambda>v. (p, v)) (pvRegions p)) ps)"

definition reconcileClustersForRegions :: "'v cluster_mgr_env \<Rightarrow> processor" where
  "reconcileClustersForRegions cm w =
     (if \<not> IsDataPlaneAutoScalingEnabled cm then (Some [], w)
      else (let providerList = cmSupportedProviders cm;
                providers = map pvName providerList;
                regions = concat (map (\<lambda>p. map rgName (pvRegions p)) providerList) in
        case ListGroupByProviderAndRegion providers regions StatusForValidCluster w of
          (Inl e, w1) \<Rightarrow> (Some [Wrap ''failed to find cluster with criteria'' (SvcErr e)], w1)
        | (Inr grpResult, w1) \<Rightarrow>
            (case until_error (register_region cm (map (\<lambda>((p, r), _). p @ ''.'' @ r) grpResult)) (all_regions providerList) w1 of
               (None, w2) \<Rightarrow> (None, w2)
             | (Some e, w2) \<Rightarrow> (Some (opt_list e), w2))))"

subsection \<open>The worker\<close>

fun run_processors :: "processor list \<Rightarrow> processor" where
  "run_processors [] w = (Some [], w)"
| "run_processors (p # ps) w = (case p w of
     (None, w1) \<Rightarrow> (None, w1)
   | (Some es, w1) \<Rightarrow> (case run_processors ps w1 of
        (None, w2) \<Rightarrow> (None, w2)
      | (Some es', w2) \<Rightarrow> (Some (es @ es'), w2)))"

definition cluster_processors :: "'v cluster_mgr_env \<Rightarrow> processor list" where
  "cluster_processors cm = [processMetrics, reconcileClusterWithManualConfig cm, reconcileClustersForRegions cm,
     processDeprovisioningClusters cm, processCleanupClusters cm, processAcceptedClusters cm, processProvisioningClusters cm,
     processProvisionedClusters cm, processReadyClusters cm]"

definition cluster_Reconcile :: "'v cluster_mgr_env \<Rightarrow> processor" where
  "cluster_Reconcile cm = run_processors (cluster_processors cm)"

subsection \<open>Reports of the agents\<close>

record DataPlaneClusterStatusCondition =
  ctType :: string
  ctReason :: string
  ctStatus :: string
  ctMessage :: string

record DataPlaneClusterStatus =
  dcConditions :: "DataPlaneClusterStatusCondition list"
  dcAvailableDinosaurOperatorVersions :: "CentralOperatorVersion list"

definition dataPlaneClusterStatusCondReadyName :: string where "dataPlaneClusterStatusCondReadyName = ''Ready''"

text \<open>\<^verbatim>\<open>strconv.ParseBool\<close>\<close>

definition ParseBool :: "string \<Rightarrow> go_error + bool" where
  "ParseBool s =
     (if List.member [''1'', ''t'', ''T'', ''true'', ''TRUE'', ''True''] s then Inr True
      else if List.member [''0'', ''f'', ''F'', ''false'', ''FALSE'', ''False''] s then Inr False
      else Inl (GoErr (''strconv.ParseBool: parsing '' @ go_quote s @ '': invalid syntax'')))"

definition isFleetShardOperatorReady :: "DataPlaneClusterStatus \<Rightarrow> go_error + bool" where
  "isFleetShardOperatorReady status =
     (case find (\<lambda>c. ctType c = dataPlaneClusterStatusCondReadyName) (dcConditions status) of
        None \<Rightarrow> Inr False
      | Some c \<Rightarrow> (case ParseBool (ctStatus c) of
           Inl e \<Rightarrow> Inl (Wrap (''parsing data plane cluster condition '' @ go_quote dataPlaneClusterStatusCondReadyName) e)
         | Inr b \<Rightarrow> Inr b))"

definition clusterCanProcessStatusReports :: "Cluster \<Rightarrow> bool" where
  "clusterCanProcessStatusReports c \<longleftrightarrow> clStatus c = ClusterReady \<or> clStatus c = ClusterComputeNodeScalingUp \<or>
     clStatus c = ClusterFull \<or> clStatus c = ClusterWaitingForFleetShardOperator"

definition store_versions :: "'v semver_lib \<Rightarrow> int \<Rightarrow> Cluster \<Rightarrow> DataPlaneClusterStatus \<Rightarrow> world \<Rightarrow> (go_error + Cluster) \<times> world" where
  "store_versions lib now c status w = (case GetAvailableCentralOperatorVersions c of
     Inl e \<Rightarrow> (Inl (Wrap ''retrieving central operator versions'' e), w)
   | Inr prev \<Rightarrow>
      if dcAvailableDinosaurOperatorVersions status \<noteq> [] \<and> prev \<noteq> dcAvailableDinosaurOperatorVersions status then
        (case SetAvailableCentralOperatorVersions lib (dcAvailableDinosaurOperatorVersions status) c of
           Inl e \<Rightarrow> (Inl (Wrap ''updating central operator versions'' e), w)
         | Inr c1 \<Rightarrow> (case cluster_Update now c1 w of
              (Some e, w1) \<Rightarrow> (Inl (Wrap ''updating cluster'' (SvcErr e)), w1)
            | (None, w1) \<Rightarrow> (Inr c1, w1)))
      else (Inr c, w))"

definition setClusterStatus :: "'v semver_lib \<Rightarrow> int \<Rightarrow> Cluster \<Rightarrow> DataPlaneClusterStatus \<Rightarrow> world \<Rightarrow> go_error option \<times> world" where
  "setClusterStatus lib now c status w = (case store_versions lib now c status w of
     (Inl e, w1) \<Rightarrow> (Some e, w1)
   | (Inr c1, w1) \<Rightarrow>
      if clStatus c1 \<noteq> ClusterReady then
        (case cluster_UpdateStatus now c1 ClusterReady w1 of
           (Some e, w2) \<Rightarrow> (Some (Wrap (''updating cluster status to '' @ ClusterReady) (SvcErr e)), w2)
         | (None, w2) \<Rightarrow> (None, w2))
      else (None, w1))"

definition agent_not_found :: "string \<Rightarrow> service_error" where
  "agent_not_found clusterID = BadRequest (Fmt (''Cluster agent with ID '' @ [CHR 39] @ clusterID @ [CHR 39] @ '' not found''))"

text \<open>Whether the cluster can process reports is not looked at: the call is commented out in the source.\<close>

definition UpdateDataPlaneClusterStatus ::
  "'v semver_lib \<Rightarrow> int \<Rightarrow> string \<Rightarrow> DataPlaneClusterStatus \<Rightarrow> world \<Rightarrow> service_error option \<times> world" where
  "UpdateDataPlaneClusterStatus lib now clusterID status w = (case FindClusterByID clusterID w of
     (Inl e, w1) \<Rightarrow> (Some e, w1)
   | (Inr None, w1) \<Rightarrow> (Some (agent_not_found clusterID), w1)
   | (Inr (Some c), w1) \<Rightarrow> (case isFleetShardOperatorReady status of
        Inl e \<Rightarrow> (Some (ToServiceError e), w1)
      | Inr False \<Rightarrow>
          if clStatus c \<noteq> ClusterWaitingForFleetShardOperator then
            (case cluster_UpdateStatus now c ClusterWaitingForFleetShardOperator w1 of
               (Some e, w2) \<Rightarrow> (Some (ToServiceError (SvcErr e)), w2)
             | (None, w2) \<Rightarrow> (None, w2))
          else (None, w1)
      | Inr True \<Rightarrow> (case setClusterStatus lib now c status w1 of
           (Some e, w2) \<Rightarrow> (Some (ToServiceError e), w2)
         | (None, w2) \<Rightarrow> (None, w2))))"

record DataPlaneClusterConfigObservability =
  obAccessToken :: string
  obChannel :: string
  obRepository :: string
  obTag :: string

definition GetDataPlaneClusterConfig ::
  "DataPlaneClusterConfigObservability \<Rightarrow> string \<Rightarrow> world \<Rightarrow> (service_error + DataPlaneClusterConfigObservability) \<times> world" where
  "GetDataPlaneClusterConfig config clusterID w = (case FindClusterByID clusterID w of
     (Inl e, w1) \<Rightarrow> (Inl e, w1)
   | (Inr None, w1) \<Rightarrow> (Inl (agent_not_found clusterID), w1)
   | (Inr (Some _), w1) \<Rightarrow> (Inr config, w1))"

end
