(* ===== verification/Cluster_Contracts.thy ===== *)
theory Cluster_Contracts
  imports Cluster_Manager
begin

text \<open>
  What the operations of the cluster worker keep of the table of clusters. The invariant \<open>cluster_wf\<close> has
  the two unique indexes and the known statuses; \<open>own_row I\<close> says that a step changes no row but live ones with
  identifiers in \<open>I\<close>. The locale \<open>cluster_handler\<close> is the contract of the handlers of one cluster; the processors rest on
  it. Statements may fail at any point.
\<close>

definition known_status :: "string \<Rightarrow> bool" where
  "known_status s \<longleftrightarrow> List.member clusterMetricsStatuses s"

lemma known_statuses [simp, intro]:
  "known_status ClusterReady" "known_status ClusterDeprovisioning" "known_status ClusterCleanup"
  "known_status ClusterWaitingForFleetShardOperator" "known_status ClusterAccepted"
  by (simp_all add: known_status_def clusterMetricsStatuses_def)

definition cluster_wf :: "world \<Rightarrow> bool" where
  "cluster_wf w \<longleftrightarrow> distinct (map clID (clusters w)) \<and> distinct (map clClusterID (clusters w)) \<and>
     (\<forall>c\<in>set (clusters w). clID c \<noteq> [] \<and> known_status (clStatus c))"

definition own_row :: "string set \<Rightarrow> world \<Rightarrow> world \<Rightarrow> bool" where
  "own_row I w w' \<longleftrightarrow> centrals w' = centrals w \<and>
     list_all2 (\<lambda>r r'. r' = r \<or> cluster_live r \<and> clID r \<in> I \<and> clID r' = clID r) (clusters w) (clusters w')"

text \<open>The identifiers and cluster identifiers stay.\<close>

definition same_keys :: "world \<Rightarrow> world \<Rightarrow> bool" where
  "same_keys w w' \<longleftrightarrow> map (\<lambda>r. (clID r, clClusterID r)) (clusters w') = map (\<lambda>r. (clID r, clClusterID r)) (clusters w)"

definition tidy :: "string \<Rightarrow> world \<Rightarrow> world \<Rightarrow> bool" where
  "tidy i w w' \<longleftrightarrow> own_row {i} w w' \<and> same_keys w w' \<and> (\<forall>r'\<in>set (clusters w'). known_status (clStatus r'))"

lemma own_row_refl [simp, intro]: "own_row I w w" by (simp add: own_row_def list_all2_same)

lemma own_row_trans: "own_row I w w1 \<Longrightarrow> own_row J w1 w2 \<Longrightarrow> own_row (I \<union> J) w w2"
  unfolding own_row_def list_all2_conv_all_nth Un_iff by metis

lemma own_row_same: "clusters w' = clusters w \<Longrightarrow> centrals w' = centrals w \<Longrightarrow> own_row I w w'"
  by (simp add: own_row_def list_all2_same)

lemma own_row_keeps:
  assumes "own_row I w w'" "r \<in> set (clusters w)" "clID r \<notin> I"
  shows "r \<in> set (clusters w')"
  using assms unfolding own_row_def list_all2_conv_all_nth in_set_conv_nth by metis

lemma own_row_from:
  assumes "own_row I w w'" "r' \<in> set (clusters w')" "clID r' \<notin> I"
  shows "r' \<in> set (clusters w)"
  using assms unfolding own_row_def list_all2_conv_all_nth in_set_conv_nth by metis

lemma own_row_ids: "own_row I w w' \<Longrightarrow> map clID (clusters w') = map clID (clusters w)"
  by (auto simp: own_row_def list_all2_conv_all_nth intro!: nth_equalityI)

lemma same_keys_maps:
  "same_keys w w' \<Longrightarrow> map clID (clusters w') = map clID (clusters w) \<and> map clClusterID (clusters w') = map clClusterID (clusters w)"
proof -
  assume s: "same_keys w w'"
  have "map fst (map (\<lambda>r. (clID r, clClusterID r)) (clusters w')) = map fst (map (\<lambda>r. (clID r, clClusterID r)) (clusters w))"
    "map snd (map (\<lambda>r. (clID r, clClusterID r)) (clusters w')) = map snd (map (\<lambda>r. (clID r, clClusterID r)) (clusters w))"
    using s unfolding same_keys_def by presburger+
  then show ?thesis by (simp add: comp_def)
qed

lemma cluster_wf_ids: "cluster_wf w \<Longrightarrow> r \<in> set (clusters w) \<Longrightarrow> r' \<in> set (clusters w) \<Longrightarrow> clID r = clID r' \<Longrightarrow> r = r'"
  unfolding cluster_wf_def by (meson distinct_map inj_onD)

lemma cluster_wf_cluster_ids:
  "cluster_wf w \<Longrightarrow> r \<in> set (clusters w) \<Longrightarrow> r' \<in> set (clusters w) \<Longrightarrow> clClusterID r = clClusterID r' \<Longrightarrow> r = r'"
  unfolding cluster_wf_def by (meson distinct_map inj_onD)

lemma cluster_wf_same: "clusters w' = clusters w \<Longrightarrow> cluster_wf w \<Longrightarrow> cluster_wf w'"
  by (simp add: cluster_wf_def)

lemma tidy_wf: "tidy i w w' \<Longrightarrow> cluster_wf w \<Longrightarrow> cluster_wf w'"
proof -
  assume t: "tidy i w w'" and w: "cluster_wf w"
  have m: "map clID (clusters w') = map clID (clusters w)" "map clClusterID (clusters w') = map clClusterID (clusters w)"
    using t same_keys_maps unfolding tidy_def by blast+
  then have "clID ` set (clusters w') = clID ` set (clusters w)" by (metis list.set_map)
  then have "\<forall>c\<in>set (clusters w'). clID c \<noteq> []" using w unfolding cluster_wf_def by (metis imageE imageI)
  then show ?thesis using t w m unfolding cluster_wf_def tidy_def by simp
qed

lemma tidy_same: "cluster_wf w \<Longrightarrow> clusters w' = clusters w \<Longrightarrow> centrals w' = centrals w \<Longrightarrow> tidy i w w'"
  by (simp add: tidy_def own_row_same same_keys_def cluster_wf_def)

lemma tidy_trans: "tidy i w w1 \<Longrightarrow> tidy i w1 w2 \<Longrightarrow> tidy i w w2"
  unfolding tidy_def same_keys_def using own_row_trans [of "{i}" w w1 "{i}" w2] by simp

subsection \<open>Operations of the service\<close>

lemma update_clusters_unfold:
  "update_clusters P f w = (case planned w of
     Some e \<Rightarrow> (Inl e, next_stmt w)
   | None \<Rightarrow> (Inr (int (length (filter (\<lambda>c. cluster_live c \<and> P c) (clusters w)))),
        (next_stmt w)\<lparr>clusters := map (\<lambda>c. if cluster_live c \<and> P c then f c else c) (clusters w)\<rparr>))"
  by (simp add: update_clusters_def stmt_unfold split: option.splits)

lemma find_clusters_unfold:
  "find_clusters P w = (case planned w of
     Some e \<Rightarrow> (Inl e, next_stmt w) | None \<Rightarrow> (Inr (filter (\<lambda>c. cluster_live c \<and> P c) (clusters w)), next_stmt w))"
  by (simp add: find_clusters_def stmt_unfold split: option.splits)

lemma update_clusters_tidy:
  assumes "cluster_wf w"
    "\<And>r. r \<in> set (clusters w) \<Longrightarrow> cluster_live r \<Longrightarrow> P r \<Longrightarrow>
      clID r = i \<and> clID (f r) = i \<and> clClusterID (f r) = clClusterID r \<and> known_status (clStatus (f r))"
  shows "tidy i w (snd (update_clusters P f w))"
  using assms by (auto simp: update_clusters_unfold tidy_def own_row_def same_keys_def cluster_wf_def list_all2_map2
      split: option.splits intro!: list.rel_refl_strong)

lemma first_cluster_found:
  "first_cluster P w = (x, w') \<Longrightarrow> clusters w' = clusters w \<and> centrals w' = centrals w \<and>
   (\<forall>c. x = Inr c \<longrightarrow> c \<in> set (clusters w) \<and> cluster_live c \<and> P c)"
proof -
  assume r: "first_cluster P w = (x, w')"
  let ?cs = "sort_key clID (filter (\<lambda>c. cluster_live c \<and> P c) (clusters w))"
  have m: "set ?cs = {c \<in> set (clusters w). cluster_live c \<and> P c}" by simp
  show ?thesis
  proof (cases "planned w")
    case None
    then show ?thesis
    proof (cases ?cs)
      case Nil
      then show ?thesis using r None by (auto simp: first_cluster_def stmt_unfold)
    next
      case (Cons c cs)
      then have "c \<in> {c \<in> set (clusters w). cluster_live c \<and> P c}" using m by (metis list.set_intros(1))
      then show ?thesis using r None Cons by (auto simp: first_cluster_def stmt_unfold)
    qed
  next
    case (Some e)
    then show ?thesis using r by (auto simp: first_cluster_def stmt_unfold)
  qed
qed

lemma FindClusterByID_listed:
  "FindClusterByID i w = (x, w') \<Longrightarrow> clusters w' = clusters w \<and> centrals w' = centrals w \<and>
   (\<forall>c. x = Inr (Some c) \<longrightarrow> c \<in> set (clusters w) \<and> cluster_live c \<and> clClusterID c = i)"
  by (auto simp: FindClusterByID_def split: if_splits prod.splits sum.splits go_error.splits dest!: first_cluster_found)

definition keyed :: "Cluster \<Rightarrow> world \<Rightarrow> bool" where
  "keyed c w \<longleftrightarrow> (\<exists>r\<in>set (clusters w). clID r = clID c \<and> clClusterID r = clClusterID c)"

lemma keyed_keys: "same_keys w w' \<Longrightarrow> keyed c w \<Longrightarrow> keyed c w'"
proof -
  have k: "keyed c v \<longleftrightarrow> (clID c, clClusterID c) \<in> set (map (\<lambda>r. (clID r, clClusterID r)) (clusters v))" for v
    unfolding keyed_def by (simp add: image_iff) metis
  show "same_keys w w' \<Longrightarrow> keyed c w \<Longrightarrow> keyed c w'" unfolding k same_keys_def by simp
qed

lemma keyed_row: "keyed c w \<Longrightarrow> cluster_wf w \<Longrightarrow> r \<in> set (clusters w) \<Longrightarrow> clID r = clID c \<longleftrightarrow> clClusterID r = clClusterID c"
  unfolding keyed_def using cluster_wf_ids cluster_wf_cluster_ids by metis

lemma keyed_id: "keyed c w \<Longrightarrow> cluster_wf w \<Longrightarrow> clID c \<noteq> []"
  by (auto simp: keyed_def cluster_wf_def)

lemma cluster_UpdateStatus_tidy:
  "cluster_wf w \<Longrightarrow> clID c \<noteq> [] \<Longrightarrow> known_status s \<Longrightarrow> tidy (clID c) w (snd (cluster_UpdateStatus now c s w))"
proof -
  assume a: "cluster_wf w" "clID c \<noteq> []" "known_status s"
  have "tidy (clID c) w (snd (update_clusters (\<lambda>r. clID r = clID c) (set_cluster_status now s) w))"
    using a by (intro update_clusters_tidy) (auto simp: set_cluster_status_def)
  then show ?thesis using a by (auto simp: cluster_UpdateStatus_def tidy_same split: prod.splits sum.splits)
qed

lemma cluster_Update_tidy:
  "cluster_wf w \<Longrightarrow> keyed c w \<Longrightarrow> known_status (clStatus c) \<Longrightarrow> tidy (clID c) w (snd (cluster_Update now c w))"
proof -
  assume a: "cluster_wf w" "keyed c w" "known_status (clStatus c)"
  have "tidy (clID c) w (snd (update_clusters (\<lambda>r. clID r = clID c) (assign_cluster now c) w))"
    using a keyed_row [OF a(2,1)] by (intro update_clusters_tidy) (auto simp: assign_cluster_def nz_def cluster_wf_def)
  then show ?thesis using a by (auto simp: cluster_Update_def tidy_same split: prod.splits sum.splits)
qed

lemma GetClusterDNS_tidy:
  assumes "cluster_wf w" "keyed c w"
  shows "tidy (clID c) w (snd (GetClusterDNS pf now (clClusterID c) w))"
proof -
  obtain x w1 where x: "FindClusterByID (clClusterID c) w = (x, w1)" by fastforce
  note f = FindClusterByID_listed [OF x]
  have t1: "tidy (clID c) w w1" using tidy_same [OF assms(1)] f by simp
  have wf1: "cluster_wf w1" using cluster_wf_same assms(1) f by blast
  have "tidy (clID c) w w2" if r: "x = Inr (Some r)" and u: "cluster_Update now (r\<lparr>clClusterDNS := dns\<rparr>) w1 = (e, w2)" for r dns e w2
  proof -
    have r1: "r \<in> set (clusters w1)" "clID r = clID c" using f r keyed_row [OF assms(2,1), of r] by auto
    have "tidy (clID (r\<lparr>clClusterDNS := dns\<rparr>)) w1 (snd (cluster_Update now (r\<lparr>clClusterDNS := dns\<rparr>) w1))"
      using wf1 r1(1) by (intro cluster_Update_tidy) (auto simp: keyed_def cluster_wf_def)
    then show ?thesis using t1 tidy_trans r1(2) u by simp
  qed
  then show ?thesis using t1 unfolding GetClusterDNS_def x by (auto split: sum.splits option.splits prod.splits)
qed

subsection \<open>Handlers\<close>

definition listed :: "Cluster \<Rightarrow> world \<Rightarrow> bool" where
  "listed c w \<longleftrightarrow> c \<in> set (clusters w) \<and> cluster_live c"

lemma listed_facts: "listed c w \<Longrightarrow> cluster_wf w \<Longrightarrow> keyed c w \<and> clID c \<noteq> [] \<and> known_status (clStatus c)"
  by (auto simp: listed_def keyed_def cluster_wf_def)

lemma cluster_FindCluster_same: "clusters (snd (cluster_FindCluster cr w)) = clusters w \<and> centrals (snd (cluster_FindCluster cr w)) = centrals w"
  by (cases "first_cluster (criteria_match cr) w")
    (use first_cluster_found in \<open>fastforce simp: cluster_FindCluster_def split: sum.splits go_error.splits\<close>)

lemma FindNonEmptyClusterByID_same:
  "clusters (snd (FindNonEmptyClusterByID i w)) = clusters w \<and> centrals (snd (FindNonEmptyClusterByID i w)) = centrals w"
  unfolding FindNonEmptyClusterByID_def by (auto split: prod.splits sum.splits go_error.splits dest!: first_cluster_found)

lemma ListGroup_same:
  "clusters (snd (ListGroupByProviderAndRegion ps rs ss w)) = clusters w \<and> centrals (snd (ListGroupByProviderAndRegion ps rs ss w)) = centrals w"
  by (auto simp: ListGroupByProviderAndRegion_def find_clusters_unfold split: option.splits)

lemma remove_from_provider_tidy:
  "cluster_wf w \<Longrightarrow> clID c \<noteq> [] \<Longrightarrow> tidy (clID c) w (snd (remove_from_provider cm c w))"
  using cluster_UpdateStatus_tidy [of w c ClusterCleanup "cmNow cm"]
  by (auto simp: remove_from_provider_def tidy_same split: sum.splits bool.splits prod.splits option.splits)

lemma reconcileDeprovisioningCluster_tidy:
  assumes "cluster_wf w" "clID c \<noteq> []"
  shows "tidy (clID c) w (snd (reconcileDeprovisioningCluster cm c w))"
proof -
  define cr where "cr = \<lparr>fcProvider = clCloudProvider c, fcRegion = clRegion c, fcMultiAZ = clMultiAZ c, fcStatus = ClusterReady\<rparr>"
  obtain x w1 where x: "cluster_FindCluster cr w = (x, w1)" by fastforce
  then have t: "tidy (clID c) w w1" and wf: "cluster_wf w1"
    using cluster_FindCluster_same [of cr w] tidy_same cluster_wf_same assms(1) by (metis snd_conv)+
  note steps = tidy_trans [OF t remove_from_provider_tidy [OF wf assms(2), of cm]]
    tidy_trans [OF t cluster_UpdateStatus_tidy [OF wf assms(2) known_statuses(1), of "cmNow cm"]]
  show ?thesis using t steps remove_from_provider_tidy [OF assms, of cm]
    unfolding reconcileDeprovisioningCluster_def cr_def [symmetric] x by (auto split: sum.splits option.splits prod.splits)
qed

lemma reconcileCleanupCluster_tidy:
  assumes "cluster_wf w" "keyed c w"
  shows "tidy (clID c) w (snd (reconcileCleanupCluster cm c w))"
proof -
  have "tidy (clID c) w (snd (update_clusters (\<lambda>r. clClusterID r = clClusterID c) (\<lambda>r. r\<lparr>clDeletedAt := Some (cmNow cm)\<rparr>) w))"
    using assms keyed_row [OF assms(2,1)] by (intro update_clusters_tidy) (auto simp: cluster_wf_def)
  then show ?thesis using tidy_same [OF assms(1)]
    by (auto simp: reconcileCleanupCluster_def DeleteByClusterID_def stmt_unfold split: prod.splits sum.splits option.splits)
qed

lemma reconcileClusterDNS_tidy:
  "cluster_wf w \<Longrightarrow> keyed c w \<Longrightarrow> tidy (clID c) w (snd (reconcileClusterDNS cm c w))"
  using GetClusterDNS_tidy [of w c "cmFactory cm" "cmNow cm"]
  by (auto simp: reconcileClusterDNS_def tidy_same split: prod.splits sum.splits option.splits)

lemma reconcileClusterInstanceType_tidy:
  assumes "cluster_wf w" "keyed c w" "known_status (clStatus c)"
  shows "tidy (clID c) w (snd (reconcileClusterInstanceType cm c w))"
proof -
  have "tidy (clID (c\<lparr>clSupportedInstanceType := t\<rparr>)) w (snd (cluster_Update (cmNow cm) (c\<lparr>clSupportedInstanceType := t\<rparr>) w))" for t
    using assms by (intro cluster_Update_tidy) (simp_all add: keyed_def)
  then have "tidy (clID c) w w1" if "cluster_Update (cmNow cm) (c\<lparr>clSupportedInstanceType := t\<rparr>) w = (e, w1)" for t e w1
    using that by (metis (no_types) Cluster.select_convs(1) Cluster.surjective Cluster.update_convs(18) snd_conv)
  then show ?thesis using tidy_same [OF assms(1)]
    by (auto simp: reconcileClusterInstanceType_def split: prod.splits option.splits)
qed

lemma reconcileReadyCluster_tidy:
  assumes "cluster_wf w" "keyed c w" "known_status (clStatus c)"
  shows "tidy (clID c) w (snd (reconcileReadyCluster cm c w))"
proof -
  obtain e w1 where e: "reconcileClusterInstanceType cm c w = (e, w1)" by fastforce
  then have t: "tidy (clID c) w w1" using reconcileClusterInstanceType_tidy [OF assms, of cm] by simp
  then have "keyed c w1" "cluster_wf w1" using keyed_keys tidy_wf assms(1,2) unfolding tidy_def by blast+
  then have "tidy (clID c) w (snd (reconcileClusterDNS cm c w1))" using t tidy_trans reconcileClusterDNS_tidy by blast
  then show ?thesis using t tidy_same [OF assms(1)] unfolding reconcileReadyCluster_def e
    by (auto split: prod.splits option.splits)
qed

lemma reconcileEmptyCluster_tidy:
  assumes "cluster_wf w" "clID c \<noteq> []"
  shows "tidy (clID c) w (snd (reconcileEmptyCluster cm c w))"
proof -
  obtain x w1 where x: "FindNonEmptyClusterByID (clClusterID c) w = (x, w1)" by fastforce
  obtain y w2 where y: "ListGroupByProviderAndRegion [clCloudProvider c] [clRegion c] [ClusterReady] w1 = (y, w2)" by fastforce
  have s: "clusters w1 = clusters w" "centrals w1 = centrals w" "clusters w2 = clusters w" "centrals w2 = centrals w"
    using FindNonEmptyClusterByID_same [of "clClusterID c" w] ListGroup_same [of "[clCloudProvider c]" "[clRegion c]" "[ClusterReady]" w1] x y by auto
  have t: "tidy (clID c) w w1" "tidy (clID c) w w2" "cluster_wf w2" using tidy_same [OF assms(1)] cluster_wf_same assms(1) s by blast+
  show ?thesis using t tidy_trans [OF t(2) cluster_UpdateStatus_tidy [OF t(3) assms(2) known_statuses(2), of "cmNow cm"]]
    unfolding reconcileEmptyCluster_def x prod.case by (auto simp: y split: prod.splits option.splits sum.splits list.splits)
qed

lemma reconcileAddonOperator_tidy:
  "cluster_wf w \<Longrightarrow> clID c \<noteq> [] \<Longrightarrow> tidy (clID c) w (snd (reconcileAddonOperator cm c w))"
  using cluster_UpdateStatus_tidy [of w c ClusterWaitingForFleetShardOperator "cmNow cm"]
  by (auto simp: reconcileAddonOperator_def split: prod.splits option.splits)

lemma reconcileProvisionedCluster_tidy:
  assumes "cluster_wf w" "keyed c w"
  shows "tidy (clID c) w (snd (reconcileProvisionedCluster cm c w))"
proof -
  obtain e w1 where e: "reconcileClusterDNS cm c w = (e, w1)" by fastforce
  then have t: "tidy (clID c) w w1" using reconcileClusterDNS_tidy [OF assms, of cm] by simp
  then have "tidy (clID c) w (snd (reconcileAddonOperator cm c w1))"
    using tidy_trans reconcileAddonOperator_tidy tidy_wf assms keyed_id by blast
  then show ?thesis using t unfolding reconcileProvisionedCluster_def e by (auto split: prod.splits option.splits)
qed

lemma handle_ready_cluster_tidy:
  assumes "cluster_wf w" "keyed c w" "known_status (clStatus c)"
  shows "tidy (clID c) w (snd (handle_ready_cluster cm c w))"
proof -
  obtain b e w1 where r: "(if IsDataPlaneAutoScalingEnabled cm then reconcileEmptyCluster cm c w else ((False, None), w)) = ((b, e), w1)"
    by (metis prod.exhaust)
  then have t: "tidy (clID c) w w1"
    using reconcileEmptyCluster_tidy [OF assms(1) keyed_id [OF assms(2,1)], of cm] tidy_same [OF assms(1)] by (auto split: if_splits)
  then have "keyed c w1" "cluster_wf w1" using keyed_keys tidy_wf assms(1,2) unfolding tidy_def by blast+
  then have "tidy (clID c) w (snd (reconcileReadyCluster cm c w1))" using t tidy_trans reconcileReadyCluster_tidy assms(3) by blast
  then show ?thesis using t unfolding handle_ready_cluster_def r by (auto split: option.splits bool.splits)
qed

definition honest_providers :: "'v cluster_mgr_env \<Rightarrow> bool" where
  "honest_providers cm \<longleftrightarrow> (\<forall>t p. cmFactory cm t = Inr p \<longrightarrow>
     (\<forall>r s. prCreate p r = Inr s \<longrightarrow> known_status (csStatus s)) \<and> (\<forall>x s. prCheckClusterStatus p x = Inr s \<longrightarrow> known_status (csStatus s)))"

lemma reconcileClusterStatus_tidy:
  assumes "honest_providers cm" "cluster_wf w" "keyed c w"
  shows "tidy (clID c) w (snd (reconcileClusterStatus cm c w))"
proof -
  have u: "tidy (clID c) w w'"
    if "cluster_Update now u w = (e, w')" "clID u = clID c" "clClusterID u = clClusterID c" "known_status (clStatus u)" for u now e w'
    using cluster_Update_tidy [OF assms(2), of u now] assms(3) that by (simp add: keyed_def)
  have k: "known_status (csStatus s)" if "cmFactory cm t = Inr p" "prCheckClusterStatus p x = Inr s" for t p x s
    using assms(1) that unfolding honest_providers_def by blast
  show ?thesis using tidy_same [OF assms(2)] unfolding reconcileClusterStatus_def CheckClusterStatus_def
    by (auto simp: Let_def split: sum.splits prod.splits option.splits dest!: u dest: k)
qed

lemma save_cluster_row:
  assumes "cluster_wf w" "listed c0 w" "clID c = clID c0" "known_status (clStatus c)"
  shows "own_row {clID c} w (snd (save_cluster newID now c w)) \<and> cluster_wf (snd (save_cluster newID now c w))"
proof (cases "planned w = None \<and> \<not> list_ex (\<lambda>r. clID r \<noteq> clID c \<and> clClusterID r = clClusterID c) (clusters w)")
  case True
  define c' where "c' = c\<lparr>clUpdatedAt := now\<rparr>"
  define g where "g = (\<lambda>r. if cluster_live r \<and> clID r = clID c then c' else r)"
  have ne: "clID c \<noteq> []" "list_ex (\<lambda>r. cluster_live r \<and> clID r = clID c) (clusters w)"
    using assms(1-3) by (auto simp: listed_def list_ex_iff cluster_wf_def)
  then have w': "snd (save_cluster newID now c w) = (next_stmt w)\<lparr>clusters := map g (clusters w)\<rparr>"
    using True by (simp add: save_cluster_def stmt_unfold Let_def g_def c'_def)
  have k: "clID (g r) = clID r" for r by (simp add: g_def c'_def)
  have u: "\<And>r. r \<in> set (clusters w) \<Longrightarrow> clID r = clID c \<Longrightarrow> g r = c'"
    using assms(1-3) cluster_wf_ids unfolding listed_def g_def by metis
  have d: "distinct (clusters w)" "distinct (map clID (clusters w))" using assms(1) by (auto simp: cluster_wf_def distinct_map)
  have "r = s" if "r \<in> set (clusters w)" "s \<in> set (clusters w)" "clClusterID (g r) = clClusterID (g s)" for r s
  proof (cases "clID r = clID c \<or> clID s = clID c")
    case T: True
    have o: "clClusterID (g x) = clClusterID c \<longleftrightarrow> clID x = clID c" if "x \<in> set (clusters w)" for x
      using that u [of x] True by (auto simp: list_ex_iff g_def c'_def)
    then have "clID r = clID s" using T o [OF that(1)] o [OF that(2)] that(3) by metis
    then show ?thesis using cluster_wf_ids assms(1) that(1,2) by blast
  next
    case False
    then show ?thesis using that cluster_wf_cluster_ids [OF assms(1)] by (auto simp: g_def)
  qed
  then have "distinct (map (clClusterID \<circ> g) (clusters w))" using d(1) by (auto simp: distinct_map inj_on_def)
  then have "cluster_wf ((next_stmt w)\<lparr>clusters := map g (clusters w)\<rparr>)"
    using assms(1,4) ne(1) d(2) k by (auto simp: cluster_wf_def comp_def g_def c'_def)
  moreover have "own_row {clID c} w ((next_stmt w)\<lparr>clusters := map g (clusters w)\<rparr>)"
    by (auto simp: own_row_def list_all2_map2 g_def c'_def intro!: list.rel_refl_strong)
  ultimately show ?thesis by (simp add: w')
next
  case False
  have "clID c \<noteq> []" "list_ex (\<lambda>r. cluster_live r \<and> clID r = clID c) (clusters w)"
    using assms(1-3) by (auto simp: listed_def list_ex_iff cluster_wf_def)
  then have "clusters (snd (save_cluster newID now c w)) = clusters w \<and> centrals (snd (save_cluster newID now c w)) = centrals w"
    using False by (auto simp: save_cluster_def stmt_unfold Let_def split: option.splits)
  then show ?thesis using own_row_same cluster_wf_same assms(1) by blast
qed

lemma reconcileAcceptedCluster_row:
  assumes "honest_providers cm" "cluster_wf w" "listed c w"
  shows "own_row {clID c} w (snd (reconcileAcceptedCluster cm c w)) \<and> cluster_wf (snd (reconcileAcceptedCluster cm c w))"
proof -
  have s: "own_row {clID c} w w' \<and> cluster_wf w'"
    if "save_cluster i now u w = (e, w')" "clID u = clID c" "known_status (clStatus u)" for u i now e w'
    using save_cluster_row [OF assms(2,3), of u i now] that by simp
  have k: "known_status (csStatus x)" if "cmFactory cm t = Inr p" "prCreate p r = Inr x" for t p r x
    using assms(1) that unfolding honest_providers_def by blast
  show ?thesis using assms(2) unfolding reconcileAcceptedCluster_def cluster_Create_def
    by (auto simp: Let_def split: sum.splits prod.splits dest!: s dest: k)
qed

definition ids_in :: "string \<Rightarrow> world \<Rightarrow> string set" where
  "ids_in s w = clID ` {r. listed r w \<and> clStatus r = s}"

text \<open>The contract of a handler of one cluster: it changes the row of that cluster only and keeps the
  invariant. A loop over listed clusters then changes rows of listed clusters only.\<close>

locale cluster_handler =
  fixes f :: "Cluster \<Rightarrow> world \<Rightarrow> go_error option option \<times> world"
  assumes handles: "cluster_wf w \<Longrightarrow> listed c w \<Longrightarrow> own_row {clID c} w (snd (f c w)) \<and> cluster_wf (snd (f c w))"
begin

lemma each_rows:
  "cluster_wf w \<Longrightarrow> \<forall>c\<in>set cs. listed c w \<Longrightarrow> distinct (map clID cs) \<Longrightarrow>
   own_row (clID ` set cs) w (snd (reconcile_each f cs w)) \<and> cluster_wf (snd (reconcile_each f cs w))"
proof (induction cs arbitrary: w)
  case Nil
  then show ?case by simp
next
  case (Cons c cs)
  obtain e w1 where e: "f c w = (e, w1)" by fastforce
  then have o: "own_row {clID c} w w1" and wf: "cluster_wf w1" using handles [of w c] Cons.prems(1,2) by auto
  show ?case
  proof (cases e)
    case None
    have "own_row (clID ` set (c # cs)) w w1" using own_row_trans [OF o own_row_refl, of "clID ` set cs"] by simp
    then show ?thesis using None e wf by simp
  next
    case (Some x)
    have "\<forall>d\<in>set cs. listed d w1" using Cons.prems(2,3) own_row_keeps [OF o] unfolding listed_def by (simp add: image_iff) metis
    then have r: "own_row (clID ` set cs) w1 (snd (reconcile_each f cs w1))" "cluster_wf (snd (reconcile_each f cs w1))"
      using Cons.IH [OF wf] Cons.prems(3) by auto
    have "own_row (clID ` set (c # cs)) w (snd (reconcile_each f cs w1))" using own_row_trans [OF o r(1)] by simp
    then show ?thesis using Some e r(2) by (auto split: prod.splits option.splits)
  qed
qed

lemma listed_rows:
  assumes "cluster_wf w" "cluster_ListByStatus s w = (x, w1)"
  shows "own_row (ids_in s w) w (snd (case x of Inl e \<Rightarrow> (a e, w1) | Inr cs \<Rightarrow> reconcile_each f cs w1)) \<and>
    cluster_wf (snd (case x of Inl e \<Rightarrow> (a e, w1) | Inr cs \<Rightarrow> reconcile_each f cs w1))"
proof -
  have c: "clusters w1 = clusters w" "centrals w1 = centrals w"
    using assms(2) by (auto simp: cluster_ListByStatus_def find_clusters_unfold split: if_splits option.splits)
  have wf: "cluster_wf w1" using cluster_wf_same [OF c(1) assms(1)] .
  show ?thesis
  proof (cases x)
    case (Inl e)
    then show ?thesis using own_row_same [OF c] wf by simp
  next
    case (Inr cs)
    then have cs: "cs = filter (\<lambda>r. cluster_live r \<and> clStatus r = s) (clusters w)"
      using assms(2) by (auto simp: cluster_ListByStatus_def find_clusters_unfold split: if_splits option.splits)
    have "distinct (map clID cs)" using assms(1) unfolding cs cluster_wf_def by (simp add: distinct_map_filter)
    then have "own_row (clID ` set cs) w1 (snd (reconcile_each f cs w1))" "cluster_wf (snd (reconcile_each f cs w1))"
      using each_rows [OF wf, of cs] by (auto simp: cs listed_def c)
    moreover have "clID ` set cs = ids_in s w" by (auto simp: cs listed_def ids_in_def)
    ultimately show ?thesis using own_row_trans [OF own_row_same [OF c, of "{}"]] Inr by simp
  qed
qed

end

lemma wrapped_cluster_world [simp]: "snd (wrap_error m r) = snd r"
  by (auto simp: wrap_error_def split: prod.splits option.splits)

lemma lift_handler_world [simp]: "snd (lift_handler f c w) = snd (f c w)"
  by (simp add: lift_handler_def split: prod.splits)

lemma tidy_row: "tidy (clID c) w w' \<Longrightarrow> cluster_wf w \<Longrightarrow> own_row {clID c} w w' \<and> cluster_wf w'"
  using tidy_wf by (auto simp: tidy_def)

interpretation deprovisioning: cluster_handler
  "\<lambda>c w. wrap_error (''failed to reconcile deprovisioning cluster '' @ clID c) (lift_handler (reconcileDeprovisioningCluster cm) c w)" for cm
  by unfold_locales (simp only: wrapped_cluster_world lift_handler_world, rule tidy_row, rule reconcileDeprovisioningCluster_tidy, simp_all add: listed_facts)

interpretation cleanup: cluster_handler
  "\<lambda>c w. wrap_error (''failed to reconcile cleanup cluster '' @ clID c) (lift_handler (reconcileCleanupCluster cm) c w)" for cm
  by unfold_locales (simp only: wrapped_cluster_world lift_handler_world, rule tidy_row, rule reconcileCleanupCluster_tidy, simp_all add: listed_facts)

interpretation provisioned: cluster_handler
  "\<lambda>c w. wrap_error (''failed to reconcile provisioned cluster '' @ clClusterID c) (reconcileProvisionedCluster cm c w)" for cm
  by unfold_locales (simp only: wrapped_cluster_world lift_handler_world, rule tidy_row, rule reconcileProvisionedCluster_tidy, simp_all add: listed_facts)

interpretation ready: cluster_handler
  "\<lambda>c w. wrap_error (''failed to reconcile ready cluster '' @ clClusterID c) (handle_ready_cluster cm c w)" for cm
  by unfold_locales (simp only: wrapped_cluster_world lift_handler_world, rule tidy_row, rule handle_ready_cluster_tidy, simp_all add: listed_facts)

lemma accepted_handler:
  "honest_providers cm \<Longrightarrow> cluster_handler
    (\<lambda>c w. wrap_error (''failed to reconcile accepted cluster '' @ clID c) (lift_handler (reconcileAcceptedCluster cm) c w))"
  by unfold_locales (simp add: reconcileAcceptedCluster_row)

lemma provisioning_handler:
  "honest_providers cm \<Longrightarrow> cluster_handler (\<lambda>c w. wrap_error (''failed to reconcile cluster '' @ clClusterID c @ '' status'')
    (case reconcileClusterStatus cm c w of (Inl e, w1) \<Rightarrow> (Some (Some e), w1) | (Inr _, w1) \<Rightarrow> (Some None, w1)))"
proof unfold_locales
  fix w c assume a: "honest_providers cm" "cluster_wf w" "listed c w"
  let ?w = "snd (wrap_error (''failed to reconcile cluster '' @ clClusterID c @ '' status'')
    (case reconcileClusterStatus cm c w of (Inl e, w1) \<Rightarrow> (Some (Some e), w1) | (Inr _, w1) \<Rightarrow> (Some None, w1)))"
  have "?w = snd (reconcileClusterStatus cm c w)" by (simp split: prod.splits sum.splits)
  then show "own_row {clID c} w ?w \<and> cluster_wf ?w"
    using tidy_row [OF reconcileClusterStatus_tidy [OF a(1,2)] a(2)] listed_facts [OF a(3,2)] by metis
qed

end
