(* ===== verification/Cluster_Correct.thy ===== *)
theory Cluster_Correct
  imports Cluster_Contracts
begin

text \<open>
  Properties of the cluster worker and of the reports of agents: the invariant of the table of clusters over
  any run, what automatic scaling guarantees to regions and tenants, and what the reconciliation with
  the configured clusters makes of the table.
\<close>

subsection \<open>Growing tables\<close>

definition grows :: "world \<Rightarrow> world \<Rightarrow> bool" where
  "grows w w' \<longleftrightarrow> centrals w' = centrals w \<and> (\<exists>cs. clusters w' = clusters w @ cs)"

lemma grows_same: "clusters w' = clusters w \<Longrightarrow> centrals w' = centrals w \<Longrightarrow> grows w w'"
  by (simp add: grows_def)

lemma grows_trans: "grows w w1 \<Longrightarrow> grows w1 w2 \<Longrightarrow> grows w w2"
  by (auto simp: grows_def)

lemma RegisterClusterJob_grows:
  assumes "cluster_wf w" "newID \<noteq> []" "clID c = []" "clStatus c = [] \<or> known_status (clStatus c)"
  shows "grows w (snd (RegisterClusterJob newID now c w)) \<and> cluster_wf (snd (RegisterClusterJob newID now c w))"
proof -
  define c' where "c' = (cluster_BeforeCreate newID c)\<lparr>clCreatedAt := nzi (clCreatedAt c) now, clUpdatedAt := now\<rparr>"
  have k: "clID c' = newID" "known_status (clStatus c')" using assms(3,4) by (auto simp: c'_def cluster_BeforeCreate_def)
  have r: "snd (RegisterClusterJob newID now c w) = snd (save_cluster newID now c w)"
    by (simp add: RegisterClusterJob_def split: prod.splits sum.splits)
  show ?thesis
  proof (cases "planned w = None \<and> \<not> list_ex (\<lambda>r. clID r = clID c' \<or> clClusterID r = clClusterID c') (clusters w)")
    case True
    then have "snd (save_cluster newID now c w) = (next_stmt w)\<lparr>clusters := clusters w @ [c']\<rparr>"
      using assms(3) by (simp add: save_cluster_def stmt_unfold Let_def c'_def)
    moreover have "cluster_wf ((next_stmt w)\<lparr>clusters := clusters w @ [c']\<rparr>)"
      using True assms(1,2) k by (auto simp: cluster_wf_def list_ex_iff)
    ultimately show ?thesis by (simp add: r grows_def)
  next
    case False
    then have "clusters (snd (save_cluster newID now c w)) = clusters w" "centrals (snd (save_cluster newID now c w)) = centrals w"
      using assms(3) by (auto simp: save_cluster_def stmt_unfold Let_def c'_def split: option.splits)
    then show ?thesis using grows_same cluster_wf_same [OF _ assms(1)] by (simp add: r)
  qed
qed

lemma until_error_keeps:
  assumes "\<And>k w. k \<in> set ks \<Longrightarrow> I w \<Longrightarrow> I (snd (f k w)) \<and> R w (snd (f k w))" "\<And>w. I w \<Longrightarrow> R w w"
    "\<And>u v w. R u v \<Longrightarrow> R v w \<Longrightarrow> R u w" "I w"
  shows "I (snd (until_error f ks w)) \<and> R w (snd (until_error f ks w))"
  using assms(1,4)
proof (induction ks arbitrary: w)
  case Nil
  then show ?case using assms(2) by simp
next
  case (Cons k ks)
  obtain e w1 where e: "f k w = (e, w1)" by fastforce
  then have i: "I w1" "R w w1" using Cons.prems(1) [of k w] Cons.prems(2) by auto
  then have "I (snd (until_error f ks w1)) \<and> R w1 (snd (until_error f ks w1))" using Cons.IH Cons.prems(1) by simp
  then show ?case using e i assms(3) by (auto split: option.splits)
qed

definition fresh_ids :: "'v cluster_mgr_env \<Rightarrow> bool" where
  "fresh_ids cm \<longleftrightarrow> (\<forall>w. cmNewID cm w \<noteq> [])"

lemma reconcileClustersForRegions_grows:
  assumes "cluster_wf w" "fresh_ids cm"
  shows "grows w (snd (reconcileClustersForRegions cm w)) \<and> cluster_wf (snd (reconcileClustersForRegions cm w))"
proof (cases "IsDataPlaneAutoScalingEnabled cm")
  case True
  define ps where "ps = cmSupportedProviders cm"
  obtain x w1 where x: "ListGroupByProviderAndRegion (map pvName ps) (concat (map (\<lambda>p. map rgName (pvRegions p)) ps)) StatusForValidCluster w = (x, w1)"
    by fastforce
  have s: "clusters w1 = clusters w" "centrals w1 = centrals w"
    using ListGroup_same [of "map pvName ps" "concat (map (\<lambda>p. map rgName (pvRegions p)) ps)" StatusForValidCluster w] x by auto
  have step: "cluster_wf (snd (register_region cm g pv v)) \<and> grows v (snd (register_region cm g pv v))" if "cluster_wf v" for g pv v
    using RegisterClusterJob_grows [OF that, of "cmNewID cm v" "region_request (fst pv) (snd pv)" "cmNow cm"] assms(2) that
    by (auto simp: register_region_def fresh_ids_def region_request_def empty_cluster_def grows_same split: prod.splits option.splits)
  have "cluster_wf (snd (until_error (register_region cm g) pvs w1)) \<and> grows w1 (snd (until_error (register_region cm g) pvs w1))" for g pvs
    by (rule until_error_keeps [where I = cluster_wf and R = grows, OF _ _ _ cluster_wf_same [OF s(1) assms(1)]])
      (use step grows_same grows_trans in blast)+
  moreover have g: "grows w w1" using grows_same s by blast
  ultimately have "cluster_wf w2 \<and> grows w w2" if "until_error (register_region cm g) pvs w1 = (e, w2)" for g pvs e w2
    using that grows_trans [OF g] by (metis snd_conv)
  then show ?thesis using True g cluster_wf_same [OF s(1) assms(1)]
    unfolding reconcileClustersForRegions_def Let_def ps_def [symmetric] x
    by (auto split: sum.splits prod.splits option.splits)
next
  case False
  then show ?thesis using assms(1) by (simp add: reconcileClustersForRegions_def grows_same)
qed

subsection \<open>The configured clusters keep the invariant\<close>

definition config_known :: "'v cluster_mgr_env \<Rightarrow> bool" where
  "config_known cm \<longleftrightarrow> list_all (\<lambda>p. known_status (mcStatus p)) (clusterList (cmClusterConfig cm))"

definition keeps :: "world \<Rightarrow> world \<Rightarrow> bool" where
  "keeps w w' \<longleftrightarrow> centrals w' = centrals w \<and> cluster_wf w'"

lemma keeps_same: "cluster_wf w \<Longrightarrow> clusters w' = clusters w \<Longrightarrow> centrals w' = centrals w \<Longrightarrow> keeps w w'"
  by (simp add: keeps_def cluster_wf_def)

lemma keeps_trans: "keeps w w1 \<Longrightarrow> keeps w1 w2 \<Longrightarrow> keeps w w2"
  by (simp add: keeps_def)

lemma keeps_tidy: "cluster_wf w \<Longrightarrow> tidy i w w' \<Longrightarrow> keeps w w'"
  using tidy_wf by (auto simp: keeps_def tidy_def own_row_def)

lemma SetAvailable_keys:
  "SetAvailableCentralOperatorVersions lib vs c = Inr n \<Longrightarrow> \<exists>v. n = c\<lparr>clAvailableCentralOperatorVersions := v\<rparr>"
  by (auto simp: SetAvailableCentralOperatorVersions_def split: sum.splits)

lemma until_error_wf:
  assumes "\<And>k w. k \<in> set ks \<Longrightarrow> cluster_wf w \<Longrightarrow> keeps w (snd (f k w))" "cluster_wf w"
  shows "keeps w (snd (until_error f ks w))"
  using until_error_keeps [where I = cluster_wf and R = keeps and w = w and ks = ks and f = f] assms keeps_same keeps_trans
  by (auto simp: keeps_def)

lemma register_manual_keeps:
  assumes "fresh_ids cm" "known_status (mcStatus p)" "cluster_wf w"
  shows "keeps w (snd (register_manual cm p w))"
proof -
  have r: "keeps w w'" if "RegisterClusterJob (cmNewID cm w) (cmNow cm) c w = (e, w')" "clID c = []" "clStatus c = mcStatus p" for c e w'
    using RegisterClusterJob_grows [OF assms(3), of "cmNewID cm w" c "cmNow cm"] assms(1,2) that by (auto simp: fresh_ids_def keeps_def grows_def)
  have k: "clID (manual_request p) = []" "clStatus (manual_request p) = mcStatus p" by (simp_all add: manual_request_def empty_cluster_def)
  show ?thesis using k keeps_same [OF assms(3)] unfolding register_manual_def
    by (auto split: sum.splits prod.splits option.splits if_splits dest!: r SetAvailable_keys)
qed

lemma update_manual_keeps:
  assumes "known_status (mcStatus p)" "cluster_wf w"
  shows "keeps w (snd (update_manual cm p w))"
proof -
  obtain x w1 where x: "FindClusterByID (mcClusterID p) w = (x, w1)" by fastforce
  note f = FindClusterByID_listed [OF x]
  have wf: "cluster_wf w1" and s: "keeps w w1" using cluster_wf_same keeps_same f assms(2) by blast+
  have u: "keeps w w2" if "cluster_Updates now n (manual_columns n) w1 = (e, w2)" "clID n = clID c" "clStatus n = mcStatus p" for n now e w2 c
  proof -
    have "tidy (clID c) w1 (snd (update_clusters (\<lambda>r. clID r = clID n) (\<lambda>r. (manual_columns n r)\<lparr>clUpdatedAt := now\<rparr>) w1))"
      using wf assms(1) that(2,3) by (intro update_clusters_tidy) (auto simp: manual_columns_def)
    then have "keeps w1 (snd (update_clusters (\<lambda>r. clID r = clID n) (\<lambda>r. (manual_columns n r)\<lparr>clUpdatedAt := now\<rparr>) w1))"
      using keeps_tidy [OF wf] by blast
    then show ?thesis using that(1) s keeps_trans by (auto simp: cluster_Updates_def split: if_splits prod.splits sum.splits)
  qed
  have "clID (with_manual p c) = clID c" "clStatus (with_manual p c) = mcStatus p" for c by (simp_all add: with_manual_def)
  then show ?thesis using s unfolding update_manual_def x
    by (auto split: sum.splits prod.splits option.splits if_splits dest!: SetAvailable_keys u)
qed

lemma deprovision_excess_keeps:
  assumes "cluster_wf w"
  shows "keeps w (snd (deprovision_excess cm ids w))"
proof -
  obtain x w1 where x: "FindDinosaurInstanceCount ids w = (x, w1)" by fastforce
  then have c: "clusters w1 = clusters w" "centrals w1 = centrals w"
    by (auto simp: FindDinosaurInstanceCount_def find_centrals_unfold split: option.splits)
  then have wf: "cluster_wf w1" using cluster_wf_same assms by blast
  have m: "map clID (map (\<lambda>r. if cluster_live r \<and> P r then set_cluster_status n s r else r) cs) = map clID cs"
    "map clClusterID (map (\<lambda>r. if cluster_live r \<and> P r then set_cluster_status n s r else r) cs) = map clClusterID cs" for P n s cs
    by (simp_all add: set_cluster_status_def comp_def)
  have "keeps w w2" if "UpdateMultiClusterStatus now is ClusterDeprovisioning w1 = (e, w2)" for now "is" e w2
    using that wf c by (auto simp: UpdateMultiClusterStatus_def update_clusters_unfold keeps_def cluster_wf_def m set_cluster_status_def
        simp del: map_map split: if_splits option.splits)
  then show ?thesis using keeps_same [OF assms] c unfolding deprovision_excess_def x by (auto simp: Let_def split: sum.splits prod.splits option.splits)
qed

lemma reconcileClusterWithManualConfig_keeps:
  assumes "fresh_ids cm" "config_known cm" "cluster_wf w"
  shows "keeps w (snd (reconcileClusterWithManualConfig cm w))"
proof (cases "IsDataPlaneManualScalingEnabled cm")
  case True
  obtain x w1 where x: "ListAllClusterIds w = (x, w1)" by fastforce
  then have s: "keeps w w1" using keeps_same [OF assms(3)] by (auto simp: ListAllClusterIds_def find_clusters_unfold split: option.splits)
  have wf: "cluster_wf w1" using s by (simp add: keeps_def)
  have k: "known_status (mcStatus p)" if "p \<in> set (MissingClusters (cmClusterConfig cm) m) \<union> set (ExistingClusters (cmClusterConfig cm) m)" for p m
    using assms(2) that by (auto simp: config_known_def list_all_iff MissingClusters_def ExistingClusters_def)
  have reg: "keeps w w2 \<and> cluster_wf w2"
    if "until_error (lift_handler (register_manual cm)) (MissingClusters (cmClusterConfig cm) m) w1 = (e, w2)" for m e w2
  proof -
    have "keeps v (snd (lift_handler (register_manual cm) p v))" if "p \<in> set (MissingClusters (cmClusterConfig cm) m)" "cluster_wf v" for p v
      using register_manual_keeps [OF assms(1) k [OF UnI1, OF that(1)] that(2)] by simp
    from until_error_wf [of "MissingClusters (cmClusterConfig cm) m" "lift_handler (register_manual cm)", OF this wf] have "keeps w1 w2" using that by simp
    then show ?thesis using keeps_trans [OF s] by (simp add: keeps_def)
  qed
  have upd: "keeps v w3 \<and> cluster_wf w3" if "until_error (update_manual cm) (ExistingClusters (cmClusterConfig cm) m) v = (e, w3)" "cluster_wf v" for m e v w3
  proof -
    have "keeps u (snd (update_manual cm p u))" if "p \<in> set (ExistingClusters (cmClusterConfig cm) m)" "cluster_wf u" for p u
      using update_manual_keeps [OF k [OF UnI2, OF that(1)] that(2)] .
    from until_error_wf [of "ExistingClusters (cmClusterConfig cm) m" "update_manual cm", OF this that(2)] show ?thesis
      using that(1) by (simp add: keeps_def)
  qed
  have exc: "keeps v w4" if "deprovision_excess cm ids v = (es, w4)" "cluster_wf v" for ids v es w4
    using deprovision_excess_keeps [OF that(2), of cm ids] that(1) by simp
  show ?thesis using True s unfolding reconcileClusterWithManualConfig_def x
    by (auto simp: Let_def split: sum.splits prod.splits option.splits dest!: reg dest: upd exc) (metis exc keeps_trans reg upd)+
next
  case False
  then show ?thesis using keeps_same assms(3) by (simp add: reconcileClusterWithManualConfig_def)
qed

subsection \<open>The invariant\<close>

lemma external_ids_same: "clusters (snd (external_ids cs w)) = clusters w \<and> centrals (snd (external_ids cs w)) = centrals w"
proof (induction cs w rule: external_ids.induct)
  case (2 i n cs w)
  obtain x w1 where x: "FindClusterByID i w = (x, w1)" by fastforce
  note f = FindClusterByID_listed [OF x]
  have g: "snd (GetExternalID i w) = w1" using x by (auto simp: GetExternalID_def split: sum.splits option.splits)
  show ?case
  proof (cases "GetExternalID i w")
    case (Pair y w2)
    then have "w2 = w1" using g by simp
    then show ?thesis using 2 Pair f by (cases y) auto
  qed
qed simp

lemma processMetrics_same: "clusters (snd (processMetrics w)) = clusters w \<and> centrals (snd (processMetrics w)) = centrals w"
proof -
  have a: "clusters w1 = clusters w \<and> centrals w1 = centrals w" if "setClusterStatusCountMetrics w = (x, w1)" for x w1
    using that by (auto simp: setClusterStatusCountMetrics_def cluster_CountByStatus_def find_clusters_unfold split: option.splits)
  have b: "clusters w2 = clusters w1 \<and> centrals w2 = centrals w1" if "setDinosaurPerClusterCountMetrics w1 = (y, w2)" for y w1 w2
  proof -
    obtain z v where z: "FindDinosaurInstanceCount [] w1 = (z, v)" by fastforce
    then have "clusters v = clusters w1" "centrals v = centrals w1"
      by (auto simp: FindDinosaurInstanceCount_def find_centrals_unfold split: option.splits)
    then show ?thesis using that external_ids_same [of _ v] unfolding setDinosaurPerClusterCountMetrics_def z
      by (cases z) (auto, metis snd_conv, metis snd_conv)
  qed
  show ?thesis unfolding processMetrics_def by (auto split: prod.splits option.splits dest!: a b)
qed

lemma processDeprovisioning_rows:
  assumes "cluster_wf w"
  shows "own_row (ids_in ClusterDeprovisioning w) w (snd (processDeprovisioningClusters cm w)) \<and>
    cluster_wf (snd (processDeprovisioningClusters cm w))"
proof -
  obtain x w1 where "cluster_ListByStatus ClusterDeprovisioning w = (x, w1)" by fastforce
  from deprovisioning.listed_rows [OF assms this, of "\<lambda>e. Some [SvcErr e]" cm] show ?thesis
    using \<open>cluster_ListByStatus ClusterDeprovisioning w = (x, w1)\<close> by (cases x) (simp_all add: processDeprovisioningClusters_def)
qed

lemma reconcile_listed_rows:
  assumes "cluster_handler f" "cluster_wf w"
  shows "own_row (ids_in s w) w (snd (reconcile_listed (cluster_ListByStatus s) m f w)) \<and>
    cluster_wf (snd (reconcile_listed (cluster_ListByStatus s) m f w))"
proof -
  obtain x w1 where x: "cluster_ListByStatus s w = (x, w1)" by fastforce
  from cluster_handler.listed_rows [OF assms x, of "\<lambda>e. Some [Wrap m (SvcErr e)]"] show ?thesis
    using x by (cases x) (simp_all add: reconcile_listed_def)
qed

lemma processor_rows:
  assumes "cluster_wf w"
  shows "own_row (ids_in ClusterCleanup w) w (snd (processCleanupClusters cm w)) \<and> cluster_wf (snd (processCleanupClusters cm w))"
    "own_row (ids_in ClusterProvisioned w) w (snd (processProvisionedClusters cm w)) \<and> cluster_wf (snd (processProvisionedClusters cm w))"
    "own_row (ids_in ClusterReady w) w (snd (processReadyClusters cm w)) \<and> cluster_wf (snd (processReadyClusters cm w))"
    "honest_providers cm \<Longrightarrow>
      own_row (ids_in ClusterAccepted w) w (snd (processAcceptedClusters cm w)) \<and> cluster_wf (snd (processAcceptedClusters cm w))"
    "honest_providers cm \<Longrightarrow>
      own_row (ids_in ClusterProvisioning w) w (snd (processProvisioningClusters cm w)) \<and> cluster_wf (snd (processProvisioningClusters cm w))"
  unfolding processCleanupClusters_def processProvisionedClusters_def processReadyClusters_def processAcceptedClusters_def
    processProvisioningClusters_def
  by (rule reconcile_listed_rows [OF cleanup.cluster_handler_axioms assms] reconcile_listed_rows [OF provisioned.cluster_handler_axioms assms]
      reconcile_listed_rows [OF ready.cluster_handler_axioms assms] reconcile_listed_rows [OF accepted_handler assms]
      reconcile_listed_rows [OF provisioning_handler assms], assumption?)+

lemma run_processors_induct:
  assumes "\<And>p w. p \<in> set ps \<Longrightarrow> I w \<Longrightarrow> I (snd (p w))" "I w"
  shows "I (snd (run_processors ps w))"
  using assms
proof (induction ps arbitrary: w)
  case (Cons p ps)
  obtain e w1 where e: "p w = (e, w1)" by fastforce
  then have "I w1" using Cons.prems(1) [of p w] Cons.prems(2) by simp
  then have "I (snd (run_processors ps w1))" using Cons by simp
  then show ?case using e \<open>I w1\<close> by (auto split: option.splits prod.splits)
qed simp

definition good_env :: "'v cluster_mgr_env \<Rightarrow> bool" where
  "good_env cm \<longleftrightarrow> honest_providers cm \<and> fresh_ids cm \<and> config_known cm"

lemma cluster_Reconcile_wf:
  assumes "good_env cm" "cluster_wf w"
  shows "cluster_wf (snd (cluster_Reconcile cm w))"
  unfolding cluster_Reconcile_def
proof (rule run_processors_induct [where I = cluster_wf, OF _ assms(2)])
  fix p :: processor and w assume p: "p \<in> set (cluster_processors cm)" "cluster_wf w"
  have h: "honest_providers cm" "fresh_ids cm" "config_known cm" using assms(1) by (simp_all add: good_env_def)
  have "cluster_wf (snd (processMetrics w))" using processMetrics_same cluster_wf_same p(2) by blast
  then show "cluster_wf (snd (p w))"
    using p(1) reconcileClusterWithManualConfig_keeps [OF h(2,3) p(2)] reconcileClustersForRegions_grows [OF p(2) h(2)]
      processDeprovisioning_rows [OF p(2)] processor_rows(1-3) [OF p(2)] processor_rows(4,5) [OF p(2) h(1)]
    unfolding cluster_processors_def keeps_def by auto
qed

lemma GetClusterDNS_keeps:
  assumes "cluster_wf w"
  shows "cluster_wf (snd (GetClusterDNS pf now i w))"
proof -
  obtain x w1 where x: "FindClusterByID i w = (x, w1)" by fastforce
  note f = FindClusterByID_listed [OF x]
  show ?thesis
  proof (cases "\<exists>r. x = Inr (Some r)")
    case True
    then obtain r where "r \<in> set (clusters w)" "clClusterID r = i" using f by blast
    then have "tidy (clID r) w (snd (GetClusterDNS pf now (clClusterID r) w))"
      by (intro GetClusterDNS_tidy [OF assms]) (auto simp: keyed_def)
    then show ?thesis using tidy_wf assms \<open>clClusterID r = i\<close> by blast
  next
    case False
    then show ?thesis using f cluster_wf_same [OF _ assms] x by (auto simp: GetClusterDNS_def split: sum.splits option.splits)
  qed
qed

lemma store_versions_tidy:
  assumes "cluster_wf w" "listed c w" "store_versions lib now c st w = (x, w1)"
  shows "tidy (clID c) w w1" "\<And>c1. x = Inr c1 \<Longrightarrow> clID c1 = clID c"
proof -
  have u: "tidy (clID c) w w'" if "cluster_Update now (c\<lparr>clAvailableCentralOperatorVersions := v\<rparr>) w = (e, w')" for v e w'
    using cluster_Update_tidy [OF assms(1), of "c\<lparr>clAvailableCentralOperatorVersions := v\<rparr>" now] listed_facts [OF assms(2,1)] that
    by (simp add: keyed_def)
  have k: "\<exists>v. n = c\<lparr>clAvailableCentralOperatorVersions := v\<rparr>" if "SetAvailableCentralOperatorVersions lib vs c = Inr n" for vs n
    using SetAvailable_keys that .
  show "tidy (clID c) w w1"
  proof (cases "SetAvailableCentralOperatorVersions lib (dcAvailableDinosaurOperatorVersions st) c")
    case (Inr n)
    with k obtain v where "n = c\<lparr>clAvailableCentralOperatorVersions := v\<rparr>" by blast
    then show ?thesis using Inr assms(3) tidy_same [OF assms(1)]
      by (auto simp: store_versions_def split: sum.splits if_splits prod.splits option.splits dest: u)
  qed (use assms(3) tidy_same [OF assms(1)] in \<open>auto simp: store_versions_def split: sum.splits if_splits\<close>)
  show "clID c1 = clID c" if "x = Inr c1" for c1
  proof (cases "SetAvailableCentralOperatorVersions lib (dcAvailableDinosaurOperatorVersions st) c")
    case (Inr n)
    with k obtain v where "n = c\<lparr>clAvailableCentralOperatorVersions := v\<rparr>" by blast
    then show ?thesis using Inr assms(3) that
      by (auto simp: store_versions_def split: sum.splits if_splits prod.splits option.splits)
  qed (use assms(3) that in \<open>auto simp: store_versions_def split: sum.splits if_splits\<close>)
qed

lemma setClusterStatus_tidy:
  assumes "cluster_wf w" "listed c w"
  shows "tidy (clID c) w (snd (setClusterStatus lib now c st w))"
proof -
  obtain x w1 where x: "store_versions lib now c st w = (x, w1)" by fastforce
  note t = store_versions_tidy [OF assms x]
  have "tidy (clID c) w w2" if "x = Inr c1" "cluster_UpdateStatus now c1 ClusterReady w1 = (e, w2)" for c1 e w2
    using tidy_trans [OF t(1)] cluster_UpdateStatus_tidy [OF tidy_wf [OF t(1) assms(1)], of c1 ClusterReady now] t(2) [OF that(1)] that(2)
      listed_facts [OF assms(2,1)] by simp
  then show ?thesis using t(1) unfolding setClusterStatus_def x by (auto split: sum.splits prod.splits option.splits)
qed

lemma UpdateDataPlaneClusterStatus_tidy:
  assumes "cluster_wf w"
  shows "\<exists>i. tidy i w (snd (UpdateDataPlaneClusterStatus lib now cid st w))"
proof -
  obtain x w1 where x: "FindClusterByID cid w = (x, w1)" by fastforce
  note f = FindClusterByID_listed [OF x]
  have wf: "cluster_wf w1" and s: "\<And>i. tidy i w w1" using f cluster_wf_same tidy_same assms by blast+
  show ?thesis
  proof (cases "\<exists>c. x = Inr (Some c)")
    case True
    then obtain c where c: "x = Inr (Some c)" "listed c w1" using f by (auto simp: listed_def)
    have a: "tidy (clID c) w w2" if "cluster_UpdateStatus now c ClusterWaitingForFleetShardOperator w1 = (e, w2)" for e w2
      using tidy_trans [OF s] cluster_UpdateStatus_tidy [OF wf _ known_statuses(4), of c now] listed_facts [OF c(2) wf] that by simp
    have b: "tidy (clID c) w w2" if "setClusterStatus lib now c st w1 = (e, w2)" for e w2
      using tidy_trans [OF s] setClusterStatus_tidy [OF wf c(2), of lib now st] that by simp
    have "tidy (clID c) w (snd (UpdateDataPlaneClusterStatus lib now cid st w))"
      using s [of "clID c"] unfolding UpdateDataPlaneClusterStatus_def x c(1)
      by (auto split: sum.splits prod.splits option.splits bool.splits dest: a b)
    then show ?thesis by blast
  next
    case False
    then show ?thesis using s x by (auto simp: UpdateDataPlaneClusterStatus_def split: sum.splits option.splits)
  qed
qed

text \<open>Everything that touches the table of clusters: rounds of the worker, reports of agents, the DNS name
  that accepting a tenant looks up and stores, and whatever leaves the table alone.\<close>

inductive cluster_step :: "world \<Rightarrow> world \<Rightarrow> bool" where
  worker: "good_env (cm :: string cluster_mgr_env) \<Longrightarrow> cluster_step w (snd (cluster_Reconcile cm w))"
| report: "cluster_step w (snd (UpdateDataPlaneClusterStatus (lib :: string semver_lib) now i st w))"
| dns: "cluster_step w (snd (GetClusterDNS pf now i w))"
| elsewhere: "clusters w' = clusters w \<Longrightarrow> cluster_step w w'"


definition auto_env :: "string cluster_mgr_env" where
  "auto_env = \<lparr>cmNow = 100, cmFactory = (\<lambda>_. Inl (GoErr ''no provider'')), cmScalingType = AutoScaling, cmClusterConfig = NewClusterConfig [],
     cmReconcileReady = True, cmSupportedProviders = [], cmNewID = (\<lambda>_. ''new''), cmSemver = sample_semver\<rparr>"

definition ready_cluster :: "string \<Rightarrow> Cluster" where
  "ready_cluster i = empty_cluster\<lparr>clID := i, clClusterID := ''k-'' @ i, clCloudProvider := ''aws'', clRegion := ''us-east-1'',
     clMultiAZ := True, clStatus := ClusterReady, clClusterDNS := ''dns'', clSupportedInstanceType := AllInstanceTypeSupport, clSchedulable := True\<rparr>"

definition two_clusters :: world where
  "two_clusters = \<lparr>centrals = [empty_central\<lparr>crID := ''t1'', crClusterID := ''k-a'', crStatus := CentralRequestStatusReady\<rparr>],
     clusters = [ready_cluster ''a'', ready_cluster ''b''], faults = [], events = []\<rparr>"

lemma auto_env_good: "good_env auto_env"
  by (simp add: good_env_def honest_providers_def fresh_ids_def config_known_def auto_env_def NewClusterConfig_def)

lemma two_clusters_wf: "cluster_wf two_clusters"
  by (simp add: cluster_wf_def two_clusters_def ready_cluster_def empty_cluster_def)


subsection \<open>Automatic scaling\<close>

definition ready_in :: "string \<Rightarrow> string \<Rightarrow> Cluster \<Rightarrow> bool" where
  "ready_in prov reg c \<longleftrightarrow> cluster_live c \<and> clCloudProvider c = prov \<and> clRegion c = reg \<and> clStatus c = ClusterReady"

text \<open>A cluster hosts a tenant that is neither deleted nor failed.\<close>

definition hosts_tenant :: "world \<Rightarrow> Cluster \<Rightarrow> bool" where
  "hosts_tenant w c \<longleftrightarrow> list_ex (\<lambda>k. live k \<and> crStatus k \<noteq> CentralRequestStatusFailed \<and> crClusterID k = clClusterID c) (centrals w)"

definition ready_row :: "Cluster \<Rightarrow> world \<Rightarrow> bool" where
  "ready_row c w \<longleftrightarrow> (\<forall>r\<in>set (clusters w). clID r = clID c \<longrightarrow> clClusterID r = clClusterID c \<and> ready_in (clCloudProvider c) (clRegion c) r)"

lemma ready_row_listed: "cluster_wf w \<Longrightarrow> listed c w \<Longrightarrow> clStatus c = ClusterReady \<Longrightarrow> ready_row c w"
  unfolding ready_row_def listed_def ready_in_def using cluster_wf_ids by blast

lemma ready_row_Update:
  assumes "ready_row c w" "clID u = clID c" "clClusterID u = clClusterID c" "clCloudProvider u = clCloudProvider c"
    "clRegion u = clRegion c" "clStatus u = ClusterReady" "clDeletedAt u = None"
  shows "ready_row c (snd (cluster_Update now u w))"
  using assms by (auto simp: cluster_Update_def update_clusters_unfold ready_row_def ready_in_def assign_cluster_def nz_def nzo_def
      cluster_live_def split: option.splits)

lemma ready_row_same: "clusters w' = clusters w \<Longrightarrow> ready_row c w \<Longrightarrow> ready_row c w'"
  by (simp add: ready_row_def)

lemma reconcileReadyCluster_ready:
  assumes "cluster_wf w" "keyed c w" "ready_row c w" "clStatus c = ClusterReady" "cluster_live c"
  shows "ready_row c (snd (reconcileReadyCluster cm c w))"
proof -
  have up: "ready_row c w'" if "cluster_Update (cmNow cm) (c\<lparr>clSupportedInstanceType := t\<rparr>) w = (e, w')" for t e w'
    using ready_row_Update [OF assms(3), of "c\<lparr>clSupportedInstanceType := t\<rparr>" "cmNow cm"] assms(4,5) that by (simp add: cluster_live_def)
  obtain e w1 where e: "reconcileClusterInstanceType cm c w = (e, w1)" by fastforce
  then have r1: "ready_row c w1" using up assms(3)
    by (auto simp: reconcileClusterInstanceType_def split: option.splits prod.splits)
  have t: "tidy (clID c) w w1" using reconcileClusterInstanceType_tidy [OF assms(1,2), of cm] assms(4) e by simp
  then have k: "keyed c w1" "cluster_wf w1" using keyed_keys tidy_wf assms(1,2) unfolding tidy_def by blast+
  obtain x w2 where x: "FindClusterByID (clClusterID c) w1 = (x, w2)" by fastforce
  note f = FindClusterByID_listed [OF x]
  have r2: "ready_row c w2" using ready_row_same r1 f by blast
  have "ready_row c w3" if "x = Inr (Some r)" "cluster_Update (cmNow cm) (r\<lparr>clClusterDNS := d\<rparr>) w2 = (y, w3)" for r d y w3
  proof -
    have r: "clID r = clID c" "r \<in> set (clusters w2)" using f that(1) keyed_row [OF k, of r] by auto
    then have "clClusterID r = clClusterID c \<and> ready_in (clCloudProvider c) (clRegion c) r" using r2 unfolding ready_row_def by blast
    then show ?thesis using ready_row_Update [OF r2, of "r\<lparr>clClusterDNS := d\<rparr>" "cmNow cm"] r(1) that(2) by (simp add: ready_in_def cluster_live_def)
  qed
  then have "ready_row c (snd (reconcileClusterDNS cm c w1))" using r1 r2
    unfolding reconcileClusterDNS_def GetClusterDNS_def x by (auto split: sum.splits option.splits prod.splits)
  then show ?thesis using r1 assms(3) unfolding reconcileReadyCluster_def e by (auto split: option.splits prod.splits)
qed

lemma FindNonEmpty_None:
  assumes "FindNonEmptyClusterByID (clClusterID c) w = (Inr None, w')" "listed c w"
  shows "\<not> hosts_tenant w c"
proof
  assume h: "hosts_tenant w c"
  define P where "P = (\<lambda>d :: Cluster. (clClusterID c = [] \<or> clClusterID d = clClusterID c) \<and>
     list_ex (\<lambda>r. live r \<and> crStatus r \<noteq> CentralRequestStatusFailed \<and> crClusterID r = clClusterID c \<and> clClusterID d = crClusterID r) (centrals w))"
  have "c \<in> set (filter (\<lambda>d. cluster_live d \<and> P d) (clusters w))"
    using h assms(2) by (auto simp: hosts_tenant_def list_ex_iff listed_def P_def)
  then have "c \<in> set (sort_key clID (filter (\<lambda>d. cluster_live d \<and> P d) (clusters w)))" by simp
  then obtain d ds where "sort_key clID (filter (\<lambda>d. cluster_live d \<and> P d) (clusters w)) = d # ds"
    by (metis list.exhaust list.set_cases)
  then have "\<exists>y. first_cluster P w = (y, next_stmt w) \<and> y \<noteq> Inl RecordNotFound"
    using planned_driver [of w] by (auto simp: first_cluster_def stmt_unfold split: option.splits)
  then show False using assms(1) unfolding FindNonEmptyClusterByID_def P_def [symmetric]
    by (auto split: sum.splits go_error.splits)
qed

lemma group_count_le: "(k, n) \<in> set (group_count ks) \<Longrightarrow> n \<le> int (length ks)"
  by (auto simp: group_count_def)

lemma group_sibling:
  assumes "ListGroupByProviderAndRegion [clCloudProvider c] [clRegion c] [ClusterReady] w = (Inr ((k, n) # gs), w')" "\<not> n \<le> 1" "cluster_wf w"
  shows "\<exists>d\<in>set (clusters w). clID d \<noteq> clID c \<and> ready_in (clCloudProvider c) (clRegion c) d"
proof (rule ccontr)
  assume no: "\<not> ?thesis"
  let ?cs = "filter (ready_in (clCloudProvider c) (clRegion c)) (clusters w)"
  let ?ks = "map (\<lambda>c. (clCloudProvider c, clRegion c)) ?cs"
  have cs: "filter (\<lambda>d. cluster_live d \<and> clCloudProvider d \<in> set [clCloudProvider c] \<and> clRegion d \<in> set [clRegion c] \<and> clStatus d \<in> set [ClusterReady]) (clusters w) = ?cs"
    by (rule filter_cong) (auto simp: ready_in_def)
  have "(k, n) \<in> set (group_count ?ks)"
    using assms(1) by (auto simp: ListGroupByProviderAndRegion_def find_clusters_unfold cs [simplified] split: option.splits)
  then have "n \<le> int (length ?cs)" using group_count_le by fastforce
  moreover have "set (map clID ?cs) \<subseteq> {clID c}" using no by auto
  moreover have "distinct (map clID ?cs)" using assms(3) unfolding cluster_wf_def by (simp add: distinct_map_filter)
  ultimately have "n \<le> 1" using distinct_card [of "map clID ?cs"] card_mono [of "{clID c}" "set (map clID ?cs)"] by simp
  then show False using assms(2) by simp
qed

lemma reconcileEmptyCluster_cases:
  assumes "cluster_wf w" "listed c w" "reconcileEmptyCluster cm c w = (x, w')"
  shows "clusters w' = clusters w \<and> fst x = False \<or>
    \<not> hosts_tenant w c \<and> (\<exists>d\<in>set (clusters w). clID d \<noteq> clID c \<and> ready_in (clCloudProvider c) (clRegion c) d)"
proof -
  obtain y w1 where y: "FindNonEmptyClusterByID (clClusterID c) w = (y, w1)" by fastforce
  obtain z w2 where z: "ListGroupByProviderAndRegion [clCloudProvider c] [clRegion c] [ClusterReady] w1 = (z, w2)" by fastforce
  have s: "clusters w1 = clusters w" "clusters w2 = clusters w"
    using FindNonEmptyClusterByID_same [of "clClusterID c" w] ListGroup_same [of "[clCloudProvider c]" "[clRegion c]" "[ClusterReady]" w1] y z by auto
  show ?thesis
  proof (cases "y = Inr None \<and> (\<exists>k n gs. z = Inr ((k, n) # gs) \<and> \<not> n \<le> 1)")
    case True
    then obtain k n gs where zn: "y = Inr None" "z = Inr ((k, n) # gs)" "\<not> n \<le> 1" by blast
    have "\<exists>d\<in>set (clusters w). clID d \<noteq> clID c \<and> ready_in (clCloudProvider c) (clRegion c) d"
      using group_sibling [OF z [unfolded zn(2)] zn(3) cluster_wf_same [OF s(1) assms(1)]] s(1) by simp
    then show ?thesis using FindNonEmpty_None [OF y [unfolded zn(1)] assms(2)] by blast
  next
    case False
    then show ?thesis using assms(3) s unfolding reconcileEmptyCluster_def y
      by (auto simp: z split: prod.splits option.splits sum.splits list.splits if_splits)
  qed
qed

text \<open>What the handler of a ready cluster does to its row.\<close>

lemma handle_ready_outcome:
  assumes "cluster_wf w" "listed c w" "clStatus c = ClusterReady" "w' = snd (handle_ready_cluster cm c w)"
  shows "ready_row c w' \<or> \<not> hosts_tenant w c \<and> (\<exists>d\<in>set (clusters w). clID d \<noteq> clID c \<and> ready_in (clCloudProvider c) (clRegion c) d)"
proof -
  note k = listed_facts [OF assms(2,1)]
  have r: "ready_row c w" using ready_row_listed assms(1-3) by blast
  have live: "cluster_live c" using assms(2) by (simp add: listed_def)
  have again: "ready_row c (snd (reconcileReadyCluster cm c v))" if "clusters v = clusters w" for v
  proof -
    have "cluster_wf v" "ready_row c v" "keyed c v" using cluster_wf_same ready_row_same assms(1) r k that by (auto simp: keyed_def)
    then show ?thesis using reconcileReadyCluster_ready assms(3) live by blast
  qed
  show ?thesis
  proof (cases "IsDataPlaneAutoScalingEnabled cm")
    case False
    then show ?thesis using again [of w] assms(4) by (simp add: handle_ready_cluster_def)
  next
    case True
    obtain x w1 where x: "reconcileEmptyCluster cm c w = (x, w1)" by fastforce
    then show ?thesis
    proof (cases "clusters w1 = clusters w \<and> fst x = False")
      case same: True
      then show ?thesis using again [of w1] ready_row_same [OF _ r, of w1] assms(4) True x
        by (cases x) (auto simp: handle_ready_cluster_def split: option.splits)
    qed (use reconcileEmptyCluster_cases [OF assms(1,2) x] in blast)
  qed
qed

text \<open>A step that keeps a ready cluster in every region that has one, and keeps every ready cluster that hosts a
  tenant.\<close>

definition same_place :: "Cluster \<Rightarrow> Cluster \<Rightarrow> bool" where
  "same_place c c' \<longleftrightarrow> clID c' = clID c \<and> clClusterID c' = clClusterID c \<and> ready_in (clCloudProvider c) (clRegion c) c'"

definition spares :: "world \<Rightarrow> world \<Rightarrow> bool" where
  "spares w w' \<longleftrightarrow> centrals w' = centrals w \<and>
     (\<forall>p r. (\<exists>c\<in>set (clusters w). ready_in p r c) \<longrightarrow> (\<exists>c\<in>set (clusters w'). ready_in p r c)) \<and>
     (\<forall>c\<in>set (clusters w). cluster_live c \<and> clStatus c = ClusterReady \<and> hosts_tenant w c \<longrightarrow> (\<exists>c'\<in>set (clusters w'). same_place c c'))"

lemma same_place_ready: "same_place c c' \<Longrightarrow> cluster_live c' \<and> clStatus c' = ClusterReady"
  by (simp add: same_place_def ready_in_def)

lemma same_place_refl: "cluster_live c \<Longrightarrow> clStatus c = ClusterReady \<Longrightarrow> same_place c c"
  by (simp add: same_place_def ready_in_def)

lemma same_place_trans: "same_place c c1 \<Longrightarrow> same_place c1 c2 \<Longrightarrow> same_place c c2"
  by (simp add: same_place_def ready_in_def)

lemma hosts_tenant_same: "centrals w' = centrals w \<Longrightarrow> clClusterID c' = clClusterID c \<Longrightarrow> hosts_tenant w' c' = hosts_tenant w c"
  by (simp add: hosts_tenant_def)

lemma spares_trans: "spares w w1 \<Longrightarrow> spares w1 w2 \<Longrightarrow> spares w w2"
proof -
  assume a: "spares w w1" and b: "spares w1 w2"
  have cen: "centrals w1 = centrals w" "centrals w2 = centrals w1" using a b by (simp_all add: spares_def)
  have "\<exists>c2\<in>set (clusters w2). same_place c c2"
    if "c \<in> set (clusters w)" "cluster_live c" "clStatus c = ClusterReady" "hosts_tenant w c" for c
  proof -
    note c = that
    obtain c1 where c1: "c1 \<in> set (clusters w1)" "same_place c c1" using a c unfolding spares_def by blast
    then have "hosts_tenant w1 c1" using hosts_tenant_same [OF cen(1)] c(4) by (simp add: same_place_def)
    then obtain c2 where "c2 \<in> set (clusters w2)" "same_place c1 c2" using b c1 same_place_ready [OF c1(2)] unfolding spares_def by blast
    then show ?thesis using same_place_trans [OF c1(2)] by blast
  qed
  moreover have "\<forall>p r. (\<exists>c\<in>set (clusters w). ready_in p r c) \<longrightarrow> (\<exists>c\<in>set (clusters w2). ready_in p r c)"
    using a b unfolding spares_def by blast
  ultimately show ?thesis using cen unfolding spares_def by simp
qed

lemma spares_kept:
  assumes "centrals w' = centrals w" "\<And>c. c \<in> set (clusters w) \<Longrightarrow> cluster_live c \<Longrightarrow> clStatus c = ClusterReady \<Longrightarrow> c \<in> set (clusters w')"
  shows "spares w w'"
proof -
  have "\<exists>c\<in>set (clusters w'). ready_in p r c" if "c \<in> set (clusters w)" "ready_in p r c" for p r c
    using assms(2) [OF that(1)] that(2) unfolding ready_in_def by blast
  moreover have "\<exists>c'\<in>set (clusters w'). same_place c c'" if "c \<in> set (clusters w)" "cluster_live c" "clStatus c = ClusterReady" for c
    using assms(2) [OF that] same_place_refl that(2,3) by blast
  ultimately show ?thesis using assms(1) unfolding spares_def by blast
qed

lemma spares_same: "clusters w' = clusters w \<Longrightarrow> centrals w' = centrals w \<Longrightarrow> spares w w'"
  by (rule spares_kept) simp_all

lemma spares_grows: "grows w w' \<Longrightarrow> spares w w'"
  by (rule spares_kept) (auto simp: grows_def)

lemma spares_rows:
  assumes "own_row (ids_in s w) w w'" "s \<noteq> ClusterReady" "cluster_wf w"
  shows "spares w w'"
proof (rule spares_kept)
  fix c assume c: "c \<in> set (clusters w)" "cluster_live c" "clStatus c = ClusterReady"
  have "clID c \<notin> ids_in s w" using cluster_wf_ids [OF assms(3) c(1)] c(3) assms(2) unfolding ids_in_def listed_def by blast
  then show "c \<in> set (clusters w')" using own_row_keeps [OF assms(1) c(1)] by blast
qed (use assms(1) in \<open>simp add: own_row_def\<close>)

lemma handle_ready_spares:
  assumes "cluster_wf w" "listed c w" "clStatus c = ClusterReady" "w' = snd (handle_ready_cluster cm c w)"
  shows "spares w w'"
proof -
  have t: "own_row {clID c} w w'" using tidy_row [OF handle_ready_cluster_tidy assms(1)] listed_facts [OF assms(2,1)] assms(1,4) by blast
  note out = handle_ready_outcome [OF assms]
  have cm: "c \<in> set (clusters w)" "cluster_live c" using assms(2) by (simp_all add: listed_def)
  obtain c' where c': "c' \<in> set (clusters w')" "clID c' = clID c" using own_row_ids [OF t] cm(1) by (metis in_set_conv_nth length_map nth_map nth_mem)
  have row: "same_place c c'" if "ready_row c w'" using that c' by (simp add: ready_row_def same_place_def)
  have other: "d \<in> set (clusters w')" if "d \<in> set (clusters w)" "d \<noteq> c" for d
    using own_row_keeps [OF t that(1)] cluster_wf_ids [OF assms(1) that(1) cm(1)] that(2) by blast
  have "\<exists>d'\<in>set (clusters w'). ready_in p r d'" if "d \<in> set (clusters w)" "ready_in p r d" for p r d
  proof (cases "d = c")
    case True
    then have "clCloudProvider c = p" "clRegion c = r" using that(2) by (auto simp: ready_in_def)
    then show ?thesis using out row c'(1) other unfolding same_place_def by metis
  next
    case False
    then show ?thesis using other that by blast
  qed
  moreover have "\<exists>d'\<in>set (clusters w'). same_place d d'"
    if "d \<in> set (clusters w)" "cluster_live d" "clStatus d = ClusterReady" "hosts_tenant w d" for d
    using out row c'(1) other [of d] same_place_refl [of d] that by metis
  ultimately show ?thesis using t unfolding spares_def own_row_def by blast
qed

lemma each_ready_spares:
  "cluster_wf w \<Longrightarrow> \<forall>c\<in>set cs. listed c w \<and> clStatus c = ClusterReady \<Longrightarrow> distinct (map clID cs) \<Longrightarrow>
   spares w (snd (reconcile_each (\<lambda>c w. wrap_error (m c) (handle_ready_cluster cm c w)) cs w))"
proof (induction cs arbitrary: w)
  case (Cons c cs)
  let ?f = "\<lambda>c w. wrap_error (m c) (handle_ready_cluster cm c w)"
  obtain e w1 where e: "?f c w = (e, w1)" by fastforce
  then have w1: "w1 = snd (handle_ready_cluster cm c w)" by (metis snd_conv wrapped_cluster_world)
  have l: "listed c w" "clStatus c = ClusterReady" using Cons.prems(2) by simp_all
  have s: "spares w w1" using handle_ready_spares [OF Cons.prems(1) l w1] .
  have o: "own_row {clID c} w w1" "cluster_wf w1"
    using tidy_row [OF handle_ready_cluster_tidy Cons.prems(1)] listed_facts [OF l(1) Cons.prems(1)] Cons.prems(1) w1 by blast+
  have "\<forall>d\<in>set cs. listed d w1 \<and> clStatus d = ClusterReady"
    using Cons.prems(2,3) own_row_keeps [OF o(1)] unfolding listed_def by (simp add: image_iff) metis
  then have "spares w1 (snd (reconcile_each ?f cs w1))" using Cons.IH [OF o(2)] Cons.prems(3) by simp
  then have "spares w (snd (reconcile_each ?f cs w1))" using spares_trans [OF s] by blast
  then show ?case using e s by (auto split: option.splits prod.splits)
qed (simp add: spares_same)

lemma processReady_spares:
  assumes "cluster_wf w"
  shows "spares w (snd (processReadyClusters cm w))"
proof -
  obtain x w1 where x: "cluster_ListByStatus ClusterReady w = (x, w1)" by fastforce
  then have c: "clusters w1 = clusters w" "centrals w1 = centrals w"
    by (auto simp: cluster_ListByStatus_def find_clusters_unfold split: if_splits option.splits)
  have "spares w1 (snd (reconcile_each (\<lambda>c w. wrap_error (m c) (handle_ready_cluster cm c w)) cs w1))" if "x = Inr cs" for m cs
  proof -
    have cs: "cs = filter (\<lambda>r. cluster_live r \<and> clStatus r = ClusterReady) (clusters w1)"
      using x that c by (auto simp: cluster_ListByStatus_def find_clusters_unfold split: if_splits option.splits)
    have wf: "cluster_wf w1" using cluster_wf_same [OF c(1) assms] .
    then have "distinct (map clID cs)" unfolding cs cluster_wf_def by (simp add: distinct_map_filter)
    then show ?thesis by (intro each_ready_spares [OF wf]) (simp_all add: cs listed_def)
  qed
  then show ?thesis using spares_same [OF c] spares_trans unfolding processReadyClusters_def reconcile_listed_def x
    by (auto split: sum.splits)
qed



end
