(* ===== verification/Cluster_Config_Correct.thy ===== *)
theory Cluster_Config_Correct
  imports Cluster_Correct
begin

text \<open>
  What the reconciliation with the configured clusters makes of the table when the database works: the
  configured clusters are there as configured, clusters that are no longer configured are deprovisioned
  unless tenants run on them. Each of the three loops of the source has its lemma.
\<close>

definition agrees :: "'v cluster_mgr_env \<Rightarrow> ManualCluster \<Rightarrow> Cluster \<Rightarrow> bool" where
  "agrees cm p c \<longleftrightarrow> cluster_live c \<and> clClusterID c = mcClusterID p \<and> clCloudProvider c = mcCloudProvider p \<and> clRegion c = mcRegion p \<and>
     clMultiAZ c = mcMultiAZ p \<and> clStatus c = mcStatus p \<and> clProviderType c = mcProviderType p \<and> clClusterDNS c = mcClusterDNS p \<and>
     clSupportedInstanceType c = mcSupportedInstanceType p \<and> clSchedulable c = mcSchedulable p \<and>
     GetAvailableCentralOperatorVersions c = CentralOperatorVersionsDeepSort (cmSemver cm) (mcAvailableCentralOperatorVersions p)"

definition entry_valid :: "'v cluster_mgr_env \<Rightarrow> ManualCluster \<Rightarrow> bool" where
  "entry_valid cm p \<longleftrightarrow> mcClusterID p \<noteq> [] \<and> known_status (mcStatus p) \<and> mcSupportedInstanceType p \<noteq> [] \<and>
     (case CentralOperatorVersionsDeepSort (cmSemver cm) (mcAvailableCentralOperatorVersions p) of Inl _ \<Rightarrow> False | Inr _ \<Rightarrow> True)"

definition unused_ids :: "'v cluster_mgr_env \<Rightarrow> bool" where
  "unused_ids cm \<longleftrightarrow> (\<forall>w. cmNewID cm w \<noteq> [] \<and> cmNewID cm w \<notin> clID ` set (clusters w))"

text \<open>A cluster on which a tenant runs that has left \<open>accepted\<close>.\<close>

definition occupied :: "world \<Rightarrow> Cluster \<Rightarrow> bool" where
  "occupied w c \<longleftrightarrow> list_ex (\<lambda>k. live k \<and> crStatus k \<noteq> CentralRequestStatusAccepted \<and> crClusterID k = clClusterID c) (centrals w)"

subsection \<open>Missing clusters\<close>

lemma known_not_empty: "known_status s \<Longrightarrow> s \<noteq> []"
  by (auto simp: known_status_def clusterMetricsStatuses_def cluster_status_defs)

lemma register_manual_ok:
  assumes "entry_valid cm p" "unused_ids cm" "no_faults w" "mcClusterID p \<notin> clClusterID ` set (clusters w)"
  shows "\<exists>r. register_manual cm p w = (None, (next_stmt w)\<lparr>clusters := clusters w @ [r]\<rparr>) \<and> agrees cm p r"
proof -
  obtain vs where vs: "CentralOperatorVersionsDeepSort (cmSemver cm) (mcAvailableCentralOperatorVersions p) = Inr vs"
    using assms(1) by (auto simp: entry_valid_def split: sum.splits)
  define c where "c = (if mcAvailableCentralOperatorVersions p \<noteq> []
      then (manual_request p)\<lparr>clAvailableCentralOperatorVersions := VJson (Some vs)\<rparr> else manual_request p)"
  define r where "r = (cluster_BeforeCreate (cmNewID cm w) c)\<lparr>clCreatedAt := nzi (clCreatedAt c) (cmNow cm), clUpdatedAt := cmNow cm\<rparr>"
  have k: "clID c = []" "clID r = cmNewID cm w" "clClusterID r = mcClusterID p"
    by (simp_all add: c_def r_def manual_request_def empty_cluster_def cluster_BeforeCreate_def)
  have "\<not> list_ex (\<lambda>d. clID d = clID r \<or> clClusterID d = clClusterID r) (clusters w)"
    using assms(2,4) unfolding k list_ex_iff unused_ids_def by (metis imageI)
  then have "RegisterClusterJob (cmNewID cm w) (cmNow cm) c w = (None, (next_stmt w)\<lparr>clusters := clusters w @ [r]\<rparr>)"
    using assms(3) k(1) by (simp add: RegisterClusterJob_def save_cluster_def stmt_unfold Let_def r_def)
  then have "register_manual cm p w = (None, (next_stmt w)\<lparr>clusters := clusters w @ [r]\<rparr>)"
    by (cases "mcAvailableCentralOperatorVersions p = []")
      (simp_all add: register_manual_def SetAvailableCentralOperatorVersions_def vs c_def)
  moreover have "mcAvailableCentralOperatorVersions p = [] \<Longrightarrow> vs = []"
    using vs by (auto simp: CentralOperatorVersionsDeepSort_def sort_Slice_def)
  then have "agrees cm p r" using assms(1) known_not_empty
    by (auto simp: agrees_def r_def c_def manual_request_def empty_cluster_def cluster_BeforeCreate_def cluster_live_def entry_valid_def
        GetAvailableCentralOperatorVersions_def vs)
  ultimately show ?thesis by blast
qed

lemma register_all_ok:
  assumes "list_all (entry_valid cm) ps" "unused_ids cm" "no_faults w" "cluster_wf w" "distinct (map mcClusterID ps)"
    "mcClusterID ` set ps \<inter> clClusterID ` set (clusters w) = {}"
  shows "\<exists>w' rs. until_error (lift_handler (register_manual cm)) ps w = (Some None, w') \<and> no_faults w' \<and> keeps w w' \<and>
    clusters w' = clusters w @ rs \<and> list_all2 (agrees cm) ps rs"
  using assms
proof (induction ps arbitrary: w)
  case Nil
  then show ?case by (simp add: keeps_same)
next
  case (Cons p ps)
  have ev: "entry_valid cm p" "list_all (entry_valid cm) ps" using Cons.prems(1) by simp_all
  obtain r where r: "register_manual cm p w = (None, (next_stmt w)\<lparr>clusters := clusters w @ [r]\<rparr>)" "agrees cm p r"
    using register_manual_ok [OF ev(1) Cons.prems(2,3)] Cons.prems(6) by auto
  let ?w = "(next_stmt w)\<lparr>clusters := clusters w @ [r]\<rparr>"
  have nf: "no_faults ?w" using no_faults_next [OF Cons.prems(3)] by (simp add: no_faults_def)
  have k: "keeps w ?w" using register_manual_keeps [of cm p w] Cons.prems(2,4) ev(1) r(1) by (simp add: fresh_ids_def unused_ids_def entry_valid_def)
  have "clClusterID r = mcClusterID p" using r(2) by (simp add: agrees_def)
  then have "mcClusterID ` set ps \<inter> clClusterID ` set (clusters ?w) = {}" using Cons.prems(5,6) by auto
  with Cons.IH [OF ev(2) Cons.prems(2) nf] k Cons.prems(5) obtain w' rs where
    "until_error (lift_handler (register_manual cm)) ps ?w = (Some None, w')" "no_faults w'" "keeps ?w w'"
    "clusters w' = clusters ?w @ rs" "list_all2 (agrees cm) ps rs" by (auto simp: keeps_def)
  then have "until_error (lift_handler (register_manual cm)) (p # ps) w = (Some None, w') \<and> no_faults w' \<and> keeps w w' \<and>
      clusters w' = clusters w @ (r # rs) \<and> list_all2 (agrees cm) (p # ps) (r # rs)"
    using r k keeps_trans by (simp add: lift_handler_def)
  then show ?case by blast
qed

subsection \<open>Existing clusters\<close>

lemma distinct_singleton: "distinct xs \<Longrightarrow> set xs = {x} \<Longrightarrow> xs = [x]"
  by (cases xs) (auto simp: subset_singleton_iff)

lemma FindClusterByID_unique:
  assumes "no_faults w" "cluster_wf w" "listed c w" "clClusterID c \<noteq> []"
  shows "FindClusterByID (clClusterID c) w = (Inr (Some c), next_stmt w)"
proof -
  have "filter (\<lambda>d. cluster_live d \<and> clClusterID d = clClusterID c) (clusters w) = [c]"
  proof -
    let ?l = "filter (\<lambda>d. cluster_live d \<and> clClusterID d = clClusterID c) (clusters w)"
    have "set ?l = {c}" using assms(3) cluster_wf_cluster_ids [OF assms(2)] by (auto simp: listed_def)
    moreover have "distinct ?l" using assms(2) by (simp add: cluster_wf_def distinct_map)
    ultimately show ?thesis by (rule distinct_singleton [rotated])
  qed
  then show ?thesis using assms(1,4) by (simp add: FindClusterByID_def first_cluster_def stmt_unfold)
qed

lemma update_manual_ok:
  assumes "entry_valid cm p" "no_faults w" "cluster_wf w" "listed c w" "clClusterID c = mcClusterID p"
  shows "\<exists>w' c'. update_manual cm p w = (Some None, w') \<and> no_faults w' \<and> tidy (clID c) w w' \<and> c' \<in> set (clusters w') \<and> agrees cm p c'"
proof -
  obtain vs where vs: "CentralOperatorVersionsDeepSort (cmSemver cm) (mcAvailableCentralOperatorVersions p) = Inr vs"
    using assms(1) by (auto simp: entry_valid_def split: sum.splits)
  define n where "n = (with_manual p c)\<lparr>clAvailableCentralOperatorVersions := VJson (Some vs)\<rparr>"
  have f: "FindClusterByID (mcClusterID p) w = (Inr (Some c), next_stmt w)"
    using FindClusterByID_unique [OF assms(2-4)] assms(1,5) by (simp add: entry_valid_def)
  have nf: "no_faults (next_stmt w)" "no_faults (next_stmt (next_stmt w))" using assms(2) by simp_all
  have c: "c \<in> set (clusters w)" "cluster_live c" using assms(4) by (simp_all add: listed_def)
  have k: "clID n = clID c" "clID c \<noteq> []" using listed_facts [OF assms(4,3)] by (simp_all add: n_def with_manual_def)
  have a: "agrees cm p (n\<lparr>clUpdatedAt := t\<rparr>)" "agrees cm p n" for t
    using c(2) assms(5) by (simp_all add: agrees_def n_def with_manual_def cluster_live_def GetAvailableCentralOperatorVersions_def vs)
  show ?thesis
  proof (cases "n = c")
    case True
    then have "update_manual cm p w = (Some None, next_stmt w)"
      by (simp add: update_manual_def f SetAvailableCentralOperatorVersions_def vs n_def [symmetric])
    then show ?thesis using nf(1) tidy_same [OF assms(3), of "next_stmt w" "clID c"] c(1) a(2) True by auto
  next
    case False
    let ?g = "\<lambda>r. (manual_columns n r)\<lparr>clUpdatedAt := cmNow cm\<rparr>"
    let ?u = "update_clusters (\<lambda>r. clID r = clID n) ?g (next_stmt w)"
    have "cluster_wf (next_stmt w)" using cluster_wf_same [OF _ assms(3)] by simp
    then have t: "tidy (clID c) (next_stmt w) (snd ?u)"
      using k assms(1) by (intro update_clusters_tidy) (auto simp: manual_columns_def n_def with_manual_def entry_valid_def)
    have g: "?g c = n\<lparr>clUpdatedAt := cmNow cm\<rparr>" by (simp add: manual_columns_def n_def with_manual_def)
    have "update_manual cm p w = (Some None, snd ?u)"
      using False k nf(1) by (simp add: update_manual_def f SetAvailableCentralOperatorVersions_def vs n_def [symmetric] cluster_Updates_def update_clusters_unfold)
    moreover have "no_faults (snd ?u)" using nf by (simp add: update_clusters_unfold no_faults_def)
    moreover have "tidy (clID c) w (snd ?u)" using tidy_trans [OF tidy_same [OF assms(3)] t] by simp
    moreover have "?g c \<in> set (clusters (snd ?u))" using c k nf(1) by (auto simp: update_clusters_unfold image_iff intro!: bexI [of _ c])
    ultimately show ?thesis using a(1) g by metis
  qed
qed

text \<open>The loop changes the rows of its entries only, and keeps the keys.\<close>

lemma update_all_ok:
  assumes "list_all (entry_valid cm) ps" "no_faults w" "cluster_wf w" "distinct (map mcClusterID ps)"
    "\<forall>p\<in>set ps. \<exists>c. listed c w \<and> clClusterID c = mcClusterID p"
  shows "\<exists>w'. until_error (update_manual cm) ps w = (Some None, w') \<and> no_faults w' \<and> keeps w w' \<and>
    (\<forall>c\<in>set (clusters w). clClusterID c \<notin> mcClusterID ` set ps \<longrightarrow> c \<in> set (clusters w')) \<and>
    (\<forall>p\<in>set ps. \<exists>c'\<in>set (clusters w'). agrees cm p c')"
  using assms
proof (induction ps arbitrary: w)
  case Nil
  then show ?case by (simp add: keeps_same)
next
  case (Cons p ps)
  obtain c where c: "listed c w" "clClusterID c = mcClusterID p" using Cons.prems(5) by auto
  obtain w1 c1 where u: "update_manual cm p w = (Some None, w1)" "no_faults w1" "tidy (clID c) w w1" "c1 \<in> set (clusters w1)" "agrees cm p c1"
    using update_manual_ok [of cm p, OF _ Cons.prems(2,3) c] Cons.prems(1) by auto
  have wf1: "cluster_wf w1" using tidy_wf [OF u(3) Cons.prems(3)] .
  have kept: "d \<in> set (clusters w1)" if "d \<in> set (clusters w)" "clClusterID d \<noteq> mcClusterID p" for d
    using own_row_keeps [of "{clID c}" w w1 d] u(3) that c keyed_row [of c w d] listed_facts [OF c(1) Cons.prems(3)] Cons.prems(3)
    by (auto simp: tidy_def)
  have "\<forall>q\<in>set ps. \<exists>d. listed d w1 \<and> clClusterID d = mcClusterID q"
    using Cons.prems(4,5) kept unfolding listed_def by (simp add: image_iff) metis
  with Cons.IH [of w1] Cons.prems(1,4) u(2) wf1 obtain w2 where
    w2: "until_error (update_manual cm) ps w1 = (Some None, w2)" "no_faults w2" "keeps w1 w2"
      "\<forall>c\<in>set (clusters w1). clClusterID c \<notin> mcClusterID ` set ps \<longrightarrow> c \<in> set (clusters w2)"
      "\<forall>p\<in>set ps. \<exists>c'\<in>set (clusters w2). agrees cm p c'" by auto
  have "c1 \<in> set (clusters w2)" using w2(4) u(4,5) Cons.prems(4) by (auto simp: agrees_def)
  then have "\<forall>q\<in>set (p # ps). \<exists>c'\<in>set (clusters w2). agrees cm q c'" using w2(5) u(5) by auto
  moreover have "\<forall>d\<in>set (clusters w). clClusterID d \<notin> mcClusterID ` set (p # ps) \<longrightarrow> d \<in> set (clusters w2)" using w2(4) kept by auto
  moreover have "keeps w w2" using keeps_trans [OF keeps_tidy [OF Cons.prems(3) u(3)] w2(3)] .
  ultimately show ?case using u(1) w2(1,2) by auto
qed

subsection \<open>Excess clusters\<close>

lemma group_count_pos: "(k, n) \<in> set (group_count ks) \<Longrightarrow> n > 0 \<and> k \<in> set ks"
  by (auto simp: group_count_def filter_empty_conv)

lemma group_count_fst: "fst ` set (group_count ks) = set ks"
  by (auto simp: group_count_def image_image)

lemma zero_counts:
  "map fst (filter (\<lambda>(_, n). \<not> n > 0) (add_missing ids (sort_key fst (group_count ks)))) = filter (\<lambda>i. i \<notin> set ks) ids"
proof -
  have "filter (\<lambda>(_, n). \<not> n > 0) (sort_key fst (group_count ks)) = []"
    using group_count_pos by (fastforce simp: filter_empty_conv)
  moreover have "filter (\<lambda>(_, n). \<not> n > 0) (map (\<lambda>k. (k, 0::int)) xs) = map (\<lambda>k. (k, 0)) xs" for xs :: "string list"
    by (induction xs) auto
  ultimately show ?thesis by (simp add: add_missing_def group_count_fst comp_def)
qed

lemma deprovision_excess_ok:
  assumes "no_faults w"
  shows "fst (deprovision_excess cm ids w) = [] \<and>
    clusters (snd (deprovision_excess cm ids w)) = map (\<lambda>c. if cluster_live c \<and> clClusterID c \<in> set ids \<and> \<not> occupied w c \<and> clStatus c \<noteq> ClusterCleanup
      then set_cluster_status (cmNow cm) ClusterDeprovisioning c else c) (clusters w)"
proof (cases "ids = []")
  case True
  then show ?thesis by (simp add: deprovision_excess_def)
next
  case False
  let ?rs = "filter (\<lambda>r. live r \<and> crStatus r \<noteq> CentralRequestStatusAccepted \<and> crClusterID r \<in> set ids) (centrals w)"
  let ?del = "filter (\<lambda>i. i \<notin> set (map crClusterID ?rs)) ids"
  have f: "FindDinosaurInstanceCount ids w = (Inr (add_missing ids (sort_key fst (group_count (map crClusterID ?rs)))), next_stmt w)"
    using assms False by (simp add: FindDinosaurInstanceCount_def find_centrals_unfold)
  have occ: "clClusterID c \<in> set ?del \<longleftrightarrow> clClusterID c \<in> set ids \<and> \<not> occupied w c" for c
    unfolding occupied_def list_ex_iff by (auto simp: image_iff) metis
  have ne: "ClusterDeprovisioning \<noteq> []" by (simp add: cluster_status_defs)
  have nf: "planned (next_stmt w) = None" using assms by simp
  show ?thesis
  proof (cases "?del = []")
    case True
    then have "\<not> (clClusterID c \<in> set ids \<and> \<not> occupied w c)" for c using occ by (metis list.set(1) empty_iff)
    then have "map (\<lambda>c. if cluster_live c \<and> clClusterID c \<in> set ids \<and> \<not> occupied w c \<and> clStatus c \<noteq> ClusterCleanup
      then set_cluster_status (cmNow cm) ClusterDeprovisioning c else c) (clusters w) = clusters w" by (intro map_idI) auto
    then show ?thesis using False True by (simp add: deprovision_excess_def f zero_counts Let_def del: set_map)
  next
    case d: False
    have "UpdateMultiClusterStatus (cmNow cm) ?del ClusterDeprovisioning (next_stmt w) =
      (None, (next_stmt (next_stmt w))\<lparr>clusters := map (\<lambda>c. if cluster_live c \<and> clClusterID c \<in> set ?del \<and> clStatus c \<noteq> ClusterCleanup
        then set_cluster_status (cmNow cm) ClusterDeprovisioning c else c) (clusters w)\<rparr>)"
      using d ne nf unfolding UpdateMultiClusterStatus_def update_clusters_unfold nf by simp
    then show ?thesis using False d unfolding deprovision_excess_def f zero_counts prod.case sum.case Let_def occ
      by (simp del: set_map set_filter add: zero_counts)
  qed
qed

subsection \<open>The reconciliation\<close>

lemma ids_map_None: "map_of (cluster_ids_map cs) i = None \<longleftrightarrow> i \<notin> clClusterID ` set cs"
  by (auto simp: cluster_ids_map_def map_of_eq_None_iff image_iff)

lemma excess_ids: "set (ExcessClusters conf (cluster_ids_map cs)) = {i \<in> clClusterID ` set cs. clusterConfigMap conf i = None}"
  by (fastforce simp: ExcessClusters_def cluster_ids_map_def)

lemma ListAllClusterIds_ok:
  assumes "no_faults w"
  obtains cs where "ListAllClusterIds w = (Inr cs, next_stmt w)" "clClusterID ` set cs = clClusterID ` {c. listed c w \<and> clClusterID c \<noteq> []}"
proof -
  have "ListAllClusterIds w = (Inr (map (\<lambda>c. empty_cluster\<lparr>clClusterID := clClusterID c\<rparr>)
      (sort_key clCreatedAt (filter (\<lambda>c. cluster_live c \<and> clClusterID c \<noteq> []) (clusters w)))), next_stmt w)"
    using assms by (simp add: ListAllClusterIds_def find_clusters_unfold)
  then show thesis by (rule that) (auto simp: listed_def image_image)
qed

definition config_of :: "'v cluster_mgr_env \<Rightarrow> ManualCluster list \<Rightarrow> bool" where
  "config_of cm ps \<longleftrightarrow> cmScalingType cm = ManualScaling \<and> clusterList (cmClusterConfig cm) = ps \<and>
     clusterConfigMap (cmClusterConfig cm) = clusterConfigMap (NewClusterConfig ps) \<and>
     distinct (map mcClusterID ps) \<and> list_all (entry_valid cm) ps \<and> unused_ids cm"

text \<open>Registering and updating: afterwards every configured cluster has a row that agrees with its entry, and the
  rows of other clusters are untouched.\<close>

lemma manual_rounds:
  assumes "config_of cm ps" "no_faults v" "cluster_wf v"
    "\<And>p. p \<in> set ps \<Longrightarrow> (\<exists>c. listed c v \<and> clClusterID c = mcClusterID p) \<longleftrightarrow> map_of m (mcClusterID p) \<noteq> None"
    "\<forall>c\<in>set (clusters v). clClusterID c \<in> mcClusterID ` set ps \<longrightarrow> cluster_live c"
  obtains v2 v3 where "until_error (lift_handler (register_manual cm)) (MissingClusters (cmClusterConfig cm) m) v = (Some None, v2)"
    "until_error (update_manual cm) (ExistingClusters (cmClusterConfig cm) m) v2 = (Some None, v3)" "no_faults v3" "keeps v v3"
    "\<forall>p\<in>set ps. \<exists>c\<in>set (clusters v3). agrees cm p c"
    "\<forall>c\<in>set (clusters v). clClusterID c \<notin> mcClusterID ` set ps \<longrightarrow> c \<in> set (clusters v3)"
proof -
  let ?miss = "MissingClusters (cmClusterConfig cm) m" and ?ex = "ExistingClusters (cmClusterConfig cm) m"
  have conf: "clusterList (cmClusterConfig cm) = ps" "distinct (map mcClusterID ps)" "list_all (entry_valid cm) ps" "unused_ids cm"
    using assms(1) by (simp_all add: config_of_def)
  have sub: "set ?miss \<subseteq> set ps" "set ?ex \<subseteq> set ps" "set ps = set ?miss \<union> set ?ex" "distinct (map mcClusterID ?miss)" "distinct (map mcClusterID ?ex)"
    using conf(1,2) by (auto simp: MissingClusters_def ExistingClusters_def distinct_map_filter)
  have val: "list_all (entry_valid cm) ?miss" "list_all (entry_valid cm) ?ex" using conf(3) sub(1,2) by (auto simp: list_all_iff)
  have "clClusterID c \<noteq> mcClusterID p" if "p \<in> set ?miss" "c \<in> set (clusters v)" for p c
  proof
    assume e: "clClusterID c = mcClusterID p"
    have "p \<in> set ps" "map_of m (mcClusterID p) = None" using that(1) conf(1) by (auto simp: MissingClusters_def)
    then show False using assms(4) [of p] assms(5) e that(2) unfolding listed_def by (metis imageI)
  qed
  then have "mcClusterID ` set ?miss \<inter> clClusterID ` set (clusters v) = {}" by fastforce
  from register_all_ok [OF val(1) conf(4) assms(2,3) sub(4) this] obtain v2 rs where
    v2: "until_error (lift_handler (register_manual cm)) ?miss v = (Some None, v2)" "no_faults v2" "keeps v v2"
      "clusters v2 = clusters v @ rs" "list_all2 (agrees cm) ?miss rs" by auto
  have "\<forall>p\<in>set ?ex. \<exists>c. listed c v2 \<and> clClusterID c = mcClusterID p"
    using assms(4) conf(1) v2(4) unfolding ExistingClusters_def listed_def by fastforce
  from update_all_ok [OF val(2) v2(2) _ sub(5) this] v2(3) obtain v3 where
    v3: "until_error (update_manual cm) ?ex v2 = (Some None, v3)" "no_faults v3" "keeps v2 v3"
      "\<forall>c\<in>set (clusters v2). clClusterID c \<notin> mcClusterID ` set ?ex \<longrightarrow> c \<in> set (clusters v3)" "\<forall>p\<in>set ?ex. \<exists>c'\<in>set (clusters v3). agrees cm p c'"
    by (auto simp: keeps_def)
  have "\<exists>c\<in>set (clusters v3). agrees cm p c" if p: "p \<in> set ps" for p
  proof (cases "p \<in> set ?ex")
    case False
    then have m: "p \<in> set ?miss" using sub(3) p by blast
    then obtain c where c: "c \<in> set rs" "agrees cm p c" using v2(5) by (metis in_set_conv_nth list_all2_conv_all_nth)
    have "clClusterID c \<notin> mcClusterID ` set ?ex" using c(2) m unfolding agrees_def MissingClusters_def ExistingClusters_def by auto
    then show ?thesis using v3(4) v2(4) c by auto
  qed (use v3(5) in blast)
  moreover have "\<forall>c\<in>set (clusters v). clClusterID c \<notin> mcClusterID ` set ps \<longrightarrow> c \<in> set (clusters v3)"
    using v3(4) v2(4) sub(2) by auto
  ultimately show ?thesis using that v2(1,3) v3(1-3) keeps_trans by blast
qed


definition configured_entry :: ManualCluster where
  "configured_entry = manual_cluster_defaults\<lparr>mcName := ''n'', mcClusterID := ''k-n'', mcCloudProvider := ''aws'', mcRegion := ''eu-west-1'',
     mcMultiAZ := True, mcSchedulable := True, mcCentralInstanceLimit := 5, mcAvailableCentralOperatorVersions := sample_versions\<rparr>"

definition manual_env :: "string cluster_mgr_env" where
  "manual_env = auto_env\<lparr>cmScalingType := ManualScaling, cmClusterConfig := NewClusterConfig [configured_entry],
     cmNewID := (\<lambda>w. CHR ''x'' # concat (map clID (clusters w)))\<rparr>"

lemma concat_longer: "x \<in> set xs \<Longrightarrow> length x \<le> length (concat xs)"
  by (induction xs) auto

lemma manual_env_config: "config_of manual_env [configured_entry]"
proof -
  have "CHR ''x'' # concat (map clID cs) \<notin> clID ` set cs" for cs :: "Cluster list"
  proof
    assume "CHR ''x'' # concat (map clID cs) \<in> clID ` set cs"
    then have "CHR ''x'' # concat (map clID cs) \<in> set (map clID cs)" by simp
    from concat_longer [OF this] show False by simp
  qed
  then have "unused_ids manual_env" by (simp add: unused_ids_def manual_env_def)
  moreover have "list_all (entry_valid manual_env) [configured_entry]" by code_simp
  ultimately show ?thesis by (simp add: config_of_def manual_env_def NewClusterConfig_def)
qed


end
