(* ===== verification/Shard_Types.thy ===== *)
theory Shard_Types
  imports Central_Handlers Data_Plane_Central "HOL-Library.AList"
begin

text \<open>
  The data of the agent that runs on a data-plane cluster (\<^verbatim>\<open>fleetshard\<close>): its errors, the description of a
  tenant that the fleet manager hands out (\<^verbatim>\<open>api/private\<close>) and the presenter that makes it from a row
  (\<^verbatim>\<open>presenters/managedcentral.go\<close>), the Kubernetes objects the agent reads and writes, and its pure helpers:
  conversion of resources, revisions, statuses, proxy settings and connection strings.

  A quantity of Kubernetes is its text, the zero value being empty; a Go map is an association list,
  and \<open>None\<close> in front of it is a nil map where the code looks at that.
\<close>

subsection \<open>Decimal digits\<close>

text \<open>Digits on integers, to evaluate \<^const>\<open>itoa\<close>.\<close>

function int_digits :: "int \<Rightarrow> string" where
  "int_digits i = (if i < 10 then [char_of (48 + i)] else int_digits (i div 10) @ [char_of (48 + i mod 10)])"
  by pat_completeness auto
termination by (relation "measure nat") auto

lemma int_digits_nat: "int_digits (int n) = nat_digits n"
proof (induction n rule: nat_digits.induct)
  case (1 n)
  have "char_of (48 + int k) = (char_of (48 + k) :: char)" for k using char_of_nat [of "48 + k", where ?'a = int] by simp
  moreover have "int n mod 10 = int (n mod 10)" "int n div 10 = int (n div 10)" by (simp_all add: zmod_int zdiv_int)
  ultimately show ?case using 1 by (subst int_digits.simps, subst nat_digits.simps) (simp del: int_digits.simps)
qed

lemma itoa_digits [code]: "itoa i = (if i < 0 then ''-'' @ int_digits (- i) else int_digits i)"
  using int_digits_nat [of "nat i"] int_digits_nat [of "nat (- i)"] by (cases "i < 0") (simp_all add: itoa_def del: int_digits.simps)

declare int_digits.simps [simp del]

subsection \<open>Errors\<close>

datatype api_reason = NotFoundReason | AlreadyExistsReason | OtherReason

datatype agent_error =
    ErrBusy
  | ErrCentralNotChanged
  | ErrDeletionInProgress
  | ErrCentralTLSSecretNotFound
  | ApiErr api_reason string
  | Plain string
  | Ctx string agent_error
  | FromService service_error

fun agent_text :: "agent_error \<Rightarrow> string" where
  "agent_text ErrBusy = ''reconciler still busy''"
| "agent_text ErrCentralNotChanged = ''central not changed''"
| "agent_text ErrDeletionInProgress = ''deletion in progress''"
| "agent_text ErrCentralTLSSecretNotFound = ''central-tls secret not found''"
| "agent_text (ApiErr r m) = m"
| "agent_text (Plain m) = m"
| "agent_text (Ctx m e) = m @ '': '' @ agent_text e"
| "agent_text (FromService e) = svc_Error e"

text \<open>\<^verbatim>\<open>errors.Is\<close> and \<^verbatim>\<open>errors.As\<close> look through the wrappers.\<close>

fun root_cause :: "agent_error \<Rightarrow> agent_error" where
  "root_cause (Ctx m e) = root_cause e"
| "root_cause e = e"

definition IsNotFound :: "agent_error \<Rightarrow> bool" where
  "IsNotFound e \<longleftrightarrow> (case root_cause e of ApiErr r _ \<Rightarrow> r = NotFoundReason | _ \<Rightarrow> False)"

definition IsAlreadyExists :: "agent_error \<Rightarrow> bool" where
  "IsAlreadyExists e \<longleftrightarrow> (case root_cause e of ApiErr r _ \<Rightarrow> r = AlreadyExistsReason | _ \<Rightarrow> False)"

definition IsSkippable :: "agent_error \<Rightarrow> bool" where
  "IsSkippable e \<longleftrightarrow> root_cause e = ErrBusy \<or> root_cause e = ErrCentralNotChanged \<or> root_cause e = ErrDeletionInProgress"

lemma IsNotFound_Ctx [simp]: "IsNotFound (Ctx m e) = IsNotFound e"
  by (simp add: IsNotFound_def)

lemma IsNotFound_simps [simp]:
  "\<not> IsNotFound ErrBusy" "\<not> IsNotFound (Plain m)" "IsNotFound (ApiErr r m) \<longleftrightarrow> r = NotFoundReason"
  by (simp_all add: IsNotFound_def)

subsection \<open>The tenant as the fleet manager describes it\<close>

record ManagedCentral =
  rcId :: string
  rcKind :: string
  rcName :: string
  rcNamespace :: string
  rcInternal :: bool
  rcMasId :: string
  rcMasPlacementId :: string
  rcDeletionTimestamp :: string
  rcOwners :: "string list"
  rcClientId :: string
  rcClientSecret :: string
  rcClientOrigin :: string
  rcOwnerUserId :: string
  rcOwnerOrgId :: string
  rcOwnerOrgName :: string
  rcIssuer :: string
  rcUiHost :: string
  rcTlsCert :: string
  rcTlsKey :: string
  rcDataHost :: string
  rcDesiredVersion :: string
  rcActualVersion :: string
  rcInstanceType :: string
  rcCentralResources :: ResourceRequirements
  rcScaling :: AnalyzerScaling
  rcAnalyzerResources :: ResourceRequirements
  rcDbHost :: string
  rcDbResources :: ResourceRequirements
  rcRequestStatus :: string

text \<open>The defaults come from the environment; decoding a stored spec leaves what could be decoded, and an
  error is only logged; the text of a time depends on its zone.\<close>

record QuantityDefaults =
  qdMemoryRequest :: string
  qdCPURequest :: string
  qdMemoryLimit :: string
  qdCPULimit :: string

record ScannerSpec =
  ssAnalyzerResources :: ResourceRequirements
  ssScaling :: AnalyzerScaling
  ssDbResources :: ResourceRequirements

record presenter_env =
  pmTLSCert :: string
  pmTLSKey :: string
  pmCentral :: QuantityDefaults
  pmAnalyzer :: QuantityDefaults
  pmScaling :: AnalyzerScaling
  pmDb :: QuantityDefaults
  pmDecodeCentral :: "string \<Rightarrow> ResourceRequirements"
  pmDecodeScanner :: "string \<Rightarrow> ScannerSpec"
  pmFormatTime :: "int \<Rightarrow> string"

definition orDefaultString :: "string \<Rightarrow> string \<Rightarrow> string" where
  "orDefaultString s d = (if s \<noteq> [] then s else d)"

definition orDefaultInt32 :: "int \<Rightarrow> int \<Rightarrow> int" where
  "orDefaultInt32 i d = (if i \<noteq> 0 then i else d)"

definition orDefaultQty :: "string option \<Rightarrow> string \<Rightarrow> string" where
  "orDefaultQty q d = (case q of Some v \<Rightarrow> if v \<noteq> [] then v else d | None \<Rightarrow> d)"

definition with_defaults :: "ResourceRequirements \<Rightarrow> QuantityDefaults \<Rightarrow> ResourceRequirements" where
  "with_defaults r d =
     \<lparr>rrRequests = [(ResourceCPU, orDefaultQty (map_of (rrRequests r) ResourceCPU) (qdCPURequest d)),
                    (ResourceMemory, orDefaultQty (map_of (rrRequests r) ResourceMemory) (qdMemoryRequest d))],
      rrLimits = [(ResourceCPU, orDefaultQty (map_of (rrLimits r) ResourceCPU) (qdCPULimit d)),
                  (ResourceMemory, orDefaultQty (map_of (rrLimits r) ResourceMemory) (qdMemoryLimit d))]\<rparr>"

definition empty_resources :: ResourceRequirements where "empty_resources = \<lparr>rrRequests = [], rrLimits = []\<rparr>"
definition empty_scaling :: AnalyzerScaling where
  "empty_scaling = \<lparr>asAutoScaling = [], asReplicas = 0, asMinReplicas = 0, asMaxReplicas = 0\<rparr>"
definition empty_scanner :: ScannerSpec where
  "empty_scanner = \<lparr>ssAnalyzerResources = empty_resources, ssScaling = empty_scaling, ssDbResources = empty_resources\<rparr>"

definition PresentManagedCentral :: "presenter_env \<Rightarrow> CentralRequest \<Rightarrow> ManagedCentral" where
  "PresentManagedCentral pm k =
     (let central = (case crCentral k of Some j \<Rightarrow> if j \<noteq> [] then pmDecodeCentral pm j else empty_resources | None \<Rightarrow> empty_resources);
          scanner = (case crScanner k of Some j \<Rightarrow> if j \<noteq> [] then pmDecodeScanner pm j else empty_scanner | None \<Rightarrow> empty_scanner) in
      \<lparr>rcId = crID k, rcKind = ''ManagedCentral'', rcName = crName k, rcNamespace = crNamespace k, rcInternal = crInternal k,
       rcMasId = crID k, rcMasPlacementId = crPlacementID k,
       rcDeletionTimestamp = (case crDeletionTimestamp k of Some t \<Rightarrow> pmFormatTime pm t | None \<Rightarrow> []),
       rcOwners = [crOwner k], rcClientId = crClientID k, rcClientSecret = crClientSecret k, rcClientOrigin = crClientOrigin k,
       rcOwnerUserId = crOwnerUserID k, rcOwnerOrgId = crOrganisationID k, rcOwnerOrgName = crOrganisationName k, rcIssuer = crIssuer k,
       rcUiHost = GetUIHost k, rcTlsCert = pmTLSCert pm, rcTlsKey = pmTLSKey pm, rcDataHost = GetDataHost k,
       rcDesiredVersion = crDesiredCentralVersion k, rcActualVersion = crActualCentralVersion k, rcInstanceType = crInstanceType k,
       rcCentralResources = with_defaults central (pmCentral pm),
       rcScaling = \<lparr>asAutoScaling = orDefaultString (asAutoScaling (ssScaling scanner)) (asAutoScaling (pmScaling pm)),
                    asReplicas = orDefaultInt32 (asReplicas (ssScaling scanner)) (asReplicas (pmScaling pm)),
                    asMinReplicas = orDefaultInt32 (asMinReplicas (ssScaling scanner)) (asMinReplicas (pmScaling pm)),
                    asMaxReplicas = orDefaultInt32 (asMaxReplicas (ssScaling scanner)) (asMaxReplicas (pmScaling pm))\<rparr>,
       rcAnalyzerResources = with_defaults (ssAnalyzerResources scanner) (pmAnalyzer pm),
       rcDbHost = ''dbhost.rhacs-psql-instance'', rcDbResources = with_defaults (ssDbResources scanner) (pmDb pm),
       rcRequestStatus = crStatus k\<rparr>)"

subsection \<open>Reports\<close>

text \<open>A report of the agent on one tenant; \<open>None\<close> is a nil list of routes.\<close>

record agent_status =
  agConditions :: "DataPlaneCentralStatusCondition list"
  agCentralVersion :: string
  agCentralOperatorVersion :: string
  agRoutes :: "DataPlaneCentralRoute list option"

definition ready_condition :: "string \<Rightarrow> string \<Rightarrow> agent_status" where
  "ready_condition st reas = \<lparr>agConditions = [\<lparr>dcType = ''Ready'', dcReason = reas, dcStatus = st, dcMessage = []\<rparr>],
     agCentralVersion = [], agCentralOperatorVersion = [], agRoutes = None\<rparr>"

definition readyStatus :: agent_status where "readyStatus = ready_condition ''True'' []"
definition deletedStatus :: agent_status where "deletedStatus = ready_condition ''False'' ''Deleted''"
definition installingStatus :: agent_status where "installingStatus = ready_condition ''False'' ''Installing''"

text \<open>The fleet manager converts what it receives; the map is iterated in the order of the list.\<close>

definition ConvertDataPlaneDinosaurStatus :: "(string \<times> agent_status) list \<Rightarrow> DataPlaneCentralStatus list" where
  "ConvertDataPlaneDinosaurStatus m = map (\<lambda>(k, v).
     \<lparr>dsCentralClusterID = k, dsConditions = agConditions v, dsRoutes = agRoutes v,
      dsCentralVersion = agCentralVersion v, dsCentralOperatorVersion = agCentralOperatorVersion v\<rparr>) m"

subsection \<open>Objects of the cluster\<close>

type_synonym meta_map = "(string \<times> string) list"

record CentralDBSpec =
  cdConnectionString :: string
  cdPasswordSecret :: string

record CentralSpec =
  csRouteEnabled :: bool
  csExposeEndpoint :: bool
  csResources :: ResourceRequirements
  csTelemetryEnabled :: bool
  csTelemetryEndpoint :: string
  csTelemetryKey :: string
  csAdminPasswordGenerationDisabled :: "bool option"
  csDB :: "CentralDBSpec option"
  csAnalyzerResources :: ResourceRequirements
  csAnalyzerScaling :: AnalyzerScaling
  csScannerDBResources :: ResourceRequirements
  csScannerExposeEndpoint :: bool
  csEnvVars :: meta_map
  csAnnotations :: meta_map
  csLabels :: meta_map
  csAdditionalCAs :: meta_map

record CentralCR =
  ccrName :: string
  ccrNamespace :: string
  ccrLabels :: meta_map
  ccrAnnotations :: "meta_map option"
  ccrSpec :: CentralSpec

record k8s_Namespace =
  nsName :: string
  nsLabels :: meta_map
  nsAnnotations :: meta_map
  nsPhase :: string

record Secret =
  seName :: string
  seNamespace :: string
  seLabels :: meta_map
  seAnnotations :: "meta_map option"
  seData :: meta_map

record RouteIngress =
  riHost :: string
  riRouterCanonicalHostname :: string
  riConditions :: "(string \<times> string) list"

record k8s_Route =
  krName :: string
  krNamespace :: string
  krLabels :: meta_map
  krHost :: string
  krTermination :: string
  krKey :: string
  krCertificate :: string
  krDestinationCA :: string
  krIngress :: "RouteIngress list"

record Deployment =
  dpAvailableReplicas :: int
  dpUnavailableReplicas :: int

record k8s_Service =
  svNamespace :: string
  svName :: string
  svPorts :: "(string \<times> int) list"

text \<open>An object of a chart: its group, version and kind as one text, its key, its version, whether it is being
  deleted, and the rest.\<close>

record Unstructured =
  unGVK :: string
  unNamespace :: string
  unName :: string
  unResourceVersion :: string
  unDeleting :: bool
  unBody :: string

subsection \<open>Constants and helpers\<close>

definition ManagedByLabelKey :: string where "ManagedByLabelKey = ''app.kubernetes.io/managed-by''"
definition ManagedByFleetshardValue :: string where "ManagedByFleetshardValue = ''rhacs-fleetshard''"

definition helmReleaseName :: string where "helmReleaseName = ''tenant-resources''"
definition managedServicesAnnotation :: string where "managedServicesAnnotation = ''platform.stackrox.io/managed-services''"
definition pauseReconcileAnnotation :: string where "pauseReconcileAnnotation = ''stackrox.io/pause-reconcile''"
definition envAnnotationKey :: string where "envAnnotationKey = ''rhacs.redhat.com/environment''"
definition clusterNameAnnotationKey :: string where "clusterNameAnnotationKey = ''rhacs.redhat.com/cluster-name''"
definition orgNameAnnotationKey :: string where "orgNameAnnotationKey = ''rhacs.redhat.com/org-name''"
definition instanceTypeLabelKey :: string where "instanceTypeLabelKey = ''rhacs.redhat.com/instance-type''"
definition orgIDLabelKey :: string where "orgIDLabelKey = ''rhacs.redhat.com/org-id''"
definition tenantIDLabelKey :: string where "tenantIDLabelKey = ''rhacs.redhat.com/tenant''"
definition operatorVersionKey :: string where "operatorVersionKey = ''stackrox.io/operator-version''"
definition defaultOperatorVersion :: string where "defaultOperatorVersion = ''rhacs-operator.v3.74.0''"
definition dbUserTypeAnnotation :: string where "dbUserTypeAnnotation = ''platform.stackrox.io/user-type''"
definition dbUserTypeMaster :: string where "dbUserTypeMaster = ''master''"
definition dbUserTypeCentral :: string where "dbUserTypeCentral = ''central''"
definition dbCentralUserName :: string where "dbCentralUserName = ''rhacs_central''"
definition centralDbSecretName :: string where "centralDbSecretName = ''central-db-password''"
definition RevisionAnnotationKey :: string where "RevisionAnnotationKey = ''rhacs.redhat.com/revision''"

text \<open>Resources: empty quantities are dropped, the first that does not parse is an error.\<close>

fun apiResourcesToCoreV1 :: "(string \<Rightarrow> agent_error + string) \<Rightarrow> meta_map \<Rightarrow> agent_error + meta_map" where
  "apiResourcesToCoreV1 parse [] = Inr []"
| "apiResourcesToCoreV1 parse ((name, qty) # rs) =
     (if qty = [] then apiResourcesToCoreV1 parse rs
      else (case parse qty of
        Inl e \<Rightarrow> Inl (Plain (''parsing quantity '' @ go_quote qty @ '' for resource '' @ name @ '': '' @ agent_text e))
      | Inr q \<Rightarrow> (case apiResourcesToCoreV1 parse rs of
           Inl e \<Rightarrow> Inl e
         | Inr m \<Rightarrow> Inr ((name, q) # m))))"

definition ConvertPrivateResourceRequirementsToCoreV1 ::
  "(string \<Rightarrow> agent_error + string) \<Rightarrow> ResourceRequirements \<Rightarrow> agent_error + ResourceRequirements" where
  "ConvertPrivateResourceRequirementsToCoreV1 parse res = (case apiResourcesToCoreV1 parse (rrRequests res) of
     Inl e \<Rightarrow> Inl e
   | Inr requests \<Rightarrow> (case apiResourcesToCoreV1 parse (rrLimits res) of
        Inl e \<Rightarrow> Inl e
      | Inr limits \<Rightarrow> Inr \<lparr>rrRequests = requests, rrLimits = limits\<rparr>))"

text \<open>The loop over the services has no fixed order, the sort afterwards has.\<close>

definition direct_services :: "(string \<times> int list) list" where
  "direct_services = [(''central'', [443]), (''scanner'', [8080, 8443]), (''scanner-db'', [5432])]"

definition no_proxy_targets :: "string \<Rightarrow> (string \<times> int list) list \<Rightarrow> string list" where
  "no_proxy_targets ns svcs = concat (map (\<lambda>(svc, ports). concat (map (\<lambda>port.
     [svc @ '':'' @ itoa port, svc @ ''.'' @ ns @ '':'' @ itoa port, svc @ ''.'' @ ns @ ''.svc:'' @ itoa port]) ports)) svcs)"

fun join_commas :: "string list \<Rightarrow> string" where
  "join_commas [] = []"
| "join_commas [s] = s"
| "join_commas (s # ss) = s @ '','' @ join_commas ss"

definition getProxyEnvVars :: "string \<Rightarrow> meta_map" where
  "getProxyEnvVars ns =
     (let proxyURL = ''http://egress-proxy.'' @ ns @ ''.svc:3128'';
          noProxyStr = join_commas (sort (no_proxy_targets ns direct_services)) in
      map (\<lambda>n. (n, proxyURL)) [''http_proxy'', ''HTTP_PROXY'', ''https_proxy'', ''HTTPS_PROXY'', ''all_proxy'', ''ALL_PROXY''] @
      map (\<lambda>n. (n, noProxyStr)) [''no_proxy'', ''NO_PROXY''])"

definition IncrementCentralRevision :: "CentralCR \<Rightarrow> agent_error + CentralCR" where
  "IncrementCentralRevision c = (case ccrAnnotations c of
     None \<Rightarrow> Inr (c\<lparr>ccrAnnotations := Some [(RevisionAnnotationKey, ''1'')]\<rparr>)
   | Some an \<Rightarrow> (case map_of an RevisionAnnotationKey of
        None \<Rightarrow> Inr (c\<lparr>ccrAnnotations := Some (AList.update RevisionAnnotationKey ''1'' an)\<rparr>)
      | Some revisionString \<Rightarrow> (case Atoi revisionString of
           (_, False) \<Rightarrow> Inl (Ctx (''failed to increment central revision '' @ ccrName c) (Plain ''strconv.Atoi: invalid syntax or range''))
         | (revision, True) \<Rightarrow>
             Inr (c\<lparr>ccrAnnotations := Some (AList.update RevisionAnnotationKey (itoa (wrap_int64 (revision + 1))) an)\<rparr>))))"

record DBConnection =
  dbHost :: string
  dbPort :: int
  dbDatabase :: string
  dbUser :: string
  dbPassword :: string
  dbSslRootCert :: string

definition sslMode :: string where "sslMode = ''verify-full''"

definition NewDBConnection :: "string \<Rightarrow> int \<Rightarrow> string \<Rightarrow> string \<Rightarrow> agent_error + DBConnection" where
  "NewDBConnection host port user database =
     (if host = [] then Inl (Plain ''host parameter cannot be empty'')
      else if port = 0 then Inl (Plain ''port parameter cannot be 0'')
      else if user = [] then Inl (Plain ''user parameter cannot be empty'')
      else if database = [] then Inl (Plain ''database parameter cannot be empty'')
      else Inr \<lparr>dbHost = host, dbPort = port, dbDatabase = database, dbUser = user, dbPassword = [], dbSslRootCert = []\<rparr>)"

definition AsConnectionString :: "DBConnection \<Rightarrow> string" where
  "AsConnectionString c =
     (let s = ''host='' @ dbHost c @ '' port='' @ itoa (dbPort c) @ '' user='' @ dbUser c @ '' dbname='' @ dbDatabase c @ '' sslmode='' @ sslMode in
      if dbSslRootCert c \<noteq> [] then s @ '' sslrootcert='' @ dbSslRootCert c else s)"

end
