(* ===== verification/Shard_Reconciler.thy ===== *)
theory Shard_Reconciler
  imports Shard_Types "HOL-Library.State_Monad"
begin

text \<open>
  The reconciler of one tenant on a data-plane cluster (\<^verbatim>\<open>fleetshard/pkg/central/reconciler\<close>, with the route
  service of \<^verbatim>\<open>fleetshard/pkg/k8s\<close>, the client of a tenant's API of \<^verbatim>\<open>fleetshard/pkg/central/client\<close> and the
  charts). The operations are in the state monad. The state has the cluster with the other outside
  systems, of any type, the calls that changed something, and the mutable fields of the reconciler.
  The Kubernetes client, the database provider, the HTTP transport, the template engine and
  the codecs are functions of the environment.
\<close>

subsection \<open>State and calls\<close>

datatype kube_object =
    OCentral CentralCR
  | ONamespace k8s_Namespace
  | OSecret Secret
  | ORoute k8s_Route
  | OChart Unstructured

text \<open>Requests to the API of a tenant.\<close>

record AuthProvider =
  apName :: string
  apType :: string
  apUiEndpoint :: string
  apEnabled :: bool
  apConfig :: meta_map
  apClaimMappings :: meta_map
  apExtraUiEndpoints :: "string list"
  apRequiredAttributes :: meta_map
  apMutability :: string
  apActive :: bool

record Group =
  gpAuthProviderId :: string
  gpKey :: string
  gpValue :: string
  gpMutability :: "string option"
  gpRoleName :: string

datatype central_message = NoMessage | AuthProviderMessage AuthProvider | GroupMessage Group

record central_request =
  hqMethod :: string
  hqURL :: string
  hqBody :: string
  hqBasicAuth :: "(string \<times> string) option"

record central_response =
  hrStatusCode :: int
  hrBody :: string

datatype shard_call =
    Create kube_object
  | Update kube_object
  | Delete kube_object
  | ProvisionDB string string
  | DeprovisionDB string
  | InitDB DBConnection string string
  | HTTPDo central_request

datatype chart_values = TenantValues meta_map "string option" | OperatorValues string

record 's sync_env =
  syGetCentral :: "string \<Rightarrow> string \<Rightarrow> 's \<Rightarrow> (agent_error + CentralCR) \<times> 's"
  syGetNamespace :: "string \<Rightarrow> 's \<Rightarrow> (agent_error + k8s_Namespace) \<times> 's"
  syGetSecret :: "string \<Rightarrow> string \<Rightarrow> 's \<Rightarrow> (agent_error + Secret) \<times> 's"
  syGetRoute :: "string \<Rightarrow> string \<Rightarrow> 's \<Rightarrow> (agent_error + k8s_Route) \<times> 's"
  syGetDeployment :: "string \<Rightarrow> string \<Rightarrow> 's \<Rightarrow> (agent_error + Deployment) \<times> 's"
  syGetService :: "string \<Rightarrow> string \<Rightarrow> 's \<Rightarrow> (agent_error + k8s_Service) \<times> 's"
  syGetObject :: "string \<Rightarrow> string \<Rightarrow> string \<Rightarrow> 's \<Rightarrow> (agent_error + Unstructured) \<times> 's"
  syCreate :: "kube_object \<Rightarrow> 's \<Rightarrow> (agent_error + unit) \<times> 's"
  syUpdate :: "kube_object \<Rightarrow> 's \<Rightarrow> (agent_error + unit) \<times> 's"
  syDelete :: "kube_object \<Rightarrow> 's \<Rightarrow> (agent_error + unit) \<times> 's"
  syProvisionDB :: "string \<Rightarrow> string \<Rightarrow> 's \<Rightarrow> (agent_error + unit) \<times> 's"
  syDeprovisionDB :: "string \<Rightarrow> 's \<Rightarrow> (agent_error + unit) \<times> 's"
  syGetDBConnection :: "string \<Rightarrow> 's \<Rightarrow> (agent_error + DBConnection) \<times> 's"
  syInitDB :: "DBConnection \<Rightarrow> string \<Rightarrow> string \<Rightarrow> 's \<Rightarrow> (agent_error + unit) \<times> 's"
  syGeneratePassword :: "'s \<Rightarrow> (agent_error + string) \<times> 's"
  syHTTP :: "central_request \<Rightarrow> 's \<Rightarrow> (agent_error + central_response) \<times> 's"
  syNewRequest :: "string \<Rightarrow> string \<Rightarrow> agent_error option"
  syMarshal :: "central_message \<Rightarrow> agent_error + string"
  syDecodeAuthProvider :: "string \<Rightarrow> agent_error + string"
  syDecodeLogins :: "string \<Rightarrow> agent_error + (string \<times> string) list"
  syDecodeError :: "string \<Rightarrow> agent_error + string"
  syServerFromURL :: "string \<Rightarrow> string"
  syRenderValues :: "string \<Rightarrow> string \<Rightarrow> chart_values \<Rightarrow> agent_error + string"
  syRender :: "string \<Rightarrow> agent_error + (string \<times> string) list"
  syParseYAML :: "string \<Rightarrow> agent_error + Unstructured list"
  syReadFile :: "string \<Rightarrow> agent_error + string"
  syHash :: "ManagedCentral \<Rightarrow> agent_error + string"
  syParseQuantity :: "string \<Rightarrow> agent_error + string"
  syUseRoutes :: bool
  syWantsAuthProvider :: bool
  syEgressProxyImage :: string
  syManagedDBEnabled :: bool
  syTelemetryEndpoint :: string
  syTelemetryKey :: string
  syClusterName :: string
  syEnvironment :: string
  syUpgradeOperatorEnabled :: bool

definition FreeStatus :: int where "FreeStatus = 0"
definition BlockedStatus :: int where "BlockedStatus = 1"

record CentralReconciler =
  cnStatus :: int
  cnLastCentralHash :: string
  cnHasAuthProvider :: bool

record 's shard =
  shCluster :: 's
  shCalls :: "shard_call list"
  shSelf :: CentralReconciler
  shCertificates :: "string option"

type_synonym ('s, 'a) act = "('s shard, 'a) state"
type_synonym ('s, 'a) fallible = "('s shard, agent_error + 'a) state"

text \<open>Reading leaves no trace in the log; every other call does, whether it succeeds or not.\<close>

definition observe :: "('s \<Rightarrow> 'a \<times> 's) \<Rightarrow> ('s, 'a) act" where
  "observe f = State (\<lambda>s. case f (shCluster s) of (a, k) \<Rightarrow> (a, s\<lparr>shCluster := k\<rparr>))"

definition perform :: "shard_call \<Rightarrow> ('s \<Rightarrow> 'a \<times> 's) \<Rightarrow> ('s, 'a) act" where
  "perform c f = State (\<lambda>s. case f (shCluster s) of (a, k) \<Rightarrow> (a, s\<lparr>shCluster := k, shCalls := shCalls s @ [c]\<rparr>))"

definition self :: "('s, CentralReconciler) act" where
  "self = State (\<lambda>s. (shSelf s, s))"

definition set_self :: "(CentralReconciler \<Rightarrow> CentralReconciler) \<Rightarrow> ('s, unit) act" where
  "set_self f = State (\<lambda>s. ((), s\<lparr>shSelf := f (shSelf s)\<rparr>))"

definition succeed :: "'a \<Rightarrow> ('s, 'a) fallible" where "succeed a = State_Monad.return (Inr a)"
definition fail :: "agent_error \<Rightarrow> ('s, 'a) fallible" where "fail e = State_Monad.return (Inl e)"

text \<open>\<^verbatim>\<open>a, err := m; if err != nil { return f(err) }\<close> and then the rest.\<close>

definition checked :: "('s, 'a) fallible \<Rightarrow> (agent_error \<Rightarrow> agent_error) \<Rightarrow> ('a \<Rightarrow> ('s, 'b) fallible) \<Rightarrow> ('s, 'b) fallible" where
  "checked m f k = do { r \<leftarrow> m; case r of Inl e \<Rightarrow> fail (f e) | Inr a \<Rightarrow> k a }"

definition create_obj :: "'s sync_env \<Rightarrow> kube_object \<Rightarrow> ('s, unit) fallible" where
  "create_obj sy ob = perform (Create ob) (syCreate sy ob)"

definition update_obj :: "'s sync_env \<Rightarrow> kube_object \<Rightarrow> ('s, unit) fallible" where
  "update_obj sy ob = perform (Update ob) (syUpdate sy ob)"

definition delete_obj :: "'s sync_env \<Rightarrow> kube_object \<Rightarrow> ('s, unit) fallible" where
  "delete_obj sy ob = perform (Delete ob) (syDelete sy ob)"

subsection \<open>Routes\<close>

definition centralReencryptRouteName :: string where "centralReencryptRouteName = ''managed-central-reencrypt''"
definition centralPassthroughRouteName :: string where "centralPassthroughRouteName = ''managed-central-passthrough''"
definition centralTLSSecretName :: string where "centralTLSSecretName = ''central-tls''"

definition findRoute :: "'s sync_env \<Rightarrow> string \<Rightarrow> string \<Rightarrow> ('s, k8s_Route) fallible" where
  "findRoute sy ns name = checked (observe (syGetRoute sy ns name)) (Ctx (''retrieving route '' @ go_quote name @ '' from Kubernetes'')) succeed"

text \<open>The first condition of type \<^verbatim>\<open>Admitted\<close> decides.\<close>

definition isAdmitted :: "RouteIngress \<Rightarrow> bool" where
  "isAdmitted ri = (map_of (riConditions ri) ''Admitted'' = Some ''True'')"

definition findFirstAdmittedIngress :: "'s sync_env \<Rightarrow> string \<Rightarrow> string \<Rightarrow> ('s, RouteIngress) fallible" where
  "findFirstAdmittedIngress sy ns name = checked (findRoute sy ns name) (\<lambda>_. Plain ''route not found'') (\<lambda>route.
     case find isAdmitted (krIngress route) of
       Some ri \<Rightarrow> succeed ri
     | None \<Rightarrow> fail (Plain (''unable to find admitted ingress. route: '' @ krNamespace route @ ''/'' @ krName route)))"

definition createCentralRoute :: "'s sync_env \<Rightarrow> k8s_Route \<Rightarrow> ('s, unit) fallible" where
  "createCentralRoute sy route = checked (create_obj sy (ORoute route)) (Ctx (''creating route '' @ krNamespace route @ ''/'' @ krName route)) succeed"

definition central_route :: "string \<Rightarrow> string \<Rightarrow> string \<Rightarrow> string \<Rightarrow> k8s_Route" where
  "central_route name ns host termination =
     \<lparr>krName = name, krNamespace = ns, krLabels = [(ManagedByLabelKey, ManagedByFleetshardValue)], krHost = host,
      krTermination = termination, krKey = [], krCertificate = [], krDestinationCA = [], krIngress = []\<rparr>"

definition CreateReencryptRoute :: "'s sync_env \<Rightarrow> ManagedCentral \<Rightarrow> ('s, unit) fallible" where
  "CreateReencryptRoute sy rc = do {
     r \<leftarrow> observe (syGetSecret sy (rcNamespace rc) centralTLSSecretName);
     case r of
       Inl e \<Rightarrow> fail (if IsNotFound e then ErrCentralTLSSecretNotFound
                     else Ctx (''get central TLS secret '' @ rcNamespace rc @ ''/'' @ rcName rc) e)
     | Inr secret \<Rightarrow> (case map_of (seData secret) ''ca.pem'' of
         None \<Rightarrow> fail (Plain (''could not find centrals ca certificate '' @ [CHR 39] @ ''ca.pem'' @ [CHR 39] @ '' in secret/'' @ centralTLSSecretName))
       | Some centralCA \<Rightarrow>
           createCentralRoute sy ((central_route centralReencryptRouteName (rcNamespace rc) (rcUiHost rc) ''reencrypt'')
             \<lparr>krKey := rcTlsKey rc, krCertificate := rcTlsCert rc, krDestinationCA := centralCA\<rparr>)) }"

definition CreatePassthroughRoute :: "'s sync_env \<Rightarrow> ManagedCentral \<Rightarrow> ('s, unit) fallible" where
  "CreatePassthroughRoute sy rc =
     createCentralRoute sy (central_route centralPassthroughRouteName (rcNamespace rc) (rcDataHost rc) ''passthrough'')"

definition ensureReencryptRouteExists :: "'s sync_env \<Rightarrow> ManagedCentral \<Rightarrow> ('s, unit) fallible" where
  "ensureReencryptRouteExists sy rc = do {
     r \<leftarrow> findRoute sy (rcNamespace rc) centralReencryptRouteName;
     case r of
       Inr _ \<Rightarrow> succeed ()
     | Inl e \<Rightarrow>
         if \<not> IsNotFound e then fail (Ctx (''retrieving reencrypt route for namespace '' @ go_quote (rcNamespace rc)) e)
         else checked (CreateReencryptRoute sy rc) (Ctx (''creating reencrypt route for central '' @ rcId rc)) succeed }"

definition ensurePassthroughRouteExists :: "'s sync_env \<Rightarrow> ManagedCentral \<Rightarrow> ('s, unit) fallible" where
  "ensurePassthroughRouteExists sy rc = do {
     r \<leftarrow> findRoute sy (rcNamespace rc) centralPassthroughRouteName;
     case r of
       Inr _ \<Rightarrow> succeed ()
     | Inl e \<Rightarrow>
         if \<not> IsNotFound e then fail (Ctx (''retrieving passthrough route for namespace '' @ go_quote (rcNamespace rc)) e)
         else checked (CreatePassthroughRoute sy rc) (Ctx (''creating passthrough route for central '' @ rcId rc)) succeed }"

definition ensureRoutesExist :: "'s sync_env \<Rightarrow> ManagedCentral \<Rightarrow> ('s, unit) fallible" where
  "ensureRoutesExist sy rc = checked (ensureReencryptRouteExists sy rc) id (\<lambda>_. ensurePassthroughRouteExists sy rc)"

definition ensureRouteDeleted :: "'s sync_env \<Rightarrow> string \<Rightarrow> string \<Rightarrow> ('s, bool) fallible" where
  "ensureRouteDeleted sy ns name = do {
     r \<leftarrow> findRoute sy ns name;
     case r of
       Inl e \<Rightarrow> if IsNotFound e then succeed True else fail (Ctx (''get central route '' @ ns @ ''/'' @ name) e)
     | Inr route \<Rightarrow> checked (delete_obj sy (ORoute route)) (Ctx (''delete central route '' @ krNamespace route @ ''/'' @ krName route)) (\<lambda>_. succeed False) }"

definition getRouteStatus :: "RouteIngress \<Rightarrow> DataPlaneCentralRoute" where
  "getRouteStatus ri = \<lparr>rtDomain = riHost ri, rtRouter = riRouterCanonicalHostname ri\<rparr>"

definition getRoutesStatuses :: "'s sync_env \<Rightarrow> string \<Rightarrow> ('s, DataPlaneCentralRoute list) fallible" where
  "getRoutesStatuses sy ns =
     checked (findFirstAdmittedIngress sy ns centralReencryptRouteName) (Ctx ''obtaining ingress for reencrypt route'') (\<lambda>reencryptIngress.
     checked (findFirstAdmittedIngress sy ns centralPassthroughRouteName) (Ctx ''obtaining ingress for passthrough route'') (\<lambda>passthroughIngress.
     succeed [getRouteStatus reencryptIngress, getRouteStatus passthroughIngress]))"

subsection \<open>Namespaces\<close>

definition NamespaceTerminating :: string where "NamespaceTerminating = ''Terminating''"

definition getNamespace :: "'s sync_env \<Rightarrow> string \<Rightarrow> ('s, k8s_Namespace) fallible" where
  "getNamespace sy name =
     checked (observe (syGetNamespace sy name)) (Ctx (''retrieving resource for namespace '' @ go_quote name @ '' from Kubernetes'')) succeed"

definition createTenantNamespace :: "'s sync_env \<Rightarrow> k8s_Namespace \<Rightarrow> ('s, unit) fallible" where
  "createTenantNamespace sy ns = checked (create_obj sy (ONamespace ns)) (Ctx (''creating namespace '' @ go_quote (nsName ns))) succeed"

definition ensureNamespaceExists :: "'s sync_env \<Rightarrow> string \<Rightarrow> meta_map \<Rightarrow> meta_map \<Rightarrow> ('s, unit) fallible" where
  "ensureNamespaceExists sy name labels annotations = do {
     r \<leftarrow> getNamespace sy name;
     case r of
       Inr _ \<Rightarrow> succeed ()
     | Inl e \<Rightarrow>
         if IsNotFound e then createTenantNamespace sy \<lparr>nsName = name, nsLabels = labels, nsAnnotations = annotations, nsPhase = []\<rparr>
         else fail (Ctx (''getting namespace '' @ name) e) }"

definition ensureNamespaceDeleted :: "'s sync_env \<Rightarrow> string \<Rightarrow> ('s, bool) fallible" where
  "ensureNamespaceDeleted sy name = do {
     r \<leftarrow> getNamespace sy name;
     case r of
       Inl e \<Rightarrow> if IsNotFound e then succeed True else fail (Ctx (''delete central namespace '' @ name) e)
     | Inr ns \<Rightarrow>
         if nsPhase ns = NamespaceTerminating then succeed False
         else checked (delete_obj sy (ONamespace ns)) (Ctx (''delete central namespace '' @ name)) (\<lambda>_. succeed False) }"

subsection \<open>The managed database\<close>

definition CentralDatabaseCACertificateBaseName :: string where "CentralDatabaseCACertificateBaseName = ''rds-ca-bundle''"
definition DatabaseCACertificatePathFleetshard :: string where
  "DatabaseCACertificatePathFleetshard = ''/usr/local/share/ca-certificates/aws-rds-ca-global-bundle.pem''"
definition DatabaseCACertificatePathCentral :: string where
  "DatabaseCACertificatePathCentral = ''/usr/local/share/ca-certificates/00-'' @ CentralDatabaseCACertificateBaseName @ ''.crt''"

text \<open>The file is read once per process: only the first call sees its error, later ones answer without
  certificates.\<close>

definition GetDatabaseCACertificates :: "'s sync_env \<Rightarrow> ('s, string) fallible" where
  "GetDatabaseCACertificates sy = State (\<lambda>s. case shCertificates s of
     Some rdsCertificateData \<Rightarrow> (Inr rdsCertificateData, s)
   | None \<Rightarrow> (case syReadFile sy DatabaseCACertificatePathFleetshard of
        Inl e \<Rightarrow> (Inl (Ctx ''reading DB server CA file'' e), s\<lparr>shCertificates := Some []\<rparr>)
      | Inr bytes \<Rightarrow> (Inr bytes, s\<lparr>shCertificates := Some bytes\<rparr>)))"

definition get_db_secret :: "'s sync_env \<Rightarrow> string \<Rightarrow> ('s, Secret) fallible" where
  "get_db_secret sy ns = observe (syGetSecret sy ns centralDbSecretName)"

definition set_password :: "string \<Rightarrow> string \<Rightarrow> Secret \<Rightarrow> Secret" where
  "set_password userType password se = se\<lparr>seData := [(''password'', password)],
     seAnnotations := Some (AList.update dbUserTypeAnnotation userType (case seAnnotations se of None \<Rightarrow> [] | Some an \<Rightarrow> an))\<rparr>"

definition new_db_secret :: "string \<Rightarrow> Secret" where
  "new_db_secret ns = \<lparr>seName = centralDbSecretName, seNamespace = ns, seLabels = [(ManagedByLabelKey, ManagedByFleetshardValue)],
     seAnnotations = Some [(managedServicesAnnotation, ''true'')], seData = []\<rparr>"

definition ensureCentralDBSecretExists :: "'s sync_env \<Rightarrow> string \<Rightarrow> string \<Rightarrow> string \<Rightarrow> ('s, unit) fallible" where
  "ensureCentralDBSecretExists sy ns userType password = do {
     r \<leftarrow> get_db_secret sy ns;
     case r of
       Inr secret \<Rightarrow> checked (update_obj sy (OSecret (set_password userType password secret))) (Ctx ''updating Central DB secret'') succeed
     | Inl e \<Rightarrow>
         if \<not> IsNotFound e then fail (Ctx ''getting Central DB secret'' e)
         else checked (create_obj sy (OSecret (set_password userType password (new_db_secret ns)))) (Ctx ''creating Central DB secret'') succeed }"

definition centralDBSecretExists :: "'s sync_env \<Rightarrow> string \<Rightarrow> ('s, bool) fallible" where
  "centralDBSecretExists sy ns = do {
     r \<leftarrow> get_db_secret sy ns;
     case r of
       Inl e \<Rightarrow> if IsNotFound e then succeed False else fail (Ctx ''getting central DB secret'' e)
     | Inr _ \<Rightarrow> succeed True }"

text \<open>Without the annotation the secret holds the master password.\<close>

definition user_type :: "Secret \<Rightarrow> string option" where
  "user_type se = (case seAnnotations se of None \<Rightarrow> None | Some an \<Rightarrow> map_of an dbUserTypeAnnotation)"

definition centralDBUserExists :: "'s sync_env \<Rightarrow> string \<Rightarrow> ('s, bool) fallible" where
  "centralDBUserExists sy ns = do {
     r \<leftarrow> get_db_secret sy ns;
     case r of
       Inl e \<Rightarrow> if IsNotFound e then succeed False else fail (Ctx ''getting central DB secret'' e)
     | Inr secret \<Rightarrow> succeed (user_type secret = Some dbUserTypeCentral) }"

definition ensureCentralDBSecretDeleted :: "'s sync_env \<Rightarrow> string \<Rightarrow> ('s, bool) fallible" where
  "ensureCentralDBSecretDeleted sy ns = do {
     r \<leftarrow> get_db_secret sy ns;
     case r of
       Inl e \<Rightarrow> if IsNotFound e then succeed True else fail (Ctx ''deleting Central DB secret'' e)
     | Inr secret \<Rightarrow> checked (delete_obj sy (OSecret secret))
         (\<lambda>_. Plain (''deleting central DB secret '' @ ns @ ''/'' @ centralDbSecretName)) (\<lambda>_. succeed False) }"

definition getDBPasswordFromSecret :: "'s sync_env \<Rightarrow> string \<Rightarrow> ('s, string) fallible" where
  "getDBPasswordFromSecret sy ns = checked (get_db_secret sy ns) (Ctx ''getting Central DB password from secret'') (\<lambda>secret.
     case map_of (seData secret) ''password'' of
       Some password \<Rightarrow> succeed password
     | None \<Rightarrow> fail (Plain ''central DB secret does not contain password field: %!w(<nil>)''))"

definition generateDBPassword :: "'s sync_env \<Rightarrow> ('s, string) fallible" where
  "generateDBPassword sy = checked (observe (syGeneratePassword sy)) (Ctx ''generating DB password'') succeed"

definition ensure_master_secret :: "'s sync_env \<Rightarrow> string \<Rightarrow> bool \<Rightarrow> ('s, unit) fallible" where
  "ensure_master_secret sy ns present =
     (if present then succeed ()
      else checked (generateDBPassword sy) (Ctx ''generating Central DB master password'') (\<lambda>dbMasterPassword.
           checked (ensureCentralDBSecretExists sy ns dbUserTypeMaster dbMasterPassword) (Ctx ''ensuring that DB secret exists'') succeed))"

definition ensureManagedCentralDBInitialized :: "'s sync_env \<Rightarrow> ManagedCentral \<Rightarrow> ('s, unit) fallible" where
  "ensureManagedCentralDBInitialized sy rc = (let ns = rcNamespace rc in
     checked (centralDBSecretExists sy ns) id (\<lambda>present.
     checked (ensure_master_secret sy ns present) id (\<lambda>_.
     checked (getDBPasswordFromSecret sy ns) (Ctx ''getting DB password from secret'') (\<lambda>dbMasterPassword.
     checked (perform (ProvisionDB (rcId rc) dbMasterPassword) (syProvisionDB sy (rcId rc) dbMasterPassword)) (Ctx ''provisioning RDS DB'') (\<lambda>_.
     checked (observe (syGetDBConnection sy (rcId rc))) (Ctx ''getting RDS DB connection data'') (\<lambda>dbConnection.
     checked (generateDBPassword sy) (Ctx ''generating Central DB password'') (\<lambda>dbCentralPassword.
     let conn = dbConnection\<lparr>dbPassword := dbMasterPassword, dbSslRootCert := DatabaseCACertificatePathFleetshard\<rparr> in
     checked (perform (InitDB conn dbCentralUserName dbCentralPassword) (syInitDB sy conn dbCentralUserName dbCentralPassword))
       (Ctx ''initializing managed DB'') (\<lambda>_.
     ensureCentralDBSecretExists sy ns dbUserTypeCentral dbCentralPassword))))))))"

definition getCentralDBConnectionString :: "'s sync_env \<Rightarrow> ManagedCentral \<Rightarrow> ('s, string) fallible" where
  "getCentralDBConnectionString sy rc =
     checked (centralDBUserExists sy (rcNamespace rc)) id (\<lambda>userExists.
     checked (if userExists then succeed () else ensureManagedCentralDBInitialized sy rc) (Ctx ''initializing managed DB'') (\<lambda>_.
     checked (observe (syGetDBConnection sy (rcId rc))) (Ctx ''getting RDS DB connection data'') (\<lambda>dbConnection.
     succeed (AsConnectionString (dbConnection\<lparr>dbUser := dbCentralUserName, dbSslRootCert := DatabaseCACertificatePathCentral\<rparr>)))))"

subsection \<open>The central resource\<close>

text \<open>The annotation of the object that pauses its operator would keep it from being removed.\<close>

definition disablePauseReconcileIfPresent :: "'s sync_env \<Rightarrow> CentralCR \<Rightarrow> ('s, CentralCR) fallible" where
  "disablePauseReconcileIfPresent sy c = (case ccrAnnotations c of
     None \<Rightarrow> succeed c
   | Some an \<Rightarrow>
       if map_of an pauseReconcileAnnotation \<noteq> Some ''true'' then succeed c
       else (let c' = c\<lparr>ccrAnnotations := Some (AList.update pauseReconcileAnnotation ''false'' an)\<rparr> in
         checked (update_obj sy (OCentral c')) (\<lambda>e. Plain (''removing pause reconcile annotation: '' @ agent_text e)) (\<lambda>_. succeed c')))"

definition ensureCentralCRDeleted :: "'s sync_env \<Rightarrow> string \<Rightarrow> string \<Rightarrow> ('s, bool) fallible" where
  "ensureCentralCRDeleted sy ns name = do {
     r \<leftarrow> observe (syGetCentral sy ns name);
     case r of
       Inl e \<Rightarrow> if IsNotFound e then succeed True else fail (Ctx (''delete central CR '' @ ns @ ''/'' @ name) e)
     | Inr central \<Rightarrow>
         checked (disablePauseReconcileIfPresent sy central) id (\<lambda>central'.
         checked (delete_obj sy (OCentral central')) (Ctx (''delete central CR '' @ ns @ ''/'' @ name)) (\<lambda>_. succeed False)) }"

subsection \<open>Objects of the chart\<close>

text \<open>The rendered files come in the order of the list; only YAML files have objects.\<close>

fun parse_files :: "'s sync_env \<Rightarrow> string \<Rightarrow> (string \<times> string) list \<Rightarrow> agent_error + Unstructured list" where
  "parse_files sy chrt [] = Inr []"
| "parse_files sy chrt ((fileName, contents) # fs) =
     (if \<not> has_suffix fileName ''.yaml'' then parse_files sy chrt fs
      else (case syParseYAML sy contents of
        Inl e \<Rightarrow> Inl (Ctx (''failed to parse file '' @ fileName @ '' in chart '' @ chrt) e)
      | Inr objs \<Rightarrow> (case parse_files sy chrt fs of Inl e \<Rightarrow> Inl e | Inr rest \<Rightarrow> Inr (objs @ rest))))"

definition RenderToObjects :: "'s sync_env \<Rightarrow> string \<Rightarrow> string \<Rightarrow> string \<Rightarrow> chart_values \<Rightarrow> agent_error + Unstructured list" where
  "RenderToObjects sy releaseName ns chrt vals = (case syRenderValues sy releaseName ns vals of
     Inl e \<Rightarrow> Inl (Ctx (''failed to create render values for chart '' @ chrt) e)
   | Inr renderVals \<Rightarrow> (case syRender sy renderVals of
        Inl e \<Rightarrow> Inl (Ctx (''failed to render chart '' @ chrt) e)
      | Inr files \<Rightarrow> parse_files sy chrt files))"

definition chartValues :: "'s sync_env \<Rightarrow> chart_values" where
  "chartValues sy = TenantValues [(ManagedByLabelKey, ManagedByFleetshardValue)]
     (if syEgressProxyImage sy \<noteq> [] then Some (syEgressProxyImage sy) else None)"

definition tenant_objects :: "'s sync_env \<Rightarrow> string \<Rightarrow> agent_error + Unstructured list" where
  "tenant_objects sy ns = RenderToObjects sy helmReleaseName ns ''tenant-resources'' (chartValues sy)"

definition in_namespace :: "string \<Rightarrow> Unstructured \<Rightarrow> Unstructured" where
  "in_namespace ns ob = (if unNamespace ob = [] then ob\<lparr>unNamespace := ns\<rparr> else ob)"

definition object_key :: "Unstructured \<Rightarrow> string" where
  "object_key ob = unNamespace ob @ ''/'' @ unName ob @ '' of type '' @ unGVK ob"

text \<open>The two callers describe a failing update and a failing lookup in their own words.\<close>

fun apply_objects :: "(Unstructured \<Rightarrow> agent_error \<Rightarrow> agent_error) \<Rightarrow> (Unstructured \<Rightarrow> agent_error \<Rightarrow> agent_error) \<Rightarrow>
  's sync_env \<Rightarrow> string \<Rightarrow> Unstructured list \<Rightarrow> ('s, unit) fallible" where
  "apply_objects onUpdate onGet sy ns [] = succeed ()"
| "apply_objects onUpdate onGet sy ns (ob0 # obs) = (let ob = in_namespace ns ob0 in do {
     r \<leftarrow> observe (syGetObject sy (unGVK ob) (unNamespace ob) (unName ob));
     case r of
       Inr out \<Rightarrow>
         checked (update_obj sy (OChart (ob\<lparr>unResourceVersion := unResourceVersion out\<rparr>))) (onUpdate ob) (\<lambda>_. apply_objects onUpdate onGet sy ns obs)
     | Inl e \<Rightarrow>
         if \<not> IsNotFound e then fail (onGet ob e)
         else do {
           c \<leftarrow> create_obj sy (OChart ob);
           case c of
             Inl e' \<Rightarrow> if IsAlreadyExists e' then apply_objects onUpdate onGet sy ns obs else fail (Ctx (''failed to create object '' @ object_key ob) e')
           | Inr _ \<Rightarrow> apply_objects onUpdate onGet sy ns obs } })"

definition ensureChartResourcesExist :: "'s sync_env \<Rightarrow> ManagedCentral \<Rightarrow> ('s, unit) fallible" where
  "ensureChartResourcesExist sy rc = (case tenant_objects sy (rcNamespace rc) of
     Inl e \<Rightarrow> fail (Ctx ''rendering resources chart'' e)
   | Inr objs \<Rightarrow> apply_objects
       (\<lambda>ob. Ctx (''failed to update object '' @ unNamespace ob @ ''/'' @ unNamespace ob @ '' of type '' @ unGVK ob))
       (\<lambda>ob. Ctx (''failed to retrieve object '' @ object_key ob)) sy (rcNamespace rc) objs)"

text \<open>The answer is whether no object was found waiting for its deletion; objects whose deletion is only now
  requested do not count as waiting.\<close>

fun delete_objects :: "'s sync_env \<Rightarrow> string \<Rightarrow> bool \<Rightarrow> Unstructured list \<Rightarrow> ('s, bool) fallible" where
  "delete_objects sy ns waitForDelete [] = succeed (\<not> waitForDelete)"
| "delete_objects sy ns waitForDelete (ob0 # obs) = (let ob = in_namespace ns ob0 in do {
     r \<leftarrow> observe (syGetObject sy (unGVK ob) (unNamespace ob) (unName ob));
     case r of
       Inl e \<Rightarrow> if IsNotFound e then delete_objects sy ns waitForDelete obs
               else fail (Ctx (''retrieving object '' @ object_key ob) e)
     | Inr out \<Rightarrow>
         if unDeleting out then delete_objects sy ns True obs
         else do {
           d \<leftarrow> delete_obj sy (OChart out);
           case d of
             Inl e \<Rightarrow> if IsNotFound e then delete_objects sy ns waitForDelete obs else fail (Ctx (''retrieving object '' @ object_key ob) e)
           | Inr _ \<Rightarrow> delete_objects sy ns waitForDelete obs } })"

definition ensureChartResourcesDeleted :: "'s sync_env \<Rightarrow> ManagedCentral \<Rightarrow> ('s, bool) fallible" where
  "ensureChartResourcesDeleted sy rc = (case tenant_objects sy (rcNamespace rc) of
     Inl e \<Rightarrow> fail (Ctx ''rendering resources chart'' e)
   | Inr objs \<Rightarrow> delete_objects sy (rcNamespace rc) False objs)"

text \<open>The operator of the cluster is installed from its own chart in the same way.\<close>

definition operatorNamespace :: string where "operatorNamespace = ''stackrox-operator''"

definition InstallOrUpgrade :: "'s sync_env \<Rightarrow> ('s, unit) fallible" where
  "InstallOrUpgrade sy = (case RenderToObjects sy ''rhacs-operator'' operatorNamespace ''rhacs-operator''
       (OperatorValues ''quay.io/rhacs-eng/stackrox-operator:3.74.0'') of
     Inl e \<Rightarrow> fail (Ctx ''installing operator chart'' e)
   | Inr objs \<Rightarrow> apply_objects
       (\<lambda>ob e. Plain (''failed to update ACS Operator '' @ object_key ob @ '' '' @ agent_text e))
       (\<lambda>ob e. Plain (''failed to retrieve object '' @ object_key ob @ '' '' @ agent_text e)) sy operatorNamespace objs)"

subsection \<open>Deletion of a tenant\<close>

definition routes_deleted :: "'s sync_env \<Rightarrow> string \<Rightarrow> ('s, bool) fallible" where
  "routes_deleted sy ns =
     (if syUseRoutes sy then
        checked (ensureRouteDeleted sy ns centralReencryptRouteName) id (\<lambda>reencryptRouteDeleted.
        checked (ensureRouteDeleted sy ns centralPassthroughRouteName) id (\<lambda>passthroughRouteDeleted.
        succeed (reencryptRouteDeleted \<and> passthroughRouteDeleted)))
      else succeed True)"

definition db_deleted :: "'s sync_env \<Rightarrow> ManagedCentral \<Rightarrow> ('s, bool) fallible" where
  "db_deleted sy rc =
     (if syManagedDBEnabled sy then
        checked (perform (DeprovisionDB (rcId rc)) (syDeprovisionDB sy (rcId rc))) (\<lambda>e. Plain (''deprovisioning DB: '' @ agent_text e)) (\<lambda>_.
        ensureCentralDBSecretDeleted sy (rcNamespace rc))
      else succeed True)"

definition ensureCentralDeleted :: "'s sync_env \<Rightarrow> ManagedCentral \<Rightarrow> ('s, bool) fallible" where
  "ensureCentralDeleted sy rc =
     checked (routes_deleted sy (rcNamespace rc)) id (\<lambda>routesDeleted.
     checked (ensureCentralCRDeleted sy (rcNamespace rc) (rcName rc)) id (\<lambda>centralDeleted.
     checked (db_deleted sy rc) id (\<lambda>secretDeleted.
     checked (ensureChartResourcesDeleted sy rc) id (\<lambda>chartResourcesDeleted.
     checked (ensureNamespaceDeleted sy (rcNamespace rc)) id (\<lambda>nsDeleted.
     succeed (routesDeleted \<and> centralDeleted \<and> secretDeleted \<and> chartResourcesDeleted \<and> nsDeleted))))))"

subsection \<open>The API of a tenant\<close>

record central_client =
  clAddress :: string
  clPass :: string
  clTenant :: ManagedCentral

definition createRequest :: "'s sync_env \<Rightarrow> central_client \<Rightarrow> central_message \<Rightarrow> string \<Rightarrow> string \<Rightarrow> agent_error + central_request" where
  "createRequest sy c msg meth path =
     (case (if msg = NoMessage then Inr [] else syMarshal sy msg) of
        Inl e \<Rightarrow> Inl (Ctx ''marshalling new request to central'' e)
      | Inr body \<Rightarrow> (case syNewRequest sy meth (clAddress c @ path) of
           Some e \<Rightarrow> Inl (Ctx ''failed to create request'' e)
         | None \<Rightarrow> Inr \<lparr>hqMethod = meth, hqURL = clAddress c @ path, hqBody = body, hqBasicAuth = None\<rparr>))"

definition SendRequestToCentralRaw ::
  "'s sync_env \<Rightarrow> central_client \<Rightarrow> central_message \<Rightarrow> string \<Rightarrow> string \<Rightarrow> ('s, central_response) fallible" where
  "SendRequestToCentralRaw sy c msg meth path = (case createRequest sy c msg meth path of
     Inl e \<Rightarrow> fail (Ctx ''creating HTTP request to central'' e)
   | Inr req0 \<Rightarrow>
       (let req = (if clPass c \<noteq> [] then req0\<lparr>hqBasicAuth := Some (''admin'', clPass c)\<rparr> else req0) in
        checked (perform (HTTPDo req) (syHTTP sy req)) (Ctx ''sending new request to central'') succeed))"

definition couldNotParseReason :: string where "couldNotParseReason = ''could not parse a reason for request to fail''"

definition extractCentralError :: "'s sync_env \<Rightarrow> central_response \<Rightarrow> string" where
  "extractCentralError sy resp = (case syDecodeError sy (hrBody resp) of
     Inl _ \<Rightarrow> couldNotParseReason
   | Inr e \<Rightarrow> if e \<noteq> [] then e else couldNotParseReason)"

definition SendRequestToCentral ::
  "'s sync_env \<Rightarrow> central_client \<Rightarrow> central_message \<Rightarrow> string \<Rightarrow> string \<Rightarrow> (string \<Rightarrow> agent_error + 'a) \<Rightarrow> ('s, 'a) fallible" where
  "SendRequestToCentral sy c msg meth path decode =
     checked (SendRequestToCentralRaw sy c msg meth path) id (\<lambda>resp.
       if \<not> (200 \<le> hrStatusCode resp \<and> hrStatusCode resp < 300) then
         fail (FromService (NewErrorFromHTTPStatusCode (hrStatusCode resp)
           (Fmt (''failed to execute request: '' @ meth @ '' '' @ path @ '' with reason '' @ go_quote (extractCentralError sy resp)))))
       else (case decode (hrBody resp) of
           Inl e \<Rightarrow> fail (Ctx ''decoding response body'' e)
         | Inr a \<Rightarrow> succeed a))"

definition of_tenant :: "string \<Rightarrow> central_client \<Rightarrow> agent_error \<Rightarrow> agent_error" where
  "of_tenant m c = Ctx (m @ '' '' @ rcNamespace (clTenant c) @ ''/'' @ rcName (clTenant c))"

definition SendGroupRequest :: "'s sync_env \<Rightarrow> central_client \<Rightarrow> Group \<Rightarrow> ('s, unit) fallible" where
  "SendGroupRequest sy c g = checked (SendRequestToCentral sy c (GroupMessage g) ''POST'' ''/v1/groups'' (\<lambda>_. Inr ()))
     (of_tenant ''failed to create group for central'' c) succeed"

definition SendAuthProviderRequest :: "'s sync_env \<Rightarrow> central_client \<Rightarrow> AuthProvider \<Rightarrow> ('s, string) fallible" where
  "SendAuthProviderRequest sy c ap = checked (SendRequestToCentral sy c (AuthProviderMessage ap) ''POST'' ''/v1/authProviders'' (syDecodeAuthProvider sy))
     (of_tenant ''failed to create auth provider for central'' c) succeed"

definition GetLoginAuthProviders :: "'s sync_env \<Rightarrow> central_client \<Rightarrow> ('s, (string \<times> string) list) fallible" where
  "GetLoginAuthProviders sy c = checked (SendRequestToCentral sy c NoMessage ''GET'' ''/v1/login/authproviders'' (syDecodeLogins sy))
     (of_tenant ''failed to get login auth providers from central'' c) succeed"

subsection \<open>The authentication provider of a tenant\<close>

definition centralHtpasswdSecretName :: string where "centralHtpasswdSecretName = ''central-htpasswd''"
definition adminPasswordSecretKey :: string where "adminPasswordSecretKey = ''password''"
definition centralServiceName :: string where "centralServiceName = ''central''"
definition oidcType :: string where "oidcType = ''oidc''"
definition ALLOW_MUTATE_FORCED :: string where "ALLOW_MUTATE_FORCED = ''ALLOW_MUTATE_FORCED''"

definition admin_group :: "string \<Rightarrow> string \<Rightarrow> string \<Rightarrow> Group" where
  "admin_group providerId key val = \<lparr>gpAuthProviderId = providerId, gpKey = key, gpValue = val,
     gpMutability = Some ALLOW_MUTATE_FORCED, gpRoleName = ''Admin''\<rparr>"

definition groupCreators :: "string \<Rightarrow> ManagedCentral \<Rightarrow> Group list" where
  "groupCreators providerId rc =
     [\<lparr>gpAuthProviderId = providerId, gpKey = [], gpValue = [], gpMutability = None, gpRoleName = ''None''\<rparr>,
      admin_group providerId ''userid'' (rcOwnerUserId rc),
      admin_group providerId ''groups'' ''admin:org:all'',
      admin_group providerId ''rh_is_org_admin'' ''true'']"

definition isCentralDeploymentReady :: "'s sync_env \<Rightarrow> ManagedCentral \<Rightarrow> ('s, bool) fallible" where
  "isCentralDeploymentReady sy rc = do {
     r \<leftarrow> observe (syGetDeployment sy (rcNamespace rc) ''central'');
     case r of
       Inl e \<Rightarrow> if IsNotFound e then succeed False else fail (Ctx ''retrieving central deployment resource from Kubernetes'' e)
     | Inr d \<Rightarrow> succeed (dpAvailableReplicas d > 0 \<and> dpUnavailableReplicas d = 0) }"

definition authProviderName :: "'s sync_env \<Rightarrow> ManagedCentral \<Rightarrow> string" where
  "authProviderName sy rc =
     (let name = (if contains_sub (rcIssuer rc) ''sso.stage.redhat'' then ''Red Hat SSO (stage)''
                  else if contains_sub (rcIssuer rc) ''sso.redhat'' then ''Red Hat SSO''
                  else syServerFromURL sy (rcIssuer rc)) in
      if name = [] then ''SSO'' else name)"

definition getHTTPSServicePort :: "k8s_Service \<Rightarrow> agent_error + int" where
  "getHTTPSServicePort sv = (case map_of (svPorts sv) ''https'' of
     Some port \<Rightarrow> Inr port
   | None \<Rightarrow> Inl (Plain (''no `https` port is present in '' @ svNamespace sv @ ''/'' @ svName sv @ '' service'')))"

definition getServiceAddress :: "'s sync_env \<Rightarrow> ManagedCentral \<Rightarrow> ('s, string) fallible" where
  "getServiceAddress sy rc = checked (observe (syGetService sy (rcNamespace rc) centralServiceName)) (Ctx ''getting k8s service for central'') (\<lambda>sv.
     case getHTTPSServicePort sv of
       Inl e \<Rightarrow> fail e
     | Inr port \<Rightarrow> succeed (''https://'' @ centralServiceName @ ''.'' @ rcNamespace rc @ ''.svc.cluster.local:'' @ itoa port))"

definition getAdminPassword :: "'s sync_env \<Rightarrow> ManagedCentral \<Rightarrow> ('s, string) fallible" where
  "getAdminPassword sy rc = checked (observe (syGetSecret sy (rcNamespace rc) centralHtpasswdSecretName)) (Ctx ''getting admin password secret'') (\<lambda>secret.
     let password = (case map_of (seData secret) adminPasswordSecretKey of Some p \<Rightarrow> p | None \<Rightarrow> []) in
     if password = [] then fail (Plain (''no password present in '' @ centralHtpasswdSecretName @ '' secret'')) else succeed password)"

definition existsRHSSOAuthProvider :: "'s sync_env \<Rightarrow> ManagedCentral \<Rightarrow> ('s, bool) fallible" where
  "existsRHSSOAuthProvider sy rc = checked (isCentralDeploymentReady sy rc) id (\<lambda>ready.
     if \<not> ready then succeed False
     else do {
       a \<leftarrow> getServiceAddress sy rc;
       case a of
         Inl e \<Rightarrow> if IsNotFound e then succeed False else fail e
       | Inr address \<Rightarrow>
           checked (GetLoginAuthProviders sy \<lparr>clAddress = address, clPass = [], clTenant = rc\<rparr>)
             (Ctx ''sending GetLoginAuthProviders request to central'') (\<lambda>providers.
           succeed (list_ex (\<lambda>(typ, name). typ = oidcType \<and> name = authProviderName sy rc) providers)) })"

definition createAuthProviderRequest :: "'s sync_env \<Rightarrow> ManagedCentral \<Rightarrow> AuthProvider" where
  "createAuthProviderRequest sy rc =
     \<lparr>apName = authProviderName sy rc, apType = oidcType, apUiEndpoint = rcUiHost rc, apEnabled = True,
      apConfig = [(''issuer'', rcIssuer rc), (''client_id'', rcClientId rc), (''client_secret'', rcClientSecret rc),
                  (''mode'', ''post''), (''disable_offline_access_scope'', ''true'')],
      apClaimMappings = [(''realm_access.roles'', ''groups''), (''org_id'', ''rh_org_id''), (''is_org_admin'', ''rh_is_org_admin'')],
      apExtraUiEndpoints = [''localhost:8443''],
      apRequiredAttributes = [(if rcClientOrigin rc = AuthConfigStaticClientOrigin then ''orgid'' else ''rh_org_id'', rcOwnerOrgId rc)],
      apMutability = ALLOW_MUTATE_FORCED, apActive = True\<rparr>"

text \<open>Every group is tried, the errors are collected.\<close>

fun send_groups :: "'s sync_env \<Rightarrow> central_client \<Rightarrow> Group list \<Rightarrow> ('s, agent_error list) act" where
  "send_groups sy c [] = State_Monad.return []"
| "send_groups sy c (g # gs) = do {
     r \<leftarrow> SendGroupRequest sy c g;
     errs \<leftarrow> send_groups sy c gs;
     State_Monad.return (case r of Inl e \<Rightarrow> e # errs | Inr _ \<Rightarrow> errs) }"

definition agent_errorlist_text :: "agent_error list \<Rightarrow> string" where
  "agent_errorlist_text es = ''['' @ concat (map (\<lambda>e. '';'' @ agent_text e) es) @ '']''"

definition createRHSSOAuthProvider :: "'s sync_env \<Rightarrow> ManagedCentral \<Rightarrow> ('s, unit) fallible" where
  "createRHSSOAuthProvider sy rc =
     checked (getAdminPassword sy rc) id (\<lambda>pass.
     checked (getServiceAddress sy rc) id (\<lambda>address.
     let c = \<lparr>clAddress = address, clPass = pass, clTenant = rc\<rparr> in
     checked (SendAuthProviderRequest sy c (createAuthProviderRequest sy rc)) (Ctx ''sending AuthProvider request to central'') (\<lambda>providerId. do {
       errs \<leftarrow> send_groups sy c (groupCreators providerId rc);
       if errs \<noteq> [] then fail (Ctx ''sending group request(s) to central'' (Plain (agent_errorlist_text errs))) else succeed () })))"

subsection \<open>Reconciliation\<close>

definition isRemoteCentralProvisioning :: "ManagedCentral \<Rightarrow> bool" where
  "isRemoteCentralProvisioning rc \<longleftrightarrow> rcRequestStatus rc = CentralRequestStatusProvisioning"

definition isRemoteCentralReady :: "ManagedCentral \<Rightarrow> bool" where
  "isRemoteCentralReady rc \<longleftrightarrow> rcRequestStatus rc = CentralRequestStatusReady"

definition centralChanged :: "'s sync_env \<Rightarrow> ManagedCentral \<Rightarrow> ('s, bool) fallible" where
  "centralChanged sy rc = (case syHash sy rc of
     Inl e \<Rightarrow> fail (Ctx ''hashing central'' e)
   | Inr currentHash \<Rightarrow> do { me \<leftarrow> self; succeed (cnLastCentralHash me \<noteq> currentHash) })"

definition setLastCentralHash :: "'s sync_env \<Rightarrow> ManagedCentral \<Rightarrow> ('s, unit) fallible" where
  "setLastCentralHash sy rc = (case syHash sy rc of
     Inl e \<Rightarrow> fail (Ctx ''calculating MD5 from JSON'' e)
   | Inr hash \<Rightarrow> do { set_self (cnLastCentralHash_update (\<lambda>_. hash)); succeed () })"

definition shouldSkipReadyCentral :: "'s sync_env \<Rightarrow> CentralReconciler \<Rightarrow> ManagedCentral \<Rightarrow> bool" where
  "shouldSkipReadyCentral sy me rc \<longleftrightarrow> syWantsAuthProvider sy = cnHasAuthProvider me \<and> isRemoteCentralReady rc \<and>
     rcActualVersion rc = rcDesiredVersion rc"

text \<open>The resource as the agent wants it, before the settings that depend on the database.\<close>

definition desired_central :: "'s sync_env \<Rightarrow> ManagedCentral \<Rightarrow> ResourceRequirements \<Rightarrow> ResourceRequirements \<Rightarrow> ResourceRequirements \<Rightarrow> CentralCR" where
  "desired_central sy rc centralResources analyzerResources dbResources =
     \<lparr>ccrName = rcName rc, ccrNamespace = rcNamespace rc,
      ccrLabels = [(ManagedByLabelKey, ManagedByFleetshardValue), (tenantIDLabelKey, rcId rc), (instanceTypeLabelKey, rcInstanceType rc),
                   (orgIDLabelKey, rcOwnerOrgId rc)] @ (if syUpgradeOperatorEnabled sy then [(operatorVersionKey, defaultOperatorVersion)] else []),
      ccrAnnotations = Some [(managedServicesAnnotation, ''true''), (orgNameAnnotationKey, rcOwnerOrgName rc)],
      ccrSpec = \<lparr>csRouteEnabled = syUseRoutes sy, csExposeEndpoint = True, csResources = centralResources,
        csTelemetryEnabled = (syTelemetryKey sy \<noteq> [] \<and> \<not> rcInternal rc), csTelemetryEndpoint = syTelemetryEndpoint sy, csTelemetryKey = syTelemetryKey sy,
        csAdminPasswordGenerationDisabled = None, csDB = None, csAnalyzerResources = analyzerResources, csAnalyzerScaling = rcScaling rc,
        csScannerDBResources = dbResources, csScannerExposeEndpoint = True, csEnvVars = getProxyEnvVars (rcNamespace rc),
        csAnnotations = [(envAnnotationKey, syEnvironment sy), (clusterNameAnnotationKey, syClusterName sy), (orgNameAnnotationKey, rcOwnerOrgName rc)],
        csLabels = [(orgIDLabelKey, rcOwnerOrgId rc), (tenantIDLabelKey, rcId rc), (instanceTypeLabelKey, rcInstanceType rc)],
        csAdditionalCAs = []\<rparr>\<rparr>"

definition convert_central :: "'s sync_env \<Rightarrow> ManagedCentral \<Rightarrow> agent_error + CentralCR" where
  "convert_central sy rc = (case ConvertPrivateResourceRequirementsToCoreV1 (syParseQuantity sy) (rcCentralResources rc) of
     Inl e \<Rightarrow> Inl (Ctx ''converting Central resources'' e)
   | Inr centralResources \<Rightarrow> (case ConvertPrivateResourceRequirementsToCoreV1 (syParseQuantity sy) (rcAnalyzerResources rc) of
        Inl e \<Rightarrow> Inl (Ctx ''converting Scanner Analyzer resources'' e)
      | Inr analyzerResources \<Rightarrow> (case ConvertPrivateResourceRequirementsToCoreV1 (syParseQuantity sy) (rcDbResources rc) of
           Inl e \<Rightarrow> Inl (Ctx ''converting Scanner DB resources'' e)
         | Inr dbResources \<Rightarrow> Inr (desired_central sy rc centralResources analyzerResources dbResources))))"

definition learn_auth_provider :: "'s sync_env \<Rightarrow> ManagedCentral \<Rightarrow> ('s, bool) fallible" where
  "learn_auth_provider sy rc = do {
     me \<leftarrow> self;
     if syWantsAuthProvider sy \<and> \<not> cnHasAuthProvider me then
       checked (existsRHSSOAuthProvider sy rc) id (\<lambda>found.
         if found then do { set_self (cnHasAuthProvider_update (\<lambda>_. True)); succeed True } else succeed False)
     else succeed (cnHasAuthProvider me) }"

definition with_database :: "'s sync_env \<Rightarrow> ManagedCentral \<Rightarrow> CentralCR \<Rightarrow> ('s, CentralCR) fallible" where
  "with_database sy rc c =
     (if syManagedDBEnabled sy then
        checked (getCentralDBConnectionString sy rc) (Ctx ''getting Central DB connection string'') (\<lambda>conn. do {
          let c1 = c\<lparr>ccrSpec := (ccrSpec c)\<lparr>csDB := Some \<lparr>cdConnectionString = conn, cdPasswordSecret = centralDbSecretName\<rparr>\<rparr>\<rparr>;
          ca \<leftarrow> GetDatabaseCACertificates sy;
          case ca of
            Inl _ \<Rightarrow> succeed c1
          | Inr dbCA \<Rightarrow> succeed (c1\<lparr>ccrSpec := (ccrSpec c1)\<lparr>csAdditionalCAs := [(CentralDatabaseCACertificateBaseName, dbCA)]\<rparr>\<rparr>) })
      else succeed c)"

definition apply_central :: "'s sync_env \<Rightarrow> ManagedCentral \<Rightarrow> CentralCR \<Rightarrow> ('s, unit) fallible" where
  "apply_central sy rc central = (let key = rcNamespace rc @ ''/'' @ rcName rc in do {
     r \<leftarrow> observe (syGetCentral sy (rcNamespace rc) (rcName rc));
     case r of
       Inl e \<Rightarrow>
         if \<not> IsNotFound e then fail (Ctx (''unable to check the existence of central '' @ key) e)
         else (case IncrementCentralRevision central of
             Inl e' \<Rightarrow> fail (Ctx (''incrementing central'' @ [CHR 39] @ ''s revision'') e')
           | Inr c \<Rightarrow> checked (create_obj sy (OCentral c)) (Ctx (''creating new central '' @ key)) succeed)
     | Inr existing \<Rightarrow>
         (case IncrementCentralRevision (existing\<lparr>ccrSpec := ccrSpec central\<rparr>) of
             Inl e' \<Rightarrow> fail (Ctx (''incrementing central'' @ [CHR 39] @ ''s revision'') e')
           | Inr c \<Rightarrow> checked (update_obj sy (OCentral c)) (Ctx (''updating central '' @ key)) succeed) })"

text \<open>Whether the secret with the certificate of the tenant is there; the operator writes it.\<close>

definition apply_routes :: "'s sync_env \<Rightarrow> ManagedCentral \<Rightarrow> ('s, bool) fallible" where
  "apply_routes sy rc =
     (if syUseRoutes sy then do {
        r \<leftarrow> ensureRoutesExist sy rc;
        case r of
          Inl e \<Rightarrow> if root_cause e = ErrCentralTLSSecretNotFound then succeed False else fail (Ctx ''updating routes'' e)
        | Inr _ \<Rightarrow> succeed True }
      else succeed True)"

definition delete_tenant :: "'s sync_env \<Rightarrow> ManagedCentral \<Rightarrow> ('s, agent_status) fallible" where
  "delete_tenant sy rc =
     checked (ensureCentralDeleted sy rc) (Ctx (''delete central '' @ rcNamespace rc @ ''/'' @ rcName rc)) (\<lambda>deleted.
       if deleted then succeed deletedStatus else fail ErrDeletionInProgress)"

definition report_ready :: "'s sync_env \<Rightarrow> ManagedCentral \<Rightarrow> ('s, agent_status) fallible" where
  "report_ready sy rc = do {
     me \<leftarrow> self;
     checked (if syWantsAuthProvider sy \<and> \<not> cnHasAuthProvider me \<and> \<not> isRemoteCentralReady rc
              then checked (createRHSSOAuthProvider sy rc) id (\<lambda>_. do { set_self (cnHasAuthProvider_update (\<lambda>_. True)); succeed () })
              else succeed ()) id (\<lambda>_.
     checked (if syUseRoutes sy \<and> \<not> isRemoteCentralReady rc
              then checked (getRoutesStatuses sy (rcNamespace rc)) id (\<lambda>rs. succeed (readyStatus\<lparr>agRoutes := Some rs\<rparr>))
              else succeed readyStatus) id (\<lambda>status.
     checked (setLastCentralHash sy rc) (Ctx ''setting central reconcilation cache'') (\<lambda>_.
     succeed status))) }"

definition install_tenant :: "'s sync_env \<Rightarrow> ManagedCentral \<Rightarrow> bool \<Rightarrow> CentralCR \<Rightarrow> ('s, agent_status) fallible" where
  "install_tenant sy rc changed central0 =
     checked (ensureNamespaceExists sy (rcNamespace rc) [(orgIDLabelKey, rcOwnerOrgId rc), (tenantIDLabelKey, rcId rc)]
         [(orgNameAnnotationKey, rcOwnerOrgName rc)]) (Ctx (''unable to ensure that namespace '' @ rcNamespace rc @ '' exists'')) (\<lambda>_.
     checked (ensureChartResourcesExist sy rc) (Ctx (''unable to install chart resource for central '' @ rcNamespace rc @ ''/'' @ rcName rc)) (\<lambda>_.
     checked (with_database sy rc central0) id (\<lambda>central.
     checked (apply_central sy rc central) id (\<lambda>_.
     checked (apply_routes sy rc) id (\<lambda>centralTLSSecretFound.
     checked (isCentralDeploymentReady sy rc) id (\<lambda>centralDeploymentReady.
       if \<not> centralDeploymentReady \<or> \<not> centralTLSSecretFound then
         (if isRemoteCentralProvisioning rc \<and> \<not> changed then fail ErrCentralNotChanged else succeed installingStatus)
       else report_ready sy rc))))))"

definition reconcile_free :: "'s sync_env \<Rightarrow> ManagedCentral \<Rightarrow> ('s, agent_status) fallible" where
  "reconcile_free sy rc =
     checked (centralChanged sy rc) (Ctx ''checking if central changed'') (\<lambda>changed. do {
       me \<leftarrow> self;
       if \<not> changed \<and> shouldSkipReadyCentral sy me rc then fail ErrCentralNotChanged
       else (case convert_central sy rc of
           Inl e \<Rightarrow> fail e
         | Inr c \<Rightarrow> checked (learn_auth_provider sy rc) id (\<lambda>hasAuthProvider.
             let central = (if hasAuthProvider then c\<lparr>ccrSpec := (ccrSpec c)\<lparr>csAdminPasswordGenerationDisabled := Some True\<rparr>\<rparr> else c) in
             if rcDeletionTimestamp rc \<noteq> [] then delete_tenant sy rc else install_tenant sy rc changed central)) })"

text \<open>One call at a time: the status is swapped to blocked and set free when the call returns.\<close>

definition Reconcile :: "'s sync_env \<Rightarrow> ManagedCentral \<Rightarrow> ('s, agent_status) fallible" where
  "Reconcile sy rc = do {
     me \<leftarrow> self;
     if cnStatus me \<noteq> FreeStatus then fail ErrBusy
     else do {
       set_self (cnStatus_update (\<lambda>_. BlockedStatus));
       r \<leftarrow> reconcile_free sy rc;
       set_self (cnStatus_update (\<lambda>_. FreeStatus));
       State_Monad.return r } }"

text \<open>A new reconciler; the hash is an array of zeros.\<close>

definition NewCentralReconciler :: CentralReconciler where
  "NewCentralReconciler = \<lparr>cnStatus = FreeStatus, cnLastCentralHash = replicate 16 (CHR 0x00), cnHasAuthProvider = False\<rparr>"

end
