(* ===== verification/Shard_Runtime.thy ===== *)
theory Shard_Runtime
  imports Shard_Reconciler
begin

text \<open>
  The agent as a process (\<^verbatim>\<open>fleetshard/pkg/runtime/runtime.go\<close>) and the two endpoints of the fleet manager it talks to
  (\<^verbatim>\<open>handlers/data_plane_dinosaur.go\<close>). Every tick asks for the tenants of the cluster and starts a goroutine for
  each; a goroutine reconciles its tenant and reports the outcome. Goroutines of different ticks overlap: a
  reconciler is an object on a heap, the registry maps tenants to it, and a goroutine keeps its pointer
  even when the registry drops it.
\<close>

subsection \<open>Endpoints of the fleet manager\<close>

definition dataPlaneHandler_GetAll :: "presenter_env \<Rightarrow> string \<Rightarrow> world \<Rightarrow> ManagedCentral list response option \<times> world" where
  "dataPlaneHandler_GetAll pm clusterID =
     HandleGet [check (ValidateLength clusterID ''id'' MinRequiredFieldLength None)] (\<lambda>_ w.
       case ListByClusterID clusterID w of
         (Inl e, w') \<Rightarrow> (Some (Inl e), w')
       | (Inr centralRequests, w') \<Rightarrow> (Some (Inr (map (PresentManagedCentral pm) centralRequests)), w')) ()"

text \<open>The body is the outcome of decoding the map of reports.\<close>

definition UpdateDinosaurStatuses :: "env \<Rightarrow> string \<Rightarrow> go_error + (string \<times> agent_status) list \<Rightarrow> world \<Rightarrow> unit response option \<times> world" where
  "UpdateDinosaurStatuses ev clusterID body =
     Handle body (\<lambda>_. []) (\<lambda>data _ w.
       case UpdateDataPlaneCentralService ev clusterID (ConvertDataPlaneDinosaurStatus data) w of
         (None, w') \<Rightarrow> (None, w')
       | (Some (Some e), w') \<Rightarrow> (Some (Inl e), w')
       | (Some None, w') \<Rightarrow> (Some (Inr ()), w')) StatusOK ()"

subsection \<open>The runtime\<close>

text \<open>A goroutine is about to reconcile, inside \<open>Reconcile\<close>, or about to report.\<close>

datatype goroutine =
    Spawned nat ManagedCentral
  | Reconciling nat ManagedCentral
  | Reporting ManagedCentral agent_status

text \<open>\<open>rtDeleted\<close> is a history: the tenants whose deletion was found complete, with the cluster at that moment.\<close>

record 's runtime =
  rtReconcilers :: "(string \<times> nat) list"
  rtHeap :: "CentralReconciler list"
  rtGoroutines :: "goroutine list"
  rtCluster :: 's
  rtCalls :: "shard_call list"
  rtCertificates :: "string option"
  rtDeleted :: "(ManagedCentral \<times> 's) list"

text \<open>The process as it starts on a cluster \<open>k\<close>; calls and history of earlier processes are kept for the record.\<close>

definition NewRuntime :: "'s \<Rightarrow> shard_call list \<Rightarrow> (ManagedCentral \<times> 's) list \<Rightarrow> 's runtime" where
  "NewRuntime k calls deleted = \<lparr>rtReconcilers = [], rtHeap = [], rtGoroutines = [], rtCluster = k, rtCalls = calls,
     rtCertificates = None, rtDeleted = deleted\<rparr>"

text \<open>\<^verbatim>\<open>if _, ok := r.reconcilers[central.Id]; !ok { ... }; reconciler := r.reconcilers[central.Id]\<close>\<close>

definition reconciler_of :: "string \<Rightarrow> 's runtime \<Rightarrow> nat \<times> 's runtime" where
  "reconciler_of i rt = (case map_of (rtReconcilers rt) i of
     Some p \<Rightarrow> (p, rt)
   | None \<Rightarrow> (length (rtHeap rt), rt\<lparr>rtReconcilers := (i, length (rtHeap rt)) # rtReconcilers rt, rtHeap := rtHeap rt @ [NewCentralReconciler]\<rparr>))"

fun start_reconcilers :: "ManagedCentral list \<Rightarrow> 's runtime \<Rightarrow> 's runtime" where
  "start_reconcilers [] rt = rt"
| "start_reconcilers (central # items) rt = (case reconciler_of (rcId central) rt of
     (p, rt1) \<Rightarrow> start_reconcilers items (rt1\<lparr>rtGoroutines := rtGoroutines rt1 @ [Spawned p central]\<rparr>))"

definition deleteStaleReconcilers :: "ManagedCentral list \<Rightarrow> 's runtime \<Rightarrow> 's runtime" where
  "deleteStaleReconcilers items rt =
     rt\<lparr>rtReconcilers := filter (\<lambda>(key, _). key \<in> set (map rcId items)) (rtReconcilers rt)\<rparr>"

text \<open>One tick: an answer that is an error, or none at all, is retried later.\<close>

definition tick :: "ManagedCentral list response option \<Rightarrow> 's runtime \<Rightarrow> 's runtime" where
  "tick answer rt = (case answer of
     Some (Reply _ items) \<Rightarrow> deleteStaleReconcilers items (start_reconcilers items rt)
   | _ \<Rightarrow> rt)"

text \<open>What is sent to the fleet manager after a reconciliation; errors are only logged.\<close>

definition handleReconcileResult :: "ManagedCentral \<Rightarrow> agent_error + agent_status \<Rightarrow> goroutine list" where
  "handleReconcileResult central r = (case r of Inl err \<Rightarrow> [] | Inr status \<Rightarrow> [Reporting central status])"

definition sent_report :: "ManagedCentral \<Rightarrow> agent_status \<Rightarrow> (string \<times> agent_status) list" where
  "sent_report central status = [(rcId central, status)]"

text \<open>What one reconciler sees of the process.\<close>

definition shard_of :: "nat \<Rightarrow> 's runtime \<Rightarrow> 's shard" where
  "shard_of p rt = \<lparr>shCluster = rtCluster rt, shCalls = rtCalls rt, shSelf = rtHeap rt ! p, shCertificates = rtCertificates rt\<rparr>"

definition put_shard :: "nat \<Rightarrow> 's shard \<Rightarrow> 's runtime \<Rightarrow> 's runtime" where
  "put_shard p s rt = rt\<lparr>rtCluster := shCluster s, rtCalls := shCalls s, rtHeap := (rtHeap rt)[p := shSelf s], rtCertificates := shCertificates s\<rparr>"

text \<open>The three steps of goroutine number \<open>i\<close>: entering \<open>Reconcile\<close> by the atomic swap, which gives up when the
  reconciler is busy; the body and the release; the report.\<close>

definition replace_at :: "nat \<Rightarrow> 'a list \<Rightarrow> 'a list \<Rightarrow> 'a list" where
  "replace_at i new xs = take i xs @ new @ drop (Suc i) xs"

definition enter_step :: "nat \<Rightarrow> 's runtime \<Rightarrow> 's runtime" where
  "enter_step i rt = (case rtGoroutines rt ! i of
     Spawned p rc \<Rightarrow>
       (let me = rtHeap rt ! p in
        if cnStatus me \<noteq> FreeStatus then rt\<lparr>rtGoroutines := replace_at i (handleReconcileResult rc (Inl ErrBusy)) (rtGoroutines rt)\<rparr>
        else rt\<lparr>rtGoroutines := replace_at i [Reconciling p rc] (rtGoroutines rt), rtHeap := (rtHeap rt)[p := me\<lparr>cnStatus := BlockedStatus\<rparr>]\<rparr>)
   | _ \<Rightarrow> rt)"

definition body_step :: "'s sync_env \<Rightarrow> nat \<Rightarrow> 's runtime \<Rightarrow> 's runtime" where
  "body_step sy i rt = (case rtGoroutines rt ! i of
     Reconciling p rc \<Rightarrow>
       (case run_state (reconcile_free sy rc) (shard_of p rt) of (r, s) \<Rightarrow>
          (put_shard p (s\<lparr>shSelf := (shSelf s)\<lparr>cnStatus := FreeStatus\<rparr>\<rparr>) rt)
            \<lparr>rtGoroutines := replace_at i (handleReconcileResult rc r) (rtGoroutines rt),
             rtDeleted := rtDeleted rt @ (if r = Inr deletedStatus then [(rc, shCluster s)] else [])\<rparr>)
   | _ \<Rightarrow> rt)"

definition report_step :: "env \<Rightarrow> string \<Rightarrow> nat \<Rightarrow> world \<times> 's runtime \<Rightarrow> world \<times> 's runtime" where
  "report_step ev clusterID i sys = (case sys of (w, rt) \<Rightarrow> (case rtGoroutines rt ! i of
     Reporting rc st \<Rightarrow> (snd (UpdateDinosaurStatuses ev clusterID (Inr (sent_report rc st)) w), rt\<lparr>rtGoroutines := replace_at i [] (rtGoroutines rt)\<rparr>)
   | _ \<Rightarrow> sys))"

text \<open>A report that never arrives.\<close>

definition lost_step :: "nat \<Rightarrow> 's runtime \<Rightarrow> 's runtime" where
  "lost_step i rt = (case rtGoroutines rt ! i of
     Reporting rc st \<Rightarrow> rt\<lparr>rtGoroutines := replace_at i [] (rtGoroutines rt)\<rparr>
   | _ \<Rightarrow> rt)"

subsection \<open>Start\<close>

text \<open>Every error of the discovery of the resource is taken for its absence.\<close>

definition IsRoutesResourceEnabled :: "agent_error + unit \<Rightarrow> agent_error + bool" where
  "IsRoutesResourceEnabled found = (case found of Inl err \<Rightarrow> Inr False | Inr _ \<Rightarrow> Inr True)"

definition routesAvailable :: "agent_error + unit \<Rightarrow> bool" where
  "routesAvailable found = (case IsRoutesResourceEnabled found of Inl err \<Rightarrow> True | Inr available \<Rightarrow> available)"

definition upgradeOperator :: "'s sync_env \<Rightarrow> ('s, unit) fallible" where
  "upgradeOperator sy = checked (InstallOrUpgrade sy) (Ctx ''operator upgrade'') succeed"

text \<open>What happens before the first tick: the options of the reconcilers, and the operator if that is enabled.\<close>

definition Start :: "'s sync_env \<Rightarrow> agent_error + unit \<Rightarrow> ('s, 's sync_env) fallible" where
  "Start sy found = (let opts = sy\<lparr>syUseRoutes := routesAvailable found\<rparr> in
     if syUpgradeOperatorEnabled sy then checked (upgradeOperator sy) (Ctx ''Upgrading operator'') (\<lambda>_. succeed opts)
     else succeed opts)"

lemma routes_optimism_unreachable: "routesAvailable (Inl e) = False"
  by (simp add: routesAvailable_def IsRoutesResourceEnabled_def)

subsection \<open>The agent and the fleet\<close>

text \<open>The agent of one cluster next to the fleet manager. The answer to a poll may be lost, a report may be lost
  before it arrives, the operators and users of the cluster change it at any time, and the process may restart.
  One reconciliation runs without interruption; everything else happens in any order.\<close>

inductive agent_step :: "'s sync_env \<Rightarrow> presenter_env \<Rightarrow> string \<Rightarrow> world \<times> 's runtime \<Rightarrow> world \<times> 's runtime \<Rightarrow> bool"
  for sy pm clusterID where
  poll: "agent_step sy pm clusterID (w, rt) (snd (dataPlaneHandler_GetAll pm clusterID w), tick (fst (dataPlaneHandler_GetAll pm clusterID w)) rt)"
| poll_lost: "agent_step sy pm clusterID (w, rt) (snd (dataPlaneHandler_GetAll pm clusterID w), rt)"
| enter: "i < length (rtGoroutines rt) \<Longrightarrow> agent_step sy pm clusterID (w, rt) (w, enter_step i rt)"
| body: "i < length (rtGoroutines rt) \<Longrightarrow> agent_step sy pm clusterID (w, rt) (w, body_step sy i rt)"
| report: "i < length (rtGoroutines rt) \<Longrightarrow> agent_step sy pm clusterID (w, rt) (report_step ev clusterID i (w, rt))"
| lost: "i < length (rtGoroutines rt) \<Longrightarrow> agent_step sy pm clusterID (w, rt) (w, lost_step i rt)"
| cluster: "agent_step sy pm clusterID (w, rt) (w, rt\<lparr>rtCluster := k\<rparr>)"
| restart: "agent_step sy pm clusterID (w, rt) (w, NewRuntime (rtCluster rt) (rtCalls rt) (rtDeleted rt))"

end
