(* ===== verification/Shard_Locks.thy ===== *)
theory Shard_Locks
  imports Shard_Runtime
begin

text \<open>
  The flag of a reconciler as a lock: it is set exactly while one goroutine is inside \<open>Reconcile\<close>. The ticks of the
  agent keep exactly one reconciler for every tenant of the latest answer.
\<close>

subsection \<open>Pointers\<close>

fun inside :: "goroutine \<Rightarrow> nat option" where
  "inside (Reconciling p rc) = Some p"
| "inside _ = None"

definition running :: "'s runtime \<Rightarrow> nat list" where
  "running rt = List.map_filter inside (rtGoroutines rt)"

fun points_to :: "goroutine \<Rightarrow> nat set" where
  "points_to (Spawned p rc) = {p}"
| "points_to (Reconciling p rc) = {p}"
| "points_to (Reporting rc st) = {}"

definition pointers :: "'s runtime \<Rightarrow> nat set" where
  "pointers rt = (\<Union>g\<in>set (rtGoroutines rt). points_to g) \<union> snd ` set (rtReconcilers rt)"

text \<open>Pointers are valid, at most one goroutine is inside a reconciler, and its flag says whether one is.\<close>

definition locks_ok :: "'s runtime \<Rightarrow> bool" where
  "locks_ok rt \<longleftrightarrow> pointers rt \<subseteq> {..<length (rtHeap rt)} \<and> distinct (running rt) \<and>
     (\<forall>p<length (rtHeap rt). cnStatus (rtHeap rt ! p) = (if p \<in> set (running rt) then BlockedStatus else FreeStatus))"

lemma statuses [simp]: "FreeStatus \<noteq> BlockedStatus" "BlockedStatus \<noteq> FreeStatus"
  by (simp_all add: FreeStatus_def BlockedStatus_def)

lemma map_filter_append [simp]: "List.map_filter f (xs @ ys) = List.map_filter f xs @ List.map_filter f ys"
  by (simp add: List.map_filter_def)

lemma running_in_pointers: "set (running rt) \<subseteq> pointers rt"
proof
  fix p assume "p \<in> set (running rt)"
  then obtain g where g: "g \<in> set (rtGoroutines rt)" "inside g = Some p" by (auto simp: running_def List.map_filter_def)
  have "p \<in> points_to g" using g(2) by (cases g) auto
  then show "p \<in> pointers rt" using g(1) by (auto simp: pointers_def)
qed

lemma split_goroutines:
  assumes "i < length (rtGoroutines rt)" "rtGoroutines rt ! i = g"
  obtains xs ys where "rtGoroutines rt = xs @ g # ys" "\<And>new. replace_at i new (rtGoroutines rt) = xs @ new @ ys"
proof -
  have "rtGoroutines rt = take i (rtGoroutines rt) @ g # drop (Suc i) (rtGoroutines rt)"
    using id_take_nth_drop [OF assms(1)] assms(2) by simp
  then show ?thesis by (rule that) (simp add: replace_at_def)
qed

lemma NewRuntime_locks: "locks_ok (NewRuntime k calls del)"
  by (simp add: locks_ok_def NewRuntime_def pointers_def running_def)

lemma reconciler_locks:
  assumes "locks_ok rt" "reconciler_of i rt = (p, rt1)"
  shows "locks_ok (rt1\<lparr>rtGoroutines := rtGoroutines rt1 @ [Spawned p c]\<rparr>)"
proof (cases "map_of (rtReconcilers rt) i")
  case None
  then have rt1: "p = length (rtHeap rt)" "rt1 = rt\<lparr>rtReconcilers := (i, p) # rtReconcilers rt, rtHeap := rtHeap rt @ [NewCentralReconciler]\<rparr>"
    using assms(2) by (auto simp: reconciler_of_def)
  have "p \<notin> set (running rt)" using assms(1) running_in_pointers [of rt] rt1(1) by (auto simp: locks_ok_def)
  then show ?thesis using assms(1) rt1(1) unfolding rt1(2)
    by (auto simp: locks_ok_def pointers_def running_def nth_append NewCentralReconciler_def less_Suc_eq List.map_filter_def)
next
  case (Some q)
  then have "rt1 = rt" "(i, p) \<in> set (rtReconcilers rt)" using assms(2) by (auto simp: reconciler_of_def dest: map_of_SomeD)
  then show ?thesis using assms(1) by (force simp: locks_ok_def pointers_def running_def List.map_filter_def)
qed

lemma start_locks: "locks_ok rt \<Longrightarrow> locks_ok (start_reconcilers items rt)"
  by (induction items arbitrary: rt) (auto simp: reconciler_locks split: prod.split)

lemma tick_locks: "locks_ok rt \<Longrightarrow> locks_ok (tick answer rt)"
  using start_locks [of rt]
  by (auto simp: tick_def deleteStaleReconcilers_def locks_ok_def pointers_def running_def split: option.split response.split)

text \<open>One goroutine takes its next step: the others keep their phase.\<close>

lemma replaced_locks:
  assumes "locks_ok rt" "rtGoroutines rt = xs @ g # ys" "rtGoroutines rt' = xs @ new @ ys" "rtReconcilers rt' = rtReconcilers rt"
    "length (rtHeap rt') = length (rtHeap rt)" "(\<Union>h\<in>set new. points_to h) \<subseteq> points_to g" "length (List.map_filter inside new) \<le> 1"
    "\<And>p. p < length (rtHeap rt) \<Longrightarrow> cnStatus (rtHeap rt' ! p) =
       (if p \<in> set (List.map_filter inside new) then BlockedStatus else if inside g = Some p then FreeStatus else cnStatus (rtHeap rt ! p))"
    "\<And>p. p \<in> set (List.map_filter inside new) \<Longrightarrow> cnStatus (rtHeap rt ! p) = FreeStatus \<or> inside g = Some p"
  shows "locks_ok rt'"
proof -
  have run: "running rt = List.map_filter inside xs @ List.map_filter inside [g] @ List.map_filter inside ys"
    "running rt' = List.map_filter inside xs @ List.map_filter inside new @ List.map_filter inside ys"
    using assms(2,3) by (simp_all add: running_def List.map_filter_def)
  have ptr: "pointers rt' \<subseteq> pointers rt" using assms(2-4,6) by (auto simp: pointers_def)
  have new: "p \<notin> set (List.map_filter inside xs) \<and> p \<notin> set (List.map_filter inside ys)" if "p \<in> set (List.map_filter inside new)" for p
  proof (cases "inside g = Some p")
    case True
    then show ?thesis using assms(1) run(1) by (auto simp: locks_ok_def List.map_filter_def)
  next
    case False
    have "p \<in> pointers rt'" using that run(2) running_in_pointers [of rt'] by auto
    then have "p < length (rtHeap rt)" using ptr assms(1) by (auto simp: locks_ok_def)
    then show ?thesis using assms(1) assms(9) [OF that] False run(1) by (auto simp: locks_ok_def split: if_splits)
  qed
  have dn: "distinct (List.map_filter inside new)" using assms(7) by (cases "List.map_filter inside new") auto
  have "distinct (running rt')" using new dn assms(1) unfolding run(2) by (auto simp: locks_ok_def run(1))
  moreover have "cnStatus (rtHeap rt' ! p) = (if p \<in> set (running rt') then BlockedStatus else FreeStatus)" if "p < length (rtHeap rt)" for p
  proof -
    have o: "cnStatus (rtHeap rt ! p) = (if p \<in> set (running rt) then BlockedStatus else FreeStatus)" using assms(1) that by (simp add: locks_ok_def)
    have "inside g = Some p \<Longrightarrow> p \<notin> set (List.map_filter inside xs) \<and> p \<notin> set (List.map_filter inside ys)"
      using assms(1) run(1) by (auto simp: locks_ok_def List.map_filter_def)
    then show ?thesis unfolding assms(8) [OF that] o run by (auto simp: List.map_filter_def)
  qed
  ultimately show ?thesis using ptr assms(1,5) by (auto simp: locks_ok_def)
qed

lemma pointed: "locks_ok rt \<Longrightarrow> rtGoroutines rt = xs @ g # ys \<Longrightarrow> p \<in> points_to g \<Longrightarrow> p < length (rtHeap rt)"
  by (auto simp: locks_ok_def pointers_def)

lemma enter_locks:
  assumes "locks_ok rt" "i < length (rtGoroutines rt)"
  shows "locks_ok (enter_step i rt)"
proof (cases "rtGoroutines rt ! i")
  case (Spawned p rc)
  obtain xs ys where s: "rtGoroutines rt = xs @ Spawned p rc # ys" "\<And>new. replace_at i new (rtGoroutines rt) = xs @ new @ ys"
    using split_goroutines [OF assms(2) Spawned] by blast
  have p: "p < length (rtHeap rt)" using pointed [OF assms(1) s(1)] by simp
  show ?thesis
  proof (cases "cnStatus (rtHeap rt ! p) = FreeStatus")
    case True
    then show ?thesis
      by (intro replaced_locks [OF assms(1) s(1), where new = "[Reconciling p rc]"])
         (use Spawned p in \<open>simp_all add: enter_step_def s(2) Let_def List.map_filter_def nth_list_update\<close>)
  next
    case False
    then show ?thesis
      by (intro replaced_locks [OF assms(1) s(1), where new = "[]"])
         (use Spawned in \<open>simp_all add: enter_step_def s(2) Let_def List.map_filter_def handleReconcileResult_def\<close>)
  qed
qed (use assms(1) in \<open>simp_all add: enter_step_def\<close>)

lemma outside_result: "List.map_filter inside (handleReconcileResult rc r) = []" "(\<Union>h\<in>set (handleReconcileResult rc r). points_to h) = {}"
  by (auto simp: handleReconcileResult_def List.map_filter_def split: sum.splits)

lemma body_locks:
  assumes "locks_ok rt" "i < length (rtGoroutines rt)"
  shows "locks_ok (body_step sy i rt)"
proof (cases "rtGoroutines rt ! i")
  case (Reconciling p rc)
  obtain xs ys where s: "rtGoroutines rt = xs @ Reconciling p rc # ys" "\<And>new. replace_at i new (rtGoroutines rt) = xs @ new @ ys"
    using split_goroutines [OF assms(2) Reconciling] by blast
  obtain r t where r: "run_state (reconcile_free sy rc) (shard_of p rt) = (r, t)" by fastforce
  have p: "p < length (rtHeap rt)" using pointed [OF assms(1) s(1)] by simp
  show ?thesis
    by (intro replaced_locks [OF assms(1) s(1), where new = "handleReconcileResult rc r"])
       (use Reconciling r p in \<open>simp_all add: body_step_def put_shard_def s(2) outside_result nth_list_update\<close>)
qed (use assms(1) in \<open>simp_all add: body_step_def\<close>)

lemma lost_locks:
  assumes "locks_ok rt" "i < length (rtGoroutines rt)"
  shows "locks_ok (lost_step i rt)"
proof (cases "rtGoroutines rt ! i")
  case (Reporting rc st)
  obtain xs ys where s: "rtGoroutines rt = xs @ Reporting rc st # ys" "\<And>new. replace_at i new (rtGoroutines rt) = xs @ new @ ys"
    using split_goroutines [OF assms(2) Reporting] by blast
  show ?thesis
    by (intro replaced_locks [OF assms(1) s(1), where new = "[]"]) (use Reporting in \<open>simp_all add: lost_step_def s(2) List.map_filter_def\<close>)
qed (use assms(1) in \<open>simp_all add: lost_step_def\<close>)

lemma report_step_runtime: "snd (report_step ev c i (w, rt)) = lost_step i rt"
  by (simp add: report_step_def lost_step_def split: goroutine.split)

lemma agent_step_locks:
  assumes "agent_step sy pm c s s'" "locks_ok (snd s)"
  shows "locks_ok (snd s')"
  using assms
  by cases (auto simp: tick_locks enter_locks body_locks lost_locks report_step_runtime NewRuntime_locks,
    simp add: locks_ok_def pointers_def running_def)

lemma agent_run_locks: "rtranclp (agent_step sy pm c) (w0, NewRuntime k calls del) s \<Longrightarrow> locks_ok (snd s)"
  by (induction rule: rtranclp_induct) (auto simp: NewRuntime_locks dest: agent_step_locks)

subsection \<open>The registry\<close>

text \<open>After a tick that got an answer the registry has exactly the tenants of the answer.\<close>

lemma start_registry: "fst ` set (rtReconcilers (start_reconcilers items rt)) = fst ` set (rtReconcilers rt) \<union> rcId ` set items"
proof (induction items arbitrary: rt)
  case (Cons c items)
  have "fst ` set (rtReconcilers (snd (reconciler_of i rt))) = insert i (fst ` set (rtReconcilers rt))" for i
    by (auto simp: reconciler_of_def split: option.split dest!: map_of_SomeD intro: rev_image_eqI)
  then show ?case using Cons by (simp add: case_prod_beta)
qed simp

lemma tick_registry: "fst ` set (rtReconcilers (tick (Some (Reply st items)) rt)) = rcId ` set items"
proof -
  have "fst ` {x \<in> S. fst x \<in> T} = fst ` S \<inter> T" for S :: "(string \<times> nat) set" and T by force
  then show ?thesis using start_registry [of items rt] by (simp add: tick_def deleteStaleReconcilers_def case_prod_beta)
qed

end
