(* ===== verification/Shard_Contracts.thy ===== *)
theory Shard_Contracts
  imports Shard_Reconciler
begin

text \<open>
  Rules for reasoning about the operations of the reconciler. What an operation does to the state is a relation
  between the states before and after; the locale \<open>step_relation\<close> gives the rules of the monad for every relation
  that is reflexive and transitive and that does not look at the fields of the reconciler. A property
  of the calls an operation adds to the log is such a relation (\<open>log_property\<close>).
\<close>

subsection \<open>The monad\<close>

definition moves :: "('t \<Rightarrow> 't \<Rightarrow> bool) \<Rightarrow> ('t, 'a) state \<Rightarrow> bool" where
  "moves R m \<longleftrightarrow> (\<forall>s. R s (snd (run_state m s)))"

lemma movesD: "moves R m \<Longrightarrow> run_state m s = (a, s') \<Longrightarrow> R s s'"
  unfolding moves_def by (metis snd_conv)

lemma run_basic [simp]:
  "run_state (succeed a) s = (Inr a, s)" "run_state (fail e) s = (Inl e, s)" "run_state self t = (shSelf t, t)"
  "run_state (set_self g) t = ((), t\<lparr>shSelf := g (shSelf t)\<rparr>)"
  by (simp_all add: succeed_def fail_def self_def set_self_def)

lemma run_observe: "run_state (observe f) s = (a, s') \<longleftrightarrow> (\<exists>k. f (shCluster s) = (a, k) \<and> s' = s\<lparr>shCluster := k\<rparr>)"
  by (auto simp: observe_def split: prod.splits)

lemma run_perform:
  "run_state (perform c f) s = (a, s') \<longleftrightarrow> (\<exists>k. f (shCluster s) = (a, k) \<and> s' = s\<lparr>shCluster := k, shCalls := shCalls s @ [c]\<rparr>)"
  by (auto simp: perform_def split: prod.splits)

lemma run_checked:
  "run_state (checked m f k) s = (case run_state m s of (Inl e, s') \<Rightarrow> (Inl (f e), s') | (Inr a, s') \<Rightarrow> run_state (k a) s')"
  by (auto simp: checked_def split: prod.splits sum.splits)

lemma run_checked_Inr:
  assumes "run_state (checked m f k) s = (Inr b, s')"
  obtains a s1 where "run_state m s = (Inr a, s1)" "run_state (k a) s1 = (Inr b, s')"
  using assms by (auto simp: run_checked split: prod.splits sum.splits)

text \<open>The results an operation can have.\<close>

lemma set_observe [simp]: "a \<in> set_state (observe f) \<longleftrightarrow> (\<exists>k k'. f k = (a, k'))"
proof
  assume "\<exists>k k'. f k = (a, k')"
  then obtain k k' where "f k = (a, k')" by blast
  then have "run_state (observe f) \<lparr>shCluster = k, shCalls = [], shSelf = NewCentralReconciler, shCertificates = None\<rparr> =
      (a, \<lparr>shCluster = k', shCalls = [], shSelf = NewCentralReconciler, shCertificates = None\<rparr>)"
    by (simp add: run_observe)
  then show "a \<in> set_state (observe f)" unfolding set_state_iff by blast
qed (auto simp: set_state_iff run_observe)

lemma set_checked_Inr:
  assumes "Inr b \<in> set_state (checked m f k)"
  obtains a where "Inr a \<in> set_state m" "Inr b \<in> set_state (k a)"
  using assms unfolding set_state_iff by (auto elim!: run_checked_Inr)

lemma set_bind:
  assumes "a \<in> set_state (State_Monad.bind m f)"
  obtains b where "b \<in> set_state m" "a \<in> set_state (f b)"
  using assms unfolding set_state_iff by (metis (no_types, lifting) old.prod.case run_state_bind surj_pair)

lemma set_succeed [simp]: "a \<in> set_state (succeed b) \<longleftrightarrow> a = Inr b"
  and set_fail [simp]: "a \<in> set_state (fail e) \<longleftrightarrow> a = Inl e"
  by (auto simp: set_state_iff)

locale step_relation =
  fixes R :: "'s shard \<Rightarrow> 's shard \<Rightarrow> bool"
  assumes step_refl: "R s s"
    and step_trans: "R s t \<Longrightarrow> R t u \<Longrightarrow> R s u"
    and step_self: "R s (s\<lparr>shSelf := me\<rparr>)"
    and step_certificates: "R s (s\<lparr>shCertificates := c\<rparr>)"
begin

lemma moves_return: "moves R (State_Monad.return a)"
  by (simp add: moves_def step_refl)

lemma moves_succeed: "moves R (succeed a)" and moves_fail: "moves R (fail e)"
  by (simp_all add: moves_def step_refl)

lemma moves_self: "moves R self" and moves_set_self: "moves R (set_self g)"
  by (simp_all add: moves_def step_refl step_self)

lemma moves_bind: "moves R m \<Longrightarrow> (\<And>a. a \<in> set_state m \<Longrightarrow> moves R (f a)) \<Longrightarrow> moves R (State_Monad.bind m f)"
  unfolding moves_def set_state_iff by (metis (no_types, lifting) old.prod.case run_state_bind step_trans surjective_pairing)

lemma moves_checked: "moves R m \<Longrightarrow> (\<And>a. Inr a \<in> set_state m \<Longrightarrow> moves R (k a)) \<Longrightarrow> moves R (checked m f k)"
  unfolding checked_def by (rule moves_bind) (auto split: sum.split intro: moves_fail)

lemma moves_certificates: "moves R (GetDatabaseCACertificates sy)"
  unfolding moves_def GetDatabaseCACertificates_def using step_refl step_certificates by (auto split: option.splits sum.splits)

lemmas basic_moves = moves_return moves_succeed moves_fail moves_self moves_set_self moves_bind moves_checked moves_certificates

end

text \<open>Properties of the calls that an operation adds to the log.\<close>

definition logged :: "(shard_call list \<Rightarrow> bool) \<Rightarrow> 's shard \<Rightarrow> 's shard \<Rightarrow> bool" where
  "logged T s s' \<longleftrightarrow> (\<exists>cs. shCalls s' = shCalls s @ cs \<and> T cs)"

locale log_property =
  fixes T :: "shard_call list \<Rightarrow> bool"
  assumes log_Nil: "T []"
    and log_append: "T xs \<Longrightarrow> T ys \<Longrightarrow> T (xs @ ys)"
begin

lemma logged_step: "step_relation (logged T)"
proof
  show "logged T s u" if "logged T s t" "logged T t u" for s t u :: "'s shard"
    using that log_append unfolding logged_def by auto
qed (use log_Nil in \<open>auto simp: logged_def\<close>)

lemma logged_observe: "moves (logged T) (observe f)"
  using log_Nil unfolding moves_def logged_def by (auto simp: observe_def split: prod.splits)

lemma logged_perform: "T [c] \<Longrightarrow> moves (logged T) (perform c f)"
  unfolding moves_def logged_def by (auto simp: perform_def split: prod.splits)

lemmas log_moves = step_relation.basic_moves [OF logged_step] logged_observe logged_perform

end

subsection \<open>Keys of objects\<close>

datatype object_kind = KCentral | KNamespace | KSecret | KRoute | KChart string

type_synonym object_id = "object_kind \<times> string \<times> string"

fun object_id :: "kube_object \<Rightarrow> object_id" where
  "object_id (OCentral c) = (KCentral, ccrNamespace c, ccrName c)"
| "object_id (ONamespace n) = (KNamespace, [], nsName n)"
| "object_id (OSecret se) = (KSecret, seNamespace se, seName se)"
| "object_id (ORoute r) = (KRoute, krNamespace r, krName r)"
| "object_id (OChart u) = (KChart (unGVK u), unNamespace u, unName u)"

subsection \<open>The calls of a reconciliation\<close>

text \<open>What a reconciliation may do to the cluster, apart from setting up the database: \<open>C\<close> holds of the objects it makes,
  of the changed and the removed ones it has looked up, and of the requests to the API of the tenant.\<close>

lemmas write_defs = create_obj_def update_obj_def delete_obj_def

definition tenant_address :: "ManagedCentral \<Rightarrow> string \<Rightarrow> bool" where
  "tenant_address rc a \<longleftrightarrow> has_prefix a (''https://central.'' @ rcNamespace rc @ ''.svc.cluster.local:'')"

lemma IncrementCentralRevision_key:
  "IncrementCentralRevision c = Inr c' \<Longrightarrow> ccrNamespace c' = ccrNamespace c \<and> ccrName c' = ccrName c \<and> ccrSpec c' = ccrSpec c"
  by (auto simp: IncrementCentralRevision_def split: option.splits prod.splits bool.splits)

lemma getServiceAddress_tenant: "Inr a \<in> set_state (getServiceAddress sy rc) \<Longrightarrow> tenant_address rc a"
  unfolding getServiceAddress_def
  by (auto elim!: set_checked_Inr simp: tenant_address_def centralServiceName_def has_prefix_def split: sum.splits)

locale tenant_calls =
  fixes sy :: "'s sync_env" and rc :: ManagedCentral and C :: "shard_call \<Rightarrow> bool"
  assumes create_route: "krNamespace r = rcNamespace rc \<Longrightarrow> C (Create (ORoute r))"
    and delete_route: "syGetRoute sy (rcNamespace rc) name k = (Inr r, k') \<Longrightarrow> C (Delete (ORoute r))"
    and create_namespace: "nsName n = rcNamespace rc \<Longrightarrow> C (Create (ONamespace n))"
    and delete_namespace: "syGetNamespace sy (rcNamespace rc) k = (Inr n, k') \<Longrightarrow> C (Delete (ONamespace n))"
    and create_central: "ccrNamespace c = rcNamespace rc \<Longrightarrow> C (Create (OCentral c))"
    and change_central: "syGetCentral sy (rcNamespace rc) name k = (Inr c, k') \<Longrightarrow>
      \<forall>c'. ccrNamespace c' = ccrNamespace c \<longrightarrow> C (Update (OCentral c')) \<and> C (Delete (OCentral c'))"
    and apply_chart: "tenant_objects sy (rcNamespace rc) = Inr obs \<Longrightarrow> u \<in> set obs \<Longrightarrow> unNamespace u' = unNamespace (in_namespace (rcNamespace rc) u) \<Longrightarrow>
      C (Create (OChart u')) \<and> C (Update (OChart u'))"
    and delete_chart: "tenant_objects sy (rcNamespace rc) = Inr obs \<Longrightarrow> u \<in> set obs \<Longrightarrow>
      syGetObject sy g (unNamespace (in_namespace (rcNamespace rc) u)) name k = (Inr u', k') \<Longrightarrow> C (Delete (OChart u'))"
    and delete_secret: "syGetSecret sy (rcNamespace rc) centralDbSecretName k = (Inr se, k') \<Longrightarrow> C (Delete (OSecret se))"
    and deprovision: "C (DeprovisionDB (rcId rc))"
    and api_request: "tenant_address rc (hqURL req) \<Longrightarrow> C (HTTPDo req)"
begin

lemma calls: "log_property (list_all C)"
  by unfold_locales auto

lemmas call_moves = log_property.log_moves [OF calls]

lemma routes_calls:
  "moves (logged (list_all C)) (ensureRoutesExist sy rc)" "moves (logged (list_all C)) (routes_deleted sy (rcNamespace rc))"
  "moves (logged (list_all C)) (getRoutesStatuses sy (rcNamespace rc))"
  unfolding ensureRoutesExist_def ensureReencryptRouteExists_def ensurePassthroughRouteExists_def CreateReencryptRoute_def CreatePassthroughRoute_def
    createCentralRoute_def routes_deleted_def ensureRouteDeleted_def getRoutesStatuses_def findFirstAdmittedIngress_def write_defs
  by (auto intro!: call_moves create_route simp: central_route_def findRoute_def dest!: delete_route elim!: set_checked_Inr split: sum.split option.split)

lemma namespace_calls:
  "moves (logged (list_all C)) (ensureNamespaceExists sy (rcNamespace rc) ls as)" "moves (logged (list_all C)) (ensureNamespaceDeleted sy (rcNamespace rc))"
  unfolding ensureNamespaceExists_def ensureNamespaceDeleted_def createTenantNamespace_def write_defs
  by (auto intro!: call_moves create_namespace simp: getNamespace_def dest!: delete_namespace elim!: set_checked_Inr split: sum.split option.split)

lemma database_deleted_calls: "moves (logged (list_all C)) (db_deleted sy rc)"
  unfolding db_deleted_def ensureCentralDBSecretDeleted_def write_defs
  by (auto intro!: call_moves deprovision simp: get_db_secret_def dest!: delete_secret split: sum.split)

lemma central_calls:
  "ccrNamespace c = rcNamespace rc \<Longrightarrow> moves (logged (list_all C)) (apply_central sy rc c)"
  "moves (logged (list_all C)) (ensureCentralCRDeleted sy (rcNamespace rc) name)"
  unfolding apply_central_def ensureCentralCRDeleted_def disablePauseReconcileIfPresent_def write_defs
  by (auto intro!: call_moves create_central simp: Let_def dest!: IncrementCentralRevision_key dest!: change_central
      elim!: set_checked_Inr split: sum.split option.split if_splits)

lemma apply_objects_calls:
  assumes "tenant_objects sy (rcNamespace rc) = Inr obs" "set xs \<subseteq> set obs"
  shows "moves (logged (list_all C)) (apply_objects f g sy (rcNamespace rc) xs)"
  using assms(2) by (induction xs) (auto intro!: call_moves simp: Let_def write_defs apply_chart [OF assms(1)] split: sum.split)

lemma delete_objects_calls:
  assumes "tenant_objects sy (rcNamespace rc) = Inr obs" "set xs \<subseteq> set obs"
  shows "moves (logged (list_all C)) (delete_objects sy (rcNamespace rc) b xs)"
  using assms(2) by (induction xs arbitrary: b)
    (auto intro!: call_moves simp: Let_def write_defs dest!: delete_chart [OF assms(1), rotated] split: sum.split)

lemma chart_calls:
  "moves (logged (list_all C)) (ensureChartResourcesExist sy rc)" "moves (logged (list_all C)) (ensureChartResourcesDeleted sy rc)"
  unfolding ensureChartResourcesExist_def ensureChartResourcesDeleted_def
  by (auto intro!: call_moves intro: apply_objects_calls delete_objects_calls split: sum.split)

lemma deployment_calls: "moves (logged (list_all C)) (isCentralDeploymentReady sy rc)"
  unfolding isCentralDeploymentReady_def by (auto intro!: call_moves split: sum.split)

lemma address_calls: "moves (logged (list_all C)) (getServiceAddress sy rc)"
  unfolding getServiceAddress_def by (auto intro!: call_moves split: sum.split)

lemma request_calls: "tenant_address rc (clAddress c) \<Longrightarrow> moves (logged (list_all C)) (SendRequestToCentral sy c msg meth path dec)"
  unfolding SendRequestToCentral_def SendRequestToCentralRaw_def createRequest_def
  by (auto intro!: call_moves api_request simp: Let_def tenant_address_def has_prefix_iff split: sum.splits option.splits if_splits)

lemma send_groups_calls: "tenant_address rc (clAddress c) \<Longrightarrow> moves (logged (list_all C)) (send_groups sy c gs)"
  by (induction gs) (auto intro!: call_moves request_calls simp: SendGroupRequest_def)

lemma auth_calls:
  "moves (logged (list_all C)) (learn_auth_provider sy rc)" "moves (logged (list_all C)) (createRHSSOAuthProvider sy rc)"
  unfolding learn_auth_provider_def existsRHSSOAuthProvider_def GetLoginAuthProviders_def createRHSSOAuthProvider_def SendAuthProviderRequest_def
    getAdminPassword_def
  by (auto intro!: call_moves deployment_calls address_calls request_calls send_groups_calls simp: Let_def dest!: getServiceAddress_tenant split: sum.split)

lemma deletion_calls: "moves (logged (list_all C)) (ensureCentralDeleted sy rc)"
  unfolding ensureCentralDeleted_def
  by (auto intro!: call_moves routes_calls central_calls database_deleted_calls chart_calls namespace_calls)

text \<open>A property of logs that holds of such calls, and of those that set up the database, holds of every
  reconciliation.\<close>

lemma reconcile_logged:
  assumes T: "log_property T" "\<And>cs. list_all C cs \<Longrightarrow> T cs" and db: "\<And>c. moves (logged T) (with_database sy rc c)"
  shows "moves (logged T) (Reconcile sy rc)"
proof -
  note tm = log_property.log_moves [OF T(1)]
  have up: "moves (logged T) m" if "moves (logged (list_all C)) m" for m :: "('s, 'a) act"
    using that T(2) unfolding moves_def logged_def by blast
  have conv: "ccrNamespace c = rcNamespace rc" if "convert_central sy rc = Inr c" for c
    using that by (auto simp: convert_central_def desired_central_def split: sum.splits)
  have wdb: "ccrNamespace c' = ccrNamespace c" if "Inr c' \<in> set_state (with_database sy rc c)" for c c'
    using that unfolding with_database_def by (auto simp: Let_def elim!: set_checked_Inr set_bind split: if_splits sum.splits)
  have "moves (logged T) (install_tenant sy rc ch c)" if "ccrNamespace c = rcNamespace rc" for ch c
    unfolding install_tenant_def apply_routes_def report_ready_def setLastCentralHash_def
    using that by (auto intro!: tm db up [OF routes_calls(1)] up [OF routes_calls(3)] up [OF central_calls(1)] up [OF chart_calls(1)]
        up [OF namespace_calls(1)] up [OF deployment_calls] up [OF auth_calls(2)] simp: wdb Let_def split: sum.split)
  then have "moves (logged T) (reconcile_free sy rc)"
    unfolding reconcile_free_def centralChanged_def delete_tenant_def
    using conv by (auto intro!: tm up [OF auth_calls(1)] up [OF deletion_calls] simp: Let_def split: sum.split)
  then show ?thesis unfolding Reconcile_def by (auto intro!: tm)
qed

end

end
