(* ===== verification/Shard_Sample.thy ===== *)
theory Shard_Sample
  imports Shard_Contracts
begin

text \<open>
  A small cluster: a list of objects that lookups search and that creation, change and removal edit at once.
  It is where the properties of the reconciler are applied to concrete input.
\<close>

type_synonym store = "kube_object list"

definition lookup_object :: "object_id \<Rightarrow> (kube_object \<Rightarrow> 'a) \<Rightarrow> store \<Rightarrow> (agent_error + 'a) \<times> store" where
  "lookup_object i out k = (case find (\<lambda>ob. object_id ob = i) k of
     Some ob \<Rightarrow> (Inr (out ob), k)
   | None \<Rightarrow> (Inl (ApiErr NotFoundReason ''not found''), k))"

fun the_central :: "kube_object \<Rightarrow> CentralCR" where "the_central (OCentral c) = c"
fun the_namespace :: "kube_object \<Rightarrow> k8s_Namespace" where "the_namespace (ONamespace n) = n\<lparr>nsPhase := ''Active''\<rparr>"
fun the_secret :: "kube_object \<Rightarrow> Secret" where "the_secret (OSecret se) = se"
fun the_route :: "kube_object \<Rightarrow> k8s_Route" where "the_route (ORoute r) = r"
fun the_chart :: "kube_object \<Rightarrow> Unstructured" where "the_chart (OChart u) = u\<lparr>unDeleting := False\<rparr>"

definition remove_object :: "object_id \<Rightarrow> store \<Rightarrow> store" where
  "remove_object i k = filter (\<lambda>ob. object_id ob \<noteq> i) k"

definition replace_object :: "kube_object \<Rightarrow> store \<Rightarrow> store" where
  "replace_object ob k = map (\<lambda>x. if object_id x = object_id ob then ob else x) k"

definition chart_object :: Unstructured where
  "chart_object = \<lparr>unGVK = ''v1/Service'', unNamespace = [], unName = ''egress-proxy'', unResourceVersion = [], unDeleting = False, unBody = []\<rparr>"

definition sample_sync :: "store sync_env" where
  "sample_sync = \<lparr>
     syGetCentral = (\<lambda>ns name. lookup_object (KCentral, ns, name) the_central),
     syGetNamespace = (\<lambda>name. lookup_object (KNamespace, [], name) the_namespace),
     syGetSecret = (\<lambda>ns name. lookup_object (KSecret, ns, name) the_secret),
     syGetRoute = (\<lambda>ns name. lookup_object (KRoute, ns, name) the_route),
     syGetDeployment = (\<lambda>ns name k. (Inr \<lparr>dpAvailableReplicas = 1, dpUnavailableReplicas = 0\<rparr>, k)),
     syGetService = (\<lambda>ns name k. (Inr \<lparr>svNamespace = ns, svName = name, svPorts = [(''https'', 443)]\<rparr>, k)),
     syGetObject = (\<lambda>g ns name. lookup_object (KChart g, ns, name) the_chart),
     syCreate = (\<lambda>ob k. (Inr (), k @ [ob])),
     syUpdate = (\<lambda>ob k. (Inr (), replace_object ob k)),
     syDelete = (\<lambda>ob k. (Inr (), remove_object (object_id ob) k)),
     syProvisionDB = (\<lambda>i p k. (Inr (), k)),
     syDeprovisionDB = (\<lambda>i k. (Inr (), k)),
     syGetDBConnection = (\<lambda>i k. (NewDBConnection ''h'' 5432 ''u'' ''d'', k)),
     syInitDB = (\<lambda>c u p k. (Inr (), k)),
     syGeneratePassword = (\<lambda>k. (Inr ''pw'', k)),
     syHTTP = (\<lambda>req k. (Inl (Plain ''unreachable''), k)),
     syNewRequest = (\<lambda>m u. None),
     syMarshal = (\<lambda>m. Inr []),
     syDecodeAuthProvider = (\<lambda>b. Inr b),
     syDecodeLogins = (\<lambda>b. Inr []),
     syDecodeError = (\<lambda>b. Inr b),
     syServerFromURL = (\<lambda>u. u),
     syRenderValues = (\<lambda>r ns v. Inr []),
     syRender = (\<lambda>v. Inr [(''egress-proxy.yaml'', [])]),
     syParseYAML = (\<lambda>c. Inr [chart_object]),
     syReadFile = (\<lambda>f. Inr ''ca''),
     syHash = (\<lambda>rc. Inr (rcId rc @ rcRequestStatus rc)),
     syParseQuantity = Inr,
     syUseRoutes = True,
     syWantsAuthProvider = False,
     syEgressProxyImage = [],
     syManagedDBEnabled = True,
     syTelemetryEndpoint = [],
     syTelemetryKey = [],
     syClusterName = ''c'',
     syEnvironment = ''e'',
     syUpgradeOperatorEnabled = False\<rparr>"

definition sample_managed :: ManagedCentral where
  "sample_managed = \<lparr>rcId = ''t1'', rcKind = [], rcName = ''n'', rcNamespace = ''ns'', rcInternal = False, rcMasId = ''t1'', rcMasPlacementId = [],
     rcDeletionTimestamp = [], rcOwners = [], rcClientId = [], rcClientSecret = [], rcClientOrigin = [], rcOwnerUserId = [], rcOwnerOrgId = [],
     rcOwnerOrgName = [], rcIssuer = [], rcUiHost = ''ui'', rcTlsCert = [], rcTlsKey = [], rcDataHost = ''data'', rcDesiredVersion = [],
     rcActualVersion = [], rcInstanceType = [], rcCentralResources = empty_resources, rcScaling = empty_scaling,
     rcAnalyzerResources = empty_resources, rcDbHost = [], rcDbResources = empty_resources, rcRequestStatus = CentralRequestStatusProvisioning\<rparr>"

definition sample_shard :: "store \<Rightarrow> store shard" where
  "sample_shard k = \<lparr>shCluster = k, shCalls = [], shSelf = NewCentralReconciler, shCertificates = None\<rparr>"

lemma lookup_cases:
  "(\<exists>ob\<in>set k. object_id ob = i \<and> lookup_object i out k = (Inr (out ob), k)) \<or>
   (i \<notin> object_id ` set k \<and> lookup_object i out k = (Inl (ApiErr NotFoundReason ''not found''), k))"
proof (cases "find (\<lambda>ob. object_id ob = i) k")
  case None
  then have "i \<notin> object_id ` set k" by (auto simp: find_None_iff)
  with None show ?thesis by (simp add: lookup_object_def)
next
  case (Some ob)
  then have "ob \<in> set k" "object_id ob = i" by (auto simp: find_Some_iff)
  with Some show ?thesis by (auto simp: lookup_object_def)
qed

lemma lookup_Inr: "lookup_object i out k = (Inr a, k') \<Longrightarrow> \<exists>ob. ob \<in> set k \<and> object_id ob = i \<and> a = out ob"
  using lookup_cases [of k i out] by auto

lemma replace_ids: "object_id ` set (replace_object ob k) = object_id ` set k"
proof -
  have "map object_id (replace_object ob k) = map object_id k" by (simp add: replace_object_def)
  then show ?thesis by (metis list.set_map)
qed

lemma object_id_shapes:
  "object_id ob = (KCentral, ns, name) \<longleftrightarrow> (\<exists>c. ob = OCentral c \<and> ccrNamespace c = ns \<and> ccrName c = name)"
  "object_id ob = (KNamespace, ns, name) \<longleftrightarrow> (\<exists>n. ob = ONamespace n \<and> ns = [] \<and> nsName n = name)"
  "object_id ob = (KSecret, ns, name) \<longleftrightarrow> (\<exists>se. ob = OSecret se \<and> seNamespace se = ns \<and> seName se = name)"
  "object_id ob = (KRoute, ns, name) \<longleftrightarrow> (\<exists>r. ob = ORoute r \<and> krNamespace r = ns \<and> krName r = name)"
  "object_id ob = (KChart g, ns, name) \<longleftrightarrow> (\<exists>u. ob = OChart u \<and> unGVK u = g \<and> unNamespace u = ns \<and> unName u = name)"
  by (cases ob; auto)+

end
