(* ===== verification/Shard_Correct.thy ===== *)
theory Shard_Correct
  imports Shard_Sample
begin

text \<open>
  Properties of the calls of a reconciler: it stays within its tenant, and the passwords of the managed database
  change hands in order.
\<close>

subsection \<open>The tenant's own objects\<close>

fun own_object :: "string \<Rightarrow> kube_object \<Rightarrow> bool" where
  "own_object ns (OCentral c) = (ccrNamespace c = ns)"
| "own_object ns (ONamespace n) = (nsName n = ns)"
| "own_object ns (OSecret s) = (seNamespace s = ns)"
| "own_object ns (ORoute r) = (krNamespace r = ns)"
| "own_object ns (OChart u) = (unNamespace u = ns)"

fun own_call :: "ManagedCentral \<Rightarrow> shard_call \<Rightarrow> bool" where
  "own_call rc (Create ob) = own_object (rcNamespace rc) ob"
| "own_call rc (Update ob) = own_object (rcNamespace rc) ob"
| "own_call rc (Delete ob) = own_object (rcNamespace rc) ob"
| "own_call rc (ProvisionDB i p) = (i = rcId rc)"
| "own_call rc (DeprovisionDB i) = (i = rcId rc)"
| "own_call rc (InitDB c u p) = (u = dbCentralUserName)"
| "own_call rc (HTTPDo req) = has_prefix (hqURL req) (''https://central.'' @ rcNamespace rc @ ''.svc.cluster.local:'')"

text \<open>The client answers a lookup with the object of that key.\<close>

definition answers_by_key :: "'s sync_env \<Rightarrow> bool" where
  "answers_by_key sy \<longleftrightarrow>
     (\<forall>ns name k c k'. syGetCentral sy ns name k = (Inr c, k') \<longrightarrow> ccrNamespace c = ns \<and> ccrName c = name) \<and>
     (\<forall>name k n k'. syGetNamespace sy name k = (Inr n, k') \<longrightarrow> nsName n = name) \<and>
     (\<forall>ns name k se k'. syGetSecret sy ns name k = (Inr se, k') \<longrightarrow> seNamespace se = ns \<and> seName se = name) \<and>
     (\<forall>ns name k r k'. syGetRoute sy ns name k = (Inr r, k') \<longrightarrow> krNamespace r = ns \<and> krName r = name) \<and>
     (\<forall>g ns name k u k'. syGetObject sy g ns name k = (Inr u, k') \<longrightarrow> unGVK u = g \<and> unNamespace u = ns \<and> unName u = name)"

text \<open>The chart of a tenant has no objects in other namespaces.\<close>

definition chart_is_local :: "'s sync_env \<Rightarrow> string \<Rightarrow> bool" where
  "chart_is_local sy ns \<longleftrightarrow> (case tenant_objects sy ns of
     Inl _ \<Rightarrow> True
   | Inr obs \<Rightarrow> list_all (\<lambda>u. unNamespace u = [] \<or> unNamespace u = ns) obs)"

lemma by_key:
  assumes "answers_by_key sy"
  shows "syGetCentral sy ns name k = (Inr c, k') \<Longrightarrow> ccrNamespace c = ns \<and> ccrName c = name"
    and "syGetNamespace sy name k = (Inr n, k') \<Longrightarrow> nsName n = name"
    and "syGetSecret sy ns name k = (Inr se, k') \<Longrightarrow> seNamespace se = ns \<and> seName se = name"
    and "syGetRoute sy ns name k = (Inr r, k') \<Longrightarrow> krNamespace r = ns \<and> krName r = name"
    and "syGetObject sy g ns name k = (Inr u, k') \<Longrightarrow> unGVK u = g \<and> unNamespace u = ns \<and> unName u = name"
  using assms unfolding answers_by_key_def by metis+

interpretation own: tenant_calls sy rc "\<lambda>c. answers_by_key sy \<and> chart_is_local sy (rcNamespace rc) \<longrightarrow> own_call rc c"
  for sy :: "'s sync_env" and rc
  by unfold_locales (auto simp: tenant_address_def chart_is_local_def in_namespace_def list_all_iff dest!: by_key [rotated])

interpretation own_log: log_property "list_all (own_call rc)" for rc
  by unfold_locales auto

lemma own_db_secret:
  assumes "answers_by_key sy"
  shows "moves (logged (list_all (own_call rc))) (ensureCentralDBSecretExists sy (rcNamespace rc) u p)"
    and "moves (logged (list_all (own_call rc))) (centralDBSecretExists sy ns)"
    and "moves (logged (list_all (own_call rc))) (centralDBUserExists sy ns)"
    and "moves (logged (list_all (own_call rc))) (getDBPasswordFromSecret sy ns)"
    and "moves (logged (list_all (own_call rc))) (generateDBPassword sy)"
  unfolding ensureCentralDBSecretExists_def centralDBSecretExists_def centralDBUserExists_def
    getDBPasswordFromSecret_def generateDBPassword_def write_defs
  by (auto intro!: own_log.log_moves simp: get_db_secret_def set_password_def new_db_secret_def dest!: by_key [OF assms]
      simp del: fun_upd_apply split: sum.split option.split)

lemma own_database:
  assumes "answers_by_key sy"
  shows "moves (logged (list_all (own_call rc))) (with_database sy rc c)"
  unfolding with_database_def getCentralDBConnectionString_def ensureManagedCentralDBInitialized_def ensure_master_secret_def
  by (auto intro!: own_log.log_moves own_db_secret [OF assms] simp: Let_def split: sum.split)


lemma sample_by_key: "answers_by_key sample_sync"
  unfolding answers_by_key_def sample_sync_def by (auto dest!: lookup_Inr simp: object_id_shapes)


subsection \<open>Passwords of the managed database\<close>

text \<open>The calls that hand the database over: the secret gets the password of the unprivileged user.\<close>

fun handed_over :: "shard_call \<Rightarrow> string option" where
  "handed_over (Create (OSecret se)) = (if user_type se = Some dbUserTypeCentral then map_of (seData se) ''password'' else None)"
| "handed_over (Update (OSecret se)) = (if user_type se = Some dbUserTypeCentral then map_of (seData se) ''password'' else None)"
| "handed_over _ = None"

definition password_order :: "ManagedCentral \<Rightarrow> shard_call list \<Rightarrow> bool" where
  "password_order rc cs \<longleftrightarrow> (\<forall>xs c ys p. cs = xs @ c # ys \<and> handed_over c = Some p \<longrightarrow>
     (\<exists>xs' conn. xs = xs' @ [ProvisionDB (rcId rc) (dbPassword conn), InitDB conn dbCentralUserName p]))"

lemma order_none: "list_all (\<lambda>c. handed_over c = None) cs \<Longrightarrow> password_order rc cs"
  unfolding password_order_def by auto

lemma append_split: "xs @ ys = us @ c # vs \<Longrightarrow> (\<exists>zs. xs = us @ c # zs) \<or> (\<exists>zs. us = xs @ zs \<and> ys = zs @ c # vs)"
  by (auto simp: append_eq_append_conv2 append_eq_Cons_conv Cons_eq_append_conv)

lemma order_append: "password_order rc xs \<Longrightarrow> password_order rc ys \<Longrightarrow> password_order rc (xs @ ys)"
  unfolding password_order_def
proof (intro allI impI)
  fix us c vs p
  assume x: "\<forall>us c vs p. xs = us @ c # vs \<and> handed_over c = Some p \<longrightarrow>
      (\<exists>us' conn. us = us' @ [ProvisionDB (rcId rc) (dbPassword conn), InitDB conn dbCentralUserName p])"
    and y: "\<forall>us c vs p. ys = us @ c # vs \<and> handed_over c = Some p \<longrightarrow>
      (\<exists>us' conn. us = us' @ [ProvisionDB (rcId rc) (dbPassword conn), InitDB conn dbCentralUserName p])"
    and c: "xs @ ys = us @ c # vs \<and> handed_over c = Some p"
  have "(\<exists>zs. xs = us @ c # zs) \<or> (\<exists>zs. us = xs @ zs \<and> ys = zs @ c # vs)" using append_split conjunct1 [OF c] .
  then show "\<exists>us' conn. us = us' @ [ProvisionDB (rcId rc) (dbPassword conn), InitDB conn dbCentralUserName p]"
  proof (elim disjE exE conjE)
    fix zs assume z: "us = xs @ zs" "ys = zs @ c # vs"
    then obtain us' conn where "zs = us' @ [ProvisionDB (rcId rc) (dbPassword conn), InitDB conn dbCentralUserName p]" using y c by blast
    then show ?thesis using z(1) by (intro exI [of _ "xs @ us'"] exI [of _ conn]) simp
  qed (use x c in blast)
qed

interpretation order: log_property "password_order rc" for rc
  by unfold_locales (simp_all add: order_append, simp add: password_order_def)

interpretation silent: tenant_calls sy rc "\<lambda>c. handed_over c = None" for sy :: "'s sync_env" and rc
  by unfold_locales auto

lemma user_type_set: "user_type (set_password u p se) = Some u"
  by (simp add: user_type_def set_password_def AList.update_conv' split: option.split)


lemma handed_over_secret:
  "handed_over (Create (OSecret (set_password u p se))) = (if u = dbUserTypeCentral then Some p else None)"
  "handed_over (Update (OSecret (set_password u p se))) = (if u = dbUserTypeCentral then Some p else None)"
  by (simp_all add: user_type_set) (simp_all add: set_password_def)

lemma logged_mono: "moves (logged Q) m \<Longrightarrow> (\<And>cs. Q cs \<Longrightarrow> T cs) \<Longrightarrow> moves (logged T) m"
  unfolding moves_def logged_def by blast

lemma secret_write_log:
  "moves (logged (\<lambda>cs. cs = [] \<or> (\<exists>c. cs = [c] \<and> handed_over c = (if u = dbUserTypeCentral then Some p else None))))
     (ensureCentralDBSecretExists sy ns u p)"
  unfolding moves_def logged_def ensureCentralDBSecretExists_def write_defs get_db_secret_def
  by (auto simp: run_checked observe_def perform_def handed_over_secret simp del: handed_over.simps split: prod.split sum.split)

lemma after_call:
  fixes f :: "'s \<Rightarrow> (agent_error + 'a) \<times> 's"
  assumes "Q [c]" "\<And>a. moves (logged (\<lambda>cs. Q (c # cs))) (k a)"
  shows "moves (logged Q) (checked (perform c f) g k)"
  unfolding moves_def
proof
  fix s :: "'s shard"
  obtain r k' where r: "f (shCluster s) = (r, k')" by fastforce
  let ?t = "s\<lparr>shCluster := k', shCalls := shCalls s @ [c]\<rparr>"
  have "logged Q s (snd (run_state (k a) ?t))" for a
    using assms(2) [of a] unfolding moves_def logged_def by (elim allE [of _ ?t]) auto
  then show "logged Q s (snd (run_state (checked (perform c f) g k) s))"
    using assms(1) r by (cases r) (auto simp: run_checked perform_def, simp add: logged_def)
qed

lemma after_lookup:
  assumes "\<And>s. shCalls (snd (run_state m s)) = shCalls s" "Q []" "\<And>a. moves (logged Q) (k a)"
  shows "moves (logged Q) (checked m g k)"
  unfolding moves_def
proof
  fix s
  obtain r s1 where r: "run_state m s = (r, s1)" by fastforce
  then have e: "shCalls s1 = shCalls s" using assms(1) [of s] by simp
  have "logged Q s (snd (run_state (k a) s1))" for a
    using assms(3) [of a] e unfolding moves_def logged_def by (elim allE [of _ s1]) auto
  then show "logged Q s (snd (run_state (checked m g k) s))"
    using assms(2) r e by (cases r) (auto simp: run_checked, simp add: logged_def)
qed

lemma order_handover:
  assumes "m = dbPassword conn" "handed_over c = Some p"
  shows "password_order rc [ProvisionDB (rcId rc) m]" "password_order rc [ProvisionDB (rcId rc) m, InitDB conn dbCentralUserName p]"
    "password_order rc [ProvisionDB (rcId rc) m, InitDB conn dbCentralUserName p, c]"
  using assms unfolding password_order_def by (auto simp: append_eq_Cons_conv Cons_eq_append_conv)

text \<open>Provisioning, initialising and handing over, in this order.\<close>

lemma handover_order:
  "moves (logged (password_order rc)) (checked (perform (ProvisionDB (rcId rc) m) f1) g1 (\<lambda>_.
     checked (observe f2) g2 (\<lambda>dbConnection. checked (generateDBPassword sy) g3 (\<lambda>p.
     let conn = dbConnection\<lparr>dbPassword := m, dbSslRootCert := ca\<rparr> in
     checked (perform (InitDB conn dbCentralUserName p) (f4 conn p)) g4 (\<lambda>_. ensureCentralDBSecretExists sy ns dbUserTypeCentral p)))))"
proof -
  have n: "password_order rc [ProvisionDB (rcId rc) m]" "password_order rc [ProvisionDB (rcId rc) m, InitDB conn u p]" for conn u p
    by (rule order_none, simp)+
  have w: "moves (logged (\<lambda>cs. password_order rc (ProvisionDB (rcId rc) m # InitDB conn dbCentralUserName p # cs)))
      (ensureCentralDBSecretExists sy ns dbUserTypeCentral p)" if "m = dbPassword conn" for conn p
    by (rule logged_mono [OF secret_write_log]) (use order_handover(3) [OF that] n(2) in auto)
  have g: "shCalls (snd (run_state (generateDBPassword sy) s)) = shCalls s" for s
    by (auto simp: generateDBPassword_def run_checked observe_def split: prod.splits sum.splits)
  have ob: "shCalls (snd (run_state (observe f2) s)) = shCalls s" for s by (simp add: observe_def split: prod.split)
  show ?thesis unfolding Let_def
    by (intro after_call after_lookup g ob n w) simp
qed

lemma database_order: "moves (logged (password_order rc)) (with_database sy rc c)"
proof -
  have s: "moves (logged (password_order rc)) (ensureCentralDBSecretExists sy ns dbUserTypeMaster p)" for ns p
    by (rule logged_mono [OF secret_write_log], rule order_none) (auto simp: dbUserTypeMaster_def dbUserTypeCentral_def)
  note checked = step_relation.moves_checked [OF order.logged_step]
  have e1: "moves (logged (password_order rc)) (centralDBSecretExists sy (rcNamespace rc))"
    unfolding centralDBSecretExists_def get_db_secret_def by (auto intro!: order.log_moves split: sum.split)
  have e2: "moves (logged (password_order rc)) (ensure_master_secret sy (rcNamespace rc) b)" for b
    unfolding ensure_master_secret_def generateDBPassword_def by (auto intro!: order.log_moves s)
  have e3: "moves (logged (password_order rc)) (getDBPasswordFromSecret sy (rcNamespace rc))"
    unfolding getDBPasswordFromSecret_def get_db_secret_def by (auto intro!: order.log_moves split: option.split)
  have "moves (logged (password_order rc)) (ensureManagedCentralDBInitialized sy rc)"
    unfolding ensureManagedCentralDBInitialized_def Let_def
    by (rule checked, rule e1, rule checked, rule e2, rule checked, rule e3, rule handover_order [unfolded Let_def])
  then show ?thesis
    unfolding with_database_def getCentralDBConnectionString_def centralDBUserExists_def get_db_secret_def
    by (auto intro!: order.log_moves simp: Let_def split: sum.split)
qed

text \<open>C19: Passwords change hands in order. In every reconciliation, whatever fails, the secret of a tenant gets the password of
  the unprivileged database user only right after that user was set up with this very password over a connection
  that uses the master password the database was provisioned with.\<close>

theorem password_handover_order:
  "\<exists>cs. shCalls (snd (run_state (Reconcile sy rc) s)) = shCalls s @ cs \<and> password_order rc cs"
  using silent.reconcile_logged [OF order.log_property_axioms order_none database_order]
  unfolding moves_def logged_def by blast

end
