(* ===== verification/Shard_Deletion.thy ===== *)
theory Shard_Deletion
  imports Shard_Correct
begin

text \<open>
  Properties of reconciliations: a deletion is reported only when the objects are gone, and it is reported when they
  are; a tenant in its final state is left alone.
\<close>

subsection \<open>Deletion\<close>

text \<open>The objects that a deletion waits for.\<close>

definition tenant_objects_ids :: "'s sync_env \<Rightarrow> ManagedCentral \<Rightarrow> object_id set" where
  "tenant_objects_ids sy rc = {(KCentral, rcNamespace rc, rcName rc), (KNamespace, [], rcNamespace rc)} \<union>
     (if syUseRoutes sy then {(KRoute, rcNamespace rc, centralReencryptRouteName), (KRoute, rcNamespace rc, centralPassthroughRouteName)} else {}) \<union>
     (if syManagedDBEnabled sy then {(KSecret, rcNamespace rc, centralDbSecretName)} else {})"

text \<open>\<open>P k\<close> has the objects of the cluster \<open>k\<close>. A lookup adds no object, and answers ``not found'' only if there is none; no
  other call of a deletion adds an object either.\<close>

definition honest_lookup :: "('s \<Rightarrow> object_id set) \<Rightarrow> object_id \<Rightarrow> ('s \<Rightarrow> (agent_error + 'a) \<times> 's) \<Rightarrow> bool" where
  "honest_lookup P i get \<longleftrightarrow> (\<forall>k r k'. get k = (r, k') \<longrightarrow> P k' \<subseteq> P k \<and> (\<forall>e. r = Inl e \<and> IsNotFound e \<longrightarrow> i \<notin> P k'))"

definition adds_nothing :: "('s \<Rightarrow> object_id set) \<Rightarrow> ('s \<Rightarrow> 'a \<times> 's) \<Rightarrow> bool" where
  "adds_nothing P f \<longleftrightarrow> (\<forall>k. P (snd (f k)) \<subseteq> P k)"

definition honest_cluster :: "'s sync_env \<Rightarrow> ('s \<Rightarrow> object_id set) \<Rightarrow> bool" where
  "honest_cluster sy P \<longleftrightarrow>
     (\<forall>ns name. honest_lookup P (KCentral, ns, name) (syGetCentral sy ns name)) \<and>
     (\<forall>name. honest_lookup P (KNamespace, [], name) (syGetNamespace sy name)) \<and>
     (\<forall>ns name. honest_lookup P (KSecret, ns, name) (syGetSecret sy ns name)) \<and>
     (\<forall>ns name. honest_lookup P (KRoute, ns, name) (syGetRoute sy ns name)) \<and>
     (\<forall>g ns name. honest_lookup P (KChart g, ns, name) (syGetObject sy g ns name)) \<and>
     (\<forall>ob. adds_nothing P (syUpdate sy ob)) \<and> (\<forall>ob. adds_nothing P (syDelete sy ob)) \<and> (\<forall>i. adds_nothing P (syDeprovisionDB sy i))"

lemma honest:
  assumes "honest_cluster sy P"
  shows "honest_lookup P (KCentral, ns, name) (syGetCentral sy ns name)" "honest_lookup P (KNamespace, [], name) (syGetNamespace sy name)"
    "honest_lookup P (KSecret, ns, name) (syGetSecret sy ns name)" "honest_lookup P (KRoute, ns, name) (syGetRoute sy ns name)"
    "honest_lookup P (KChart g, ns, name) (syGetObject sy g ns name)"
    "adds_nothing P (syUpdate sy ob)" "adds_nothing P (syDelete sy ob)" "adds_nothing P (syDeprovisionDB sy i)"
  using assms unfolding honest_cluster_def by blast+

definition shrinks :: "('s \<Rightarrow> object_id set) \<Rightarrow> 's shard \<Rightarrow> 's shard \<Rightarrow> bool" where
  "shrinks P s s' \<longleftrightarrow> P (shCluster s') \<subseteq> P (shCluster s)"

interpretation gone: step_relation "shrinks P" for P
  by unfold_locales (auto simp: shrinks_def)

lemma shrinks_observe: "honest_lookup P i get \<Longrightarrow> moves (shrinks P) (observe get)"
  unfolding honest_lookup_def moves_def shrinks_def observe_def by (auto split: prod.splits)

lemma shrinks_perform: "adds_nothing P f \<Longrightarrow> moves (shrinks P) (perform c f)"
  unfolding adds_nothing_def moves_def shrinks_def perform_def by (simp add: split_def)

lemma observed_absent:
  "honest_lookup P i get \<Longrightarrow> run_state (observe get) s = (Inl e, s') \<Longrightarrow> IsNotFound e \<Longrightarrow> i \<notin> P (shCluster s')"
  unfolding honest_lookup_def by (auto simp: run_observe)

lemmas shrinking = gone.basic_moves shrinks_observe shrinks_perform

lemma deletion_shrinks:
  assumes "honest_cluster sy P"
  shows "moves (shrinks P) (ensureRouteDeleted sy ns name)" "moves (shrinks P) (ensureCentralCRDeleted sy ns name)"
    "moves (shrinks P) (db_deleted sy rc)" "moves (shrinks P) (ensureNamespaceDeleted sy ns)"
  unfolding ensureRouteDeleted_def findRoute_def ensureCentralCRDeleted_def disablePauseReconcileIfPresent_def db_deleted_def
    ensureCentralDBSecretDeleted_def get_db_secret_def ensureNamespaceDeleted_def getNamespace_def write_defs
  by (auto intro!: shrinking honest [OF assms] simp: Let_def split: sum.split option.split)

lemma delete_objects_shrinks: "honest_cluster sy P \<Longrightarrow> moves (shrinks P) (delete_objects sy ns b obs)"
  by (induction obs arbitrary: b) (auto intro!: shrinking honest simp: Let_def write_defs split: sum.split)

lemma chart_shrinks: "honest_cluster sy P \<Longrightarrow> moves (shrinks P) (ensureChartResourcesDeleted sy rc)"
  unfolding ensureChartResourcesDeleted_def by (auto intro!: shrinking delete_objects_shrinks split: sum.split)

text \<open>A lookup that decides whether an object is gone.\<close>

definition gone_check :: "('s, 'a) fallible \<Rightarrow> ('a \<Rightarrow> ('s, bool) fallible) \<Rightarrow> (agent_error \<Rightarrow> agent_error) \<Rightarrow> ('s, bool) fallible" where
  "gone_check look del f = do {
     r \<leftarrow> look;
     case r of Inl e \<Rightarrow> if IsNotFound e then succeed True else fail (f e) | Inr a \<Rightarrow> del a }"

lemma gone_checks:
  "ensureRouteDeleted sy ns name = gone_check (findRoute sy ns name)
     (\<lambda>route. checked (delete_obj sy (ORoute route)) (Ctx (''delete central route '' @ krNamespace route @ ''/'' @ krName route)) (\<lambda>_. succeed False))
     (Ctx (''get central route '' @ ns @ ''/'' @ name))"
  "ensureCentralCRDeleted sy ns name = gone_check (observe (syGetCentral sy ns name))
     (\<lambda>central. checked (disablePauseReconcileIfPresent sy central) id (\<lambda>central'.
        checked (delete_obj sy (OCentral central')) (Ctx (''delete central CR '' @ ns @ ''/'' @ name)) (\<lambda>_. succeed False)))
     (Ctx (''delete central CR '' @ ns @ ''/'' @ name))"
  "ensureCentralDBSecretDeleted sy ns = gone_check (get_db_secret sy ns)
     (\<lambda>secret. checked (delete_obj sy (OSecret secret)) (\<lambda>_. Plain (''deleting central DB secret '' @ ns @ ''/'' @ centralDbSecretName)) (\<lambda>_. succeed False))
     (Ctx ''deleting Central DB secret'')"
  "ensureNamespaceDeleted sy ns = gone_check (getNamespace sy ns)
     (\<lambda>n. if nsPhase n = NamespaceTerminating then succeed False
         else checked (delete_obj sy (ONamespace n)) (Ctx (''delete central namespace '' @ ns)) (\<lambda>_. succeed False))
     (Ctx (''delete central namespace '' @ ns))"
  by (simp_all only: gone_check_def ensureRouteDeleted_def ensureCentralCRDeleted_def ensureCentralDBSecretDeleted_def ensureNamespaceDeleted_def)

lemma gone_check_True:
  assumes "run_state (gone_check look del f) s = (Inr True, s')" "\<And>a t t'. run_state (del a) t \<noteq> (Inr True, t')"
  obtains e where "run_state look s = (Inl e, s')" "IsNotFound e"
proof -
  obtain r s1 where l: "run_state look s = (r, s1)" by fastforce
  then show ?thesis using assms that by (cases r) (auto simp: gone_check_def split: if_splits)
qed

lemma wrapped_lookup: "run_state (checked (observe get) (Ctx m) succeed) s = (Inl e, s') \<Longrightarrow> IsNotFound e \<Longrightarrow>
    \<exists>e'. run_state (observe get) s = (Inl e', s') \<and> IsNotFound e'"
  by (auto simp: run_checked split: prod.splits sum.splits)

lemma never_True: "run_state (checked m f (\<lambda>_. succeed False)) t \<noteq> (Inr True, t')"
  "run_state (checked m' f' (\<lambda>a. checked (m2 a) (f2 a) (\<lambda>_. succeed False))) t \<noteq> (Inr True, t')"
  by (auto simp: run_checked split: prod.splits sum.splits)

lemma deleted_absent:
  assumes h: "honest_cluster sy P"
  shows "run_state (ensureRouteDeleted sy ns name) s = (Inr True, s') \<Longrightarrow> (KRoute, ns, name) \<notin> P (shCluster s')"
    and "run_state (ensureCentralCRDeleted sy ns name) s = (Inr True, s') \<Longrightarrow> (KCentral, ns, name) \<notin> P (shCluster s')"
    and "run_state (ensureCentralDBSecretDeleted sy ns) s = (Inr True, s') \<Longrightarrow> (KSecret, ns, centralDbSecretName) \<notin> P (shCluster s')"
    and "run_state (ensureNamespaceDeleted sy ns) s = (Inr True, s') \<Longrightarrow> (KNamespace, [], ns) \<notin> P (shCluster s')"
  unfolding gone_checks
  by (auto elim!: gone_check_True simp: never_True findRoute_def getNamespace_def get_db_secret_def split: if_splits
      dest!: wrapped_lookup observed_absent [OF honest(4) [OF h]] observed_absent [OF honest(1) [OF h]]
        observed_absent [OF honest(3) [OF h]] observed_absent [OF honest(2) [OF h]])

lemma routes_deleted_absent:
  assumes h: "honest_cluster sy P" and r: "run_state (routes_deleted sy ns) s = (Inr True, s')"
  shows "syUseRoutes sy \<Longrightarrow> (KRoute, ns, centralReencryptRouteName) \<notin> P (shCluster s') \<and> (KRoute, ns, centralPassthroughRouteName) \<notin> P (shCluster s')"
proof -
  assume "syUseRoutes sy"
  then obtain s1 where "run_state (ensureRouteDeleted sy ns centralReencryptRouteName) s = (Inr True, s1)"
      "run_state (ensureRouteDeleted sy ns centralPassthroughRouteName) s1 = (Inr True, s')"
    using r unfolding routes_deleted_def by (auto elim!: run_checked_Inr)
  then show ?thesis using deleted_absent(1) [OF h] movesD [OF deletion_shrinks(1) [OF h]] unfolding shrinks_def by blast
qed

lemma ensureCentralDeleted_absent:
  assumes h: "honest_cluster sy P" and r: "run_state (ensureCentralDeleted sy rc) s = (Inr True, s')"
  shows "tenant_objects_ids sy rc \<inter> P (shCluster s') = {}"
proof -
  let ?ns = "rcNamespace rc"
  obtain s1 s2 s3 s4 where run: "run_state (routes_deleted sy ?ns) s = (Inr True, s1)"
      "run_state (ensureCentralCRDeleted sy ?ns (rcName rc)) s1 = (Inr True, s2)" "run_state (db_deleted sy rc) s2 = (Inr True, s3)"
      "run_state (ensureChartResourcesDeleted sy rc) s3 = (Inr True, s4)" "run_state (ensureNamespaceDeleted sy ?ns) s4 = (Inr True, s')"
    using r unfolding ensureCentralDeleted_def by (auto elim!: run_checked_Inr)
  have le: "P (shCluster s2) \<subseteq> P (shCluster s1)" "P (shCluster s3) \<subseteq> P (shCluster s2)" "P (shCluster s4) \<subseteq> P (shCluster s3)"
      "P (shCluster s') \<subseteq> P (shCluster s4)"
    using movesD [OF deletion_shrinks(2) [OF h] run(2)] movesD [OF deletion_shrinks(3) [OF h] run(3)] movesD [OF chart_shrinks [OF h] run(4)]
      movesD [OF deletion_shrinks(4) [OF h] run(5)] by (simp_all add: shrinks_def)
  have "(KSecret, ?ns, centralDbSecretName) \<notin> P (shCluster s3)" if "syManagedDBEnabled sy"
    using run(3) that deleted_absent(3) [OF h] unfolding db_deleted_def by (auto elim!: run_checked_Inr)
  then show ?thesis
    using le routes_deleted_absent [OF h run(1)] deleted_absent(2) [OF h run(2)] deleted_absent(4) [OF h run(5)]
    unfolding tenant_objects_ids_def by auto
qed

lemma install_not_deleted: "run_state (install_tenant sy rc ch c) s \<noteq> (Inr deletedStatus, s')"
proof
  assume "run_state (install_tenant sy rc ch c) s = (Inr deletedStatus, s')"
  then show False unfolding install_tenant_def report_ready_def
    by (auto elim!: run_checked_Inr simp: installingStatus_def deletedStatus_def readyStatus_def ready_condition_def split: if_splits)
qed

lemma reconcile_free_Inr:
  assumes "run_state (reconcile_free sy rc) s = (Inr st, s')"
  obtains ch c s1 where "convert_central sy rc = Inr c"
    "rcDeletionTimestamp rc \<noteq> [] \<and> run_state (delete_tenant sy rc) s1 = (Inr st, s') \<or>
     rcDeletionTimestamp rc = [] \<and> (\<exists>c'. run_state (install_tenant sy rc ch c') s1 = (Inr st, s'))"
proof -
  obtain ch t1 where "run_state (case convert_central sy rc of Inl e \<Rightarrow> fail e
      | Inr c \<Rightarrow> checked (learn_auth_provider sy rc) id (\<lambda>hasAuthProvider.
          let central = (if hasAuthProvider then c\<lparr>ccrSpec := (ccrSpec c)\<lparr>csAdminPasswordGenerationDisabled := Some True\<rparr>\<rparr> else c) in
          if rcDeletionTimestamp rc \<noteq> [] then delete_tenant sy rc else install_tenant sy rc ch central)) t1 = (Inr st, s')"
    using assms unfolding reconcile_free_def by (auto elim!: run_checked_Inr split: if_splits)
  then obtain c ha t2 where "convert_central sy rc = Inr c"
      "run_state (if rcDeletionTimestamp rc \<noteq> [] then delete_tenant sy rc
         else install_tenant sy rc ch (if ha then c\<lparr>ccrSpec := (ccrSpec c)\<lparr>csAdminPasswordGenerationDisabled := Some True\<rparr>\<rparr> else c)) t2 = (Inr st, s')"
    by (auto elim!: run_checked_Inr simp: Let_def split: sum.splits)
  then show ?thesis using that [of c t2 ch] by (cases "rcDeletionTimestamp rc = []") auto
qed

lemma Reconcile_Inr:
  assumes "run_state (Reconcile sy rc) s = (Inr st, s')"
  obtains s0 s2 where "run_state (reconcile_free sy rc) s0 = (Inr st, s2)" "shCluster s' = shCluster s2"
    "shSelf s' = (shSelf s2)\<lparr>cnStatus := FreeStatus\<rparr>"
  using assms unfolding Reconcile_def by (auto split: if_splits prod.splits)

lemma reconcile_free_deleted:
  assumes "honest_cluster sy P" "run_state (reconcile_free sy rc) s = (Inr deletedStatus, s')"
  shows "rcDeletionTimestamp rc \<noteq> [] \<and> tenant_objects_ids sy rc \<inter> P (shCluster s') = {}"
  using assms(2)
proof (rule reconcile_free_Inr)
  fix ch s1 c
  assume r: "rcDeletionTimestamp rc \<noteq> [] \<and> run_state (delete_tenant sy rc) s1 = (Inr deletedStatus, s') \<or>
      rcDeletionTimestamp rc = [] \<and> (\<exists>c'. run_state (install_tenant sy rc ch c') s1 = (Inr deletedStatus, s'))"
  then have d: "rcDeletionTimestamp rc \<noteq> []" "run_state (delete_tenant sy rc) s1 = (Inr deletedStatus, s')" using install_not_deleted by blast+
  then have "run_state (ensureCentralDeleted sy rc) s1 = (Inr True, s')"
    unfolding delete_tenant_def by (auto elim!: run_checked_Inr split: if_splits)
  from ensureCentralDeleted_absent [OF assms(1) this] show ?thesis using d(1) by simp
qed

text \<open>C18: A deletion is reported only when it is complete. When a reconciliation reports a tenant as deleted, its
  deletion was asked for and the cluster has none of its objects any more: neither the central resource nor
  the namespace, nor the routes where routes are used, nor the password of a managed database.\<close>

theorem deleted_means_gone:
  assumes "honest_cluster sy P" "run_state (Reconcile sy rc) s = (Inr deletedStatus, s')"
  shows "rcDeletionTimestamp rc \<noteq> [] \<and> tenant_objects_ids sy rc \<inter> P (shCluster s') = {}"
  using assms(2) by (rule Reconcile_Inr) (use reconcile_free_deleted [OF assms(1)] in simp)

text \<open>The small cluster, with a tenant to be deleted.\<close>

definition leaving_tenant :: ManagedCentral where
  "leaving_tenant = sample_managed\<lparr>rcDeletionTimestamp := ''2023-01-01T00:00:00Z'', rcRequestStatus := CentralRequestStatusDeprovision\<rparr>"

definition ids_of :: "store \<Rightarrow> object_id set" where "ids_of k = object_id ` set k"

lemma lookup_honest: "honest_lookup ids_of i (lookup_object i out)"
  unfolding honest_lookup_def ids_of_def
proof (intro allI impI)
  fix k r k' assume "lookup_object i out k = (r, k')"
  then show "object_id ` set k' \<subseteq> object_id ` set k \<and> (\<forall>e. r = Inl e \<and> IsNotFound e \<longrightarrow> i \<notin> object_id ` set k')"
    using lookup_cases [of k i out] by auto
qed

lemma sample_honest: "honest_cluster sample_sync ids_of"
  unfolding honest_cluster_def
  by (intro conjI allI; simp add: sample_sync_def lookup_honest adds_nothing_def ids_of_def replace_ids remove_object_def) auto

theorem deleted_means_gone_witness:
  "run_state (Reconcile sample_sync leaving_tenant) (sample_shard []) =
     (Inr deletedStatus, snd (run_state (Reconcile sample_sync leaving_tenant) (sample_shard []))) \<and>
   tenant_objects_ids sample_sync leaving_tenant \<inter> ids_of (shCluster (snd (run_state (Reconcile sample_sync leaving_tenant) (sample_shard [])))) = {}"
proof -
  have "fst (run_state (Reconcile sample_sync leaving_tenant) (sample_shard [])) = Inr deletedStatus" by code_simp
  then have r: "run_state (Reconcile sample_sync leaving_tenant) (sample_shard []) =
     (Inr deletedStatus, snd (run_state (Reconcile sample_sync leaving_tenant) (sample_shard [])))" by (metis surjective_pairing)
  show ?thesis using r deleted_means_gone [OF sample_honest r] by blast
qed

text \<open>A cluster that answers and removes what it is asked to remove at once.\<close>

definition exact_lookup :: "('s \<Rightarrow> object_id set) \<Rightarrow> object_id \<Rightarrow> ('a \<Rightarrow> bool) \<Rightarrow> ('s \<Rightarrow> (agent_error + 'a) \<times> 's) \<Rightarrow> bool" where
  "exact_lookup P i ok get \<longleftrightarrow> (\<forall>k. (\<exists>a. get k = (Inr a, k) \<and> ok a \<and> i \<in> P k) \<or> (\<exists>e. get k = (Inl e, k) \<and> IsNotFound e \<and> i \<notin> P k))"

definition removes_at_once :: "('s \<Rightarrow> object_id set) \<Rightarrow> object_id set \<Rightarrow> ('s \<Rightarrow> (agent_error + unit) \<times> 's) \<Rightarrow> bool" where
  "removes_at_once P A f \<longleftrightarrow> (\<forall>k. \<exists>k'. f k = (Inr (), k') \<and> P k' \<subseteq> P k - A)"

definition prompt_cluster :: "'s sync_env \<Rightarrow> ('s \<Rightarrow> object_id set) \<Rightarrow> bool" where
  "prompt_cluster sy P \<longleftrightarrow>
     (\<forall>ns name. exact_lookup P (KCentral, ns, name) (\<lambda>c. ccrNamespace c = ns \<and> ccrName c = name) (syGetCentral sy ns name)) \<and>
     (\<forall>name. exact_lookup P (KNamespace, [], name) (\<lambda>n. nsName n = name \<and> nsPhase n \<noteq> NamespaceTerminating) (syGetNamespace sy name)) \<and>
     (\<forall>ns name. exact_lookup P (KSecret, ns, name) (\<lambda>se. seNamespace se = ns \<and> seName se = name) (syGetSecret sy ns name)) \<and>
     (\<forall>ns name. exact_lookup P (KRoute, ns, name) (\<lambda>r. krNamespace r = ns \<and> krName r = name) (syGetRoute sy ns name)) \<and>
     (\<forall>g ns name. exact_lookup P (KChart g, ns, name) (\<lambda>u. \<not> unDeleting u) (syGetObject sy g ns name)) \<and>
     (\<forall>ob. removes_at_once P {} (syUpdate sy ob)) \<and> (\<forall>ob. removes_at_once P {object_id ob} (syDelete sy ob)) \<and>
     (\<forall>i. removes_at_once P {} (syDeprovisionDB sy i))"

text \<open>An operation that always succeeds, leaves none of the objects \<open>A\<close>, and answers true if the flag holds and
  none of them was there.\<close>

definition cleans :: "('s \<Rightarrow> object_id set) \<Rightarrow> object_id set \<Rightarrow> bool \<Rightarrow> ('s, bool) fallible \<Rightarrow> bool" where
  "cleans P A F m \<longleftrightarrow> (\<forall>s. \<exists>b s'. run_state m s = (Inr b, s') \<and> P (shCluster s') \<subseteq> P (shCluster s) - A \<and>
     (F \<and> A \<inter> P (shCluster s) = {} \<longrightarrow> b) \<and> shSelf s' = shSelf s)"

lemma cleans_succeed: "(F \<Longrightarrow> b) \<Longrightarrow> cleans P {} F (succeed b)"
  by (simp add: cleans_def)

lemma cleans_checked:
  assumes "cleans P A True m" "\<And>a. cleans P B (F \<and> a) (k a)"
  shows "cleans P (A \<union> B) F (checked m id k)"
  unfolding cleans_def
proof
  fix s
  obtain a s1 where m: "run_state m s = (Inr a, s1)" "P (shCluster s1) \<subseteq> P (shCluster s) - A" "A \<inter> P (shCluster s) = {} \<longrightarrow> a" "shSelf s1 = shSelf s"
    using assms(1) unfolding cleans_def by blast
  obtain b s2 where "run_state (k a) s1 = (Inr b, s2)" "P (shCluster s2) \<subseteq> P (shCluster s1) - B" "(F \<and> a) \<and> B \<inter> P (shCluster s1) = {} \<longrightarrow> b"
      "shSelf s2 = shSelf s1"
    using assms(2) [of a] unfolding cleans_def by blast
  with m show "\<exists>b s'. run_state (checked m id k) s = (Inr b, s') \<and> P (shCluster s') \<subseteq> P (shCluster s) - (A \<union> B) \<and>
      (F \<and> (A \<union> B) \<inter> P (shCluster s) = {} \<longrightarrow> b) \<and> shSelf s' = shSelf s"
    by (intro exI [of _ b] exI [of _ s2]) (auto simp: run_checked)
qed

lemma cleans_action:
  fixes P :: "'s \<Rightarrow> object_id set"
  assumes "removes_at_once P A f" "cleans P B F m"
  shows "cleans P (A \<union> B) F (checked (perform c f) g (\<lambda>_. m))"
  unfolding cleans_def
proof
  fix s :: "'s shard"
  obtain k' where k: "f (shCluster s) = (Inr (), k')" "P k' \<subseteq> P (shCluster s) - A" using assms(1) unfolding removes_at_once_def by blast
  let ?t = "s\<lparr>shCluster := k', shCalls := shCalls s @ [c]\<rparr>"
  have "run_state (checked (perform c f) g (\<lambda>_. m)) s = run_state m ?t" using k(1) by (simp add: run_checked perform_def)
  moreover obtain b s2 where "run_state m ?t = (Inr b, s2)" "P (shCluster s2) \<subseteq> P k' - B" "F \<and> B \<inter> P k' = {} \<longrightarrow> b" "shSelf s2 = shSelf s"
    using assms(2) [unfolded cleans_def, THEN spec, of ?t] by auto
  ultimately show "\<exists>b s'. run_state (checked (perform c f) g (\<lambda>_. m)) s = (Inr b, s') \<and> P (shCluster s') \<subseteq> P (shCluster s) - (A \<union> B) \<and>
      (F \<and> (A \<union> B) \<inter> P (shCluster s) = {} \<longrightarrow> b) \<and> shSelf s' = shSelf s"
    using k(2) by (intro exI [of _ b] exI [of _ s2]) auto
qed

lemma cleans_gone_check:
  assumes "exact_lookup P i ok get" "look = observe get \<or> (\<exists>m. look = checked (observe get) (Ctx m) succeed)"
    "\<And>a. ok a \<Longrightarrow> cleans P {i} False (del a)"
  shows "cleans P {i} True (gone_check look del f)"
  unfolding cleans_def
proof
  fix s
  show "\<exists>b s'. run_state (gone_check look del f) s = (Inr b, s') \<and> P (shCluster s') \<subseteq> P (shCluster s) - {i} \<and>
      (True \<and> {i} \<inter> P (shCluster s) = {} \<longrightarrow> b) \<and> shSelf s' = shSelf s"
  proof (cases "\<exists>a. get (shCluster s) = (Inr a, shCluster s) \<and> ok a")
    case True
    then obtain a where a: "get (shCluster s) = (Inr a, shCluster s)" "ok a" by blast
    then have "run_state (gone_check look del f) s = run_state (del a) s"
      using assms(2) by (auto simp: gone_check_def run_checked observe_def)
    moreover have "i \<in> P (shCluster s)" using assms(1) a(1) unfolding exact_lookup_def by (metis Inl_Inr_False prod.inject)
    ultimately show ?thesis using assms(3) [OF a(2)] unfolding cleans_def by auto
  next
    case False
    then obtain e where "get (shCluster s) = (Inl e, shCluster s)" "IsNotFound e" "i \<notin> P (shCluster s)"
      using assms(1) unfolding exact_lookup_def by blast
    then show ?thesis using assms(2) by (auto simp: gone_check_def run_checked observe_def)
  qed
qed

lemma prompt:
  assumes "prompt_cluster sy P"
  shows "exact_lookup P (KCentral, ns, name) (\<lambda>c. ccrNamespace c = ns \<and> ccrName c = name) (syGetCentral sy ns name)"
    "exact_lookup P (KNamespace, [], name) (\<lambda>n. nsName n = name \<and> nsPhase n \<noteq> NamespaceTerminating) (syGetNamespace sy name)"
    "exact_lookup P (KSecret, ns, name) (\<lambda>se. seNamespace se = ns \<and> seName se = name) (syGetSecret sy ns name)"
    "exact_lookup P (KRoute, ns, name) (\<lambda>r. krNamespace r = ns \<and> krName r = name) (syGetRoute sy ns name)"
    "exact_lookup P (KChart g, ns, name) (\<lambda>u. \<not> unDeleting u) (syGetObject sy g ns name)"
    "removes_at_once P {} (syUpdate sy ob)" "removes_at_once P {object_id ob} (syDelete sy ob)" "removes_at_once P {} (syDeprovisionDB sy i)"
  using assms unfolding prompt_cluster_def by blast+

lemma cleans_delete:
  assumes "prompt_cluster sy P" "object_id ob = i"
  shows "cleans P {i} False (checked (delete_obj sy ob) g (\<lambda>_. succeed False))"
  unfolding delete_obj_def using cleans_action [OF prompt(7) [OF assms(1), of ob] cleans_succeed [of False False P]] assms(2) by simp

lemma cleans_central:
  assumes "prompt_cluster sy P" "ccrNamespace c = ns" "ccrName c = name"
  shows "cleans P {(KCentral, ns, name)} False (checked (disablePauseReconcileIfPresent sy c) id
     (\<lambda>c'. checked (delete_obj sy (OCentral c')) g (\<lambda>_. succeed False)))"
proof (cases "\<exists>an. ccrAnnotations c = Some an \<and> map_of an pauseReconcileAnnotation = Some ''true''")
  case True
  then obtain an where an: "ccrAnnotations c = Some an" "map_of an pauseReconcileAnnotation = Some ''true''" by blast
  let ?c = "c\<lparr>ccrAnnotations := Some (AList.update pauseReconcileAnnotation ''false'' an)\<rparr>"
  have "checked (disablePauseReconcileIfPresent sy c) id (\<lambda>c'. checked (delete_obj sy (OCentral c')) g (\<lambda>_. succeed False)) =
     checked (perform (Update (OCentral ?c)) (syUpdate sy (OCentral ?c))) (\<lambda>e. Plain (''removing pause reconcile annotation: '' @ agent_text e))
       (\<lambda>_. checked (delete_obj sy (OCentral ?c)) g (\<lambda>_. succeed False))"
    by (rule state_ext) (auto simp: disablePauseReconcileIfPresent_def an Let_def run_checked update_obj_def split: prod.splits sum.splits)
  then show ?thesis
    using cleans_action [OF prompt(6) [OF assms(1)] cleans_delete [OF assms(1)]] assms(2,3) by simp
next
  case False
  then have "disablePauseReconcileIfPresent sy c = succeed c" by (auto simp: disablePauseReconcileIfPresent_def split: option.split)
  then have "checked (disablePauseReconcileIfPresent sy c) id (\<lambda>c'. checked (delete_obj sy (OCentral c')) g (\<lambda>_. succeed False)) =
     checked (delete_obj sy (OCentral c)) g (\<lambda>_. succeed False)"
    by (intro state_ext) (simp add: run_checked)
  then show ?thesis using cleans_delete [OF assms(1), of "OCentral c"] assms(2,3) by simp
qed

lemma cleans_checks:
  assumes p: "prompt_cluster sy P"
  shows "cleans P {(KRoute, ns, name)} True (ensureRouteDeleted sy ns name)"
    "cleans P {(KCentral, ns, name)} True (ensureCentralCRDeleted sy ns name)"
    "cleans P {(KSecret, ns, centralDbSecretName)} True (ensureCentralDBSecretDeleted sy ns)"
    "cleans P {(KNamespace, [], ns)} True (ensureNamespaceDeleted sy ns)"
proof -
  show "cleans P {(KRoute, ns, name)} True (ensureRouteDeleted sy ns name)"
    unfolding gone_checks by (rule cleans_gone_check [OF prompt(4) [OF p]]) (auto simp: findRoute_def cleans_delete [OF p])
  show "cleans P {(KCentral, ns, name)} True (ensureCentralCRDeleted sy ns name)"
    unfolding gone_checks by (rule cleans_gone_check [OF prompt(1) [OF p]]) (simp_all add: cleans_central [OF p])
  show "cleans P {(KSecret, ns, centralDbSecretName)} True (ensureCentralDBSecretDeleted sy ns)"
    unfolding gone_checks by (rule cleans_gone_check [OF prompt(3) [OF p]]) (auto simp: get_db_secret_def cleans_delete [OF p])
  show "cleans P {(KNamespace, [], ns)} True (ensureNamespaceDeleted sy ns)"
    unfolding gone_checks by (rule cleans_gone_check [OF prompt(2) [OF p]]) (auto simp: getNamespace_def cleans_delete [OF p])
qed

lemma cleans_delete_objects:
  fixes P :: "'s \<Rightarrow> object_id set"
  assumes p: "prompt_cluster sy P"
  shows "cleans P {} True (delete_objects sy ns False obs)"
proof (induction obs)
  case (Cons ob0 obs)
  let ?ob = "in_namespace ns ob0"
  show ?case unfolding cleans_def
  proof
    fix s :: "'s shard"
    consider (found) u where "syGetObject sy (unGVK ?ob) (unNamespace ?ob) (unName ?ob) (shCluster s) = (Inr u, shCluster s)" "\<not> unDeleting u"
      | (missing) e where "syGetObject sy (unGVK ?ob) (unNamespace ?ob) (unName ?ob) (shCluster s) = (Inl e, shCluster s)" "IsNotFound e"
      using prompt(5) [OF p, of "unGVK ?ob" "unNamespace ?ob" "unName ?ob"] unfolding exact_lookup_def by blast
    then show "\<exists>b s'. run_state (delete_objects sy ns False (ob0 # obs)) s = (Inr b, s') \<and> P (shCluster s') \<subseteq> P (shCluster s) - {} \<and>
        (True \<and> {} \<inter> P (shCluster s) = {} \<longrightarrow> b) \<and> shSelf s' = shSelf s"
    proof cases
      case found
      obtain k' where k: "syDelete sy (OChart u) (shCluster s) = (Inr (), k')" "P k' \<subseteq> P (shCluster s)"
        using prompt(7) [OF p] unfolding removes_at_once_def by blast
      let ?t = "s\<lparr>shCluster := k', shCalls := shCalls s @ [Delete (OChart u)]\<rparr>"
      have "run_state (delete_objects sy ns False (ob0 # obs)) s = run_state (delete_objects sy ns False obs) ?t"
        using found k(1) by (simp add: Let_def delete_obj_def perform_def observe_def)
      then show ?thesis using Cons.IH [unfolded cleans_def, THEN spec, of ?t] k(2) by auto
    next
      case missing
      then have "run_state (delete_objects sy ns False (ob0 # obs)) s = run_state (delete_objects sy ns False obs) s"
        by (simp add: Let_def observe_def)
      then show ?thesis using Cons.IH unfolding cleans_def by simp
    qed
  qed
qed (simp add: cleans_succeed)

lemma ensureCentralDeleted_cleans:
  assumes p: "prompt_cluster sy P" and "tenant_objects sy (rcNamespace rc) = Inr obs"
  shows "cleans P (tenant_objects_ids sy rc) True (ensureCentralDeleted sy rc)"
proof -
  let ?ns = "rcNamespace rc"
  let ?routes = "if syUseRoutes sy then {(KRoute, ?ns, centralReencryptRouteName), (KRoute, ?ns, centralPassthroughRouteName)} else {}"
  let ?db = "if syManagedDBEnabled sy then {(KSecret, ?ns, centralDbSecretName)} else {}"
  have r: "cleans P ?routes True (routes_deleted sy ?ns)"
  proof (cases "syUseRoutes sy")
    case True
    have "cleans P ({(KRoute, ?ns, centralReencryptRouteName)} \<union> ({(KRoute, ?ns, centralPassthroughRouteName)} \<union> {})) True (routes_deleted sy ?ns)"
      unfolding routes_deleted_def using True by (simp only: if_True) (intro cleans_checked cleans_checks p cleans_succeed, blast)
    with True show ?thesis by (simp add: insert_commute)
  qed (simp add: routes_deleted_def cleans_succeed)
  have d: "cleans P ?db True (db_deleted sy rc)"
    unfolding db_deleted_def using cleans_action [OF prompt(8) [OF p] cleans_checks(3) [OF p]] cleans_succeed [of True True P] by simp
  have c: "cleans P {} True (ensureChartResourcesDeleted sy rc)"
    unfolding ensureChartResourcesDeleted_def assms(2) using cleans_delete_objects [OF p] by simp
  have "cleans P (?routes \<union> ({(KCentral, ?ns, rcName rc)} \<union> (?db \<union> ({} \<union> ({(KNamespace, [], ?ns)} \<union> {}))))) True (ensureCentralDeleted sy rc)"
    unfolding ensureCentralDeleted_def
    by (intro cleans_checked r d c cleans_checks p cleans_succeed) blast
  moreover have "?routes \<union> ({(KCentral, ?ns, rcName rc)} \<union> (?db \<union> ({} \<union> ({(KNamespace, [], ?ns)} \<union> {})))) = tenant_objects_ids sy rc"
    unfolding tenant_objects_ids_def by auto
  ultimately show ?thesis by simp
qed

text \<open>A tenant whose deletion was asked for and whose description can be processed.\<close>

definition deletable :: "'s sync_env \<Rightarrow> ManagedCentral \<Rightarrow> bool" where
  "deletable sy rc \<longleftrightarrow> rcDeletionTimestamp rc \<noteq> [] \<and> \<not> isRemoteCentralReady rc \<and> isl (syHash sy rc) = False \<and>
     isl (convert_central sy rc) = False \<and> isl (tenant_objects sy (rcNamespace rc)) = False"

lemma reset_status: "cnStatus me = FreeStatus \<Longrightarrow> me\<lparr>cnStatus := BlockedStatus, cnStatus := FreeStatus\<rparr> = me"
  by (cases me) simp

lemma Reconcile_deletion:
  fixes P :: "'s \<Rightarrow> object_id set"
  assumes p: "prompt_cluster sy P" and d: "deletable sy rc" and f: "cnStatus (shSelf s) = FreeStatus" "syWantsAuthProvider sy \<Longrightarrow> cnHasAuthProvider (shSelf s)"
  shows "\<exists>b s'. run_state (Reconcile sy rc) s = (if b then Inr deletedStatus else Inl ErrDeletionInProgress, s') \<and>
    tenant_objects_ids sy rc \<inter> P (shCluster s') = {} \<and> (tenant_objects_ids sy rc \<inter> P (shCluster s) = {} \<longrightarrow> b) \<and> shSelf s' = shSelf s"
proof -
  let ?t = "s\<lparr>shSelf := (shSelf s)\<lparr>cnStatus := BlockedStatus\<rparr>\<rparr>"
  obtain h c obs where ok: "syHash sy rc = Inr h" "convert_central sy rc = Inr c" "tenant_objects sy (rcNamespace rc) = Inr obs"
    using d unfolding deletable_def by (auto simp: isl_def) (metis sum.exhaust)
  obtain b t where t: "run_state (ensureCentralDeleted sy rc) ?t = (Inr b, t)" "P (shCluster t) \<subseteq> P (shCluster s) - tenant_objects_ids sy rc"
      "tenant_objects_ids sy rc \<inter> P (shCluster s) = {} \<longrightarrow> b" "shSelf t = (shSelf s)\<lparr>cnStatus := BlockedStatus\<rparr>"
    using ensureCentralDeleted_cleans [OF p ok(3), unfolded cleans_def, THEN spec, of ?t] by auto
  have "\<exists>m. learn_auth_provider sy rc = m \<and> run_state m ?t = (Inr (cnHasAuthProvider (shSelf s)), ?t)"
    using f(2) by (auto simp: learn_auth_provider_def)
  then have "run_state (reconcile_free sy rc) ?t = (if b then Inr deletedStatus else Inl ErrDeletionInProgress, t)"
    using d t(1) unfolding reconcile_free_def centralChanged_def delete_tenant_def deletable_def shouldSkipReadyCentral_def
    by (simp add: ok run_checked)
  then have "run_state (Reconcile sy rc) s = (if b then Inr deletedStatus else Inl ErrDeletionInProgress, t\<lparr>shSelf := shSelf s\<rparr>)"
    unfolding Reconcile_def using f(1) t(4) reset_status [OF f(1)] by simp
  then show ?thesis using t(2,3) by (intro exI [of _ b] exI [of _ "t\<lparr>shSelf := shSelf s\<rparr>"]) auto
qed


lemma sample_prompt: "prompt_cluster sample_sync ids_of"
proof -
  have l: "exact_lookup ids_of i ok (lookup_object i out)" if "\<And>ob. object_id ob = i \<Longrightarrow> ok (out ob)" for i ok and out :: "kube_object \<Rightarrow> 'a"
    unfolding exact_lookup_def
  proof
    fix k
    show "(\<exists>a. lookup_object i out k = (Inr a, k) \<and> ok a \<and> i \<in> ids_of k) \<or> (\<exists>e. lookup_object i out k = (Inl e, k) \<and> IsNotFound e \<and> i \<notin> ids_of k)"
      using lookup_cases [of k i out] that unfolding ids_of_def by fastforce
  qed
  show ?thesis unfolding prompt_cluster_def
    by (intro conjI allI; simp add: sample_sync_def)
      (auto intro!: l simp: object_id_shapes NamespaceTerminating_def removes_at_once_def ids_of_def remove_object_def replace_ids)
qed

text \<open>The cluster with a namespace and a central resource left over.\<close>

definition leftovers :: store where
  "leftovers = [ONamespace \<lparr>nsName = ''ns'', nsLabels = [], nsAnnotations = [], nsPhase = []\<rparr>,
     OCentral (desired_central sample_sync sample_managed empty_resources empty_resources empty_resources)]"


subsection \<open>Tenants in their final state\<close>

lemma report_ready_self:
  assumes "run_state (report_ready sy rc) s = (Inr st, s')"
  shows "syHash sy rc = Inr (cnLastCentralHash (shSelf s'))"
  using assms unfolding report_ready_def setLastCentralHash_def
  by (auto elim!: run_checked_Inr split: sum.splits)

text \<open>A tenant in its final state is left alone. After a reconciliation that reported a tenant as ready, the next
  one with the same description does nothing and says that nothing changed, provided the description has the status
  \<open>ready\<close> and the desired version and the agent knows the authentication provider if one is wanted. It makes no
  call, not even a lookup: cluster, log and reconciler stay as they are.\<close>

theorem unchanged_ready_skipped:
  assumes "run_state (Reconcile sy rc) s = (Inr st, s1)" "st \<noteq> installingStatus" "rcDeletionTimestamp rc = []"
    "isRemoteCentralReady rc" "rcActualVersion rc = rcDesiredVersion rc" "syWantsAuthProvider sy = cnHasAuthProvider (shSelf s1)"
  shows "run_state (Reconcile sy rc) s1 = (Inl ErrCentralNotChanged, s1)"
  using assms(1)
proof (rule Reconcile_Inr)
  fix s0 s2 assume i: "shSelf s1 = (shSelf s2)\<lparr>cnStatus := FreeStatus\<rparr>" and "run_state (reconcile_free sy rc) s0 = (Inr st, s2)"
  then obtain ch c' t0 where "run_state (install_tenant sy rc ch c') t0 = (Inr st, s2)"
    using assms(3) by (auto elim!: reconcile_free_Inr)
  then obtain t where "run_state (report_ready sy rc) t = (Inr st, s2)"
    using assms(2) unfolding install_tenant_def by (auto elim!: run_checked_Inr split: if_splits)
  then have h: "syHash sy rc = Inr (cnLastCentralHash (shSelf s1))" using report_ready_self i by fastforce
  have f: "cnStatus (shSelf s1) = FreeStatus" using i by simp
  have "run_state (reconcile_free sy rc) (s1\<lparr>shSelf := (shSelf s1)\<lparr>cnStatus := BlockedStatus\<rparr>\<rparr>) =
      (Inl ErrCentralNotChanged, s1\<lparr>shSelf := (shSelf s1)\<lparr>cnStatus := BlockedStatus\<rparr>\<rparr>)"
    using assms(4-6) unfolding reconcile_free_def centralChanged_def by (simp add: h run_checked shouldSkipReadyCentral_def)
  then show ?thesis unfolding Reconcile_def using f reset_status [OF f] by simp
qed

definition settled_tenant :: ManagedCentral where
  "settled_tenant = sample_managed\<lparr>rcRequestStatus := CentralRequestStatusReady\<rparr>"

definition certificate :: kube_object where
  "certificate = OSecret \<lparr>seName = centralTLSSecretName, seNamespace = ''ns'', seLabels = [], seAnnotations = None, seData = [(''ca.pem'', ''x'')]\<rparr>"

theorem unchanged_ready_skipped_witness:
  "fst (run_state (Reconcile sample_sync settled_tenant) (sample_shard [certificate])) = Inr readyStatus \<and>
   run_state (Reconcile sample_sync settled_tenant) (snd (run_state (Reconcile sample_sync settled_tenant) (sample_shard [certificate]))) =
     (Inl ErrCentralNotChanged, snd (run_state (Reconcile sample_sync settled_tenant) (sample_shard [certificate])))"
proof -
  let ?r = "run_state (Reconcile sample_sync settled_tenant) (sample_shard [certificate])"
  have r: "fst ?r = Inr readyStatus" by code_simp
  then have e: "?r = (Inr readyStatus, snd ?r)" by (metis surjective_pairing)
  have w: "syWantsAuthProvider sample_sync = cnHasAuthProvider (shSelf (snd ?r))" by code_simp
  have "readyStatus \<noteq> installingStatus" by (simp add: readyStatus_def installingStatus_def ready_condition_def)
  then show ?thesis using r unchanged_ready_skipped [OF e _ _ _ _ w]
    by (simp add: settled_tenant_def sample_managed_def isRemoteCentralReady_def)
qed

end
