(* ===== verification/Shard_System.thy ===== *)
theory Shard_System
  imports Shard_Locks Shard_Deletion Data_Plane_Correct
begin

text \<open>
  The agents of all clusters and the fleet manager as one system. What the fleet manager alone cannot know holds
  here: a tenant is in \<open>deleting\<close> only when its deletion was asked for and the agent of its cluster found its
  objects gone.
\<close>

subsection \<open>All agents next to the fleet manager\<close>

inductive system_step :: "(string \<Rightarrow> 's sync_env) \<Rightarrow> presenter_env \<Rightarrow> world \<times> (string \<Rightarrow> 's runtime) \<Rightarrow> world \<times> (string \<Rightarrow> 's runtime) \<Rightarrow> bool"
  for sy pm where
  control: "control_step w w' \<Longrightarrow> system_step sy pm (w, A) (w', A)"
| agent: "agent_step (sy c) pm c (w, A c) (w', rt) \<Longrightarrow> system_step sy pm (w, A) (w', A(c := rt))"

inductive_cases system_stepE: "system_step sy pm s s'"

subsection \<open>Goroutines\<close>

lemma in_replace_at: "g \<in> set (replace_at i new xs) \<Longrightarrow> g \<in> set new \<or> g \<in> set xs"
  by (auto simp: replace_at_def dest: in_set_takeD in_set_dropD)

text \<open>The part of the table that polls and the entering of goroutines leave alone.\<close>

lemma GetAll_world: "centrals (snd (dataPlaneHandler_GetAll pm c w)) = centrals w"
  by (auto simp: dataPlaneHandler_GetAll_def HandleGet_def HandleDelete_def check_def ListByClusterID_def find_centrals_unfold
      split: prod.splits option.splits sum.splits)

lemma GetAll_reply:
  assumes "fst (dataPlaneHandler_GetAll pm c w) = Some (Reply st items)"
  shows "\<forall>rc\<in>set items. \<exists>r\<in>set (centrals w). rc = PresentManagedCentral pm r"
  using assms
  by (auto simp: dataPlaneHandler_GetAll_def HandleGet_def HandleDelete_def check_def ListByClusterID_def find_centrals_unfold
      split: prod.splits option.splits sum.splits)

lemma UpdateDinosaurStatuses_world:
  "snd (UpdateDinosaurStatuses ev c (Inr m) w) = snd (UpdateDataPlaneCentralService ev c (ConvertDataPlaneDinosaurStatus m) w)"
  by (simp add: UpdateDinosaurStatuses_def Handle_def HandleDelete_def case_prod_beta split: option.split)

fun tenant_of :: "goroutine \<Rightarrow> ManagedCentral" where
  "tenant_of (Spawned p rc) = rc"
| "tenant_of (Reconciling p rc) = rc"
| "tenant_of (Reporting rc st) = rc"

lemma tick_goroutines:
  "g \<in> set (rtGoroutines (tick answer rt)) \<Longrightarrow> g \<in> set (rtGoroutines rt) \<or>
     (\<exists>st items p rc. answer = Some (Reply st items) \<and> rc \<in> set items \<and> g = Spawned p rc)"
proof -
  have "g \<in> set (rtGoroutines (start_reconcilers items rt)) \<Longrightarrow>
      g \<in> set (rtGoroutines rt) \<or> (\<exists>p rc. rc \<in> set items \<and> g = Spawned p rc)" for items
  proof (induction items arbitrary: rt)
    case (Cons c items)
    have "rtGoroutines (snd (reconciler_of i rt)) = rtGoroutines rt" for i by (simp add: reconciler_of_def split: option.split)
    then show ?case using Cons by (fastforce simp: case_prod_beta)
  qed simp
  then show "g \<in> set (rtGoroutines (tick answer rt)) \<Longrightarrow> ?thesis"
    by (auto simp: tick_def deleteStaleReconcilers_def split: option.splits response.splits)
qed

lemma tick_deleted: "rtDeleted (tick answer rt) = rtDeleted rt"
proof -
  have "rtDeleted (start_reconcilers items rt) = rtDeleted rt" for items
    by (induction items arbitrary: rt) (auto simp: reconciler_of_def case_prod_beta split: option.split)
  then show ?thesis by (simp add: tick_def deleteStaleReconcilers_def split: option.split response.split)
qed

subsection \<open>What is known about tenants to be deleted\<close>

text \<open>The row of a description that asks for deletion carries the timestamp.\<close>

definition asked :: "world \<Rightarrow> ManagedCentral \<Rightarrow> bool" where
  "asked w rc \<longleftrightarrow> (rcDeletionTimestamp rc \<noteq> [] \<longrightarrow> (\<exists>r\<in>set (centrals w). crID r = rcId rc \<and> crDeletionTimestamp r \<noteq> None))"

lemma asked_grows: "grows D w w' \<Longrightarrow> asked w rc \<Longrightarrow> asked w' rc"
proof (unfold asked_def, intro impI)
  assume "grows D w w'" "rcDeletionTimestamp rc \<noteq> [] \<longrightarrow> (\<exists>r\<in>set (centrals w). crID r = rcId rc \<and> crDeletionTimestamp r \<noteq> None)"
    "rcDeletionTimestamp rc \<noteq> []"
  then obtain r r' where "crID r = rcId rc" "crDeletionTimestamp r \<noteq> None" "r' \<in> set (centrals w')" "life_step D r r'"
    using grows_row by blast
  then show "\<exists>r\<in>set (centrals w'). crID r = rcId rc \<and> crDeletionTimestamp r \<noteq> None"
    by (auto simp: life_step_def row_kept_def)
qed

lemma asked_presented: "r \<in> set (centrals w) \<Longrightarrow> asked w (PresentManagedCentral pm r)"
  by (auto simp: asked_def PresentManagedCentral_def Let_def split: option.splits)

text \<open>The agent found the objects of a tenant gone.\<close>

definition gone :: "'s sync_env \<Rightarrow> ('s \<Rightarrow> object_id set) \<Rightarrow> 's runtime \<Rightarrow> string \<Rightarrow> bool" where
  "gone sy P rt i \<longleftrightarrow> (\<exists>(rc, k)\<in>set (rtDeleted rt). rcId rc = i \<and> tenant_objects_ids sy rc \<inter> P k = {})"

definition says_deleted :: "agent_status \<Rightarrow> bool" where
  "says_deleted st \<longleftrightarrow> conditions_status (agConditions st) = statusDeleted"

definition agent_ok :: "'s sync_env \<Rightarrow> ('s \<Rightarrow> object_id set) \<Rightarrow> world \<Rightarrow> 's runtime \<Rightarrow> bool" where
  "agent_ok sy P w rt \<longleftrightarrow> (\<forall>g\<in>set (rtGoroutines rt). asked w (tenant_of g) \<and>
     (\<forall>rc st. g = Reporting rc st \<longrightarrow> says_deleted st \<longrightarrow> rcDeletionTimestamp rc \<noteq> [] \<and> gone sy P rt (rcId rc)))"

definition system_ok :: "(string \<Rightarrow> 's sync_env) \<Rightarrow> ('s \<Rightarrow> object_id set) \<Rightarrow> world \<times> (string \<Rightarrow> 's runtime) \<Rightarrow> bool" where
  "system_ok sy P s \<longleftrightarrow> (case s of (w, A) \<Rightarrow> wf_ids w \<and> (\<forall>c. agent_ok (sy c) P w (A c)) \<and>
     (\<forall>r\<in>set (centrals w). crStatus r = CentralRequestStatusDeleting \<longrightarrow>
        crDeletionTimestamp r \<noteq> None \<and> gone (sy (crClusterID r)) P (A (crClusterID r)) (crID r)))"

lemma gone_append: "rtDeleted rt' = rtDeleted rt @ xs \<Longrightarrow> gone sy P rt i \<Longrightarrow> gone sy P rt' i"
  by (auto simp: gone_def)

lemma agent_ok_world: "agent_ok sy P w rt \<Longrightarrow> grows D w w' \<Longrightarrow> agent_ok sy P w' rt"
  using asked_grows unfolding agent_ok_def by blast

text \<open>Fewer goroutines, or the same tenants in another phase that is not a report.\<close>

lemma agent_ok_subset:
  assumes "agent_ok sy P w rt" "rtDeleted rt' = rtDeleted rt @ xs"
    "\<And>g. g \<in> set (rtGoroutines rt') \<Longrightarrow> g \<in> set (rtGoroutines rt) \<or> asked w (tenant_of g) \<and> (\<nexists>rc st. g = Reporting rc st)"
  shows "agent_ok sy P w rt'"
proof (unfold agent_ok_def, intro ballI)
  fix g assume "g \<in> set (rtGoroutines rt')"
  then consider "g \<in> set (rtGoroutines rt)" | "asked w (tenant_of g)" "\<nexists>rc st. g = Reporting rc st" using assms(3) by blast
  then show "asked w (tenant_of g) \<and> (\<forall>rc st. g = Reporting rc st \<longrightarrow> says_deleted st \<longrightarrow> rcDeletionTimestamp rc \<noteq> [] \<and> gone sy P rt' (rcId rc))"
    by cases (use assms(1) gone_append [OF assms(2)] in \<open>auto simp: agent_ok_def\<close>)
qed

lemma reconcile_free_says_deleted:
  assumes "run_state (reconcile_free sy rc) s = (Inr st, s')" "says_deleted st"
  shows "st = deletedStatus"
  using assms(1)
proof (rule reconcile_free_Inr)
  fix ch s1 c
  assume "rcDeletionTimestamp rc \<noteq> [] \<and> run_state (delete_tenant sy rc) s1 = (Inr st, s') \<or>
     rcDeletionTimestamp rc = [] \<and> (\<exists>c'. run_state (install_tenant sy rc ch c') s1 = (Inr st, s'))"
  then show ?thesis
  proof
    assume "rcDeletionTimestamp rc \<noteq> [] \<and> run_state (delete_tenant sy rc) s1 = (Inr st, s')"
    then show ?thesis unfolding delete_tenant_def by (auto elim!: run_checked_Inr split: if_splits)
  next
    assume "rcDeletionTimestamp rc = [] \<and> (\<exists>c'. run_state (install_tenant sy rc ch c') s1 = (Inr st, s'))"
    then have "agConditions st = agConditions installingStatus \<or> agConditions st = agConditions readyStatus"
      unfolding install_tenant_def report_ready_def by (auto elim!: run_checked_Inr split: if_splits)
    then show ?thesis using assms(2)
      by (auto simp: says_deleted_def installingStatus_def readyStatus_def ready_condition_def equal_fold_def)
  qed
qed

lemma nth_goroutine: "i < length (rtGoroutines rt) \<Longrightarrow> rtGoroutines rt ! i \<in> set (rtGoroutines rt)"
  by simp

lemma enter_ok:
  assumes "agent_ok sy P w rt" "i < length (rtGoroutines rt)"
  shows "agent_ok sy P w (enter_step i rt)"
proof (rule agent_ok_subset [OF assms(1), where xs = "[]"])
  show "rtDeleted (enter_step i rt) = rtDeleted rt @ []" by (simp add: enter_step_def Let_def split: goroutine.split)
next
  fix g assume g: "g \<in> set (rtGoroutines (enter_step i rt))"
  have "asked w (tenant_of (rtGoroutines rt ! i))" using assms nth_goroutine unfolding agent_ok_def by blast
  then show "g \<in> set (rtGoroutines rt) \<or> asked w (tenant_of g) \<and> (\<nexists>rc st. g = Reporting rc st)"
    using g by (auto simp: enter_step_def handleReconcileResult_def Let_def dest!: in_replace_at split: goroutine.splits if_splits)
qed

lemma lost_ok:
  assumes "agent_ok sy P w rt"
  shows "agent_ok sy P w (lost_step i rt)"
  by (rule agent_ok_subset [OF assms, where xs = "[]"])
     (auto simp: lost_step_def dest!: in_replace_at split: goroutine.splits)

lemma tick_ok:
  assumes "agent_ok sy P w rt"
  shows "agent_ok sy P w (tick (fst (dataPlaneHandler_GetAll pm c w)) rt)"
proof (rule agent_ok_subset [OF assms, where xs = "[]"])
  fix g assume "g \<in> set (rtGoroutines (tick (fst (dataPlaneHandler_GetAll pm c w)) rt))"
  then show "g \<in> set (rtGoroutines rt) \<or> asked w (tenant_of g) \<and> (\<nexists>rc st. g = Reporting rc st)"
    using tick_goroutines [of g "fst (dataPlaneHandler_GetAll pm c w)" rt] GetAll_reply [of pm c w] asked_presented by fastforce
qed (simp add: tick_deleted)

lemma body_ok:
  assumes "honest_cluster sy P" "agent_ok sy P w rt" "i < length (rtGoroutines rt)"
  shows "agent_ok sy P w (body_step sy i rt)"
proof (cases "rtGoroutines rt ! i")
  case (Reconciling p rc)
  obtain r s where r: "run_state (reconcile_free sy rc) (shard_of p rt) = (r, s)" by fastforce
  let ?rt = "body_step sy i rt"
  have d: "rtDeleted ?rt = rtDeleted rt @ (if r = Inr deletedStatus then [(rc, shCluster s)] else [])"
    and gs: "rtGoroutines ?rt = replace_at i (handleReconcileResult rc r) (rtGoroutines rt)"
    using Reconciling r by (simp_all add: body_step_def)
  have ask: "asked w rc" using assms(2,3) nth_goroutine Reconciling unfolding agent_ok_def by (metis tenant_of.simps(2))
  have new: "rcDeletionTimestamp rc \<noteq> [] \<and> gone sy P ?rt (rcId rc)" if "r = Inr st" "says_deleted st" for st
  proof -
    have "r = Inr deletedStatus" using reconcile_free_says_deleted [OF r [unfolded that(1)] that(2)] that(1) by simp
    then show ?thesis using reconcile_free_deleted [OF assms(1)] r d by (auto simp: gone_def)
  qed
  show ?thesis unfolding agent_ok_def
  proof (intro ballI conjI allI impI)
    fix g assume "g \<in> set (rtGoroutines ?rt)"
    then have g: "g \<in> set (handleReconcileResult rc r) \<or> g \<in> set (rtGoroutines rt)"
      unfolding gs by (rule in_replace_at)
    then show "asked w (tenant_of g)" using ask assms(2) by (auto simp: agent_ok_def handleReconcileResult_def split: sum.splits)
    fix rc' st assume "g = Reporting rc' st" "says_deleted st"
    then show "rcDeletionTimestamp rc' \<noteq> []" "gone sy P ?rt (rcId rc')"
      using g new assms(2) gone_append [OF d] by (auto simp: agent_ok_def handleReconcileResult_def split: sum.splits)
  qed
qed (use assms(2) in \<open>simp_all add: body_step_def\<close>)

text \<open>A step of an agent: the table stays as it is or gets one report of a goroutine of this agent.\<close>

lemma agent_step_cases:
  assumes "agent_step sy pm c (w, rt) (w', rt')"
  obtains "centrals w' = centrals w"
  | ev rc st where "Reporting rc st \<in> set (rtGoroutines rt)"
      "w' = snd (UpdateDataPlaneCentralService ev c (ConvertDataPlaneDinosaurStatus (sent_report rc st)) w)"
  using assms
proof cases
  case (report i ev)
  then show ?thesis
  proof (cases "rtGoroutines rt ! i")
    case (Reporting rc st)
    then have "Reporting rc st \<in> set (rtGoroutines rt)" using nth_goroutine [of i rt] report(2) by simp
    then show ?thesis using that(2) report(1) Reporting by (simp add: report_step_def UpdateDinosaurStatuses_world)
  qed (use that(1) report in \<open>simp_all add: report_step_def\<close>)
qed (use that GetAll_world in auto)

lemma finished_report: "finished (ConvertDataPlaneDinosaurStatus (sent_report rc st)) = (if says_deleted st then {rcId rc} else {})"
  by (auto simp: finished_def ConvertDataPlaneDinosaurStatus_def sent_report_def says_deleted_def getStatus_def)

lemma agent_step_grows: "agent_step sy pm c (w, rt) (w', rt') \<Longrightarrow> wf_ids w \<Longrightarrow> grows UNIV w w'"
  by (erule agent_step_cases) (auto simp: grows_def evolves_same intro: evolves_mono [OF data_plane_evolves])

lemma agent_step_deleted: "agent_step sy pm c (w, rt) (w', rt') \<Longrightarrow> \<exists>xs. rtDeleted rt' = rtDeleted rt @ xs"
proof (erule agent_step.cases; clarsimp)
  fix i show "\<exists>xs. rtDeleted (body_step sy i rt) = rtDeleted rt @ xs"
    by (auto simp: body_step_def split: goroutine.split prod.split)
next
  fix i and ev assume "(w', rt') = report_step ev c i (w, rt)"
  then have "rt' = lost_step i rt" using report_step_runtime [of ev c i w rt] by (metis snd_conv)
  then show "\<exists>xs. rtDeleted rt' = rtDeleted rt @ xs" by (simp add: lost_step_def split: goroutine.split)
qed (auto simp: tick_deleted enter_step_def lost_step_def NewRuntime_def Let_def split: goroutine.split)

lemma environment_ok:
  assumes "agent_ok sy P w rt"
  shows "agent_ok sy P w (rt\<lparr>rtCluster := k\<rparr>)" "agent_ok sy P w (NewRuntime k' calls (rtDeleted rt))"
  by (rule agent_ok_subset [OF assms, where xs = "[]"]; simp add: NewRuntime_def)+

lemma agent_step_ok:
  assumes "honest_cluster sy P" "agent_ok sy P w rt" "wf_ids w" "agent_step sy pm c (w, rt) (w', rt')"
  shows "agent_ok sy P w' rt'"
proof -
  have "agent_ok sy P w rt'" using assms(4)
  proof cases
    case (report i ev)
    then show ?thesis using report_step_runtime [of ev c i w rt] lost_ok [OF assms(2)] by (metis snd_conv)
  qed (use assms(2) in \<open>simp_all add: tick_ok enter_ok body_ok [OF assms(1,2)] lost_ok environment_ok\<close>)
  then show ?thesis using agent_ok_world agent_step_grows [OF assms(4,3)] by blast
qed

subsection \<open>Tenants in deleting\<close>

text \<open>A report changes the status of a row to \<open>deleting\<close> only for the tenant it declares deleted, on its cluster.\<close>

lemma list_all2_both: "list_all2 R xs ys \<Longrightarrow> list_all2 S xs ys \<Longrightarrow> y \<in> set ys \<Longrightarrow> \<exists>x\<in>set xs. R x y \<and> S x y"
  by (auto simp: list_all2_conv_all_nth in_set_conv_nth) (metis nth_mem)

lemma report_into_deleting:
  assumes "wf_ids w" "r' \<in> set (centrals (snd (UpdateDataPlaneCentralService ev c (ConvertDataPlaneDinosaurStatus (sent_report rc st)) w)))"
    "crStatus r' = CentralRequestStatusDeleting"
  shows "\<exists>r\<in>set (centrals w). crID r' = crID r \<and> crClusterID r' = crClusterID r \<and> crDeletionTimestamp r' = crDeletionTimestamp r \<and>
     (crStatus r = CentralRequestStatusDeleting \<or> crClusterID r = c \<and> crID r = rcId rc \<and> says_deleted st)"
proof -
  let ?dss = "ConvertDataPlaneDinosaurStatus (sent_report rc st)"
  obtain r where r: "r \<in> set (centrals w)" "life_step (finished ?dss) r r'" "report_rel c r r'"
    using list_all2_both [OF reports.life_effect own_reports.step assms(2)] assms(1) by blast
  show ?thesis
    using r(1) r(2,3) assms(3) finished_report [of rc st]
    by (intro bexI [OF _ r(1)]) (auto simp: report_rel_def life_step_def tenancy_def split: if_splits)
qed

lemma control_ok:
  assumes "system_ok sy P (w, A)" "control_step w w'"
  shows "system_ok sy P (w', A)"
proof -
  have wf: "wf_ids w" and ag: "agent_ok (sy c) P w (A c)" for c using assms(1) by (simp_all add: system_ok_def)
  have g: "grows {} w w'" using control_grows assms(2) wf .
  have "crDeletionTimestamp r' \<noteq> None \<and> gone (sy (crClusterID r')) P (A (crClusterID r')) (crID r')"
    if r': "r' \<in> set (centrals w')" "crStatus r' = CentralRequestStatusDeleting" for r'
  proof -
    obtain r where r: "r \<in> set (centrals w)" "life_step {} r r'" using grows_row_before [OF g r'(1)] r'(2) by auto
    then have "crStatus r = CentralRequestStatusDeleting" using r'(2) by (simp add: life_step_def)
    then show ?thesis using r assms(1) by (auto simp: system_ok_def life_step_def row_kept_def)
  qed
  then show ?thesis using grows_wf [OF g wf] agent_ok_world [OF ag g] by (simp add: system_ok_def)
qed

lemma agent_system_ok:
  assumes "honest_cluster (sy c) P" "system_ok sy P (w, A)" "agent_step (sy c) pm c (w, A c) (w', rt)"
  shows "system_ok sy P (w', A(c := rt))"
proof -
  have wf: "wf_ids w" and ag: "agent_ok (sy d) P w (A d)" for d using assms(2) by (simp_all add: system_ok_def)
  have g: "grows UNIV w w'" using agent_step_grows assms(3) wf by blast
  obtain xs where d: "rtDeleted rt = rtDeleted (A c) @ xs" using agent_step_deleted [OF assms(3)] by blast
  have mono: "gone (sy e) P (A e) i \<Longrightarrow> gone (sy e) P ((A(c := rt)) e) i" for e i using gone_append [OF d] by (cases "e = c") simp_all
  have old: "crDeletionTimestamp r \<noteq> None \<and> gone (sy (crClusterID r)) P ((A(c := rt)) (crClusterID r)) (crID r)"
    if "r \<in> set (centrals w)" "crStatus r = CentralRequestStatusDeleting" for r
    using assms(2) that mono by (auto simp: system_ok_def)
  have "crDeletionTimestamp r' \<noteq> None \<and> gone (sy (crClusterID r')) P ((A(c := rt)) (crClusterID r')) (crID r')"
    if r': "r' \<in> set (centrals w')" "crStatus r' = CentralRequestStatusDeleting" for r'
    using assms(3)
  proof (rule agent_step_cases)
    assume "centrals w' = centrals w"
    then show ?thesis using old r' by simp
  next
    fix ev rc st
    assume rep: "Reporting rc st \<in> set (rtGoroutines (A c))"
      "w' = snd (UpdateDataPlaneCentralService ev c (ConvertDataPlaneDinosaurStatus (sent_report rc st)) w)"
    obtain r where r: "r \<in> set (centrals w)" "crID r' = crID r" "crClusterID r' = crClusterID r" "crDeletionTimestamp r' = crDeletionTimestamp r"
      "crStatus r = CentralRequestStatusDeleting \<or> crClusterID r = c \<and> crID r = rcId rc \<and> says_deleted st"
      using report_into_deleting [OF wf r'(1) [unfolded rep(2)] r'(2)] by blast
    show ?thesis
    proof (cases "crStatus r = CentralRequestStatusDeleting")
      case True
      then show ?thesis using old [OF r(1)] r(2-4) by simp
    next
      case False
      then have n: "crClusterID r = c" "crID r = rcId rc" "says_deleted st" using r(5) by simp_all
      have "asked w rc" "rcDeletionTimestamp rc \<noteq> []" "gone (sy c) P (A c) (rcId rc)"
        using ag [of c] rep(1) n(3) unfolding agent_ok_def by fastforce+
      moreover have "crDeletionTimestamp r \<noteq> None"
        using calculation wf_ids_unique [OF wf r(1)] n(2) unfolding asked_def by auto
      ultimately show ?thesis using r(2-4) n mono [of c "rcId rc"] by simp
    qed
  qed
  then show ?thesis
    using grows_wf [OF g wf] agent_ok_world [OF ag g] agent_step_ok [OF assms(1) ag wf assms(3)] by (simp add: system_ok_def)
qed

lemma system_steps_ok:
  assumes "rtranclp (system_step sy pm) s s'" "\<And>c. honest_cluster (sy c) P" "system_ok sy P s"
  shows "system_ok sy P s'"
  using assms(1,3)
proof (induction rule: rtranclp_induct)
  case (step t u)
  from step(2) show ?case using step(3) [OF step(4)] by cases (auto intro: control_ok agent_system_ok [OF assms(2)])
qed simp


text \<open>A run of one agent is a run of the system.\<close>

lemma agent_run_system:
  "rtranclp (agent_step (sy c) pm c) s s' \<Longrightarrow> A c = snd s \<Longrightarrow> rtranclp (system_step sy pm) (fst s, A) (fst s', A(c := snd s'))"
proof (induction rule: rtranclp_induct)
  case base
  then show ?case by (simp add: fun_upd_idem)
next
  case (step t u)
  then have "system_step sy pm (fst t, A(c := snd t)) (fst u, (A(c := snd t))(c := snd u))"
    by (intro system_step.agent) simp
  then show ?case using rtranclp.rtrancl_into_rtrancl [OF step.IH [OF step.prems]] by (simp only: fun_upd_upd)
qed

text \<open>A tenant whose objects are gone already: the agent polls, reconciles and reports.\<close>

definition sample_presenter :: presenter_env where
  "sample_presenter = (let q = \<lparr>qdMemoryRequest = ''1'', qdCPURequest = ''1'', qdMemoryLimit = ''1'', qdCPULimit = ''1''\<rparr> in
     \<lparr>pmTLSCert = [], pmTLSKey = [], pmCentral = q, pmAnalyzer = q, pmScaling = empty_scaling, pmDb = q,
      pmDecodeCentral = (\<lambda>_. empty_resources), pmDecodeScanner = (\<lambda>_. empty_scanner), pmFormatTime = (\<lambda>t. ''2023-01-01T00:00:00Z'')\<rparr>)"

definition leaving_row :: CentralRequest where
  "leaving_row = sample_tenant\<lparr>crStatus := CentralRequestStatusDeprovision, crDeletionTimestamp := Some 90, crHost := ''h'', crNamespace := ''ns''\<rparr>"

definition leaving_world :: world where
  "leaving_world = sample_world\<lparr>centrals := [leaving_row]\<rparr>"

definition polled :: "world \<times> store runtime" where
  "polled = (case dataPlaneHandler_GetAll sample_presenter ''cluster-1'' leaving_world of (answer, w) \<Rightarrow> (w, tick answer (NewRuntime [] [] [])))"

definition reconciled :: "world \<times> store runtime" where
  "reconciled = (case polled of (w, rt) \<Rightarrow> (w, body_step sample_sync 0 (enter_step 0 rt)))"

definition leaving_run :: "world \<times> store runtime" where
  "leaving_run = report_step sample_env ''cluster-1'' 0 reconciled"

lemma leaving_run_steps: "rtranclp (agent_step sample_sync sample_presenter ''cluster-1'') (leaving_world, NewRuntime [] [] []) leaving_run"
proof -
  let ?step = "agent_step sample_sync sample_presenter ''cluster-1''"
  have l: "0 < length (rtGoroutines (snd polled))" "0 < length (rtGoroutines (enter_step 0 (snd polled)))" "0 < length (rtGoroutines (snd reconciled))"
    by code_simp+
  have "?step (leaving_world, NewRuntime [] [] []) polled"
    using agent_step.poll [of sample_sync sample_presenter "''cluster-1''" leaving_world "NewRuntime [] [] []"] by (simp add: polled_def case_prod_beta)
  moreover have "?step polled (fst polled, enter_step 0 (snd polled))"
    using agent_step.enter [OF l(1), of sample_sync sample_presenter "''cluster-1''" "fst polled"] by simp
  moreover have "?step (fst polled, enter_step 0 (snd polled)) reconciled"
    using agent_step.body [OF l(2), of sample_sync sample_presenter "''cluster-1''" "fst polled"] by (simp add: reconciled_def case_prod_beta)
  moreover have "?step reconciled leaving_run"
    using agent_step.report [OF l(3), of sample_sync sample_presenter "''cluster-1''" "fst reconciled" sample_env] by (simp add: leaving_run_def)
  ultimately show ?thesis by (meson converse_rtranclp_into_rtranclp rtranclp.rtrancl_refl)
qed


subsection \<open>The lock of a reconciler\<close>

text \<open>C17: One reconciliation at a time. However ticks, goroutines, reports, lost messages and restarts interleave, at most one
  goroutine is inside a reconciler, and the flag of a reconciler is set exactly while one is: no tenant is refused
  as busy by a flag that nobody will clear.\<close>

theorem reconciler_lock_exact:
  assumes "rtranclp (agent_step sy pm c) (w0, NewRuntime k [] []) (w, rt)"
  shows "distinct (running rt) \<and> (\<forall>p<length (rtHeap rt). cnStatus (rtHeap rt ! p) \<noteq> FreeStatus \<longleftrightarrow> p \<in> set (running rt))"
  using agent_run_locks [OF assms] by (auto simp: locks_ok_def)

text \<open>Two polls start two goroutines for one tenant; the first is inside.\<close>

definition polled_twice :: "world \<times> store runtime" where
  "polled_twice = (case dataPlaneHandler_GetAll sample_presenter ''cluster-1'' (fst polled) of (answer, w) \<Rightarrow> (w, tick answer (snd polled)))"

definition overlapping :: "store runtime" where
  "overlapping = enter_step 0 (snd polled_twice)"

theorem reconciler_lock_exact_witness:
  "length (rtGoroutines overlapping) = 2 \<and> running overlapping = [0] \<and> cnStatus (rtHeap overlapping ! 0) \<noteq> FreeStatus"
proof -
  let ?step = "agent_step sample_sync sample_presenter ''cluster-1''"
  have l: "0 < length (rtGoroutines (snd polled_twice))" by code_simp
  have e: "length (rtGoroutines overlapping) = 2 \<and> running overlapping = [0] \<and> length (rtHeap overlapping) = 1" by code_simp
  have "?step (leaving_world, NewRuntime [] [] []) polled"
    using agent_step.poll [of sample_sync sample_presenter "''cluster-1''" leaving_world "NewRuntime [] [] []"] by (simp add: polled_def case_prod_beta)
  moreover have "?step polled polled_twice"
    using agent_step.poll [of sample_sync sample_presenter "''cluster-1''" "fst polled" "snd polled"] by (simp add: polled_twice_def case_prod_beta)
  moreover have "?step polled_twice (fst polled_twice, overlapping)"
    using agent_step.enter [OF l, of sample_sync sample_presenter "''cluster-1''" "fst polled_twice"] by (simp add: overlapping_def)
  ultimately have "rtranclp ?step (leaving_world, NewRuntime [] [] []) (fst polled_twice, overlapping)"
    by (meson converse_rtranclp_into_rtranclp rtranclp.rtrancl_refl)
  from reconciler_lock_exact [OF this] show ?thesis using e by simp
qed

end
