(* ===== verification/Cloud_Providers.thy ===== *)
theory Cloud_Providers
  imports Central_Handlers Cluster_Service "HOL-Library.AList"
begin

text \<open>
  The cloud providers and their regions: the service (\<^verbatim>\<open>services/cloud_providers.go\<close>, \<^verbatim>\<open>clusters/types/types.go\<close>) asks the
  cluster providers in use, the handlers (\<^verbatim>\<open>handlers/cloud_providers.go\<close>, \<^verbatim>\<open>presenters/cloudproviders.go\<close>) combine what they
  say with the configuration and keep the answers in a cache.

  A cache of \<^verbatim>\<open>go-cache\<close> is the history of what was set, newest first; what it still holds of it at a
  time is a function of the environment. The handlers keep lists of both kinds in one cache.
\<close>

subsection \<open>What the cluster providers say\<close>

record CloudProviderInfo =
  ciID :: string
  ciName :: string
  ciDisplayName :: string

record CloudProviderRegionInfo =
  riID :: string
  riCloudProviderID :: string
  riName :: string
  riDisplayName :: string
  riSupportsMultiAZ :: bool

fun merge_regions :: "CloudProviderRegionInfo list \<Rightarrow> CloudProviderRegionInfo list \<Rightarrow> CloudProviderRegionInfo list" where
  "merge_regions target [] = target"
| "merge_regions target (region # source) =
     (if list_ex (\<lambda>r. riID r = riID region) target then merge_regions target source
      else merge_regions (target @ [region]) source)"

record cloud_source =
  csGetCloudProviders :: "go_error + CloudProviderInfo list"
  csGetCloudProviderRegions :: "CloudProviderInfo \<Rightarrow> go_error + CloudProviderRegionInfo list"

text \<open>The environment: the factory of cluster providers, the order in which the database returns distinct
  values, the table of lower-case runes, the configured providers and the two caches.\<close>

record CloudProvider =
  cpvKind :: string
  cpvId :: string
  cpvDisplayName :: string
  cpvName :: string
  cpvEnabled :: bool

record CloudRegion =
  crgKind :: string
  crgId :: string
  crgDisplayName :: string
  crgEnabled :: bool
  crgSupportedInstanceTypes :: "string list"

datatype cloud_list = ProviderListItem "CloudProvider item_list" | RegionListItem "CloudRegion item_list"

type_synonym regions_by_provider = "(string \<times> CloudProviderRegionInfo list) list"

record cloud_env =
  ceFactory :: "string \<Rightarrow> go_error + cloud_source"
  ceOrder :: "string list \<Rightarrow> string list"
  ceLower :: "nat \<Rightarrow> nat"
  ceSupported :: "Provider list"
  ceServiceCache :: "int \<Rightarrow> regions_by_provider list \<Rightarrow> regions_by_provider option"
  ceHandlerCache :: "int \<Rightarrow> (string \<times> cloud_list) list \<Rightarrow> string \<Rightarrow> cloud_list option"

subsection \<open>The service\<close>

text \<open>The struct of the query has no column for soft deletion, so removed clusters count as well.\<close>

definition getAvailableClusterProviderTypes :: "cloud_env \<Rightarrow> world \<Rightarrow> (service_error + string list) \<times> world" where
  "getAvailableClusterProviderTypes ce w =
     (case stmt (\<lambda>w. (Inr (ceOrder ce (remdups (map clProviderType (filter (\<lambda>c. \<not> List.member ClusterDeletionStatuses (clStatus c)) (clusters w))))), w)) w of
        (Inl e, w') \<Rightarrow> (Inl (general_error e ''Failed to list clusters providers''), w')
      | (Inr results, w') \<Rightarrow> (Inr results, w'))"

definition cloud_error :: "go_error option \<Rightarrow> string \<Rightarrow> service_error" where
  "cloud_error c msg = NewWithCause ErrorGeneral c (Fmt msg)"

text \<open>Adding the regions of the providers of one source; a failing request for regions is reported without its
  cause, which the source takes from another variable.\<close>

fun collect_regions :: "cloud_source \<Rightarrow> CloudProviderInfo list \<Rightarrow> regions_by_provider \<Rightarrow> service_error + regions_by_provider" where
  "collect_regions src [] m = Inr m"
| "collect_regions src (cp # cps) m = (case csGetCloudProviderRegions src cp of
     Inl _ \<Rightarrow> Inl (cloud_error None ''failed to retrieve cloud regions'')
   | Inr regions \<Rightarrow> collect_regions src cps
       (AList.update (ciID cp) (case map_of m (ciID cp) of None \<Rightarrow> regions | Some existing \<Rightarrow> merge_regions existing regions) m))"

definition source_providers :: "cloud_env \<Rightarrow> string \<Rightarrow> service_error + cloud_source \<times> CloudProviderInfo list" where
  "source_providers ce providerType = (case ceFactory ce providerType of
     Inl e \<Rightarrow> Inl (cloud_error (Some e) ''failed to find implementation'')
   | Inr src \<Rightarrow> (case csGetCloudProviders src of
       Inl e \<Rightarrow> Inl (cloud_error (Some e) ''failed to retrieve cloud provider list'')
     | Inr items \<Rightarrow> Inr (src, items)))"

fun collect_all_regions :: "cloud_env \<Rightarrow> string list \<Rightarrow> regions_by_provider \<Rightarrow> service_error + regions_by_provider" where
  "collect_all_regions ce [] m = Inr m"
| "collect_all_regions ce (t # ts) m = (case source_providers ce t of
     Inl e \<Rightarrow> Inl e
   | Inr (src, items) \<Rightarrow> (case collect_regions src items m of
       Inl e \<Rightarrow> Inl e
     | Inr m' \<Rightarrow> collect_all_regions ce ts m'))"

definition GetCloudProvidersWithRegions :: "cloud_env \<Rightarrow> world \<Rightarrow> (service_error + regions_by_provider) \<times> world" where
  "GetCloudProvidersWithRegions ce w = (case getAvailableClusterProviderTypes ce w of
     (Inl e, w') \<Rightarrow> (Inl e, w')
   | (Inr results, w') \<Rightarrow> (case collect_all_regions ce results [] of Inl e \<Rightarrow> Inl e | Inr m \<Rightarrow> Inr (sort_key fst m), w'))"

text \<open>The history of the cache of the service is threaded through.\<close>

definition GetCachedCloudProvidersWithRegions ::
  "cloud_env \<Rightarrow> int \<Rightarrow> regions_by_provider list \<Rightarrow> world \<Rightarrow> (service_error + regions_by_provider) \<times> regions_by_provider list \<times> world" where
  "GetCachedCloudProvidersWithRegions ce now hist w = (case ceServiceCache ce now hist of
     Some cached \<Rightarrow> (Inr cached, hist, w)
   | None \<Rightarrow> (case GetCloudProvidersWithRegions ce w of
       (Inl e, w') \<Rightarrow> (Inl e, hist, w')
     | (Inr m, w') \<Rightarrow> (Inr m, m # hist, w')))"

definition setDisplayName :: "(nat \<Rightarrow> nat) \<Rightarrow> string \<Rightarrow> string \<Rightarrow> string" where
  "setDisplayName lower providerID defaultDisplayName =
     (case map_of [(''aws'', ''Amazon Web Services''), (''azure'', ''Microsoft Azure''), (''gcp'', ''Google Cloud Platform'')] (go_ToLower lower providerID) of
        Some displayName \<Rightarrow> displayName | None \<Rightarrow> defaultDisplayName)"

fun add_providers :: "cloud_env \<Rightarrow> CloudProviderInfo list \<Rightarrow> CloudProviderInfo list \<Rightarrow> CloudProviderInfo list" where
  "add_providers ce [] found = found"
| "add_providers ce (cp # cps) found =
     (if list_ex (\<lambda>p. ciID p = ciID cp) found then add_providers ce cps found
      else add_providers ce cps (found @ [cp\<lparr>ciDisplayName := setDisplayName (ceLower ce) (ciID cp) (ciDisplayName cp)\<rparr>]))"

fun all_providers :: "cloud_env \<Rightarrow> string list \<Rightarrow> CloudProviderInfo list \<Rightarrow> service_error + CloudProviderInfo list" where
  "all_providers ce [] found = Inr found"
| "all_providers ce (t # ts) found = (case source_providers ce t of
     Inl e \<Rightarrow> Inl e
   | Inr (_, items) \<Rightarrow> all_providers ce ts (add_providers ce items found))"

definition service_ListCloudProviders :: "cloud_env \<Rightarrow> world \<Rightarrow> (service_error + CloudProviderInfo list) \<times> world" where
  "service_ListCloudProviders ce w = (case getAvailableClusterProviderTypes ce w of
     (Inl e, w') \<Rightarrow> (Inl e, w')
   | (Inr results, w') \<Rightarrow> (all_providers ce results [], w'))"

definition service_ListCloudProviderRegions :: "cloud_env \<Rightarrow> string \<Rightarrow> world \<Rightarrow> (service_error + CloudProviderRegionInfo list) \<times> world" where
  "service_ListCloudProviderRegions ce providerID w = (case GetCloudProvidersWithRegions ce w of
     (Inl e, w') \<Rightarrow> (Inl (cloud_error (Some (SvcErr e)) ''failed to retrieve cloud provider regions''), w')
   | (Inr m, w') \<Rightarrow> (Inr (case find (\<lambda>(i, _). i = providerID) m of None \<Rightarrow> [] | Some (_, rs) \<Rightarrow> rs), w'))"

subsection \<open>The handlers\<close>

text \<open>A reference to an object without identifier is empty.\<close>

definition reference_kind :: "string \<Rightarrow> string \<Rightarrow> string" where
  "reference_kind i kind = (if i = [] then [] else kind)"

definition PresentCloudProvider :: "CloudProviderInfo \<Rightarrow> bool \<Rightarrow> CloudProvider" where
  "PresentCloudProvider p enabled = \<lparr>cpvKind = reference_kind (ciID p) ''CloudProvider'', cpvId = ciID p, cpvDisplayName = ciDisplayName p,
     cpvName = ciName p, cpvEnabled = enabled\<rparr>"

definition PresentCloudRegion :: "CloudProviderRegionInfo \<Rightarrow> Region \<Rightarrow> CloudRegion" where
  "PresentCloudRegion r region = \<lparr>crgKind = reference_kind (riID r) ''CloudRegion'', crgId = riID r, crgDisplayName = riDisplayName r,
     crgEnabled = rgSupportedInstanceTypes region \<noteq> [], crgSupportedInstanceTypes = AsSlice (rgSupportedInstanceTypes region)\<rparr>"

definition cloud_items :: "string \<Rightarrow> 'a list \<Rightarrow> 'a item_list" where
  "cloud_items kind items = \<lparr>ilKind = kind, ilPage = 1, ilSize = wrap_int32 (int (length items)), ilTotal = wrap_int32 (int (length items)), ilItems = items\<rparr>"

definition cloudProvidersCacheKey :: string where "cloudProvidersCacheKey = ''cloudProviderList''"

definition region_cache_key :: "string \<Rightarrow> string \<Rightarrow> string" where
  "region_cache_key providerID instanceTypeFilter = (if instanceTypeFilter \<noteq> [] then providerID @ ''-'' @ instanceTypeFilter else providerID)"

definition region_list :: "cloud_env \<Rightarrow> string \<Rightarrow> string \<Rightarrow> CloudProviderRegionInfo list \<Rightarrow> CloudRegion item_list" where
  "region_list ce providerID instanceTypeFilter cloudRegions =
     (let provider = fst (provider_GetByName (ceSupported ce) providerID);
          region = (\<lambda>r. fst (region_GetByName (pvRegions provider) (riID r))) in
      cloud_items ''CloudRegionList'' (map (\<lambda>r. PresentCloudRegion r (region r))
        (filter (\<lambda>r. instanceTypeFilter = [] \<or> IsInstanceTypeSupported (region r) instanceTypeFilter) cloudRegions)))"

text \<open>The answer, the history of the cache and the world.\<close>

definition ListCloudProviderRegions ::
  "cloud_env \<Rightarrow> int \<Rightarrow> http_request \<Rightarrow> (string \<times> cloud_list) list \<Rightarrow> world \<Rightarrow> cloud_list response \<times> (string \<times> cloud_list) list \<times> world" where
  "ListCloudProviderRegions ce now r hist w =
     (let providerID = rqID r; instanceTypeFilter = values_Get (rqQuery r) ''instance_type''; cacheID = region_cache_key providerID instanceTypeFilter in
      case ValidateLength providerID ''id'' MinRequiredFieldLength None of
        Some e \<Rightarrow> (ErrorReply e, hist, w)
      | None \<Rightarrow> (case ceHandlerCache ce now hist cacheID of
          Some cached \<Rightarrow> (Reply StatusOK cached, hist, w)
        | None \<Rightarrow> (case service_ListCloudProviderRegions ce providerID w of
            (Inl e, w') \<Rightarrow> (ErrorReply e, hist, w')
          | (Inr cloudRegions, w') \<Rightarrow>
             (let regionList = RegionListItem (region_list ce providerID instanceTypeFilter cloudRegions) in
              (Reply StatusOK regionList, (cacheID, regionList) # hist, w')))))"

definition provider_list :: "cloud_env \<Rightarrow> CloudProviderInfo list \<Rightarrow> CloudProvider item_list" where
  "provider_list ce cloudProviders = cloud_items ''CloudProviderList''
     (map (\<lambda>p. PresentCloudProvider p (snd (provider_GetByName (ceSupported ce) (ciID p)))) cloudProviders)"

definition ListCloudProviders ::
  "cloud_env \<Rightarrow> int \<Rightarrow> (string \<times> cloud_list) list \<Rightarrow> world \<Rightarrow> cloud_list response \<times> (string \<times> cloud_list) list \<times> world" where
  "ListCloudProviders ce now hist w = (case ceHandlerCache ce now hist cloudProvidersCacheKey of
     Some cached \<Rightarrow> (Reply StatusOK cached, hist, w)
   | None \<Rightarrow> (case service_ListCloudProviders ce w of
       (Inl e, w') \<Rightarrow> (ErrorReply e, hist, w')
     | (Inr cloudProviders, w') \<Rightarrow>
        (let cloudProviderList = ProviderListItem (provider_list ce cloudProviders) in
         (Reply StatusOK cloudProviderList, (cloudProvidersCacheKey, cloudProviderList) # hist, w'))))"

end
