(* ===== verification/Cloud_Correct.thy ===== *)
theory Cloud_Correct
  imports Cloud_Providers Handlers_Correct
begin

text \<open>
  The listing of regions is the union of what the cluster providers say, each region once; the shared
  cache mixes the answers of two endpoints.
\<close>

subsection \<open>Regions\<close>

lemma merge_regions_ids: "riID ` set (merge_regions target source) = riID ` set target \<union> riID ` set source"
  by (induction target source rule: merge_regions.induct) (auto simp: list_ex_iff, metis image_eqI)

lemma merge_regions_distinct: "distinct (map riID target) \<Longrightarrow> distinct (map riID (merge_regions target source))"
proof (induction target source rule: merge_regions.induct)
  case (2 target region source)
  have "list_ex (\<lambda>r. riID r = riID region) target \<longleftrightarrow> riID region \<in> riID ` set target" unfolding list_ex_iff image_iff by metis
  then show ?case using 2 by simp
qed simp

text \<open>The identifiers of the regions of a provider, as collected so far, as a source tells them, and as the
  sources of several types tell them.\<close>

definition region_ids :: "regions_by_provider \<Rightarrow> string \<Rightarrow> string set" where
  "region_ids m i = (case map_of m i of None \<Rightarrow> {} | Some rs \<Rightarrow> riID ` set rs)"

definition told_ids :: "cloud_source \<Rightarrow> CloudProviderInfo list \<Rightarrow> string \<Rightarrow> string set" where
  "told_ids src items i = {x. \<exists>cp\<in>set items. ciID cp = i \<and> (\<exists>rs. csGetCloudProviderRegions src cp = Inr rs \<and> x \<in> riID ` set rs)}"

definition all_told_ids :: "cloud_env \<Rightarrow> string list \<Rightarrow> string \<Rightarrow> string set" where
  "all_told_ids ce ts i = {x. \<exists>t\<in>set ts. \<exists>src items. source_providers ce t = Inr (src, items) \<and> x \<in> told_ids src items i}"

lemma told_ids_Cons:
  "csGetCloudProviderRegions src cp = Inr rs \<Longrightarrow>
   told_ids src (cp # cps) i = (if ciID cp = i then riID ` set rs else {}) \<union> told_ids src cps i"
  by (auto simp: told_ids_def)

lemma all_told_Cons:
  "source_providers ce t = Inr (src, items) \<Longrightarrow> all_told_ids ce (t # ts) i = told_ids src items i \<union> all_told_ids ce ts i"
  by (auto simp: all_told_ids_def)

lemma region_ids_update:
  "region_ids (AList.update p (case map_of m p of None \<Rightarrow> rs | Some old \<Rightarrow> merge_regions old rs) m) i =
   region_ids m i \<union> (if p = i then riID ` set rs else {})"
  by (auto simp: region_ids_def AList.update_conv' merge_regions_ids split: option.splits)

lemma collect_regions_ids:
  "collect_regions src items m = Inr m' \<Longrightarrow> region_ids m' i = region_ids m i \<union> told_ids src items i"
proof (induction src items m rule: collect_regions.induct)
  case (2 src cp cps m)
  then obtain rs where rs: "csGetCloudProviderRegions src cp = Inr rs" by (auto split: sum.splits)
  then have "region_ids m' i =
      region_ids (AList.update (ciID cp) (case map_of m (ciID cp) of None \<Rightarrow> rs | Some old \<Rightarrow> merge_regions old rs) m) i \<union> told_ids src cps i"
    using 2 by simp
  then show ?case unfolding region_ids_update told_ids_Cons [OF rs] by blast
qed (simp add: told_ids_def)

lemma collect_all_regions_ids: "collect_all_regions ce ts m = Inr m' \<Longrightarrow> region_ids m' i = region_ids m i \<union> all_told_ids ce ts i"
proof (induction ce ts m rule: collect_all_regions.induct)
  case (2 ce t ts m)
  then obtain src items m1 where s: "source_providers ce t = Inr (src, items)" "collect_regions src items m = Inr m1" "collect_all_regions ce ts m1 = Inr m'"
    by (auto split: sum.splits prod.splits)
  have "region_ids m' i = region_ids m1 i \<union> all_told_ids ce ts i" using 2(1) [OF s(1) refl s(2,3)] .
  then show ?case unfolding collect_regions_ids [OF s(2)] all_told_Cons [OF s(1)] by blast
qed (simp add: all_told_ids_def)

lemma collect_regions_keys: "collect_regions src items m = Inr m' \<Longrightarrow> distinct (map fst m) \<Longrightarrow> distinct (map fst m')"
  by (induction src items m rule: collect_regions.induct) (auto simp: distinct_update split: sum.splits)

lemma collect_all_regions_keys: "collect_all_regions ce ts m = Inr m' \<Longrightarrow> distinct (map fst m) \<Longrightarrow> distinct (map fst m')"
  by (induction ce ts m rule: collect_all_regions.induct) (auto simp: collect_regions_keys split: sum.splits prod.splits)

lemma find_sorted_regions:
  fixes m :: regions_by_provider
  shows "distinct (map fst m) \<Longrightarrow> find (\<lambda>(i, _). i = p) (sort_key fst m) = map_option (Pair p) (map_of m p)"
proof -
  assume d: "distinct (map fst m)"
  have "distinct (map fst (sort_key fst m))" using d by (simp add: distinct_map)
  then have "map_of (sort_key fst m) = map_of m" using d by (intro map_of_eqI) (auto simp: map_of_eq_Some_iff)
  moreover have "find (\<lambda>(i, _). i = p) xs = map_option (Pair p) (map_of xs p)" for xs :: regions_by_provider by (induction xs) auto
  ultimately show ?thesis by simp
qed

text \<open>The regions of a provider are those that the cluster providers in use tell, whichever of them tells it.\<close>

theorem cloud_regions_exact:
  assumes "getAvailableClusterProviderTypes ce w = (Inr ts, w1)" "service_ListCloudProviderRegions ce i w = (Inr rs, w')"
  shows "riID ` set rs = all_told_ids ce ts i"
proof -
  from assms obtain m where m: "collect_all_regions ce ts [] = Inr m"
    "rs = (case find (\<lambda>(j, _). j = i) (sort_key fst m) of None \<Rightarrow> [] | Some (_, rs) \<Rightarrow> rs)"
    by (auto simp: service_ListCloudProviderRegions_def GetCloudProvidersWithRegions_def split: sum.splits prod.splits)
  have "riID ` set rs = region_ids m i"
    unfolding m(2) find_sorted_regions [OF collect_all_regions_keys [OF m(1), simplified]] by (simp add: region_ids_def split: option.split)
  then show ?thesis using collect_all_regions_ids [OF m(1), of i] by (simp add: region_ids_def)
qed

subsection \<open>The shared cache\<close>

text \<open>The listing of cloud providers can be replaced from outside. Both endpoints keep their answers in one cache, and
  the key of a region listing is the identifier in the path. After a request for the regions of a provider
  named like the key of the provider listing that was not answered from the cache, the listing of
  providers answers that list of regions, as long as the cache holds what was set last.\<close>

theorem provider_list_poisoned:
  assumes "rqID r = cloudProvidersCacheKey" "values_Get (rqQuery r) ''instance_type'' = []"
    "ceHandlerCache ce now hist cloudProvidersCacheKey = None"
    "ListCloudProviderRegions ce now r hist w = (Reply st answer, hist', w')"
    "\<And>k v h. ceHandlerCache ce now' ((k, v) # h) k = Some v"
  shows "\<exists>regions. answer = RegionListItem regions \<and> ilKind regions = ''CloudRegionList'' \<and>
    ListCloudProviders ce now' hist' w'' = (Reply StatusOK (RegionListItem regions), hist', w'')"
proof -
  from assms(1-4) obtain rs where "answer = RegionListItem (region_list ce cloudProvidersCacheKey [] rs)"
    "hist' = (cloudProvidersCacheKey, answer) # hist"
    by (auto simp: ListCloudProviderRegions_def region_cache_key_def Let_def split: option.splits sum.splits prod.splits)
  then show ?thesis using assms(5) by (simp add: ListCloudProviders_def region_list_def cloud_items_def Let_def)
qed

definition sample_cloud :: cloud_env where
  "sample_cloud = \<lparr>ceFactory = (\<lambda>_. Inr \<lparr>csGetCloudProviders = Inr [\<lparr>ciID = ''aws'', ciName = ''aws'', ciDisplayName = ''AWS''\<rparr>],
       csGetCloudProviderRegions = (\<lambda>_. Inr [])\<rparr>),
     ceOrder = (\<lambda>ts. ts), ceLower = (\<lambda>r. r), ceSupported = [], ceServiceCache = (\<lambda>_ _. None), ceHandlerCache = (\<lambda>_ h k. map_of h k)\<rparr>"

definition poison_http :: http_request where
  "poison_http = \<lparr>rqQuery = [], rqContext = alice_context, rqUserAgent = [], rqID = ''cloudProviderList''\<rparr>"

theorem provider_list_poisoned_witness:
  "\<exists>regions. fst (ListCloudProviders sample_cloud 1 (fst (snd (ListCloudProviderRegions sample_cloud 0 poison_http [] sample_world))) sample_world) =
     Reply StatusOK (RegionListItem regions)"
proof -
  let ?run = "ListCloudProviderRegions sample_cloud 0 poison_http [] sample_world"
  have "is_Reply (fst ?run)" by code_simp
  then obtain st answer hist' w' where run: "?run = (Reply st answer, hist', w')" by (metis is_Reply_def prod.collapse)
  have "rqID poison_http = cloudProvidersCacheKey" "values_Get (rqQuery poison_http) ''instance_type'' = []"
    by (simp_all add: poison_http_def cloudProvidersCacheKey_def values_Get_def)
  then show ?thesis
    using provider_list_poisoned [of poison_http sample_cloud 0 "[]" sample_world st answer hist' w' 1 sample_world] run
    by (auto simp: sample_cloud_def)
qed

end
