(* ===== verification/Admin_Update.thy ===== *)
theory Admin_Update
  imports Shard_Types
begin

text \<open>
  The admin endpoints that read and change the resources of a tenant (\<^verbatim>\<open>Get\<close>, \<^verbatim>\<open>List\<close> and \<^verbatim>\<open>Update\<close> of
  \<^verbatim>\<open>handlers/admin_dinosaur.go\<close>), with the specs of a row (\<^verbatim>\<open>dbapi/central_request_types.go\<close>, \<^verbatim>\<open>dbapi/central_spec.go\<close>)
  and the admin presenter.

  The default specs are package variables. A copy of such a struct shares its maps, and decoding JSON
  into a map that is not nil writes into that map. So the defaults are a state that the
  operations thread: decoding a row into a copy of the defaults changes the defaults themselves.
\<close>

subsection \<open>Specs and their JSON\<close>

text \<open>What decoding stores in a map: nothing, a nil map, or entries one after the other. A decoder gives what it
  stores before it ends, and the error it ends with.\<close>

datatype json_map = AbsentMap | NullMap | MapEntries "(string \<times> string) list"

record resources_json =
  rjRequests :: json_map
  rjLimits :: json_map

record scaling_json =
  sjAutoScaling :: "string option"
  sjReplicas :: "int option"
  sjMinReplicas :: "int option"
  sjMaxReplicas :: "int option"

record scanner_json =
  sjAnalyzer :: resources_json
  sjScaling :: scaling_json
  sjDb :: resources_json

text \<open>The JSON codec of the specs and the parser of quantities.\<close>

record spec_codec =
  scDecodeCentral :: "string \<Rightarrow> resources_json \<times> go_error option"
  scDecodeScanner :: "string \<Rightarrow> scanner_json \<times> go_error option"
  scEncodeCentral :: "ResourceRequirements \<Rightarrow> go_error + string"
  scEncodeScanner :: "ScannerSpec \<Rightarrow> go_error + string"
  scParseQuantity :: "string \<Rightarrow> go_error + string"

text \<open>The package variables \<^verbatim>\<open>DefaultCentralSpec\<close> and \<^verbatim>\<open>DefaultScannerSpec\<close>.\<close>

record spec_defaults =
  DefaultCentralSpec :: ResourceRequirements
  DefaultScannerSpec :: ScannerSpec

definition put_entries :: "(string \<times> string) list \<Rightarrow> (string \<times> string) list \<Rightarrow> (string \<times> string) list" where
  "put_entries es m = foldl (\<lambda>m (k, v). AList.update k v m) m es"

text \<open>The map that the decoded struct holds, and what became of the map it was decoded into.\<close>

definition decoded_map :: "json_map \<Rightarrow> (string \<times> string) list \<Rightarrow> (string \<times> string) list" where
  "decoded_map j m = (case j of AbsentMap \<Rightarrow> m | NullMap \<Rightarrow> [] | MapEntries es \<Rightarrow> put_entries es m)"

definition shared_map :: "json_map \<Rightarrow> (string \<times> string) list \<Rightarrow> (string \<times> string) list" where
  "shared_map j m = (case j of MapEntries es \<Rightarrow> put_entries es m | _ \<Rightarrow> m)"

definition decoded_resources :: "resources_json \<Rightarrow> ResourceRequirements \<Rightarrow> ResourceRequirements" where
  "decoded_resources j r = \<lparr>rrRequests = decoded_map (rjRequests j) (rrRequests r), rrLimits = decoded_map (rjLimits j) (rrLimits r)\<rparr>"

definition shared_resources :: "resources_json \<Rightarrow> ResourceRequirements \<Rightarrow> ResourceRequirements" where
  "shared_resources j r = \<lparr>rrRequests = shared_map (rjRequests j) (rrRequests r), rrLimits = shared_map (rjLimits j) (rrLimits r)\<rparr>"

definition or_kept :: "'a option \<Rightarrow> 'a \<Rightarrow> 'a" where
  "or_kept x v = (case x of Some y \<Rightarrow> y | None \<Rightarrow> v)"

definition decoded_scaling :: "scaling_json \<Rightarrow> AnalyzerScaling \<Rightarrow> AnalyzerScaling" where
  "decoded_scaling j s = \<lparr>asAutoScaling = or_kept (sjAutoScaling j) (asAutoScaling s), asReplicas = or_kept (sjReplicas j) (asReplicas s),
     asMinReplicas = or_kept (sjMinReplicas j) (asMinReplicas s), asMaxReplicas = or_kept (sjMaxReplicas j) (asMaxReplicas s)\<rparr>"

definition decoded_scanner :: "scanner_json \<Rightarrow> ScannerSpec \<Rightarrow> ScannerSpec" where
  "decoded_scanner j s = \<lparr>ssAnalyzerResources = decoded_resources (sjAnalyzer j) (ssAnalyzerResources s),
     ssScaling = decoded_scaling (sjScaling j) (ssScaling s), ssDbResources = decoded_resources (sjDb j) (ssDbResources s)\<rparr>"

text \<open>The scaling is part of the struct and not shared.\<close>

definition shared_scanner :: "scanner_json \<Rightarrow> ScannerSpec \<Rightarrow> ScannerSpec" where
  "shared_scanner j s = s\<lparr>ssAnalyzerResources := shared_resources (sjAnalyzer j) (ssAnalyzerResources s),
     ssDbResources := shared_resources (sjDb j) (ssDbResources s)\<rparr>"

definition column :: "string option \<Rightarrow> string" where
  "column j = (case j of None \<Rightarrow> [] | Some bytes \<Rightarrow> bytes)"

definition GetCentralSpec :: "spec_codec \<Rightarrow> CentralRequest \<Rightarrow> spec_defaults \<Rightarrow> (go_error + ResourceRequirements) \<times> spec_defaults" where
  "GetCentralSpec cd k d =
     (if column (crCentral k) = [] then (Inr (DefaultCentralSpec d), d)
      else (case scDecodeCentral cd (column (crCentral k)) of (j, err) \<Rightarrow>
        (case err of
           Some e \<Rightarrow> Inl (Wrap ''unmarshalling CentralSpec'' e)
         | None \<Rightarrow> Inr (decoded_resources j (DefaultCentralSpec d)),
         d\<lparr>DefaultCentralSpec := shared_resources j (DefaultCentralSpec d)\<rparr>)))"

definition GetScannerSpec :: "spec_codec \<Rightarrow> CentralRequest \<Rightarrow> spec_defaults \<Rightarrow> (go_error + ScannerSpec) \<times> spec_defaults" where
  "GetScannerSpec cd k d =
     (if column (crScanner k) = [] then (Inr (DefaultScannerSpec d), d)
      else (case scDecodeScanner cd (column (crScanner k)) of (j, err) \<Rightarrow>
        (case err of
           Some e \<Rightarrow> Inl (Wrap ''unmarshalling ScannerSpec'' e)
         | None \<Rightarrow> Inr (decoded_scanner j (DefaultScannerSpec d)),
         d\<lparr>DefaultScannerSpec := shared_scanner j (DefaultScannerSpec d)\<rparr>)))"

definition SetCentralSpec :: "spec_codec \<Rightarrow> ResourceRequirements \<Rightarrow> CentralRequest \<Rightarrow> go_error + CentralRequest" where
  "SetCentralSpec cd spec k = (case scEncodeCentral cd spec of
     Inl e \<Rightarrow> Inl (Wrap ''marshalling CentralSpec into JSON'' e)
   | Inr bytes \<Rightarrow> Inr (k\<lparr>crCentral := Some bytes\<rparr>))"

definition SetScannerSpec :: "spec_codec \<Rightarrow> ScannerSpec \<Rightarrow> CentralRequest \<Rightarrow> go_error + CentralRequest" where
  "SetScannerSpec cd spec k = (case scEncodeScanner cd spec of
     Inl e \<Rightarrow> Inl (Wrap ''marshalling ScannerSpec into JSON'' e)
   | Inr bytes \<Rightarrow> Inr (k\<lparr>crScanner := Some bytes\<rparr>))"

subsection \<open>The update of a row\<close>

record CentralUpdateRequest =
  upCentralVersion :: string
  upCentralResources :: ResourceRequirements
  upAnalyzerResources :: ResourceRequirements
  upAnalyzerScaling :: AnalyzerScaling
  upDbResources :: ResourceRequirements

definition ValidateResourceName :: "string \<Rightarrow> bool" where
  "ValidateResourceName name \<longleftrightarrow> name = ResourceCPU \<or> name = ResourceMemory"

text \<open>The map is iterated in an order that Go does not fix: the order of the list.\<close>

fun updateResourcesList :: "spec_codec \<Rightarrow> (string \<times> string) list \<Rightarrow> (string \<times> string) list \<Rightarrow> go_error + (string \<times> string) list" where
  "updateResourcesList cd to [] = Inr to"
| "updateResourcesList cd to ((name, qty) # from) =
     (if qty = [] then updateResourcesList cd to from
      else if \<not> ValidateResourceName name then Inl (GoErr (''resource type '' @ go_quote name @ '' is not supported''))
      else (case scParseQuantity cd qty of
        Inl e \<Rightarrow> Inl (Wrap (''parsing '' @ name @ '' quantity '' @ go_quote qty) e)
      | Inr q \<Rightarrow> updateResourcesList cd (AList.update name q to) from))"

definition updateCoreV1Resources :: "spec_codec \<Rightarrow> ResourceRequirements \<Rightarrow> ResourceRequirements \<Rightarrow> go_error + ResourceRequirements" where
  "updateCoreV1Resources cd to from = (case updateResourcesList cd (rrLimits to) (rrLimits from) of
     Inl e \<Rightarrow> Inl e
   | Inr limits \<Rightarrow> (case updateResourcesList cd (rrRequests to) (rrRequests from) of
       Inl e \<Rightarrow> Inl e
     | Inr requests \<Rightarrow> Inr \<lparr>rrRequests = requests, rrLimits = limits\<rparr>))"

definition updateCentralFromPrivateAPI :: "spec_codec \<Rightarrow> ResourceRequirements \<Rightarrow> CentralUpdateRequest \<Rightarrow> go_error + ResourceRequirements" where
  "updateCentralFromPrivateAPI cd c u = (case updateCoreV1Resources cd c (upCentralResources u) of
     Inl e \<Rightarrow> Inl (Wrap ''updating resources within CentralSpec'' e)
   | Inr r \<Rightarrow> Inr r)"

definition updateScannerAnalyzerScaling :: "AnalyzerScaling \<Rightarrow> AnalyzerScaling \<Rightarrow> AnalyzerScaling" where
  "updateScannerAnalyzerScaling s a =
     \<lparr>asAutoScaling = (if asAutoScaling a \<noteq> [] then asAutoScaling a else asAutoScaling s),
      asReplicas = (if asReplicas a > 0 then asReplicas a else asReplicas s),
      asMinReplicas = (if asMinReplicas a > 0 then asMinReplicas a else asMinReplicas s),
      asMaxReplicas = (if asMaxReplicas a > 0 then asMaxReplicas a else asMaxReplicas s)\<rparr>"

definition updateScannerFromPrivateAPI :: "spec_codec \<Rightarrow> ScannerSpec \<Rightarrow> CentralUpdateRequest \<Rightarrow> go_error + ScannerSpec" where
  "updateScannerFromPrivateAPI cd s u = (case updateCoreV1Resources cd (ssAnalyzerResources s) (upAnalyzerResources u) of
     Inl e \<Rightarrow> Inl (Wrap ''updating resources within ScannerSpec Analyzer'' e)
   | Inr analyzer \<Rightarrow> (case updateCoreV1Resources cd (ssDbResources s) (upDbResources u) of
       Inl e \<Rightarrow> Inl (Wrap ''updating resources within ScannerSpec DB'' e)
     | Inr db \<Rightarrow> Inr \<lparr>ssAnalyzerResources = analyzer, ssScaling = updateScannerAnalyzerScaling (ssScaling s) (upAnalyzerScaling u), ssDbResources = db\<rparr>))"

definition ValidateScannerAnalyzerScaling :: "AnalyzerScaling \<Rightarrow> go_error option" where
  "ValidateScannerAnalyzerScaling s =
     (let bad = (\<lambda>msg. Some (GoErr (''invalid scaling configuration: '' @ msg))) in
      if asAutoScaling s \<noteq> ''Enabled'' \<and> asAutoScaling s \<noteq> ''Disabled'' then
        bad (''unknown AutoScaling '' @ go_quote (asAutoScaling s) @ '', must be '' @ [CHR 39] @ ''Enabled'' @ [CHR 39] @ '' or '' @ [CHR 39] @ ''Disabled'' @ [CHR 39])
      else if asMinReplicas s \<le> 0 then bad (''MinReplicas ('' @ itoa (asMinReplicas s) @ '') must be positive'')
      else if asReplicas s \<le> 0 then bad (''Replicas ('' @ itoa (asReplicas s) @ '') must be positive'')
      else if asMaxReplicas s \<le> 0 then bad (''MaxReplicas ('' @ itoa (asMaxReplicas s) @ '') must be positive'')
      else if asReplicas s < asMinReplicas s then bad (''Replicas ('' @ itoa (asReplicas s) @ '') < MinReplicas ('' @ itoa (asMinReplicas s) @ '')'')
      else if asReplicas s > asMaxReplicas s then bad (''Replicas ('' @ itoa (asReplicas s) @ '') > MaxReplicas ('' @ itoa (asMaxReplicas s) @ '')'')
      else None)"

text \<open>The two specs that go back into the row, from the specs of the row.\<close>

definition updated_specs ::
  "spec_codec \<Rightarrow> CentralUpdateRequest \<Rightarrow> ResourceRequirements \<Rightarrow> ScannerSpec \<Rightarrow> go_error + ResourceRequirements \<times> ScannerSpec" where
  "updated_specs cd u centralSpec scannerSpec = (case updateCentralFromPrivateAPI cd centralSpec u of
     Inl e \<Rightarrow> Inl (Wrap ''updating CentralSpec from CentralUpdateRequest'' e)
   | Inr c \<Rightarrow> (case updateScannerFromPrivateAPI cd scannerSpec u of
       Inl e \<Rightarrow> Inl (Wrap ''updating ScannerSpec from CentralUpdateRequest'' e)
     | Inr s \<Rightarrow> (case ValidateScannerAnalyzerScaling (ssScaling s) of Some e \<Rightarrow> Inl e | None \<Rightarrow> Inr (c, s))))"

definition set_specs :: "spec_codec \<Rightarrow> string \<Rightarrow> ResourceRequirements \<Rightarrow> ScannerSpec \<Rightarrow> CentralRequest \<Rightarrow> go_error + CentralRequest" where
  "set_specs cd version c s k = (case SetCentralSpec cd c k of
     Inl e \<Rightarrow> Inl (Wrap ''updating CentralSpec within CentralRequest'' e)
   | Inr k1 \<Rightarrow> (case SetScannerSpec cd s k1 of
       Inl e \<Rightarrow> Inl (Wrap ''updating ScannerSpec within CentralRequest'' e)
     | Inr k2 \<Rightarrow> Inr (k2\<lparr>crDesiredCentralVersion := version\<rparr>)))"

definition updateCentralRequest ::
  "spec_codec \<Rightarrow> CentralUpdateRequest \<Rightarrow> CentralRequest \<Rightarrow> spec_defaults \<Rightarrow> (go_error + CentralRequest) \<times> spec_defaults" where
  "updateCentralRequest cd u k d = (case GetCentralSpec cd k d of
     (Inl e, d1) \<Rightarrow> (Inl (Wrap ''retrieving CentralSpec from CentralRequest'' e), d1)
   | (Inr centralSpec, d1) \<Rightarrow> (case GetScannerSpec cd k d1 of
       (Inl e, d2) \<Rightarrow> (Inl (Wrap ''retrieving ScannerSpec from CentralRequest'' e), d2)
     | (Inr scannerSpec, d2) \<Rightarrow> (case updated_specs cd u centralSpec scannerSpec of
         Inl e \<Rightarrow> (Inl e, d2)
       | Inr (c, s) \<Rightarrow> (set_specs cd (upCentralVersion u) c s k, d2))))"

subsection \<open>The admin presenter\<close>

definition convertCoreV1ResourceListToMap :: "(string \<times> string) list \<Rightarrow> (string \<times> string) list" where
  "convertCoreV1ResourceListToMap m = filter (\<lambda>(_, qty). qty \<noteq> []) m"

definition ConvertCoreV1ResourceRequirementsToAdmin :: "ResourceRequirements \<Rightarrow> ResourceRequirements" where
  "ConvertCoreV1ResourceRequirementsToAdmin r =
     \<lparr>rrRequests = convertCoreV1ResourceListToMap (rrRequests r), rrLimits = convertCoreV1ResourceListToMap (rrLimits r)\<rparr>"

record admin_Central =
  acId :: string
  acKind :: string
  acHref :: string
  acStatus :: string
  acCloudProvider :: string
  acMultiAz :: bool
  acRegion :: string
  acOwner :: string
  acName :: string
  acHost :: string
  acCreatedAt :: int
  acUpdatedAt :: int
  acFailedReason :: string
  acActualCentralVersion :: string
  acInstanceType :: string
  acCentralResources :: ResourceRequirements
  acAnalyzerResources :: ResourceRequirements
  acAnalyzerScaling :: AnalyzerScaling
  acDbResources :: ResourceRequirements

text \<open>Here the specs are decoded into fresh structs, and an error of the decoder is only logged.\<close>

definition PresentDinosaurRequestAdminEndpoint :: "spec_codec \<Rightarrow> CentralRequest \<Rightarrow> admin_Central" where
  "PresentDinosaurRequestAdminEndpoint cd k =
     (let central = (if column (crCentral k) = [] then empty_resources
            else ConvertCoreV1ResourceRequirementsToAdmin (decoded_resources (fst (scDecodeCentral cd (column (crCentral k)))) empty_resources));
          scanner = (if column (crScanner k) = [] then empty_scanner
            else decoded_scanner (fst (scDecodeScanner cd (column (crScanner k)))) empty_scanner) in
      \<lparr>acId = crID k, acKind = ''CentralRequest'', acHref = ''/api/rhacs/v1/centrals/'' @ crID k, acStatus = crStatus k,
       acCloudProvider = crCloudProvider k, acMultiAz = crMultiAZ k, acRegion = crRegion k, acOwner = crOwner k, acName = crName k,
       acHost = GetUIHost k, acCreatedAt = crCreatedAt k, acUpdatedAt = crUpdatedAt k, acFailedReason = crFailedReason k,
       acActualCentralVersion = crActualCentralVersion k, acInstanceType = crInstanceType k, acCentralResources = central,
       acAnalyzerResources = ConvertCoreV1ResourceRequirementsToAdmin (ssAnalyzerResources scanner),
       acAnalyzerScaling = ssScaling scanner, acDbResources = ConvertCoreV1ResourceRequirementsToAdmin (ssDbResources scanner)\<rparr>)"

subsection \<open>The handlers\<close>

definition adminHandler_Get :: "spec_codec \<Rightarrow> http_request \<Rightarrow> world \<Rightarrow> admin_Central response option \<times> world" where
  "adminHandler_Get cd r =
     HandleGet [] (\<lambda>_ w. case central_Get (rqContext r) (rqID r) w of
         (Inl e, w') \<Rightarrow> (Some (Inl e), w')
       | (Inr k, w') \<Rightarrow> (Some (Inr (PresentDinosaurRequestAdminEndpoint cd k)), w')) ()"

definition adminHandler_List :: "api_env \<Rightarrow> spec_codec \<Rightarrow> http_request \<Rightarrow> world \<Rightarrow> admin_Central item_list response option \<times> world" where
  "adminHandler_List ae cd r = HandleGet [] (list_action ae r ''CentralList'' (PresentDinosaurRequestAdminEndpoint cd)) ()"

text \<open>The action of \<^verbatim>\<open>Update\<close> on a decoded and validated request.\<close>

definition update_action ::
  "env \<Rightarrow> spec_codec \<Rightarrow> http_request \<Rightarrow> CentralUpdateRequest \<Rightarrow> world \<Rightarrow> spec_defaults \<Rightarrow> (service_error + admin_Central) \<times> world \<times> spec_defaults" where
  "update_action ev cd r u w d = (case central_Get (rqContext r) (rqID r) w of
     (Inl e, w1) \<Rightarrow> (Inl e, w1, d)
   | (Inr k, w1) \<Rightarrow> (case updateCentralRequest cd u k d of
       (Inl e, d1) \<Rightarrow> (Inl (NewWithCause ErrorBadRequest (Some e) (Fmt (''Updating CentralRequest: '' @ go_Error e))), w1, d1)
     | (Inr k1, d1) \<Rightarrow> (case VerifyAndUpdateDinosaurAdmin ev (rqContext r) k1 w1 of
         (Some e, w2) \<Rightarrow> (Inl e, w2, d1)
       | (None, w2) \<Rightarrow> (Inr (PresentDinosaurRequestAdminEndpoint cd k1), w2, d1))))"

definition adminHandler_Update ::
  "env \<Rightarrow> spec_codec \<Rightarrow> http_request \<Rightarrow> go_error + CentralUpdateRequest \<Rightarrow> world \<Rightarrow> spec_defaults \<Rightarrow> admin_Central response \<times> world \<times> spec_defaults" where
  "adminHandler_Update ev cd r body w d = (case body of
     Inl e \<Rightarrow> (ErrorReply (MalformedRequest (Fmt (''Invalid request format: '' @ go_Error e))), w, d)
   | Inr u \<Rightarrow> (case ValidateUpdateCentralVersion (upCentralVersion u) of
       Some e \<Rightarrow> (ErrorReply e, w, d)
     | None \<Rightarrow> (case update_action ev cd r u w d of
         (Inl e, w', d') \<Rightarrow> (ErrorReply e, w', d')
       | (Inr a, w', d') \<Rightarrow> (Reply StatusOK a, w', d'))))"

end
