(* ===== verification/Api_Handlers.thy ===== *)
theory Api_Handlers
  imports Shard_Runtime Cluster_Manager Quota_Service Cloud_Providers Admin_Update
begin

text \<open>
  The remaining handlers of the REST API: the table of errors (\<^verbatim>\<open>pkg/handlers/errors.go\<close>, \<^verbatim>\<open>pkg/handlers/helpers.go\<close>), the cloud
  accounts (\<^verbatim>\<open>handlers/cloud_accounts.go\<close>), the metrics of a tenant (\<^verbatim>\<open>handlers/metrics.go\<close>, \<^verbatim>\<open>presenters/metric.go\<close>,
  \<^verbatim>\<open>services/observatorium_service.go\<close>) and the endpoints of the agent about its cluster
  (\<^verbatim>\<open>handlers/data_plane_cluster.go\<close>). The Prometheus server is a function of the environment.
\<close>

subsection \<open>The table of errors\<close>

text \<open>The products and sums of the page arithmetic wrap around.\<close>

definition DetermineListRange :: "'a list \<Rightarrow> int \<Rightarrow> int \<Rightarrow> 'a list \<times> int" where
  "DetermineListRange items page size0 =
     (let nitems = int (length items);
          low = wrap_int64 (wrap_int64 (page - 1) * size0);
          high = wrap_int64 (low + size0);
          bounds = (if low < 0 \<or> low \<ge> nitems \<or> high \<ge> nitems then (0, nitems) else (low, high)) in
      (take (nat (snd bounds - fst bounds)) (drop (nat (fst bounds)) items), nitems))"

definition ErrorHandler_List :: "http_request \<Rightarrow> service_error item_list" where
  "ErrorHandler_List r =
     (let listArgs = NewListArguments (rqQuery r);
          allErrors = sort_key Code Errors in
      case DetermineListRange allErrors (laPage listArgs) (laSize listArgs) of (items, nitems) \<Rightarrow>
        \<lparr>ilKind = ''ErrorList'', ilPage = wrap_int32 (laPage listArgs), ilSize = wrap_int32 (int (length items)), ilTotal = wrap_int32 nitems, ilItems = items\<rparr>)"

definition ErrorHandler_Get :: "http_request \<Rightarrow> service_error + service_error" where
  "ErrorHandler_Get r =
     (let missing = Inl (NotFound (Fmt (''No error with id '' @ rqID r @ '' exists''))) in
      case Atoi (rqID r) of
        (_, False) \<Rightarrow> missing
      | (code, True) \<Rightarrow> (case Find code of None \<Rightarrow> missing | Some e \<Rightarrow> Inr e))"

subsection \<open>Cloud accounts\<close>

definition cloudAccounts_Get :: "ams_client \<Rightarrow> http_request \<Rightarrow> service_error + cloud_account list" where
  "cloudAccounts_Get ams r = (case GetClaimsFromContext (rqContext r) of
     Inl e \<Rightarrow> Inl (unauthenticated e)
   | Inr claims \<Rightarrow> (case GetOrgID claims of
       Inl e \<Rightarrow> Inl (NewWithCause ErrorForbidden (Some e) (Fmt ''cannot make request without orgID claim''))
     | Inr orgID \<Rightarrow> (case amsGetOrganisation ams orgID of
         Inl e \<Rightarrow> Inl (OrganisationNotFound orgID e)
       | Inr (organization, _) \<Rightarrow> (case amsGetCloudAccounts ams organization [RHACSMarketplaceQuotaID] of
           Inl e \<Rightarrow> Inl (NewWithCause ErrorGeneral (Some e) (Fmt ''failed to fetch cloud accounts from AMS''))
         | Inr cloudAccounts \<Rightarrow> Inr cloudAccounts))))"

subsection \<open>Metrics of a tenant\<close>

text \<open>Labels are an association list, a sample is its time and the bits of its value.\<close>

record metric_series =
  msLabels :: "(string \<times> string) list"
  msValues :: "(int \<times> int) list"

text \<open>One result: a matrix and a vector, or an error.\<close>

record metric_result =
  mrMatrix :: "metric_series list"
  mrVector :: "metric_series list"
  mrErr :: "go_error option"

record MetricsReqParams =
  mqFilters :: "string list"
  mqRangeQuery :: bool
  mqStart :: int
  mqEnd :: int
  mqStep :: int

definition FillDefaults :: "int \<Rightarrow> MetricsReqParams \<Rightarrow> MetricsReqParams" where
  "FillDefaults now q = q\<lparr>mqEnd := now, mqStart := now - 5 * minute, mqStep := 30 * second\<rparr>"

definition extractMetricsQueryParams :: "int \<Rightarrow> url_values \<Rightarrow> MetricsReqParams \<Rightarrow> MetricsReqParams" where
  "extractMetricsQueryParams now query q =
     (let q0 = FillDefaults now q;
          dur = values_Get query ''duration'';
          q1 = (if dur \<noteq> [] \<and> snd (Atoi dur) then q0\<lparr>mqStart := mqEnd q0 - wrap_int64 (fst (Atoi dur) * minute)\<rparr> else q0);
          step = values_Get query ''interval'';
          q2 = (if step \<noteq> [] \<and> snd (Atoi step) then q1\<lparr>mqStep := wrap_int64 (fst (Atoi step) * second)\<rparr> else q1) in
      case map_of query ''filters'' of Some (f # fs) \<Rightarrow> q2\<lparr>mqFilters := f # fs\<rparr> | _ \<Rightarrow> q2)"

definition getSupportedLables :: "string list" where
  "getSupportedLables = [''__name__'', ''dinosaur_operator_io_cluster'', ''topic'', ''persistentvolumeclaim'',
     ''statefulset_kubernetes_io_pod_name'', ''exported_service'', ''exported_pod'', ''route'']"

definition isAllowedLabel :: "string \<Rightarrow> bool" where
  "isAllowedLabel l \<longleftrightarrow> List.member getSupportedLables l"

definition convertSampleStream :: "metric_series \<Rightarrow> metric_series" where
  "convertSampleStream s = s\<lparr>msLabels := filter (\<lambda>(k, _). isAllowedLabel k) (msLabels s)\<rparr>"

text \<open>The text of the error leaves out how Prometheus prints the matrix.\<close>

definition present_metrics :: "(metric_result \<Rightarrow> metric_series list) \<Rightarrow> metric_result list \<Rightarrow> service_error + metric_series list" where
  "present_metrics part metrics = (case List.find (\<lambda>m. mrErr m \<noteq> None) metrics of
     Some m \<Rightarrow> Inl (GeneralError (Fmt (''error in metric: '' @ (case mrErr m of Some e \<Rightarrow> go_Error e | None \<Rightarrow> []))))
   | None \<Rightarrow> Inr (concat (map (\<lambda>m. map convertSampleStream (part m)) metrics)))"

definition PresentMetricsByRangeQuery :: "metric_result list \<Rightarrow> service_error + metric_series list" where
  "PresentMetricsByRangeQuery = present_metrics mrMatrix"

definition PresentMetricsByInstantQuery :: "metric_result list \<Rightarrow> service_error + metric_series list" where
  "PresentMetricsByInstantQuery = present_metrics mrVector"

type_synonym metrics_source = "string \<Rightarrow> MetricsReqParams \<Rightarrow> go_error + metric_result list"

definition GetMetricsByDinosaurID ::
  "metrics_source \<Rightarrow> request_context \<Rightarrow> string \<Rightarrow> MetricsReqParams \<Rightarrow> world \<Rightarrow> (service_error + string \<times> metric_result list) \<times> world" where
  "GetMetricsByDinosaurID obs ctx rid query w = (case central_Get ctx rid w of
     (Inl e, w') \<Rightarrow> (Inl e, w')
   | (Inr k, w') \<Rightarrow> (case obs (crNamespace k) query of
       Inl e \<Rightarrow> Inl (NewWithCause ErrorGeneral (Some e) (Fmt ''failed to retrieve metrics''))
     | Inr ms \<Rightarrow> Inr (crID k, ms), w'))"

definition empty_params :: "bool \<Rightarrow> MetricsReqParams" where
  "empty_params ranged = \<lparr>mqFilters = [], mqRangeQuery = ranged, mqStart = 0, mqEnd = 0, mqStep = 0\<rparr>"

definition metrics_action ::
  "metrics_source \<Rightarrow> bool \<Rightarrow> (metric_result list \<Rightarrow> service_error + metric_series list) \<Rightarrow> int \<Rightarrow> http_request \<Rightarrow> (unit, string \<times> metric_series list) http_action" where
  "metrics_action obs ranged present now r _ w =
     (case GetMetricsByDinosaurID obs (rqContext r) (rqID r) (extractMetricsQueryParams now (rqQuery r) (empty_params ranged)) w of
        (Inl e, w') \<Rightarrow> (Some (Inl e), w')
      | (Inr (found, ms), w') \<Rightarrow> (Some (case present ms of Inl e \<Rightarrow> Inl e | Inr items \<Rightarrow> Inr (found, items)), w'))"

definition GetMetricsByRangeQuery :: "metrics_source \<Rightarrow> int \<Rightarrow> http_request \<Rightarrow> world \<Rightarrow> (string \<times> metric_series list) response option \<times> world" where
  "GetMetricsByRangeQuery obs now r =
     HandleGet [check (ValidatQueryParam (rqQuery r) ''duration''), check (ValidatQueryParam (rqQuery r) ''interval'')]
       (metrics_action obs True PresentMetricsByRangeQuery now r) ()"

definition GetMetricsByInstantQuery :: "metrics_source \<Rightarrow> int \<Rightarrow> http_request \<Rightarrow> world \<Rightarrow> (string \<times> metric_series list) response option \<times> world" where
  "GetMetricsByInstantQuery obs now r = HandleGet [] (metrics_action obs False PresentMetricsByInstantQuery now r) ()"

text \<open>What is handed to the Prometheus collector. An error other than \<^verbatim>\<open>not found\<close> keeps its code but is answered with
  the status 500.\<close>

definition FederateMetrics :: "metrics_source \<Rightarrow> http_request \<Rightarrow> world \<Rightarrow> metric_result list response \<times> world" where
  "FederateMetrics obs r w =
     (let dinosaurID = rev (dropWhile is_space (rev (dropWhile is_space (rqID r)))) in
      if dinosaurID = [] then (ErrorReply (ServiceError ErrorBadRequest ''missing path parameter: central id'' StatusBadRequest None), w)
      else (case GetMetricsByDinosaurID obs (rqContext r) dinosaurID (empty_params False) w of
        (Inl e, w') \<Rightarrow>
          (ErrorReply (if Code e = ErrorNotFound then e else ServiceError (Code e) ''error getting metrics'' StatusInternalServerError None), w')
      | (Inr (_, ms), w') \<Rightarrow> (Reply StatusOK ms, w')))"

subsection \<open>The endpoints of the agent about its cluster\<close>

record private_operator =
  poVersion :: string
  poReady :: bool
  poCentralVersions :: "string list"

record DataPlaneClusterUpdateStatusRequest =
  psConditions :: "DataPlaneClusterStatusCondition list"
  psCentralOperator :: "private_operator list"

definition ConvertDataPlaneClusterStatus :: "DataPlaneClusterUpdateStatusRequest \<Rightarrow> DataPlaneClusterStatus" where
  "ConvertDataPlaneClusterStatus status = \<lparr>dcConditions = psConditions status,
     dcAvailableDinosaurOperatorVersions =
       map (\<lambda>p. \<lparr>ovVersion = poVersion p, ovReady = poReady p, ovCentralVersions = poCentralVersions p\<rparr>) (psCentralOperator status)\<rparr>"

definition clusterHandler_UpdateStatus ::
  "'v semver_lib \<Rightarrow> int \<Rightarrow> string \<Rightarrow> go_error + DataPlaneClusterUpdateStatusRequest \<Rightarrow> world \<Rightarrow> unit response option \<times> world" where
  "clusterHandler_UpdateStatus lib now clusterID body =
     Handle body (\<lambda>_. [check (ValidateLength clusterID ''id'' MinRequiredFieldLength None)]) (\<lambda>status _ w.
       case UpdateDataPlaneClusterStatus lib now clusterID (ConvertDataPlaneClusterStatus status) w of
         (Some e, w') \<Rightarrow> (Some (Inl e), w')
       | (None, w') \<Rightarrow> (Some (Inr ()), w')) StatusOK ()"

definition clusterHandler_GetConfig ::
  "DataPlaneClusterConfigObservability \<Rightarrow> string \<Rightarrow> world \<Rightarrow> DataPlaneClusterConfigObservability response option \<times> world" where
  "clusterHandler_GetConfig config clusterID =
     HandleGet [check (ValidateLength clusterID ''id'' MinRequiredFieldLength None)] (\<lambda>_ w.
       case GetDataPlaneClusterConfig config clusterID w of
         (Inl e, w') \<Rightarrow> (Some (Inl e), w')
       | (Inr c, w') \<Rightarrow> (Some (Inr c), w')) ()"

end
