(* ===== verification/Api_Middleware.thy ===== *)
theory Api_Middleware
  imports Api_Handlers Go_UTF8
begin

text \<open>
  The middlewares of the REST API (\<^verbatim>\<open>pkg/auth/*_middleware.go\<close>, \<^verbatim>\<open>pkg/acl\<close>, \<^verbatim>\<open>pkg/db/transaction_middleware.go\<close>) with the
  configurations they use. A handler takes a request and the state of the server to an answer and a state; a
  middleware takes a handler to a handler, as in the source.

  Outside of the repository are: the check of the issuer of a token (\<^verbatim>\<open>golang-jwt\<close>), the cache (\<^verbatim>\<open>go-cache\<close>), seen as
  a function of the history of what was set and of the time, the folding of runes beyond ASCII (Unicode tables), the terms
  service, the formatter of JSON and the beginning of a transaction. Metrics, compression and the request log
  change neither the answer nor the state and are left out.
\<close>

subsection \<open>Requests, answers and the state of the server\<close>

record api_request = http_request +
  arMethod :: string
  arPath :: string
  arRequestURI :: string
  arRemoteAddr :: string
  arBody :: string
  arTime :: int

datatype api_body =
    NoBody
  | ErrorBody service_error
  | ErrorListBody "service_error item_list"
  | CentralBody public_CentralRequest
  | CentralListBody "public_CentralRequest item_list"
  | AdminBody admin_Central
  | AdminListBody "admin_Central item_list"
  | VersionBody string
  | ManagedBody "ManagedCentral list"
  | ConfigBody DataPlaneClusterConfigObservability
  | CloudBody cloud_list
  | AccountsBody "cloud_account list"
  | MetricsBody "string \<times> metric_series list"
  | FederatedBody "metric_result list"
  | TextBody string

datatype api_result = Answer int api_body | Panicked

definition api_HandleError :: "service_error \<Rightarrow> api_result" where
  "api_HandleError e = Answer (HTTPCode e) (ErrorBody e)"

datatype audit =
    AuditRequest (auditUser: string) (auditMethod: string) (auditURI: string) (auditRemoteAddr: string)
  | AuditResponse int

record api_state =
  apWorld :: world
  apVersions :: version_db
  apDefaults :: spec_defaults
  apCloud :: "(string \<times> cloud_list) list"
  apTerms :: "(string \<times> bool) list"
  apAudit :: "audit list"

type_synonym api_handler = "api_request \<Rightarrow> api_state \<Rightarrow> api_result \<times> api_state"

record auth_env =
  auVerifyIssuer :: "claims \<Rightarrow> string \<Rightarrow> bool \<Rightarrow> bool"
  auFold :: "nat \<Rightarrow> nat \<Rightarrow> bool"
  auTermsCache :: "int \<Rightarrow> (string \<times> bool) list \<Rightarrow> string \<Rightarrow> bool option"
  auTermsRequired :: "int \<Rightarrow> string \<Rightarrow> go_error + bool"
  auFormatAudit :: "audit \<Rightarrow> go_error option"
  auBegin :: "int \<Rightarrow> go_error option"

subsection \<open>Configurations\<close>

record FleetShardAuthZConfig =
  fsEnabled :: bool
  fsAllowedOrgIDs :: "string list"

text \<open>\<open>file\<close> is the outcome of reading and decoding the configuration file.\<close>

definition FleetShard_ReadFiles :: "go_error + string list \<Rightarrow> FleetShardAuthZConfig \<Rightarrow> go_error + FleetShardAuthZConfig" where
  "FleetShard_ReadFiles file c = (if fsEnabled c then (case file of Inl e \<Rightarrow> Inl e | Inr ids \<Rightarrow> Inr (c\<lparr>fsAllowedOrgIDs := ids\<rparr>)) else Inr c)"

fun FindFirstString :: "string list \<Rightarrow> (string \<Rightarrow> bool) \<Rightarrow> int" where
  "FindFirstString [] predicate = -1"
| "FindFirstString (v # vs) predicate =
     (if predicate v then 0 else (let i = FindFirstString vs predicate in if i = -1 then -1 else i + 1))"

definition IsOrgIDAllowed :: "string list \<Rightarrow> string \<Rightarrow> bool" where
  "IsOrgIDAllowed allowedOrgIDs orgID \<longleftrightarrow> FindFirstString allowedOrgIDs (\<lambda>allowedOrgID. orgID = allowedOrgID) \<noteq> -1"

record RolesConfiguration =
  rlHTTPMethod :: string
  rlRoleNames :: "string list"

record AdminRoleAuthZConfig =
  raEnabled :: bool
  raRolesConfig :: "RolesConfiguration list"

definition MethodGet :: string where "MethodGet = ''GET''"
definition MethodPost :: string where "MethodPost = ''POST''"
definition MethodPut :: string where "MethodPut = ''PUT''"
definition MethodPatch :: string where "MethodPatch = ''PATCH''"
definition MethodDelete :: string where "MethodDelete = ''DELETE''"

definition allowedHTTPMethods :: "string list" where
  "allowedHTTPMethods = [MethodGet, MethodPatch, MethodDelete, MethodPost]"

definition validateRolesConfiguration :: "RolesConfiguration list \<Rightarrow> go_error option" where
  "validateRolesConfiguration configs = first_error (\<lambda>config.
     if \<not> List.member allowedHTTPMethods (rlHTTPMethod config) then
       Some (GoErr (''invalid http method used '' @ go_quote (rlHTTPMethod config) @ '', expected to be one of ['' @ join_commas allowedHTTPMethods @ '']''))
     else None) configs"

definition AdminRole_ReadFiles :: "go_error + RolesConfiguration list \<Rightarrow> AdminRoleAuthZConfig \<Rightarrow> go_error + AdminRoleAuthZConfig" where
  "AdminRole_ReadFiles file c =
     (if raEnabled c then (case file of
        Inl e \<Rightarrow> Inl e
      | Inr configs \<Rightarrow> (case validateRolesConfiguration configs of Some e \<Rightarrow> Inl e | None \<Rightarrow> Inr (c\<lparr>raRolesConfig := configs\<rparr>)))
      else Inr c)"

definition GetRoleMapping :: "RolesConfiguration list \<Rightarrow> string \<rightharpoonup> string list" where
  "GetRoleMapping configs = foldl (\<lambda>m config. m(rlHTTPMethod config \<mapsto> rlRoleNames config)) Map.empty configs"

record AccessControlListConfig =
  alEnableDenyList :: bool
  alDenyList :: "string list"

definition IsUserDenied :: "string list \<Rightarrow> string \<Rightarrow> bool" where
  "IsUserDenied deniedAccounts username \<longleftrightarrow> FindFirstString deniedAccounts (\<lambda>user. username = user) \<noteq> -1"

subsection \<open>Roles\<close>

text \<open>\<^verbatim>\<open>claims["realm_access"]["roles"]\<close>; an element that is not a string is a failed assertion: \<open>None\<close> is its panic.\<close>

fun role_names :: "claim list \<Rightarrow> string list option" where
  "role_names [] = Some []"
| "role_names (CStr r # xs) = map_option (\<lambda>rs. r # rs) (role_names xs)"
| "role_names (x # xs) = None"

definition getRealmRolesClaim :: "claims \<Rightarrow> string list option" where
  "getRealmRolesClaim c = (case c ''realm_access'' of
     Some (CMap roles) \<Rightarrow> (case map_of roles ''roles'' of Some (CArr arr) \<Rightarrow> role_names arr | _ \<Rightarrow> Some [])
   | _ \<Rightarrow> Some [])"

text \<open>\<^verbatim>\<open>strings.EqualFold\<close> rune by rune; \<open>orbit\<close> tells whether two runes, not both of them ASCII, fold to one another.\<close>

definition fold_rune :: "(nat \<Rightarrow> nat \<Rightarrow> bool) \<Rightarrow> nat \<Rightarrow> nat \<Rightarrow> bool" where
  "fold_rune orbit r s \<longleftrightarrow> r = s \<or>
     (let lo = min r s; hi = max r s in
      if hi < 128 then 65 \<le> lo \<and> lo \<le> 90 \<and> hi = lo + 32 else orbit lo hi)"

definition EqualFold :: "(nat \<Rightarrow> nat \<Rightarrow> bool) \<Rightarrow> string \<Rightarrow> string \<Rightarrow> bool" where
  "EqualFold orbit s t \<longleftrightarrow> list_all2 (fold_rune orbit) (runes s) (runes t)"

definition hasRole :: "(nat \<Rightarrow> nat \<Rightarrow> bool) \<Rightarrow> string list \<Rightarrow> string \<Rightarrow> bool" where
  "hasRole orbit roles roleName \<longleftrightarrow> FindFirstString roles (\<lambda>role. EqualFold orbit role roleName) \<noteq> -1"

subsection \<open>The middlewares\<close>

definition with_context :: "request_context \<Rightarrow> api_request \<Rightarrow> api_request" where
  "with_context ctx req = req\<lparr>rqContext := ctx\<rparr>"

definition RequireIssuer :: "auth_env \<Rightarrow> string list \<Rightarrow> int \<Rightarrow> api_handler \<Rightarrow> api_handler" where
  "RequireIssuer au issuers code next req st = (case GetClaimsFromContext (rqContext req) of
     Inl _ \<Rightarrow> (api_HandleError (New code NoReason), st)
   | Inr claims \<Rightarrow>
      if \<not> list_ex (\<lambda>issuer. auVerifyIssuer au claims issuer True) issuers then (api_HandleError (New code NoReason), st)
      else next req st)"

definition RequireOrgID :: "int \<Rightarrow> api_handler \<Rightarrow> api_handler" where
  "RequireOrgID code next req st = (case GetClaimsFromContext (rqContext req) of
     Inl _ \<Rightarrow> (api_HandleError (New code NoReason), st)
   | Inr claims \<Rightarrow>
      if or_empty (GetOrgID claims) = [] then (api_HandleError (New code NoReason), st) else next req st)"

definition checkAllowedOrgIDs :: "string list \<Rightarrow> api_handler \<Rightarrow> api_handler" where
  "checkAllowedOrgIDs allowedOrgIDs next req st = (case GetClaimsFromContext (rqContext req) of
     Inl _ \<Rightarrow> (api_HandleError (NotFound NoReason), st)
   | Inr claims \<Rightarrow>
      if IsOrgIDAllowed allowedOrgIDs (or_empty (GetOrgID claims)) then next req st else (api_HandleError (NotFound NoReason), st))"

definition RequireTermsAcceptance :: "auth_env \<Rightarrow> bool \<Rightarrow> int \<Rightarrow> api_handler \<Rightarrow> api_handler" where
  "RequireTermsAcceptance au enabled code next req st =
     (if \<not> enabled then next req st
      else (case GetClaimsFromContext (rqContext req) of
        Inl e \<Rightarrow> (api_HandleError (NewWithCause code (Some e) NoReason), st)
      | Inr claims \<Rightarrow>
         (let username = or_empty (GetUsername claims);
              decide = (\<lambda>termsRequired st. if termsRequired then (api_HandleError (New code (Fmt ''required terms have not been accepted'')), st) else next req st) in
          case auTermsCache au (arTime req) (apTerms st) username of
            Some termsRequired \<Rightarrow> decide termsRequired st
          | None \<Rightarrow> (case auTermsRequired au (arTime req) username of
              Inl e \<Rightarrow> (api_HandleError (NewWithCause code (Some e) NoReason), st)
            | Inr termsRequired \<Rightarrow> decide termsRequired (st\<lparr>apTerms := (username, termsRequired) # apTerms st\<rparr>)))))"

definition RequireRealmRole :: "auth_env \<Rightarrow> string \<Rightarrow> int \<Rightarrow> api_handler \<Rightarrow> api_handler" where
  "RequireRealmRole au roleName code next req st = (case GetClaimsFromContext (rqContext req) of
     Inl _ \<Rightarrow> (api_HandleError (New code NoReason), st)
   | Inr claims \<Rightarrow> (case getRealmRolesClaim claims of
       None \<Rightarrow> (Panicked, st)
     | Some roles \<Rightarrow> if hasRole (auFold au) roles roleName then next req st else (api_HandleError (New code NoReason), st)))"

definition RequireRolesForMethods :: "auth_env \<Rightarrow> (string \<rightharpoonup> string list) \<Rightarrow> int \<Rightarrow> api_handler \<Rightarrow> api_handler" where
  "RequireRolesForMethods au roleMapping code next req st = (case roleMapping (arMethod req) of
     None \<Rightarrow> (api_HandleError (New code NoReason), st)
   | Some allowedRoles \<Rightarrow> (case GetClaimsFromContext (rqContext req) of
       Inl _ \<Rightarrow> (api_HandleError (New code NoReason), st)
     | Inr claims \<Rightarrow> (case getRealmRolesClaim claims of
         None \<Rightarrow> (Panicked, st)
       | Some realmRoles \<Rightarrow>
          if list_ex (hasRole (auFold au) realmRoles) allowedRoles then next (with_context (SetIsAdminContext (rqContext req) True) req) st
          else (api_HandleError (New code NoReason), st))))"

text \<open>The audit log gets the request before the handler runs and the status after it; a panic of the handler
  skips the second entry. \<^verbatim>\<open>Answer\<close> carries the status that the handler wrote.\<close>

definition log_audit :: "auth_env \<Rightarrow> audit \<Rightarrow> api_state \<Rightarrow> api_state" where
  "log_audit au a st = (case auFormatAudit au a of Some _ \<Rightarrow> st | None \<Rightarrow> st\<lparr>apAudit := apAudit st @ [a]\<rparr>)"

definition AuditLog :: "auth_env \<Rightarrow> int \<Rightarrow> api_handler \<Rightarrow> api_handler" where
  "AuditLog au code next req st = (case GetClaimsFromContext (rqContext req) of
     Inl _ \<Rightarrow> (api_HandleError (New code NoReason), st)
   | Inr claims \<Rightarrow>
      (let info = AuditRequest (or_empty (GetUsername claims)) (arMethod req) (arRequestURI req) (arRemoteAddr req) in
       case auFormatAudit au info of
         Some _ \<Rightarrow> (api_HandleError (New code NoReason), st)
       | None \<Rightarrow> (case next req (log_audit au info st) of
           (Panicked, st') \<Rightarrow> (Panicked, st')
         | (Answer status body, st') \<Rightarrow> (Answer status body, log_audit au (AuditResponse status) st'))))"

definition acl_Authorize :: "AccessControlListConfig \<Rightarrow> api_handler \<Rightarrow> api_handler" where
  "acl_Authorize cfg next req st = (case GetClaimsFromContext (rqContext req) of
     Inl e \<Rightarrow> (api_HandleError (NewWithCause ErrorForbidden (Some e) NoReason), st)
   | Inr claims \<Rightarrow>
      (let username = or_empty (GetUsername claims) in
       if alEnableDenyList cfg \<and> IsUserDenied (alDenyList cfg) username then
         (api_HandleError (New ErrorForbidden (Fmt (''User '' @ go_quote username @ '' is not authorized to access the service.''))), st)
       else next (with_context (SetFilterByOrganisationContext (rqContext req) (or_empty (GetOrgID claims) \<noteq> [])) req) st))"

text \<open>The transaction holds no statement of a handler: the services use connections of their own. So only its
  beginning matters; a failing commit is logged after the answer was sent.\<close>

definition transactionMiddleware :: "auth_env \<Rightarrow> api_handler \<Rightarrow> api_handler" where
  "transactionMiddleware au next req st = (case auBegin au (arTime req) of
     Some _ \<Rightarrow> (api_HandleError (GeneralError NoReason), st)
   | None \<Rightarrow> next req st)"

end
