(* ===== verification/Api_Router.thy ===== *)
theory Api_Router
  imports Api_Middleware
begin

text \<open>
  The routes of the REST API (\<^verbatim>\<open>internal/dinosaur/pkg/routes/route_loader.go\<close>): the tree of routers with their middlewares, as
  \<^verbatim>\<open>buildAPIBaseRouter\<close> makes it, and what the server does with a request. The authentication of the token (\<^verbatim>\<open>ocm-sdk-go\<close>) and
  the matching of a request against the table of routes (\<^verbatim>\<open>gorilla/mux\<close>) are functions of the environment. \<^verbatim>\<open>mux\<close> runs the
  middlewares of the outer router first, each router's in the order they were added.
\<close>

subsection \<open>Endpoints and middlewares by name\<close>

datatype endpoint =
    OpenAPI | ErrorsList | ErrorsGet | ServiceStatus
  | CentralsGet | CentralsDelete | CentralsList | CentralsCreate
  | MetricsRange | MetricsInstant | MetricsFederate
  | CloudProvidersList | CloudRegionsList | CloudAccountsGet | APIMetadata | V1Metadata
  | ClusterConfigGet | ClusterStatusPut | CentralsStatusPut | ClusterCentralsGet
  | AdminDbDelete | AdminSetDefaultVersion | AdminGetDefaultVersion
  | AdminList | AdminGet | AdminDelete | AdminUpdate | AdminCreate

datatype middleware =
    MwTransaction
  | MwRequireIssuer "string list" int
  | MwRequireOrgID int
  | MwAuthorize AccessControlListConfig
  | MwTerms bool int
  | MwAllowedOrgIDs "string list"
  | MwRoles "RolesConfiguration list" int
  | MwAuditLog int

fun apply_middleware :: "auth_env \<Rightarrow> middleware \<Rightarrow> api_handler \<Rightarrow> api_handler" where
  "apply_middleware au MwTransaction = transactionMiddleware au"
| "apply_middleware au (MwRequireIssuer issuers code) = RequireIssuer au issuers code"
| "apply_middleware au (MwRequireOrgID code) = RequireOrgID code"
| "apply_middleware au (MwAuthorize cfg) = acl_Authorize cfg"
| "apply_middleware au (MwTerms enabled code) = RequireTermsAcceptance au enabled code"
| "apply_middleware au (MwAllowedOrgIDs ids) = checkAllowedOrgIDs ids"
| "apply_middleware au (MwRoles configs code) = RequireRolesForMethods au (GetRoleMapping configs) code"
| "apply_middleware au (MwAuditLog code) = AuditLog au code"

definition apply_all :: "auth_env \<Rightarrow> middleware list \<Rightarrow> api_handler \<Rightarrow> api_handler" where
  "apply_all au mws h = foldr (apply_middleware au) mws h"

subsection \<open>The tree of routers\<close>

datatype route =
    HandleFunc string endpoint string
  | Subrouter string "middleware list" "route list"

record served_route =
  srPath :: string
  srMethod :: string
  srEndpoint :: endpoint
  srMiddlewares :: "middleware list"

fun served :: "string \<Rightarrow> middleware list \<Rightarrow> route \<Rightarrow> served_route list" where
  "served prefix mws (HandleFunc path e m) = [\<lparr>srPath = prefix @ path, srMethod = m, srEndpoint = e, srMiddlewares = mws\<rparr>]"
| "served prefix mws (Subrouter path used rs) = concat (map (served (prefix @ path) (mws @ used)) rs)"

record api_config =
  acTokenIssuerURL :: string
  acAdditionalSSOIssuers :: "string list"
  acRedhatSSOIssuer :: string
  acInternalSSOIssuer :: string
  acEnableTermsAcceptance :: bool
  acAccessControl :: AccessControlListConfig
  acFleetShard :: FleetShardAuthZConfig
  acAdminRoles :: AdminRoleAuthZConfig

text \<open>\<^verbatim>\<open>copy\<close> overwrites what its target holds; a slice made with length zero holds nothing, whatever its capacity.\<close>

definition go_copy :: "'a list \<Rightarrow> 'a list \<Rightarrow> 'a list" where
  "go_copy dst src = take (length dst) src @ drop (length src) dst"

definition GetURIs :: "string list \<Rightarrow> string list" where
  "GetURIs uris = go_copy [] uris"

definition requireIssuer :: "api_config \<Rightarrow> middleware" where
  "requireIssuer cfg = MwRequireIssuer (GetURIs (acAdditionalSSOIssuers cfg) @ [acTokenIssuerURL cfg]) ErrorUnauthenticated"

definition requireOrgID :: middleware where
  "requireOrgID = MwRequireOrgID ErrorUnauthenticated"

definition UseFleetShardAuthorizationMiddleware :: "api_config \<Rightarrow> middleware list" where
  "UseFleetShardAuthorizationMiddleware cfg =
     [MwRequireOrgID ErrorNotFound, MwAllowedOrgIDs (fsAllowedOrgIDs (acFleetShard cfg)), MwRequireIssuer [acRedhatSSOIssuer cfg] ErrorNotFound]"

definition centrals_router :: "api_config \<Rightarrow> route" where
  "centrals_router cfg = Subrouter ''/centrals'' [requireIssuer cfg, requireOrgID, MwAuthorize (acAccessControl cfg)]
     [HandleFunc ''/{id}'' CentralsGet MethodGet,
      HandleFunc ''/{id}'' CentralsDelete MethodDelete,
      HandleFunc [] CentralsList MethodGet,
      Subrouter [] [MwTerms (acEnableTermsAcceptance cfg) ErrorTermsNotAccepted] [HandleFunc [] CentralsCreate MethodPost],
      Subrouter ''/{id}/metrics'' [] [HandleFunc ''/query_range'' MetricsRange MethodGet, HandleFunc ''/query'' MetricsInstant MethodGet]]"

definition federate_router :: "api_config \<Rightarrow> route" where
  "federate_router cfg = Subrouter ''/centrals/{id}/metrics/federate''
     [MwRequireIssuer (GetURIs (acAdditionalSSOIssuers cfg) @ [acTokenIssuerURL cfg, acRedhatSSOIssuer cfg]) ErrorUnauthenticated,
      requireOrgID, MwAuthorize (acAccessControl cfg)]
     [HandleFunc [] MetricsFederate MethodGet]"

definition agent_router :: "api_config \<Rightarrow> route" where
  "agent_router cfg = Subrouter ''/agent-clusters'' (UseFleetShardAuthorizationMiddleware cfg)
     [HandleFunc ''/{id}'' ClusterConfigGet MethodGet,
      HandleFunc ''/{id}/status'' ClusterStatusPut MethodPut,
      HandleFunc ''/{id}/centrals/status'' CentralsStatusPut MethodPut,
      HandleFunc ''/{id}/centrals'' ClusterCentralsGet MethodGet]"

definition admin_router :: "api_config \<Rightarrow> route" where
  "admin_router cfg = Subrouter ''/admin''
     [MwRequireIssuer [acInternalSSOIssuer cfg] ErrorNotFound, MwRoles (raRolesConfig (acAdminRoles cfg)) ErrorNotFound, MwAuditLog ErrorNotFound]
     [Subrouter ''/centrals'' []
        [Subrouter ''/db'' [] [HandleFunc ''/{id}'' AdminDbDelete MethodDelete],
         HandleFunc ''/default-version'' AdminSetDefaultVersion MethodPost,
         HandleFunc ''/default-version'' AdminGetDefaultVersion MethodGet,
         HandleFunc [] AdminList MethodGet,
         HandleFunc ''/{id}'' AdminGet MethodGet,
         HandleFunc ''/{id}'' AdminDelete MethodDelete,
         HandleFunc ''/{id}'' AdminUpdate MethodPatch,
         Subrouter [] [] [HandleFunc [] AdminCreate MethodPost]]]"

definition basePath :: string where "basePath = ''/api/rhacs''"

definition buildAPIBaseRouter :: "api_config \<Rightarrow> route" where
  "buildAPIBaseRouter cfg = Subrouter basePath [MwTransaction]
     [Subrouter ''/v1'' []
        [HandleFunc ''/openapi'' OpenAPI MethodGet,
         Subrouter ''/errors'' [] [HandleFunc [] ErrorsList MethodGet, HandleFunc ''/{id}'' ErrorsGet MethodGet],
         Subrouter ''/status'' [requireIssuer cfg] [HandleFunc [] ServiceStatus MethodGet],
         centrals_router cfg,
         federate_router cfg,
         Subrouter ''/cloud_providers'' [] [HandleFunc [] CloudProvidersList MethodGet, HandleFunc ''/{id}/regions'' CloudRegionsList MethodGet],
         Subrouter ''/cloud_accounts'' [] [HandleFunc [] CloudAccountsGet MethodGet],
         HandleFunc [] V1Metadata MethodGet,
         agent_router cfg,
         admin_router cfg],
      HandleFunc [] APIMetadata MethodGet]"

subsection \<open>The handlers behind the endpoints\<close>

text \<open>\<open>adDecode...\<close> decode the body of a request; the payload of a creation by an administrator starts from the
  default resources. \<open>adDocument\<close> renders the documents of the API, which depend on no state.\<close>

datatype mux_match = MuxMatch served_route string | MuxNotFound | MuxMethodNotAllowed

record api_deps =
  adApi :: api_env
  adAuth :: auth_env
  adCodec :: spec_codec
  adPresenter :: presenter_env
  adCloud :: cloud_env
  adAMS :: ams_client
  adMetrics :: "int \<Rightarrow> metrics_source"
  adObservability :: DataPlaneClusterConfigObservability
  adSemver :: "string semver_lib"
  adDecodeCentral :: "string \<Rightarrow> go_error + CentralRequestPayload"
  adDecodeAdminCentral :: "spec_defaults \<Rightarrow> string \<Rightarrow> go_error + CentralRequestPayload"
  adDecodeUpdate :: "string \<Rightarrow> go_error + CentralUpdateRequest"
  adDecodeVersion :: "string \<Rightarrow> go_error + string"
  adDecodeStatuses :: "string \<Rightarrow> go_error + (string \<times> agent_status) list"
  adDecodeClusterStatus :: "string \<Rightarrow> go_error + DataPlaneClusterUpdateStatusRequest"
  adDocument :: "endpoint \<Rightarrow> string"
  adAuthenticate :: "api_request \<Rightarrow> api_result + (go_error + claims option)"
  adMux :: "served_route list \<Rightarrow> api_request \<Rightarrow> mux_match"

definition render :: "('a \<Rightarrow> api_body) \<Rightarrow> 'a response \<Rightarrow> api_result" where
  "render f r = (case r of Reply s b \<Rightarrow> Answer s (f b) | ErrorReply e \<Rightarrow> api_HandleError e)"

definition on_world :: "('a \<Rightarrow> api_body) \<Rightarrow> 'a response option \<times> world \<Rightarrow> api_state \<Rightarrow> api_result \<times> api_state" where
  "on_world f rw st = (case rw of (r, w) \<Rightarrow> (case r of None \<Rightarrow> Panicked | Some x \<Rightarrow> render f x, st\<lparr>apWorld := w\<rparr>))"

definition on_cloud :: "cloud_list response \<times> (string \<times> cloud_list) list \<times> world \<Rightarrow> api_state \<Rightarrow> api_result \<times> api_state" where
  "on_cloud x st = (case x of (r, hist, w) \<Rightarrow> (render CloudBody r, st\<lparr>apCloud := hist, apWorld := w\<rparr>))"

definition from_sum :: "('a \<Rightarrow> api_body) \<Rightarrow> service_error + 'a \<Rightarrow> api_result" where
  "from_sum f x = (case x of Inl e \<Rightarrow> api_HandleError e | Inr v \<Rightarrow> Answer StatusOK (f v))"

abbreviation no_body :: "unit \<Rightarrow> api_body" where "no_body \<equiv> \<lambda>_. NoBody"

fun serve_endpoint :: "api_deps \<Rightarrow> endpoint \<Rightarrow> api_handler" where
  "serve_endpoint ad OpenAPI req st = (Answer StatusOK (TextBody (adDocument ad OpenAPI)), st)"
| "serve_endpoint ad APIMetadata req st = (Answer StatusOK (TextBody (adDocument ad APIMetadata)), st)"
| "serve_endpoint ad V1Metadata req st = (Answer StatusOK (TextBody (adDocument ad V1Metadata)), st)"
| "serve_endpoint ad ErrorsList req st = (Answer StatusOK (ErrorListBody (ErrorHandler_List (http_request.truncate req))), st)"
| "serve_endpoint ad ErrorsGet req st = (from_sum ErrorBody (ErrorHandler_Get (http_request.truncate req)), st)"
| "serve_endpoint ad ServiceStatus req st = (Answer StatusOK NoBody, st)"
| "serve_endpoint ad CentralsGet req st = on_world CentralBody (dinosaurHandler_Get (http_request.truncate req) (apWorld st)) st"
| "serve_endpoint ad CentralsDelete req st = on_world no_body (dinosaurHandler_Delete (adApi ad) (http_request.truncate req) (apWorld st)) st"
| "serve_endpoint ad CentralsList req st = on_world CentralListBody (dinosaurHandler_List (adApi ad) (http_request.truncate req) (apWorld st)) st"
| "serve_endpoint ad CentralsCreate req st =
     on_world CentralBody (dinosaurHandler_Create (adApi ad) (http_request.truncate req) (adDecodeCentral ad (arBody req)) (apWorld st)) st"
| "serve_endpoint ad MetricsRange req st =
     on_world MetricsBody (GetMetricsByRangeQuery (adMetrics ad (arTime req)) (arTime req) (http_request.truncate req) (apWorld st)) st"
| "serve_endpoint ad MetricsInstant req st =
     on_world MetricsBody (GetMetricsByInstantQuery (adMetrics ad (arTime req)) (arTime req) (http_request.truncate req) (apWorld st)) st"
| "serve_endpoint ad MetricsFederate req st =
     on_world FederatedBody (map_prod Some id (FederateMetrics (adMetrics ad (arTime req)) (http_request.truncate req) (apWorld st))) st"
| "serve_endpoint ad CloudProvidersList req st = on_cloud (ListCloudProviders (adCloud ad) (arTime req) (apCloud st) (apWorld st)) st"
| "serve_endpoint ad CloudRegionsList req st =
     on_cloud (ListCloudProviderRegions (adCloud ad) (arTime req) (http_request.truncate req) (apCloud st) (apWorld st)) st"
| "serve_endpoint ad CloudAccountsGet req st = (from_sum AccountsBody (cloudAccounts_Get (adAMS ad) (http_request.truncate req)), st)"
| "serve_endpoint ad ClusterConfigGet req st = on_world ConfigBody (clusterHandler_GetConfig (adObservability ad) (rqID req) (apWorld st)) st"
| "serve_endpoint ad ClusterStatusPut req st =
     on_world no_body (clusterHandler_UpdateStatus (adSemver ad) (evNow (aeEnv (adApi ad))) (rqID req) (adDecodeClusterStatus ad (arBody req)) (apWorld st)) st"
| "serve_endpoint ad CentralsStatusPut req st =
     on_world no_body (UpdateDinosaurStatuses (aeEnv (adApi ad)) (rqID req) (adDecodeStatuses ad (arBody req)) (apWorld st)) st"
| "serve_endpoint ad ClusterCentralsGet req st = on_world ManagedBody (dataPlaneHandler_GetAll (adPresenter ad) (rqID req) (apWorld st)) st"
| "serve_endpoint ad AdminDbDelete req st = on_world no_body (adminHandler_DbDelete (adApi ad) (http_request.truncate req) (apWorld st)) st"
| "serve_endpoint ad AdminSetDefaultVersion req st =
     (case SetCentralDefaultVersion (adDecodeVersion ad (arBody req)) (apVersions st) of (r, vs) \<Rightarrow> (render no_body r, st\<lparr>apVersions := vs\<rparr>))"
| "serve_endpoint ad AdminGetDefaultVersion req st = (render VersionBody (GetCentralDefaultVersion (apVersions st)), st)"
| "serve_endpoint ad AdminList req st = on_world AdminListBody (adminHandler_List (adApi ad) (adCodec ad) (http_request.truncate req) (apWorld st)) st"
| "serve_endpoint ad AdminGet req st = on_world AdminBody (adminHandler_Get (adCodec ad) (http_request.truncate req) (apWorld st)) st"
| "serve_endpoint ad AdminDelete req st = on_world no_body (adminHandler_Delete (adApi ad) (http_request.truncate req) (apWorld st)) st"
| "serve_endpoint ad AdminUpdate req st =
     (case adminHandler_Update (aeEnv (adApi ad)) (adCodec ad) (http_request.truncate req) (adDecodeUpdate ad (arBody req)) (apWorld st) (apDefaults st) of
        (r, w, d) \<Rightarrow> (render AdminBody r, st\<lparr>apWorld := w, apDefaults := d\<rparr>))"
| "serve_endpoint ad AdminCreate req st =
     on_world CentralBody (adminHandler_Create (adApi ad) (http_request.truncate req) (adDecodeAdminCentral ad (apDefaults st) (arBody req)) (apWorld st)) st"

subsection \<open>The server\<close>

text \<open>The context of a request that was authenticated: the token, and none of the flags.\<close>

definition fresh_context :: "go_error + claims option \<Rightarrow> request_context" where
  "fresh_context token = \<lparr>ctxToken = token, ctxIsAdmin = None, ctxFilterByOrganisation = None\<rparr>"

definition SendNotFound :: "api_request \<Rightarrow> api_result" where
  "SendNotFound req = Answer StatusNotFound (ErrorBody (NotFound (Fmt (''The requested resource '' @ [CHR 39] @ arPath req @ [CHR 39] @ '' doesn'' @ [CHR 39] @ ''t exist''))))"

definition SendMethodNotAllowed :: "api_request \<Rightarrow> api_result" where
  "SendMethodNotAllowed req = Answer StatusMethodNotAllowed
     (ErrorBody (NotImplemented (Fmt (''Method: '' @ arMethod req @ '' is not allowed or not yet implemented for '' @ arPath req))))"

definition ServeHTTP :: "api_deps \<Rightarrow> api_config \<Rightarrow> api_handler" where
  "ServeHTTP ad cfg req st = (case adAuthenticate ad req of
     Inl refusal \<Rightarrow> (refusal, st)
   | Inr token \<Rightarrow>
      (let req1 = with_context (fresh_context token) req in
       case adMux ad (served [] [] (buildAPIBaseRouter cfg)) req1 of
         MuxNotFound \<Rightarrow> (SendNotFound req1, st)
       | MuxMethodNotAllowed \<Rightarrow> (SendMethodNotAllowed req1, st)
       | MuxMatch r i \<Rightarrow> apply_all (adAuth ad) (srMiddlewares r) (serve_endpoint ad (srEndpoint r)) (req1\<lparr>rqID := i\<rparr>) st))"

end
