(* ===== verification/Admin_Correct.thy ===== *)
theory Admin_Correct
  imports Admin_Update Central_Correct
begin

text \<open>
  What an update by an administrator does to the table, and what it does to the defaults: the specs of a
  tenant leak into the defaults that later requests start from.
\<close>

subsection \<open>Maps\<close>

lemma put_entries_map: "map_of (put_entries es m) = map_of m ++ map_of (rev es)"
  by (induction es arbitrary: m) (auto simp: put_entries_def AList.update_conv' map_add_def fun_eq_iff split: option.split)

lemma updateResourcesList_supported:
  "updateResourcesList cd to from = Inr m \<Longrightarrow> \<not> ValidateResourceName k \<Longrightarrow> map_of m k = map_of to k"
proof (induction cd to "from" rule: updateResourcesList.induct)
  case (2 cd to name qty "from")
  then show ?case by (auto simp: AList.update_conv' split: if_splits sum.splits)
qed simp

lemma updateResourcesList_empty: "list_all (\<lambda>(_, qty). qty = []) from \<Longrightarrow> updateResourcesList cd to from = Inr to"
  by (induction "from") auto

lemma updateCoreV1Resources_empty [simp]: "updateCoreV1Resources cd to empty_resources = Inr to"
  by (simp add: updateCoreV1Resources_def empty_resources_def)

subsection \<open>The update of a row\<close>

lemma updateCentralRequest_Inr:
  assumes "updateCentralRequest cd u k d = (Inr k', d')"
  obtains spec d1 scanner c s cb sb where "GetCentralSpec cd k d = (Inr spec, d1)" "GetScannerSpec cd k d1 = (Inr scanner, d')"
    "updateCentralFromPrivateAPI cd spec u = Inr c" "updateScannerFromPrivateAPI cd scanner u = Inr s"
    "ValidateScannerAnalyzerScaling (ssScaling s) = None" "scEncodeCentral cd c = Inr cb" "scEncodeScanner cd s = Inr sb"
    "k' = k\<lparr>crCentral := Some cb, crScanner := Some sb, crDesiredCentralVersion := upCentralVersion u\<rparr>"
  using assms
  by (auto simp: updateCentralRequest_def updated_specs_def set_specs_def SetCentralSpec_def SetScannerSpec_def
      split: prod.splits sum.splits option.splits)

text \<open>Writing back a row that was read unchanged but for the specs and the desired version.\<close>

lemma assign_specs:
  "assign_central now (k\<lparr>crCentral := Some cb, crScanner := Some sb, crDesiredCentralVersion := v\<rparr>) k =
    k\<lparr>crCentral := nzj (Some cb) (crCentral k), crScanner := nzj (Some sb) (crScanner k),
      crDesiredCentralVersion := nz v (crDesiredCentralVersion k), crRoutes := nzr (crRoutes k) (crRoutes k), crUpdatedAt := now\<rparr>"
proof -
  have "nz x x = x" "nzi t t = t" "nzo y y = y" "nzb z z = z" for x :: string and y :: "int option" and t z
    by (simp_all add: nz_def nzi_def nzo_def nzb_def split: option.split)
  then show ?thesis by (simp add: assign_central_def)
qed

lemma VerifyAndUpdate_ok:
  assumes "VerifyAndUpdateDinosaurAdmin ev ctx k w = (None, w')"
  shows "GetIsAdminFromContext ctx \<and>
    centrals w' = map (\<lambda>x. if live x \<and> pk_match k x \<and> \<not> under_deletion x then assign_central (evNow ev) k x else x) (centrals w)"
  using assms FindClusterByID_centrals [of "crClusterID k" w]
  by (auto simp: VerifyAndUpdateDinosaurAdmin_def central_Update_def update_centrals_unfold not_under_deletion_iff
      split: if_splits prod.splits sum.splits option.splits)

lemma central_Get_Inr:
  assumes "central_Get ctx rid w = (Inr k, w')"
  shows "k \<in> set (centrals w) \<and> live k \<and> crID k = rid \<and> sees ctx k \<and> centrals w' = centrals w \<and> clusters w' = clusters w"
proof -
  obtain c u V where c: "rid \<noteq> []" "GetClaimsFromContext ctx = Inr c" "visible_to ctx c = Inr (u, V)"
    "first_central (\<lambda>r. crID r = rid \<and> V r) w = (Inr k, w')"
    using assms by (auto simp: central_Get_def split: if_splits sum.splits prod.splits)
  then show ?thesis
    using first_central_Inr [OF c(4)] first_central_world [of "\<lambda>r. crID r = rid \<and> V r" w] visible_to_sees [OF c(2,3)] by auto
qed

text \<open>C27: An update by an administrator. When \<^verbatim>\<open>PATCH /admin/centrals/{id}\<close> answers 200, the context was an
  administrator's and the answer is about the live tenant with that identifier; if the tenant is not under
  deletion, its row got the encoded specs, made of its own specs and the quantities of the request, a
  valid scaling, and the desired version if one was given, and no other field and no other row changed (routes
  that hold the text null become NULL). A tenant under deletion stays as it is, with the same answer.\<close>

theorem admin_update_effect:
  assumes wf: "wf_ids w" and run: "adminHandler_Update ev cd r (Inr u) w d = (Reply st a, w', d')"
  shows "\<exists>k\<in>set (centrals w). \<exists>spec c scanner d1 s cb sb.
    live k \<and> crID k = rqID r \<and> acId a = rqID r \<and> GetIsAdminFromContext (rqContext r) \<and> st = StatusOK \<and>
    GetCentralSpec cd k d = (Inr spec, d1) \<and> fst (GetScannerSpec cd k d1) = Inr scanner \<and>
    updateCentralFromPrivateAPI cd spec u = Inr c \<and> updateScannerFromPrivateAPI cd scanner u = Inr s \<and>
    ValidateScannerAnalyzerScaling (ssScaling s) = None \<and> scEncodeCentral cd c = Inr cb \<and> scEncodeScanner cd s = Inr sb \<and>
    centrals w' = map (\<lambda>x. if x = k \<and> \<not> under_deletion k then
        k\<lparr>crCentral := nzj (Some cb) (crCentral k), crScanner := nzj (Some sb) (crScanner k),
          crDesiredCentralVersion := nz (upCentralVersion u) (crDesiredCentralVersion k), crRoutes := nzr (crRoutes k) (crRoutes k), crUpdatedAt := evNow ev\<rparr>
        else x) (centrals w)"
proof -
  from run obtain k w1 k1 where g: "central_Get (rqContext r) (rqID r) w = (Inr k, w1)" and
    up: "updateCentralRequest cd u k d = (Inr k1, d')" and v: "VerifyAndUpdateDinosaurAdmin ev (rqContext r) k1 w1 = (None, w')" and
    a: "a = PresentDinosaurRequestAdminEndpoint cd k1" "st = StatusOK"
    by (auto simp: adminHandler_Update_def update_action_def split: option.splits prod.splits sum.splits)
  note k = central_Get_Inr [OF g]
  from up obtain spec d1 scanner c s cb sb where specs: "GetCentralSpec cd k d = (Inr spec, d1)" "GetScannerSpec cd k d1 = (Inr scanner, d')"
    "updateCentralFromPrivateAPI cd spec u = Inr c" "updateScannerFromPrivateAPI cd scanner u = Inr s"
    "ValidateScannerAnalyzerScaling (ssScaling s) = None" "scEncodeCentral cd c = Inr cb" "scEncodeScanner cd s = Inr sb"
    and k1: "k1 = k\<lparr>crCentral := Some cb, crScanner := Some sb, crDesiredCentralVersion := upCentralVersion u\<rparr>"
    by (rule updateCentralRequest_Inr)
  have only: "x = k \<longleftrightarrow> live x \<and> pk_match k1 x" if "x \<in> set (centrals w)" for x
    using that k wf_ids_unique [OF wf, of x k] wf_ids_nonempty [OF wf] by (auto simp: k1 pk_match_def)
  have "centrals w' = map (\<lambda>x. if x = k \<and> \<not> under_deletion k then assign_central (evNow ev) k1 k else x) (centrals w)"
    unfolding VerifyAndUpdate_ok [OF v, THEN conjunct2] k [THEN conjunct2, THEN conjunct2, THEN conjunct2, THEN conjunct2, THEN conjunct1]
    using only by (intro map_cong) auto
  then show ?thesis
    using k specs VerifyAndUpdate_ok [OF v] a
    by (intro bexI [of _ k]) (auto simp: k1 assign_specs PresentDinosaurRequestAdminEndpoint_def Let_def)
qed

definition no_update :: CentralUpdateRequest where
  "no_update = \<lparr>upCentralVersion = [], upCentralResources = empty_resources, upAnalyzerResources = empty_resources,
     upAnalyzerScaling = empty_scaling, upDbResources = empty_resources\<rparr>"

text \<open>A codec that knows two specs, and a request of an administrator about the tenant of the sample world.\<close>

definition sample_codec :: spec_codec where
  "sample_codec = \<lparr>scDecodeCentral = (\<lambda>s. (\<lparr>rjRequests = AbsentMap, rjLimits = if s = ''big'' then MapEntries [(ResourceCPU, ''8'')] else AbsentMap\<rparr>, None)),
     scDecodeScanner = (\<lambda>_. (\<lparr>sjAnalyzer = \<lparr>rjRequests = AbsentMap, rjLimits = AbsentMap\<rparr>,
       sjScaling = \<lparr>sjAutoScaling = None, sjReplicas = None, sjMinReplicas = None, sjMaxReplicas = None\<rparr>,
       sjDb = \<lparr>rjRequests = AbsentMap, rjLimits = AbsentMap\<rparr>\<rparr>, None)),
     scEncodeCentral = (\<lambda>r. Inr (if map_of (rrLimits r) ResourceCPU = Some ''8'' then ''big'' else ''std'')),
     scEncodeScanner = (\<lambda>_. Inr ''scanner''), scParseQuantity = Inr\<rparr>"

definition sample_defaults :: spec_defaults where
  "sample_defaults = \<lparr>DefaultCentralSpec = \<lparr>rrRequests = [], rrLimits = [(ResourceCPU, ''1'')]\<rparr>,
     DefaultScannerSpec = empty_scanner\<lparr>ssScaling := \<lparr>asAutoScaling = ''Enabled'', asReplicas = 1, asMinReplicas = 1, asMaxReplicas = 3\<rparr>\<rparr>\<rparr>"

definition admin_http :: http_request where
  "admin_http = \<lparr>rqQuery = [], rqContext = alice_context\<lparr>ctxIsAdmin := Some True\<rparr>, rqUserAgent = [], rqID = ''tenant1''\<rparr>"

definition sample_update :: CentralUpdateRequest where
  "sample_update = no_update\<lparr>upCentralResources := \<lparr>rrRequests = [], rrLimits = [(ResourceCPU, ''8'')]\<rparr>\<rparr>"

lemma sample_update_ok:
  "is_Reply (fst (adminHandler_Update sample_env sample_codec admin_http (Inr sample_update) tenant_world sample_defaults))"
  by code_simp

theorem admin_update_effect_witness:
  "\<exists>r. centrals (fst (snd (adminHandler_Update sample_env sample_codec admin_http (Inr sample_update) tenant_world sample_defaults))) =
     [r, sample_tenant\<lparr>crID := ''tenant2'', crOrganisationID := ''org3'', crOwner := ''eve''\<rparr>] \<and> crID r = ''tenant1'' \<and> crCentral r = Some ''big''"
proof -
  let ?o = "sample_tenant\<lparr>crID := ''tenant2'', crOrganisationID := ''org3'', crOwner := ''eve''\<rparr>"
  have run: "\<exists>st a w' d'. adminHandler_Update sample_env sample_codec admin_http (Inr sample_update) tenant_world sample_defaults = (Reply st a, w', d')"
    using sample_update_ok by (metis is_Reply_def prod.collapse)
  then obtain st a w' d' where run: "adminHandler_Update sample_env sample_codec admin_http (Inr sample_update) tenant_world sample_defaults = (Reply st a, w', d')"
    by blast
  have t: "centrals tenant_world = [sample_tenant, ?o]" "\<not> List.member dinosaurDeletionStatuses (crStatus sample_tenant)"
      "crID sample_tenant = ''tenant1''" "crID ?o \<noteq> ''tenant1''" "column (crCentral sample_tenant) = []" "rqID admin_http = ''tenant1''"
    by (simp add: tenant_world_def, code_simp+)
  have ne: "?o \<noteq> sample_tenant" using t(3,4) by metis
  from admin_update_effect [OF tenant_world_ok(1) run] obtain spec c d1 cb sb where
    s: "GetCentralSpec sample_codec sample_tenant sample_defaults = (Inr spec, d1)" "updateCentralFromPrivateAPI sample_codec spec sample_update = Inr c"
      "scEncodeCentral sample_codec c = Inr cb" and
    w': "centrals w' = [sample_tenant\<lparr>crCentral := nzj (Some cb) (crCentral sample_tenant), crScanner := nzj (Some sb) (crScanner sample_tenant),
          crDesiredCentralVersion := nz (upCentralVersion sample_update) (crDesiredCentralVersion sample_tenant),
          crRoutes := nzr (crRoutes sample_tenant) (crRoutes sample_tenant), crUpdatedAt := evNow sample_env\<rparr>, ?o]"
    using t ne by auto
  have "spec = DefaultCentralSpec sample_defaults" using s(1) t(5) by (simp add: GetCentralSpec_def)
  moreover have "updateCentralFromPrivateAPI sample_codec (DefaultCentralSpec sample_defaults) sample_update = Inr \<lparr>rrRequests = [], rrLimits = [(ResourceCPU, ''8'')]\<rparr>"
    by code_simp
  ultimately have "c = \<lparr>rrRequests = [], rrLimits = [(ResourceCPU, ''8'')]\<rparr>" using s(2) by simp
  then have "cb = ''big''" using s(3) by (auto simp: sample_codec_def)
  then show ?thesis using run w' t(3) by (simp add: nzj_def)
qed

subsection \<open>The shared defaults\<close>

lemma GetCentralSpec_shared:
  "column (crCentral a) \<noteq> [] \<Longrightarrow> scDecodeCentral cd (column (crCentral a)) = (j, e) \<Longrightarrow>
   DefaultCentralSpec (snd (GetCentralSpec cd a d)) = shared_resources j (DefaultCentralSpec d)"
  by (simp add: GetCentralSpec_def)

lemma updateCentralRequest_defaults:
  "DefaultCentralSpec (snd (updateCentralRequest cd u a d)) = DefaultCentralSpec (snd (GetCentralSpec cd a d))"
proof -
  have "DefaultCentralSpec (snd (GetScannerSpec cd a d1)) = DefaultCentralSpec d1" for d1
    by (simp add: GetScannerSpec_def case_prod_beta)
  then show ?thesis by (auto simp: updateCentralRequest_def case_prod_beta split: sum.split)
qed

text \<open>C39: The specs of one tenant become the defaults of the others. After an update of a tenant \<open>a\<close> whose stored
  spec has limits, an update of a tenant \<open>b\<close> without a stored spec, by a request that asks for nothing, stores
  for \<open>b\<close> the default limits overridden by those of \<open>a\<close>.\<close>

theorem update_leaks_between_tenants:
  assumes "column (crCentral a) \<noteq> []" "scDecodeCentral cd (column (crCentral a)) = (j, e)" "rjLimits j = MapEntries es"
    "column (crCentral b) = []" "fst (updateCentralRequest cd no_update b (snd (updateCentralRequest cd u a d))) = Inr b'"
  shows "\<exists>spec bytes. crCentral b' = Some bytes \<and> scEncodeCentral cd spec = Inr bytes \<and>
    map_of (rrLimits spec) = map_of (rrLimits (DefaultCentralSpec d)) ++ map_of (rev es)"
proof -
  let ?d = "snd (updateCentralRequest cd u a d)"
  have dd: "DefaultCentralSpec ?d = shared_resources j (DefaultCentralSpec d)"
    using updateCentralRequest_defaults GetCentralSpec_shared [OF assms(1,2)] by metis
  obtain d2 where "updateCentralRequest cd no_update b ?d = (Inr b', d2)" using assms(5) by (metis prod.collapse)
  then obtain spec d1 c cb where s: "GetCentralSpec cd b ?d = (Inr spec, d1)" "updateCentralFromPrivateAPI cd spec no_update = Inr c"
    "scEncodeCentral cd c = Inr cb" "crCentral b' = Some cb"
    by (auto elim!: updateCentralRequest_Inr)
  have "c = spec" using s(2) by (simp add: updateCentralFromPrivateAPI_def no_update_def)
  moreover have "spec = DefaultCentralSpec ?d" using s(1) assms(4) by (auto simp: GetCentralSpec_def)
  ultimately have "map_of (rrLimits c) = map_of (rrLimits (DefaultCentralSpec d)) ++ map_of (rev es)"
    using dd assms(3) by (simp add: shared_resources_def shared_map_def put_entries_map)
  then show ?thesis using s by blast
qed

theorem update_leaks_between_tenants_witness:
  "\<exists>spec bytes. scEncodeCentral sample_codec spec = Inr bytes \<and> map_of (rrLimits spec) ResourceCPU = Some ''8'' \<and>
     map_option crCentral (case fst (updateCentralRequest sample_codec no_update (sample_tenant\<lparr>crID := ''tenant2''\<rparr>)
       (snd (updateCentralRequest sample_codec no_update (sample_tenant\<lparr>crCentral := Some ''big''\<rparr>) sample_defaults))) of Inl _ \<Rightarrow> None | Inr b \<Rightarrow> Some b) = Some (Some bytes)"
proof -
  let ?a = "sample_tenant\<lparr>crCentral := Some ''big''\<rparr>" and ?b = "sample_tenant\<lparr>crID := ''tenant2''\<rparr>"
  let ?r = "fst (updateCentralRequest sample_codec no_update ?b (snd (updateCentralRequest sample_codec no_update ?a sample_defaults)))"
  have "isl ?r = False" by code_simp
  then obtain b' where b': "?r = Inr b'" by (cases ?r) simp_all
  have d: "scDecodeCentral sample_codec (column (crCentral ?a)) = (\<lparr>rjRequests = AbsentMap, rjLimits = MapEntries [(ResourceCPU, ''8'')]\<rparr>, None)"
    "column (crCentral ?a) \<noteq> []" "column (crCentral ?b) = []"
    by code_simp+
  obtain spec bytes where s: "crCentral b' = Some bytes" "scEncodeCentral sample_codec spec = Inr bytes"
    "map_of (rrLimits spec) = map_of (rrLimits (DefaultCentralSpec sample_defaults)) ++ map_of (rev [(ResourceCPU, ''8'')])"
    using update_leaks_between_tenants [OF d(2) d(1) _ d(3) b'] by auto
  show ?thesis by (rule exI [of _ spec], rule exI [of _ bytes]) (use s b' in simp)
qed

end
