(* ===== verification/Api_Correct.thy ===== *)
theory Api_Correct
  imports Api_Router Admin_Correct Handlers_Correct Data_Plane_Correct
begin

text \<open>
  Who gets through to a handler of the REST API, and what a request can do to the tenants. The contract
  of a middleware is the locale \<open>gate\<close>: a request that it does not admit is refused without a trace in the tables, one
  that it admits is answered by the handler behind it. Gates compose, so the chain of a route is a gate.
\<close>

subsection \<open>The contract of a middleware\<close>

definition untouched :: "api_state \<Rightarrow> api_state \<Rightarrow> bool" where
  "untouched st st' \<longleftrightarrow> apWorld st' = apWorld st \<and> apVersions st' = apVersions st \<and> apDefaults st' = apDefaults st \<and> apCloud st' = apCloud st"

definition refused :: "api_result \<Rightarrow> bool" where
  "refused a \<longleftrightarrow> a = Panicked \<or> (\<exists>s e. a = Answer s (ErrorBody e))"

lemma untouched_refl [simp]: "untouched st st"
  by (simp add: untouched_def)

lemma untouched_trans: "untouched st st' \<Longrightarrow> untouched st' st'' \<Longrightarrow> untouched st st''"
  by (simp add: untouched_def)

lemma refused_error [simp]: "refused (api_HandleError e)" "refused Panicked"
  by (simp_all add: refused_def api_HandleError_def)

locale gate =
  fixes m :: "api_handler \<Rightarrow> api_handler" and admits :: "api_request \<Rightarrow> api_state \<Rightarrow> (api_request \<times> api_state) option"
  assumes closed: "admits req st = None \<Longrightarrow> refused (fst (m h req st)) \<and> untouched st (snd (m h req st))"
    and opened: "admits req st = Some (req', st') \<Longrightarrow> untouched st st' \<and> fst (m h req st) = fst (h req' st') \<and>
      untouched (snd (h req' st')) (snd (m h req st)) \<and> (\<exists>more. apAudit (snd (m h req st)) = apAudit (snd (h req' st')) @ more)"
begin

lemma effect:
  assumes "\<not> untouched st (snd (m h req st))"
  obtains req' st' more where "admits req st = Some (req', st')" "untouched st st'" "fst (m h req st) = fst (h req' st')"
    "untouched (snd (h req' st')) (snd (m h req st))" "apAudit (snd (m h req st)) = apAudit (snd (h req' st')) @ more"
  using assms closed [of req st h] opened [of req st _ _ h] by (cases "admits req st") auto

lemma answered:
  assumes "\<not> refused (fst (m h req st))"
  obtains req' st' where "admits req st = Some (req', st')" "untouched st st'" "fst (m h req st) = fst (h req' st')"
  using assms closed [of req st h] opened [of req st _ _ h] by (cases "admits req st") auto

end

text \<open>Gates in a row.\<close>

locale gates = outer: gate m1 a1 + inner: gate m2 a2 for m1 a1 m2 a2

sublocale gates \<subseteq> gate "\<lambda>h. m1 (m2 h)" "\<lambda>req st. Option.bind (a1 req st) (\<lambda>(req', st'). a2 req' st')"
proof unfold_locales
  fix req st h
  assume none: "Option.bind (a1 req st) (\<lambda>(req', st'). a2 req' st') = None"
  show "refused (fst (m1 (m2 h) req st)) \<and> untouched st (snd (m1 (m2 h) req st))"
  proof (cases "a1 req st")
    case None
    then show ?thesis by (rule outer.closed)
  next
    case (Some x)
    then obtain req' st' where x: "a1 req st = Some (req', st')" by (cases x) simp
    then have "a2 req' st' = None" using none by simp
    then show ?thesis using outer.opened [OF x, of "m2 h"] inner.closed [of req' st' h] untouched_trans by metis
  qed
next
  fix req st req'' st'' h
  assume some: "Option.bind (a1 req st) (\<lambda>(req', st'). a2 req' st') = Some (req'', st'')"
  then obtain req' st' where x: "a1 req st = Some (req', st')" "a2 req' st' = Some (req'', st'')"
    by (cases "a1 req st") auto
  show "untouched st st'' \<and> fst (m1 (m2 h) req st) = fst (h req'' st'') \<and> untouched (snd (h req'' st'')) (snd (m1 (m2 h) req st)) \<and>
      (\<exists>more. apAudit (snd (m1 (m2 h) req st)) = apAudit (snd (h req'' st'')) @ more)"
    using outer.opened [OF x(1), of "m2 h"] inner.opened [OF x(2), of h] untouched_trans by (metis append.assoc)
qed

context gates
begin

lemma in_a_row: "gate (\<lambda>h. m1 (m2 h)) (\<lambda>req st. Option.bind (a1 req st) (\<lambda>(req', st'). a2 req' st'))"
  by (rule gate_axioms)

end

subsection \<open>What each middleware admits\<close>

text \<open>The claims a request goes on with, when they meet a condition.\<close>

definition claims_if :: "(claims \<Rightarrow> bool) \<Rightarrow> api_request \<Rightarrow> bool" where
  "claims_if P req \<longleftrightarrow> (case GetClaimsFromContext (rqContext req) of Inl _ \<Rightarrow> False | Inr c \<Rightarrow> P c)"

definition holds_role :: "auth_env \<Rightarrow> RolesConfiguration list \<Rightarrow> string \<Rightarrow> claims \<Rightarrow> bool" where
  "holds_role au configs method c \<longleftrightarrow> (\<exists>allowed roles. GetRoleMapping configs method = Some allowed \<and> getRealmRolesClaim c = Some roles \<and>
     list_ex (hasRole (auFold au) roles) allowed)"

definition user_of :: "api_request \<Rightarrow> string" where
  "user_of req = (case GetClaimsFromContext (rqContext req) of Inl _ \<Rightarrow> [] | Inr c \<Rightarrow> or_empty (GetUsername c))"

definition audit_of :: "api_request \<Rightarrow> audit" where
  "audit_of req = AuditRequest (user_of req) (arMethod req) (arRequestURI req) (arRemoteAddr req)"

fun admit :: "auth_env \<Rightarrow> middleware \<Rightarrow> api_request \<Rightarrow> api_state \<Rightarrow> (api_request \<times> api_state) option" where
  "admit au MwTransaction req st = (if auBegin au (arTime req) = None then Some (req, st) else None)"
| "admit au (MwRequireIssuer issuers code) req st =
     (if claims_if (\<lambda>c. list_ex (\<lambda>i. auVerifyIssuer au c i True) issuers) req then Some (req, st) else None)"
| "admit au (MwRequireOrgID code) req st = (if claims_if (\<lambda>c. or_empty (GetOrgID c) \<noteq> []) req then Some (req, st) else None)"
| "admit au (MwAuthorize cfg) req st =
     (if claims_if (\<lambda>c. \<not> (alEnableDenyList cfg \<and> IsUserDenied (alDenyList cfg) (or_empty (GetUsername c)))) req
      then Some (with_context (SetFilterByOrganisationContext (rqContext req) (claims_if (\<lambda>c. or_empty (GetOrgID c) \<noteq> []) req)) req, st) else None)"
| "admit au (MwTerms enabled code) req st =
     (if \<not> enabled then Some (req, st)
      else if \<not> claims_if (\<lambda>_. True) req then None
      else (case auTermsCache au (arTime req) (apTerms st) (user_of req) of
        Some required \<Rightarrow> if required then None else Some (req, st)
      | None \<Rightarrow> (case auTermsRequired au (arTime req) (user_of req) of
          Inr False \<Rightarrow> Some (req, st\<lparr>apTerms := (user_of req, False) # apTerms st\<rparr>)
        | _ \<Rightarrow> None)))"
| "admit au (MwAllowedOrgIDs ids) req st = (if claims_if (\<lambda>c. IsOrgIDAllowed ids (or_empty (GetOrgID c))) req then Some (req, st) else None)"
| "admit au (MwRoles configs code) req st =
     (if claims_if (holds_role au configs (arMethod req)) req then Some (with_context (SetIsAdminContext (rqContext req) True) req, st) else None)"
| "admit au (MwAuditLog code) req st =
     (if claims_if (\<lambda>_. True) req \<and> auFormatAudit au (audit_of req) = None then Some (req, st\<lparr>apAudit := apAudit st @ [audit_of req]\<rparr>) else None)"

fun admit_all :: "auth_env \<Rightarrow> middleware list \<Rightarrow> api_request \<Rightarrow> api_state \<Rightarrow> (api_request \<times> api_state) option" where
  "admit_all au [] req st = Some (req, st)"
| "admit_all au (mw # mws) req st = Option.bind (admit au mw req st) (\<lambda>(req', st'). admit_all au mws req' st')"

interpretation mw: gate "apply_middleware au mw" "admit au mw" for au mw
proof unfold_locales
  fix req st h
  assume "admit au mw req st = None"
  then show "refused (fst (apply_middleware au mw h req st)) \<and> untouched st (snd (apply_middleware au mw h req st))"
    by (cases mw)
       (auto simp: transactionMiddleware_def RequireIssuer_def RequireOrgID_def acl_Authorize_def RequireTermsAcceptance_def checkAllowedOrgIDs_def
         RequireRolesForMethods_def AuditLog_def claims_if_def holds_role_def user_of_def audit_of_def untouched_def Let_def
         split: if_splits option.splits sum.splits bool.splits)
next
  fix req st req' st' h
  assume "admit au mw req st = Some (req', st')"
  then show "untouched st st' \<and> fst (apply_middleware au mw h req st) = fst (h req' st') \<and> untouched (snd (h req' st')) (snd (apply_middleware au mw h req st)) \<and>
      (\<exists>more. apAudit (snd (apply_middleware au mw h req st)) = apAudit (snd (h req' st')) @ more)"
    by (cases mw)
       (auto simp: transactionMiddleware_def RequireIssuer_def RequireOrgID_def acl_Authorize_def RequireTermsAcceptance_def checkAllowedOrgIDs_def
         RequireRolesForMethods_def AuditLog_def log_audit_def claims_if_def holds_role_def user_of_def audit_of_def untouched_def Let_def
         split: if_splits option.splits sum.splits bool.splits prod.splits api_result.splits)
qed

lemma apply_all_gate: "gate (apply_all au mws) (admit_all au mws)"
proof (induction mws)
  case Nil
  show ?case by unfold_locales (auto simp: apply_all_def)
next
  case (Cons mw mws)
  show ?case using gates.in_a_row [OF gates.intro [OF mw.gate_axioms Cons, of au mw]] by (simp add: apply_all_def)
qed

interpretation chain: gate "apply_all au mws" "admit_all au mws" for au mws
  by (rule apply_all_gate)

interpretation first: gates "apply_middleware au mw" "admit au mw" "apply_all au mws" "admit_all au mws" for au mw mws
  by (rule gates.intro [OF mw.gate_axioms chain.gate_axioms])

subsection \<open>The table of routes\<close>

text \<open>The chain in front of every endpoint.\<close>

fun guards :: "api_config \<Rightarrow> endpoint \<Rightarrow> middleware list" where
  "guards cfg e =
     (if e \<in> {CentralsGet, CentralsDelete, CentralsList, MetricsRange, MetricsInstant} then
        [MwTransaction, requireIssuer cfg, requireOrgID, MwAuthorize (acAccessControl cfg)]
      else if e = CentralsCreate then
        [MwTransaction, requireIssuer cfg, requireOrgID, MwAuthorize (acAccessControl cfg), MwTerms (acEnableTermsAcceptance cfg) ErrorTermsNotAccepted]
      else if e = MetricsFederate then
        [MwTransaction, MwRequireIssuer (GetURIs (acAdditionalSSOIssuers cfg) @ [acTokenIssuerURL cfg, acRedhatSSOIssuer cfg]) ErrorUnauthenticated,
         requireOrgID, MwAuthorize (acAccessControl cfg)]
      else if e \<in> {ClusterConfigGet, ClusterStatusPut, CentralsStatusPut, ClusterCentralsGet} then
        [MwTransaction] @ UseFleetShardAuthorizationMiddleware cfg
      else if e \<in> {AdminDbDelete, AdminSetDefaultVersion, AdminGetDefaultVersion, AdminList, AdminGet, AdminDelete, AdminUpdate, AdminCreate} then
        [MwTransaction, MwRequireIssuer [acInternalSSOIssuer cfg] ErrorNotFound, MwRoles (raRolesConfig (acAdminRoles cfg)) ErrorNotFound, MwAuditLog ErrorNotFound]
      else if e = ServiceStatus then [MwTransaction, requireIssuer cfg]
      else [MwTransaction])"

lemma route_guards: "r \<in> set (served [] [] (buildAPIBaseRouter cfg)) \<Longrightarrow> srMiddlewares r = guards cfg (srEndpoint r)"
  by (simp add: buildAPIBaseRouter_def centrals_router_def federate_router_def agent_router_def admin_router_def) (elim disjE; simp)

lemma GetURIs_empty [simp]: "GetURIs uris = []"
  by (simp add: GetURIs_def go_copy_def)

lemma FindFirstString_iff: "FindFirstString vs P \<noteq> -1 \<longleftrightarrow> list_ex P vs"
proof (induction vs)
  case (Cons v vs)
  have "FindFirstString vs P \<ge> -1" by (induction vs) (auto simp: Let_def)
  then show ?case using Cons by (auto simp: Let_def)
qed simp

lemma allowed_iff: "IsOrgIDAllowed ids i \<longleftrightarrow> i \<in> set ids" "IsUserDenied us u \<longleftrightarrow> u \<in> set us"
  by (auto simp: IsOrgIDAllowed_def IsUserDenied_def FindFirstString_iff list_ex_iff)

text \<open>What a request looks like when it reaches the handler, by kind of endpoint.\<close>

lemma reaches_public:
  assumes "e \<in> {CentralsGet, CentralsDelete, CentralsList, CentralsCreate, MetricsRange, MetricsInstant}" "admit_all au (guards cfg e) req st = Some (req', st')"
  shows "\<exists>c. GetClaimsFromContext (rqContext req) = Inr c \<and> auVerifyIssuer au c (acTokenIssuerURL cfg) True \<and> or_empty (GetOrgID c) \<noteq> [] \<and>
    \<not> (alEnableDenyList (acAccessControl cfg) \<and> or_empty (GetUsername c) \<in> set (alDenyList (acAccessControl cfg))) \<and>
    req' = with_context (SetFilterByOrganisationContext (rqContext req) True) req"
  using assms
  by (auto simp: requireIssuer_def requireOrgID_def claims_if_def allowed_iff with_context_def split: if_splits sum.splits option.splits bool.splits bind_splits)

lemma reaches_agent:
  assumes "e \<in> {ClusterConfigGet, ClusterStatusPut, CentralsStatusPut, ClusterCentralsGet}" "admit_all au (guards cfg e) req st = Some (req', st')"
  shows "\<exists>c. GetClaimsFromContext (rqContext req) = Inr c \<and> auVerifyIssuer au c (acRedhatSSOIssuer cfg) True \<and>
    or_empty (GetOrgID c) \<noteq> [] \<and> or_empty (GetOrgID c) \<in> set (fsAllowedOrgIDs (acFleetShard cfg)) \<and> req' = req"
  using assms
  by (auto simp: UseFleetShardAuthorizationMiddleware_def claims_if_def allowed_iff split: if_splits sum.splits bind_splits)

lemma reaches_admin:
  assumes "e \<in> {AdminDbDelete, AdminSetDefaultVersion, AdminGetDefaultVersion, AdminList, AdminGet, AdminDelete, AdminUpdate, AdminCreate}"
    "admit_all au (guards cfg e) req st = Some (req', st')"
  shows "\<exists>c. GetClaimsFromContext (rqContext req) = Inr c \<and> auVerifyIssuer au c (acInternalSSOIssuer cfg) True \<and>
    holds_role au (raRolesConfig (acAdminRoles cfg)) (arMethod req) c \<and> req' = with_context (SetIsAdminContext (rqContext req) True) req \<and>
    AuditRequest (or_empty (GetUsername c)) (arMethod req) (arRequestURI req) (arRemoteAddr req) \<in> set (apAudit st')"
  using assms
  by (auto simp: claims_if_def audit_of_def user_of_def with_context_def SetIsAdminContext_def GetClaimsFromContext_def split: if_splits sum.splits bind_splits)

subsection \<open>What the handlers do to the tenants\<close>

lemma HandleDelete_quiet:
  assumes "list_all quiet vs" "\<And>k w. centrals (snd (act k w)) = centrals w"
  shows "centrals (snd (HandleDelete vs act s k w)) = centrals w"
proof -
  obtain x w1 where r: "run_validators vs k w = (x, w1)" by fastforce
  have "centrals w1 = centrals w" using run_quiet [OF assms(1)] r unfolding quiet_def by (metis snd_conv)
  then show ?thesis using r assms(2) by (auto simp: HandleDelete_def case_prod_beta split: option.split sum.split)
qed

lemma Handle_quiet:
  "(\<And>p. list_all quiet (vs p)) \<Longrightarrow> (\<And>p k w. centrals (snd (act p k w)) = centrals w) \<Longrightarrow> centrals (snd (Handle body vs act s k w)) = centrals w"
  by (simp add: Handle_def HandleDelete_quiet split: sum.split)

lemma central_Get_centrals: "centrals (snd (central_Get ctx rid w)) = centrals w"
  by (simp add: central_Get_def first_central_world case_prod_beta split: sum.split)

lemma list_action_centrals: "centrals (snd (list_action ae r kind present k w)) = centrals w"
  using central_List_world [of w "aeRcap ae" "aeSql ae" "aeOrder ae" "rqContext r"]
  by (simp add: list_action_def Let_def case_prod_beta same_tables_def split: option.split sum.split)

lemma metrics_centrals: "centrals (snd (GetMetricsByDinosaurID obs ctx rid q w)) = centrals w"
  using central_Get_centrals [of ctx rid w] by (auto simp: GetMetricsByDinosaurID_def case_prod_beta split: sum.split)

lemma metrics_action_centrals: "centrals (snd (metrics_action obs ranged present now r k w)) = centrals w"
  using metrics_centrals [of obs "rqContext r" "rqID r"] by (simp add: metrics_action_def case_prod_beta split: sum.split)

lemma stmt_read_centrals: "centrals (snd (stmt (\<lambda>w. (g w, w)) w)) = centrals w"
  by (simp add: stmt_unfold split: option.split)

lemma cloud_centrals:
  "centrals (snd (snd (ListCloudProviders ce now hist w))) = centrals w"
  "centrals (snd (snd (ListCloudProviderRegions ce now r hist w))) = centrals w"
  by (auto simp: ListCloudProviders_def ListCloudProviderRegions_def service_ListCloudProviders_def service_ListCloudProviderRegions_def
      GetCloudProvidersWithRegions_def getAvailableClusterProviderTypes_def stmt_read_centrals case_prod_beta Let_def split: option.split sum.split)

text \<open>The endpoints that change rows of tenants.\<close>

definition changes_tenants :: "endpoint \<Rightarrow> bool" where
  "changes_tenants e \<longleftrightarrow> e \<in> {CentralsDelete, CentralsCreate, CentralsStatusPut, AdminDbDelete, AdminDelete, AdminUpdate, AdminCreate}"

lemma on_world_state: "snd (on_world f rw st) = st\<lparr>apWorld := snd rw\<rparr>" "fst (on_world f rw st) = (case fst rw of None \<Rightarrow> Panicked | Some x \<Rightarrow> render f x)"
  by (simp_all add: on_world_def case_prod_beta)

lemma cluster_UpdateStatus_centrals: "centrals (snd (cluster_UpdateStatus now c s w)) = centrals w"
  by (simp add: cluster_UpdateStatus_def case_prod_beta update_clusters_centrals split: sum.split)

lemma store_versions_centrals: "centrals (snd (store_versions lib now c s w)) = centrals w"
  using cluster_Update_centrals [of now _ w] by (simp add: store_versions_def case_prod_beta split: sum.split option.split)

lemma cluster_status_centrals: "centrals (snd (UpdateDataPlaneClusterStatus lib now cid s w)) = centrals w"
proof -
  have "centrals (snd (setClusterStatus lib now c s w)) = centrals w" for c w
    using store_versions_centrals [of lib now c s w]
    by (simp add: setClusterStatus_def case_prod_beta cluster_UpdateStatus_centrals split: sum.split option.split)
  then show ?thesis
    using FindClusterByID_centrals [of cid w]
    by (simp add: UpdateDataPlaneClusterStatus_def case_prod_beta cluster_UpdateStatus_centrals split: sum.split option.split bool.split)
qed

lemma reads_only: "\<not> changes_tenants e \<Longrightarrow> centrals (apWorld (snd (serve_endpoint ad e req st))) = centrals (apWorld st)"
  by (cases e)
     (auto simp: changes_tenants_def on_world_state on_cloud_def case_prod_beta quiet_checks HandleGet_def central_Get_centrals list_action_centrals
       dinosaurHandler_Get_def dinosaurHandler_List_def GetMetricsByRangeQuery_def GetMetricsByInstantQuery_def FederateMetrics_def metrics_centrals
       metrics_action_centrals cloud_centrals clusterHandler_GetConfig_def clusterHandler_UpdateStatus_def cluster_status_centrals dataPlaneHandler_GetAll_def
       adminHandler_List_def adminHandler_Get_def GetDataPlaneClusterConfig_def FindClusterByID_centrals ListByClusterID_def find_centrals_world Let_def
       intro!: HandleDelete_quiet Handle_quiet split: sum.split option.split)

text \<open>The rows that a public deletion, a public creation and a report of an agent change.\<close>

lemma delete_rows:
  assumes wf: "wf_ids w" and r': "r' \<in> set (centrals (snd (dinosaurHandler_Delete ae r w)))" "r' \<notin> set (centrals w)"
    and ctx: "GetFilterByOrganisationFromContext (rqContext r)" "\<not> GetIsAdminFromContext (rqContext r)" "GetClaimsFromContext (rqContext r) = Inr c"
  shows "crOrganisationID r' = or_empty (GetOrgID c)"
proof -
  let ?get = "central_Get (rqContext r) (rqID r) w"
  obtain k w1 where g: "?get = (Inr k, w1)"
    using r' central_Get_centrals [of "rqContext r" "rqID r" w]
    by (auto simp: dinosaurHandler_Delete_def HandleDelete_def check_def split: option.splits sum.splits prod.splits)
  note k = central_Get_Inr [OF g]
  have "r' \<in> set (centrals (snd (RegisterDinosaurDeprovisionJob (aeEnv ae) (rqContext r) (rqID r) w1)))"
    using r' g k by (auto simp: dinosaurHandler_Delete_def HandleDelete_def check_def case_prod_beta split: option.splits)
  moreover have wf1: "wf_ids w1" using wf k by (simp add: wf_ids_def)
  ultimately obtain r0 where r0: "r0 \<in> set (centrals w)" "deprovision_rel (aeEnv ae) (rqContext r) (rqID r) r0 r'"
    using job.row_before k by metis
  have "r' \<noteq> r0" using r0(1) r'(2) by blast
  then have "crID r0 = rqID r" "crOrganisationID r' = crOrganisationID r0"
    using r0(2) unfolding deprovision_rel_def status_rel_def by (auto simp: assign_central_def status_update_def empty_central_def nz_defs)
  then show ?thesis using wf_ids_unique [OF wf r0(1), of k] k ctx by (auto simp: sees_def)
qed

lemma create_rows:
  assumes "aeEnv ae = fleet_env ams qm ev" "r' \<in> set (centrals (snd (dinosaurHandler_Create ae r body w)))" "r' \<notin> set (centrals w)"
    "GetClaimsFromContext (rqContext r) = Inr c"
  shows "crOrganisationID r' = or_empty (GetOrgID c)"
proof -
  have "centrals (snd (dinosaurHandler_Create ae r body w)) \<noteq> centrals w" using assms(2,3) by metis
  from create_changed [OF assms(1) this] obtain k where "centrals (snd (dinosaurHandler_Create ae r body w)) = centrals w @ [k]"
    "crOrganisationID k = or_empty (GetOrgID c)" using assms(4) by auto
  then show ?thesis using assms(2,3) by auto
qed

lemma report_rows:
  assumes "wf_ids w" "r' \<in> set (centrals (snd (UpdateDinosaurStatuses ev cid body w)))" "r' \<notin> set (centrals w)"
  shows "crClusterID r' = cid"
proof -
  obtain data where "r' \<in> set (centrals (snd (UpdateDataPlaneCentralService ev cid (ConvertDataPlaneDinosaurStatus data) w)))"
    using assms(2,3) by (cases body) (auto simp: UpdateDinosaurStatuses_def Handle_def HandleDelete_def case_prod_beta split: option.splits)
  from own_reports.row_before [OF assms(1) this] obtain r where "r \<in> set (centrals w)" "report_rel cid r r'" by blast
  then show ?thesis using assms(3) by (auto simp: report_rel_def tenancy_def)
qed

subsection \<open>Authorization of changes\<close>

text \<open>The route and the identifier that a request is matched with, and the claims of its token.\<close>

definition matched :: "api_deps \<Rightarrow> api_config \<Rightarrow> api_request \<Rightarrow> (endpoint \<times> string) option" where
  "matched ad cfg req = (case adAuthenticate ad req of
     Inl _ \<Rightarrow> None
   | Inr token \<Rightarrow> (case adMux ad (served [] [] (buildAPIBaseRouter cfg)) (with_context (fresh_context token) req) of
       MuxMatch r i \<Rightarrow> Some (srEndpoint r, i) | _ \<Rightarrow> None))"

definition token_claims :: "api_deps \<Rightarrow> api_request \<Rightarrow> claims option" where
  "token_claims ad req = (case adAuthenticate ad req of
     Inl _ \<Rightarrow> None
   | Inr token \<Rightarrow> (case GetClaimsFromContext (fresh_context token) of Inl _ \<Rightarrow> None | Inr c \<Rightarrow> Some c))"

lemma served_by:
  assumes mux: "\<And>rs q r i. adMux ad rs q = MuxMatch r i \<Longrightarrow> r \<in> set rs"
    and "\<not> untouched st (snd (ServeHTTP ad cfg req st)) \<or> \<not> refused (fst (ServeHTTP ad cfg req st)) \<and> matched ad cfg req \<noteq> None"
  obtains token e i req' st' more where "adAuthenticate ad req = Inr token" "matched ad cfg req = Some (e, i)"
    "admit_all (adAuth ad) (guards cfg e) ((with_context (fresh_context token) req)\<lparr>rqID := i\<rparr>) st = Some (req', st')" "untouched st st'"
    "fst (ServeHTTP ad cfg req st) = fst (serve_endpoint ad e req' st')"
    "untouched (snd (serve_endpoint ad e req' st')) (snd (ServeHTTP ad cfg req st))"
    "apAudit (snd (ServeHTTP ad cfg req st)) = apAudit (snd (serve_endpoint ad e req' st')) @ more"
proof -
  obtain token where t: "adAuthenticate ad req = Inr token"
    using assms(2) by (auto simp: ServeHTTP_def matched_def split: sum.splits)
  let ?q = "with_context (fresh_context token) req"
  obtain r i where r: "adMux ad (served [] [] (buildAPIBaseRouter cfg)) ?q = MuxMatch r i"
    using assms(2) t by (auto simp: ServeHTTP_def matched_def Let_def split: mux_match.splits)
  have s: "ServeHTTP ad cfg req st = apply_all (adAuth ad) (guards cfg (srEndpoint r)) (serve_endpoint ad (srEndpoint r)) (?q\<lparr>rqID := i\<rparr>) st"
    using t r route_guards [OF mux [OF r]] by (simp add: ServeHTTP_def Let_def)
  have m: "matched ad cfg req = Some (srEndpoint r, i)" using t r by (simp add: matched_def)
  obtain req' st' where a: "admit_all (adAuth ad) (guards cfg (srEndpoint r)) (?q\<lparr>rqID := i\<rparr>) st = Some (req', st')"
    using assms(2) chain.closed [of "adAuth ad" "guards cfg (srEndpoint r)" "?q\<lparr>rqID := i\<rparr>" st "serve_endpoint ad (srEndpoint r)"] unfolding s
    by (cases "admit_all (adAuth ad) (guards cfg (srEndpoint r)) (?q\<lparr>rqID := i\<rparr>) st") auto
  show thesis using that [OF t m a] chain.opened [OF a, of "serve_endpoint ad (srEndpoint r)"] unfolding s by blast
qed

text \<open>The three kinds of callers that may change tenants.\<close>

definition member_caller :: "auth_env \<Rightarrow> api_config \<Rightarrow> claims \<Rightarrow> bool" where
  "member_caller au cfg c \<longleftrightarrow> auVerifyIssuer au c (acTokenIssuerURL cfg) True \<and> or_empty (GetOrgID c) \<noteq> [] \<and>
     \<not> (alEnableDenyList (acAccessControl cfg) \<and> or_empty (GetUsername c) \<in> set (alDenyList (acAccessControl cfg)))"

definition agent_caller :: "auth_env \<Rightarrow> api_config \<Rightarrow> claims \<Rightarrow> bool" where
  "agent_caller au cfg c \<longleftrightarrow> auVerifyIssuer au c (acRedhatSSOIssuer cfg) True \<and> or_empty (GetOrgID c) \<in> set (fsAllowedOrgIDs (acFleetShard cfg))"

definition admin_caller :: "auth_env \<Rightarrow> api_config \<Rightarrow> string \<Rightarrow> claims \<Rightarrow> bool" where
  "admin_caller au cfg method c \<longleftrightarrow> auVerifyIssuer au c (acInternalSSOIssuer cfg) True \<and> holds_role au (raRolesConfig (acAdminRoles cfg)) method c"

lemma with_context_sel [simp]: "rqContext (with_context ctx req) = ctx"
  by (simp add: with_context_def)

text \<open>The caller of a request that reached its handler, by kind of endpoint.\<close>

lemma reached_public:
  assumes "adAuthenticate ad req = Inr token" "e \<in> {CentralsGet, CentralsDelete, CentralsList, CentralsCreate, MetricsRange, MetricsInstant}"
    "admit_all (adAuth ad) (guards cfg e) ((with_context (fresh_context token) req)\<lparr>rqID := i\<rparr>) st = Some (req', st')"
  obtains c where "token_claims ad req = Some c" "member_caller (adAuth ad) cfg c" "GetClaimsFromContext (rqContext req') = Inr c"
    "GetFilterByOrganisationFromContext (rqContext req')" "\<not> GetIsAdminFromContext (rqContext req')"
proof -
  obtain c where c: "GetClaimsFromContext (fresh_context token) = Inr c" "member_caller (adAuth ad) cfg c"
    "req' = with_context (SetFilterByOrganisationContext (fresh_context token) True) ((with_context (fresh_context token) req)\<lparr>rqID := i\<rparr>)"
    using reaches_public [OF assms(2,3)] by (auto simp: member_caller_def with_context_def)
  then show thesis
    using assms(1) by (intro that [of c]) (simp_all add: token_claims_def SetFilterByOrganisationContext_def GetFilterByOrganisationFromContext_def
        GetIsAdminFromContext_def GetClaimsFromContext_def fresh_context_def)
qed

lemma reached_agent:
  assumes "adAuthenticate ad req = Inr token" "e \<in> {ClusterConfigGet, ClusterStatusPut, CentralsStatusPut, ClusterCentralsGet}"
    "admit_all (adAuth ad) (guards cfg e) ((with_context (fresh_context token) req)\<lparr>rqID := i\<rparr>) st = Some (req', st')"
  obtains c where "token_claims ad req = Some c" "agent_caller (adAuth ad) cfg c" "rqID req' = i"
  using reaches_agent [OF assms(2,3)] assms(1) by (auto simp: agent_caller_def token_claims_def)

lemma reached_admin:
  assumes "adAuthenticate ad req = Inr token"
    "e \<in> {AdminDbDelete, AdminSetDefaultVersion, AdminGetDefaultVersion, AdminList, AdminGet, AdminDelete, AdminUpdate, AdminCreate}"
    "admit_all (adAuth ad) (guards cfg e) ((with_context (fresh_context token) req)\<lparr>rqID := i\<rparr>) st = Some (req', st')"
  obtains c where "token_claims ad req = Some c" "admin_caller (adAuth ad) cfg (arMethod req) c"
    "AuditRequest (or_empty (GetUsername c)) (arMethod req) (arRequestURI req) (arRemoteAddr req) \<in> set (apAudit st')"
    "apAudit (snd (serve_endpoint ad e req' st')) = apAudit st'"
proof -
  have "apAudit (snd (serve_endpoint ad e req' st')) = apAudit st'" using assms(2) by (auto simp: on_world_state case_prod_beta)
  then show thesis using reaches_admin [OF assms(2,3)] assms(1) that by (auto simp: admin_caller_def token_claims_def with_context_def)
qed

text \<open>C25: Who can change a tenant. Whatever request reaches the server, a row of the table of tenants that is new or changed
  afterwards belongs to the organisation of a caller with an accepted issuer, an organisation and no place on the deny
  list; or it is on the cluster named in the path of a request from an agent of an allowed organisation; or the
  caller is an administrator with a role for the method of the request, and the request is in the audit log. The router is
  assumed to match a request only with routes of its table.\<close>

theorem api_changes_authorized:
  assumes mux: "\<And>rs q r i. adMux ad rs q = MuxMatch r i \<Longrightarrow> r \<in> set rs"
    and env: "aeEnv (adApi ad) = fleet_env ams qm ev" and wf: "wf_ids (apWorld st)"
    and r': "r' \<in> set (centrals (apWorld (snd (ServeHTTP ad cfg req st))))" "r' \<notin> set (centrals (apWorld st))"
  shows "\<exists>c e i. token_claims ad req = Some c \<and> matched ad cfg req = Some (e, i) \<and>
    (e \<in> {CentralsCreate, CentralsDelete} \<and> member_caller (adAuth ad) cfg c \<and> crOrganisationID r' = or_empty (GetOrgID c) \<or>
     e = CentralsStatusPut \<and> agent_caller (adAuth ad) cfg c \<and> crClusterID r' = i \<or>
     e \<in> {AdminDbDelete, AdminDelete, AdminUpdate, AdminCreate} \<and> admin_caller (adAuth ad) cfg (arMethod req) c \<and>
       AuditRequest (or_empty (GetUsername c)) (arMethod req) (arRequestURI req) (arRemoteAddr req) \<in> set (apAudit (snd (ServeHTTP ad cfg req st))))"
proof -
  have nt: "\<not> untouched st (snd (ServeHTTP ad cfg req st))" using r' by (auto simp: untouched_def)
  obtain token e i req' st' more where t: "adAuthenticate ad req = Inr token" and m: "matched ad cfg req = Some (e, i)" and
    a: "admit_all (adAuth ad) (guards cfg e) ((with_context (fresh_context token) req)\<lparr>rqID := i\<rparr>) st = Some (req', st')" and u: "untouched st st'" and
    s: "untouched (snd (serve_endpoint ad e req' st')) (snd (ServeHTTP ad cfg req st))" and
    log: "apAudit (snd (ServeHTTP ad cfg req st)) = apAudit (snd (serve_endpoint ad e req' st')) @ more"
    by (rule served_by [where ad = ad and st = st and cfg = cfg and req = req, OF mux disjI1 [OF nt]])
  have w: "apWorld st' = apWorld st" "apWorld (snd (ServeHTTP ad cfg req st)) = apWorld (snd (serve_endpoint ad e req' st'))"
    using u s by (simp_all add: untouched_def)
  have e: "changes_tenants e" using reads_only [of e ad req' st'] r' w by metis
  consider (public) "e \<in> {CentralsCreate, CentralsDelete}" | (agent) "e = CentralsStatusPut" | (admin) "e \<in> {AdminDbDelete, AdminDelete, AdminUpdate, AdminCreate}"
    using e by (auto simp: changes_tenants_def)
  then show ?thesis
  proof cases
    case public
    then obtain c where c: "token_claims ad req = Some c" "member_caller (adAuth ad) cfg c" "GetClaimsFromContext (rqContext req') = Inr c"
      "GetFilterByOrganisationFromContext (rqContext req')" "\<not> GetIsAdminFromContext (rqContext req')"
      by (auto intro: reached_public [OF t _ a])
    then have "crOrganisationID r' = or_empty (GetOrgID c)"
      using public r' w delete_rows [OF wf, of r' "adApi ad" "http_request.truncate req'" c] create_rows [OF env, of r' "http_request.truncate req'"]
      by (auto simp: on_world_state http_request.truncate_def)
    then show ?thesis using public m c by blast
  next
    case agent
    then obtain c where c: "token_claims ad req = Some c" "agent_caller (adAuth ad) cfg c" "rqID req' = i"
      by (auto intro: reached_agent [OF t _ a])
    have "crClusterID r' = i" using report_rows [OF wf, of r' _ i] r' w agent c(3) by (auto simp: on_world_state)
    then show ?thesis using agent m c by blast
  next
    case admin
    then obtain c where "token_claims ad req = Some c" "admin_caller (adAuth ad) cfg (arMethod req) c"
      "AuditRequest (or_empty (GetUsername c)) (arMethod req) (arRequestURI req) (arRemoteAddr req) \<in> set (apAudit st')"
      "apAudit (snd (serve_endpoint ad e req' st')) = apAudit st'"
      by (auto intro: reached_admin [OF t _ a])
    then show ?thesis using admin m log by auto
  qed
qed

text \<open>A server for concrete requests: paths are matched segment by segment, the token is in the body.\<close>

definition sample_mux :: "served_route list \<Rightarrow> api_request \<Rightarrow> mux_match" where
  "sample_mux rs q =
     (let segments = split_on (CHR ''/'') in
      case List.find (\<lambda>r. srMethod r = arMethod q \<and> list_all2 (\<lambda>t s. t = s \<or> t = ''{id}'') (segments (srPath r)) (segments (arPath q))) rs of
        None \<Rightarrow> MuxNotFound
      | Some r \<Rightarrow> MuxMatch r (concat (map snd (filter (\<lambda>(t, _). t = ''{id}'') (zip (segments (srPath r)) (segments (arPath q)))))))"

lemma sample_mux_law: "sample_mux rs q = MuxMatch r i \<Longrightarrow> r \<in> set rs"
  by (auto simp: sample_mux_def Let_def find_Some_iff split: option.splits)

definition sample_auth :: auth_env where
  "sample_auth = \<lparr>auVerifyIssuer = (\<lambda>c i _. c ''iss'' = Some (CStr i)), auFold = (\<lambda>_ _. False), auTermsCache = (\<lambda>_ h u. map_of h u),
     auTermsRequired = (\<lambda>_ _. Inr False), auFormatAudit = (\<lambda>_. None), auBegin = (\<lambda>_. None)\<rparr>"

definition sample_token :: "string \<Rightarrow> string \<Rightarrow> string \<Rightarrow> claims" where
  "sample_token issuer user org = [''iss'' \<mapsto> CStr issuer, ''username'' \<mapsto> CStr user, ''org_id'' \<mapsto> CStr org,
     ''realm_access'' \<mapsto> CMap [(''roles'', CArr [CStr ''Fleet-Admin''])]]"

definition sample_deps :: api_deps where
  "sample_deps = \<lparr>adApi = sample_api, adAuth = sample_auth, adCodec = sample_codec,
     adPresenter = \<lparr>pmTLSCert = [], pmTLSKey = [], pmCentral = \<lparr>qdMemoryRequest = [], qdCPURequest = [], qdMemoryLimit = [], qdCPULimit = []\<rparr>,
       pmAnalyzer = \<lparr>qdMemoryRequest = [], qdCPURequest = [], qdMemoryLimit = [], qdCPULimit = []\<rparr>, pmScaling = empty_scaling,
       pmDb = \<lparr>qdMemoryRequest = [], qdCPURequest = [], qdMemoryLimit = [], qdCPULimit = []\<rparr>, pmDecodeCentral = (\<lambda>_. empty_resources),
       pmDecodeScanner = (\<lambda>_. empty_scanner), pmFormatTime = (\<lambda>_. [])\<rparr>,
     adCloud = \<lparr>ceFactory = (\<lambda>_. Inl (GoErr [])), ceOrder = (\<lambda>ts. ts), ceLower = (\<lambda>r. r), ceSupported = [], ceServiceCache = (\<lambda>_ _. None),
       ceHandlerCache = (\<lambda>_ h k. map_of h k)\<rparr>,
     adAMS = sample_ams, adMetrics = (\<lambda>_ _ _. Inr []), adObservability = \<lparr>obAccessToken = [], obChannel = [], obRepository = [], obTag = []\<rparr>,
     adSemver = sample_semver, adDecodeCentral = (\<lambda>_. Inr sample_payload), adDecodeAdminCentral = (\<lambda>_ _. Inr sample_payload),
     adDecodeUpdate = (\<lambda>_. Inr sample_update), adDecodeVersion = Inr, adDecodeStatuses = (\<lambda>_. Inr []), adDecodeClusterStatus = (\<lambda>_. Inl (GoErr [])),
     adDocument = (\<lambda>_. []), adAuthenticate = (\<lambda>q. Inr (Inr (Some (sample_token (arBody q) ''alice'' ''org1'')))), adMux = sample_mux\<rparr>"

definition sample_config :: api_config where
  "sample_config = \<lparr>acTokenIssuerURL = ''sso'', acAdditionalSSOIssuers = [''partner''], acRedhatSSOIssuer = ''redhat'', acInternalSSOIssuer = ''internal'',
     acEnableTermsAcceptance = True, acAccessControl = \<lparr>alEnableDenyList = True, alDenyList = [''mallory'']\<rparr>,
     acFleetShard = \<lparr>fsEnabled = True, fsAllowedOrgIDs = [''agents'']\<rparr>,
     acAdminRoles = \<lparr>raEnabled = True, raRolesConfig = [\<lparr>rlHTTPMethod = ''PATCH'', rlRoleNames = [''fleet-admin'']\<rparr>]\<rparr>\<rparr>"

definition sample_call :: "string \<Rightarrow> string \<Rightarrow> string \<Rightarrow> api_request" where
  "sample_call method path issuer = \<lparr>rqQuery = [(''async'', [''true''])], rqContext = fresh_context (Inr None), rqUserAgent = [], rqID = [],
     arMethod = method, arPath = path, arRequestURI = path, arRemoteAddr = [], arBody = issuer, arTime = 0\<rparr>"

definition sample_state :: api_state where
  "sample_state = \<lparr>apWorld = tenant_world, apVersions = \<lparr>vdVersions = [], vdQuery = None, vdCreate = None\<rparr>, apDefaults = sample_defaults,
     apCloud = [], apTerms = [], apAudit = []\<rparr>"

lemma map_eq_first: "map f xs = y # ys \<Longrightarrow> \<exists>x\<in>set xs. f x = y"
  by auto

lemma map_eq_mem: "map f xs = ys \<Longrightarrow> x \<in> set xs \<Longrightarrow> f x \<in> set ys"
  by auto

theorem api_changes_authorized_witness:
  "\<exists>r'\<in>set (centrals (apWorld (snd (ServeHTTP sample_deps sample_config (sample_call ''DELETE'' ''/api/rhacs/v1/centrals/tenant1'' ''sso'') sample_state)))).
     r' \<notin> set (centrals tenant_world) \<and> crOrganisationID r' = ''org1''"
proof -
  let ?req = "sample_call ''DELETE'' ''/api/rhacs/v1/centrals/tenant1'' ''sso''"
  let ?run = "ServeHTTP sample_deps sample_config ?req sample_state"
  have "map crStatus (centrals (apWorld (snd ?run))) = [CentralRequestStatusDeprovision, CentralRequestStatusAccepted]" by code_simp
  from map_eq_first [OF this] obtain r' where r': "r' \<in> set (centrals (apWorld (snd ?run)))" "crStatus r' = CentralRequestStatusDeprovision" by blast
  have "map crStatus (centrals tenant_world) = [CentralRequestStatusAccepted, CentralRequestStatusAccepted]" by code_simp
  from map_eq_mem [OF this, of r'] have "r' \<notin> set (centrals tenant_world)" using r'(2) by auto
  then have new: "r' \<notin> set (centrals (apWorld sample_state))" by (simp add: sample_state_def)
  have "aeEnv (adApi sample_deps) = fleet_env sample_ams sample_quota sample_env" "wf_ids (apWorld sample_state)"
    "adMux sample_deps = sample_mux" "apWorld sample_state = tenant_world"
    using tenant_world_ok by (simp_all add: sample_deps_def sample_api_def sample_state_def)
  then obtain c e i where c: "token_claims sample_deps ?req = Some c" "matched sample_deps sample_config ?req = Some (e, i)"
    "e \<in> {CentralsCreate, CentralsDelete} \<and> crOrganisationID r' = or_empty (GetOrgID c) \<or> e = CentralsStatusPut \<or> e \<in> {AdminDbDelete, AdminDelete, AdminUpdate, AdminCreate}"
    using api_changes_authorized [of sample_deps sample_ams sample_quota sample_env sample_state r' sample_config ?req] sample_mux_law r' new by auto
  moreover have "matched sample_deps sample_config ?req = Some (CentralsDelete, ''tenant1'')" by code_simp
  moreover have "map_option (\<lambda>c. or_empty (GetOrgID c)) (token_claims sample_deps ?req) = Some ''org1''" by code_simp
  ultimately show ?thesis using r' new by (auto simp: sample_state_def)
qed

end
