(* ===== verification/Api_Disclosure.thy ===== *)
theory Api_Disclosure
  imports Api_Correct
begin

text \<open>
  What the answers of the REST API tell about tenants, and which tokens are turned away: a tenant is named only
  to members of its organisation, to the agent of its cluster and to administrators, and the additional issuers of
  the configuration are never accepted.
\<close>

subsection \<open>The tenants that an answer names\<close>

fun names_tenant :: "api_body \<Rightarrow> string \<Rightarrow> bool" where
  "names_tenant (CentralBody p) n \<longleftrightarrow> pcId p = n"
| "names_tenant (CentralListBody l) n \<longleftrightarrow> n \<in> pcId ` set (ilItems l)"
| "names_tenant (AdminBody a) n \<longleftrightarrow> acId a = n"
| "names_tenant (AdminListBody l) n \<longleftrightarrow> n \<in> acId ` set (ilItems l)"
| "names_tenant (ManagedBody ms) n \<longleftrightarrow> n \<in> rcId ` set ms"
| "names_tenant (MetricsBody m) n \<longleftrightarrow> fst m = n"
| "names_tenant b n \<longleftrightarrow> False"

lemma HandleDelete_reply:
  assumes "fst (HandleDelete vs act s k w) = Some (Reply s' x)"
  obtains k' w1 where "run_validators vs k w = (Some (None, k'), w1)" "fst (act k' w1) = Some (Inr x)"
    "snd (HandleDelete vs act s k w) = snd (act k' w1)"
  using assms
  by (cases "run_validators vs k w") (auto simp: HandleDelete_def case_prod_beta split: option.splits sum.splits)

lemma set_page_of: "x \<in> set (page_of p n xs) \<Longrightarrow> x \<in> set xs"
  by (auto simp: page_of_def Let_def dest!: in_set_takeD in_set_dropD split: if_splits)

text \<open>A listing holds rows that the caller sees, as long as the database only reorders them.\<close>

lemma central_List_sees:
  assumes l: "fst (central_List rcap sm ord ctx la w) = Some (Inr (rs, meta))" and "\<And>cols xs. set (ord cols xs) \<subseteq> set xs" "r \<in> set rs"
  shows "r \<in> set (centrals w) \<and> sees ctx r"
proof -
  obtain c where c: "GetClaimsFromContext ctx = Inr c" using l by (cases "GetClaimsFromContext ctx") (simp_all add: central_List_def)
  obtain u V where V: "visible_to ctx c = Inr (u, V)" using l c by (cases "visible_to ctx c") (auto simp: central_List_def)
  obtain S where S: "search_condition rcap sm (laSearch la) = Some (Inr S)"
    using l c V by (auto simp: central_List_def split: option.splits sum.splits)
  let ?P = "\<lambda>r. V r \<and> S r"
  obtain cnt w1 where w1: "count_centrals ?P w = (cnt, w1)" by fastforce
  then have "centrals w1 = centrals w" using count_centrals_frame [of ?P w] by auto
  moreover obtain xs w2 where f: "find_centrals ?P w1 = (Inr xs, w2)" "\<exists>p n cols. rs = page_of p n (ord cols xs)"
    using l c V S w1 by (auto simp: central_List_def Let_def split: prod.splits sum.splits)
  ultimately have "set xs \<subseteq> {r \<in> set (centrals w). V r}" by (auto simp: find_centrals_unfold split: option.splits)
  moreover have "r \<in> set xs" using f(2) assms(2,3) set_page_of by (metis subsetD)
  ultimately show ?thesis using visible_to_sees [OF c V] by blast
qed

lemma metrics_sees:
  assumes "fst (metrics_action obs ranged present now q k w) = Some (Inr m)"
  shows "\<exists>r\<in>set (centrals w). crID r = fst m \<and> sees (rqContext q) r"
proof -
  obtain k w' where g: "central_Get (rqContext q) (rqID q) w = (Inr k, w')" "fst m = crID k"
    using assms by (cases "central_Get (rqContext q) (rqID q) w")
      (auto simp: metrics_action_def GetMetricsByDinosaurID_def case_prod_beta split: sum.splits prod.splits)
  then show ?thesis using central_Get_Inr [OF g(1)] by metis
qed

lemma list_action_sees:
  assumes "fst (list_action ae q kind present k w) = Some (Inr l)" "\<And>cols xs. set (aeOrder ae cols xs) \<subseteq> set xs" "x \<in> set (ilItems l)"
  shows "\<exists>r\<in>set (centrals w). x = present r \<and> sees (rqContext q) r"
proof -
  obtain rs meta where l: "fst (central_List (aeRcap ae) (aeSql ae) (aeOrder ae) (rqContext q) (NewListArguments (rqQuery q)) w) = Some (Inr (rs, meta))"
    "ilItems l = map present rs"
    using assms(1) by (auto simp: list_action_def Let_def split: option.splits sum.splits prod.splits)
  then show ?thesis using central_List_sees [OF l(1) assms(2)] assms(3) by auto
qed

lemma get_sees:
  assumes "fst (dinosaurHandler_Get q w) = Some (Reply s p)"
  shows "\<exists>r\<in>set (centrals w). crID r = pcId p \<and> sees (rqContext q) r"
proof -
  obtain k w' where g: "central_Get (rqContext q) (rqID q) w = (Inr k, w')" "pcId p = crID k"
    using assms by (cases "central_Get (rqContext q) (rqID q) w")
      (auto simp: dinosaurHandler_Get_def HandleGet_def HandleDelete_def PresentCentralRequest_def split: sum.splits)
  then show ?thesis using central_Get_Inr [OF g(1)] by metis
qed

lemma pcId_Present [simp]: "pcId (PresentCentralRequest k) = crID k"
  by (simp add: PresentCentralRequest_def)

lemma List_sees:
  assumes "fst (dinosaurHandler_List ae q w) = Some (Reply s l)" "\<And>cols xs. set (aeOrder ae cols xs) \<subseteq> set xs" "x \<in> set (ilItems l)"
  shows "\<exists>r\<in>set (centrals w). crID r = pcId x \<and> sees (rqContext q) r"
proof -
  have "fst (list_action ae q ''CentralRequestList'' PresentCentralRequest () w) = Some (Inr l)"
    using assms(1) by (auto simp: dinosaurHandler_List_def HandleGet_def elim: HandleDelete_reply)
  from list_action_sees [OF this assms(2,3)] show ?thesis by auto
qed

lemma checks_pass: "run_validators [check x, check y] k w = (Some (None, k'), w1) \<Longrightarrow> w1 = w"
  by (auto simp: check_def split: option.splits)

lemma metrics_reply:
  assumes "fst (GetMetricsByRangeQuery obs now q w) = Some (Reply s m) \<or> fst (GetMetricsByInstantQuery obs now q w) = Some (Reply s m)"
  shows "\<exists>r\<in>set (centrals w). crID r = fst m \<and> sees (rqContext q) r"
proof -
  have "fst (metrics_action obs True PresentMetricsByRangeQuery now q () w) = Some (Inr m) \<or>
      fst (metrics_action obs False PresentMetricsByInstantQuery now q () w) = Some (Inr m)"
    using assms
    by (auto simp: GetMetricsByRangeQuery_def GetMetricsByInstantQuery_def HandleGet_def elim!: HandleDelete_reply dest!: checks_pass simp del: run_validators.simps(2))
  then show ?thesis using metrics_sees by blast
qed

lemma rcId_Present [simp]: "rcId (PresentManagedCentral pm k) = crID k"
  by (simp add: PresentManagedCentral_def Let_def)

lemma GetAll_on_cluster:
  assumes "fst (dataPlaneHandler_GetAll pm cid w) = Some (Reply s ms)" "m \<in> set ms"
  shows "\<exists>r\<in>set (centrals w). crID r = rcId m \<and> crClusterID r = cid"
proof -
  have "ms = map (PresentManagedCentral pm) (filter (\<lambda>r. live r \<and> crClusterID r = cid \<and> List.member dinosaurManagedCRStatuses (crStatus r) \<and> crHost r \<noteq> []) (centrals w))"
    using assms(1) by (auto simp: dataPlaneHandler_GetAll_def HandleGet_def HandleDelete_def check_def ListByClusterID_def find_centrals_unfold
      split: sum.splits option.splits prod.splits)
  then obtain r where "r \<in> set (centrals w)" "crClusterID r = cid" "m = PresentManagedCentral pm r" using assms(2) by auto
  then show ?thesis by (metis rcId_Present)
qed

lemma register_action_grows:
  assumes "aeEnv ae = fleet_env ams qm ev" "fst (register_action ae k w) = Some (Inr p)"
  shows "centrals (snd (register_action ae k w)) \<noteq> centrals w"
proof -
  obtain k' w' where r: "RegisterDinosaurJob (fleet_env ams qm ev) k w = (Inr k', w')" "snd (register_action ae k w) = w'"
    using assms by (auto simp: register_action_def split: sum.splits prod.splits)
  from fleet.register_stored [OF r(1)] show ?thesis using r(2) by (metis append_self_conv list.distinct(1))
qed

lemma create_reply:
  assumes "aeEnv ae = fleet_env ams qm ev" "fst (dinosaurHandler_Create ae q body w) = Some (Reply s p)" "GetClaimsFromContext (rqContext q) = Inr c"
  shows "\<exists>r\<in>set (centrals (snd (dinosaurHandler_Create ae q body w))). crID r = pcId p \<and> crOrganisationID r = or_empty (GetOrgID c)"
proof -
  obtain b where b: "body = Inr b" using assms(2) by (cases body) (auto simp: dinosaurHandler_Create_def Handle_def)
  define vs where "vs = common_validators ae q b @ [check (validateCentralResourcesUnspecified b), check (validateScannerResourcesUnspecified b)]"
  let ?act = "\<lambda>k. register_action ae (if List.member (aeInternalUserAgents ae) (rqUserAgent q) then k\<lparr>crInternal := True\<rparr> else k)"
  have h: "dinosaurHandler_Create ae q body w = HandleDelete vs ?act StatusAccepted empty_central w"
    by (simp add: b vs_def dinosaurHandler_Create_def Handle_def)
  obtain k1 w1 where v: "run_validators vs empty_central w = (Some (None, k1), w1)" and act: "fst (?act k1 w1) = Some (Inr p)"
    "snd (dinosaurHandler_Create ae q body w) = snd (?act k1 w1)"
    using HandleDelete_reply [OF assms(2) [unfolded h]] unfolding h by blast
  have q: "list_all quiet vs" using common_quiet [OF assms(1)] by (simp add: vs_def quiet_checks)
  have "centrals (snd (run_validators vs empty_central w)) = centrals w" using run_quiet [OF q] by (simp add: quiet_def)
  then have "centrals w1 = centrals w" by (simp add: v)
  moreover have "centrals (snd (?act k1 w1)) \<noteq> centrals w1"
    by (rule register_action_grows [OF assms(1) act(1)])
  then have "centrals (snd (dinosaurHandler_Create ae q body w)) \<noteq> centrals w1" using act(2) by simp
  ultimately show ?thesis using create_changed [OF assms(1), of q body w] assms(2,3) by (auto simp: PresentCentralRequest_def)
qed

lemma naming_endpoints:
  assumes "fst (serve_endpoint ad e q st) = Answer s b" "names_tenant b n"
  shows "e \<in> {CentralsGet, CentralsList, CentralsCreate, MetricsRange, MetricsInstant, ClusterCentralsGet, AdminList, AdminGet, AdminUpdate, AdminCreate}"
  using assms
  by (cases e) (auto simp: on_world_state on_cloud_def render_def from_sum_def api_HandleError_def case_prod_beta split: option.splits response.splits sum.splits)

lemma on_world_reply:
  assumes "fst (on_world f rw st) = Answer s b" "names_tenant b n"
  obtains x where "fst rw = Some (Reply s x)" "b = f x"
proof (cases "fst rw")
  case None
  then show ?thesis using assms(1) by (simp add: on_world_state)
next
  case (Some y)
  then have y: "render f y = Answer s b" using assms(1) by (simp add: on_world_state)
  show ?thesis
  proof (cases y)
    case (Reply s' x)
    then show ?thesis using that [of x] Some y by (simp add: render_def)
  next
    case (ErrorReply e)
    then have "b = ErrorBody e" using y by (simp add: render_def api_HandleError_def)
    then show ?thesis using assms(2) by simp
  qed
qed

lemma public_answer:
  assumes e: "e \<in> {CentralsGet, CentralsList, CentralsCreate, MetricsRange, MetricsInstant}"
    and env: "aeEnv (adApi ad) = fleet_env ams qm ev" and ord: "\<And>cols xs. set (aeOrder (adApi ad) cols xs) \<subseteq> set xs"
    and ctx: "GetFilterByOrganisationFromContext (rqContext q)" "\<not> GetIsAdminFromContext (rqContext q)" "GetClaimsFromContext (rqContext q) = Inr c"
    and b: "fst (serve_endpoint ad e q st) = Answer s b" "names_tenant b n"
  shows "\<exists>r\<in>set (centrals (apWorld (snd (serve_endpoint ad e q st)))). crID r = n \<and> crOrganisationID r = or_empty (GetOrgID c)"
proof (cases "e = CentralsCreate")
  case True
  then obtain p where p: "fst (dinosaurHandler_Create (adApi ad) (http_request.truncate q) (adDecodeCentral ad (arBody q)) (apWorld st)) = Some (Reply s p)" "b = CentralBody p"
    using b by (auto elim: on_world_reply)
  show ?thesis using create_reply [OF env p(1)] ctx(3) b(2) p(2) True by (simp add: on_world_state http_request.truncate_def)
next
  case False
  have "\<exists>r\<in>set (centrals (apWorld st)). crID r = n \<and> sees (rqContext q) r"
  proof (cases "e = CentralsList")
    case True
    then obtain l where "fst (dinosaurHandler_List (adApi ad) (http_request.truncate q) (apWorld st)) = Some (Reply s l)" "b = CentralListBody l"
      using b by (auto elim: on_world_reply)
    then show ?thesis using List_sees [OF _ ord] b(2) by (fastforce simp: http_request.truncate_def)
  next
    case no_list: False
    show ?thesis
    proof (cases "e = CentralsGet")
      case True
      then show ?thesis using b by (auto elim!: on_world_reply dest!: get_sees simp: http_request.truncate_def)
    next
      case no_get: False
      then have "e = MetricsRange \<or> e = MetricsInstant" using e False no_list by blast
      then obtain m where "fst (GetMetricsByRangeQuery (adMetrics ad (arTime q)) (arTime q) (http_request.truncate q) (apWorld st)) = Some (Reply s m) \<or>
          fst (GetMetricsByInstantQuery (adMetrics ad (arTime q)) (arTime q) (http_request.truncate q) (apWorld st)) = Some (Reply s m)" "b = MetricsBody m"
        using b by (elim disjE) (auto elim: on_world_reply)
      then show ?thesis using metrics_reply b(2) by (fastforce simp: http_request.truncate_def)
    qed
  qed
  then obtain r where r: "r \<in> set (centrals (apWorld st))" "crID r = n" "sees (rqContext q) r" by blast
  moreover have "crOrganisationID r = or_empty (GetOrgID c)" using r(3) ctx by (auto simp: sees_def)
  moreover have "\<not> changes_tenants e" using e False by (auto simp: changes_tenants_def)
  ultimately show ?thesis using reads_only by metis
qed

subsection \<open>Disclosure\<close>

text \<open>C26: Who learns of a tenant. Whatever request reaches the server, an answer that names a tenant was sent to a
  member of the organisation of the tenant, with an accepted issuer and no place on the deny list; or to an agent of an allowed
  organisation that asked for the cluster the tenant is on; or to an administrator with a role for the method, and the request
  is in the audit log. The router is assumed to match a request only with routes of its table, the
  authenticator to refuse with an error, and the database to order the rows of a page without adding any.\<close>

theorem api_reads_authorized:
  assumes mux: "\<And>rs q r i. adMux ad rs q = MuxMatch r i \<Longrightarrow> r \<in> set rs" and auth: "\<And>a. adAuthenticate ad req = Inl a \<Longrightarrow> refused a"
    and env: "aeEnv (adApi ad) = fleet_env ams qm ev" and ord: "\<And>cols xs. set (aeOrder (adApi ad) cols xs) \<subseteq> set xs"
    and b: "fst (ServeHTTP ad cfg req st) = Answer s b" "names_tenant b n"
  shows "\<exists>c e i. token_claims ad req = Some c \<and> matched ad cfg req = Some (e, i) \<and>
    (e \<in> {CentralsGet, CentralsList, CentralsCreate, MetricsRange, MetricsInstant} \<and> member_caller (adAuth ad) cfg c \<and>
       (\<exists>r\<in>set (centrals (apWorld (snd (ServeHTTP ad cfg req st)))). crID r = n \<and> crOrganisationID r = or_empty (GetOrgID c)) \<or>
     e = ClusterCentralsGet \<and> agent_caller (adAuth ad) cfg c \<and>
       (\<exists>r\<in>set (centrals (apWorld (snd (ServeHTTP ad cfg req st)))). crID r = n \<and> crClusterID r = i) \<or>
     e \<in> {AdminList, AdminGet, AdminUpdate, AdminCreate} \<and> admin_caller (adAuth ad) cfg (arMethod req) c \<and>
       AuditRequest (or_empty (GetUsername c)) (arMethod req) (arRequestURI req) (arRemoteAddr req) \<in> set (apAudit (snd (ServeHTTP ad cfg req st))))"
proof -
  have nr: "\<not> refused (fst (ServeHTTP ad cfg req st))" using b by (auto simp: refused_def)
  have mt: "matched ad cfg req \<noteq> None"
    using b nr auth by (auto simp: matched_def ServeHTTP_def Let_def SendNotFound_def SendMethodNotAllowed_def split: sum.splits mux_match.splits)
  obtain token e i req' st' more where t: "adAuthenticate ad req = Inr token" and m: "matched ad cfg req = Some (e, i)" and
    a: "admit_all (adAuth ad) (guards cfg e) ((with_context (fresh_context token) req)\<lparr>rqID := i\<rparr>) st = Some (req', st')" and u: "untouched st st'" and
    f: "fst (ServeHTTP ad cfg req st) = fst (serve_endpoint ad e req' st')" and
    s: "untouched (snd (serve_endpoint ad e req' st')) (snd (ServeHTTP ad cfg req st))" and
    log: "apAudit (snd (ServeHTTP ad cfg req st)) = apAudit (snd (serve_endpoint ad e req' st')) @ more"
    by (rule served_by [where ad = ad and st = st and cfg = cfg and req = req, OF mux disjI2 [OF conjI [OF nr mt]]])
  have w: "apWorld (snd (ServeHTTP ad cfg req st)) = apWorld (snd (serve_endpoint ad e req' st'))" using s by (simp add: untouched_def)
  note b' = b(1) [unfolded f] b(2)
  note e = naming_endpoints [OF b']
  consider (public) "e \<in> {CentralsGet, CentralsList, CentralsCreate, MetricsRange, MetricsInstant}" | (agent) "e = ClusterCentralsGet"
    | (admin) "e \<in> {AdminList, AdminGet, AdminUpdate, AdminCreate}" using e by blast
  then show ?thesis
  proof cases
    case public
    then obtain c where c: "token_claims ad req = Some c" "member_caller (adAuth ad) cfg c" and ctx: "GetFilterByOrganisationFromContext (rqContext req')"
      "\<not> GetIsAdminFromContext (rqContext req')" "GetClaimsFromContext (rqContext req') = Inr c"
      by (auto intro: reached_public [OF t _ a])
    from public_answer [OF public env ord ctx b'] show ?thesis using public m c w by auto
  next
    case agent
    then obtain c where c: "token_claims ad req = Some c" "agent_caller (adAuth ad) cfg c" "rqID req' = i"
      by (auto intro: reached_agent [OF t _ a])
    obtain ms where "fst (dataPlaneHandler_GetAll (adPresenter ad) i (apWorld st')) = Some (Reply s ms)" "n \<in> rcId ` set ms"
      using b' agent c(3) by (auto elim: on_world_reply)
    then have "\<exists>r\<in>set (centrals (apWorld st')). crID r = n \<and> crClusterID r = i" using GetAll_on_cluster by blast
    then have "\<exists>r\<in>set (centrals (apWorld (snd (ServeHTTP ad cfg req st)))). crID r = n \<and> crClusterID r = i"
      using reads_only [of e ad req' st'] agent w by (simp add: changes_tenants_def)
    then show ?thesis using agent m c by blast
  next
    case admin
    then obtain c where "token_claims ad req = Some c" "admin_caller (adAuth ad) cfg (arMethod req) c"
      "AuditRequest (or_empty (GetUsername c)) (arMethod req) (arRequestURI req) (arRemoteAddr req) \<in> set (apAudit st')"
      "apAudit (snd (serve_endpoint ad e req' st')) = apAudit st'"
      by (auto intro: reached_admin [OF t _ a])
    then show ?thesis using admin m log by auto
  qed
qed

subsection \<open>Additional issuers\<close>

text \<open>C40: The additional issuers of the configuration are never accepted: \<^verbatim>\<open>GetURIs\<close> copies them into a slice of length 0, so a token
  that one of them issued, and not the main issuer, is answered with 401 on every public route of tenants, without any effect.\<close>

theorem additional_issuers_refused:
  assumes mux: "\<And>rs q r i. adMux ad rs q = MuxMatch r i \<Longrightarrow> r \<in> set rs" and "auBegin (adAuth ad) (arTime req) = None"
    and c: "token_claims ad req = Some c" "issuer \<in> set (acAdditionalSSOIssuers cfg)" "auVerifyIssuer (adAuth ad) c issuer True"
      "\<not> auVerifyIssuer (adAuth ad) c (acTokenIssuerURL cfg) True"
    and e: "matched ad cfg req = Some (e, i)" "e \<in> {CentralsGet, CentralsDelete, CentralsList, CentralsCreate, MetricsRange, MetricsInstant}"
  shows "ServeHTTP ad cfg req st = (api_HandleError (New ErrorUnauthenticated NoReason), st)"
proof -
  obtain token where t: "adAuthenticate ad req = Inr token" using c(1) by (auto simp: token_claims_def split: sum.splits)
  obtain r where r: "adMux ad (served [] [] (buildAPIBaseRouter cfg)) (with_context (fresh_context token) req) = MuxMatch r i" "srEndpoint r = e"
    using e(1) t by (auto simp: matched_def split: mux_match.splits)
  have "srMiddlewares r = guards cfg e" using route_guards [OF mux [OF r(1)]] r(2) by simp
  then show ?thesis using t r e(2) c(1,4) assms(2)
    by (auto simp: ServeHTTP_def Let_def apply_all_def transactionMiddleware_def requireIssuer_def RequireIssuer_def with_context_def token_claims_def
        split: sum.splits)
qed

subsection \<open>Concrete requests\<close>

theorem api_reads_authorized_witness:
  "\<exists>r\<in>set (centrals (apWorld (snd (ServeHTTP sample_deps sample_config (sample_call ''GET'' ''/api/rhacs/v1/centrals/tenant1'' ''sso'') sample_state)))).
     crID r = ''tenant1'' \<and> crOrganisationID r = ''org1''"
proof -
  let ?req = "sample_call ''GET'' ''/api/rhacs/v1/centrals/tenant1'' ''sso''"
  let ?run = "ServeHTTP sample_deps sample_config ?req sample_state"
  have "(case fst ?run of Answer s b \<Rightarrow> names_tenant b ''tenant1'' | _ \<Rightarrow> False)" by code_simp
  then obtain s b where b: "fst ?run = Answer s b" "names_tenant b ''tenant1''" by (cases "fst ?run") auto
  have env: "aeEnv (adApi sample_deps) = fleet_env sample_ams sample_quota sample_env" and ord: "set (aeOrder (adApi sample_deps) cols xs) \<subseteq> set xs" for cols xs
    by (simp_all add: sample_deps_def sample_api_def)
  have auth: "refused a" if "adAuthenticate sample_deps ?req = Inl a" for a using that by (simp add: sample_deps_def)
  have mux: "r \<in> set rs" if "adMux sample_deps rs q = MuxMatch r i" for rs q r i using that sample_mux_law by (simp add: sample_deps_def)
  have m: "matched sample_deps sample_config ?req = Some (CentralsGet, ''tenant1'')"
    "map_option (\<lambda>c. or_empty (GetOrgID c)) (token_claims sample_deps ?req) = Some ''org1''" by code_simp+
  from m(2) obtain c where c: "token_claims sample_deps ?req = Some c" "or_empty (GetOrgID c) = ''org1''"
    by (cases "token_claims sample_deps ?req") simp_all
  show ?thesis using api_reads_authorized [where ad = sample_deps and req = ?req, OF mux auth env ord b] by (simp add: m(1) c)
qed

theorem additional_issuers_refused_witness:
  "ServeHTTP sample_deps sample_config (sample_call ''GET'' ''/api/rhacs/v1/centrals/tenant1'' ''partner'') sample_state =
     (api_HandleError (New ErrorUnauthenticated NoReason), sample_state)"
proof -
  let ?req = "sample_call ''GET'' ''/api/rhacs/v1/centrals/tenant1'' ''partner''"
  have "matched sample_deps sample_config ?req = Some (CentralsGet, ''tenant1'')" by code_simp
  then show ?thesis
    using additional_issuers_refused [of sample_deps ?req "sample_token ''partner'' ''alice'' ''org1''" "''partner''" sample_config CentralsGet "''tenant1''" sample_state]
      sample_mux_law
    by (simp add: sample_deps_def sample_auth_def sample_config_def sample_token_def sample_call_def token_claims_def GetClaimsFromContext_def fresh_context_def)
qed

end
