(* ===== verification/Spec2Isabelle.thy ===== *)
theory Spec2Isabelle
  imports Query_Correct Fleet_Correct Leader_Correct Handlers_Correct Cluster_Config_Correct Shard_System
    Cloud_Correct Api_Disclosure
begin

text \<open>
  A verification library of the fleet manager of ACS (Advanced Cluster Security). The fleet manager is
  a REST service: users register tenants (``central requests''), which the service places on
  data-plane clusters, tracks through a life cycle in a database, and removes on request or when they
  expire; workers reconcile the rows with external systems and an agent on the clusters reports back.

  \<^bold>\<open>Parts and theories.\<close> All paths are under \<^verbatim>\<open>src/\<close>.

  \<^item> \<open>Go_Prelude\<close>, \<open>Go_Regexp\<close>, \<open>Go_UTF8\<close>: what the source uses of Go's standard library: strings,
    decimal numbers, regular expressions (a derivative matcher with its language), runes and UTF-8.
  \<^item> \<open>Query_Scanner\<close>, \<open>Query_State_Machine\<close>, \<open>Query_Parser\<close>: \<^verbatim>\<open>pkg/services/queryparser\<close>, the parser of the
    search argument of listings. \<open>Query_Grammar\<close> gives the language as a tree with a reference automaton
    and proves that the state machine built from the transition table simulates it; \<open>Query_Roundtrip\<close>
    prints trees; \<open>Query_Correct\<close> has the properties: exactly the sentences of the grammar are accepted,
    user text reaches the SQL condition only as bound values, printed queries parse back, token
    positions, absence of panics on ASCII, and two theorems of quoted values that show defects.
    The capacity that the runtime gives to a slice of runes is the parameter \<open>rcap\<close>.
  \<^item> \<open>Service_Errors\<close>: \<^verbatim>\<open>pkg/errors/errors.go\<close>, the codes and constructors of errors; errors are values
    (\<open>service_error\<close>), Go's \<^verbatim>\<open>error\<close> is \<open>go_error\<close>.
  \<^item> \<open>Central_Types\<close>, \<open>Cluster_Types\<close>: the rows of the two tables, the statuses and their order, the
    static configuration of clusters.
  \<^item> \<open>Fleet_World\<close>: the state. \<open>world\<close> has the two tables, the planned outcomes of the database
    statements to come (so that every statement of the source can fail) and the log of calls to
    external systems. \<open>World_Contracts\<close> has the interfaces of operations on the table of central
    requests as locales: \<open>central_update\<close> (rows change one by one, identifiers and deleted rows stay)
    and \<open>lifecycle_update\<close> (a tenant under deletion stays so and stays on its cluster, a tenant that enters
    \<open>deprovision\<close> is stamped, and only the tenants of a given set enter \<open>deleting\<close>).
  \<^item> \<open>Cluster_Service\<close>: \<^verbatim>\<open>services/clusters.go\<close> and the placement strategy. \<open>Auth_Context\<close>: the claims and
    flags of a request (\<^verbatim>\<open>pkg/auth\<close>). \<open>Central_Service\<close>: \<^verbatim>\<open>services/dinosaur.go\<close>, every operation.
    \<open>Quota_Service\<close>: the two quota services and their factory, with the locale \<open>quota_provider\<close>.
  \<^item> \<open>Central_Contracts\<close> interprets the locales for the operations of the central service;
    \<open>Central_Create\<close> and \<open>Central_Correct\<close> have the properties of the service.

  \<^item> \<open>Central_Managers\<close>: \<^verbatim>\<open>workers/dinosaurmgrs\<close>, the workers that move central requests through their life
    cycle. \<open>Data_Plane_Central\<close>: \<^verbatim>\<open>services/data_plane_dinosaur.go\<close>, the reports of the clusters.
    \<open>Fleet_Lifecycle\<close> proves the contract for all of them and puts all operations together as the step
    relations \<open>control_step\<close> and, with the reports, \<open>fleet_step\<close>; \<open>Data_Plane_Correct\<close> and \<open>Fleet_Correct\<close> have the properties: invariant and
    history of the table over any run, refinement of an abstract life cycle, what the deleting worker
    removes and in which order, and which tenants a report can touch.

  \<^item> \<open>Leader_Election\<close>: \<^verbatim>\<open>pkg/workers\<close>, the leases that let one instance of the fleet manager run each worker,
    and the start and stop of workers. The times of rounds and the outcomes of the statements are
    arguments. \<open>Leader_Correct\<close> has the locale \<open>lease_contract\<close> and the properties: at most one leader
    under stated timing, the overlap that breaks it, and that stopping returns.
  \<^item> \<open>Request_Validation\<close> (\<^verbatim>\<open>pkg/services/types.go\<close>, \<^verbatim>\<open>config/providers.go\<close>, both \<^verbatim>\<open>validation.go\<close>) and
    \<open>Central_Handlers\<close> (\<^verbatim>\<open>pkg/handlers/framework.go\<close>, \<^verbatim>\<open>handlers/dinosaur.go\<close>, \<^verbatim>\<open>handlers/admin_dinosaur.go\<close>,
    \<^verbatim>\<open>services/central_default_version.go\<close>): what a request passes before the service acts on it.
    \<open>Handlers_Correct\<close> proves what a creation stores, that the name check is exact, the bounds of
    listings, and that the default version cannot be set.

  \<^item> \<open>Version_Order\<close> (\<^verbatim>\<open>pkg/api/semverutil.go\<close> and the comparisons of \<^verbatim>\<open>pkg/api/cluster_types.go\<close>): the order of
    operator versions and the deep sort, equal to a reference sort. The library of semantic
    versions is a record of functions.
  \<^item> \<open>Cluster_Manager\<close>: \<^verbatim>\<open>workers/clusters_mgr.go\<close>, the worker over clusters with every processor of a round, and
    \<^verbatim>\<open>services/data_plane_cluster.go\<close>, the reports of agents on their cluster. \<open>Cluster_Contracts\<close> states what a
    handler of one cluster may change as the locale \<open>cluster_handler\<close> and interprets it for the handlers
    of the worker; \<open>Cluster_Correct\<close> shows that the table of clusters stays well-formed over any run and that
    automatic scaling spares tenants and regions; \<open>Cluster_Config_Correct\<close> that a manual configuration is
    applied. The builders of Kubernetes resources that nothing calls any more are left out.

  \<^item> \<open>Shard_Types\<close> and \<open>Shard_Reconciler\<close>: \<^verbatim>\<open>fleetshard/pkg/central\<close>, the agent on a data-plane cluster, and the
    description of a tenant it works on (\<^verbatim>\<open>presenters/managedcentral.go\<close>). \<open>Reconcile\<close> is written in the state
    monad of the library over \<open>shard\<close>: the reconciler's own memory, the cluster, the cached certificates and the
    log of the calls that change something. The Kubernetes client, the provider of databases, HTTP, the
    template engine, the generator of passwords and the hash are functions of \<open>sync_env\<close> on an
    abstract cluster, so that each call may fail or change anything. \<open>Shard_Contracts\<close> has the
    interfaces: \<open>step_relation\<close> (a relation that every step keeps), \<open>log_property\<close> (a property of the
    calls made) and \<open>tenant_calls\<close> (which calls a tenant's operations make). \<open>Shard_Correct\<close> shows that a
    reconciler stays within its tenant and that passwords change hands in order, \<open>Shard_Deletion\<close> that
    a reported deletion is complete, that deletions end, and that an unchanged tenant is left alone.
    What these rely on is stated as \<open>answers_by_key\<close>, \<open>chart_is_local\<close>, \<open>honest_cluster\<close> and
    \<open>prompt_cluster\<close>; \<open>Shard_Sample\<close> is a small cluster for which they hold.
  \<^item> \<open>Shard_Runtime\<close>: \<^verbatim>\<open>fleetshard/pkg/runtime/runtime.go\<close> and \<^verbatim>\<open>handlers/data_plane_dinosaur.go\<close>, the agent as a process
    (ticks, the registry of reconcilers on a heap, overlapping goroutines, reports) next to the fleet manager:
    \<open>agent_step\<close>. \<open>Shard_Locks\<close> treats the busy flag of a reconciler as a lock. \<open>Shard_System\<close> composes the agents of
    all clusters with the operations of the fleet manager (\<open>system_step\<close>) and shows that a tenant gets into
    \<open>deleting\<close> only after its deletion was asked for and its objects were found gone.

  \<^item> \<open>Admin_Update\<close>: the rest of \<^verbatim>\<open>handlers/admin_dinosaur.go\<close>, the specs of a row (\<^verbatim>\<open>dbapi/central_request_types.go\<close>,
    \<^verbatim>\<open>dbapi/central_spec.go\<close>) and the admin presenter. The default specs are package variables whose maps are shared, so
    they are a state (\<open>spec_defaults\<close>). \<open>Admin_Correct\<close>: what an update stores, and that the specs of one tenant
    become the defaults of the others.
  \<^item> \<open>Cloud_Providers\<close> (\<^verbatim>\<open>services/cloud_providers.go\<close>, \<^verbatim>\<open>handlers/cloud_providers.go\<close>) with the caches as histories of what was set.
    \<open>Cloud_Correct\<close>: a listing has exactly the regions that the cluster providers tell, and the cache of the handlers can be
    poisoned.
  \<^item> \<open>Api_Handlers\<close> (\<^verbatim>\<open>pkg/handlers/errors.go\<close>, \<^verbatim>\<open>handlers/cloud_accounts.go\<close>, \<^verbatim>\<open>handlers/metrics.go\<close>,
    \<^verbatim>\<open>handlers/data_plane_cluster.go\<close>), \<open>Api_Middleware\<close> (\<^verbatim>\<open>pkg/auth\<close>, \<^verbatim>\<open>pkg/acl\<close>, \<^verbatim>\<open>pkg/db/transaction_middleware.go\<close>) and
    \<open>Api_Router\<close> (\<^verbatim>\<open>routes/route_loader.go\<close>, \<^verbatim>\<open>pkg/server/api_server.go\<close>): the whole way of a request, \<open>ServeHTTP\<close>, from the token over the
    middlewares of its route to its handler. The matcher of routes, the authenticator of tokens and the check of
    an issuer are functions of the environment. \<open>Api_Correct\<close> has the contract of a middleware as the locale \<open>gate\<close>,
    closed under composition (\<open>gates\<close>), interpreted for every middleware and for the chain of every route; from it follows who
    can change a tenant. \<open>Api_Disclosure\<close>: who learns of a tenant, and that additional issuers are refused.

  \<^bold>\<open>Conventions.\<close> An operation takes the environment of its object (\<open>env\<close>: configuration, clients, the
  time and the next generated identifier), its arguments and the world, and returns its result with the
  world after it; \<open>Inl\<close> is an error, \<open>None\<close> in front of a result a panic. The
  arithmetic on numbers that a request supplies wraps as in Go (\<open>wrap_int64\<close> in the offset of a page,
  \<open>wrap_int32\<close> in the answer to a listing); counts of rows and configured capacities stay far below 64 bits
  and are unbounded. No recursion needs fuel.

  \<^bold>\<open>Not modelled.\<close> Metrics, logging, TLS, CORS and compression of the HTTP server, generated clients and the clients of external
  services (they are parameters: records of functions), the probe (a client that exercises the API), flags
  and configuration files. Concurrent
  requests are not interleaved within one operation: registration holds a mutex in the source.
\<close>

end
